(* ===== verification/Prelude.thy ===== *)
theory Prelude
  imports Main "HOL-Library.Char_ord" "HOL-Library.Code_Target_Nat"
begin

text \<open>
  What every component shares. The exceptions of the program as one datatype, results as a sum
  of an exception and a value, sequencing of results, the byte-string operations of Python that
  the sources use (\<open>split\<close>, \<open>split(sep, 1)\<close>, \<open>join\<close>, \<open>startswith\<close>, \<open>endswith\<close>, \<open>lstrip\<close>), the
  conversions between integers and their text, and the locale of a canonical codec, which the
  record and identity components instantiate.

  Bytes and ASCII text are both \<^typ>\<open>string\<close>, a list of 8-bit characters. Every text the modelled
  parsers accept is ASCII, so a decoded byte string is the same list.
\<close>

section \<open>Exceptions and results\<close>

datatype exn =
    TypeError string
  | ValueError string
  | KeyError string
  | RecordError string
  | PersistedIdentityError string
  | CsrProtocolError string
  | CsrRecoveryError string
  | InventoryError string
  | TreeManifestError string
  | ParserError string bool
  | ApplicationError string int
  | PathError string
  | ServiceTransactionError string
  | RecoveryRecordError string
  | AssertionError

type_synonym 'a result = "exn + 'a"

definition bindE :: "'e + 'a \<Rightarrow> ('a \<Rightarrow> 'e + 'b) \<Rightarrow> 'e + 'b" where
  "bindE m f = (case m of Inl e \<Rightarrow> Inl e | Inr x \<Rightarrow> f x)"

text \<open>\<open>if not ok: raise e\<close>.\<close>

definition requireE :: "bool \<Rightarrow> 'e \<Rightarrow> 'e + unit" where
  "requireE ok e = (if ok then Inr () else Inl e)"

text \<open>A loop whose body may raise: \<open>mapE\<close> collects the values, \<open>forE\<close> runs the checks only.\<close>

fun mapE :: "('a \<Rightarrow> 'e + 'b) \<Rightarrow> 'a list \<Rightarrow> 'e + 'b list" where
  "mapE f [] = Inr []"
| "mapE f (x # xs) = bindE (f x) (\<lambda>y. bindE (mapE f xs) (\<lambda>ys. Inr (y # ys)))"

fun forE :: "('a \<Rightarrow> 'e + unit) \<Rightarrow> 'a list \<Rightarrow> 'e + unit" where
  "forE f [] = Inr ()"
| "forE f (x # xs) = bindE (f x) (\<lambda>_. forE f xs)"

lemma bindE_Inr [simp]: "bindE (Inr x) f = f x"
  by (simp add: bindE_def)

lemma bindE_Inl [simp]: "bindE (Inl e) f = Inl e"
  by (simp add: bindE_def)

lemma requireE_True [simp]: "requireE True e = Inr ()"
  by (simp add: requireE_def)

lemma requireE_False [simp]: "requireE False e = Inl e"
  by (simp add: requireE_def)

named_theorems ok_iff "a result is a value exactly when every step before it is"

lemma bindE_ok [ok_iff]: "bindE m f = Inr y \<longleftrightarrow> (\<exists>x. m = Inr x \<and> f x = Inr y)"
  by (cases m) auto

lemma requireE_ok [ok_iff]: "requireE ok e = Inr u \<longleftrightarrow> ok"
  by (cases ok) auto

lemma forE_ok [ok_iff]: "forE f xs = Inr u \<longleftrightarrow> (\<forall>x \<in> set xs. f x = Inr ())"
  by (induction xs) (auto simp: bindE_ok)

lemma if_raise_ok [ok_iff]: "(if c then Inl e else m) = Inr y \<longleftrightarrow> \<not> c \<and> m = Inr y"
  by auto

lemma mapE_ok: "mapE f xs = Inr ys \<longleftrightarrow> list_all2 (\<lambda>x y. f x = Inr y) xs ys"
  by (induction xs arbitrary: ys) (auto simp: bindE_ok list_all2_Cons1)

lemma mapE_in: "mapE f xs = Inr ys \<Longrightarrow> x \<in> set xs \<Longrightarrow> \<exists>y \<in> set ys. f x = Inr y"
  by (induction xs arbitrary: ys) (auto simp: bindE_ok)

lemma mapE_from: "mapE f xs = Inr ys \<Longrightarrow> y \<in> set ys \<Longrightarrow> \<exists>x \<in> set xs. f x = Inr y"
  by (induction xs arbitrary: ys) (auto simp: bindE_ok)

lemma mapE_Inr_map: "(\<And>x. x \<in> set xs \<Longrightarrow> f x = Inr (g x)) \<Longrightarrow> mapE f xs = Inr (map g xs)"
  by (induction xs) auto

lemma bindE_cong [fundef_cong]:
  "m = m' \<Longrightarrow> (\<And>x. m' = Inr x \<Longrightarrow> f x = f' x) \<Longrightarrow> bindE m f = bindE m' f'"
  by (cases m') auto

subsection \<open>Which exceptions a result can be\<close>

definition raises_only :: "('e \<Rightarrow> bool) \<Rightarrow> 'e + 'a \<Rightarrow> bool" where
  "raises_only P m = (case m of Inl e \<Rightarrow> P e | Inr _ \<Rightarrow> True)"

named_theorems raises "rules that propagate \<open>raises_only\<close> through a program"

lemma raises_only_Inr [raises, simp]: "raises_only P (Inr x)"
  by (simp add: raises_only_def)

lemma raises_only_Inl [simp]: "raises_only P (Inl e) = P e"
  by (simp add: raises_only_def)

lemma raises_only_bindE [raises]:
  "raises_only P m \<Longrightarrow> (\<And>x. m = Inr x \<Longrightarrow> raises_only P (f x)) \<Longrightarrow> raises_only P (bindE m f)"
  by (cases m) auto

lemma raises_only_requireE [simp]: "raises_only P (requireE ok e) \<longleftrightarrow> ok \<or> P e"
  by (cases ok) auto

lemma raises_only_requireE_intro [raises]: "P e \<Longrightarrow> raises_only P (requireE ok e)"
  by simp

lemma raises_only_if [raises]:
  "(c \<Longrightarrow> raises_only P a) \<Longrightarrow> (\<not> c \<Longrightarrow> raises_only P b) \<Longrightarrow> raises_only P (if c then a else b)"
  by simp

lemma raises_only_forE [raises]:
  "(\<And>x. x \<in> set xs \<Longrightarrow> raises_only P (f x)) \<Longrightarrow> raises_only P (forE f xs)"
  by (induction xs) (auto intro!: raises_only_bindE)

lemma raises_only_mapE [raises]:
  "(\<And>x. x \<in> set xs \<Longrightarrow> raises_only P (f x)) \<Longrightarrow> raises_only P (mapE f xs)"
  by (induction xs) (auto intro!: raises_only_bindE)

lemma raises_onlyD: "raises_only P m \<Longrightarrow> m = Inl e \<Longrightarrow> P e"
  by simp

end
