(* ===== verification/Text.thy ===== *)
theory Text
  imports Prelude
begin

text \<open>
  The string operations of Python that the sources use, on lists of characters: \<open>split(sep)\<close>,
  \<open>split(sep, 1)\<close>, \<open>join\<close>, \<open>startswith\<close>, \<open>endswith\<close>, \<open>lstrip\<close>, \<open>strip\<close>,
  \<open>removesuffix\<close>, \<open>int(text, base)\<close>, \<open>str(n)\<close>, \<open>format(n, "o")\<close> and zero padding; with
  the round trips between them.
\<close>

section \<open>Characters\<close>

definition code :: "char \<Rightarrow> nat" where
  "code c = of_char c"

definition NL :: char where
  "NL = char_of (10 :: nat)"

definition is_digit :: "char \<Rightarrow> bool" where
  "is_digit c \<longleftrightarrow> 48 \<le> code c \<and> code c \<le> 57"

definition is_lower :: "char \<Rightarrow> bool" where
  "is_lower c \<longleftrightarrow> 97 \<le> code c \<and> code c \<le> 122"

definition is_upper :: "char \<Rightarrow> bool" where
  "is_upper c \<longleftrightarrow> 65 \<le> code c \<and> code c \<le> 90"

definition is_alnum :: "char \<Rightarrow> bool" where
  "is_alnum c \<longleftrightarrow> is_digit c \<or> is_lower c \<or> is_upper c"

definition is_hex :: "char \<Rightarrow> bool" where
  "is_hex c \<longleftrightarrow> is_digit c \<or> (97 \<le> code c \<and> code c \<le> 102)"

text \<open>\<open>0x20 <= byte <= 0x7E\<close>\<close>

definition is_print :: "char \<Rightarrow> bool" where
  "is_print c \<longleftrightarrow> 32 \<le> code c \<and> code c \<le> 126"

lemmas char_class_defs =
  code_def is_digit_def is_lower_def is_upper_def is_alnum_def is_hex_def is_print_def NL_def

lemma code_inj: "code c = code d \<Longrightarrow> c = d"
  by (simp add: code_def)

lemma hex_print: "is_hex c \<Longrightarrow> is_print c"
  by (auto simp: char_class_defs)

lemma digit_print: "is_digit c \<Longrightarrow> is_print c"
  by (auto simp: char_class_defs)

lemma alnum_print: "is_alnum c \<Longrightarrow> is_print c"
  by (auto simp: char_class_defs)

lemma NL_not_print [simp]: "\<not> is_print NL"
  by (simp add: char_class_defs)

lemma code_NL [simp]: "code NL = 10"
  by (simp add: code_def NL_def)

lemma NL_eq_iff: "NL = c \<longleftrightarrow> code c = 10"
  using code_inj [of NL c] by auto

section \<open>Splitting and joining\<close>

definition starts_with :: "'a list \<Rightarrow> 'a list \<Rightarrow> bool" where
  "starts_with p s \<longleftrightarrow> take (length p) s = p"

definition ends_with :: "'a list \<Rightarrow> 'a list \<Rightarrow> bool" where
  "ends_with p s \<longleftrightarrow> length p \<le> length s \<and> drop (length s - length p) s = p"

definition removesuffix :: "'a list \<Rightarrow> 'a list \<Rightarrow> 'a list" where
  "removesuffix p s = (if ends_with p s then take (length s - length p) s else s)"

definition lstrip :: "'a \<Rightarrow> 'a list \<Rightarrow> 'a list" where
  "lstrip c s = dropWhile (\<lambda>x. x = c) s"

definition strip :: "'a \<Rightarrow> 'a list \<Rightarrow> 'a list" where
  "strip c s = rev (lstrip c (rev (lstrip c s)))"

fun split_on :: "'a \<Rightarrow> 'a list \<Rightarrow> 'a list list" where
  "split_on c [] = [[]]"
| "split_on c (x # xs) =
     (if x = c then [] # split_on c xs
      else (x # hd (split_on c xs)) # tl (split_on c xs))"

fun join_on :: "'a list \<Rightarrow> 'a list list \<Rightarrow> 'a list" where
  "join_on c [] = []"
| "join_on c [w] = w"
| "join_on c (w # ws) = w @ c @ join_on c ws"

text \<open>\<open>s.split(sep, 1)\<close> where \<open>sep in s\<close>.\<close>

definition split_once :: "'a \<Rightarrow> 'a list \<Rightarrow> 'a list \<times> 'a list" where
  "split_once c s = (takeWhile (\<lambda>x. x \<noteq> c) s, tl (dropWhile (\<lambda>x. x \<noteq> c) s))"

lemma starts_with_iff: "starts_with p s \<longleftrightarrow> (\<exists>t. s = p @ t)"
  by (metis append_take_drop_id append_eq_conv_conj starts_with_def)

lemma starts_with_append [simp]: "starts_with p (p @ t)"
  by (simp add: starts_with_def)

lemma ends_with_iff: "ends_with p s \<longleftrightarrow> (\<exists>t. s = t @ p)"
proof
  assume "ends_with p s"
  then have "s = take (length s - length p) s @ p"
    by (metis append_take_drop_id ends_with_def)
  then show "\<exists>t. s = t @ p" by blast
qed (auto simp: ends_with_def)

lemma ends_with_append [simp]: "ends_with p (t @ p)"
  by (auto simp: ends_with_iff)

lemma removesuffix_append [simp]: "removesuffix p (t @ p) = t"
  by (simp add: removesuffix_def)

lemma split_on_not_Nil [simp]: "split_on c s \<noteq> []"
  by (cases s) auto

text \<open>The equation to compute with: one recursive call.\<close>

lemma split_on_code [code]:
  "split_on c [] = [[]]"
  "split_on c (x # xs) =
     (if x = c then [] # split_on c xs
      else (case split_on c xs of [] \<Rightarrow> [[x]] | w # ws \<Rightarrow> (x # w) # ws))"
  using split_on_not_Nil [of c xs] by (auto split: list.splits)

lemma split_on_Cons_eq: "hd (split_on c s) # tl (split_on c s) = split_on c s"
  by simp

lemma split_on_no_sep: "w \<in> set (split_on c s) \<Longrightarrow> c \<notin> set w"
proof (induction s arbitrary: w)
  case (Cons x xs)
  have "hd (split_on c xs) \<in> set (split_on c xs)" by simp
  moreover have "set (tl (split_on c xs)) \<subseteq> set (split_on c xs)"
    by (metis list.set_sel(2) split_on_not_Nil subsetI)
  ultimately show ?case using Cons by (auto split: if_splits)
qed simp

lemma split_on_single: "c \<notin> set s \<Longrightarrow> split_on c s = [s]"
  by (induction s) auto

lemma split_on_append: "c \<notin> set w \<Longrightarrow> split_on c (w @ c # s) = w # split_on c s"
  by (induction w) auto

lemma join_split: "join_on [c] (split_on c s) = s"
proof (induction s)
  case (Cons x xs)
  obtain w ws where ws: "split_on c xs = w # ws"
    by (cases "split_on c xs") auto
  with Cons show ?case by (cases ws) auto
qed simp

lemma split_join:
  "ws \<noteq> [] \<Longrightarrow> \<forall>w \<in> set ws. c \<notin> set w \<Longrightarrow> split_on c (join_on [c] ws) = ws"
  by (induction "[c]" ws rule: join_on.induct) (auto simp: split_on_single split_on_append)

lemma join_on_lines: "ws \<noteq> [] \<Longrightarrow> join_on [c] ws @ [c] = concat (map (\<lambda>w. w @ [c]) ws)"
  by (induction "[c]" ws rule: join_on.induct) auto

lemma split_once_append: "c \<notin> set k \<Longrightarrow> split_once c (k @ c # v) = (k, v)"
proof -
  assume "c \<notin> set k"
  then have k: "\<forall>x \<in> set k. x \<noteq> c" by auto
  then have "takeWhile (\<lambda>x. x \<noteq> c) (k @ c # v) = k"
    by (induction k) auto
  moreover from k have "dropWhile (\<lambda>x. x \<noteq> c) (k @ c # v) = c # v"
    by (induction k) auto
  ultimately show ?thesis by (simp add: split_once_def)
qed

lemma split_once_eq:
  assumes "c \<in> set s" and "split_once c s = (k, v)"
  shows "s = k @ c # v" and "c \<notin> set k"
proof -
  from assms(1) obtain k' v' where s: "s = k' @ c # v'" "c \<notin> set k'"
    by (meson split_list_first)
  then have "split_once c s = (k', v')" by (simp add: split_once_append)
  with assms(2) s show "s = k @ c # v" and "c \<notin> set k" by auto
qed

text \<open>A separator that occurs in neither prefix fixes where a text is cut.\<close>

lemma append_sep_unique:
  "c \<notin> set u \<Longrightarrow> c \<notin> set v \<Longrightarrow> u @ c # s = v @ c # t \<longleftrightarrow> u = v \<and> s = t"
  by (metis split_once_append prod.inject)

section \<open>Integers as text\<close>

definition digit_char :: "nat \<Rightarrow> char" where
  "digit_char d = char_of (48 + d)"

definition digit_val :: "char \<Rightarrow> nat" where
  "digit_val c = code c - 48"

text \<open>\<open>str(n)\<close> at base 10, \<open>format(n, "o")\<close> at base 8.\<close>

function nat_text :: "nat \<Rightarrow> nat \<Rightarrow> string" where
  "nat_text b n =
     (if b < 2 \<or> n < b then [digit_char n] else nat_text b (n div b) @ [digit_char (n mod b)])"
  by pat_completeness auto
termination
  by (relation "measure snd") auto

declare nat_text.simps [simp del]

text \<open>\<open>int(text, b)\<close> on digits.\<close>

definition text_nat :: "nat \<Rightarrow> string \<Rightarrow> nat" where
  "text_nat b s = foldl (\<lambda>a c. a * b + digit_val c) 0 s"

definition zero_pad :: "nat \<Rightarrow> string \<Rightarrow> string" where
  "zero_pad w s = replicate (w - length s) (CHR ''0'') @ s"

text \<open>
  CPython refuses to convert between \<open>int\<close> and decimal text beyond 4300 digits
  (\<open>sys.get_int_max_str_digits\<close>, the default of the supported interpreter), with a plain
  \<open>ValueError\<close>. Power-of-two bases have no limit.
\<close>

definition int_max_str_digits :: nat where
  "int_max_str_digits = 4300"

definition int_limit_error :: exn where
  "int_limit_error = ValueError ''Exceeds the limit (4300 digits) for integer string conversion''"

text \<open>\<open>int(s)\<close> where \<open>s\<close> matched a pattern of decimal digits.\<close>

definition int_of_digits :: "string \<Rightarrow> int result" where
  "int_of_digits s =
     (if int_max_str_digits < length s then Inl int_limit_error else Inr (int (text_nat 10 s)))"

text \<open>\<open>str(n)\<close>.\<close>

definition str_of_int :: "int \<Rightarrow> string result" where
  "str_of_int n =
     (let s = nat_text 10 (nat \<bar>n\<bar>)
      in if int_max_str_digits < length s then Inl int_limit_error
         else Inr (if n < 0 then CHR ''-'' # s else s))"

lemma digit_val_digit_char [simp]: "d < 10 \<Longrightarrow> digit_val (digit_char d) = d"
  by (simp add: digit_val_def digit_char_def code_def)

lemma is_digit_digit_char [simp]: "d < 10 \<Longrightarrow> is_digit (digit_char d)"
  by (simp add: is_digit_def digit_char_def code_def)

lemma digit_char_digit_val [simp]: "is_digit c \<Longrightarrow> digit_char (digit_val c) = c"
  by (auto simp: digit_val_def digit_char_def is_digit_def code_def)

lemma digit_val_less: "is_digit c \<Longrightarrow> digit_val c < 10"
  by (auto simp: digit_val_def is_digit_def)

lemma text_nat_Nil [simp]: "text_nat b [] = 0"
  by (simp add: text_nat_def)

lemma text_nat_snoc [simp]: "text_nat b (s @ [c]) = text_nat b s * b + digit_val c"
  by (simp add: text_nat_def)

lemma text_nat_single [simp]: "text_nat b [c] = digit_val c"
  by (simp add: text_nat_def)

lemma nat_text_small: "n < b \<Longrightarrow> nat_text b n = [digit_char n]"
  by (simp add: nat_text.simps)

lemma nat_text_step:
  "2 \<le> b \<Longrightarrow> b \<le> n \<Longrightarrow> nat_text b n = nat_text b (n div b) @ [digit_char (n mod b)]"
  by (subst nat_text.simps) auto

lemma nat_text_not_Nil [simp]: "nat_text b n \<noteq> []"
  by (subst nat_text.simps) simp

text \<open>Induction over the digits of a number, last digit last.\<close>

lemma digits_induct [consumes 1, case_names small step]:
  assumes "2 \<le> b" and "\<And>n. n < b \<Longrightarrow> P n" and "\<And>n. b \<le> n \<Longrightarrow> P (n div b) \<Longrightarrow> P n"
  shows "P (n :: nat)"
proof (induction n rule: less_induct)
  case (less n)
  show ?case
  proof (cases "n < b")
    case False
    with assms(1) have "n div b < n" by auto
    with False less assms(3) show ?thesis by simp
  qed (rule assms(2))
qed

lemma text_nat_nat_text:
  assumes "2 \<le> b" and "b \<le> 10"
  shows "text_nat b (nat_text b n) = n"
  using assms(1)
proof (induction n rule: digits_induct)
  case (step n)
  have "n mod b < 10" using assms by (meson less_le_trans mod_less_divisor zero_less_numeral)
  with step assms show ?case by (simp add: nat_text_step)
qed (use assms in \<open>auto simp: nat_text_small\<close>)

lemma nat_text_digits:
  assumes "2 \<le> b" and "b \<le> 10"
  shows "\<forall>c \<in> set (nat_text b n). is_digit c \<and> digit_val c < b"
  using assms(1)
proof (induction n rule: digits_induct)
  case (step n)
  have "n mod b < b" using assms by (intro mod_less_divisor) simp
  moreover from this assms(2) have "n mod b < 10" by (rule less_le_trans)
  ultimately show ?case using step assms by (simp add: nat_text_step)
qed (use assms in \<open>auto simp: nat_text_small\<close>)

text \<open>
  The canonical numerals of a base: \<open>0\<close>, or digits without a leading zero. They are exactly the
  texts of numbers, so reading and writing are inverse on them.
\<close>

definition canonical_digits :: "nat \<Rightarrow> string \<Rightarrow> bool" where
  "canonical_digits b s \<longleftrightarrow>
     s \<noteq> [] \<and> (\<forall>c \<in> set s. is_digit c \<and> digit_val c < b) \<and> (hd s = CHR ''0'' \<longrightarrow> s = ''0'')"

lemma char_of_48 [simp]: "char_of (48 :: nat) = CHR ''0''"
  by (simp add: char_of_eq_iff)

lemma digit_val_eq_0: "is_digit c \<Longrightarrow> digit_val c = 0 \<longleftrightarrow> c = CHR ''0''"
proof
  assume "is_digit c" "digit_val c = 0"
  then have "c = digit_char 0" by (metis digit_char_digit_val)
  then show "c = CHR ''0''" by (simp add: digit_char_def)
qed (simp add: digit_val_def code_def)

lemma text_nat_pos:
  assumes "2 \<le> b" and "s \<noteq> []" and "is_digit (hd s)" and "hd s \<noteq> CHR ''0''"
  shows "0 < text_nat b s"
  using assms(2-4)
proof (induction s rule: rev_induct)
  case (snoc c s)
  show ?case
  proof (cases "s = []")
    case True
    with snoc digit_val_eq_0 show ?thesis by (simp add: gr0_conv_Suc) (metis gr0_conv_Suc not_gr0)
  next
    case False
    with snoc assms(1) show ?thesis by simp
  qed
qed simp

lemma nat_text_text_nat:
  assumes "2 \<le> b" and "canonical_digits b s"
  shows "nat_text b (text_nat b s) = s"
  using assms(2)
proof (induction s rule: rev_induct)
  case Nil
  then show ?case by (simp add: canonical_digits_def)
next
  case (snoc c s)
  then have c: "is_digit c" "digit_val c < b" by (auto simp: canonical_digits_def)
  show ?case
  proof (cases "s = []")
    case True
    with c show ?thesis by (simp add: nat_text_small)
  next
    case False
    with snoc.prems have s: "canonical_digits b s" and h: "hd s \<noteq> CHR ''0''" "is_digit (hd s)"
      by (auto simp: canonical_digits_def)
    have "0 < text_nat b s" by (rule text_nat_pos [OF assms(1) False h(2,1)])
    then have "b \<le> text_nat b s * b + digit_val c" by (simp add: trans_le_add1)
    with c snoc.IH [OF s] show ?thesis
      by (simp add: nat_text_step [OF assms(1)])
  qed
qed

lemma hd_nat_text:
  assumes "2 \<le> b" and "b \<le> 10" and "0 < n"
  shows "hd (nat_text b n) \<noteq> CHR ''0''"
  using assms(1,3)
proof (induction n rule: digits_induct)
  case (small n)
  then have "is_digit (digit_char n)" and "digit_val (digit_char n) = n"
    using assms(2) by auto
  with small digit_val_eq_0 [of "digit_char n"] show ?case by (simp add: nat_text_small)
next
  case (step n)
  then have "0 < n div b" using assms(1) by (simp add: div_greater_zero_iff)
  with step assms show ?case by (simp add: nat_text_step)
qed

lemma nat_text_0 [simp]: "2 \<le> b \<Longrightarrow> nat_text b 0 = ''0''"
  by (simp add: nat_text_small digit_char_def)

lemma canonical_nat_text: "2 \<le> b \<Longrightarrow> b \<le> 10 \<Longrightarrow> canonical_digits b (nat_text b n)"
  using nat_text_digits [of b n] hd_nat_text [of b n]
  by (cases "n = 0") (auto simp: canonical_digits_def digit_val_def code_def)

lemma nat_text_inj: "2 \<le> b \<Longrightarrow> b \<le> 10 \<Longrightarrow> nat_text b m = nat_text b n \<longleftrightarrow> m = n"
  by (metis text_nat_nat_text)

lemma text_nat_less: "\<forall>c \<in> set s. is_digit c \<Longrightarrow> text_nat 10 s < 10 ^ length s"
proof (induction s rule: rev_induct)
  case (snoc c s)
  then have "digit_val c < 10" by (auto intro: digit_val_less)
  with snoc show ?case by simp
qed simp

lemma length_nat_text: "n < b ^ Suc k \<Longrightarrow> 2 \<le> b \<Longrightarrow> length (nat_text b n) \<le> Suc k"
proof (induction k arbitrary: n)
  case 0
  then show ?case by (simp add: nat_text_small)
next
  case (Suc k)
  show ?case
  proof (cases "n < b")
    case False
    from Suc.prems have "n div b < b ^ Suc k" by (simp add: less_mult_imp_div_less mult.commute)
    with Suc False show ?thesis by (simp add: nat_text_step)
  qed (simp add: nat_text_small)
qed

lemma text_nat_zeros: "text_nat b (replicate k (CHR ''0'') @ s) = text_nat b s"
proof (induction s rule: rev_induct)
  case Nil
  have "text_nat b (replicate k (CHR ''0'')) = 0"
    by (induction k) (simp_all add: replicate_append_same [symmetric] digit_val_def code_def)
  then show ?case by simp
next
  case (snoc c s)
  then show ?case by (simp flip: append_assoc)
qed

lemma text_nat_zero_pad [simp]: "text_nat b (zero_pad w s) = text_nat b s"
  by (simp add: zero_pad_def text_nat_zeros)

lemma length_zero_pad [simp]: "length s \<le> w \<Longrightarrow> length (zero_pad w s) = w"
  by (simp add: zero_pad_def)

lemma zero_pad_digits: "\<forall>c \<in> set s. is_digit c \<Longrightarrow> \<forall>c \<in> set (zero_pad w s). is_digit c"
  by (auto simp: zero_pad_def is_digit_def code_def)

lemma int_of_digits_short: "length s \<le> 4300 \<Longrightarrow> int_of_digits s = Inr (int (text_nat 10 s))"
  by (simp add: int_of_digits_def int_max_str_digits_def)

lemma raises_int_of_digits:
  "raises_only (\<lambda>e. e = int_limit_error) (int_of_digits s)"
  by (simp add: int_of_digits_def)

end
