(* ===== verification/Regex.thy ===== *)
theory Regex
  imports Text
begin

text \<open>
  The subset of Python's \<open>re\<close> module that the sources use: character classes, sequence,
  alternation, greedy repetition, counted repetition and groups, with \<open>fullmatch\<close>. The matcher
  returns the list of its successes in the order in which Python's backtracking engine tries
  them, so that the groups of a match are the ones Python reports: those of the first success
  that reaches the end of the text. \<open>lang\<close> is the reference semantics, and \<open>fullmatch_lang\<close>
  shows that \<open>fullmatch\<close> decides it.
\<close>

section \<open>Patterns and the matcher\<close>

datatype 'a rx =
    Eps
  | Cls "'a \<Rightarrow> bool"
  | Cat "'a rx" "'a rx"
  | Or "'a rx" "'a rx"
  | Star "'a rx"
  | Grp "'a rx"

type_synonym 'a success = "'a list list \<times> 'a list"

definition then_groups :: "'a list list \<Rightarrow> 'a success list \<Rightarrow> 'a success list" where
  "then_groups g hs = map (\<lambda>(h, u). (g @ h, u)) hs"

fun rmatch :: "'a rx \<Rightarrow> 'a list \<Rightarrow> 'a success list" where
  "rmatch Eps s = [([], s)]"
| "rmatch (Cls P) s = (case s of [] \<Rightarrow> [] | c # t \<Rightarrow> if P c then [([], t)] else [])"
| "rmatch (Cat a b) s = concat (map (\<lambda>(g, t). then_groups g (rmatch b t)) (rmatch a s))"
| "rmatch (Or a b) s = rmatch a s @ rmatch b s"
| "rmatch (Star a) s =
     concat (map (\<lambda>(g, t). then_groups g (rmatch (Star a) t))
       (filter (\<lambda>(g, t). length t < length s) (rmatch a s))) @ [([], s)]"
| "rmatch (Grp a) s = map (\<lambda>(g, t). (take (length s - length t) s # g, t)) (rmatch a s)"

declare rmatch.simps(5) [simp del]

definition match_groups :: "'a rx \<Rightarrow> 'a list \<Rightarrow> 'a list list option" where
  "match_groups r s =
     (case filter (\<lambda>(g, t). t = []) (rmatch r s) of [] \<Rightarrow> None | (g, t) # _ \<Rightarrow> Some g)"

definition fullmatch :: "'a rx \<Rightarrow> 'a list \<Rightarrow> bool" where
  "fullmatch r s \<longleftrightarrow> match_groups r s \<noteq> None"

text \<open>Derived pattern forms: a literal, \<open>r+\<close>, \<open>r?\<close>, \<open>r{n}\<close>, \<open>r{0,n}\<close>.\<close>

definition Lit :: "'a list \<Rightarrow> 'a rx" where
  "Lit w = foldr (\<lambda>c. Cat (Cls (\<lambda>x. x = c))) w Eps"

definition Plus :: "'a rx \<Rightarrow> 'a rx" where
  "Plus r = Cat r (Star r)"

definition Opt :: "'a rx \<Rightarrow> 'a rx" where
  "Opt r = Or r Eps"

primrec Times :: "'a rx \<Rightarrow> nat \<Rightarrow> 'a rx" where
  "Times r 0 = Eps"
| "Times r (Suc n) = Cat r (Times r n)"

primrec UpTo :: "'a rx \<Rightarrow> nat \<Rightarrow> 'a rx" where
  "UpTo r 0 = Eps"
| "UpTo r (Suc n) = Opt (Cat r (UpTo r n))"

fun Alts :: "'a rx list \<Rightarrow> 'a rx" where
  "Alts [] = Cls (\<lambda>_. False)"
| "Alts [r] = r"
| "Alts (r # rs) = Or r (Alts rs)"

fun Seqs :: "'a rx list \<Rightarrow> 'a rx" where
  "Seqs [] = Eps"
| "Seqs [r] = r"
| "Seqs (r # rs) = Cat r (Seqs rs)"

section \<open>Reference semantics\<close>

text \<open>
  \<open>caps r u gs\<close>: the text \<open>u\<close> belongs to the pattern, with the groups \<open>gs\<close>.
\<close>

inductive caps :: "'a rx \<Rightarrow> 'a list \<Rightarrow> 'a list list \<Rightarrow> bool" where
  eps: "caps Eps [] []"
| cls: "P c \<Longrightarrow> caps (Cls P) [c] []"
| cat: "caps a u g \<Longrightarrow> caps b v h \<Longrightarrow> caps (Cat a b) (u @ v) (g @ h)"
| or_left: "caps a u g \<Longrightarrow> caps (Or a b) u g"
| or_right: "caps b u g \<Longrightarrow> caps (Or a b) u g"
| star_nil: "caps (Star a) [] []"
| star_step: "caps a u g \<Longrightarrow> u \<noteq> [] \<Longrightarrow> caps (Star a) v h \<Longrightarrow> caps (Star a) (u @ v) (g @ h)"
| grp: "caps a u g \<Longrightarrow> caps (Grp a) u (u # g)"

inductive_simps caps_Eps [simp]: "caps Eps u g"
inductive_simps caps_Cls [simp]: "caps (Cls P) u g"
inductive_simps caps_Cat: "caps (Cat a b) u g"
inductive_simps caps_Or [simp]: "caps (Or a b) u g"
inductive_simps caps_Grp: "caps (Grp a) u g"
inductive_cases caps_StarE: "caps (Star a) u g"

definition lang :: "'a rx \<Rightarrow> 'a list set" where
  "lang r = {u. \<exists>g. caps r u g}"

lemma rmatch_sound: "(g, t) \<in> set (rmatch r s) \<Longrightarrow> \<exists>u. s = u @ t \<and> caps r u g"
proof (induction r s arbitrary: g t rule: rmatch.induct)
  case (3 a b s)
  then obtain g1 t1 g2 where 1: "(g1, t1) \<in> set (rmatch a s)" "(g2, t) \<in> set (rmatch b t1)"
    and g: "g = g1 @ g2" by (auto simp: then_groups_def)
  with 3 obtain u v where "s = u @ t1" "caps a u g1" "t1 = v @ t" "caps b v g2" by blast
  with g show ?case by (auto intro!: exI [of _ "u @ v"] caps.cat)
next
  case (5 a s)
  show ?case
  proof (cases "(g, t) = ([], s)")
    case False
    with 5 obtain g1 t1 g2 where 1: "(g1, t1) \<in> set (rmatch a s)" "length t1 < length s"
      and 2: "(g2, t) \<in> set (rmatch (Star a) t1)" and g: "g = g1 @ g2"
      by (auto simp: then_groups_def rmatch.simps(5) [of a s])
    from 5(1) [OF 1(1)] obtain u where u: "s = u @ t1" "caps a u g1" by blast
    from 5(2) [of "(g1, t1)" g1 t1 g2 t] 1 2 obtain v where "t1 = v @ t" "caps (Star a) v g2"
      by auto
    with g u 1 show ?thesis by (auto intro!: exI [of _ "u @ v"] caps.star_step)
  qed (auto intro: caps.star_nil)
next
  case (4 a b s)
  then show ?case by (fastforce simp del: caps_Or intro: caps.or_left caps.or_right)
next
  case (6 a s)
  then obtain g' where g: "g = take (length s - length t) s # g'" "(g', t) \<in> set (rmatch a s)"
    by auto
  with 6 obtain u where "s = u @ t" "caps a u g'" by blast
  with g show ?case by (auto intro: caps.grp)
qed (auto split: list.splits if_splits intro: caps.intros)

lemma rmatch_complete: "caps r u g \<Longrightarrow> (g, t) \<in> set (rmatch r (u @ t))"
proof (induction arbitrary: t rule: caps.induct)
  case (cat a u g b v h)
  from cat.IH(1) [of "v @ t"] cat.IH(2) [of t] show ?case
    by (force simp: then_groups_def)
next
  case (star_step a u g v h)
  from star_step.IH(1) [of "v @ t"] star_step.IH(2) [of t] star_step.hyps(2) show ?case
    by (force simp: then_groups_def rmatch.simps(5) [of a "u @ v @ t"])
next
  case (star_nil a)
  show ?case by (simp add: rmatch.simps(5) [of a t])
next
  case (grp a u g)
  then show ?case by force
qed auto

lemma fullmatch_lang: "fullmatch r s \<longleftrightarrow> s \<in> lang r"
proof -
  have "fullmatch r s \<longleftrightarrow> (\<exists>g. (g, []) \<in> set (rmatch r s))"
    unfolding fullmatch_def match_groups_def
    by (cases "filter (\<lambda>(g, t). t = []) (rmatch r s)")
      (auto simp: filter_empty_conv filter_eq_Cons_iff)
  also have "\<dots> \<longleftrightarrow> s \<in> lang r"
    using rmatch_sound [of _ "[]" r s] rmatch_complete [of r s _ "[]"] by (auto simp: lang_def)
  finally show ?thesis .
qed

text \<open>Where the groups of a text are unique, they are the ones the matcher reports.\<close>

lemma match_groups_caps: "match_groups r s = Some gs \<Longrightarrow> caps r s gs"
  using rmatch_sound [of gs "[]" r s]
  by (auto simp: match_groups_def filter_eq_Cons_iff split: list.splits)

lemma match_groups_eq:
  assumes "caps r s gs" and "\<And>hs. caps r s hs \<Longrightarrow> hs = gs"
  shows "match_groups r s = Some gs"
proof -
  from assms(1) have "fullmatch r s" by (auto simp: fullmatch_lang lang_def)
  then obtain hs where "match_groups r s = Some hs" by (auto simp: fullmatch_def)
  with assms(2) match_groups_caps show ?thesis by blast
qed

lemma match_groups_None: "match_groups r s = None \<longleftrightarrow> s \<notin> lang r"
  using fullmatch_lang [of r s] by (auto simp: fullmatch_def)

section \<open>The languages of the pattern forms\<close>

named_theorems rx_lang "what it means to be in the language of a pattern"

lemma lang_Eps [rx_lang]: "u \<in> lang Eps \<longleftrightarrow> u = []"
  by (simp add: lang_def)

lemma lang_Cls [rx_lang]: "u \<in> lang (Cls P) \<longleftrightarrow> (\<exists>c. u = [c] \<and> P c)"
  by (simp add: lang_def)

lemma lang_Cat [rx_lang]: "u \<in> lang (Cat a b) \<longleftrightarrow> (\<exists>v w. u = v @ w \<and> v \<in> lang a \<and> w \<in> lang b)"
  unfolding lang_def mem_Collect_eq caps_Cat by blast

lemma lang_Or [rx_lang]: "u \<in> lang (Or a b) \<longleftrightarrow> u \<in> lang a \<or> u \<in> lang b"
  by (auto simp: lang_def)

lemma lang_Grp [rx_lang]: "u \<in> lang (Grp a) \<longleftrightarrow> u \<in> lang a"
  by (auto simp: lang_def caps_Grp)

lemma lang_Cat_Cls: "u \<in> lang (Cat (Cls P) b) \<longleftrightarrow> (\<exists>c v. u = c # v \<and> P c \<and> v \<in> lang b)"
  unfolding lang_Cat lang_Cls by (metis append_Cons append_Nil)

lemma lang_Star_Cls [rx_lang]: "u \<in> lang (Star (Cls P)) \<longleftrightarrow> (\<forall>c \<in> set u. P c)"
proof
  assume "u \<in> lang (Star (Cls P))"
  then obtain g where "caps (Star (Cls P)) u g" by (auto simp: lang_def)
  then show "\<forall>c \<in> set u. P c"
    by (induction "Star (Cls P)" u g rule: caps.induct) auto
next
  assume "\<forall>c \<in> set u. P c"
  then show "u \<in> lang (Star (Cls P))"
  proof (induction u)
    case Nil
    then show ?case by (auto simp: lang_def intro: caps.star_nil)
  next
    case (Cons c u)
    then obtain g where "caps (Star (Cls P)) u g" by (auto simp: lang_def)
    with Cons.prems caps.star_step [of "Cls P" "[c]" "[]" u g] show ?case
      by (auto simp: lang_def)
  qed
qed

lemma lang_Plus_Cls [rx_lang]: "u \<in> lang (Plus (Cls P)) \<longleftrightarrow> u \<noteq> [] \<and> (\<forall>c \<in> set u. P c)"
  by (cases u) (auto simp: Plus_def lang_Cat_Cls lang_Star_Cls)

lemma lang_Times_Cls [rx_lang]:
  "u \<in> lang (Times (Cls P) n) \<longleftrightarrow> length u = n \<and> (\<forall>c \<in> set u. P c)"
  by (induction n arbitrary: u) (auto simp: lang_Eps lang_Cat_Cls length_Suc_conv)

lemma lang_UpTo_Cls [rx_lang]:
  "u \<in> lang (UpTo (Cls P) n) \<longleftrightarrow> length u \<le> n \<and> (\<forall>c \<in> set u. P c)"
proof (induction n arbitrary: u)
  case (Suc n)
  then show ?case by (cases u) (auto simp: Opt_def lang_Or lang_Eps lang_Cat_Cls)
qed (auto simp: lang_Eps)

lemma lang_Lit [rx_lang]: "u \<in> lang (Lit w) \<longleftrightarrow> u = w"
  by (induction w arbitrary: u) (auto simp: Lit_def lang_Eps lang_Cat_Cls)

lemma lang_Opt [rx_lang]: "u \<in> lang (Opt r) \<longleftrightarrow> u = [] \<or> u \<in> lang r"
  by (auto simp: Opt_def lang_Or lang_Eps)

lemma lang_Alts [rx_lang]: "u \<in> lang (Alts rs) \<longleftrightarrow> (\<exists>r \<in> set rs. u \<in> lang r)"
  by (induction rs rule: Alts.induct) (auto simp: lang_Cls lang_Or)

section \<open>Group-free patterns and cutting at a separator\<close>

fun no_groups :: "'a rx \<Rightarrow> bool" where
  "no_groups (Cat a b) = (no_groups a \<and> no_groups b)"
| "no_groups (Or a b) = (no_groups a \<and> no_groups b)"
| "no_groups (Star a) = no_groups a"
| "no_groups (Grp a) = False"
| "no_groups _ = True"

lemma caps_no_groups: "caps r u g \<Longrightarrow> no_groups r \<Longrightarrow> g = []"
  by (induction rule: caps.induct) auto

lemma caps_plain: "no_groups r \<Longrightarrow> caps r u g \<longleftrightarrow> u \<in> lang r \<and> g = []"
  using caps_no_groups by (auto simp: lang_def)

lemma no_groups_forms [simp]:
  "no_groups (Lit w)" "no_groups (Plus r) = no_groups r" "no_groups (Opt r) = no_groups r"
  by (induction w) (auto simp: Lit_def Plus_def Opt_def)

lemma no_groups_Times [simp]: "no_groups r \<Longrightarrow> no_groups (Times r n)"
  by (induction n) auto

lemma no_groups_UpTo [simp]: "no_groups r \<Longrightarrow> no_groups (UpTo r n)"
  by (induction n) auto

lemma no_groups_Alts [simp]: "\<forall>r \<in> set rs. no_groups r \<Longrightarrow> no_groups (Alts rs)"
  by (induction rs rule: Alts.induct) auto

lemma caps_Cat_plain:
  "no_groups a \<Longrightarrow> caps (Cat a b) u g \<longleftrightarrow> (\<exists>v w. u = v @ w \<and> v \<in> lang a \<and> caps b w g)"
  unfolding caps_Cat caps_plain by (metis append_Nil)

lemma caps_Cat_Grp:
  "no_groups a \<Longrightarrow>
   caps (Cat (Grp a) b) u g \<longleftrightarrow> (\<exists>v w h. u = v @ w \<and> g = v # h \<and> v \<in> lang a \<and> caps b w h)"
  unfolding caps_Cat caps_Grp caps_plain by (metis append_Cons append_Nil)

lemma caps_Grp_plain: "no_groups a \<Longrightarrow> caps (Grp a) u g \<longleftrightarrow> u \<in> lang a \<and> g = [u]"
  by (auto simp: caps_Grp caps_plain)

declare Alts.simps [simp del] Times.simps [simp del] UpTo.simps [simp del]

text \<open>A literal consumes itself; a group ends at a separator none of its words contains.\<close>

named_theorems caps_cut "cutting a text into the groups of a pattern"

lemma caps_Lit_Cons [caps_cut]: "caps (Cat (Lit [c]) b) (c # u) g \<longleftrightarrow> caps b u g"
  by (simp add: caps_Cat_plain lang_Lit)

lemma caps_Grp_sep [caps_cut]:
  assumes "no_groups a" and "\<And>x. x \<in> lang a \<Longrightarrow> c \<notin> set x" and "c \<notin> set v"
  shows "caps (Cat (Grp a) (Cat (Lit [c]) b)) (v @ c # u) g \<longleftrightarrow>
    v \<in> lang a \<and> (\<exists>h. g = v # h \<and> caps b u h)"
proof
  assume "caps (Cat (Grp a) (Cat (Lit [c]) b)) (v @ c # u) g"
  then obtain x w h where x: "v @ c # u = x @ c # w" "x \<in> lang a" "g = x # h" "caps b w h"
    using assms(1) by (auto simp: caps_Cat_Grp caps_Cat_plain lang_Lit)
  with append_sep_unique [OF assms(3) assms(2) [OF x(2)]] show
    "v \<in> lang a \<and> (\<exists>h. g = v # h \<and> caps b u h)" by auto
next
  assume "v \<in> lang a \<and> (\<exists>h. g = v # h \<and> caps b u h)"
  with assms(1) show "caps (Cat (Grp a) (Cat (Lit [c]) b)) (v @ c # u) g"
    by (auto simp: caps_Cat_Grp caps_Lit_Cons)
qed

lemma caps_Grp_sep_end:
  assumes "no_groups a" and "\<And>x. x \<in> lang a \<Longrightarrow> c \<notin> set x" and "c \<notin> set v"
  shows "caps (Cat (Grp a) (Lit (c # w))) (v @ c # w) g \<longleftrightarrow> v \<in> lang a \<and> g = [v]"
proof
  assume "caps (Cat (Grp a) (Lit (c # w))) (v @ c # w) g"
  then obtain x where x: "v @ c # w = x @ c # w" "x \<in> lang a" "g = [x]"
    using assms(1) by (auto simp: caps_Cat_Grp caps_plain lang_Lit)
  then show "v \<in> lang a \<and> g = [v]" by auto
next
  assume "v \<in> lang a \<and> g = [v]"
  with assms(1) show "caps (Cat (Grp a) (Lit (c # w))) (v @ c # w) g"
    by (auto simp: caps_Cat_Grp caps_plain lang_Lit)
qed

lemma caps_Grp_fixed:
  assumes "no_groups a" and "\<And>x. x \<in> lang a \<Longrightarrow> length x = length v"
  shows "caps (Cat (Grp a) b) (v @ u) g \<longleftrightarrow> v \<in> lang a \<and> (\<exists>h. g = v # h \<and> caps b u h)"
  using assms unfolding caps_Cat_Grp [OF assms(1)] by (metis append_eq_append_conv)

lemma match_groups_unique:
  assumes "\<And>g. caps r s g \<longleftrightarrow> g = gs"
  shows "match_groups r s = Some gs"
  using assms by (intro match_groups_eq) auto

end
