(* ===== verification/Patterns.thy ===== *)
theory Patterns
  imports Regex
begin

text \<open>
  The regular expressions that several modules of the program declare with the same text, and
  what each of them accepts.
\<close>

definition is_key_char :: "char \<Rightarrow> bool" where
  "is_key_char c \<longleftrightarrow> is_lower c \<or> is_digit c \<or> c = CHR ''_''"

definition is_nonzero_digit :: "char \<Rightarrow> bool" where
  "is_nonzero_digit c \<longleftrightarrow> 49 \<le> code c \<and> code c \<le> 57"

definition is_upper_hex :: "char \<Rightarrow> bool" where
  "is_upper_hex c \<longleftrightarrow> is_digit c \<or> (65 \<le> code c \<and> code c \<le> 70)"

text \<open>\<open>[a-z0-9_]+\<close>\<close>

definition KEY_RX :: "char rx" where
  "KEY_RX = Plus (Cls is_key_char)"

text \<open>\<open>[0-9a-f]{32}\<close> and \<open>[0-9a-f]{64}\<close>\<close>

definition HEX32_RX :: "char rx" where
  "HEX32_RX = Times (Cls is_hex) 32"

definition HEX64_RX :: "char rx" where
  "HEX64_RX = Times (Cls is_hex) 64"

text \<open>\<open>0|[1-9][0-9]*\<close>\<close>

definition POSITIVE_RX :: "char rx" where
  "POSITIVE_RX = Cat (Cls is_nonzero_digit) (Star (Cls is_digit))"

definition DECIMAL_RX :: "char rx" where
  "DECIMAL_RX = Or (Lit ''0'') POSITIVE_RX"

text \<open>\<open>[A-Za-z0-9][A-Za-z0-9_.-]*\<close> and \<open>[a-z0-9][a-z0-9.-]*\<close>\<close>

definition SERVICE_RX :: "char rx" where
  "SERVICE_RX = Cat (Cls is_alnum)
     (Star (Cls (\<lambda>c. is_alnum c \<or> c = CHR ''_'' \<or> c = CHR ''.'' \<or> c = CHR ''-'')))"

definition PRINCIPAL_RX :: "char rx" where
  "PRINCIPAL_RX = Cat (Cls (\<lambda>c. is_lower c \<or> is_digit c))
     (Star (Cls (\<lambda>c. is_lower c \<or> is_digit c \<or> c = CHR ''.'' \<or> c = CHR ''-'')))"

text \<open>\<open>g[1-9][0-9]*\<close> and \<open>g[1-9][0-9]*-i[1-9][0-9]*\<close>\<close>

definition ROOT_GENERATION_RX :: "char rx" where
  "ROOT_GENERATION_RX = Cat (Lit ''g'') POSITIVE_RX"

definition INTERMEDIATE_GENERATION_RX :: "char rx" where
  "INTERMEDIATE_GENERATION_RX =
     Cat (Lit ''g'') (Cat POSITIVE_RX (Cat (Lit ''-i'') POSITIVE_RX))"

text \<open>\<open>(?:[0-9A-F]{2})+\<close>\<close>

definition SERIAL_RX :: "char rx" where
  "SERIAL_RX = Plus (Times (Cls is_upper_hex) 2)"

section \<open>What the patterns accept\<close>

named_theorems pattern_iff "acceptance of the program's patterns"

lemma KEY_iff [pattern_iff]:
  "fullmatch KEY_RX s \<longleftrightarrow> s \<noteq> [] \<and> (\<forall>c \<in> set s. is_key_char c)"
  by (simp add: fullmatch_lang KEY_RX_def rx_lang)

lemma HEX32_iff [pattern_iff]:
  "fullmatch HEX32_RX s \<longleftrightarrow> length s = 32 \<and> (\<forall>c \<in> set s. is_hex c)"
  by (simp add: fullmatch_lang HEX32_RX_def rx_lang)

lemma HEX64_iff [pattern_iff]:
  "fullmatch HEX64_RX s \<longleftrightarrow> length s = 64 \<and> (\<forall>c \<in> set s. is_hex c)"
  by (simp add: fullmatch_lang HEX64_RX_def rx_lang)

lemma is_nonzero_digit_iff: "is_nonzero_digit c \<longleftrightarrow> is_digit c \<and> c \<noteq> CHR ''0''"
  using digit_val_eq_0 [of c] by (auto simp: is_nonzero_digit_def is_digit_def digit_val_def)

lemma POSITIVE_lang: "s \<in> lang POSITIVE_RX \<longleftrightarrow> canonical_digits 10 s \<and> s \<noteq> ''0''"
proof (cases s)
  case Nil
  then show ?thesis by (simp add: POSITIVE_RX_def lang_Cat_Cls canonical_digits_def)
next
  case (Cons c t)
  have "s \<in> lang POSITIVE_RX \<longleftrightarrow> is_digit c \<and> c \<noteq> CHR ''0'' \<and> (\<forall>x \<in> set t. is_digit x)"
    unfolding POSITIVE_RX_def lang_Cat_Cls lang_Star_Cls Cons by (simp add: is_nonzero_digit_iff)
  also have "\<dots> \<longleftrightarrow> canonical_digits 10 s \<and> s \<noteq> ''0''"
    by (auto simp: Cons canonical_digits_def digit_val_less)
  finally show ?thesis .
qed

lemma DECIMAL_lang: "s \<in> lang DECIMAL_RX \<longleftrightarrow> canonical_digits 10 s"
  by (auto simp: DECIMAL_RX_def rx_lang POSITIVE_lang)
    (simp add: canonical_digits_def char_class_defs digit_val_def)

lemma DECIMAL_iff [pattern_iff]: "fullmatch DECIMAL_RX s \<longleftrightarrow> canonical_digits 10 s"
  by (simp add: fullmatch_lang DECIMAL_lang)

lemma POSITIVE_iff [pattern_iff]:
  "fullmatch POSITIVE_RX s \<longleftrightarrow> canonical_digits 10 s \<and> s \<noteq> ''0''"
  by (simp add: fullmatch_lang POSITIVE_lang)

lemma SERVICE_iff [pattern_iff]:
  "fullmatch SERVICE_RX s \<longleftrightarrow>
     (\<exists>c t. s = c # t \<and> is_alnum c \<and>
        (\<forall>x \<in> set t. is_alnum x \<or> x = CHR ''_'' \<or> x = CHR ''.'' \<or> x = CHR ''-''))"
  unfolding fullmatch_lang SERVICE_RX_def lang_Cat_Cls lang_Star_Cls by blast

lemma PRINCIPAL_iff [pattern_iff]:
  "fullmatch PRINCIPAL_RX s \<longleftrightarrow>
     (\<exists>c t. s = c # t \<and> (is_lower c \<or> is_digit c) \<and>
        (\<forall>x \<in> set t. is_lower x \<or> is_digit x \<or> x = CHR ''.'' \<or> x = CHR ''-''))"
  unfolding fullmatch_lang PRINCIPAL_RX_def lang_Cat_Cls lang_Star_Cls by blast

lemma ROOT_GENERATION_iff [pattern_iff]:
  "fullmatch ROOT_GENERATION_RX s \<longleftrightarrow>
     (\<exists>n. s = ''g'' @ n \<and> canonical_digits 10 n \<and> n \<noteq> ''0'')"
  by (auto simp: fullmatch_lang ROOT_GENERATION_RX_def rx_lang POSITIVE_lang)

lemma INTERMEDIATE_GENERATION_iff [pattern_iff]:
  "fullmatch INTERMEDIATE_GENERATION_RX s \<longleftrightarrow>
     (\<exists>n m. s = ''g'' @ n @ ''-i'' @ m \<and> canonical_digits 10 n \<and> n \<noteq> ''0'' \<and>
        canonical_digits 10 m \<and> m \<noteq> ''0'')"
  by (fastforce simp: fullmatch_lang INTERMEDIATE_GENERATION_RX_def rx_lang POSITIVE_lang)

lemma lang_Star_Times2:
  "u \<in> lang (Star (Times (Cls P) 2)) \<longleftrightarrow> even (length u) \<and> (\<forall>c \<in> set u. P c)"
proof
  assume "u \<in> lang (Star (Times (Cls P) 2))"
  then obtain g where "caps (Star (Times (Cls P) 2)) u g" by (auto simp: lang_def)
  then show "even (length u) \<and> (\<forall>c \<in> set u. P c)"
  proof (induction "Star (Times (Cls P) 2)" u g rule: caps.induct)
    case (star_step u g v h)
    from star_step.hyps(1) have "u \<in> lang (Times (Cls P) 2)" by (auto simp: lang_def)
    then have "length u = 2 \<and> (\<forall>c \<in> set u. P c)" unfolding lang_Times_Cls .
    with star_step show ?case by auto
  qed auto
next
  assume "even (length u) \<and> (\<forall>c \<in> set u. P c)"
  then show "u \<in> lang (Star (Times (Cls P) 2))"
  proof (induction u rule: induct_list012)
    case 1
    then show ?case by (auto simp: lang_def intro: caps.star_nil)
  next
    case (3 x y zs)
    then obtain g where g: "caps (Star (Times (Cls P) 2)) zs g" by (auto simp: lang_def)
    have "[x, y] \<in> lang (Times (Cls P) 2)" using 3 unfolding lang_Times_Cls by simp
    then obtain h where "caps (Times (Cls P) 2) [x, y] h" by (auto simp: lang_def)
    from caps.star_step [OF this _ g] show ?case by (auto simp: lang_def)
  qed simp
qed

lemma SERIAL_iff [pattern_iff]:
  "fullmatch SERIAL_RX s \<longleftrightarrow> s \<noteq> [] \<and> even (length s) \<and> (\<forall>c \<in> set s. is_upper_hex c)"
proof -
  have "s \<in> lang SERIAL_RX \<longleftrightarrow>
      (\<exists>v w. s = v @ w \<and> length v = 2 \<and> (\<forall>c \<in> set v. is_upper_hex c) \<and>
        even (length w) \<and> (\<forall>c \<in> set w. is_upper_hex c))"
    by (simp only: SERIAL_RX_def Plus_def lang_Cat lang_Times_Cls lang_Star_Times2 conj_assoc)
  also have "\<dots> \<longleftrightarrow> s \<noteq> [] \<and> even (length s) \<and> (\<forall>c \<in> set s. is_upper_hex c)"
  proof (intro iffI)
    assume *: "s \<noteq> [] \<and> even (length s) \<and> (\<forall>c \<in> set s. is_upper_hex c)"
    then have "2 \<le> length s" by (cases s; cases "tl s") auto
    with * show "\<exists>v w. s = v @ w \<and> length v = 2 \<and> (\<forall>c \<in> set v. is_upper_hex c) \<and>
        even (length w) \<and> (\<forall>c \<in> set w. is_upper_hex c)"
      by (intro exI [of _ "take 2 s"] exI [of _ "drop 2 s"])
        (auto dest: in_set_takeD in_set_dropD)
  qed auto
  finally show ?thesis by (simp add: fullmatch_lang)
qed

end
