(* ===== verification/Codec.thy ===== *)
theory Codec
  imports Text
begin

text \<open>
  The contract of a canonical codec: a parser that accepts exactly the serialized forms of its
  valid values. What the clients need of it (one text per value, one value per text, stable
  bytes under re-serialization) is proved once here; the record formats and the identity codecs
  discharge the two laws for the code's own functions.
\<close>

locale canonical_codec =
  fixes parse :: "string \<Rightarrow> 'e + 'r"
    and serialize :: "'r \<Rightarrow> 'e + string"
    and valid :: "'r \<Rightarrow> bool"
  assumes parse_canonical: "parse d = Inr r \<Longrightarrow> valid r \<and> serialize r = Inr d"
    and serialize_parses: "valid r \<Longrightarrow> \<exists>d. serialize r = Inr d \<and> parse d = Inr r"
begin

lemma parse_valid: "parse d = Inr r \<Longrightarrow> valid r"
  by (blast dest: parse_canonical)

lemma parse_serialize: "parse d = Inr r \<Longrightarrow> serialize r = Inr d"
  by (blast dest: parse_canonical)

lemma serialize_parse: "valid r \<Longrightarrow> serialize r = Inr d \<Longrightarrow> parse d = Inr r"
  using serialize_parses by force

lemma parse_iff: "parse d = Inr r \<longleftrightarrow> valid r \<and> serialize r = Inr d"
  by (blast intro: serialize_parse dest: parse_canonical)

lemma parse_inj: "parse d = Inr r \<Longrightarrow> parse e = Inr r \<Longrightarrow> d = e"
  by (auto simp: parse_iff)

lemma serialize_inj: "valid r \<Longrightarrow> valid q \<Longrightarrow> serialize r = serialize q \<Longrightarrow> r = q"
  using serialize_parses [of r] serialize_parses [of q] by auto

lemma accepts_iff: "(\<exists>r. parse d = Inr r) \<longleftrightarrow> (\<exists>r. valid r \<and> serialize r = Inr d)"
  by (simp add: parse_iff)

end

end
