(* ===== verification/Records.thy ===== *)
theory Records
  imports Patterns Codec
begin

text \<open>
  \<^verbatim>\<open>src/platform_pki/records.py\<close>: strict parsing and serialization of ordered
  \<open>key=value\<close> records. \<open>RecordSpec\<close> and \<open>OrderedRecord\<close> are records here, their
  \<open>__post_init__\<close> checks are \<open>record_spec_new\<close> and \<open>ordered_record_new\<close>. The values a caller
  passes to the serializer (a mapping, ordered pairs or an \<open>OrderedRecord\<close>) are one list of pairs,
  in iteration order; the dynamic type checks have no counterpart in typed definitions.

  The main results: a valid specification's parser accepts exactly the rendered canonical records
  (\<open>parse_ordered_record_ok\<close>), the two functions form a canonical codec (locale
  \<open>record_format\<close>), and neither raises anything but \<open>RecordError\<close>.
\<close>

section \<open>The model\<close>

record record_spec =
  spec_fields :: "string list"
  spec_allow_empty :: bool
  spec_schema :: "string option"

record ordered_record =
  rec_spec :: record_spec
  rec_pairs :: "(string \<times> string) list"

text \<open>\<open>d[key]\<close> on a dictionary that was built from these pairs, and \<open>OrderedRecord.__getitem__\<close>.\<close>

definition dict_get :: "(string \<times> string) list \<Rightarrow> string \<Rightarrow> string result" where
  "dict_get d key = (case map_of d key of None \<Rightarrow> Inl (KeyError key) | Some v \<Rightarrow> Inr v)"

definition record_get :: "ordered_record \<Rightarrow> string \<Rightarrow> string result" where
  "record_get r key = dict_get (rec_pairs r) key"

text \<open>\<open>_validate_value\<close>; \<open>specification\<close> selects the exception class.\<close>

definition validate_value :: "string \<Rightarrow> bool \<Rightarrow> bool \<Rightarrow> unit result" where
  "validate_value value allow_empty specification =
     (let error = (if specification then ValueError else RecordError)
      in if value = [] \<and> \<not> allow_empty then Inl (error ''record contains an empty value'')
         else if \<not> list_all is_print value then
           Inl (error ''record contains a non-canonical value'')
         else Inr ())"

text \<open>\<open>RecordSpec.__post_init__\<close>.\<close>

definition record_spec_new :: "string list \<Rightarrow> bool \<Rightarrow> string option \<Rightarrow> record_spec result" where
  "record_spec_new keys allow_empty schema =
     (if keys = [] then
        Inl (ValueError ''record specification must contain at least one field'')
      else if \<not> list_all (fullmatch KEY_RX) keys then
        Inl (ValueError ''record specification contains an invalid field key'')
      else if \<not> distinct keys then
        Inl (ValueError ''record specification contains duplicate field keys'')
      else
        bindE
          (case schema of
             None \<Rightarrow> Inr ()
           | Some s \<Rightarrow>
               if ''schema'' \<notin> set keys then
                 Inl (ValueError ''record specification schema requires a schema field'')
               else validate_value s allow_empty True)
          (\<lambda>_. Inr \<lparr>spec_fields = keys, spec_allow_empty = allow_empty, spec_schema = schema\<rparr>))"

text \<open>\<open>_validated_pairs\<close>: the loop that fills \<open>by_key\<close>, then the checks against the specification.\<close>

fun collect_pairs ::
  "bool \<Rightarrow> (string \<times> string) list \<Rightarrow> (string \<times> string) list \<Rightarrow> (string \<times> string) list result" where
  "collect_pairs allow_empty by_key [] = Inr by_key"
| "collect_pairs allow_empty by_key ((key, value) # pairs) =
     (if \<not> fullmatch KEY_RX key then Inl (RecordError ''record contains an invalid field key'')
      else if key \<in> fst ` set by_key then Inl (RecordError ''record contains a duplicate field'')
      else bindE (validate_value value allow_empty False) (\<lambda>_.
        collect_pairs allow_empty (by_key @ [(key, value)]) pairs))"

definition check_keys :: "record_spec \<Rightarrow> string set \<Rightarrow> unit result" where
  "check_keys spec actual =
     (if \<not> actual \<subseteq> set (spec_fields spec) then
        Inl (RecordError ''record contains an unexpected field'')
      else if \<not> set (spec_fields spec) \<subseteq> actual then
        Inl (RecordError ''record is missing a required field'')
      else Inr ())"

definition check_schema :: "record_spec \<Rightarrow> (string \<times> string) list \<Rightarrow> unit result" where
  "check_schema spec by_key =
     (case spec_schema spec of
        None \<Rightarrow> Inr ()
      | Some s \<Rightarrow>
          bindE (dict_get by_key ''schema'') (\<lambda>v.
            if v \<noteq> s then Inl (RecordError ''record schema does not match specification'')
            else Inr ()))"

definition validated_pairs ::
  "(string \<times> string) list \<Rightarrow> record_spec \<Rightarrow> (string \<times> string) list result" where
  "validated_pairs values spec =
     bindE (collect_pairs (spec_allow_empty spec) [] values) (\<lambda>by_key.
     bindE (check_keys spec (fst ` set by_key)) (\<lambda>_.
     bindE (check_schema spec by_key) (\<lambda>_.
       mapE (\<lambda>field. bindE (dict_get by_key field) (\<lambda>v. Inr (field, v))) (spec_fields spec))))"

text \<open>\<open>OrderedRecord.__post_init__\<close>.\<close>

definition ordered_record_new ::
  "record_spec \<Rightarrow> (string \<times> string) list \<Rightarrow> ordered_record result" where
  "ordered_record_new spec pairs =
     bindE (validated_pairs pairs spec) (\<lambda>ps. Inr \<lparr>rec_spec = spec, rec_pairs = ps\<rparr>)"

text \<open>\<open>parse_ordered_record\<close>: the loop over the lines, then the whole function.\<close>

fun parse_lines :: "bool \<Rightarrow> string set \<Rightarrow> string list \<Rightarrow> (string \<times> string) list result" where
  "parse_lines allow_empty seen [] = Inr []"
| "parse_lines allow_empty seen (line # lines) =
     (if CHR ''='' \<notin> set line then Inl (RecordError ''record contains a malformed field'')
      else (let (key, value) = split_once (CHR ''='') line
        in if \<not> fullmatch KEY_RX key then
             Inl (RecordError ''record contains an invalid field key'')
           else if key \<in> seen then Inl (RecordError ''record contains a duplicate field'')
           else if value = [] \<and> \<not> allow_empty then
             Inl (RecordError ''record contains an empty value'')
           else if \<not> list_all is_print value then
             Inl (RecordError ''record contains a non-canonical value'')
           else bindE (parse_lines allow_empty (insert key seen) lines) (\<lambda>pairs.
             Inr ((key, value) # pairs))))"

definition parse_ordered_record :: "string \<Rightarrow> record_spec \<Rightarrow> ordered_record result" where
  "parse_ordered_record data spec =
     (if \<not> ends_with [NL] data \<or> ends_with [NL, NL] data then
        Inl (RecordError ''record must end with exactly one newline'')
      else (let lines = split_on NL (butlast data)
        in if length lines < length (spec_fields spec) then
             Inl (RecordError ''record is missing a required field'')
           else if length (spec_fields spec) < length lines then
             Inl (RecordError ''record contains an unexpected field'')
           else
             bindE (parse_lines (spec_allow_empty spec) {} lines) (\<lambda>pairs.
             bindE (check_keys spec (fst ` set pairs)) (\<lambda>_.
             if map fst pairs \<noteq> spec_fields spec then
               Inl (RecordError ''record fields are not in canonical order'')
             else
               bindE (check_schema spec pairs) (\<lambda>_. ordered_record_new spec pairs)))))"

definition render_line :: "string \<times> string \<Rightarrow> string" where
  "render_line kv = fst kv @ ''='' @ snd kv @ [NL]"

text \<open>\<open>serialize_ordered_record\<close>, and \<open>OrderedRecord.to_bytes\<close>.\<close>

definition serialize_ordered_record :: "(string \<times> string) list \<Rightarrow> record_spec \<Rightarrow> string result" where
  "serialize_ordered_record values spec =
     bindE (validated_pairs values spec) (\<lambda>pairs. Inr (concat (map render_line pairs)))"

definition to_bytes :: "ordered_record \<Rightarrow> string result" where
  "to_bytes r = serialize_ordered_record (rec_pairs r) (rec_spec r)"

section \<open>Declarative specification\<close>

definition valid_value :: "bool \<Rightarrow> string \<Rightarrow> bool" where
  "valid_value allow_empty v \<longleftrightarrow> (v \<noteq> [] \<or> allow_empty) \<and> (\<forall>c \<in> set v. is_print c)"

definition wf_spec :: "record_spec \<Rightarrow> bool" where
  "wf_spec spec \<longleftrightarrow>
     spec_fields spec \<noteq> [] \<and> (\<forall>f \<in> set (spec_fields spec). fullmatch KEY_RX f) \<and>
     distinct (spec_fields spec) \<and>
     (\<forall>s. spec_schema spec = Some s \<longrightarrow>
        ''schema'' \<in> set (spec_fields spec) \<and> valid_value (spec_allow_empty spec) s)"

text \<open>The pairs of a record in canonical form: the fields in order, valid values, the schema.\<close>

definition canonical_pairs :: "record_spec \<Rightarrow> (string \<times> string) list \<Rightarrow> bool" where
  "canonical_pairs spec ps \<longleftrightarrow>
     map fst ps = spec_fields spec \<and>
     (\<forall>kv \<in> set ps. valid_value (spec_allow_empty spec) (snd kv)) \<and>
     (\<forall>s. spec_schema spec = Some s \<longrightarrow> map_of ps ''schema'' = Some s)"

definition record_of :: "record_spec \<Rightarrow> ordered_record \<Rightarrow> bool" where
  "record_of spec r \<longleftrightarrow> rec_spec r = spec \<and> canonical_pairs spec (rec_pairs r)"

section \<open>Correctness\<close>

lemma validate_value_ok [ok_iff]: "validate_value v ae sp = Inr u \<longleftrightarrow> valid_value ae v"
  by (auto simp: validate_value_def valid_value_def list_all_iff Let_def)

lemma record_spec_new_ok:
  "record_spec_new fs ae sc = Inr spec \<longleftrightarrow>
     spec = \<lparr>spec_fields = fs, spec_allow_empty = ae, spec_schema = sc\<rparr> \<and> wf_spec spec"
  by (cases sc) (auto simp: record_spec_new_def wf_spec_def ok_iff list_all_iff)

lemma dict_get_ok [ok_iff]: "dict_get d k = Inr v \<longleftrightarrow> map_of d k = Some v"
  by (auto simp: dict_get_def split: option.splits)

lemma check_keys_ok [ok_iff]: "check_keys spec ks = Inr u \<longleftrightarrow> ks = set (spec_fields spec)"
  by (auto simp: check_keys_def)

lemma check_schema_ok [ok_iff]:
  "check_schema spec d = Inr u \<longleftrightarrow> (\<forall>s. spec_schema spec = Some s \<longrightarrow> map_of d ''schema'' = Some s)"
  by (auto simp: check_schema_def ok_iff split: option.splits)

lemma collect_pairs_ok:
  "collect_pairs ae acc ps = Inr d \<longleftrightarrow>
     d = acc @ ps \<and> distinct (map fst ps) \<and> fst ` set ps \<inter> fst ` set acc = {} \<and>
     (\<forall>kv \<in> set ps. fullmatch KEY_RX (fst kv) \<and> valid_value ae (snd kv))"
proof (induction ae acc ps rule: collect_pairs.induct)
  case (2 ae acc k v ps)
  have "collect_pairs ae acc ((k, v) # ps) = Inr d \<longleftrightarrow>
      fullmatch KEY_RX k \<and> k \<notin> fst ` set acc \<and> valid_value ae v \<and>
      collect_pairs ae (acc @ [(k, v)]) ps = Inr d"
    by (auto simp: bindE_ok validate_value_ok)
  moreover have "fullmatch KEY_RX k \<Longrightarrow> k \<notin> fst ` set acc \<Longrightarrow> valid_value ae v \<Longrightarrow>
      collect_pairs ae (acc @ [(k, v)]) ps = Inr d \<longleftrightarrow>
      d = (acc @ [(k, v)]) @ ps \<and> distinct (map fst ps) \<and>
      fst ` set ps \<inter> fst ` set (acc @ [(k, v)]) = {} \<and>
      (\<forall>kv \<in> set ps. fullmatch KEY_RX (fst kv) \<and> valid_value ae (snd kv))"
    by (rule "2.IH") (auto simp: validate_value_ok)
  ultimately show ?case by auto
qed auto

lemma map_of_map_fields:
  "set fs \<subseteq> fst ` set d \<Longrightarrow>
   mapE (\<lambda>f. bindE (dict_get d f) (\<lambda>v. Inr (f, v))) fs = Inr (map (\<lambda>f. (f, the (map_of d f))) fs)"
proof (rule mapE_Inr_map)
  fix f assume "set fs \<subseteq> fst ` set d" "f \<in> set fs"
  then obtain v where "map_of d f = Some v"
    by (metis domIff dom_map_of_conv_image_fst not_None_eq subsetD)
  then show "bindE (dict_get d f) (\<lambda>v. Inr (f, v)) = Inr (f, the (map_of d f))"
    by (simp add: dict_get_def)
qed

lemma map_the_map_of: "distinct (map fst ps) \<Longrightarrow> map (\<lambda>f. (f, the (map_of ps f))) (map fst ps) = ps"
proof -
  assume d: "distinct (map fst ps)"
  have "(fst kv, the (map_of ps (fst kv))) = kv" if "kv \<in> set ps" for kv
    using map_of_is_SomeI [OF d, of "fst kv" "snd kv"] that by simp
  then show ?thesis unfolding map_map by (intro map_idI) simp
qed

lemma validated_pairs_ok:
  "validated_pairs ps spec = Inr qs \<longleftrightarrow>
     distinct (map fst ps) \<and> set (map fst ps) = set (spec_fields spec) \<and>
     (\<forall>kv \<in> set ps. fullmatch KEY_RX (fst kv) \<and> valid_value (spec_allow_empty spec) (snd kv)) \<and>
     (\<forall>s. spec_schema spec = Some s \<longrightarrow> map_of ps ''schema'' = Some s) \<and>
     qs = map (\<lambda>f. (f, the (map_of ps f))) (spec_fields spec)"
proof (cases "set (spec_fields spec) = fst ` set ps")
  case True
  then have "set (spec_fields spec) \<subseteq> fst ` set ps" by simp
  from map_of_map_fields [OF this] True show ?thesis
    by (auto simp: validated_pairs_def ok_iff collect_pairs_ok)
next
  case False
  then show ?thesis by (auto simp: validated_pairs_def ok_iff collect_pairs_ok)
qed

lemma canonical_keys:
  "wf_spec spec \<Longrightarrow> canonical_pairs spec ps \<Longrightarrow> kv \<in> set ps \<Longrightarrow> fullmatch KEY_RX (fst kv)"
  unfolding wf_spec_def canonical_pairs_def by (metis image_eqI list.set_map)

lemma validated_canonical:
  assumes "wf_spec spec" and "canonical_pairs spec ps"
  shows "validated_pairs ps spec = Inr ps"
proof -
  from assms have fs: "spec_fields spec = map fst ps" and d: "distinct (map fst ps)"
    by (auto simp: canonical_pairs_def wf_spec_def)
  with assms canonical_keys [OF assms] map_the_map_of [OF d] show ?thesis
    by (simp add: validated_pairs_ok canonical_pairs_def)
qed

lemma validated_pairs_canonical:
  assumes "wf_spec spec" and "validated_pairs ps spec = Inr qs"
  shows "canonical_pairs spec qs"
proof -
  from assms(2) have ps: "distinct (map fst ps)" "set (map fst ps) = set (spec_fields spec)"
    and v: "\<forall>kv \<in> set ps. valid_value (spec_allow_empty spec) (snd kv)"
    and s: "\<forall>s. spec_schema spec = Some s \<longrightarrow> map_of ps ''schema'' = Some s"
    and qs: "qs = map (\<lambda>f. (f, the (map_of ps f))) (spec_fields spec)"
    by (auto simp: validated_pairs_ok)
  have keys: "map fst qs = spec_fields spec" by (simp add: qs comp_def)
  have in_ps: "(f, the (map_of ps f)) \<in> set ps" if "f \<in> set (spec_fields spec)" for f
    using that ps by (metis domIff dom_map_of_conv_image_fst list.set_map map_of_SomeD option.collapse)
  have same: "map_of qs f = map_of ps f" if "f \<in> set (spec_fields spec)" for f
  proof -
    have "map_of ps f = Some (the (map_of ps f))"
      by (rule map_of_is_SomeI [OF ps(1) in_ps [OF that]])
    moreover have "distinct (map fst qs)" using assms(1) keys by (simp add: wf_spec_def)
    then have "map_of qs f = Some (the (map_of ps f))"
      by (rule map_of_is_SomeI) (simp add: qs that)
    ultimately show ?thesis by (rule trans [OF _ sym, rotated])
  qed
  have "\<forall>s. spec_schema spec = Some s \<longrightarrow> map_of qs ''schema'' = Some s"
  proof (intro allI impI)
    fix sc assume sc: "spec_schema spec = Some sc"
    with assms(1) have "''schema'' \<in> set (spec_fields spec)" by (simp add: wf_spec_def)
    from same [OF this] s sc show "map_of qs ''schema'' = Some sc" by simp
  qed
  moreover have "\<forall>kv \<in> set qs. valid_value (spec_allow_empty spec) (snd kv)"
  proof
    fix kv assume "kv \<in> set qs"
    then obtain f where f: "f \<in> set (spec_fields spec)" and kv: "kv = (f, the (map_of ps f))"
      by (auto simp: qs)
    from bspec [OF v in_ps [OF f]] kv show "valid_value (spec_allow_empty spec) (snd kv)" by simp
  qed
  ultimately show ?thesis using keys by (simp add: canonical_pairs_def)
qed

text \<open>The body of a line, without its newline.\<close>

definition line_of :: "string \<times> string \<Rightarrow> string" where
  "line_of kv = fst kv @ CHR ''='' # snd kv"

lemma render_line_eq: "render_line kv = line_of kv @ [NL]"
  by (simp add: render_line_def line_of_def)

lemma key_no_sep: "fullmatch KEY_RX k \<Longrightarrow> CHR ''='' \<notin> set k"
  by (auto simp: KEY_iff is_key_char_def char_class_defs)

lemma NL_not_key [simp]: "\<not> is_key_char NL"
  by (simp add: is_key_char_def is_lower_def is_digit_def NL_eq_iff) (simp add: code_def)

lemma key_no_NL: "fullmatch KEY_RX k \<Longrightarrow> NL \<notin> set k"
  by (auto simp: KEY_iff)

lemma parse_lines_ok:
  "parse_lines ae seen lines = Inr ps \<longleftrightarrow>
     lines = map line_of ps \<and> distinct (map fst ps) \<and> fst ` set ps \<inter> seen = {} \<and>
     (\<forall>kv \<in> set ps. fullmatch KEY_RX (fst kv) \<and> valid_value ae (snd kv))"
proof (induction lines arbitrary: seen ps)
  case Nil
  then show ?case by auto
next
  case (Cons line lines)
  show ?case
  proof (cases "\<exists>k v. line = line_of (k, v) \<and> fullmatch KEY_RX k")
    case True
    then obtain k v where line: "line = line_of (k, v)" and k: "fullmatch KEY_RX k" by blast
    have once: "split_once (CHR ''='') line = (k, v)"
      using key_no_sep [OF k] by (simp add: line line_of_def split_once_append)
    have "CHR ''='' \<in> set line" by (simp add: line line_of_def)
    then have "parse_lines ae seen (line # lines) = Inr ps \<longleftrightarrow>
        k \<notin> seen \<and> valid_value ae v \<and>
        (\<exists>qs. parse_lines ae (insert k seen) lines = Inr qs \<and> ps = (k, v) # qs)"
      by (auto simp: once k bindE_ok valid_value_def list_all_iff)
    also have "\<dots> \<longleftrightarrow> (\<exists>qs. ps = (k, v) # qs \<and> k \<notin> seen \<and> valid_value ae v \<and>
        lines = map line_of qs \<and> distinct (map fst qs) \<and> fst ` set qs \<inter> insert k seen = {} \<and>
        (\<forall>kv \<in> set qs. fullmatch KEY_RX (fst kv) \<and> valid_value ae (snd kv)))"
      unfolding Cons.IH by blast
    also have "\<dots> \<longleftrightarrow> line # lines = map line_of ps \<and> distinct (map fst ps) \<and>
        fst ` set ps \<inter> seen = {} \<and>
        (\<forall>kv \<in> set ps. fullmatch KEY_RX (fst kv) \<and> valid_value ae (snd kv))"
    proof (cases ps)
      case (Cons q qs)
      show ?thesis
      proof (cases "q = (k, v)")
        case True
        then show ?thesis using k by (auto simp: Cons line)
      next
        case False
        have "line_of (k, v) \<noteq> line_of q \<or> \<not> fullmatch KEY_RX (fst q)"
          using False key_no_sep [OF k] key_no_sep [of "fst q"]
          by (auto simp: line_of_def append_sep_unique prod_eq_iff)
        then show ?thesis using False by (auto simp: Cons line)
      qed
    qed auto
    finally show ?thesis .
  next
    case False
    have "parse_lines ae seen (line # lines) \<noteq> Inr ps"
    proof
      assume ok: "parse_lines ae seen (line # lines) = Inr ps"
      obtain k v where kv: "split_once (CHR ''='') line = (k, v)" by fastforce
      from ok have "CHR ''='' \<in> set line" "fullmatch KEY_RX k"
        by (auto simp: kv split: if_splits)
      with split_once_eq [OF _ kv] False show False by (auto simp: line_of_def)
    qed
    with False show ?thesis by (cases ps) auto
  qed
qed

lemma concat_render: "concat (map render_line ps) = concat (map (\<lambda>w. w @ [NL]) (map line_of ps))"
  by (rule arg_cong [of _ _ concat]) (simp add: render_line_eq)

text \<open>The bytes of a rendered record, cut into lines as the parser does.\<close>

lemma render_split:
  assumes "ps \<noteq> []" and "\<forall>kv \<in> set ps. NL \<notin> set (line_of kv)"
  shows "ends_with [NL] (concat (map render_line ps))"
    and "\<not> ends_with [NL, NL] (concat (map render_line ps))"
    and "split_on NL (butlast (concat (map render_line ps))) = map line_of ps"
proof -
  let ?j = "join_on [NL] (map line_of ps)"
  have data: "concat (map render_line ps) = ?j @ [NL]"
    using assms(1) by (simp add: concat_render join_on_lines del: map_map)
  show "ends_with [NL] (concat (map render_line ps))" by (simp add: data)
  obtain init q where ps: "ps = init @ [q]" using assms(1) by (metis rev_exhaust)
  have "line_of q \<noteq> []" by (simp add: line_of_def)
  then obtain w c where q: "line_of q = w @ [c]" by (metis rev_exhaust)
  then have "c \<noteq> NL" using assms(2) ps by force
  moreover have "\<exists>t. concat (map render_line ps) = t @ [c, NL]"
    by (simp add: ps render_line_eq q)
  ultimately show "\<not> ends_with [NL, NL] (concat (map render_line ps))"
    by (auto simp: ends_with_iff)
  show "split_on NL (butlast (concat (map render_line ps))) = map line_of ps"
    using assms by (simp add: data split_join)
qed

lemma valid_line_no_NL:
  "fullmatch KEY_RX (fst kv) \<Longrightarrow> valid_value ae (snd kv) \<Longrightarrow> NL \<notin> set (line_of kv)"
  using key_no_NL [of "fst kv"] NL_not_print
  by (auto simp: line_of_def valid_value_def NL_eq_iff code_def)

lemma parse_ordered_record_ok:
  assumes "wf_spec spec"
  shows "parse_ordered_record data spec = Inr r \<longleftrightarrow>
    record_of spec r \<and> data = concat (map render_line (rec_pairs r))"
proof
  assume ok: "parse_ordered_record data spec = Inr r"
  then obtain ps where data: "ends_with [NL] data" and lines: "split_on NL (butlast data) = map line_of ps"
    and keys: "map fst ps = spec_fields spec"
    and v: "\<forall>kv \<in> set ps. fullmatch KEY_RX (fst kv) \<and> valid_value (spec_allow_empty spec) (snd kv)"
    and s: "\<forall>s. spec_schema spec = Some s \<longrightarrow> map_of ps ''schema'' = Some s"
    and r: "ordered_record_new spec ps = Inr r"
    by (auto simp: parse_ordered_record_def Let_def ok_iff parse_lines_ok)
  have c: "canonical_pairs spec ps" using keys v s by (auto simp: canonical_pairs_def)
  with r assms have "r = \<lparr>rec_spec = spec, rec_pairs = ps\<rparr>"
    by (simp add: ordered_record_new_def validated_canonical)
  moreover from data have "data = butlast data @ [NL]" by (auto simp: ends_with_iff)
  then have "data = join_on [NL] (map line_of ps) @ [NL]" by (metis join_split lines)
  moreover have "ps \<noteq> []" using assms keys by (auto simp: wf_spec_def)
  ultimately show "record_of spec r \<and> data = concat (map render_line (rec_pairs r))"
    using c by (simp add: record_of_def concat_render join_on_lines del: map_map)
next
  assume r: "record_of spec r \<and> data = concat (map render_line (rec_pairs r))"
  obtain ps where ps: "r = \<lparr>rec_spec = spec, rec_pairs = ps\<rparr>"
    using r by (cases r) (auto simp: record_of_def)
  from r ps have c: "canonical_pairs spec ps" by (simp add: record_of_def)
  from c have n: "length ps = length (spec_fields spec)"
    unfolding canonical_pairs_def by (metis length_map)
  have ne: "ps \<noteq> []" and d: "distinct (map fst ps)"
    using assms c by (auto simp: wf_spec_def canonical_pairs_def)
  have v: "\<forall>kv \<in> set ps. fullmatch KEY_RX (fst kv) \<and> valid_value (spec_allow_empty spec) (snd kv)"
    using canonical_keys [OF assms c] c by (auto simp: canonical_pairs_def)
  then have "\<forall>kv \<in> set ps. NL \<notin> set (line_of kv)" by (metis valid_line_no_NL)
  note split = render_split [OF ne this]
  have "parse_lines (spec_allow_empty spec) {} (map line_of ps) = Inr ps"
    using d v by (simp add: parse_lines_ok)
  moreover have "check_keys spec (fst ` set ps) = Inr ()"
    using c by (auto simp: canonical_pairs_def check_keys_ok simp flip: set_map)
  moreover have "check_schema spec ps = Inr ()"
    using c by (simp add: canonical_pairs_def check_schema_ok)
  ultimately show "parse_ordered_record data spec = Inr r"
    using r ps split n c assms
    by (simp add: parse_ordered_record_def canonical_pairs_def ordered_record_new_def
        validated_canonical)
qed

lemma to_bytes_record_of:
  "wf_spec spec \<Longrightarrow> record_of spec r \<Longrightarrow> to_bytes r = Inr (concat (map render_line (rec_pairs r)))"
  by (simp add: to_bytes_def serialize_ordered_record_def record_of_def validated_canonical)

text \<open>A valid specification's parser and \<open>to_bytes\<close> are a canonical codec.\<close>

locale record_format =
  fixes spec :: record_spec
  assumes wf: "wf_spec spec"

sublocale record_format \<subseteq> canonical_codec "\<lambda>d. parse_ordered_record d spec" to_bytes "record_of spec"
proof
  fix d r
  assume "parse_ordered_record d spec = Inr r"
  with wf show "record_of spec r \<and> to_bytes r = Inr d"
    by (simp add: parse_ordered_record_ok to_bytes_record_of)
next
  fix r
  assume "record_of spec r"
  with wf show "\<exists>d. to_bytes r = Inr d \<and> parse_ordered_record d spec = Inr r"
    by (simp add: parse_ordered_record_ok to_bytes_record_of)
qed

text \<open>Fields of a record of a format can be read, and are valid values.\<close>

lemma record_of_get:
  assumes "wf_spec spec" and "record_of spec r" and "f \<in> set (spec_fields spec)"
  obtains v where "record_get r f = Inr v" and "valid_value (spec_allow_empty spec) v"
proof -
  from assms(2) have ps: "map fst (rec_pairs r) = spec_fields spec"
    and v: "\<forall>kv \<in> set (rec_pairs r). valid_value (spec_allow_empty spec) (snd kv)"
    by (auto simp: record_of_def canonical_pairs_def)
  from ps assms(3) have "f \<in> fst ` set (rec_pairs r)" by (metis list.set_map)
  then obtain x where x: "map_of (rec_pairs r) f = Some x"
    by (metis domIff dom_map_of_conv_image_fst not_None_eq)
  with v have "valid_value (spec_allow_empty spec) x" by (fastforce dest: map_of_SomeD)
  with x show ?thesis by (intro that) (auto simp: record_get_def dict_get_def)
qed

lemma record_of_field:
  "wf_spec spec \<Longrightarrow> record_of spec r \<Longrightarrow> f \<in> set (spec_fields spec) \<Longrightarrow> \<exists>v. record_get r f = Inr v"
  using record_of_get by metis

section \<open>Exceptions\<close>

definition is_RecordError :: "exn \<Rightarrow> bool" where
  "is_RecordError e \<longleftrightarrow> (\<exists>m. e = RecordError m)"

lemma is_RecordError_simp [simp]: "is_RecordError (RecordError m)"
  by (simp add: is_RecordError_def)

lemma raises_validate_value: "raises_only is_RecordError (validate_value v ae False)"
  by (simp add: validate_value_def)

lemma raises_collect_pairs: "raises_only is_RecordError (collect_pairs ae acc ps)"
  by (induction ae acc ps rule: collect_pairs.induct)
    (auto intro!: raises_only_bindE raises_validate_value)

lemma raises_check_keys: "raises_only is_RecordError (check_keys spec ks)"
  by (simp add: check_keys_def)

lemma raises_check_schema:
  "wf_spec spec \<Longrightarrow> fst ` set d = set (spec_fields spec) \<Longrightarrow>
   raises_only is_RecordError (check_schema spec d)"
  by (cases "map_of d ''schema''")
    (auto simp: check_schema_def dict_get_def wf_spec_def map_of_eq_None_iff split: option.splits)

lemma raises_validated_pairs:
  assumes "wf_spec spec"
  shows "raises_only is_RecordError (validated_pairs ps spec)"
  unfolding validated_pairs_def
proof (intro raises_only_bindE raises_collect_pairs raises_check_keys)
  fix d :: "(string \<times> string) list" and u
  assume "check_keys spec (fst ` set d) = Inr u"
  then have d: "fst ` set d = set (spec_fields spec)" by (simp add: check_keys_ok)
  with assms show "raises_only is_RecordError (check_schema spec d)" by (rule raises_check_schema)
  show "raises_only is_RecordError
      (mapE (\<lambda>f. bindE (dict_get d f) (\<lambda>v. Inr (f, v))) (spec_fields spec))"
    by (subst map_of_map_fields) (use d in auto)
qed

lemma raises_parse_lines: "raises_only is_RecordError (parse_lines ae seen lines)"
  by (induction ae seen lines rule: parse_lines.induct)
    (auto simp: Let_def split: prod.splits intro!: raises_only_bindE)

lemma raises_parse_ordered_record:
  assumes "wf_spec spec"
  shows "raises_only is_RecordError (parse_ordered_record data spec)"
proof -
  have "raises_only is_RecordError (ordered_record_new spec ps)" for ps
    unfolding ordered_record_new_def
    by (intro raises_only_bindE raises_validated_pairs assms raises_only_Inr)
  with assms show ?thesis
    unfolding parse_ordered_record_def Let_def
    by (auto intro!: raises_only_if raises_only_bindE raises_parse_lines raises_check_keys
        raises_check_schema simp: check_keys_ok) (metis fst_conv image_eqI)
qed

lemma raises_serialize_ordered_record:
  "wf_spec spec \<Longrightarrow> raises_only is_RecordError (serialize_ordered_record ps spec)"
  unfolding serialize_ordered_record_def
  by (intro raises_only_bindE raises_validated_pairs raises_only_Inr)

end
