(* ===== verification/Sha256.thy ===== *)
theory Sha256
  imports Text "HOL-Library.Word"
begin

text \<open>
  \<open>hashlib.sha256(data).hexdigest()\<close> of the standard library: FIPS 180-4 on 32-bit words, whose
  addition wraps. The digest text is 64 lowercase hexadecimal digits whatever the data, which is
  what the digest fields of the records require.
\<close>

unbundle bit_operations_syntax

type_synonym w32 = "32 word"

definition K256 :: "w32 list" where
  "K256 =
    [1116352408, 1899447441, 3049323471, 3921009573, 961987163, 1508970993, 2453635748, 2870763221,
     3624381080, 310598401, 607225278, 1426881987, 1925078388, 2162078206, 2614888103, 3248222580,
     3835390401, 4022224774, 264347078, 604807628, 770255983, 1249150122, 1555081692, 1996064986,
     2554220882, 2821834349, 2952996808, 3210313671, 3336571891, 3584528711, 113926993, 338241895,
     666307205, 773529912, 1294757372, 1396182291, 1695183700, 1986661051, 2177026350, 2456956037,
     2730485921, 2820302411, 3259730800, 3345764771, 3516065817, 3600352804, 4094571909, 275423344,
     430227734, 506948616, 659060556, 883997877, 958139571, 1322822218, 1537002063, 1747873779,
     1955562222, 2024104815, 2227730452, 2361852424, 2428436474, 2756734187, 3204031479, 3329325298]"

definition H256 :: "w32 list" where
  "H256 =
    [1779033703, 3144134277, 1013904242, 2773480762, 1359893119, 2600822924, 528734635, 1541459225]"

definition rotr :: "nat \<Rightarrow> w32 \<Rightarrow> w32" where
  "rotr n x = drop_bit n x OR push_bit (32 - n) x"

definition small_sigma0 :: "w32 \<Rightarrow> w32" where
  "small_sigma0 x = rotr 7 x XOR rotr 18 x XOR drop_bit 3 x"

definition small_sigma1 :: "w32 \<Rightarrow> w32" where
  "small_sigma1 x = rotr 17 x XOR rotr 19 x XOR drop_bit 10 x"

definition big_sigma0 :: "w32 \<Rightarrow> w32" where
  "big_sigma0 x = rotr 2 x XOR rotr 13 x XOR rotr 22 x"

definition big_sigma1 :: "w32 \<Rightarrow> w32" where
  "big_sigma1 x = rotr 6 x XOR rotr 11 x XOR rotr 25 x"

definition ch :: "w32 \<Rightarrow> w32 \<Rightarrow> w32 \<Rightarrow> w32" where
  "ch x y z = (x AND y) XOR (NOT x AND z)"

definition maj :: "w32 \<Rightarrow> w32 \<Rightarrow> w32 \<Rightarrow> w32" where
  "maj x y z = (x AND y) XOR (x AND z) XOR (y AND z)"

text \<open>The message schedule: the window of the last 16 words, oldest first, extended \<open>n\<close> times.\<close>

fun schedule :: "nat \<Rightarrow> w32 list \<Rightarrow> w32 list" where
  "schedule 0 window = window"
| "schedule (Suc n) window =
     hd window # schedule n (tl window @
       [small_sigma1 (window ! 14) + window ! 9 + small_sigma0 (window ! 1) + window ! 0])"

fun round :: "w32 list \<Rightarrow> w32 \<times> w32 \<Rightarrow> w32 list" where
  "round [a, b, c, d, e, f, g, h] (k, w) =
     (let t1 = h + big_sigma1 e + ch e f g + k + w;
          t2 = big_sigma0 a + maj a b c
      in [t1 + t2, a, b, c, d + t1, e, f, g])"
| "round s _ = s"

definition compress :: "w32 list \<Rightarrow> w32 list \<Rightarrow> w32 list" where
  "compress hash block = map2 (+) hash (foldl round hash (zip K256 (schedule 48 block)))"

fun be_words :: "nat list \<Rightarrow> w32 list" where
  "be_words (a # b # c # d # rest) =
     word_of_nat (((a * 256 + b) * 256 + c) * 256 + d) # be_words rest"
| "be_words _ = []"

definition be_bytes :: "nat \<Rightarrow> nat \<Rightarrow> nat list" where
  "be_bytes k n = map (\<lambda>i. n div 256 ^ i mod 256) (rev [0..<k])"

definition pad_message :: "nat list \<Rightarrow> nat list" where
  "pad_message m =
     m @ [128] @ replicate ((119 - length m mod 64) mod 64) 0 @ be_bytes 8 (8 * length m)"

fun blocks :: "'a list \<Rightarrow> 'a list list" where
  "blocks [] = []"
| "blocks (x # xs) = take 16 (x # xs) # blocks (drop 15 xs)"

definition sha256 :: "string \<Rightarrow> w32 list" where
  "sha256 data = foldl compress H256 (blocks (be_words (pad_message (map code data))))"

definition hex_digit :: "nat \<Rightarrow> char" where
  "hex_digit n = (if n < 10 then char_of (48 + n) else char_of (87 + n))"

definition hex_word :: "w32 \<Rightarrow> string" where
  "hex_word x = map (\<lambda>i. hex_digit (unat (drop_bit (4 * i) x) mod 16)) (rev [0..<8])"

definition sha256_hex :: "string \<Rightarrow> string" where
  "sha256_hex data = concat (map hex_word (sha256 data))"

section \<open>The shape of a digest\<close>

lemma round_length [simp]: "length (round s kw) = length s"
  by (induction s kw rule: round.induct) (auto simp: Let_def)

lemma foldl_round_length: "length (foldl round s kws) = length s"
  by (induction kws arbitrary: s) auto

lemma compress_length: "length (compress h b) = length h"
  by (simp add: compress_def foldl_round_length)

lemma foldl_compress_length: "length (foldl compress h bs) = length h"
  by (induction bs arbitrary: h) (auto simp: compress_length)

lemma sha256_length: "length (sha256 data) = 8"
  by (simp add: sha256_def foldl_compress_length H256_def)

lemma hex_digit_hex: "n < 16 \<Longrightarrow> is_hex (hex_digit n)"
  by (simp add: hex_digit_def is_hex_def is_digit_def code_def)

lemma hex_word_shape: "length (hex_word w) = 8" "c \<in> set (hex_word w) \<Longrightarrow> is_hex c"
  by (auto simp: hex_word_def hex_digit_hex)

lemma length_concat_hex: "length (concat (map hex_word ws)) = 8 * length ws"
  by (induction ws) (auto simp: hex_word_shape)

lemma sha256_hex_shape: "length (sha256_hex data) = 64" "c \<in> set (sha256_hex data) \<Longrightarrow> is_hex c"
  by (auto simp: sha256_hex_def length_concat_hex sha256_length hex_word_shape)

end
