(* ===== verification/CsrProtocol.thy ===== *)
theory CsrProtocol
  imports Records Sha256
begin

text \<open>
  \<^verbatim>\<open>src/platform_pki/csr_protocol.py\<close>: the typed models of the retained CSR protocol
  records. Each record kind has a specification, a parser with its checks in the code's order, a
  serializer that parses what it wrote, and the typed value the parser returns. The two binding
  validators connect a request with its approval, and a response with its candidate, through the
  SHA-256 of the canonical bytes.
\<close>

section \<open>Specifications\<close>

definition CSR_REQUEST_FIELDS :: "string list" where
  "CSR_REQUEST_FIELDS = [''schema'', ''request_id'', ''nonce'', ''created_epoch'', ''expires_epoch'',
     ''operation'', ''service'', ''target'', ''requester_principal'', ''inventory_sha256'',
     ''csr_sha256'', ''csr_spki_sha256'', ''current_cert_sha256'', ''profile'',
     ''response_principal'']"

definition CSR_APPROVAL_FIELDS :: "string list" where
  "CSR_APPROVAL_FIELDS = [''schema'', ''request_id'', ''nonce'', ''created_epoch'', ''expires_epoch'',
     ''approver_principal'', ''request_sha256'', ''csr_sha256'', ''inventory_sha256'',
     ''operation'', ''service'', ''target'', ''profile'']"

definition CSR_RESPONSE_FIELDS :: "string list" where
  "CSR_RESPONSE_FIELDS = [''schema'', ''request_id'', ''nonce'', ''operation'', ''service'',
     ''target'', ''request_sha256'', ''approval_sha256'', ''inventory_sha256'', ''csr_sha256'',
     ''csr_spki_sha256'', ''certificate_sha256'', ''certificate_spki_sha256'', ''chain_sha256'',
     ''issuer_root'', ''issuer_intermediate'', ''serial'', ''not_before_epoch'',
     ''not_after_epoch'', ''candidate_state'', ''response_principal'', ''created_epoch'']"

definition CSR_CANDIDATE_FIELDS :: "string list" where
  "CSR_CANDIDATE_FIELDS = [''schema'', ''request_id'', ''nonce'', ''operation'', ''service'',
     ''target'', ''state'', ''request_sha256'', ''approval_sha256'', ''inventory_sha256'',
     ''csr_sha256'', ''csr_spki_sha256'', ''certificate_sha256'', ''chain_sha256'',
     ''issuer_root'', ''issuer_intermediate'', ''serial'', ''response_sha256'',
     ''response_signature_sha256'', ''created_epoch'']"

definition CSR_REPLAY_REQUEST_FIELDS :: "string list" where
  "CSR_REPLAY_REQUEST_FIELDS = [''schema'', ''request_id'', ''nonce'', ''operation'', ''service'',
     ''target'', ''request_sha256'', ''approval_sha256'', ''outcome'']"

definition CSR_REPLAY_NONCE_FIELDS :: "string list" where
  "CSR_REPLAY_NONCE_FIELDS =
     [''schema'', ''nonce'', ''request_id'', ''request_sha256'', ''outcome'']"

definition CSR_TERMINAL_FIELDS :: "string list" where
  "CSR_TERMINAL_FIELDS = [''schema'', ''transaction'', ''request_id'', ''operation'', ''service'',
     ''outcome'', ''committed'']"

text \<open>\<open>RecordSpec(fields, schema="1")\<close>.\<close>

definition schema_1 :: "string list \<Rightarrow> record_spec" where
  "schema_1 keys = \<lparr>spec_fields = keys, spec_allow_empty = False, spec_schema = Some ''1''\<rparr>"

definition CSR_REQUEST_SPEC :: record_spec where
  "CSR_REQUEST_SPEC = schema_1 CSR_REQUEST_FIELDS"
definition CSR_APPROVAL_SPEC :: record_spec where
  "CSR_APPROVAL_SPEC = schema_1 CSR_APPROVAL_FIELDS"
definition CSR_RESPONSE_SPEC :: record_spec where
  "CSR_RESPONSE_SPEC = schema_1 CSR_RESPONSE_FIELDS"
definition CSR_CANDIDATE_SPEC :: record_spec where
  "CSR_CANDIDATE_SPEC = schema_1 CSR_CANDIDATE_FIELDS"
definition CSR_REPLAY_REQUEST_SPEC :: record_spec where
  "CSR_REPLAY_REQUEST_SPEC = schema_1 CSR_REPLAY_REQUEST_FIELDS"
definition CSR_REPLAY_NONCE_SPEC :: record_spec where
  "CSR_REPLAY_NONCE_SPEC = schema_1 CSR_REPLAY_NONCE_FIELDS"
definition CSR_TERMINAL_SPEC :: record_spec where
  "CSR_TERMINAL_SPEC = schema_1 CSR_TERMINAL_FIELDS"

definition CSR_REQUEST_MAX_AGE_SECONDS :: int where "CSR_REQUEST_MAX_AGE_SECONDS = 604800"
definition CSR_APPROVAL_MAX_AGE_SECONDS :: int where "CSR_APPROVAL_MAX_AGE_SECONDS = 86400"
definition CSR_SOLE_OPERATOR_MIN_DELAY_SECONDS :: int where
  "CSR_SOLE_OPERATOR_MIN_DELAY_SECONDS = 86400"

datatype csr_operation = ISSUE | MIGRATE | RENEW

fun operation_value :: "csr_operation \<Rightarrow> string" where
  "operation_value ISSUE = ''issue''"
| "operation_value MIGRATE = ''migrate''"
| "operation_value RENEW = ''renew''"

datatype csr_terminal_outcome = PUBLISHED | FAILED_PRE_COMMIT

fun outcome_value :: "csr_terminal_outcome \<Rightarrow> string" where
  "outcome_value PUBLISHED = ''published''"
| "outcome_value FAILED_PRE_COMMIT = ''failed-pre-commit''"

definition PROFILE :: string where
  "PROFILE = ''server-p384-sha384-v1''"

section \<open>Typed records\<close>

record csr_request =
  rq_record :: ordered_record
  rq_operation :: csr_operation
  rq_created :: int
  rq_expires :: int

record csr_approval =
  ap_record :: ordered_record
  ap_operation :: csr_operation
  ap_created :: int
  ap_expires :: int

record csr_response =
  rs_record :: ordered_record
  rs_operation :: csr_operation
  rs_not_before :: int
  rs_not_after :: int
  rs_created :: int

record csr_candidate =
  cn_record :: ordered_record
  cn_operation :: csr_operation
  cn_created :: int

record csr_replay_request =
  rr_record :: ordered_record
  rr_operation :: csr_operation

record csr_replay_nonce =
  rn_record :: ordered_record

record csr_terminal =
  tm_record :: ordered_record
  tm_operation :: csr_operation
  tm_outcome :: csr_terminal_outcome
  tm_committed :: bool

section \<open>Field checks\<close>

text \<open>\<open>except RecordError as error: raise CsrProtocolError(str(error))\<close>.\<close>

definition as_protocol_error :: "'a result \<Rightarrow> 'a result" where
  "as_protocol_error m = (case m of Inl (RecordError e) \<Rightarrow> Inl (CsrProtocolError e) | _ \<Rightarrow> m)"

definition parse_record :: "string \<Rightarrow> record_spec \<Rightarrow> ordered_record result" where
  "parse_record data spec = as_protocol_error (parse_ordered_record data spec)"

definition pattern_field :: "ordered_record \<Rightarrow> string \<Rightarrow> char rx \<Rightarrow> string result" where
  "pattern_field r field rx =
     bindE (record_get r field) (\<lambda>value.
       if \<not> fullmatch rx value then
         Inl (CsrProtocolError (''CSR protocol field '' @ field @ '' is invalid''))
       else Inr value)"

definition csr_operation_of :: "string \<Rightarrow> csr_operation option" where
  "csr_operation_of s = find (\<lambda>x. operation_value x = s) [ISSUE, MIGRATE, RENEW]"

definition operation :: "ordered_record \<Rightarrow> csr_operation result" where
  "operation r =
     bindE (record_get r ''operation'') (\<lambda>s.
       case csr_operation_of s of
         None \<Rightarrow> Inl (CsrProtocolError ''CSR protocol operation is invalid'')
       | Some x \<Rightarrow> Inr x)"

definition epoch :: "ordered_record \<Rightarrow> string \<Rightarrow> int result" where
  "epoch r field = bindE (pattern_field r field DECIMAL_RX) int_of_digits"

definition serial :: "ordered_record \<Rightarrow> string result" where
  "serial r =
     bindE (pattern_field r ''serial'' SERIAL_RX) (\<lambda>s.
       if length s > 2 \<and> starts_with ''00'' s then
         Inl (CsrProtocolError ''CSR protocol field serial is not canonical'')
       else Inr s)"

definition digest :: "ordered_record \<Rightarrow> bool \<Rightarrow> string \<Rightarrow> unit result" where
  "digest r allow_none field =
     bindE (if allow_none then bindE (record_get r field) (\<lambda>v. Inr (v = ''none'')) else Inr False)
       (\<lambda>none. if none then Inr () else bindE (pattern_field r field HEX64_RX) (\<lambda>_. Inr ()))"

definition identity_fields :: "ordered_record \<Rightarrow> bool \<Rightarrow> unit result" where
  "identity_fields r nonce =
     bindE (pattern_field r ''request_id'' HEX32_RX) (\<lambda>_.
       if nonce then bindE (pattern_field r ''nonce'' HEX64_RX) (\<lambda>_. Inr ()) else Inr ())"

definition service_target :: "ordered_record \<Rightarrow> unit result" where
  "service_target r =
     bindE (pattern_field r ''service'' SERVICE_RX) (\<lambda>_.
     bindE (pattern_field r ''target'' PRINCIPAL_RX) (\<lambda>_. Inr ()))"

text \<open>\<open>if record[field] != expected: raise CsrProtocolError(message)\<close>.\<close>

definition expect_field :: "ordered_record \<Rightarrow> string \<Rightarrow> string \<Rightarrow> string \<Rightarrow> unit result" where
  "expect_field r field expected message =
     bindE (record_get r field) (\<lambda>v. requireE (v = expected) (CsrProtocolError message))"

text \<open>The comparison of one field in two records.\<close>

definition same_field :: "ordered_record \<Rightarrow> ordered_record \<Rightarrow> string \<Rightarrow> string \<Rightarrow> unit result" where
  "same_field a b message field =
     bindE (record_get a field) (\<lambda>v. bindE (record_get b field) (\<lambda>w.
       requireE (v = w) (CsrProtocolError (message @ field))))"

section \<open>Parsers\<close>

definition parse_csr_request :: "string \<Rightarrow> csr_request result" where
  "parse_csr_request data =
     bindE (parse_record data CSR_REQUEST_SPEC) (\<lambda>r.
     bindE (identity_fields r True) (\<lambda>_.
     bindE (service_target r) (\<lambda>_.
     bindE (pattern_field r ''requester_principal'' PRINCIPAL_RX) (\<lambda>requester.
     bindE (pattern_field r ''response_principal'' PRINCIPAL_RX) (\<lambda>_.
     bindE (expect_field r ''target'' requester
       ''CSR requester principal must exactly match the target identity'') (\<lambda>_.
     bindE (operation r) (\<lambda>op.
     bindE (forE (digest r False) [''inventory_sha256'', ''csr_sha256'', ''csr_spki_sha256'']) (\<lambda>_.
     bindE (digest r True ''current_cert_sha256'') (\<lambda>_.
     bindE (record_get r ''current_cert_sha256'') (\<lambda>current.
     if (op = ISSUE) \<noteq> (current = ''none'') then
       Inl (CsrProtocolError ''CSR request predecessor does not match operation'')
     else
     bindE (expect_field r ''profile'' PROFILE ''CSR request profile is invalid'') (\<lambda>_.
     bindE (epoch r ''created_epoch'') (\<lambda>created.
     bindE (epoch r ''expires_epoch'') (\<lambda>expires.
     if expires \<le> created then
       Inl (CsrProtocolError ''CSR request validity interval is invalid'')
     else if expires - created > CSR_REQUEST_MAX_AGE_SECONDS then
       Inl (CsrProtocolError ''CSR request validity interval exceeds policy'')
     else Inr \<lparr>rq_record = r, rq_operation = op, rq_created = created,
       rq_expires = expires\<rparr>)))))))))))))"

definition parse_csr_approval_record :: "string \<Rightarrow> ordered_record result" where
  "parse_csr_approval_record data = parse_record data CSR_APPROVAL_SPEC"

definition parse_csr_approval :: "string \<Rightarrow> csr_approval result" where
  "parse_csr_approval data =
     bindE (parse_csr_approval_record data) (\<lambda>r.
     bindE (identity_fields r True) (\<lambda>_.
     bindE (service_target r) (\<lambda>_.
     bindE (pattern_field r ''approver_principal'' PRINCIPAL_RX) (\<lambda>_.
     bindE (operation r) (\<lambda>op.
     bindE (forE (digest r False) [''request_sha256'', ''csr_sha256'', ''inventory_sha256'']) (\<lambda>_.
     bindE (expect_field r ''profile'' PROFILE ''CSR approval profile is invalid'') (\<lambda>_.
     bindE (epoch r ''created_epoch'') (\<lambda>created.
     bindE (epoch r ''expires_epoch'') (\<lambda>expires.
     if expires \<le> created then
       Inl (CsrProtocolError ''CSR approval validity interval is invalid'')
     else if expires - created > CSR_APPROVAL_MAX_AGE_SECONDS then
       Inl (CsrProtocolError ''CSR approval validity interval exceeds policy'')
     else Inr \<lparr>ap_record = r, ap_operation = op, ap_created = created,
       ap_expires = expires\<rparr>)))))))))"

text \<open>The issuer generations of a response and of a candidate.\<close>

definition issuer_generations :: "ordered_record \<Rightarrow> string \<Rightarrow> unit result" where
  "issuer_generations r message =
     bindE (pattern_field r ''issuer_root'' ROOT_GENERATION_RX) (\<lambda>root.
     bindE (pattern_field r ''issuer_intermediate'' INTERMEDIATE_GENERATION_RX) (\<lambda>intermediate.
       requireE (starts_with (root @ ''-i'') intermediate) (CsrProtocolError message)))"

definition parse_csr_response :: "string \<Rightarrow> csr_response result" where
  "parse_csr_response data =
     bindE (parse_record data CSR_RESPONSE_SPEC) (\<lambda>r.
     bindE (identity_fields r True) (\<lambda>_.
     bindE (service_target r) (\<lambda>_.
     bindE (operation r) (\<lambda>op.
     bindE (forE (digest r False) [''request_sha256'', ''approval_sha256'', ''inventory_sha256'',
       ''csr_sha256'', ''csr_spki_sha256'', ''certificate_sha256'', ''certificate_spki_sha256'',
       ''chain_sha256'']) (\<lambda>_.
     bindE (record_get r ''csr_spki_sha256'') (\<lambda>spki.
     bindE (expect_field r ''certificate_spki_sha256'' spki
       ''CSR response SPKI binding is invalid'') (\<lambda>_.
     bindE (issuer_generations r ''CSR response issuer generations do not match'') (\<lambda>_.
     bindE (serial r) (\<lambda>_.
     bindE (pattern_field r ''response_principal'' PRINCIPAL_RX) (\<lambda>_.
     bindE (expect_field r ''candidate_state'' ''pending''
       ''CSR response candidate state is invalid'') (\<lambda>_.
     bindE (epoch r ''not_before_epoch'') (\<lambda>not_before.
     bindE (epoch r ''not_after_epoch'') (\<lambda>not_after.
     bindE (epoch r ''created_epoch'') (\<lambda>created.
     if not_after \<le> not_before then
       Inl (CsrProtocolError ''CSR response validity interval is invalid'')
     else Inr \<lparr>rs_record = r, rs_operation = op, rs_not_before = not_before,
       rs_not_after = not_after, rs_created = created\<rparr>))))))))))))))"

definition parse_csr_candidate :: "string \<Rightarrow> csr_candidate result" where
  "parse_csr_candidate data =
     bindE (parse_record data CSR_CANDIDATE_SPEC) (\<lambda>r.
     bindE (identity_fields r True) (\<lambda>_.
     bindE (service_target r) (\<lambda>_.
     bindE (operation r) (\<lambda>op.
     bindE (forE (digest r False) [''request_sha256'', ''approval_sha256'', ''inventory_sha256'',
       ''csr_sha256'', ''csr_spki_sha256'', ''certificate_sha256'', ''chain_sha256'',
       ''response_sha256'', ''response_signature_sha256'']) (\<lambda>_.
     bindE (issuer_generations r ''CSR candidate issuer generations do not match'') (\<lambda>_.
     bindE (serial r) (\<lambda>_.
     bindE (expect_field r ''state'' ''pending'' ''CSR candidate state is invalid'') (\<lambda>_.
     bindE (epoch r ''created_epoch'') (\<lambda>created.
       Inr \<lparr>cn_record = r, cn_operation = op, cn_created = created\<rparr>)))))))))"

definition parse_csr_replay_request :: "string \<Rightarrow> csr_replay_request result" where
  "parse_csr_replay_request data =
     bindE (parse_record data CSR_REPLAY_REQUEST_SPEC) (\<lambda>r.
     bindE (identity_fields r True) (\<lambda>_.
     bindE (service_target r) (\<lambda>_.
     bindE (operation r) (\<lambda>op.
     bindE (forE (digest r False) [''request_sha256'', ''approval_sha256'']) (\<lambda>_.
     bindE (expect_field r ''outcome'' ''reserved'' ''CSR replay request outcome is invalid'') (\<lambda>_.
       Inr \<lparr>rr_record = r, rr_operation = op\<rparr>))))))"

definition parse_csr_replay_nonce :: "string \<Rightarrow> csr_replay_nonce result" where
  "parse_csr_replay_nonce data =
     bindE (parse_record data CSR_REPLAY_NONCE_SPEC) (\<lambda>r.
     bindE (identity_fields r True) (\<lambda>_.
     bindE (digest r False ''request_sha256'') (\<lambda>_.
     bindE (expect_field r ''outcome'' ''reserved'' ''CSR replay nonce outcome is invalid'') (\<lambda>_.
       Inr \<lparr>rn_record = r\<rparr>))))"

definition terminal_outcome :: "ordered_record \<Rightarrow> csr_terminal_outcome result" where
  "terminal_outcome r =
     bindE (record_get r ''outcome'') (\<lambda>s.
       case find (\<lambda>x. outcome_value x = s) [PUBLISHED, FAILED_PRE_COMMIT] of
         None \<Rightarrow> Inl (CsrProtocolError ''CSR terminal outcome is invalid'')
       | Some x \<Rightarrow> Inr x)"

definition parse_csr_terminal :: "string \<Rightarrow> csr_terminal result" where
  "parse_csr_terminal data =
     bindE (parse_record data CSR_TERMINAL_SPEC) (\<lambda>r.
     bindE (identity_fields r False) (\<lambda>_.
     bindE (operation r) (\<lambda>op.
     bindE (record_get r ''request_id'') (\<lambda>request_id.
     bindE (expect_field r ''transaction'' (''csr-'' @ request_id)
       ''CSR terminal transaction binding is invalid'') (\<lambda>_.
     bindE (pattern_field r ''service'' SERVICE_RX) (\<lambda>_.
     bindE (terminal_outcome r) (\<lambda>outcome.
     bindE (record_get r ''committed'') (\<lambda>c.
     if c \<notin> {''false'', ''true''} then
       Inl (CsrProtocolError ''CSR terminal committed field is invalid'')
     else if (c = ''true'') \<noteq> (outcome = PUBLISHED) then
       Inl (CsrProtocolError ''CSR terminal outcome and commit state conflict'')
     else Inr \<lparr>tm_record = r, tm_operation = op, tm_outcome = outcome,
       tm_committed = (c = ''true'')\<rparr>))))))))"

section \<open>Bindings\<close>

definition validate_request_approval_binding ::
  "csr_request \<Rightarrow> csr_approval \<Rightarrow> bool option \<Rightarrow> unit result" where
  "validate_request_approval_binding request approval signer_keys_match =
     bindE (forE (same_field (rq_record request) (ap_record approval)
         ''CSR approval does not bind request field: '')
       [''request_id'', ''nonce'', ''operation'', ''service'', ''target'', ''csr_sha256'',
        ''inventory_sha256'', ''profile'']) (\<lambda>_.
     bindE (record_get (ap_record approval) ''request_sha256'') (\<lambda>bound.
     bindE (to_bytes (rq_record request)) (\<lambda>data.
     if bound \<noteq> sha256_hex data then
       Inl (CsrProtocolError ''CSR approval does not bind canonical request bytes'')
     else if ap_created approval < rq_created request then
       Inl (CsrProtocolError ''CSR approval predates its request'')
     else if signer_keys_match = Some True \<and>
         ap_created approval - rq_created request < CSR_SOLE_OPERATOR_MIN_DELAY_SECONDS then
       Inl (CsrProtocolError ''sole-operator CSR approval delay has not elapsed'')
     else Inr ())))"

definition validate_response_candidate_binding :: "csr_response \<Rightarrow> csr_candidate \<Rightarrow> unit result" where
  "validate_response_candidate_binding response candidate =
     bindE (forE (same_field (rs_record response) (cn_record candidate)
         ''CSR candidate does not bind response field '')
       [''request_id'', ''nonce'', ''operation'', ''service'', ''target'', ''request_sha256'',
        ''approval_sha256'', ''inventory_sha256'', ''csr_sha256'', ''csr_spki_sha256'',
        ''certificate_sha256'', ''chain_sha256'', ''issuer_root'', ''issuer_intermediate'',
        ''serial'', ''created_epoch'']) (\<lambda>_.
     bindE (record_get (cn_record candidate) ''response_sha256'') (\<lambda>bound.
     bindE (to_bytes (rs_record response)) (\<lambda>data.
       requireE (bound = sha256_hex data)
         (CsrProtocolError ''CSR candidate does not bind canonical response bytes''))))"

section \<open>Serializers\<close>

text \<open>\<open>_serialize\<close>: the bytes are parsed again before they are returned.\<close>

definition csr_serialize ::
  "(string \<times> string) list \<Rightarrow> record_spec \<Rightarrow> (string \<Rightarrow> 'a result) \<Rightarrow> string result" where
  "csr_serialize values spec parser =
     bindE (as_protocol_error (serialize_ordered_record values spec)) (\<lambda>data.
     bindE (parser data) (\<lambda>_. Inr data))"

definition serialize_csr_request :: "(string \<times> string) list \<Rightarrow> string result" where
  "serialize_csr_request values = csr_serialize values CSR_REQUEST_SPEC parse_csr_request"
definition serialize_csr_approval :: "(string \<times> string) list \<Rightarrow> string result" where
  "serialize_csr_approval values = csr_serialize values CSR_APPROVAL_SPEC parse_csr_approval"
definition serialize_csr_response :: "(string \<times> string) list \<Rightarrow> string result" where
  "serialize_csr_response values = csr_serialize values CSR_RESPONSE_SPEC parse_csr_response"
definition serialize_csr_candidate :: "(string \<times> string) list \<Rightarrow> string result" where
  "serialize_csr_candidate values = csr_serialize values CSR_CANDIDATE_SPEC parse_csr_candidate"
definition serialize_csr_replay_request :: "(string \<times> string) list \<Rightarrow> string result" where
  "serialize_csr_replay_request values =
     csr_serialize values CSR_REPLAY_REQUEST_SPEC parse_csr_replay_request"
definition serialize_csr_replay_nonce :: "(string \<times> string) list \<Rightarrow> string result" where
  "serialize_csr_replay_nonce values =
     csr_serialize values CSR_REPLAY_NONCE_SPEC parse_csr_replay_nonce"
definition serialize_csr_terminal :: "(string \<times> string) list \<Rightarrow> string result" where
  "serialize_csr_terminal values = csr_serialize values CSR_TERMINAL_SPEC parse_csr_terminal"

end
