(* ===== verification/CsrContracts.thy ===== *)
theory CsrContracts
  imports CsrProtocol
begin

text \<open>
  What the CSR protocol records promise. Every specification of the protocol is well formed, so
  the locale \<open>record_format\<close> applies to each; the locale \<open>csr_format\<close> extends it with a typed
  parser, and gives the round trips of the seven serializers at once. The accepted records are
  described by predicates on their field values.
\<close>

section \<open>The specifications\<close>

lemmas csr_fields_defs =
  CSR_REQUEST_FIELDS_def CSR_APPROVAL_FIELDS_def CSR_RESPONSE_FIELDS_def CSR_CANDIDATE_FIELDS_def
  CSR_REPLAY_REQUEST_FIELDS_def CSR_REPLAY_NONCE_FIELDS_def CSR_TERMINAL_FIELDS_def

lemmas csr_spec_defs =
  CSR_REQUEST_SPEC_def CSR_APPROVAL_SPEC_def CSR_RESPONSE_SPEC_def CSR_CANDIDATE_SPEC_def
  CSR_REPLAY_REQUEST_SPEC_def CSR_REPLAY_NONCE_SPEC_def CSR_TERMINAL_SPEC_def

lemma wf_schema_1:
  assumes "''schema'' \<in> set keys" and "distinct keys" and "list_all (list_all is_key_char) keys"
    and "[] \<notin> set keys"
  shows "wf_spec (schema_1 keys)"
proof -
  have "is_print (CHR ''1'')" by (simp add: is_print_def code_def)
  moreover have "\<forall>f \<in> set keys. fullmatch KEY_RX f"
    using assms by (auto simp: KEY_iff list_all_iff)
  ultimately show ?thesis using assms
    by (auto simp: wf_spec_def schema_1_def valid_value_def)
qed

lemma csr_specs_wf:
  "wf_spec CSR_REQUEST_SPEC" "wf_spec CSR_APPROVAL_SPEC" "wf_spec CSR_RESPONSE_SPEC"
  "wf_spec CSR_CANDIDATE_SPEC" "wf_spec CSR_REPLAY_REQUEST_SPEC" "wf_spec CSR_REPLAY_NONCE_SPEC"
  "wf_spec CSR_TERMINAL_SPEC"
  unfolding csr_spec_defs csr_fields_defs
  by ((rule wf_schema_1; simp add: is_key_char_def is_lower_def is_digit_def code_def)+)

lemma csr_spec_fields [simp]:
  "spec_fields CSR_REQUEST_SPEC = CSR_REQUEST_FIELDS"
  "spec_fields CSR_APPROVAL_SPEC = CSR_APPROVAL_FIELDS"
  "spec_fields CSR_RESPONSE_SPEC = CSR_RESPONSE_FIELDS"
  "spec_fields CSR_CANDIDATE_SPEC = CSR_CANDIDATE_FIELDS"
  "spec_fields CSR_REPLAY_REQUEST_SPEC = CSR_REPLAY_REQUEST_FIELDS"
  "spec_fields CSR_REPLAY_NONCE_SPEC = CSR_REPLAY_NONCE_FIELDS"
  "spec_fields CSR_TERMINAL_SPEC = CSR_TERMINAL_FIELDS"
  by (simp_all add: csr_spec_defs schema_1_def)

section \<open>Fields of a record\<close>

text \<open>The value of a field that the record has.\<close>

definition fld :: "ordered_record \<Rightarrow> string \<Rightarrow> string" where
  "fld r f = the (map_of (rec_pairs r) f)"

lemma record_get_fld:
  assumes "wf_spec spec" and "record_of spec r" and "f \<in> set (spec_fields spec)"
  shows "record_get r f = Inr (fld r f)"
  using record_of_field [OF assms] by (auto simp: record_get_def dict_get_def fld_def split: option.splits)

lemma parse_record_ok [ok_iff]:
  "parse_record d spec = Inr r \<longleftrightarrow> parse_ordered_record d spec = Inr r"
  by (cases "parse_ordered_record d spec") (auto simp: parse_record_def as_protocol_error_def split: exn.splits)

lemma as_protocol_error_ok [ok_iff]: "as_protocol_error m = Inr r \<longleftrightarrow> m = Inr r"
  by (cases m) (auto simp: as_protocol_error_def split: exn.splits)

lemma csr_operation_of_Some: "csr_operation_of s = Some x \<longleftrightarrow> s = operation_value x"
  by (cases x) (auto simp: csr_operation_of_def)

lemma csr_operation_of_value [simp]: "csr_operation_of (operation_value x) = Some x"
  by (simp add: csr_operation_of_Some)

lemma operation_value_inj [simp]: "operation_value x = operation_value y \<longleftrightarrow> x = y"
  by (cases x; cases y) auto

named_theorems field_ok "what a field check requires of the field's value"

lemma pattern_field_ok [field_ok]:
  "record_get r f = Inr v \<Longrightarrow> pattern_field r f rx = Inr w \<longleftrightarrow> w = v \<and> fullmatch rx v"
  by (auto simp: pattern_field_def)

lemma operation_ok [field_ok]:
  "record_get r ''operation'' = Inr v \<Longrightarrow> operation r = Inr x \<longleftrightarrow> v = operation_value x"
  by (cases "csr_operation_of v") (auto simp: operation_def csr_operation_of_Some)

text \<open>The epoch texts that the interpreter converts: canonical, at most 4300 digits.\<close>

definition epoch_text :: "string \<Rightarrow> bool" where
  "epoch_text v \<longleftrightarrow> canonical_digits 10 v \<and> length v \<le> 4300"

definition epoch_value :: "string \<Rightarrow> int" where
  "epoch_value v = int (text_nat 10 v)"

lemma epoch_ok [field_ok]:
  "record_get r f = Inr v \<Longrightarrow> epoch r f = Inr n \<longleftrightarrow> epoch_text v \<and> n = epoch_value v"
  by (auto simp: epoch_def pattern_field_def DECIMAL_iff epoch_text_def int_of_digits_def
      int_max_str_digits_def ok_iff epoch_value_def)

definition is_digest :: "string \<Rightarrow> bool" where
  "is_digest v \<longleftrightarrow> length v = 64 \<and> (\<forall>c \<in> set v. is_hex c)"

lemma digest_ok [field_ok]:
  "record_get r f = Inr v \<Longrightarrow>
     digest r allow f = Inr u \<longleftrightarrow> (allow \<and> v = ''none'') \<or> is_digest v"
  by (auto simp: digest_def pattern_field_def HEX64_iff is_digest_def ok_iff)

lemma identity_fields_ok [field_ok]:
  "record_get r ''request_id'' = Inr i \<Longrightarrow> (nonce \<Longrightarrow> record_get r ''nonce'' = Inr n) \<Longrightarrow>
     identity_fields r nonce = Inr u \<longleftrightarrow> fullmatch HEX32_RX i \<and> (nonce \<longrightarrow> is_digest n)"
  by (cases nonce) (auto simp: identity_fields_def pattern_field_def HEX64_iff is_digest_def ok_iff)

lemma service_target_ok [field_ok]:
  "record_get r ''service'' = Inr s \<Longrightarrow> record_get r ''target'' = Inr t \<Longrightarrow>
     service_target r = Inr u \<longleftrightarrow> fullmatch SERVICE_RX s \<and> fullmatch PRINCIPAL_RX t"
  by (auto simp: service_target_def pattern_field_def ok_iff)

lemma expect_field_ok [field_ok]:
  "record_get r f = Inr v \<Longrightarrow> expect_field r f x m = Inr u \<longleftrightarrow> v = x"
  by (auto simp: expect_field_def ok_iff)

lemma same_field_ok [ok_iff]:
  "same_field a b m f = Inr u \<longleftrightarrow> (\<exists>v. record_get a f = Inr v \<and> record_get b f = Inr v)"
  by (auto simp: same_field_def ok_iff)

lemma terminal_outcome_ok [field_ok]:
  "record_get r ''outcome'' = Inr v \<Longrightarrow> terminal_outcome r = Inr x \<longleftrightarrow> v = outcome_value x"
  by (cases x) (auto simp: terminal_outcome_def)

lemma map_of_map_keys: "f \<in> set ks \<Longrightarrow> map_of (map (\<lambda>k. (k, g k)) ks) f = Some (g f)"
  by (induction ks) auto

section \<open>Typed formats\<close>

text \<open>
  A record format with a typed parser: the parser accepts the records of the format whose typed
  value is valid. The typed parser is then a canonical codec too, and the serializer that parses
  its own output writes exactly the texts the parser accepts.
\<close>

locale csr_format = record_format spec for spec :: record_spec +
  fixes parser :: "string \<Rightarrow> 'q result"
    and typed :: "'q \<Rightarrow> ordered_record"
    and valid :: "'q \<Rightarrow> bool"
  assumes parser_iff: "parser d = Inr q \<longleftrightarrow> parse_ordered_record d spec = Inr (typed q) \<and> valid q"

sublocale csr_format \<subseteq> typed: canonical_codec parser "\<lambda>q. to_bytes (typed q)"
    "\<lambda>q. record_of spec (typed q) \<and> valid q"
  by unfold_locales (auto simp: parser_iff parse_iff dest: serialize_parses)

context csr_format
begin

lemma serialize_record:
  assumes "record_of spec r"
  shows "serialize_ordered_record (rec_pairs r) spec = to_bytes r"
  using assms by (simp add: to_bytes_def record_of_def)

lemma serialize_parsed:
  assumes "parser d = Inr q"
  shows "csr_serialize (rec_pairs (typed q)) spec parser = Inr d"
  using assms typed.parse_canonical [OF assms]
  by (simp add: csr_serialize_def serialize_record as_protocol_error_def)

text \<open>What the serializer writes is parsed to a typed record of the values it was given.\<close>

lemma serialized_parses:
  assumes "csr_serialize vs spec parser = Inr d"
  shows "\<exists>q. parser d = Inr q \<and> to_bytes (typed q) = Inr d \<and>
    (\<forall>f \<in> set (spec_fields spec). map_of (rec_pairs (typed q)) f = map_of vs f)"
proof -
  from assms obtain q where s: "serialize_ordered_record vs spec = Inr d" and q: "parser d = Inr q"
    by (auto simp: csr_serialize_def ok_iff)
  from s obtain ps where ps: "validated_pairs vs spec = Inr ps"
    and d: "d = concat (map render_line ps)"
    by (auto simp: serialize_ordered_record_def ok_iff)
  have c: "canonical_pairs spec ps" by (rule validated_pairs_canonical [OF wf ps])
  then have "parse_ordered_record d spec = Inr \<lparr>rec_spec = spec, rec_pairs = ps\<rparr>"
    by (simp add: parse_ordered_record_ok [OF wf] record_of_def d)
  with q have r: "typed q = \<lparr>rec_spec = spec, rec_pairs = ps\<rparr>" by (simp add: parser_iff)
  have "map_of ps f = map_of vs f" if f: "f \<in> set (spec_fields spec)" for f
  proof -
    have dom: "f \<in> fst ` set vs" using ps f by (auto simp: validated_pairs_ok)
    then obtain v where v: "map_of vs f = Some v"
      by (metis domIff dom_map_of_conv_image_fst not_None_eq)
    have "ps = map (\<lambda>f. (f, the (map_of vs f))) (spec_fields spec)"
      using ps by (simp add: validated_pairs_ok)
    then show ?thesis using f v by (simp add: map_of_map_keys)
  qed
  with q typed.parse_serialize [OF q] show ?thesis by (auto simp: r)
qed

lemma parsed_get:
  assumes "parser d = Inr q" and "f \<in> set (spec_fields spec)"
  shows "record_get (typed q) f = Inr (fld (typed q) f)"
  using record_get_fld [OF wf _ assms(2)] typed.parse_valid [OF assms(1)] by blast

lemma parsed_bytes: "parser d = Inr q \<Longrightarrow> to_bytes (typed q) = Inr d"
  by (rule typed.parse_serialize)

end

section \<open>The accepted records\<close>

text \<open>
  Each predicate lists what the parser requires of the field values and of the typed value built
  from them, in the parser's order.
\<close>

definition valid_issuer :: "string \<Rightarrow> string \<Rightarrow> bool" where
  "valid_issuer g i \<longleftrightarrow> fullmatch ROOT_GENERATION_RX g \<and> fullmatch INTERMEDIATE_GENERATION_RX i \<and>
     starts_with (g @ ''-i'') i"

definition valid_serial :: "string \<Rightarrow> bool" where
  "valid_serial v \<longleftrightarrow> fullmatch SERIAL_RX v \<and> \<not> (2 < length v \<and> starts_with ''00'' v)"

lemma serial_valid [field_ok]:
  "record_get r ''serial'' = Inr v \<Longrightarrow> serial r = Inr w \<longleftrightarrow> w = v \<and> valid_serial v"
  by (auto simp: serial_def pattern_field_def ok_iff valid_serial_def)

lemma issuer_generations_valid [field_ok]:
  "record_get r ''issuer_root'' = Inr g \<Longrightarrow> record_get r ''issuer_intermediate'' = Inr i \<Longrightarrow>
     issuer_generations r m = Inr u \<longleftrightarrow> valid_issuer g i"
  by (auto simp: issuer_generations_def pattern_field_def ok_iff valid_issuer_def)

lemma parsed_fields:
  assumes "wf_spec spec" and "parse_ordered_record d spec = Inr r"
  shows "list_all (\<lambda>f. record_get r f = Inr (fld r f)) (spec_fields spec)"
  using record_get_fld [OF assms(1)] assms by (simp add: parse_ordered_record_ok list_all_iff)

lemma not_digest_none [simp]: "\<not> is_digest ''none''"
  by (simp add: is_digest_def)

definition valid_request :: "csr_request \<Rightarrow> bool" where
  "valid_request q \<longleftrightarrow>
     (let v = fld (rq_record q) in
      fullmatch HEX32_RX (v ''request_id'') \<and> is_digest (v ''nonce'') \<and>
      fullmatch SERVICE_RX (v ''service'') \<and> fullmatch PRINCIPAL_RX (v ''target'') \<and>
      fullmatch PRINCIPAL_RX (v ''requester_principal'') \<and>
      fullmatch PRINCIPAL_RX (v ''response_principal'') \<and>
      v ''target'' = v ''requester_principal'' \<and>
      v ''operation'' = operation_value (rq_operation q) \<and>
      is_digest (v ''inventory_sha256'') \<and> is_digest (v ''csr_sha256'') \<and>
      is_digest (v ''csr_spki_sha256'') \<and>
      (v ''current_cert_sha256'' = ''none'' \<or> is_digest (v ''current_cert_sha256'')) \<and>
      (rq_operation q = ISSUE) = (v ''current_cert_sha256'' = ''none'') \<and>
      v ''profile'' = PROFILE \<and>
      epoch_text (v ''created_epoch'') \<and> rq_created q = epoch_value (v ''created_epoch'') \<and>
      epoch_text (v ''expires_epoch'') \<and> rq_expires q = epoch_value (v ''expires_epoch'') \<and>
      rq_created q < rq_expires q \<and> rq_expires q - rq_created q \<le> 604800)"

lemma parse_csr_request_iff:
  "parse_csr_request d = Inr q \<longleftrightarrow>
     parse_ordered_record d CSR_REQUEST_SPEC = Inr (rq_record q) \<and> valid_request q"
proof (cases "parse_ordered_record d CSR_REQUEST_SPEC")
  case (Inl e)
  then show ?thesis by (simp add: parse_csr_request_def CSR_REQUEST_MAX_AGE_SECONDS_def ok_iff)
next
  case (Inr r)
  note g = parsed_fields [OF csr_specs_wf(1) Inr,
      unfolded csr_spec_fields csr_fields_defs list.pred_inject]
  obtain r' op c e where q: "q = \<lparr>rq_record = r', rq_operation = op, rq_created = c, rq_expires = e\<rparr>"
    by (cases q)
  have "parse_csr_request d = Inr q \<longleftrightarrow> r = r' \<and> valid_request q"
    using g unfolding valid_request_def Let_def
    by (simp add: q parse_csr_request_def CSR_REQUEST_MAX_AGE_SECONDS_def Inr ok_iff field_ok
        linorder_not_le linorder_not_less) (cases "r = r'"; simp)
  then show ?thesis using Inr by (auto simp: q)
qed

definition valid_approval :: "csr_approval \<Rightarrow> bool" where
  "valid_approval q \<longleftrightarrow>
     (let v = fld (ap_record q) in
      fullmatch HEX32_RX (v ''request_id'') \<and> is_digest (v ''nonce'') \<and>
      fullmatch SERVICE_RX (v ''service'') \<and> fullmatch PRINCIPAL_RX (v ''target'') \<and>
      fullmatch PRINCIPAL_RX (v ''approver_principal'') \<and>
      v ''operation'' = operation_value (ap_operation q) \<and>
      is_digest (v ''request_sha256'') \<and> is_digest (v ''csr_sha256'') \<and>
      is_digest (v ''inventory_sha256'') \<and>
      v ''profile'' = PROFILE \<and>
      epoch_text (v ''created_epoch'') \<and> ap_created q = epoch_value (v ''created_epoch'') \<and>
      epoch_text (v ''expires_epoch'') \<and> ap_expires q = epoch_value (v ''expires_epoch'') \<and>
      ap_created q < ap_expires q \<and> ap_expires q - ap_created q \<le> 86400)"

lemma parse_csr_approval_iff:
  "parse_csr_approval d = Inr q \<longleftrightarrow>
     parse_ordered_record d CSR_APPROVAL_SPEC = Inr (ap_record q) \<and> valid_approval q"
proof (cases "parse_ordered_record d CSR_APPROVAL_SPEC")
  case (Inl e)
  then show ?thesis by (simp add: parse_csr_approval_def parse_csr_approval_record_def CSR_APPROVAL_MAX_AGE_SECONDS_def ok_iff)
next
  case (Inr r)
  note g = parsed_fields [OF csr_specs_wf(2) Inr,
      unfolded csr_spec_fields csr_fields_defs list.pred_inject]
  obtain r' op c e where q: "q = \<lparr>ap_record = r', ap_operation = op, ap_created = c, ap_expires = e\<rparr>"
    by (cases q)
  have "parse_csr_approval d = Inr q \<longleftrightarrow> r = r' \<and> valid_approval q"
    using g unfolding valid_approval_def Let_def
    by (simp add: q parse_csr_approval_def parse_csr_approval_record_def CSR_APPROVAL_MAX_AGE_SECONDS_def Inr ok_iff field_ok
        linorder_not_le linorder_not_less) (cases "r = r'"; simp)
  then show ?thesis using Inr by (auto simp: q)
qed

definition valid_response :: "csr_response \<Rightarrow> bool" where
  "valid_response q \<longleftrightarrow>
     (let v = fld (rs_record q) in
      fullmatch HEX32_RX (v ''request_id'') \<and> is_digest (v ''nonce'') \<and>
      fullmatch SERVICE_RX (v ''service'') \<and> fullmatch PRINCIPAL_RX (v ''target'') \<and>
      v ''operation'' = operation_value (rs_operation q) \<and>
      is_digest (v ''request_sha256'') \<and> is_digest (v ''approval_sha256'') \<and>
      is_digest (v ''inventory_sha256'') \<and> is_digest (v ''csr_sha256'') \<and>
      is_digest (v ''csr_spki_sha256'') \<and> is_digest (v ''certificate_sha256'') \<and>
      is_digest (v ''certificate_spki_sha256'') \<and> is_digest (v ''chain_sha256'') \<and>
      v ''certificate_spki_sha256'' = v ''csr_spki_sha256'' \<and>
      valid_issuer (v ''issuer_root'') (v ''issuer_intermediate'') \<and>
      valid_serial (v ''serial'') \<and> fullmatch PRINCIPAL_RX (v ''response_principal'') \<and>
      v ''candidate_state'' = ''pending'' \<and>
      epoch_text (v ''not_before_epoch'') \<and> rs_not_before q = epoch_value (v ''not_before_epoch'') \<and>
      epoch_text (v ''not_after_epoch'') \<and> rs_not_after q = epoch_value (v ''not_after_epoch'') \<and>
      epoch_text (v ''created_epoch'') \<and> rs_created q = epoch_value (v ''created_epoch'') \<and>
      rs_not_before q < rs_not_after q)"

lemma parse_csr_response_iff:
  "parse_csr_response d = Inr q \<longleftrightarrow>
     parse_ordered_record d CSR_RESPONSE_SPEC = Inr (rs_record q) \<and> valid_response q"
proof (cases "parse_ordered_record d CSR_RESPONSE_SPEC")
  case (Inl e)
  then show ?thesis by (simp add: parse_csr_response_def  ok_iff)
next
  case (Inr r)
  note g = parsed_fields [OF csr_specs_wf(3) Inr,
      unfolded csr_spec_fields csr_fields_defs list.pred_inject]
  obtain r' op nb na c where q: "q = \<lparr>rs_record = r', rs_operation = op, rs_not_before = nb, rs_not_after = na, rs_created = c\<rparr>"
    by (cases q)
  have "parse_csr_response d = Inr q \<longleftrightarrow> r = r' \<and> valid_response q"
    using g unfolding valid_response_def Let_def
    by (simp add: q parse_csr_response_def  Inr ok_iff field_ok
        linorder_not_le linorder_not_less) (cases "r = r'"; simp)
  then show ?thesis using Inr by (auto simp: q)
qed

definition valid_candidate :: "csr_candidate \<Rightarrow> bool" where
  "valid_candidate q \<longleftrightarrow>
     (let v = fld (cn_record q) in
      fullmatch HEX32_RX (v ''request_id'') \<and> is_digest (v ''nonce'') \<and>
      fullmatch SERVICE_RX (v ''service'') \<and> fullmatch PRINCIPAL_RX (v ''target'') \<and>
      v ''operation'' = operation_value (cn_operation q) \<and>
      is_digest (v ''request_sha256'') \<and> is_digest (v ''approval_sha256'') \<and>
      is_digest (v ''inventory_sha256'') \<and> is_digest (v ''csr_sha256'') \<and>
      is_digest (v ''csr_spki_sha256'') \<and> is_digest (v ''certificate_sha256'') \<and>
      is_digest (v ''chain_sha256'') \<and> is_digest (v ''response_sha256'') \<and>
      is_digest (v ''response_signature_sha256'') \<and>
      valid_issuer (v ''issuer_root'') (v ''issuer_intermediate'') \<and>
      valid_serial (v ''serial'') \<and> v ''state'' = ''pending'' \<and>
      epoch_text (v ''created_epoch'') \<and> cn_created q = epoch_value (v ''created_epoch''))"

lemma parse_csr_candidate_iff:
  "parse_csr_candidate d = Inr q \<longleftrightarrow>
     parse_ordered_record d CSR_CANDIDATE_SPEC = Inr (cn_record q) \<and> valid_candidate q"
proof (cases "parse_ordered_record d CSR_CANDIDATE_SPEC")
  case (Inl e)
  then show ?thesis by (simp add: parse_csr_candidate_def  ok_iff)
next
  case (Inr r)
  note g = parsed_fields [OF csr_specs_wf(4) Inr,
      unfolded csr_spec_fields csr_fields_defs list.pred_inject]
  obtain r' op c where q: "q = \<lparr>cn_record = r', cn_operation = op, cn_created = c\<rparr>"
    by (cases q)
  have "parse_csr_candidate d = Inr q \<longleftrightarrow> r = r' \<and> valid_candidate q"
    using g unfolding valid_candidate_def Let_def
    by (simp add: q parse_csr_candidate_def  Inr ok_iff field_ok
        linorder_not_le linorder_not_less) (cases "r = r'"; simp)
  then show ?thesis using Inr by (auto simp: q)
qed

definition valid_replay_request :: "csr_replay_request \<Rightarrow> bool" where
  "valid_replay_request q \<longleftrightarrow>
     (let v = fld (rr_record q) in
      fullmatch HEX32_RX (v ''request_id'') \<and> is_digest (v ''nonce'') \<and>
      fullmatch SERVICE_RX (v ''service'') \<and> fullmatch PRINCIPAL_RX (v ''target'') \<and>
      v ''operation'' = operation_value (rr_operation q) \<and>
      is_digest (v ''request_sha256'') \<and> is_digest (v ''approval_sha256'') \<and>
      v ''outcome'' = ''reserved'' )"

lemma parse_csr_replay_request_iff:
  "parse_csr_replay_request d = Inr q \<longleftrightarrow>
     parse_ordered_record d CSR_REPLAY_REQUEST_SPEC = Inr (rr_record q) \<and> valid_replay_request q"
proof (cases "parse_ordered_record d CSR_REPLAY_REQUEST_SPEC")
  case (Inl e)
  then show ?thesis by (simp add: parse_csr_replay_request_def  ok_iff)
next
  case (Inr r)
  note g = parsed_fields [OF csr_specs_wf(5) Inr,
      unfolded csr_spec_fields csr_fields_defs list.pred_inject]
  obtain r' op where q: "q = \<lparr>rr_record = r', rr_operation = op\<rparr>"
    by (cases q)
  have "parse_csr_replay_request d = Inr q \<longleftrightarrow> r = r' \<and> valid_replay_request q"
    using g unfolding valid_replay_request_def Let_def
    by (simp add: q parse_csr_replay_request_def  Inr ok_iff field_ok
        linorder_not_le linorder_not_less) (cases "r = r'"; simp)
  then show ?thesis using Inr by (auto simp: q)
qed

definition valid_replay_nonce :: "csr_replay_nonce \<Rightarrow> bool" where
  "valid_replay_nonce q \<longleftrightarrow>
     (let v = fld (rn_record q) in
      fullmatch HEX32_RX (v ''request_id'') \<and> is_digest (v ''nonce'') \<and>
      is_digest (v ''request_sha256'') \<and> v ''outcome'' = ''reserved'' )"

lemma parse_csr_replay_nonce_iff:
  "parse_csr_replay_nonce d = Inr q \<longleftrightarrow>
     parse_ordered_record d CSR_REPLAY_NONCE_SPEC = Inr (rn_record q) \<and> valid_replay_nonce q"
proof (cases "parse_ordered_record d CSR_REPLAY_NONCE_SPEC")
  case (Inl e)
  then show ?thesis by (simp add: parse_csr_replay_nonce_def  ok_iff)
next
  case (Inr r)
  note g = parsed_fields [OF csr_specs_wf(6) Inr,
      unfolded csr_spec_fields csr_fields_defs list.pred_inject]
  obtain r' where q: "q = \<lparr>rn_record = r'\<rparr>"
    by (cases q)
  have "parse_csr_replay_nonce d = Inr q \<longleftrightarrow> r = r' \<and> valid_replay_nonce q"
    using g unfolding valid_replay_nonce_def Let_def
    by (simp add: q parse_csr_replay_nonce_def  Inr ok_iff field_ok
        linorder_not_le linorder_not_less) (cases "r = r'"; simp)
  then show ?thesis using Inr by (auto simp: q)
qed

definition valid_terminal :: "csr_terminal \<Rightarrow> bool" where
  "valid_terminal q \<longleftrightarrow>
     (let v = fld (tm_record q) in
      fullmatch HEX32_RX (v ''request_id'') \<and>
      v ''operation'' = operation_value (tm_operation q) \<and>
      v ''transaction'' = ''csr-'' @ v ''request_id'' \<and>
      fullmatch SERVICE_RX (v ''service'') \<and>
      v ''outcome'' = outcome_value (tm_outcome q) \<and>
      (v ''committed'' = ''false'' \<or> v ''committed'' = ''true'') \<and>
      (v ''committed'' = ''true'') = (tm_outcome q = PUBLISHED) \<and>
      (v ''committed'' = ''true'') = tm_committed q)"

lemma parse_csr_terminal_iff:
  "parse_csr_terminal d = Inr q \<longleftrightarrow>
     parse_ordered_record d CSR_TERMINAL_SPEC = Inr (tm_record q) \<and> valid_terminal q"
proof (cases "parse_ordered_record d CSR_TERMINAL_SPEC")
  case (Inl e)
  then show ?thesis by (simp add: parse_csr_terminal_def  ok_iff)
next
  case (Inr r)
  note g = parsed_fields [OF csr_specs_wf(7) Inr,
      unfolded csr_spec_fields csr_fields_defs list.pred_inject]
  obtain r' op oc b where q: "q = \<lparr>tm_record = r', tm_operation = op, tm_outcome = oc, tm_committed = b\<rparr>"
    by (cases q)
  have "parse_csr_terminal d = Inr q \<longleftrightarrow> r = r' \<and> valid_terminal q"
    using g unfolding valid_terminal_def Let_def
    by (simp add: q parse_csr_terminal_def  Inr ok_iff field_ok
        linorder_not_le linorder_not_less) (cases "r = r'"; simp)
  then show ?thesis using Inr by (auto simp: q)
qed

section \<open>Interpretations\<close>

interpretation request: csr_format CSR_REQUEST_SPEC parse_csr_request rq_record valid_request
  by unfold_locales (rule csr_specs_wf, rule parse_csr_request_iff)
interpretation approval: csr_format CSR_APPROVAL_SPEC parse_csr_approval ap_record valid_approval
  by unfold_locales (rule csr_specs_wf, rule parse_csr_approval_iff)
interpretation response: csr_format CSR_RESPONSE_SPEC parse_csr_response rs_record valid_response
  by unfold_locales (rule csr_specs_wf, rule parse_csr_response_iff)
interpretation candidate: csr_format CSR_CANDIDATE_SPEC parse_csr_candidate cn_record valid_candidate
  by unfold_locales (rule csr_specs_wf, rule parse_csr_candidate_iff)
interpretation replay_request: csr_format CSR_REPLAY_REQUEST_SPEC parse_csr_replay_request rr_record valid_replay_request
  by unfold_locales (rule csr_specs_wf, rule parse_csr_replay_request_iff)
interpretation replay_nonce: csr_format CSR_REPLAY_NONCE_SPEC parse_csr_replay_nonce rn_record valid_replay_nonce
  by unfold_locales (rule csr_specs_wf, rule parse_csr_replay_nonce_iff)
interpretation terminal: csr_format CSR_TERMINAL_SPEC parse_csr_terminal tm_record valid_terminal
  by unfold_locales (rule csr_specs_wf, rule parse_csr_terminal_iff)

section \<open>Exceptions\<close>

text \<open>
  The parsers raise \<open>CsrProtocolError\<close>, and the \<open>ValueError\<close> of an epoch too long for the
  interpreter to convert, which the code does not translate.
\<close>

definition protocol_exn :: "exn \<Rightarrow> bool" where
  "protocol_exn e \<longleftrightarrow> (\<exists>m. e = CsrProtocolError m) \<or> e = int_limit_error"

definition has_field :: "ordered_record \<Rightarrow> string \<Rightarrow> bool" where
  "has_field r f \<longleftrightarrow> (\<exists>v. record_get r f = Inr v)"

named_theorems field_raises "the exceptions of a field check"

lemma protocol_exn_simp [simp]: "protocol_exn (CsrProtocolError m)" "protocol_exn int_limit_error"
  by (simp_all add: protocol_exn_def)

lemma raises_record_get [field_raises]: "has_field r f \<Longrightarrow> raises_only P (record_get r f)"
  by (auto simp: has_field_def)

lemma raises_pattern_field [field_raises]:
  "has_field r f \<Longrightarrow> raises_only protocol_exn (pattern_field r f rx)"
  by (auto simp: has_field_def pattern_field_def)

lemma raises_operation [field_raises]:
  "has_field r ''operation'' \<Longrightarrow> raises_only protocol_exn (operation r)"
  by (auto simp: has_field_def operation_def split: option.splits)

lemma raises_epoch [field_raises]: "has_field r f \<Longrightarrow> raises_only protocol_exn (epoch r f)"
  by (auto simp: has_field_def epoch_def pattern_field_def int_of_digits_def)

lemma raises_serial [field_raises]:
  "has_field r ''serial'' \<Longrightarrow> raises_only protocol_exn (serial r)"
  by (auto simp: has_field_def serial_def pattern_field_def)

lemma raises_digest [field_raises]: "has_field r f \<Longrightarrow> raises_only protocol_exn (digest r a f)"
  by (auto simp: has_field_def digest_def pattern_field_def)

lemma raises_identity_fields [field_raises]:
  "has_field r ''request_id'' \<Longrightarrow> (n \<Longrightarrow> has_field r ''nonce'') \<Longrightarrow>
     raises_only protocol_exn (identity_fields r n)"
  unfolding identity_fields_def by (intro raises field_raises) auto

lemma raises_service_target [field_raises]:
  "has_field r ''service'' \<Longrightarrow> has_field r ''target'' \<Longrightarrow>
     raises_only protocol_exn (service_target r)"
  unfolding service_target_def by (intro raises field_raises)

lemma raises_expect_field [field_raises]:
  "has_field r f \<Longrightarrow> raises_only protocol_exn (expect_field r f x m)"
  by (auto simp: has_field_def expect_field_def)

lemma raises_issuer [field_raises]:
  "has_field r ''issuer_root'' \<Longrightarrow> has_field r ''issuer_intermediate'' \<Longrightarrow>
     raises_only protocol_exn (issuer_generations r m)"
  by (auto simp: has_field_def issuer_generations_def pattern_field_def)

lemma raises_terminal_outcome [field_raises]:
  "has_field r ''outcome'' \<Longrightarrow> raises_only protocol_exn (terminal_outcome r)"
  by (auto simp: has_field_def terminal_outcome_def split: option.splits)

lemma raises_forE_digest [field_raises]:
  "list_all (has_field r) fs \<Longrightarrow> raises_only protocol_exn (forE (digest r a) fs)"
  by (intro raises field_raises) (simp add: list_all_iff)

lemma raises_as_protocol_error:
  "raises_only is_RecordError m \<Longrightarrow> raises_only protocol_exn (as_protocol_error m)"
  by (cases m) (auto simp: as_protocol_error_def is_RecordError_def)

lemma raises_parse_record:
  "wf_spec spec \<Longrightarrow> raises_only protocol_exn (parse_record d spec)"
  by (simp add: parse_record_def raises_as_protocol_error raises_parse_ordered_record)

lemma parsed_has_fields:
  assumes "wf_spec spec" and "parse_record d spec = Inr r"
  shows "list_all (has_field r) (spec_fields spec)"
  using parsed_fields [OF assms(1)] assms(2)
  by (auto simp: parse_record_ok list_all_iff has_field_def)

text \<open>A parser that reads a record of its format and then checks fields of it.\<close>

lemma raises_after_parse:
  assumes "wf_spec spec"
    and "\<And>r. list_all (has_field r) (spec_fields spec) \<Longrightarrow> raises_only protocol_exn (f r)"
  shows "raises_only protocol_exn (bindE (parse_record d spec) f)"
  by (rule raises_only_bindE [OF raises_parse_record [OF assms(1)]])
    (rule assms(2) [OF parsed_has_fields [OF assms(1)]])

lemma raises_parse_csr_request: "raises_only protocol_exn (parse_csr_request d)"
  unfolding parse_csr_request_def 
  by (rule raises_after_parse [OF csr_specs_wf(1)], unfold csr_spec_fields csr_fields_defs)
    (intro raises field_raises; simp)

lemma raises_parse_csr_approval: "raises_only protocol_exn (parse_csr_approval d)"
  unfolding parse_csr_approval_def parse_csr_approval_record_def
  by (rule raises_after_parse [OF csr_specs_wf(2)], unfold csr_spec_fields csr_fields_defs)
    (intro raises field_raises; simp)

lemma raises_parse_csr_response: "raises_only protocol_exn (parse_csr_response d)"
  unfolding parse_csr_response_def 
  by (rule raises_after_parse [OF csr_specs_wf(3)], unfold csr_spec_fields csr_fields_defs)
    (intro raises field_raises; simp)

lemma raises_parse_csr_candidate: "raises_only protocol_exn (parse_csr_candidate d)"
  unfolding parse_csr_candidate_def 
  by (rule raises_after_parse [OF csr_specs_wf(4)], unfold csr_spec_fields csr_fields_defs)
    (intro raises field_raises; simp)

lemma raises_parse_csr_replay_request: "raises_only protocol_exn (parse_csr_replay_request d)"
  unfolding parse_csr_replay_request_def 
  by (rule raises_after_parse [OF csr_specs_wf(5)], unfold csr_spec_fields csr_fields_defs)
    (intro raises field_raises; simp)

lemma raises_parse_csr_replay_nonce: "raises_only protocol_exn (parse_csr_replay_nonce d)"
  unfolding parse_csr_replay_nonce_def 
  by (rule raises_after_parse [OF csr_specs_wf(6)], unfold csr_spec_fields csr_fields_defs)
    (intro raises field_raises; simp)

lemma raises_parse_csr_terminal: "raises_only protocol_exn (parse_csr_terminal d)"
  unfolding parse_csr_terminal_def 
  by (rule raises_after_parse [OF csr_specs_wf(7)], unfold csr_spec_fields csr_fields_defs)
    (intro raises field_raises; simp)

end
