(* ===== verification/CsrProperties.thy ===== *)
theory CsrProperties
  imports CsrContracts
begin

text \<open>
  The properties of the CSR protocol records: exact acceptance, the policy every accepted record
  satisfies, what the two bindings establish, the serializers' round trips and the exceptions.
  The witnesses apply them to one request with its approval and to one terminal record.
\<close>

section \<open>Sample records\<close>

definition hex_text :: "nat \<Rightarrow> char \<Rightarrow> string" where
  "hex_text n c = replicate n c"

definition sample_request :: csr_request where
  "sample_request = \<lparr>rq_record = \<lparr>rec_spec = CSR_REQUEST_SPEC, rec_pairs =
     [(''schema'', ''1''), (''request_id'', hex_text 32 (CHR ''a'')),
      (''nonce'', hex_text 64 (CHR ''b'')), (''created_epoch'', ''1000''),
      (''expires_epoch'', ''2000''), (''operation'', ''issue''), (''service'', ''web''),
      (''target'', ''host.example''), (''requester_principal'', ''host.example''),
      (''inventory_sha256'', hex_text 64 (CHR ''c'')), (''csr_sha256'', hex_text 64 (CHR ''d'')),
      (''csr_spki_sha256'', hex_text 64 (CHR ''e'')), (''current_cert_sha256'', ''none''),
      (''profile'', PROFILE), (''response_principal'', ''issuer.example'')]\<rparr>,
     rq_operation = ISSUE, rq_created = 1000, rq_expires = 2000\<rparr>"

definition render :: "ordered_record \<Rightarrow> string" where
  "render r = concat (map render_line (rec_pairs r))"

definition sample_approval :: csr_approval where
  "sample_approval = \<lparr>ap_record = \<lparr>rec_spec = CSR_APPROVAL_SPEC, rec_pairs =
     [(''schema'', ''1''), (''request_id'', hex_text 32 (CHR ''a'')),
      (''nonce'', hex_text 64 (CHR ''b'')), (''created_epoch'', ''90000''),
      (''expires_epoch'', ''100000''), (''approver_principal'', ''approver''),
      (''request_sha256'', sha256_hex (render (rq_record sample_request))),
      (''csr_sha256'', hex_text 64 (CHR ''d'')), (''inventory_sha256'', hex_text 64 (CHR ''c'')),
      (''operation'', ''issue''), (''service'', ''web''), (''target'', ''host.example''),
      (''profile'', PROFILE)]\<rparr>,
     ap_operation = ISSUE, ap_created = 90000, ap_expires = 100000\<rparr>"

definition sample_terminal :: csr_terminal where
  "sample_terminal = \<lparr>tm_record = \<lparr>rec_spec = CSR_TERMINAL_SPEC, rec_pairs =
     [(''schema'', ''1''), (''transaction'', ''csr-'' @ hex_text 32 (CHR ''a'')),
      (''request_id'', hex_text 32 (CHR ''a'')), (''operation'', ''renew''),
      (''service'', ''web''), (''outcome'', ''published''), (''committed'', ''true'')]\<rparr>,
     tm_operation = RENEW, tm_outcome = PUBLISHED, tm_committed = True\<rparr>"

definition long_epoch_record :: ordered_record where
  "long_epoch_record = \<lparr>rec_spec = CSR_REQUEST_SPEC, rec_pairs =
     [(''schema'', ''1''), (''request_id'', hex_text 32 (CHR ''a'')),
      (''nonce'', hex_text 64 (CHR ''b'')), (''created_epoch'', hex_text 4301 (CHR ''1'')),
      (''expires_epoch'', ''2000''), (''operation'', ''issue''), (''service'', ''web''),
      (''target'', ''host.example''), (''requester_principal'', ''host.example''),
      (''inventory_sha256'', hex_text 64 (CHR ''c'')), (''csr_sha256'', hex_text 64 (CHR ''d'')),
      (''csr_spki_sha256'', hex_text 64 (CHR ''e'')), (''current_cert_sha256'', ''none''),
      (''profile'', PROFILE), (''response_principal'', ''issuer.example'')]\<rparr>"

lemma record_of_schema_1:
  assumes "map fst ps = keys" and "map_of ps ''schema'' = Some ''1''"
    and "list_all (\<lambda>kv. snd kv \<noteq> [] \<and> list_all is_print (snd kv)) ps"
  shows "record_of (schema_1 keys) \<lparr>rec_spec = schema_1 keys, rec_pairs = ps\<rparr>"
  using assms
  by (auto simp: record_of_def canonical_pairs_def schema_1_def valid_value_def list_all_iff)

lemma hex_text_print [simp]: "is_print c \<Longrightarrow> list_all is_print (hex_text n c)"
  by (simp add: hex_text_def list_all_iff)

lemma hex_text_Nil [simp]: "hex_text n c = [] \<longleftrightarrow> n = 0"
  by (simp add: hex_text_def)

lemma hex_text_digest [simp]: "is_digest (hex_text 64 c) \<longleftrightarrow> is_hex c"
  by (simp add: is_digest_def hex_text_def)

lemma hex_text_32 [simp]: "fullmatch HEX32_RX (hex_text 32 c) \<longleftrightarrow> is_hex c"
  by (simp add: HEX32_iff hex_text_def)

lemma sha256_digest [simp]: "is_digest (sha256_hex d)"
  using sha256_hex_shape by (simp add: is_digest_def)

lemma digest_print: "is_digest d \<Longrightarrow> list_all is_print d \<and> d \<noteq> []"
  by (auto simp: is_digest_def list_all_iff hex_print)

lemma epoch_text_sample:
  "epoch_text ''1000'' \<and> epoch_text ''2000'' \<and> epoch_text ''90000'' \<and> epoch_text ''100000''"
  by (simp add: epoch_text_def canonical_digits_def is_digit_def digit_val_def code_def)

lemma epoch_value_sample:
  "epoch_value ''1000'' = 1000" "epoch_value ''2000'' = 2000"
  "epoch_value ''90000'' = 90000" "epoch_value ''100000'' = 100000"
  by (simp_all add: epoch_value_def text_nat_def digit_val_def code_def)

lemma sample_chars:
  "is_hex (CHR ''a'')" "is_hex (CHR ''b'')" "is_hex (CHR ''c'')" "is_hex (CHR ''d'')"
  "is_hex (CHR ''e'')" "is_print (CHR ''a'')" "is_print (CHR ''b'')" "is_print (CHR ''c'')"
  "is_print (CHR ''d'')" "is_print (CHR ''e'')"
  by (simp_all add: is_hex_def is_digit_def is_print_def code_def)

lemma sample_names:
  "fullmatch SERVICE_RX ''web''" "fullmatch PRINCIPAL_RX ''host.example''"
  "fullmatch PRINCIPAL_RX ''issuer.example''" "fullmatch PRINCIPAL_RX ''approver''"
  by (simp_all add: SERVICE_iff PRINCIPAL_iff is_alnum_def is_lower_def is_digit_def code_def)

lemma sample_request_parses:
  "parse_csr_request (render (rq_record sample_request)) = Inr sample_request"
proof -
  have "record_of CSR_REQUEST_SPEC (rq_record sample_request)"
    unfolding sample_request_def csr_request.simps CSR_REQUEST_SPEC_def
    by (rule record_of_schema_1)
      (simp_all add: CSR_REQUEST_FIELDS_def sample_chars PROFILE_def is_print_def code_def)
  moreover have "valid_request sample_request"
    using epoch_text_sample
    by (simp add: valid_request_def Let_def sample_request_def fld_def sample_chars sample_names
        epoch_value_sample)
  ultimately show ?thesis
    by (simp add: parse_csr_request_iff parse_ordered_record_ok csr_specs_wf render_def)
qed

lemma sample_approval_parses:
  "parse_csr_approval (render (ap_record sample_approval)) = Inr sample_approval"
proof -
  have "record_of CSR_APPROVAL_SPEC (ap_record sample_approval)"
    unfolding sample_approval_def csr_approval.simps CSR_APPROVAL_SPEC_def
    by (rule record_of_schema_1)
      (use digest_print [OF sha256_digest] in
        \<open>simp_all add: CSR_APPROVAL_FIELDS_def sample_chars PROFILE_def is_print_def code_def\<close>)
  moreover have "valid_approval sample_approval"
    using epoch_text_sample
    by (simp add: valid_approval_def Let_def sample_approval_def fld_def sample_chars sample_names
        epoch_value_sample)
  ultimately show ?thesis
    by (simp add: parse_csr_approval_iff parse_ordered_record_ok csr_specs_wf render_def)
qed

lemma sample_terminal_parses:
  "parse_csr_terminal (render (tm_record sample_terminal)) = Inr sample_terminal"
proof -
  have "record_of CSR_TERMINAL_SPEC (tm_record sample_terminal)"
    unfolding sample_terminal_def csr_terminal.simps CSR_TERMINAL_SPEC_def
    by (rule record_of_schema_1)
      (simp_all add: CSR_TERMINAL_FIELDS_def sample_chars is_print_def code_def)
  moreover have "valid_terminal sample_terminal"
    by (simp add: valid_terminal_def Let_def sample_terminal_def fld_def sample_chars sample_names)
  ultimately show ?thesis
    by (simp add: parse_csr_terminal_iff parse_ordered_record_ok csr_specs_wf render_def)
qed

section \<open>Properties\<close>

text \<open>
  C11: the request parser accepts exactly the rendered canonical request records whose fields
  satisfy \<open>valid_request\<close>, and returns the typed value of these fields.
\<close>

theorem csr_request_accepts:
  "parse_csr_request d = Inr q \<longleftrightarrow>
     record_of CSR_REQUEST_SPEC (rq_record q) \<and> d = render (rq_record q) \<and> valid_request q"
  by (auto simp: parse_csr_request_iff parse_ordered_record_ok csr_specs_wf render_def)

lemma epoch_value_nonneg [simp]: "0 \<le> epoch_value v"
  by (simp add: epoch_value_def)

text \<open>
  C16: every accepted request keeps the request policy: it lives at most a week, its requester is
  the target, and it names a predecessor certificate exactly when it is not a first issue.
\<close>

theorem csr_request_policy:
  assumes "parse_csr_request d = Inr q"
  shows "0 \<le> rq_created q \<and> rq_created q < rq_expires q \<and> rq_expires q \<le> rq_created q + 604800 \<and>
    record_get (rq_record q) ''requester_principal'' = record_get (rq_record q) ''target'' \<and>
    (rq_operation q = ISSUE \<longleftrightarrow> record_get (rq_record q) ''current_cert_sha256'' = Inr ''none'')"
  using assms request.parsed_get [OF assms]
  by (simp_all add: parse_csr_request_iff valid_request_def Let_def CSR_REQUEST_FIELDS_def)

theorem csr_request_policy_witness:
  "rq_created sample_request < rq_expires sample_request \<and>
   record_get (rq_record sample_request) ''current_cert_sha256'' = Inr ''none''"
  using csr_request_policy [OF sample_request_parses] by (simp add: sample_request_def)

text \<open>The fields that a successful binding compares.\<close>

lemma request_approval_binding_iff:
  "validate_request_approval_binding rq ap k = Inr () \<longleftrightarrow>
     (\<forall>f \<in> {''request_id'', ''nonce'', ''operation'', ''service'', ''target'', ''csr_sha256'',
        ''inventory_sha256'', ''profile''}. \<exists>v. record_get (rq_record rq) f = Inr v \<and>
          record_get (ap_record ap) f = Inr v) \<and>
     (\<exists>data. to_bytes (rq_record rq) = Inr data \<and>
        record_get (ap_record ap) ''request_sha256'' = Inr (sha256_hex data)) \<and>
     rq_created rq \<le> ap_created ap \<and> (k = Some True \<longrightarrow> rq_created rq + 86400 \<le> ap_created ap)"
  unfolding validate_request_approval_binding_def CSR_SOLE_OPERATOR_MIN_DELAY_SECONDS_def
  by (auto simp: ok_iff split: if_splits)

text \<open>
  C12: an approval that is bound to a request names the SHA-256 of exactly the request's bytes,
  approves the same operation, service, target and nonce, does not predate the request, and when
  both signers use one key comes at least a day after it.
\<close>

theorem csr_approval_binds_request:
  assumes "parse_csr_request d = Inr rq" and "parse_csr_approval e = Inr ap"
    and "validate_request_approval_binding rq ap signer_keys_match = Inr ()"
  shows "record_get (ap_record ap) ''request_sha256'' = Inr (sha256_hex d) \<and>
    ap_operation ap = rq_operation rq \<and>
    (\<forall>f \<in> {''request_id'', ''nonce'', ''service'', ''target'', ''csr_sha256'', ''inventory_sha256'',
       ''profile''}. record_get (ap_record ap) f = record_get (rq_record rq) f) \<and>
    rq_created rq \<le> ap_created ap \<and>
    (signer_keys_match = Some True \<longrightarrow> rq_created rq + 86400 \<le> ap_created ap)"
proof -
  note b = assms(3) [unfolded request_approval_binding_iff]
  have bound: "record_get (ap_record ap) ''request_sha256'' = Inr (sha256_hex d)"
    using b request.parsed_bytes [OF assms(1)] by auto
  have same: "\<forall>f \<in> {''request_id'', ''nonce'', ''service'', ''target'', ''csr_sha256'', ''inventory_sha256'',
      ''profile''}. record_get (ap_record ap) f = record_get (rq_record rq) f"
    using b by auto
  have "record_get (rq_record rq) ''operation'' = record_get (ap_record ap) ''operation''"
    using b by auto
  with request.parsed_get [OF assms(1), of "''operation''"] approval.parsed_get [OF assms(2), of "''operation''"]
  have "fld (rq_record rq) ''operation'' = fld (ap_record ap) ''operation''"
    by (simp add: CSR_REQUEST_FIELDS_def CSR_APPROVAL_FIELDS_def)
  with assms(1,2) have "ap_operation ap = rq_operation rq"
    by (simp add: parse_csr_request_iff parse_csr_approval_iff valid_request_def valid_approval_def Let_def)
  with bound same b show ?thesis by blast
qed

lemma sample_binding:
  "validate_request_approval_binding sample_request sample_approval (Some True) = Inr ()"
proof -
  have "to_bytes (rq_record sample_request) = Inr (render (rq_record sample_request))"
    by (rule request.parsed_bytes [OF sample_request_parses])
  then show ?thesis
    unfolding request_approval_binding_iff
    by (simp add: sample_approval_def) (simp add: sample_request_def record_get_def dict_get_def)
qed

theorem csr_approval_binds_request_witness:
  "record_get (ap_record sample_approval) ''request_sha256'' =
     Inr (sha256_hex (render (rq_record sample_request))) \<and>
   rq_created sample_request + 86400 \<le> ap_created sample_approval"
  using csr_approval_binds_request
    [OF sample_request_parses sample_approval_parses sample_binding] by blast

text \<open>
  An approval cannot serve two requests unless their bytes collide under SHA-256.
\<close>

theorem csr_approval_unique_request:
  assumes "parse_csr_request d = Inr rq" and "parse_csr_request d' = Inr rq'"
    and "validate_request_approval_binding rq ap k = Inr ()"
    and "validate_request_approval_binding rq' ap k' = Inr ()"
  shows "sha256_hex d = sha256_hex d'"
  using assms request.parsed_bytes [OF assms(1)] request.parsed_bytes [OF assms(2)]
  by (auto simp: request_approval_binding_iff)

theorem csr_approval_unique_request_witness:
  "sha256_hex (render (rq_record sample_request)) = sha256_hex (render (rq_record sample_request))"
  by (rule csr_approval_unique_request [OF sample_request_parses sample_request_parses sample_binding
        sample_binding])

text \<open>
  C17: a terminal record is committed exactly when its outcome is \<open>published\<close>, and its
  transaction is named after its request.
\<close>

theorem csr_terminal_consistent:
  assumes "parse_csr_terminal d = Inr q"
  shows "(tm_committed q \<longleftrightarrow> tm_outcome q = PUBLISHED) \<and>
    (\<exists>i. record_get (tm_record q) ''request_id'' = Inr i \<and>
       record_get (tm_record q) ''transaction'' = Inr (''csr-'' @ i))"
  using assms terminal.parsed_get [OF assms]
  by (auto simp: parse_csr_terminal_iff valid_terminal_def Let_def CSR_TERMINAL_FIELDS_def)

theorem csr_terminal_consistent_witness:
  "tm_outcome sample_terminal = PUBLISHED \<and>
   (\<exists>i. record_get (tm_record sample_terminal) ''request_id'' = Inr i \<and>
      record_get (tm_record sample_terminal) ''transaction'' = Inr (''csr-'' @ i))"
  using csr_terminal_consistent [OF sample_terminal_parses] by (simp add: sample_terminal_def)

text \<open>
  C18: every one of the seven serializers writes the very bytes that were parsed when it is given
  the fields of a parsed record.
\<close>

theorem csr_serialize_parsed:
  "(\<forall>q. parse_csr_request d = Inr q \<longrightarrow> serialize_csr_request (rec_pairs (rq_record q)) = Inr d) \<and>
   (\<forall>q. parse_csr_approval d = Inr q \<longrightarrow> serialize_csr_approval (rec_pairs (ap_record q)) = Inr d) \<and>
   (\<forall>q. parse_csr_response d = Inr q \<longrightarrow> serialize_csr_response (rec_pairs (rs_record q)) = Inr d) \<and>
   (\<forall>q. parse_csr_candidate d = Inr q \<longrightarrow> serialize_csr_candidate (rec_pairs (cn_record q)) = Inr d) \<and>
   (\<forall>q. parse_csr_replay_request d = Inr q \<longrightarrow> serialize_csr_replay_request (rec_pairs (rr_record q)) = Inr d) \<and>
   (\<forall>q. parse_csr_replay_nonce d = Inr q \<longrightarrow> serialize_csr_replay_nonce (rec_pairs (rn_record q)) = Inr d) \<and>
   (\<forall>q. parse_csr_terminal d = Inr q \<longrightarrow> serialize_csr_terminal (rec_pairs (tm_record q)) = Inr d)"
  unfolding serialize_csr_request_def serialize_csr_approval_def serialize_csr_response_def
    serialize_csr_candidate_def serialize_csr_replay_request_def serialize_csr_replay_nonce_def
    serialize_csr_terminal_def
  by (intro conjI allI impI; fact request.serialize_parsed approval.serialize_parsed
      response.serialize_parsed candidate.serialize_parsed replay_request.serialize_parsed
      replay_nonce.serialize_parsed terminal.serialize_parsed)

theorem csr_serialize_parsed_witness:
  "serialize_csr_terminal (rec_pairs (tm_record sample_terminal)) = Inr (render (tm_record sample_terminal))"
  using csr_serialize_parsed [of "render (tm_record sample_terminal)"] sample_terminal_parses by blast

text \<open>
  What the request serializer writes is a canonical request with the field values that it was
  given, in whatever order they were given.
\<close>

theorem csr_serialized_request:
  assumes "serialize_csr_request vs = Inr d"
  shows "\<exists>q. parse_csr_request d = Inr q \<and>
    (\<forall>f \<in> set CSR_REQUEST_FIELDS. map_of (rec_pairs (rq_record q)) f = map_of vs f)"
  using request.serialized_parses [of vs d] assms by (auto simp: serialize_csr_request_def)

theorem csr_serialized_request_witness:
  "\<exists>q. parse_csr_request (render (rq_record sample_request)) = Inr q \<and>
    (\<forall>f \<in> set CSR_REQUEST_FIELDS. map_of (rec_pairs (rq_record q)) f =
       map_of (rec_pairs (rq_record sample_request)) f)"
proof (rule csr_serialized_request)
  show "serialize_csr_request (rec_pairs (rq_record sample_request)) =
      Inr (render (rq_record sample_request))"
    unfolding serialize_csr_request_def by (rule request.serialize_parsed [OF sample_request_parses])
qed

text \<open>
  C14: the parsers raise \<open>CsrProtocolError\<close> or, for an epoch of more than 4300 digits, the
  interpreter's own \<open>ValueError\<close>; no other exception leaves them.
\<close>

theorem csr_parsers_raise:
  "raises_only protocol_exn (parse_csr_request d) \<and>
   raises_only protocol_exn (parse_csr_approval d) \<and>
   raises_only protocol_exn (parse_csr_response d) \<and>
   raises_only protocol_exn (parse_csr_candidate d) \<and>
   raises_only protocol_exn (parse_csr_replay_request d) \<and>
   raises_only protocol_exn (parse_csr_replay_nonce d) \<and>
   raises_only protocol_exn (parse_csr_terminal d)"
  by (intro conjI raises_parse_csr_request raises_parse_csr_approval raises_parse_csr_response
      raises_parse_csr_candidate raises_parse_csr_replay_request raises_parse_csr_replay_nonce
      raises_parse_csr_terminal)

text \<open>
  C19: a request that is canonical but for a creation epoch of 4301 digits is refused with the
  interpreter's \<open>ValueError\<close>, not with \<open>CsrProtocolError\<close>.
\<close>

theorem csr_request_long_epoch:
  "parse_csr_request (render (long_epoch_record)) = Inl int_limit_error"
proof -
  have "record_of CSR_REQUEST_SPEC long_epoch_record"
    unfolding long_epoch_record_def CSR_REQUEST_SPEC_def
    by (rule record_of_schema_1)
      (simp_all add: CSR_REQUEST_FIELDS_def sample_chars PROFILE_def is_print_def code_def)
  then have p: "parse_ordered_record (render long_epoch_record) CSR_REQUEST_SPEC = Inr long_epoch_record"
    by (simp add: parse_ordered_record_ok csr_specs_wf render_def)
  note g = parsed_fields [OF csr_specs_wf(1) p, unfolded csr_spec_fields csr_fields_defs list.pred_inject]
  have digits: "fullmatch DECIMAL_RX (hex_text 4301 (CHR ''1''))"
      "int_of_digits (hex_text 4301 (CHR ''1'')) = Inl int_limit_error"
    by (simp_all add: DECIMAL_iff canonical_digits_def hex_text_def int_of_digits_def
        int_max_str_digits_def is_digit_def digit_val_def code_def)
  have op: "csr_operation_of ''issue'' = Some ISSUE" by (simp add: csr_operation_of_Some)
  have f: "record_get long_epoch_record f = Inr (fld long_epoch_record f)"
    if "f \<in> set CSR_REQUEST_FIELDS" for f
    using g that by (auto simp: CSR_REQUEST_FIELDS_def)
  have v: "fld long_epoch_record ''created_epoch'' = hex_text 4301 (CHR ''1'')"
    by (simp add: fld_def long_epoch_record_def)
  have e: "epoch long_epoch_record ''created_epoch'' = Inl int_limit_error"
    using g by (simp add: epoch_def pattern_field_def v digits)
  have ok: "identity_fields long_epoch_record True = Inr ()" "service_target long_epoch_record = Inr ()"
      "pattern_field long_epoch_record ''requester_principal'' PRINCIPAL_RX = Inr ''host.example''"
      "pattern_field long_epoch_record ''response_principal'' PRINCIPAL_RX = Inr ''issuer.example''"
      "operation long_epoch_record = Inr ISSUE"
    using g by (simp_all add: field_ok) (simp_all add: fld_def long_epoch_record_def sample_chars sample_names)
  show ?thesis
    using g by (simp add: parse_csr_request_def parse_record_def as_protocol_error_def p ok e
        digest_def expect_field_def) (simp add: fld_def long_epoch_record_def pattern_field_def HEX64_iff hex_text_def is_hex_def is_digit_def code_def)
qed

end
