(* ===== verification/Calendar.thy ===== *)
theory Calendar
  imports Main "HOL-Library.Code_Target_Int"
begin

text \<open>
  What the sources use of Python's \<open>datetime\<close>: the proleptic Gregorian calendar of
  \<open>datetime.date\<close> (\<open>toordinal\<close> and the validity check of its constructor) and the inverse
  \<open>_ord2ymd\<close> behind \<open>fromtimestamp\<close>, as CPython computes it. The result is that the two are
  inverse on the days the calendar has.
\<close>

section \<open>The calendar\<close>

definition is_leap :: "int \<Rightarrow> bool" where
  "is_leap y \<longleftrightarrow> y mod 4 = 0 \<and> (y mod 100 \<noteq> 0 \<or> y mod 400 = 0)"

text \<open>\<open>_DAYS_IN_MONTH\<close> and \<open>_DAYS_BEFORE_MONTH\<close>, for months 1 to 12.\<close>

definition DAYS_IN_MONTH :: "int \<Rightarrow> int" where
  "DAYS_IN_MONTH m = (if m = 2 then 28 else if m = 4 \<or> m = 6 \<or> m = 9 \<or> m = 11 then 30 else 31)"

definition DAYS_BEFORE_MONTH :: "int \<Rightarrow> int" where
  "DAYS_BEFORE_MONTH m =
     (if m = 1 then 0 else if m = 2 then 31 else if m = 3 then 59 else if m = 4 then 90
      else if m = 5 then 120 else if m = 6 then 151 else if m = 7 then 181 else if m = 8 then 212
      else if m = 9 then 243 else if m = 10 then 273 else if m = 11 then 304 else 334)"

definition days_in_month :: "int \<Rightarrow> int \<Rightarrow> int" where
  "days_in_month y m = (if m = 2 \<and> is_leap y then 29 else DAYS_IN_MONTH m)"

definition days_before_month :: "int \<Rightarrow> int \<Rightarrow> int" where
  "days_before_month y m = DAYS_BEFORE_MONTH m + (if m > 2 \<and> is_leap y then 1 else 0)"

definition days_before_year :: "int \<Rightarrow> int" where
  "days_before_year year = (let y = year - 1 in y * 365 + y div 4 - y div 100 + y div 400)"

text \<open>\<open>date(y, m, d)\<close> raises \<open>ValueError\<close> unless this holds.\<close>

definition valid_date :: "int \<Rightarrow> int \<Rightarrow> int \<Rightarrow> bool" where
  "valid_date y m d \<longleftrightarrow>
     1 \<le> y \<and> y \<le> 9999 \<and> 1 \<le> m \<and> m \<le> 12 \<and> 1 \<le> d \<and> d \<le> days_in_month y m"

definition toordinal :: "int \<Rightarrow> int \<Rightarrow> int \<Rightarrow> int" where
  "toordinal y m d = days_before_year y + days_before_month y m + d"

text \<open>\<open>_ord2ymd\<close>, the last part of which is the month and day of a day of the year.\<close>

definition month_day :: "bool \<Rightarrow> int \<Rightarrow> int \<times> int" where
  "month_day leapyear n =
     (let month = (n + 50) div 32;
          preceding = DAYS_BEFORE_MONTH month + (if month > 2 \<and> leapyear then 1 else 0)
      in if preceding > n then
           (month - 1,
            n - (preceding - (DAYS_IN_MONTH (month - 1) +
                   (if month - 1 = 2 \<and> leapyear then 1 else 0))) + 1)
         else (month, n - preceding + 1))"

definition ord2ymd :: "int \<Rightarrow> int \<times> int \<times> int" where
  "ord2ymd ordinal =
     (let n = ordinal - 1;
          n400 = n div 146097; n = n mod 146097;
          n100 = n div 36524; n = n mod 36524;
          n4 = n div 1461; n = n mod 1461;
          n1 = n div 365; n = n mod 365;
          year = n400 * 400 + 1 + n100 * 100 + n4 * 4 + n1
      in if n1 = 4 \<or> n100 = 4 then (year - 1, 12, 31)
         else (let (m, d) = month_day (n1 = 3 \<and> (n4 \<noteq> 24 \<or> n100 = 3)) n in (year, m, d)))"

definition max_ordinal :: int where
  "max_ordinal = 3652059"

definition epoch_ordinal :: int where
  "epoch_ordinal = 719163"

lemma epoch_ordinal_date: "toordinal 1970 1 1 = epoch_ordinal"
  by (simp add: toordinal_def days_before_year_def days_before_month_def DAYS_BEFORE_MONTH_def
      epoch_ordinal_def)

lemma max_ordinal_date: "toordinal 9999 12 31 = max_ordinal"
  by (simp add: toordinal_def days_before_year_def days_before_month_def DAYS_BEFORE_MONTH_def
      max_ordinal_def is_leap_def)

section \<open>The two conversions are inverse\<close>

definition month_day_ok :: "bool \<Rightarrow> int \<Rightarrow> bool" where
  "month_day_ok leap n \<longleftrightarrow>
     (let (m, d) = month_day leap n
      in 1 \<le> m \<and> m \<le> 12 \<and> 1 \<le> d \<and> d \<le> (if m = 2 \<and> leap then 29 else DAYS_IN_MONTH m) \<and>
         DAYS_BEFORE_MONTH m + (if m > 2 \<and> leap then 1 else 0) + d = n + 1)"

lemma month_day_table:
  "list_all (month_day_ok False) [0..364]" "list_all (month_day_ok True) [0..365]"
  by code_simp+

lemma month_day_all:
  assumes "0 \<le> n" and "n \<le> 364 + of_bool leap"
  shows "month_day_ok leap n"
  using assms month_day_table by (cases leap) (auto simp: list_all_iff)

lemma mod_eq_0_last:
  fixes y :: int
  assumes "y = k * z + w" and "0 < w" and "w \<le> k"
  shows "y mod k = 0 \<longleftrightarrow> w = k"
  using assms by (cases "w = k") auto

lemma year_split:
  fixes e c q r :: int
  assumes "0 \<le> c" "c \<le> 3" "0 \<le> q" "q \<le> 24" "0 \<le> r" "r \<le> 3"
  defines "y \<equiv> e * 400 + 1 + c * 100 + q * 4 + r"
  shows "days_before_year y = 146097 * e + 36524 * c + 1461 * q + 365 * r"
    and "is_leap y \<longleftrightarrow> r = 3 \<and> (q \<noteq> 24 \<or> c = 3)"
proof -
  have y: "y - 1 = 4 * (100 * e + 25 * c + q) + r" "y - 1 = 100 * (4 * e + c) + (4 * q + r)"
    "y - 1 = 400 * e + (100 * c + 4 * q + r)"
    by (simp_all add: y_def)
  have "(y - 1) div 4 = 100 * e + 25 * c + q" using y(1) assms by simp
  moreover have "(y - 1) div 100 = 4 * e + c" using y(2) assms by simp
  moreover have "(y - 1) div 400 = e" using y(3) assms by simp
  ultimately show "days_before_year y = 146097 * e + 36524 * c + 1461 * q + 365 * r"
    by (simp add: days_before_year_def Let_def y_def)
  have "y mod 4 = 0 \<longleftrightarrow> r + 1 = 4"
    by (rule mod_eq_0_last [of y 4 "100 * e + 25 * c + q"]) (use y(1) assms(1-6) in auto)
  moreover have "y mod 100 = 0 \<longleftrightarrow> 4 * q + r + 1 = 100"
    by (rule mod_eq_0_last [of y 100 "4 * e + c"]) (use y(2) assms(1-6) in auto)
  moreover have "y mod 400 = 0 \<longleftrightarrow> 100 * c + 4 * q + r + 1 = 400"
    by (rule mod_eq_0_last [of y 400 e]) (use y(3) assms(1-6) in auto)
  ultimately show "is_leap y \<longleftrightarrow> r = 3 \<and> (q \<noteq> 24 \<or> c = 3)" using assms(1-6) unfolding is_leap_def by auto
qed

lemma ord2ymd_correct:
  assumes "1 \<le> n" and "n \<le> max_ordinal" and "ord2ymd n = (y, m, d)"
  shows "valid_date y m d" and "toordinal y m d = n"
proof -
  define n0 where "n0 = n - 1"
  define e where "e = n0 div 146097"
  define n1 where "n1 = n0 mod 146097"
  define c where "c = n1 div 36524"
  define n2 where "n2 = n1 mod 36524"
  define q where "q = n2 div 1461"
  define n3 where "n3 = n2 mod 1461"
  define r where "r = n3 div 365"
  define n4 where "n4 = n3 mod 365"
  have n0: "0 \<le> n0" "n0 < 3652059" using assms by (simp_all add: n0_def max_ordinal_def)
  have n: "n0 = 146097 * e + n1" "n1 = 36524 * c + n2" "n2 = 1461 * q + n3" "n3 = 365 * r + n4"
    by (simp_all add: e_def n1_def c_def n2_def q_def n3_def r_def n4_def)
  have b1: "0 \<le> n1" "n1 < 146097" "0 \<le> n2" "n2 < 36524" "0 \<le> n3" "n3 < 1461"
    "0 \<le> n4" "n4 < 365"
    by (simp_all add: n1_def n2_def n3_def n4_def)
  have e: "0 \<le> e" "e \<le> 24" using n0 by (simp_all add: e_def)
  have c: "0 \<le> c" "c \<le> 4" using b1 by (simp_all add: c_def)
  have q: "0 \<le> q" "q \<le> 24" using b1 by (simp_all add: q_def)
  have r: "0 \<le> r" "r \<le> 4" using b1 by (simp_all add: r_def)
  let ?year = "e * 400 + 1 + c * 100 + q * 4 + r"
  have eq: "ord2ymd n = (if r = 4 \<or> c = 4 then (?year - 1, 12, 31)
      else (let (m, d) = month_day (r = 3 \<and> (q \<noteq> 24 \<or> c = 3)) n4 in (?year, m, d)))"
    unfolding ord2ymd_def Let_def
    by (simp add: n4_def r_def n3_def q_def n2_def c_def n1_def e_def n0_def)
  have "valid_date y m d \<and> toordinal y m d = n"
  proof (cases "r = 4 \<or> c = 4")
    case True
    have "(r = 4 \<and> n4 = 0 \<and> c \<le> 3 \<and> (q = 24 \<longrightarrow> c = 3)) \<or> (c = 4 \<and> q = 0 \<and> r = 0 \<and> n4 = 0)"
    proof (cases "c = 4")
      case True
      then have "n2 = 0" using n(2) b1 by linarith
      then show ?thesis using True n b1 q r by linarith
    next
      case False
      with \<open>r = 4 \<or> c = 4\<close> have "r = 4" by simp
      with n b1 have "n4 = 0" "n3 = 1460" by linarith+
      moreover have "q \<noteq> 24" using n(3) b1 \<open>n3 = 1460\<close> by linarith
      ultimately show ?thesis using \<open>r = 4\<close> c False by simp
    qed
    then obtain c' q' where y: "?year - 1 = e * 400 + 1 + c' * 100 + q' * 4 + 3"
      and c': "0 \<le> c'" "c' \<le> 3" "0 \<le> q'" "q' \<le> 24" "q' \<noteq> 24 \<or> c' = 3"
      and n0': "n0 = 146097 * e + 36524 * c' + 1461 * q' + 1460"
    proof (elim disjE conjE)
      assume "r = 4" "n4 = 0" "c \<le> 3" "q = 24 \<longrightarrow> c = 3"
      then show thesis using n c q by (intro that [of c q]) auto
    next
      assume "c = 4" "q = 0" "r = 0" "n4 = 0"
      then show thesis using n by (intro that [of 3 24]) auto
    qed
    have dby: "days_before_year (?year - 1) = 146097 * e + 36524 * c' + 1461 * q' + 365 * 3"
      and leap: "is_leap (?year - 1)"
      using year_split [of c' q' 3 e] c' unfolding y by auto
    have ymd: "y = ?year - 1" "m = 12" "d = 31" using assms(3) eq True by auto
    have "1 \<le> y" using y c' e unfolding ymd(1) by linarith
    moreover have "e \<le> 23 \<or> c' \<le> 2 \<or> q' \<le> 23"
    proof (rule ccontr)
      assume "\<not> ?thesis"
      with e c' have "e = 24" "c' = 3" "q' = 24" by linarith+
      with n0 n0' show False by simp
    qed
    then have "y \<le> 9999" using y c' e unfolding ymd(1) by linarith
    ultimately have "1 \<le> y" "y \<le> 9999" by auto
    then show ?thesis
      using ymd leap dby n0' by (simp add: valid_date_def toordinal_def days_before_month_def
          days_in_month_def DAYS_BEFORE_MONTH_def DAYS_IN_MONTH_def n0_def)
  next
    case False
    let ?leap = "r = 3 \<and> (q \<noteq> 24 \<or> c = 3)"
    have c3: "c \<le> 3" and r3: "r \<le> 3" using False c r by auto
    note ys = year_split [OF c(1) c3 q r(1) r3, of e]
    have "month_day_ok ?leap n4" using b1 by (intro month_day_all) auto
    moreover have md: "month_day ?leap n4 = (m, d)" "y = ?year"
      using assms(3) eq False by (auto split: prod.splits)
    ultimately have m: "1 \<le> m" "m \<le> 12" "1 \<le> d" "d \<le> days_in_month y m"
      and s: "days_before_month y m + d = n4 + 1"
      using ys(2) by (auto simp: month_day_ok_def days_in_month_def days_before_month_def md(2))
    have "1 \<le> y" using e c q r unfolding md(2) by linarith
    moreover have "e \<le> 23 \<or> c \<le> 2 \<or> q \<le> 23 \<or> r \<le> 2"
    proof (rule ccontr)
      assume "\<not> ?thesis"
      with e c3 q r3 have "e = 24" "c = 3" "q = 24" "r = 3" by linarith+
      with n n0 b1 show False by simp
    qed
    then have "y \<le> 9999" using e c c3 q r r3 unfolding md(2) by linarith
    ultimately have "1 \<le> y" "y \<le> 9999" by auto
    with m s ys(1) n show ?thesis
      by (simp add: valid_date_def toordinal_def md(2) n0_def)
  qed
  then show "valid_date y m d" and "toordinal y m d = n" by auto
qed

end
