(* ===== verification/PersistedIdentity.thy ===== *)
theory PersistedIdentity
  imports Patterns Codec Calendar
begin

text \<open>
  \<^verbatim>\<open>src/platform_pki/persisted_identity.py\<close>: the codecs for the GNU \<open>stat\<close> identities that
  the PKI journals and manifests persist, with the identity classes of
  \<^verbatim>\<open>src/platform_pki/filesystem.py\<close>. The patterns are transcribed as terms of the \<open>re\<close> model;
  a named group is a position in the list of groups. The local time zone, which
  \<open>format_gnu_stat_timestamp\<close> asks when no offset is given, is the parameter \<open>local_offset\<close>.
\<close>

section \<open>Identities\<close>

datatype file_kind = Regular | Directory

record file_object_state =
  os_dev :: int
  os_ino :: int
  os_uid :: int
  os_permissions :: int
  os_links :: int
  os_size :: int
  os_kind :: file_kind

record directory_identity =
  di_dev :: int
  di_ino :: int
  di_uid :: int
  di_permissions :: int

record file_identity =
  fi_dev :: int
  fi_ino :: int
  fi_uid :: int
  fi_permissions :: int
  fi_links :: int
  fi_size :: int
  fi_mtime_ns :: int
  fi_ctime_ns :: int
  fi_kind :: file_kind

text \<open>The properties \<open>FileIdentity.state\<close> and \<open>FileIdentity.directory\<close>.\<close>

definition fi_state :: "file_identity \<Rightarrow> file_object_state" where
  "fi_state i = \<lparr>os_dev = fi_dev i, os_ino = fi_ino i, os_uid = fi_uid i,
     os_permissions = fi_permissions i, os_links = fi_links i, os_size = fi_size i,
     os_kind = fi_kind i\<rparr>"

definition fi_directory :: "file_identity \<Rightarrow> directory_identity result" where
  "fi_directory i =
     (if fi_kind i \<noteq> Directory then
        Inl (ValueError ''file identity does not describe a directory'')
      else Inr \<lparr>di_dev = fi_dev i, di_ino = fi_ino i, di_uid = fi_uid i,
        di_permissions = fi_permissions i\<rparr>)"

section \<open>Patterns\<close>

abbreviation digits_rx :: "nat \<Rightarrow> char rx" where
  "digits_rx n \<equiv> Times (Cls is_digit) n"

definition is_octal :: "char \<Rightarrow> bool" where
  "is_octal c \<longleftrightarrow> 48 \<le> code c \<and> code c \<le> 55"

definition is_lead_octal :: "char \<Rightarrow> bool" where
  "is_lead_octal c \<longleftrightarrow> 49 \<le> code c \<and> code c \<le> 55"

text \<open>\<open>(?:0|[1-7][0-7]{0,3})\<close>\<close>

definition MODE_RX :: "char rx" where
  "MODE_RX = Or (Lit ''0'')
     (Cat (Cls is_lead_octal) (UpTo (Cls is_octal) 3))"

definition KIND_RX :: "char rx" where
  "KIND_RX = Alts [Lit ''regular empty file'', Lit ''regular file'', Lit ''directory'']"

definition is_sign :: "char \<Rightarrow> bool" where
  "is_sign c \<longleftrightarrow> c = CHR ''+'' \<or> c = CHR ''-''"

definition TIMESTAMP_RX :: "char rx" where
  "TIMESTAMP_RX = Seqs [digits_rx 4, Lit ''-'', digits_rx 2, Lit ''-'', digits_rx 2, Lit '' '',
     digits_rx 2, Lit '':'', digits_rx 2, Lit '':'', digits_rx 2, Lit ''.'', digits_rx 9,
     Lit '' '', Cls is_sign, digits_rx 4]"

definition TIMESTAMP_PATTERN :: "char rx" where
  "TIMESTAMP_PATTERN = Seqs [Grp (digits_rx 4), Lit ''-'', Grp (digits_rx 2), Lit ''-'',
     Grp (digits_rx 2), Lit '' '', Grp (digits_rx 2), Lit '':'', Grp (digits_rx 2), Lit '':'',
     Grp (digits_rx 2), Lit ''.'', Grp (digits_rx 9), Lit '' '', Grp (Cls is_sign),
     Grp (digits_rx 2), Grp (digits_rx 2)]"

definition DIRECTORY_PATTERN :: "char rx" where
  "DIRECTORY_PATTERN = Seqs [Grp DECIMAL_RX, Lit '':'', Grp DECIMAL_RX, Lit '':'',
     Grp DECIMAL_RX, Lit '':'', Grp MODE_RX, Lit '':directory'']"

definition OBJECT_PATTERN :: "char rx" where
  "OBJECT_PATTERN = Seqs [Grp DECIMAL_RX, Lit '':'', Grp DECIMAL_RX, Lit '':'',
     Grp DECIMAL_RX, Lit '':'', Grp MODE_RX, Lit '':'', Grp DECIMAL_RX, Lit '':'',
     Grp DECIMAL_RX, Lit '':'', Grp KIND_RX]"

definition FULL_PATTERN :: "char rx" where
  "FULL_PATTERN = Seqs [Grp DECIMAL_RX, Lit '':'', Grp DECIMAL_RX, Lit '':'',
     Grp DECIMAL_RX, Lit '':'', Grp MODE_RX, Lit '':'', Grp DECIMAL_RX, Lit '':'',
     Grp DECIMAL_RX, Lit '':'', Grp TIMESTAMP_RX, Lit '':'', Grp TIMESTAMP_RX, Lit '':'',
     Grp KIND_RX]"

definition UINT32_MAX :: int where "UINT32_MAX = 2 ^ 32 - 1"
definition UINT64_MAX :: int where "UINT64_MAX = 2 ^ 64 - 1"
definition INT64_MAX :: int where "INT64_MAX = 2 ^ 63 - 1"

section \<open>Sentinels\<close>

datatype identity_sentinel = ABSENT | NONE

fun sentinel_text :: "identity_sentinel \<Rightarrow> string" where
  "sentinel_text ABSENT = ''absent''"
| "sentinel_text NONE = ''none''"

text \<open>\<open>_sentinel\<close>: the loop over the two members of the enumeration.\<close>

definition sentinel ::
  "string \<Rightarrow> identity_sentinel set \<Rightarrow> identity_sentinel option result" where
  "sentinel value allowed =
     (case filter (\<lambda>s. value = sentinel_text s) [ABSENT, NONE] of
        [] \<Rightarrow> Inr None
      | s # _ \<Rightarrow>
          if s \<notin> allowed then
            Inl (PersistedIdentityError ''persisted identity sentinel is not allowed'')
          else Inr (Some s))"

definition serialize_identity_sentinel ::
  "identity_sentinel \<Rightarrow> identity_sentinel set \<Rightarrow> string result" where
  "serialize_identity_sentinel s allowed =
     bindE (sentinel (sentinel_text s) allowed) (\<lambda>_. Inr (sentinel_text s))"

text \<open>The result of the parsers: an identity, or a sentinel the caller allowed.\<close>

datatype 'a or_sentinel = Identity 'a | Sentinel identity_sentinel

text \<open>\<open>ParsedIdentity\<close>, the union that the journal models name.\<close>

datatype parsed_identity =
    PDirectory directory_identity
  | PFile file_identity
  | PObject file_object_state
  | PSentinel identity_sentinel

section \<open>Fields\<close>

text \<open>\<open>int(value, 10)\<close> on the texts that reach it: pattern-checked digits, or \<open>str\<close> of an integer.\<close>

definition int_base10 :: "string \<Rightarrow> int result" where
  "int_base10 value =
     (if starts_with ''-'' value then bindE (int_of_digits (tl value)) (\<lambda>n. Inr (- n))
      else int_of_digits value)"

definition integer_field :: "string \<Rightarrow> string \<Rightarrow> int \<Rightarrow> bool \<Rightarrow> int result" where
  "integer_field value label maximum positive =
     (case int_base10 value of
        Inl _ \<Rightarrow> Inl (PersistedIdentityError
          (''persisted identity '' @ label @ '' is not an integer''))
      | Inr number \<Rightarrow>
          if number < 0 \<or> number > maximum \<or> (positive \<and> number = 0) then
            Inl (PersistedIdentityError
              (''persisted identity '' @ label @ '' is outside its range''))
          else Inr number)"

definition mode_of :: "string \<Rightarrow> int result" where
  "mode_of value =
     (let mode = text_nat 8 value
      in if mode > 4095 \<or> nat_text 8 mode \<noteq> value then
           Inl (PersistedIdentityError ''persisted identity mode is not canonical'')
         else Inr (int mode))"

definition kind_of :: "string \<Rightarrow> int \<Rightarrow> file_kind result" where
  "kind_of value sz =
     (if value = ''directory'' then Inr Directory
      else if value = ''regular empty file'' then
        (if sz \<noteq> 0 then
           Inl (PersistedIdentityError ''nonempty object has an empty-file type'')
         else Inr Regular)
      else if sz = 0 then
        Inl (PersistedIdentityError
          ''empty object does not have the GNU empty-file type'')
      else Inr Regular)"

section \<open>Timestamps\<close>

text \<open>\<open>parse_gnu_stat_timestamp\<close>: epoch nanoseconds of a \<open>%y\<close>/\<open>%z\<close> text.\<close>

definition timestamp_ns ::
  "int \<Rightarrow> int \<Rightarrow> int \<Rightarrow> int \<Rightarrow> int \<Rightarrow> int \<Rightarrow> int \<Rightarrow> string \<Rightarrow> int \<Rightarrow> int \<Rightarrow> int result" where
  "timestamp_ns year month day hour minute second fraction sign offset_hour offset_minute =
     (let offset = offset_hour * 60 + offset_minute
      in if offset_hour > 23 \<or> offset_minute > 59 then
           Inl (PersistedIdentityError ''persisted identity timestamp offset is impossible'')
         else if sign = ''-'' \<and> offset = 0 then
           Inl (PersistedIdentityError ''negative zero timestamp offset is not canonical'')
         else if \<not> valid_date year month day then
           Inl (PersistedIdentityError ''persisted identity timestamp date is impossible'')
         else if hour > 23 \<or> minute > 59 \<or> second > 59 then
           Inl (PersistedIdentityError ''persisted identity timestamp time is impossible'')
         else
           (let offset_minutes = (if sign = ''-'' then - offset else offset);
                seconds = (toordinal year month day - epoch_ordinal) * 86400
                  + hour * 3600 + minute * 60 + second - offset_minutes * 60
            in Inr (seconds * 1000000000 + fraction)))"

definition digits_int :: "string \<Rightarrow> int" where
  "digits_int s = int (text_nat 10 s)"

definition parse_gnu_stat_timestamp :: "string \<Rightarrow> int result" where
  "parse_gnu_stat_timestamp value =
     (case match_groups TIMESTAMP_PATTERN value of
        Some [year, month, day, hour, minute, second, fraction, sign, oh, om] \<Rightarrow>
          timestamp_ns (digits_int year) (digits_int month) (digits_int day) (digits_int hour)
            (digits_int minute) (digits_int second) (digits_int fraction) sign
            (digits_int oh) (digits_int om)
      | _ \<Rightarrow> Inl (PersistedIdentityError ''persisted identity timestamp is malformed''))"

text \<open>\<open>%0wd\<close> of a number that is not negative.\<close>

definition padded :: "nat \<Rightarrow> int \<Rightarrow> string" where
  "padded w n = zero_pad w (nat_text 10 (nat n))"

text \<open>The instant \<open>seconds\<close> after the epoch is one of \<open>datetime\<close>'s, years 1 to 9999.\<close>

definition in_calendar :: "int \<Rightarrow> bool" where
  "in_calendar seconds \<longleftrightarrow>
     1 \<le> seconds div 86400 + epoch_ordinal \<and> seconds div 86400 + epoch_ordinal \<le> max_ordinal"

text \<open>\<open>f"{local:%Y-%m-%d %H:%M:%S}.{fraction:09d} {sign}{offset // 60:02d}{offset % 60:02d}"\<close>\<close>

definition timestamp_text :: "int \<Rightarrow> int \<Rightarrow> int \<Rightarrow> string" where
  "timestamp_text local fraction utc_offset_minutes =
     (let (year, month, day) = ord2ymd (local div 86400 + epoch_ordinal);
          time = local mod 86400;
          sign = (if utc_offset_minutes \<ge> 0 then ''+'' else ''-'');
          offset = \<bar>utc_offset_minutes\<bar>
      in padded 4 year @ ''-'' @ padded 2 month @ ''-'' @ padded 2 day @ '' '' @
         padded 2 (time div 3600) @ '':'' @ padded 2 (time mod 3600 div 60) @ '':'' @
         padded 2 (time mod 60) @ ''.'' @ padded 9 fraction @ '' '' @
         sign @ padded 2 (offset div 60) @ padded 2 (offset mod 60))"

text \<open>
  \<open>format_gnu_stat_timestamp\<close>. \<open>local_offset seconds\<close> is the UTC offset in seconds that
  \<open>astimezone\<close> finds for the instant.
\<close>

definition format_gnu_stat_timestamp ::
  "(int \<Rightarrow> int option) \<Rightarrow> int \<Rightarrow> int option \<Rightarrow> string result" where
  "format_gnu_stat_timestamp local_offset value utc_offset =
     (let seconds = value div 1000000000; fraction = value mod 1000000000
      in if \<not> in_calendar seconds then
           Inl (PersistedIdentityError
             ''persisted identity timestamp is outside the supported calendar'')
         else
           bindE
             (case utc_offset of
                Some minutes \<Rightarrow> Inr minutes
              | None \<Rightarrow>
                  (case local_offset seconds of
                     None \<Rightarrow> Inl (PersistedIdentityError
                       ''local timestamp offset is not minute-aligned'')
                   | Some off \<Rightarrow>
                       if off mod 60 \<noteq> 0 then Inl (PersistedIdentityError
                         ''local timestamp offset is not minute-aligned'')
                       else Inr (off div 60)))
             (\<lambda>minutes.
                if \<not> (-1439 \<le> minutes \<and> minutes \<le> 1439) then
                  Inl (PersistedIdentityError
                    ''timestamp offset minutes are outside their range'')
                else if \<not> in_calendar (seconds + minutes * 60) then
                  Inl (PersistedIdentityError
                    ''persisted identity timestamp is outside the supported calendar'')
                else Inr (timestamp_text (seconds + minutes * 60) fraction minutes)))"

section \<open>Parsers\<close>

text \<open>\<open>_components\<close>: the size is read first, the others in order.\<close>

definition components ::
  "string \<Rightarrow> string \<Rightarrow> string \<Rightarrow> string \<Rightarrow> string \<Rightarrow> string \<Rightarrow> string \<Rightarrow> file_object_state result" where
  "components dev ino uid mode links sz kind =
     bindE (integer_field sz ''size'' INT64_MAX False) (\<lambda>size'.
     bindE (integer_field dev ''device'' UINT64_MAX False) (\<lambda>dev'.
     bindE (integer_field ino ''inode'' UINT64_MAX True) (\<lambda>ino'.
     bindE (integer_field uid ''owner'' UINT32_MAX False) (\<lambda>uid'.
     bindE (mode_of mode) (\<lambda>mode'.
     bindE (integer_field links ''link count'' UINT64_MAX True) (\<lambda>links'.
     bindE (kind_of kind size') (\<lambda>kind'.
       Inr \<lparr>os_dev = dev', os_ino = ino', os_uid = uid', os_permissions = mode',
         os_links = links', os_size = size', os_kind = kind'\<rparr>)))))))"

definition with_sentinel ::
  "string \<Rightarrow> identity_sentinel set \<Rightarrow> (string \<Rightarrow> 'a result) \<Rightarrow> 'a or_sentinel result" where
  "with_sentinel value allowed parse =
     bindE (sentinel value allowed) (\<lambda>s.
       case s of
         Some x \<Rightarrow> Inr (Sentinel x)
       | None \<Rightarrow> bindE (parse value) (\<lambda>i. Inr (Identity i)))"

definition file_identity_of_text :: "string \<Rightarrow> file_identity result" where
  "file_identity_of_text value =
     (case match_groups FULL_PATTERN value of
        Some [dev, ino, uid, mode, links, sz, mtime, ctime, kind] \<Rightarrow>
          bindE (components dev ino uid mode links sz kind) (\<lambda>c.
          bindE (parse_gnu_stat_timestamp mtime) (\<lambda>m.
          bindE (parse_gnu_stat_timestamp ctime) (\<lambda>t.
            Inr \<lparr>fi_dev = os_dev c, fi_ino = os_ino c, fi_uid = os_uid c,
              fi_permissions = os_permissions c, fi_links = os_links c, fi_size = os_size c,
              fi_mtime_ns = m, fi_ctime_ns = t, fi_kind = os_kind c\<rparr>)))
      | _ \<Rightarrow> Inl (PersistedIdentityError ''full persisted file identity is malformed''))"

definition file_object_state_of_text :: "string \<Rightarrow> file_object_state result" where
  "file_object_state_of_text value =
     (case match_groups OBJECT_PATTERN value of
        Some [dev, ino, uid, mode, links, sz, kind] \<Rightarrow>
          components dev ino uid mode links sz kind
      | _ \<Rightarrow> Inl (PersistedIdentityError ''persisted file object state is malformed''))"

definition directory_identity_of_text :: "string \<Rightarrow> directory_identity result" where
  "directory_identity_of_text value =
     (case match_groups DIRECTORY_PATTERN value of
        Some [dev, ino, uid, mode] \<Rightarrow>
          bindE (integer_field dev ''device'' UINT64_MAX False) (\<lambda>dev'.
          bindE (integer_field ino ''inode'' UINT64_MAX True) (\<lambda>ino'.
          bindE (integer_field uid ''owner'' UINT32_MAX False) (\<lambda>uid'.
          bindE (mode_of mode) (\<lambda>mode'.
            Inr \<lparr>di_dev = dev', di_ino = ino', di_uid = uid', di_permissions = mode'\<rparr>))))
      | _ \<Rightarrow> Inl (PersistedIdentityError ''persisted directory identity is malformed''))"

definition parse_file_identity ::
  "string \<Rightarrow> identity_sentinel set \<Rightarrow> file_identity or_sentinel result" where
  "parse_file_identity value allowed = with_sentinel value allowed file_identity_of_text"

definition parse_file_object_state ::
  "string \<Rightarrow> identity_sentinel set \<Rightarrow> file_object_state or_sentinel result" where
  "parse_file_object_state value allowed = with_sentinel value allowed file_object_state_of_text"

definition parse_directory_identity ::
  "string \<Rightarrow> identity_sentinel set \<Rightarrow> directory_identity or_sentinel result" where
  "parse_directory_identity value allowed = with_sentinel value allowed directory_identity_of_text"

section \<open>Serializers\<close>

definition serialized_kind :: "file_kind \<Rightarrow> int \<Rightarrow> string" where
  "serialized_kind kind sz =
     (case kind of
        Directory \<Rightarrow> ''directory''
      | Regular \<Rightarrow> if sz = 0 then ''regular empty file'' else ''regular file'')"

text \<open>\<open>_integer(str(n), ...)\<close>\<close>

definition checked_int :: "int \<Rightarrow> string \<Rightarrow> int \<Rightarrow> bool \<Rightarrow> int result" where
  "checked_int n label maximum positive =
     bindE (str_of_int n) (\<lambda>s. integer_field s label maximum positive)"

definition serialize_components :: "file_object_state \<Rightarrow> string result" where
  "serialize_components i =
     bindE (checked_int (os_dev i) ''device'' UINT64_MAX False) (\<lambda>dev.
     bindE (checked_int (os_ino i) ''inode'' UINT64_MAX True) (\<lambda>ino.
     bindE (checked_int (os_uid i) ''owner'' UINT32_MAX False) (\<lambda>uid.
     bindE (checked_int (os_links i) ''link count'' UINT64_MAX True) (\<lambda>links.
     bindE (checked_int (os_size i) ''size'' INT64_MAX False) (\<lambda>sz.
     if \<not> (0 \<le> os_permissions i \<and> os_permissions i \<le> 4095) then
       Inl (PersistedIdentityError ''persisted identity mode is outside its range'')
     else
       Inr (join_on '':'' [nat_text 10 (nat dev), nat_text 10 (nat ino), nat_text 10 (nat uid),
         nat_text 8 (nat (os_permissions i)), nat_text 10 (nat links),
         nat_text 10 (nat sz)]))))))"

definition serialize_file_object_state :: "file_object_state \<Rightarrow> string result" where
  "serialize_file_object_state i =
     bindE (serialize_components i) (\<lambda>s. Inr (s @ '':'' @ serialized_kind (os_kind i) (os_size i)))"

definition serialize_file_identity ::
  "(int \<Rightarrow> int option) \<Rightarrow> file_identity \<Rightarrow> int option \<Rightarrow> string result" where
  "serialize_file_identity local_offset i utc_offset =
     bindE (serialize_components (fi_state i)) (\<lambda>s.
     bindE (format_gnu_stat_timestamp local_offset (fi_mtime_ns i) utc_offset) (\<lambda>m.
     bindE (format_gnu_stat_timestamp local_offset (fi_ctime_ns i) utc_offset) (\<lambda>t.
       Inr (join_on '':'' [s, m, t, serialized_kind (fi_kind i) (fi_size i)]))))"

definition serialize_directory_identity :: "directory_identity \<Rightarrow> string result" where
  "serialize_directory_identity i =
     bindE (checked_int (di_dev i) ''device'' UINT64_MAX False) (\<lambda>dev.
     bindE (checked_int (di_ino i) ''inode'' UINT64_MAX True) (\<lambda>ino.
     bindE (checked_int (di_uid i) ''owner'' UINT32_MAX False) (\<lambda>uid.
     if \<not> (0 \<le> di_permissions i \<and> di_permissions i \<le> 4095) then
       Inl (PersistedIdentityError ''persisted identity mode is outside its range'')
     else
       Inr (nat_text 10 (nat dev) @ '':'' @ nat_text 10 (nat ino) @ '':'' @
         nat_text 10 (nat uid) @ '':'' @ nat_text 8 (nat (di_permissions i)) @
         '':directory''))))"

end
