(* ===== verification/IdentityCodecs.thy ===== *)
theory IdentityCodecs
  imports PersistedIdentity
begin

text \<open>
  Correctness of the identity codecs of \<open>PersistedIdentity\<close>: the directory and object-state
  texts are canonical codecs (interpretations of \<open>canonical_codec\<close>), a formatted timestamp is
  read back exactly for every offset, hence file identities round-trip, and the parsers raise
  only \<open>PersistedIdentityError\<close>.
\<close>

section \<open>Fields\<close>

lemma canonical_length:
  assumes "canonical_digits 10 s" and "int (text_nat 10 s) \<le> UINT64_MAX"
  shows "length s \<le> 4300"
proof -
  from assms(2) have "text_nat 10 s < 10 ^ Suc 19" by (simp add: UINT64_MAX_def)
  then have "length (nat_text 10 (text_nat 10 s)) \<le> Suc 19" by (rule length_nat_text) simp
  then show ?thesis by (simp add: nat_text_text_nat [OF _ assms(1)])
qed

lemma canonical_no_minus: "canonical_digits b s \<Longrightarrow> \<not> starts_with ''-'' s"
  by (auto simp: canonical_digits_def starts_with_iff is_digit_def code_def)

lemma integer_field_ok:
  assumes "canonical_digits 10 s" and "maximum \<le> UINT64_MAX"
  shows "integer_field s label maximum positive = Inr n \<longleftrightarrow>
    n = int (text_nat 10 s) \<and> n \<le> maximum \<and> (positive \<longrightarrow> n \<noteq> 0)"
proof (cases "length s \<le> 4300")
  case True
  then show ?thesis
    by (auto simp: integer_field_def int_base10_def canonical_no_minus [OF assms(1)]
        int_of_digits_short)
next
  case False
  then have "\<not> int (text_nat 10 s) \<le> maximum"
    using canonical_length [OF assms(1)] assms(2) by linarith
  with False show ?thesis
    by (auto simp: integer_field_def int_base10_def canonical_no_minus [OF assms(1)]
        int_of_digits_def int_max_str_digits_def)
qed

lemma integer_field_nat_text:
  "maximum \<le> UINT64_MAX \<Longrightarrow>
   integer_field (nat_text 10 k) label maximum positive = Inr n \<longleftrightarrow>
     n = int k \<and> n \<le> maximum \<and> (positive \<longrightarrow> n \<noteq> 0)"
  by (simp add: integer_field_ok canonical_nat_text text_nat_nat_text)

lemma checked_int_ok:
  assumes "maximum \<le> UINT64_MAX"
  shows "checked_int n label maximum positive = Inr m \<longleftrightarrow>
    m = n \<and> 0 \<le> n \<and> n \<le> maximum \<and> (positive \<longrightarrow> n \<noteq> 0)"
proof (cases "0 \<le> n")
  case True
  have "n \<le> maximum \<Longrightarrow> length (nat_text 10 (nat n)) \<le> 4300"
    using canonical_length [of "nat_text 10 (nat n)"] assms True
    by (simp add: canonical_nat_text text_nat_nat_text)
  with True assms show ?thesis
    by (auto simp: checked_int_def str_of_int_def Let_def int_max_str_digits_def ok_iff
        integer_field_nat_text)
next
  case False
  then have "integer_field (CHR ''-'' # nat_text 10 (nat \<bar>n\<bar>)) label maximum positive \<noteq> Inr m"
    by (auto simp: integer_field_def int_base10_def starts_with_def int_of_digits_def
        text_nat_nat_text)
  with False show ?thesis
    by (auto simp: checked_int_def str_of_int_def Let_def ok_iff)
qed

lemma max_le [simp]:
  "UINT32_MAX \<le> UINT64_MAX" "INT64_MAX \<le> UINT64_MAX" "UINT64_MAX \<le> UINT64_MAX"
  by (simp_all add: UINT32_MAX_def INT64_MAX_def UINT64_MAX_def)

lemma MODE_lang: "s \<in> lang MODE_RX \<longleftrightarrow> canonical_digits 8 s \<and> length s \<le> 4"
proof (cases s)
  case Nil
  then show ?thesis by (simp add: MODE_RX_def lang_Or lang_Lit lang_Cat_Cls canonical_digits_def)
next
  case (Cons c t)
  have octal: "is_octal x \<longleftrightarrow> is_digit x \<and> digit_val x < 8" for x
    by (auto simp: is_octal_def is_digit_def digit_val_def)
  have lead: "is_lead_octal x \<longleftrightarrow> is_octal x \<and> x \<noteq> CHR ''0''" for x
    using digit_val_eq_0 [of x]
    by (auto simp: is_lead_octal_def is_octal_def is_digit_def digit_val_def)
  have "is_octal (CHR ''0'')" by (simp add: is_octal_def code_def)
  then show ?thesis
    unfolding MODE_RX_def lang_Or lang_Lit lang_Cat_Cls lang_UpTo_Cls Cons lead
      canonical_digits_def octal [symmetric] by auto
qed

lemma mode_of_ok: "mode_of s = Inr m \<longleftrightarrow> 0 \<le> m \<and> m \<le> 4095 \<and> s = nat_text 8 (nat m)"
  by (auto simp: mode_of_def Let_def text_nat_nat_text)

lemma mode_text_lang:
  assumes "0 \<le> m" and "m \<le> 4095"
  shows "nat_text 8 (nat m) \<in> lang MODE_RX"
proof -
  from assms have "nat m < 8 ^ Suc 3" by simp
  then have "length (nat_text 8 (nat m)) \<le> 4" using length_nat_text [of "nat m" 8 3] by simp
  then show ?thesis by (simp add: MODE_lang canonical_nat_text)
qed

lemma canonical_no_colon: "canonical_digits b s \<Longrightarrow> CHR '':'' \<notin> set s"
  by (auto simp: canonical_digits_def is_digit_def code_def)

lemma DECIMAL_no_colon: "x \<in> lang DECIMAL_RX \<Longrightarrow> CHR '':'' \<notin> set x"
  by (auto simp: DECIMAL_lang dest: canonical_no_colon)

lemma MODE_no_colon: "x \<in> lang MODE_RX \<Longrightarrow> CHR '':'' \<notin> set x"
  by (auto simp: MODE_lang dest: canonical_no_colon)

lemma no_groups_fields [simp]: "no_groups DECIMAL_RX" "no_groups MODE_RX" "no_groups KIND_RX"
  by (simp_all add: DECIMAL_RX_def POSITIVE_RX_def MODE_RX_def KIND_RX_def)

lemma number_lang [simp]: "nat_text 10 k \<in> lang DECIMAL_RX"
  by (simp add: DECIMAL_lang canonical_nat_text)

lemma number_no_colon [simp]: "CHR '':'' \<notin> set (nat_text 10 k)" "CHR '':'' \<notin> set (nat_text 8 k)"
  using canonical_no_colon [OF canonical_nat_text [of 10 k]]
    canonical_no_colon [OF canonical_nat_text [of 8 k]] by simp_all

section \<open>Directory identities\<close>

definition valid_directory_identity :: "directory_identity \<Rightarrow> bool" where
  "valid_directory_identity i \<longleftrightarrow>
     0 \<le> di_dev i \<and> di_dev i \<le> UINT64_MAX \<and> 0 < di_ino i \<and> di_ino i \<le> UINT64_MAX \<and>
     0 \<le> di_uid i \<and> di_uid i \<le> UINT32_MAX \<and> 0 \<le> di_permissions i \<and> di_permissions i \<le> 4095"

lemma match_directory:
  assumes "dev \<in> lang DECIMAL_RX" "ino \<in> lang DECIMAL_RX" "uid \<in> lang DECIMAL_RX"
    "mode \<in> lang MODE_RX"
  shows "match_groups DIRECTORY_PATTERN
      (dev @ CHR '':'' # ino @ CHR '':'' # uid @ CHR '':'' # mode @ '':directory'') =
    Some [dev, ino, uid, mode]"
  using assms
  by (intro match_groups_unique)
    (auto simp: DIRECTORY_PATTERN_def caps_cut caps_Grp_sep_end DECIMAL_no_colon MODE_no_colon)

lemma match_directory_cases:
  assumes "match_groups DIRECTORY_PATTERN s = Some gs"
  obtains dev ino uid mode where "gs = [dev, ino, uid, mode]"
    and "s = dev @ '':'' @ ino @ '':'' @ uid @ '':'' @ mode @ '':directory''"
    and "dev \<in> lang DECIMAL_RX" "ino \<in> lang DECIMAL_RX" "uid \<in> lang DECIMAL_RX"
  using match_groups_caps [OF assms]
  by (auto simp: DIRECTORY_PATTERN_def caps_Cat_Grp caps_Cat_plain caps_plain lang_Lit)

lemma serialize_directory_ok:
  "serialize_directory_identity i = Inr d \<longleftrightarrow> valid_directory_identity i \<and>
     d = nat_text 10 (nat (di_dev i)) @ '':'' @ nat_text 10 (nat (di_ino i)) @ '':'' @
       nat_text 10 (nat (di_uid i)) @ '':'' @ nat_text 8 (nat (di_permissions i)) @ '':directory''"
  by (auto simp: serialize_directory_identity_def valid_directory_identity_def ok_iff checked_int_ok)

lemma directory_identity_of_text_ok:
  "directory_identity_of_text d = Inr i \<longleftrightarrow>
     valid_directory_identity i \<and> serialize_directory_identity i = Inr d"
proof
  assume ok: "directory_identity_of_text d = Inr i"
  then obtain gs where gs: "match_groups DIRECTORY_PATTERN d = Some gs"
    by (cases "match_groups DIRECTORY_PATTERN d") (auto simp: directory_identity_of_text_def)
  then obtain dev ino uid mode where g: "gs = [dev, ino, uid, mode]"
    and d: "d = dev @ '':'' @ ino @ '':'' @ uid @ '':'' @ mode @ '':directory''"
    and l: "canonical_digits 10 dev" "canonical_digits 10 ino" "canonical_digits 10 uid"
    by (auto elim!: match_directory_cases simp: DECIMAL_lang)
  have "bindE (integer_field dev ''device'' UINT64_MAX False) (\<lambda>dev'.
      bindE (integer_field ino ''inode'' UINT64_MAX True) (\<lambda>ino'.
      bindE (integer_field uid ''owner'' UINT32_MAX False) (\<lambda>uid'.
      bindE (mode_of mode) (\<lambda>mode'.
        Inr \<lparr>di_dev = dev', di_ino = ino', di_uid = uid', di_permissions = mode'\<rparr>)))) = Inr i"
    using ok by (simp add: directory_identity_of_text_def gs g)
  with l show "valid_directory_identity i \<and> serialize_directory_identity i = Inr d"
    by (auto simp: ok_iff integer_field_ok mode_of_ok d
        serialize_directory_ok valid_directory_identity_def nat_text_text_nat)
next
  assume "valid_directory_identity i \<and> serialize_directory_identity i = Inr d"
  then show "directory_identity_of_text d = Inr i"
    by (auto simp: serialize_directory_ok directory_identity_of_text_def match_directory
        mode_text_lang valid_directory_identity_def ok_iff integer_field_nat_text mode_of_ok)
qed

interpretation directory_codec: canonical_codec
  directory_identity_of_text serialize_directory_identity valid_directory_identity
  by unfold_locales (simp_all add: directory_identity_of_text_ok serialize_directory_ok)

section \<open>Object states\<close>

definition valid_object_state :: "file_object_state \<Rightarrow> bool" where
  "valid_object_state i \<longleftrightarrow>
     0 \<le> os_dev i \<and> os_dev i \<le> UINT64_MAX \<and> 0 < os_ino i \<and> os_ino i \<le> UINT64_MAX \<and>
     0 \<le> os_uid i \<and> os_uid i \<le> UINT32_MAX \<and> 0 \<le> os_permissions i \<and> os_permissions i \<le> 4095 \<and>
     0 < os_links i \<and> os_links i \<le> UINT64_MAX \<and> 0 \<le> os_size i \<and> os_size i \<le> INT64_MAX"

text \<open>The text of the numeric fields, and of an object state.\<close>

definition fields_text :: "file_object_state \<Rightarrow> string" where
  "fields_text i = nat_text 10 (nat (os_dev i)) @ '':'' @ nat_text 10 (nat (os_ino i)) @ '':'' @
     nat_text 10 (nat (os_uid i)) @ '':'' @ nat_text 8 (nat (os_permissions i)) @ '':'' @
     nat_text 10 (nat (os_links i)) @ '':'' @ nat_text 10 (nat (os_size i))"

lemma serialize_components_ok:
  "serialize_components i = Inr s \<longleftrightarrow> valid_object_state i \<and> s = fields_text i"
  by (auto simp: serialize_components_def valid_object_state_def fields_text_def ok_iff
      checked_int_ok)

lemma kind_of_serialized: "kind_of (serialized_kind k sz) sz = Inr k"
  by (cases k) (auto simp: kind_of_def serialized_kind_def)

lemma kind_of_ok:
  "s \<in> lang KIND_RX \<Longrightarrow> kind_of s sz = Inr k \<longleftrightarrow> s = serialized_kind k sz"
  by (cases k) (auto simp: KIND_RX_def lang_Alts lang_Lit kind_of_def serialized_kind_def)

lemma serialized_kind_lang [simp]: "serialized_kind k sz \<in> lang KIND_RX"
  by (cases k) (auto simp: KIND_RX_def lang_Alts lang_Lit serialized_kind_def)

lemma components_ok:
  assumes "dev \<in> lang DECIMAL_RX" "ino \<in> lang DECIMAL_RX" "uid \<in> lang DECIMAL_RX"
    "links \<in> lang DECIMAL_RX" "sz \<in> lang DECIMAL_RX" "kind \<in> lang KIND_RX"
  shows "components dev ino uid mode links sz kind = Inr i \<longleftrightarrow>
    valid_object_state i \<and> dev = nat_text 10 (nat (os_dev i)) \<and> ino = nat_text 10 (nat (os_ino i)) \<and>
    uid = nat_text 10 (nat (os_uid i)) \<and> mode = nat_text 8 (nat (os_permissions i)) \<and>
    links = nat_text 10 (nat (os_links i)) \<and> sz = nat_text 10 (nat (os_size i)) \<and>
    kind = serialized_kind (os_kind i) (os_size i)"
proof
  assume "components dev ino uid mode links sz kind = Inr i"
  with assms show "valid_object_state i \<and> dev = nat_text 10 (nat (os_dev i)) \<and>
      ino = nat_text 10 (nat (os_ino i)) \<and> uid = nat_text 10 (nat (os_uid i)) \<and>
      mode = nat_text 8 (nat (os_permissions i)) \<and> links = nat_text 10 (nat (os_links i)) \<and>
      sz = nat_text 10 (nat (os_size i)) \<and> kind = serialized_kind (os_kind i) (os_size i)"
    unfolding DECIMAL_lang
    by (auto simp: components_def ok_iff integer_field_ok mode_of_ok kind_of_ok
        valid_object_state_def nat_text_text_nat)
next
  assume i: "valid_object_state i \<and> dev = nat_text 10 (nat (os_dev i)) \<and>
      ino = nat_text 10 (nat (os_ino i)) \<and> uid = nat_text 10 (nat (os_uid i)) \<and>
      mode = nat_text 8 (nat (os_permissions i)) \<and> links = nat_text 10 (nat (os_links i)) \<and>
      sz = nat_text 10 (nat (os_size i)) \<and> kind = serialized_kind (os_kind i) (os_size i)"
  then have "mode_of mode = Inr (os_permissions i)"
    by (simp add: mode_of_ok valid_object_state_def)
  with i show "components dev ino uid mode links sz kind = Inr i"
    by (simp add: components_def ok_iff integer_field_nat_text kind_of_serialized
        valid_object_state_def)
qed

lemma match_object:
  assumes "dev \<in> lang DECIMAL_RX" "ino \<in> lang DECIMAL_RX" "uid \<in> lang DECIMAL_RX"
    "mode \<in> lang MODE_RX" "links \<in> lang DECIMAL_RX" "sz \<in> lang DECIMAL_RX" "kind \<in> lang KIND_RX"
  shows "match_groups OBJECT_PATTERN
      (dev @ CHR '':'' # ino @ CHR '':'' # uid @ CHR '':'' # mode @ CHR '':'' # links @
       CHR '':'' # sz @ CHR '':'' # kind) =
    Some [dev, ino, uid, mode, links, sz, kind]"
  using assms
  by (intro match_groups_unique)
    (auto simp: OBJECT_PATTERN_def caps_cut caps_Grp_plain DECIMAL_no_colon MODE_no_colon)

lemma match_object_cases:
  assumes "match_groups OBJECT_PATTERN s = Some gs"
  obtains dev ino uid mode links sz kind where "gs = [dev, ino, uid, mode, links, sz, kind]"
    and "s = dev @ '':'' @ ino @ '':'' @ uid @ '':'' @ mode @ '':'' @ links @ '':'' @ sz @ '':'' @ kind"
    and "dev \<in> lang DECIMAL_RX" "ino \<in> lang DECIMAL_RX" "uid \<in> lang DECIMAL_RX"
      "links \<in> lang DECIMAL_RX" "sz \<in> lang DECIMAL_RX" "kind \<in> lang KIND_RX"
  using match_groups_caps [OF assms]
  by (auto simp: OBJECT_PATTERN_def caps_Cat_Grp caps_Cat_plain caps_Grp_plain lang_Lit)

lemma serialize_object_ok:
  "serialize_file_object_state i = Inr d \<longleftrightarrow> valid_object_state i \<and>
     d = fields_text i @ '':'' @ serialized_kind (os_kind i) (os_size i)"
  by (auto simp: serialize_file_object_state_def ok_iff serialize_components_ok)

lemma file_object_state_of_text_ok:
  "file_object_state_of_text d = Inr i \<longleftrightarrow>
     valid_object_state i \<and> serialize_file_object_state i = Inr d"
proof
  assume ok: "file_object_state_of_text d = Inr i"
  then obtain gs where gs: "match_groups OBJECT_PATTERN d = Some gs"
    by (cases "match_groups OBJECT_PATTERN d") (auto simp: file_object_state_of_text_def)
  then obtain dev ino uid mode links sz kind where g: "gs = [dev, ino, uid, mode, links, sz, kind]"
    and d: "d = dev @ '':'' @ ino @ '':'' @ uid @ '':'' @ mode @ '':'' @ links @ '':'' @ sz @ '':'' @ kind"
    and l: "dev \<in> lang DECIMAL_RX" "ino \<in> lang DECIMAL_RX" "uid \<in> lang DECIMAL_RX"
      "links \<in> lang DECIMAL_RX" "sz \<in> lang DECIMAL_RX" "kind \<in> lang KIND_RX"
    by (auto elim!: match_object_cases)
  have "components dev ino uid mode links sz kind = Inr i"
    using ok by (simp add: file_object_state_of_text_def gs g)
  with l show "valid_object_state i \<and> serialize_file_object_state i = Inr d"
    by (simp add: components_ok serialize_object_ok fields_text_def d)
next
  assume "valid_object_state i \<and> serialize_file_object_state i = Inr d"
  then show "file_object_state_of_text d = Inr i"
    by (auto simp: serialize_object_ok fields_text_def file_object_state_of_text_def match_object
        mode_text_lang valid_object_state_def components_ok)
qed

interpretation object_codec: canonical_codec
  file_object_state_of_text serialize_file_object_state valid_object_state
  by unfold_locales (simp_all add: file_object_state_of_text_ok serialize_object_ok)

section \<open>Timestamps\<close>

lemma digits_rx_lang [simp]: "s \<in> lang (digits_rx n) \<longleftrightarrow> length s = n \<and> (\<forall>c \<in> set s. is_digit c)"
  by (rule lang_Times_Cls)

lemma caps_digits:
  "length v = n \<Longrightarrow> caps (Cat (Grp (digits_rx n)) b) (v @ u) g \<longleftrightarrow>
     (\<forall>c \<in> set v. is_digit c) \<and> (\<exists>h. g = v # h \<and> caps b u h)"
  by (subst caps_Grp_fixed) auto

lemma caps_sign:
  "caps (Cat (Grp (Cls is_sign)) b) ([c] @ u) g \<longleftrightarrow> is_sign c \<and> (\<exists>h. g = [c] # h \<and> caps b u h)"
  by (subst caps_Grp_fixed) (auto simp: lang_Cls)

lemma match_timestamp:
  assumes "length y = 4" "length mo = 2" "length d = 2" "length h = 2" "length mi = 2"
    "length s = 2" "length f = 9" "length oh = 2" "length om = 2" "is_sign sg"
    "\<forall>c \<in> set (y @ mo @ d @ h @ mi @ s @ f @ oh @ om). is_digit c"
  shows "match_groups TIMESTAMP_PATTERN
      (y @ CHR ''-'' # mo @ CHR ''-'' # d @ CHR '' '' # h @ CHR '':'' # mi @ CHR '':'' # s @
       CHR ''.'' # f @ CHR '' '' # [sg] @ oh @ om) =
    Some [y, mo, d, h, mi, s, f, [sg], oh, om]"
proof (rule match_groups_unique)
  fix g
  show "caps TIMESTAMP_PATTERN (y @ CHR ''-'' # mo @ CHR ''-'' # d @ CHR '' '' # h @ CHR '':'' # mi @
      CHR '':'' # s @ CHR ''.'' # f @ CHR '' '' # [sg] @ oh @ om) g \<longleftrightarrow>
    g = [y, mo, d, h, mi, s, f, [sg], oh, om]"
    unfolding TIMESTAMP_PATTERN_def Seqs.simps
    using assms
    by (auto simp: caps_digits caps_sign caps_Lit_Cons caps_Grp_plain simp del: append_Cons)
qed

lemma length_padded: "0 \<le> n \<Longrightarrow> n < 10 ^ Suc k \<Longrightarrow> length (padded (Suc k) n) = Suc k"
proof -
  assume "0 \<le> n" "n < 10 ^ Suc k"
  then have "nat n < 10 ^ Suc k" by (simp add: nat_less_iff)
  then have "length (nat_text 10 (nat n)) \<le> Suc k" by (rule length_nat_text) simp
  then show ?thesis by (simp add: padded_def)
qed

lemma padded_2 [simp]: "0 \<le> n \<Longrightarrow> n < 100 \<Longrightarrow> length (padded 2 n) = 2"
  using length_padded [of n 1] by (simp add: numeral_2_eq_2)

lemma padded_4 [simp]: "0 \<le> n \<Longrightarrow> n < 10000 \<Longrightarrow> length (padded 4 n) = 4"
  using length_padded [of n 3] by (simp add: eval_nat_numeral)

lemma padded_9 [simp]: "0 \<le> n \<Longrightarrow> n < 1000000000 \<Longrightarrow> length (padded 9 n) = 9"
  using length_padded [of n 8] by (simp add: eval_nat_numeral)

lemma padded_digits [simp]: "c \<in> set (padded w n) \<Longrightarrow> is_digit c"
  using zero_pad_digits [of "nat_text 10 (nat n)" w] nat_text_digits [of 10 "nat n"]
  by (auto simp: padded_def)

lemma digits_int_padded [simp]: "0 \<le> n \<Longrightarrow> digits_int (padded w n) = n"
  by (simp add: digits_int_def padded_def text_nat_nat_text)

lemma match_padded:
  assumes "0 \<le> y" "y < 10000" "0 \<le> mo" "mo < 100" "0 \<le> d" "d < 100" "0 \<le> h" "h < 100"
    "0 \<le> mi" "mi < 100" "0 \<le> s" "s < 100" "0 \<le> f" "f < 1000000000" "0 \<le> oh" "oh < 100"
    "0 \<le> om" "om < 100" "is_sign sg"
  shows "match_groups TIMESTAMP_PATTERN
      (padded 4 y @ CHR ''-'' # padded 2 mo @ CHR ''-'' # padded 2 d @ CHR '' '' # padded 2 h @
       CHR '':'' # padded 2 mi @ CHR '':'' # padded 2 s @ CHR ''.'' # padded 9 f @ CHR '' '' #
       [sg] @ padded 2 oh @ padded 2 om) =
    Some [padded 4 y, padded 2 mo, padded 2 d, padded 2 h, padded 2 mi, padded 2 s, padded 9 f,
      [sg], padded 2 oh, padded 2 om]"
  using assms by (intro match_timestamp) auto

lemma instant_eq:
  fixes D :: int
  assumes "D * 86400 + t = loc" "X = off" "h * 3600 + mi * 60 + s = t"
  shows "(D + e - e) * 86400 + h * 3600 + mi * 60 + s - X * 60 = loc - off * 60"
  using assms by simp

lemma timestamp_ns_ok:
  assumes "valid_date y m d" "h \<le> 23" "mi \<le> 59" "s \<le> 59" "oh \<le> 23" "om \<le> 59"
    and "sg = ''-'' \<Longrightarrow> oh * 60 + om \<noteq> 0"
  shows "timestamp_ns y m d h mi s f sg oh om =
    Inr (((toordinal y m d - epoch_ordinal) * 86400 + h * 3600 + mi * 60 + s
      - (if sg = ''-'' then - (oh * 60 + om) else oh * 60 + om) * 60) * 1000000000 + f)"
  using assms by (simp add: timestamp_ns_def Let_def)

lemma parse_padded:
  assumes "0 \<le> y" "y < 10000" "0 \<le> mo" "mo < 100" "0 \<le> d" "d < 100" "0 \<le> h" "h < 100"
    "0 \<le> mi" "mi < 100" "0 \<le> s" "s < 100" "0 \<le> f" "f < 1000000000" "0 \<le> oh" "oh < 100"
    "0 \<le> om" "om < 100" "is_sign sg"
  shows "parse_gnu_stat_timestamp
      (padded 4 y @ CHR ''-'' # padded 2 mo @ CHR ''-'' # padded 2 d @ CHR '' '' # padded 2 h @
       CHR '':'' # padded 2 mi @ CHR '':'' # padded 2 s @ CHR ''.'' # padded 9 f @ CHR '' '' #
       [sg] @ padded 2 oh @ padded 2 om) = timestamp_ns y mo d h mi s f [sg] oh om"
  unfolding parse_gnu_stat_timestamp_def match_padded [OF assms] using assms by simp

text \<open>A formatted timestamp is read back exactly, whatever the offset.\<close>

lemma parse_timestamp_text:
  assumes loc: "in_calendar loc" and f: "0 \<le> f" "f < 1000000000"
    and off: "-1439 \<le> off" "off \<le> 1439"
  shows "parse_gnu_stat_timestamp (timestamp_text loc f off) = Inr ((loc - off * 60) * 1000000000 + f)"
proof -
  obtain y m d where ymd: "ord2ymd (loc div 86400 + epoch_ordinal) = (y, m, d)"
    by (metis prod_cases3)
  note date = ord2ymd_correct [OF _ _ ymd]
  have v: "valid_date y m d" and ord: "toordinal y m d = loc div 86400 + epoch_ordinal"
    using date loc by (auto simp: in_calendar_def)
  have dim: "days_in_month y m \<le> 31" by (simp add: days_in_month_def DAYS_IN_MONTH_def)
  have ranges: "0 \<le> y" "y < 10000" "0 \<le> m" "m < 100" "0 \<le> d" "d < 100"
    using v dim by (auto simp: valid_date_def)
  define t where "t = loc mod 86400"
  have t: "0 \<le> t" "t < 86400" by (simp_all add: t_def)
  let ?h = "t div 3600" and ?mi = "t mod 3600 div 60" and ?s = "t mod 60"
  have "t mod 3600 mod 60 = ?s" by (rule mod_mod_cancel) simp
  then have mi: "?mi * 60 + ?s = t mod 3600" using div_mult_mod_eq [of "t mod 3600" 60] by simp
  have h: "?h * 3600 + t mod 3600 = t" "0 \<le> t mod 3600" "t mod 3600 < 3600" by simp_all
  have s: "0 \<le> ?s" "?s \<le> 59" by simp_all
  have hms: "0 \<le> ?h" "?h \<le> 23" "0 \<le> ?mi" "?mi \<le> 59" "0 \<le> ?s" "?s \<le> 59"
    using t h mi s by linarith+
  have tt: "?h * 3600 + ?mi * 60 + ?s = t" using h mi by linarith
  let ?sign = "if 0 \<le> off then CHR ''+'' else CHR ''-''"
  define a where "a = \<bar>off\<bar>"
  have aoff: "a div 60 * 60 + a mod 60 = a" by simp
  have a59: "0 \<le> a mod 60" "a mod 60 \<le> 59" by simp_all
  have a: "0 \<le> a" "a \<le> 1439" "a div 60 \<le> 23" "0 \<le> a div 60" "0 \<le> a mod 60" "a mod 60 \<le> 59"
    using off aoff a59 by (simp_all add: a_def)
  have shape: "timestamp_text loc f off = padded 4 y @ CHR ''-'' # padded 2 m @ CHR ''-'' # padded 2 d @
      CHR '' '' # padded 2 ?h @ CHR '':'' # padded 2 ?mi @ CHR '':'' # padded 2 ?s @ CHR ''.'' #
      padded 9 f @ CHR '' '' # [?sign] @ padded 2 (a div 60) @ padded 2 (a mod 60)"
    by (simp add: timestamp_text_def ymd t_def a_def Let_def)
  have sg: "?sign = CHR ''-'' \<longleftrightarrow> off < 0" by simp
  have neg: "[?sign] = ''-'' \<Longrightarrow> a div 60 * 60 + a mod 60 \<noteq> 0"
    unfolding aoff using sg by (simp add: a_def)
  have "loc div 86400 * 86400 + t = loc" by (simp add: t_def)
  moreover have "(if [?sign] = ''-'' then - a else a) = off"
    using sg by (simp add: a_def)
  ultimately have val: "(toordinal y m d - epoch_ordinal) * 86400 + ?h * 3600 + ?mi * 60 + ?s
      - (if [?sign] = ''-'' then - (a div 60 * 60 + a mod 60) else a div 60 * 60 + a mod 60) * 60
      = loc - off * 60"
    unfolding aoff ord using tt by (rule instant_eq)
  have lt: "x < 100" if "x \<le> 59" for x :: int using that by simp
  have lt': "x < 100" if "x \<le> 23" for x :: int using that by simp
  have sign: "is_sign ?sign" by (simp add: is_sign_def)
  have "parse_gnu_stat_timestamp (timestamp_text loc f off) =
      timestamp_ns y m d ?h ?mi ?s f [?sign] (a div 60) (a mod 60)"
    unfolding shape
    by (rule parse_padded) (rule ranges hms f a sign hms(2) [THEN lt']
        hms(4,6) [THEN lt] a(3) [THEN lt'] a(6) [THEN lt])+
  also have "\<dots> = Inr ((loc - off * 60) * 1000000000 + f)"
    unfolding val [symmetric] by (rule timestamp_ns_ok) (rule v hms a neg | assumption)+
  finally show ?thesis .
qed

lemma format_timestamp_ok:
  "format_gnu_stat_timestamp lo v off = Inr s \<Longrightarrow> \<exists>m. -1439 \<le> m \<and> m \<le> 1439 \<and>
     in_calendar (v div 1000000000 + m * 60) \<and>
     s = timestamp_text (v div 1000000000 + m * 60) (v mod 1000000000) m"
  by (auto simp: format_gnu_stat_timestamp_def Let_def ok_iff)

lemma parse_format_timestamp:
  assumes "format_gnu_stat_timestamp lo v off = Inr s"
  shows "parse_gnu_stat_timestamp s = Inr v"
  using format_timestamp_ok [OF assms] by (auto simp: parse_timestamp_text)

section \<open>File identities\<close>

lemma lang_CatI: "v \<in> lang a \<Longrightarrow> w \<in> lang b \<Longrightarrow> v @ w \<in> lang (Cat a b)"
  by (auto simp: lang_Cat)

lemma timestamp_length: "x \<in> lang TIMESTAMP_RX \<Longrightarrow> length x = 35"
  by (auto simp: TIMESTAMP_RX_def lang_Cat lang_Lit lang_Cls)

lemma timestamp_text_lang:
  assumes "parse_gnu_stat_timestamp s = Inr v"
  shows "s \<in> lang TIMESTAMP_RX"
proof -
  from assms obtain gs where "match_groups TIMESTAMP_PATTERN s = Some gs"
    by (cases "match_groups TIMESTAMP_PATTERN s") (auto simp: parse_gnu_stat_timestamp_def)
  then have "caps TIMESTAMP_PATTERN s gs" by (rule match_groups_caps)
  then obtain y mo d h mi sec f sg oh om where s: "s = y @ ''-'' @ mo @ ''-'' @ d @ '' '' @ h @ '':'' @
      mi @ '':'' @ sec @ ''.'' @ f @ '' '' @ sg @ (oh @ om)"
    and l: "y \<in> lang (digits_rx 4)" "mo \<in> lang (digits_rx 2)" "d \<in> lang (digits_rx 2)"
      "h \<in> lang (digits_rx 2)" "mi \<in> lang (digits_rx 2)" "sec \<in> lang (digits_rx 2)"
      "f \<in> lang (digits_rx 9)" "sg \<in> lang (Cls is_sign)" "oh \<in> lang (digits_rx 2)"
      "om \<in> lang (digits_rx 2)"
    by (auto simp: TIMESTAMP_PATTERN_def caps_Cat_Grp caps_Cat_plain caps_Grp_plain lang_Lit
        simp del: digits_rx_lang)
  have "oh @ om \<in> lang (digits_rx 4)" using l by auto
  with l show ?thesis unfolding s TIMESTAMP_RX_def Seqs.simps
    by (intro lang_CatI) (auto simp: lang_Lit simp del: digits_rx_lang)
qed

lemma match_full:
  assumes "dev \<in> lang DECIMAL_RX" "ino \<in> lang DECIMAL_RX" "uid \<in> lang DECIMAL_RX"
    "mode \<in> lang MODE_RX" "links \<in> lang DECIMAL_RX" "sz \<in> lang DECIMAL_RX"
    "m \<in> lang TIMESTAMP_RX" "t \<in> lang TIMESTAMP_RX" "kind \<in> lang KIND_RX"
  shows "match_groups FULL_PATTERN
      (dev @ CHR '':'' # ino @ CHR '':'' # uid @ CHR '':'' # mode @ CHR '':'' # links @
       CHR '':'' # sz @ CHR '':'' # m @ CHR '':'' # t @ CHR '':'' # kind) =
    Some [dev, ino, uid, mode, links, sz, m, t, kind]"
proof (rule match_groups_unique)
  have n: "no_groups TIMESTAMP_RX" by (simp add: TIMESTAMP_RX_def)
  have ts: "caps (Cat (Grp TIMESTAMP_RX) b) (v @ u) g \<longleftrightarrow> (\<exists>h. g = v # h \<and> caps b u h)"
    if "v \<in> lang TIMESTAMP_RX" for v u g and b :: "char rx"
    using caps_Grp_fixed [OF n, of v b u g] timestamp_length that by auto
  show "caps FULL_PATTERN (dev @ CHR '':'' # ino @ CHR '':'' # uid @ CHR '':'' # mode @ CHR '':'' #
      links @ CHR '':'' # sz @ CHR '':'' # m @ CHR '':'' # t @ CHR '':'' # kind) g \<longleftrightarrow>
    g = [dev, ino, uid, mode, links, sz, m, t, kind]" for g
    unfolding FULL_PATTERN_def Seqs.simps using assms
    by (auto simp: caps_cut ts caps_Grp_plain DECIMAL_no_colon MODE_no_colon)
qed

text \<open>What a file identity serializes to is read back as the same identity.\<close>

lemma file_identity_roundtrip:
  assumes "serialize_file_identity lo i off = Inr s"
  shows "file_identity_of_text s = Inr i"
proof -
  from assms obtain m t where v: "valid_object_state (fi_state i)"
    and m: "format_gnu_stat_timestamp lo (fi_mtime_ns i) off = Inr m"
    and t: "format_gnu_stat_timestamp lo (fi_ctime_ns i) off = Inr t"
    and s: "s = fields_text (fi_state i) @ '':'' @ m @ '':'' @ t @ '':'' @
      serialized_kind (fi_kind i) (fi_size i)"
    by (auto simp: serialize_file_identity_def ok_iff serialize_components_ok)
  note pm = parse_format_timestamp [OF m] and pt = parse_format_timestamp [OF t]
  have "nat_text 8 (nat (fi_permissions i)) \<in> lang MODE_RX"
    using v by (intro mode_text_lang) (auto simp: valid_object_state_def fi_state_def)
  from match_full [OF number_lang number_lang number_lang this number_lang number_lang
      timestamp_text_lang [OF pm] timestamp_text_lang [OF pt] serialized_kind_lang]
  have "match_groups FULL_PATTERN s = Some [nat_text 10 (nat (fi_dev i)), nat_text 10 (nat (fi_ino i)),
      nat_text 10 (nat (fi_uid i)), nat_text 8 (nat (fi_permissions i)), nat_text 10 (nat (fi_links i)),
      nat_text 10 (nat (fi_size i)), m, t, serialized_kind (fi_kind i) (fi_size i)]"
    by (simp add: s fields_text_def fi_state_def)
  moreover have "components (nat_text 10 (nat (fi_dev i))) (nat_text 10 (nat (fi_ino i)))
      (nat_text 10 (nat (fi_uid i))) (nat_text 8 (nat (fi_permissions i)))
      (nat_text 10 (nat (fi_links i))) (nat_text 10 (nat (fi_size i)))
      (serialized_kind (fi_kind i) (fi_size i)) = Inr (fi_state i)"
    using v by (subst components_ok) (auto simp: fi_state_def)
  ultimately show ?thesis
    by (simp add: file_identity_of_text_def pm pt fi_state_def)
qed

section \<open>Sentinels and exceptions\<close>

definition is_PersistedIdentityError :: "exn \<Rightarrow> bool" where
  "is_PersistedIdentityError e \<longleftrightarrow> (\<exists>m. e = PersistedIdentityError m)"

lemma is_PersistedIdentityError_simp [simp]: "is_PersistedIdentityError (PersistedIdentityError m)"
  by (simp add: is_PersistedIdentityError_def)

lemma sentinel_ok:
  "sentinel v allowed = Inr (Some x) \<longleftrightarrow> v = sentinel_text x \<and> x \<in> allowed"
  "sentinel v allowed = Inr None \<longleftrightarrow> v \<noteq> ''absent'' \<and> v \<noteq> ''none''"
  by (cases x) (auto simp: sentinel_def)

lemma with_sentinel_ok:
  "with_sentinel v allowed p = Inr (Sentinel x) \<longleftrightarrow> v = sentinel_text x \<and> x \<in> allowed"
  "with_sentinel v allowed p = Inr (Identity i) \<longleftrightarrow>
     v \<noteq> ''absent'' \<and> v \<noteq> ''none'' \<and> p v = Inr i"
  by (auto simp: with_sentinel_def ok_iff sentinel_ok split: option.splits)

lemma raises_with_sentinel:
  assumes "raises_only is_PersistedIdentityError (p v)"
  shows "raises_only is_PersistedIdentityError (with_sentinel v allowed p)"
  unfolding with_sentinel_def
  by (intro raises_only_bindE) (auto simp: sentinel_def assms
      intro!: raises_only_bindE split: list.splits option.splits)

lemma raises_integer_field: "raises_only is_PersistedIdentityError (integer_field s l m p)"
  by (simp add: integer_field_def split: sum.splits)

lemma raises_mode_of: "raises_only is_PersistedIdentityError (mode_of s)"
  by (simp add: mode_of_def Let_def)

lemma raises_components: "raises_only is_PersistedIdentityError (components a b c d e f g)"
  unfolding components_def kind_of_def
  by (intro raises raises_integer_field raises_mode_of) simp_all

lemma raises_timestamp: "raises_only is_PersistedIdentityError (parse_gnu_stat_timestamp s)"
  by (simp add: parse_gnu_stat_timestamp_def timestamp_ns_def Let_def
      split: option.splits list.splits)

lemma raises_file_identity: "raises_only is_PersistedIdentityError (file_identity_of_text s)"
  by (simp add: file_identity_of_text_def split: option.splits list.splits)
    (intro allI impI raises raises_components raises_timestamp)

lemma raises_object_state: "raises_only is_PersistedIdentityError (file_object_state_of_text s)"
  by (simp add: file_object_state_of_text_def raises_components split: option.splits list.splits)

lemma raises_directory: "raises_only is_PersistedIdentityError (directory_identity_of_text s)"
  by (simp add: directory_identity_of_text_def split: option.splits list.splits)
    (intro allI impI raises raises_integer_field raises_mode_of)

end
