(* ===== verification/CodecProperties.thy ===== *)
theory CodecProperties
  imports CsrProperties IdentityCodecs
begin

text \<open>
  The properties of the two codecs every persisted artefact of the program is built from: ordered
  records and persisted identities.
\<close>

section \<open>Ordered records\<close>

text \<open>
  C14: under a valid specification the record parser accepts exactly the rendered canonical
  records: the fields in order, no empty value unless allowed, printable values, the schema, and
  exactly one newline after each line.
\<close>

theorem record_parser_accepts:
  assumes "wf_spec spec"
  shows "parse_ordered_record data spec = Inr r \<longleftrightarrow>
    rec_spec r = spec \<and> map fst (rec_pairs r) = spec_fields spec \<and>
    (\<forall>kv \<in> set (rec_pairs r). (snd kv \<noteq> [] \<or> spec_allow_empty spec) \<and> (\<forall>c \<in> set (snd kv). is_print c)) \<and>
    (\<forall>s. spec_schema spec = Some s \<longrightarrow> map_of (rec_pairs r) ''schema'' = Some s) \<and>
    data = concat (map (\<lambda>kv. fst kv @ ''='' @ snd kv @ [NL]) (rec_pairs r))"
  using parse_ordered_record_ok [OF assms, of data r]
  unfolding record_of_def canonical_pairs_def valid_value_def render_line_def [abs_def] by auto

theorem record_parser_accepts_witness:
  "\<exists>data r. parse_ordered_record data CSR_TERMINAL_SPEC = Inr r \<and>
     map fst (rec_pairs r) = spec_fields CSR_TERMINAL_SPEC"
  using record_parser_accepts [OF csr_specs_wf(7)] sample_terminal_parses
  by (metis parse_csr_terminal_iff)

text \<open>
  A record specification object exists exactly when it has fields, valid distinct keys, and a
  declared schema value that its own record may hold.
\<close>

theorem record_spec_accepts:
  "record_spec_new keys allow_empty schema = Inr spec \<longleftrightarrow>
     spec = \<lparr>spec_fields = keys, spec_allow_empty = allow_empty, spec_schema = schema\<rparr> \<and> wf_spec spec"
  by (rule record_spec_new_ok)

text \<open>
  Whatever the caller's order of the pairs, a serialized record is in the field order of its
  specification, is accepted by the parser, and carries the caller's values.
\<close>

theorem serialized_record_parses:
  assumes "wf_spec spec" and "serialize_ordered_record values spec = Inr data"
  shows "\<exists>r. parse_ordered_record data spec = Inr r \<and> to_bytes r = Inr data \<and>
    rec_pairs r = map (\<lambda>f. (f, the (map_of values f))) (spec_fields spec)"
proof -
  from assms(2) obtain ps where ps: "validated_pairs values spec = Inr ps"
    and d: "data = concat (map render_line ps)"
    by (auto simp: serialize_ordered_record_def ok_iff)
  have r: "record_of spec \<lparr>rec_spec = spec, rec_pairs = ps\<rparr>"
    using validated_pairs_canonical [OF assms(1) ps] by (simp add: record_of_def)
  moreover have "ps = map (\<lambda>f. (f, the (map_of values f))) (spec_fields spec)"
    using ps by (simp add: validated_pairs_ok)
  ultimately show ?thesis
    using to_bytes_record_of [OF assms(1) r] by (auto simp: parse_ordered_record_ok [OF assms(1)] d)
qed

theorem serialized_record_parses_witness:
  "\<exists>r. parse_ordered_record (render (tm_record sample_terminal)) CSR_TERMINAL_SPEC = Inr r \<and>
     to_bytes r = Inr (render (tm_record sample_terminal)) \<and>
     rec_pairs r = map (\<lambda>f. (f, the (map_of (rec_pairs (tm_record sample_terminal)) f)))
       (spec_fields CSR_TERMINAL_SPEC)"
proof (rule serialized_record_parses [OF csr_specs_wf(7)])
  show "serialize_ordered_record (rec_pairs (tm_record sample_terminal)) CSR_TERMINAL_SPEC =
      Inr (render (tm_record sample_terminal))"
    using terminal.parsed_bytes [OF sample_terminal_parses]
    by (simp add: to_bytes_def sample_terminal_def)
qed

text \<open>C12: the record parser and serializer raise nothing but \<open>RecordError\<close>.\<close>

theorem record_errors:
  assumes "wf_spec spec"
  shows "raises_only is_RecordError (parse_ordered_record data spec) \<and>
    raises_only is_RecordError (serialize_ordered_record values spec)"
  by (simp add: assms raises_parse_ordered_record raises_serialize_ordered_record)

theorem record_errors_witness:
  "raises_only is_RecordError (parse_ordered_record ''x'' CSR_REQUEST_SPEC)"
  using record_errors [OF csr_specs_wf(1)] by blast

section \<open>Persisted identities\<close>

lemma fields_text_colon: "\<exists>a b. fields_text i = a @ CHR '':'' # b"
  by (auto simp: fields_text_def)

lemma not_sentinel_colon: "CHR '':'' \<in> set s \<Longrightarrow> s \<noteq> ''absent'' \<and> s \<noteq> ''none''"
  by auto

lemma directory_text_colon: "serialize_directory_identity i = Inr s \<Longrightarrow> CHR '':'' \<in> set s"
  by (auto simp: serialize_directory_identity_def ok_iff)

text \<open>
  A persisted directory identity is read exactly from its canonical text: the parser accepts
  a text as an identity when it is what the serializer writes for an identity in range.
\<close>

theorem directory_identity_codec:
  "parse_directory_identity s allowed = Inr (Identity i) \<longleftrightarrow>
     valid_directory_identity i \<and> serialize_directory_identity i = Inr s"
  using not_sentinel_colon [OF directory_text_colon]
  by (auto simp: parse_directory_identity_def with_sentinel_ok directory_codec.parse_iff)

text \<open>The same for a persisted file object state.\<close>

theorem object_state_codec:
  "parse_file_object_state s allowed = Inr (Identity i) \<longleftrightarrow>
     valid_object_state i \<and> serialize_file_object_state i = Inr s"
proof -
  have "CHR '':'' \<in> set s" if "serialize_file_object_state i = Inr s"
    using that fields_text_colon [of i]
    by (auto simp: serialize_file_object_state_def ok_iff serialize_components_ok)
  then show ?thesis
    using not_sentinel_colon [of s]
    by (auto simp: parse_file_object_state_def with_sentinel_ok object_codec.parse_iff)
qed

text \<open>A sentinel is read only where the caller allows it, and only from its own text.\<close>

theorem identity_sentinels:
  "parse_file_identity s allowed = Inr (Sentinel x) \<longleftrightarrow> s = sentinel_text x \<and> x \<in> allowed"
  by (simp add: parse_file_identity_def with_sentinel_ok)

text \<open>
  C15: a formatted timestamp is read back as the same instant in nanoseconds, whatever UTC offset
  was chosen for the text and whatever the local time zone.
\<close>

theorem timestamp_roundtrip:
  assumes "format_gnu_stat_timestamp local_offset t utc_offset = Inr s"
  shows "parse_gnu_stat_timestamp s = Inr t"
  by (rule parse_format_timestamp [OF assms])

lemma sample_timestamp_formats:
  "format_gnu_stat_timestamp lo 86399123456789 (Some (-90)) =
     Inr ''1970-01-01 22:29:59.123456789 -0130''"
  by code_simp

theorem timestamp_roundtrip_witness:
  "parse_gnu_stat_timestamp ''1970-01-01 22:29:59.123456789 -0130'' = Inr 86399123456789"
  by (rule timestamp_roundtrip [OF sample_timestamp_formats])

text \<open>
  C13: a serialized file identity is read back as the same identity, in every time zone.
\<close>

theorem file_identity_persists:
  assumes "serialize_file_identity local_offset i utc_offset = Inr s"
  shows "parse_file_identity s allowed = Inr (Identity i)"
proof -
  have "CHR '':'' \<in> set s"
    using assms by (auto simp: serialize_file_identity_def ok_iff)
  then show ?thesis
    using not_sentinel_colon [of s] file_identity_roundtrip [OF assms]
    by (simp add: parse_file_identity_def with_sentinel_ok)
qed

definition sample_identity :: file_identity where
  "sample_identity = \<lparr>fi_dev = 2049, fi_ino = 131, fi_uid = 0, fi_permissions = 384, fi_links = 1,
     fi_size = 0, fi_mtime_ns = 86399123456789, fi_ctime_ns = 86399123456789, fi_kind = Regular\<rparr>"

lemma sample_identity_serializes:
  "serialize_file_identity lo sample_identity (Some (-90)) =
     Inr ''2049:131:0:600:1:0:1970-01-01 22:29:59.123456789 -0130:1970-01-01 22:29:59.123456789 -0130:regular empty file''"
  by (simp add: serialize_file_identity_def sample_identity_def fi_state_def
      sample_timestamp_formats serialized_kind_def) code_simp

theorem file_identity_persists_witness:
  "parse_file_identity
     ''2049:131:0:600:1:0:1970-01-01 22:29:59.123456789 -0130:1970-01-01 22:29:59.123456789 -0130:regular empty file''
     {} = Inr (Identity sample_identity)"
  by (rule file_identity_persists [OF sample_identity_serializes])

text \<open>C13: the identity parsers raise nothing but \<open>PersistedIdentityError\<close>.\<close>

theorem identity_errors:
  "raises_only is_PersistedIdentityError (parse_file_identity s allowed) \<and>
   raises_only is_PersistedIdentityError (parse_file_object_state s allowed) \<and>
   raises_only is_PersistedIdentityError (parse_directory_identity s allowed)"
  by (simp add: parse_file_identity_def parse_file_object_state_def parse_directory_identity_def
      raises_with_sentinel raises_file_identity raises_object_state raises_directory)

end
