(* ===== verification/PosixPath.thy ===== *)
theory PosixPath
  imports Text
begin

text \<open>
  The functions of \<open>os.path\<close> (POSIX) that the sources use, on text paths: \<open>isabs\<close>,
  \<open>join\<close>, \<open>normpath\<close>, \<open>basename\<close>, \<open>dirname\<close>, \<open>abspath\<close>, \<open>relpath\<close> and
  \<open>commonpath\<close> of absolute paths, with the lemmas about canonical absolute paths. The working
  directory that \<open>abspath\<close> asks for is the parameter \<open>cwd\<close>.
\<close>

abbreviation SEP :: char where
  "SEP \<equiv> CHR ''/''"

definition isabs :: "string \<Rightarrow> bool" where
  "isabs p = starts_with [SEP] p"

text \<open>One step of \<open>join\<close>, and \<open>join(a, *p)\<close>.\<close>

definition join2 :: "string \<Rightarrow> string \<Rightarrow> string" where
  "join2 path b =
     (if starts_with [SEP] b then b
      else if path = [] \<or> ends_with [SEP] path then path @ b
      else path @ [SEP] @ b)"

definition path_join :: "string \<Rightarrow> string list \<Rightarrow> string" where
  "path_join a p = foldl join2 a p"

text \<open>\<open>normpath\<close>: the loop over the components, then the whole function.\<close>

fun norm_comps :: "nat \<Rightarrow> string list \<Rightarrow> string list \<Rightarrow> string list" where
  "norm_comps initial acc [] = acc"
| "norm_comps initial acc (part # parts) =
     (if part = [] \<or> part = ''.'' then norm_comps initial acc parts
      else if part \<noteq> ''..'' \<or> (initial = 0 \<and> acc = []) \<or> (acc \<noteq> [] \<and> last acc = ''..'') then
        norm_comps initial (acc @ [part]) parts
      else norm_comps initial (butlast acc) parts)"

definition initial_slashes :: "string \<Rightarrow> nat" where
  "initial_slashes p =
     (if starts_with ''//'' p \<and> \<not> starts_with ''///'' p then 2
      else if starts_with ''/'' p then 1 else 0)"

definition normpath :: "string \<Rightarrow> string" where
  "normpath p =
     (if p = [] then ''.''
      else (let n = initial_slashes p;
                s = replicate n SEP @ join_on [SEP] (norm_comps n [] (split_on SEP p))
            in if s = [] then ''.'' else s))"

definition basename :: "string \<Rightarrow> string" where
  "basename p = last (split_on SEP p)"

text \<open>The part of \<open>p\<close> up to its last slash; trailing slashes go unless there is nothing else.\<close>

definition dirname :: "string \<Rightarrow> string" where
  "dirname p =
     (let head = take (length p - length (basename p)) p
      in if list_all (\<lambda>c. c = SEP) head then head else rev (lstrip SEP (rev head)))"

definition abspath :: "string \<Rightarrow> string \<Rightarrow> string" where
  "abspath cwd p = normpath (if isabs p then p else join2 cwd p)"

fun common_prefix :: "'a list \<Rightarrow> 'a list \<Rightarrow> nat" where
  "common_prefix (x # xs) (y # ys) = (if x = y then Suc (common_prefix xs ys) else 0)"
| "common_prefix _ _ = 0"

definition nonempty_parts :: "string \<Rightarrow> string list" where
  "nonempty_parts p = filter (\<lambda>x. x \<noteq> []) (split_on SEP p)"

text \<open>\<open>relpath(path, start)\<close>; an empty path is a \<open>ValueError\<close>.\<close>

definition relpath :: "string \<Rightarrow> string \<Rightarrow> string \<Rightarrow> string result" where
  "relpath cwd path start =
     (if path = [] then Inl (ValueError ''no path specified'')
      else (let s = nonempty_parts (abspath cwd start);
                p = nonempty_parts (abspath cwd path);
                i = common_prefix s p;
                rel = replicate (length s - i) ''..'' @ drop i p
            in Inr (if rel = [] then ''.'' else path_join (hd rel) (tl rel))))"

text \<open>A canonical absolute path: what \<open>isabs(p) and normpath(p) == p\<close> tests.\<close>

definition canonical_abs :: "string \<Rightarrow> bool" where
  "canonical_abs p \<longleftrightarrow> isabs p \<and> normpath p = p"

section \<open>Joining below a directory\<close>

lemma join2_below: "\<not> starts_with [SEP] b \<Longrightarrow> starts_with a (join2 a b)"
  by (simp add: join2_def)

lemma starts_with_trans: "starts_with a b \<Longrightarrow> starts_with b c \<Longrightarrow> starts_with a c"
  by (auto simp: starts_with_iff)

lemma starts_with_refl [simp]: "starts_with a a"
  by (simp add: starts_with_def)

text \<open>Joining relative components never leaves the directory, as a text.\<close>

lemma path_join_below: "\<forall>b \<in> set p. \<not> starts_with [SEP] b \<Longrightarrow> starts_with a (path_join a p)"
  unfolding path_join_def
  by (induction p arbitrary: a) (auto intro: starts_with_trans [OF join2_below])

lemma path_join_Nil [simp]: "path_join a [] = a"
  by (simp add: path_join_def)

lemma path_join_Cons [simp]: "path_join a (b # p) = path_join (join2 a b) p"
  by (simp add: path_join_def)

section \<open>Components of a canonical absolute path\<close>

definition plain_comp :: "string \<Rightarrow> bool" where
  "plain_comp c \<longleftrightarrow> c \<noteq> [] \<and> c \<noteq> ''.'' \<and> c \<noteq> ''..'' \<and> SEP \<notin> set c"

lemma norm_comps_plain:
  "0 < n \<Longrightarrow> list_all plain_comp acc \<Longrightarrow> \<forall>c \<in> set parts. SEP \<notin> set c \<Longrightarrow>
     list_all plain_comp (norm_comps n acc parts)"
proof (induction n acc parts rule: norm_comps.induct)
  case (2 n acc c parts)
  have acc: "acc \<noteq> [] \<Longrightarrow> last acc \<noteq> ''..''"
    using "2.prems" by (cases acc rule: rev_cases) (auto simp: plain_comp_def)
  have "list_all plain_comp (butlast acc)"
    using "2.prems" by (auto simp: list_all_iff dest: in_set_butlastD)
  moreover have "plain_comp c" if "c \<noteq> []" "c \<noteq> ''.''" "c \<noteq> ''..''"
    using that "2.prems" by (simp add: plain_comp_def)
  ultimately show ?case using "2.IH" "2.prems" acc by auto
qed simp

text \<open>A canonical absolute path is its leading slashes followed by plain components.\<close>

lemma canonical_abs_comps:
  assumes "canonical_abs p"
  obtains n cs where "n = 1 \<or> n = 2" "n = initial_slashes p" "list_all plain_comp cs"
    "p = replicate n SEP @ join_on [SEP] cs"
proof -
  from assms have a: "starts_with [SEP] p" and p: "normpath p = p"
    by (auto simp: canonical_abs_def isabs_def)
  let ?n = "initial_slashes p"
  have n: "?n = 1 \<or> ?n = 2" using a by (simp add: initial_slashes_def)
  have "list_all plain_comp (norm_comps ?n [] (split_on SEP p))"
    using n by (intro norm_comps_plain) (auto dest: split_on_no_sep)
  moreover from a n p have "p = replicate ?n SEP @ join_on [SEP] (norm_comps ?n [] (split_on SEP p))"
    by (auto simp: normpath_def Let_def starts_with_iff split: if_splits)
  ultimately show ?thesis using n that by blast
qed

text \<open>Conversely, such texts are canonical, and their parts are the components.\<close>

definition slashed :: "nat \<Rightarrow> string list \<Rightarrow> string" where
  "slashed n cs = replicate n SEP @ join_on [SEP] cs"

lemma norm_comps_plain_eq: "list_all plain_comp cs \<Longrightarrow> norm_comps n acc cs = acc @ cs"
  by (induction cs arbitrary: acc) (auto simp: plain_comp_def)

lemma norm_comps_Nil_prefix: "norm_comps n acc (replicate k [] @ cs) = norm_comps n acc cs"
  by (induction k) auto

lemma split_slashes: "split_on SEP (replicate n SEP @ t) = replicate n [] @ split_on SEP t"
  by (induction n) auto

lemma split_only_slashes: "split_on SEP (replicate n SEP) = replicate (Suc n) []"
  using split_slashes [of n "[]"] by (simp add: replicate_append_same)

lemma split_plain: "list_all plain_comp cs \<Longrightarrow> cs \<noteq> [] \<Longrightarrow> split_on SEP (join_on [SEP] cs) = cs"
  by (rule split_join) (auto simp: list_all_iff plain_comp_def)

lemma join_plain_hd:
  assumes "list_all plain_comp cs"
  shows "\<not> starts_with [SEP] (join_on [SEP] cs)"
proof (cases cs)
  case (Cons c ds)
  with assms obtain x y where "c = x # y" "x \<noteq> SEP" by (cases c) (auto simp: plain_comp_def)
  then show ?thesis by (cases ds) (auto simp: Cons starts_with_def)
qed (simp add: starts_with_def)

lemma initial_slashes_slashed:
  assumes "n = 1 \<or> n = 2" and "list_all plain_comp cs"
  shows "initial_slashes (slashed n cs) = n"
  using assms join_plain_hd [OF assms(2)]
  by (auto simp: initial_slashes_def slashed_def starts_with_def numeral_2_eq_2 eval_nat_numeral
      split: list.splits)

lemma nonempty_parts_slashed:
  "list_all plain_comp cs \<Longrightarrow> nonempty_parts (slashed n cs) = cs"
  by (cases "cs = []")
    (auto simp: nonempty_parts_def slashed_def split_slashes split_only_slashes split_plain
      plain_comp_def list_all_iff intro!: filter_True)

lemma canonical_slashed:
  assumes "n = 1 \<or> n = 2" and "list_all plain_comp cs"
  shows "canonical_abs (slashed n cs)"
proof -
  have "norm_comps n [] (split_on SEP (slashed n cs)) = cs"
    using assms(2) by (cases "cs = []")
      (use norm_comps_Nil_prefix [of n "[]" "Suc n" "[]"] in
        \<open>simp_all add: slashed_def split_slashes split_only_slashes norm_comps_Nil_prefix split_plain
          norm_comps_plain_eq del: replicate_Suc\<close>)
  moreover have "slashed n cs \<noteq> []" "starts_with [SEP] (slashed n cs)"
    using assms(1) by (auto simp: slashed_def starts_with_def numeral_2_eq_2)
  ultimately show ?thesis
    using initial_slashes_slashed [OF assms]
    by (simp add: canonical_abs_def isabs_def normpath_def Let_def) (simp add: slashed_def)
qed

lemma canonical_abs_iff:
  "canonical_abs p \<longleftrightarrow> (\<exists>n cs. (n = 1 \<or> n = 2) \<and> list_all plain_comp cs \<and> p = slashed n cs)"
  using canonical_abs_comps [of p] canonical_slashed by (metis slashed_def)

lemma join_on_snoc: "cs \<noteq> [] \<Longrightarrow> join_on s (cs @ [b]) = join_on s cs @ s @ b"
  by (induction cs rule: induct_list012) auto

lemma join2_slashed:
  assumes "n = 1 \<or> n = 2" and "list_all plain_comp cs" and "plain_comp b"
  shows "join2 (slashed n cs) b = slashed n (cs @ [b])"
proof -
  have b: "\<not> starts_with [SEP] b" using assms(3) by (cases b) (auto simp: plain_comp_def starts_with_def)
  show ?thesis
  proof (cases "cs = []")
    case True
    with assms b show ?thesis
      by (auto simp: join2_def slashed_def ends_with_def numeral_2_eq_2)
  next
    case False
    then obtain ds c where cs: "cs = ds @ [c]" by (metis rev_exhaust)
    with assms(2) obtain x y where c: "c = y @ [x]" "x \<noteq> SEP"
      by (cases c rule: rev_cases) (auto simp: plain_comp_def)
    have "\<exists>t. slashed n cs = t @ [x]"
      by (cases "ds = []") (simp_all add: slashed_def cs c join_on_snoc)
    then have "\<not> ends_with [SEP] (slashed n cs)" "slashed n cs \<noteq> []"
      using c(2) by (auto simp: ends_with_iff)
    with b False show ?thesis by (simp add: join2_def slashed_def join_on_snoc)
  qed
qed

lemma abspath_canonical: "canonical_abs p \<Longrightarrow> abspath cwd p = p"
  by (simp add: abspath_def canonical_abs_def)

lemma join2_canonical:
  assumes "canonical_abs a" and "plain_comp b"
  shows "canonical_abs (join2 a b)" "nonempty_parts (join2 a b) = nonempty_parts a @ [b]"
proof -
  from assms(1) obtain n cs where n: "n = 1 \<or> n = 2" and cs: "list_all plain_comp cs" and a: "a = slashed n cs"
    by (auto simp: canonical_abs_iff)
  have l: "list_all plain_comp (cs @ [b])" using cs assms(2) by simp
  show "canonical_abs (join2 a b)" "nonempty_parts (join2 a b) = nonempty_parts a @ [b]"
    unfolding a join2_slashed [OF n cs assms(2)]
    using canonical_slashed [OF n l] nonempty_parts_slashed [OF l] nonempty_parts_slashed [OF cs]
    by simp_all
qed

lemma path_join_canonical:
  "canonical_abs a \<Longrightarrow> list_all plain_comp p \<Longrightarrow>
     canonical_abs (path_join a p) \<and> nonempty_parts (path_join a p) = nonempty_parts a @ p"
  by (induction p arbitrary: a) (auto simp: join2_canonical)

section \<open>Relative paths\<close>

lemma common_prefix_bounds:
  "common_prefix s p \<le> length s" "common_prefix s p \<le> length p"
  "take (common_prefix s p) s = take (common_prefix s p) p"
  by (induction s p rule: common_prefix.induct) auto

lemma path_join_parts:
  "list_all (\<lambda>c. c \<noteq> [] \<and> SEP \<notin> set c) (c # cs) \<Longrightarrow> path_join c cs = join_on [SEP] (c # cs)"
proof (induction cs rule: rev_induct)
  case (snoc d cs)
  let ?j = "join_on [SEP] (c # cs)"
  have "last ?j \<noteq> SEP \<and> ?j \<noteq> []"
  proof (cases cs rule: rev_cases)
    case Nil
    with snoc.prems show ?thesis by (auto dest: last_in_set)
  next
    case (snoc es e)
    then have j: "?j = join_on [SEP] (c # es) @ [SEP] @ e"
      using join_on_snoc [of "c # es" "[SEP]" e] by simp
    have "e \<noteq> []" "SEP \<notin> set e" using snoc.prems snoc by auto
    then show ?thesis unfolding j by (auto dest: last_in_set)
  qed
  then have "\<not> ends_with [SEP] ?j" "?j \<noteq> []" by (auto simp: ends_with_iff)
  moreover have "\<not> starts_with [SEP] d"
    using snoc.prems by (cases d) (auto simp: starts_with_def)
  ultimately have "join2 ?j d = join_on [SEP] ((c # cs) @ [d])"
    by (subst join_on_snoc) (simp_all add: join2_def)
  moreover have "path_join c (cs @ [d]) = join2 (path_join c cs) d" by (simp add: path_join_def)
  ultimately show ?case using snoc by simp
qed simp

lemma dots_parts:
  assumes "list_all plain_comp p"
  shows "list_all (\<lambda>c. c \<noteq> [] \<and> SEP \<notin> set c) (replicate k ''..'' @ drop i p)"
proof -
  let ?Q = "\<lambda>c. c \<noteq> [] \<and> SEP \<notin> set c"
  have "list_all plain_comp (drop i p)"
    using assms set_drop_subset [of i p] by (auto simp: list_all_iff)
  then have "list_all ?Q (drop i p)"
    by (rule list.pred_mono_strong) (simp add: plain_comp_def)
  moreover have "list_all ?Q (replicate k ''..'')" by (induction k) simp_all
  ultimately show ?thesis by simp
qed

text \<open>
  A canonical directory whose path relative to a canonical parent is one plain component is a
  direct child of the parent.
\<close>

lemma relpath_child:
  assumes "canonical_abs d" and "canonical_abs parent" and "relpath cwd d parent = Inr rel"
    and "rel \<noteq> ''.''" and "rel \<noteq> ''..''" and "SEP \<notin> set rel"
  shows "nonempty_parts d = nonempty_parts parent @ [rel] \<and> plain_comp rel"
proof -
  let ?s = "nonempty_parts parent" and ?p = "nonempty_parts d"
  let ?i = "common_prefix ?s ?p"
  let ?rel = "replicate (length ?s - ?i) ''..'' @ drop ?i ?p"
  have plain: "list_all plain_comp ?p"
    using assms(1) nonempty_parts_slashed by (auto simp: canonical_abs_iff)
  have rel: "rel = (if ?rel = [] then ''.'' else path_join (hd ?rel) (tl ?rel))"
    using assms(1-3) by (auto simp: relpath_def abspath_canonical Let_def split: if_splits)
  then have ne: "?rel \<noteq> []" using assms(4) by auto
  have parts: "list_all (\<lambda>c. c \<noteq> [] \<and> SEP \<notin> set c) ?rel"
    by (rule dots_parts [OF plain])
  with rel ne have j: "rel = join_on [SEP] ?rel"
    using path_join_parts [of "hd ?rel" "tl ?rel"] by simp
  have "length ?rel = 1"
  proof (rule ccontr)
    assume "length ?rel \<noteq> 1"
    with ne obtain a b cs where "?rel = a # b # cs" by (metis One_nat_def length_Cons list.size(3) neq_Nil_conv)
    with j assms(6) show False by auto
  qed
  then obtain c where c: "?rel = [c]" by (metis One_nat_def length_0_conv length_Suc_conv)
  with j have "c = rel" by simp
  with c assms(5) have l: "length ?s - ?i = 0" and d: "drop ?i ?p = [rel]"
    by (cases "length ?s - ?i"; simp)+
  have "?p = take ?i ?p @ drop ?i ?p" by simp
  also have "take ?i ?p = ?s" using common_prefix_bounds(1,3) [of ?s ?p] l by simp
  finally have p: "?p = ?s @ [rel]" using d by simp
  moreover have "plain_comp rel" using plain unfolding p by simp
  ultimately show ?thesis by blast
qed

end
