(* ===== verification/Dictionary.thy ===== *)
theory Dictionary
  imports Text "HOL-Library.AList" "HOL-Library.List_Lexorder"
begin

text \<open>
  Python dictionaries as association lists in insertion order, \<open>list.index\<close>, and lemmas on both
  that the journal theories share.
\<close>

text \<open>\<open>list.index\<close> on a list that contains the element.\<close>

definition index_of :: "'a \<Rightarrow> 'a list \<Rightarrow> nat" where
  "index_of x xs = length (takeWhile (\<lambda>y. y \<noteq> x) xs)"

text \<open>A dictionary after a sequence of assignments, in insertion order, and its sorted items.\<close>

definition dict_of :: "(string \<times> 'a) list \<Rightarrow> (string \<times> 'a) list" where
  "dict_of assignments = foldl (\<lambda>d (k, v). AList.update k v d) [] assignments"

definition sorted_items :: "(string \<times> 'a) list \<Rightarrow> (string \<times> 'a) list" where
  "sorted_items d = sort_key fst d"

text \<open>\<open>d[key]\<close>.\<close>

definition table_get :: "(string \<times> 'a) list \<Rightarrow> string \<Rightarrow> 'a result" where
  "table_get d key = (case map_of d key of None \<Rightarrow> Inl (KeyError key) | Some v \<Rightarrow> Inr v)"

lemma table_get_ok [ok_iff]: "table_get d k = Inr v \<longleftrightarrow> map_of d k = Some v"
  by (auto simp: table_get_def split: option.splits)

lemma set_update_subset: "set (AList.update k v d) \<subseteq> insert (k, v) (set d)"
  by (induction d) auto

lemma set_dict_of: "set (dict_of xs) \<subseteq> set xs"
proof -
  have "set (foldl (\<lambda>d (k, v). AList.update k v d) d xs) \<subseteq> set d \<union> set xs" for d
    using set_update_subset by (induction xs arbitrary: d) (fastforce split: prod.splits)+
  from this [of "[]"] show ?thesis by (simp add: dict_of_def)
qed

lemma set_sorted_items [simp]: "set (sorted_items d) = set d"
  by (simp add: sorted_items_def)

lemma dict_of_distinct: "distinct (map fst (dict_of xs))"
proof -
  have "distinct (map fst d) \<Longrightarrow> distinct (map fst (foldl (\<lambda>d (k, v). AList.update k v d) d xs))" for d
    by (induction xs arbitrary: d) (auto simp: distinct_update split: prod.splits)
  then show ?thesis by (simp add: dict_of_def)
qed

lemma map_of_sorted_items:
  assumes "distinct (map fst d)"
  shows "map_of (sorted_items d) = map_of d"
proof -
  have "distinct (map fst (sorted_items d))"
    using assms by (simp add: sorted_items_def distinct_map)
  with assms show ?thesis by (intro map_of_inject_set [THEN iffD2]) simp_all
qed

lemma map_of_dict_of: "map_of (dict_of xs) = map_of (rev xs)"
proof -
  have "map_of (foldl (\<lambda>d (k, v). AList.update k v d) d xs) = map_of d ++ map_of (rev xs)" for d
    by (induction xs arbitrary: d) (auto simp: update_conv' map_add_def split: prod.splits option.splits)
  from this [of "[]"] show ?thesis by (simp add: dict_of_def)
qed

lemma distinct_append_prefix:
  assumes "distinct xs" and "distinct ys" and "list_all (\<lambda>k. \<not> starts_with p k) xs"
    and "list_all (starts_with p) ys"
  shows "distinct (xs @ ys)"
  using assms by (auto simp: list_all_iff)

end
