(* ===== verification/CsrJournal.thy ===== *)
theory CsrJournal
  imports PersistedIdentity PosixPath Dictionary
begin

text \<open>
  \<^verbatim>\<open>src/platform_pki/csr_recovery.py\<close>, first part: the field orders of the two recovery
  journals of the CSR service, their structural parsers, and the checks of single fields that both
  semantic parsers use. A journal value \<open>record[f]\<close> is \<open>val r f\<close>: the structural parsers return
  records with exactly the journal's fields, so the lookup never fails on them.
\<close>

section \<open>Fields\<close>

definition CSR_DB_KEYS :: "string list" where
  "CSR_DB_KEYS = [''index'', ''index_attr'', ''serial'', ''index_old'', ''index_attr_old'',
     ''serial_old'', ''newcert'']"

text \<open>The templates, \<open>template.format(serial=...)\<close> being application.\<close>

definition CSR_DB_PATHS :: "(string \<times> (string \<Rightarrow> string)) list" where
  "CSR_DB_PATHS = [
     (''index'', \<lambda>_. ''index.txt''),
     (''index_attr'', \<lambda>_. ''index.txt.attr''),
     (''serial'', \<lambda>_. ''serial''),
     (''index_old'', \<lambda>_. ''index.txt.old''),
     (''index_attr_old'', \<lambda>_. ''index.txt.attr.old''),
     (''serial_old'', \<lambda>_. ''serial.old''),
     (''newcert'', \<lambda>serial. ''newcerts/'' @ serial @ ''.pem'')]"

definition CSR_DB_SUFFIXES :: "string list" where
  "CSR_DB_SUFFIXES = [''path'', ''pre_identity'', ''source'', ''source_identity'', ''source_object'',
     ''post_identity'', ''backup'', ''backup_identity'']"

definition db_field :: "string \<Rightarrow> string \<Rightarrow> string" where
  "db_field key suffix = ''db_'' @ key @ ''_'' @ suffix"

definition CSR_SIGNING_FIXED_FIELDS :: "string list" where
  "CSR_SIGNING_FIXED_FIELDS = [''schema'', ''operation'', ''transaction'', ''phase'', ''committed'', ''recovery_step'',
     ''request_id'', ''nonce'', ''operation_kind'', ''service'', ''target'',
     ''requester_principal'', ''approver_principal'', ''response_principal'',
     ''request_sha256'', ''approval_sha256'', ''inventory_sha256'', ''csr_sha256'',
     ''csr_spki_sha256'', ''current_cert_sha256'', ''created_epoch'', ''transaction_dir'',
     ''transaction_identity'', ''response_trust_path'', ''response_trust_identity'',
     ''response_trust_sha256'', ''sensitive_key_path'', ''sensitive_key_identity'',
     ''sensitive_key_removed'', ''certificate_path'', ''certificate_identity'',
     ''certificate_sha256'', ''chain_path'', ''chain_identity'', ''chain_sha256'',
     ''fullchain_path'', ''fullchain_identity'', ''fullchain_sha256'',
     ''response_manifest_path'', ''response_manifest_identity'', ''response_manifest_sha256'',
     ''response_signature_path'', ''response_signature_identity'',
     ''response_signature_sha256'', ''candidate_stage'', ''candidate_stage_identity'',
     ''candidate_destination'', ''candidate_destination_identity'', ''response_stage'',
     ''response_stage_identity'', ''response_destination'', ''response_destination_identity'',
     ''replay_request_path'', ''replay_request_identity'', ''replay_request_sha256'',
     ''replay_nonce_path'', ''replay_nonce_identity'', ''replay_nonce_sha256'']"

definition CSR_SIGNING_JOURNAL_FIELDS :: "string list" where
  "CSR_SIGNING_JOURNAL_FIELDS = CSR_SIGNING_FIXED_FIELDS @
     concat (map (\<lambda>key. map (db_field key) CSR_DB_SUFFIXES) CSR_DB_KEYS)"

definition CANDIDATE_SOURCE_PATHS :: "(string \<times> string \<times> string) list" where
  "CANDIDATE_SOURCE_PATHS = [
     (''candidate_candidate'', ''candidate'', ''candidate''),
     (''candidate_tls_crt'', ''candidate'', ''tls.crt''),
     (''candidate_ca_chain_crt'', ''candidate'', ''ca-chain.crt''),
     (''candidate_fullchain_crt'', ''candidate'', ''fullchain.crt''),
     (''candidate_response'', ''candidate'', ''response''),
     (''candidate_response_sig'', ''candidate'', ''response.sig''),
     (''response_tls_crt'', ''response'', ''tls.crt''),
     (''response_ca_chain_crt'', ''response'', ''ca-chain.crt''),
     (''response_fullchain_crt'', ''response'', ''fullchain.crt''),
     (''response_response'', ''response'', ''response''),
     (''response_response_sig'', ''response'', ''response.sig''),
     (''artifact_artifact'', ''artifact'', ''artifact''),
     (''artifact_tls_crt'', ''artifact'', ''tls.crt''),
     (''artifact_ca_chain_crt'', ''artifact'', ''ca-chain.crt''),
     (''artifact_fullchain_crt'', ''artifact'', ''fullchain.crt''),
     (''artifact_response'', ''artifact'', ''response''),
     (''artifact_response_sig'', ''artifact'', ''response.sig'')]"

definition CANDIDATE_SOURCE_KEYS :: "string list" where
  "CANDIDATE_SOURCE_KEYS = map fst CANDIDATE_SOURCE_PATHS"

definition source_field :: "string \<Rightarrow> string \<Rightarrow> string" where
  "source_field key suffix = ''source_'' @ key @ ''_'' @ suffix"

definition CANDIDATE_FINALIZATION_FIXED_FIELDS :: "string list" where
  "CANDIDATE_FINALIZATION_FIXED_FIELDS = [''schema'', ''operation'', ''service'', ''request_id'', ''phase'', ''outcome_stage'',
     ''outcome_stage_identity'', ''outcome_destination'', ''outcome_destination_identity'',
     ''active_stage'', ''active_stage_identity'', ''active_destination'',
     ''active_pre_identity'', ''active_mode'', ''active_destination_identity'',
     ''active_pre_sha256'', ''candidate_dir'', ''candidate_dir_identity'', ''response_dir'',
     ''response_dir_identity'', ''transaction_dir'', ''transaction_dir_identity'',
     ''response_trust_path'', ''response_trust_identity'', ''response_trust_sha256'',
     ''candidate_path'', ''candidate_identity'', ''candidate_sha256'', ''artifact_dir'',
     ''artifact_dir_identity'', ''artifact_path'', ''artifact_identity'', ''artifact_sha256'',
     ''response_path'', ''response_identity'', ''response_sha256'', ''response_signature_path'',
     ''response_signature_identity'', ''response_signature_sha256'', ''deployment_sha256'',
     ''deployment_signature_sha256'', ''deployers_sha256'', ''decision_sha256'',
     ''active_sha256'', ''outcome_deployment_identity'',
     ''outcome_deployment_signature_identity'', ''outcome_deployers_identity'',
     ''outcome_decision_identity'']"

definition CANDIDATE_FINALIZATION_JOURNAL_FIELDS :: "string list" where
  "CANDIDATE_FINALIZATION_JOURNAL_FIELDS = CANDIDATE_FINALIZATION_FIXED_FIELDS @
     concat (map (\<lambda>key. map (source_field key) [''identity'', ''sha256'']) CANDIDATE_SOURCE_KEYS)"

section \<open>Enumerations\<close>

datatype csr_operation_kind = KIssue | KMigrate | KRenew

fun kind_value :: "csr_operation_kind \<Rightarrow> string" where
  "kind_value KIssue = ''issue''"
| "kind_value KMigrate = ''migrate''"
| "kind_value KRenew = ''renew''"

datatype signing_phase = PhPlanned | PhCaCommitted | PhTerminal

fun phase_value :: "signing_phase \<Rightarrow> string" where
  "phase_value PhPlanned = ''planned''"
| "phase_value PhCaCommitted = ''ca-committed''"
| "phase_value PhTerminal = ''terminal''"

datatype signing_step =
    PLANNED | REPLAY_RESERVED | TRANSACTION_STAGED | SIGNING_READY | SIGNING_COMPLETE
  | SENSITIVE_KEY_REMOVED | CA_INDEX_PUBLISHED | CA_INDEX_ATTR_PUBLISHED | CA_SERIAL_PUBLISHED
  | CA_INDEX_OLD_PUBLISHED | CA_INDEX_ATTR_OLD_PUBLISHED | CA_SERIAL_OLD_PUBLISHED
  | CA_NEWCERT_PUBLISHED | CA_COMMITTED | RESPONSE_SIGNING | RESPONSE_SIGNED
  | CANDIDATE_PUBLISHED | RESPONSE_PUBLISHED | JOURNAL_CLEANUP_PENDING

fun step_value :: "signing_step \<Rightarrow> string" where
  "step_value PLANNED = ''planned''"
| "step_value REPLAY_RESERVED = ''replay-reserved''"
| "step_value TRANSACTION_STAGED = ''transaction-staged''"
| "step_value SIGNING_READY = ''signing-ready''"
| "step_value SIGNING_COMPLETE = ''signing-complete''"
| "step_value SENSITIVE_KEY_REMOVED = ''sensitive-key-removed''"
| "step_value CA_INDEX_PUBLISHED = ''ca-index-published''"
| "step_value CA_INDEX_ATTR_PUBLISHED = ''ca-index_attr-published''"
| "step_value CA_SERIAL_PUBLISHED = ''ca-serial-published''"
| "step_value CA_INDEX_OLD_PUBLISHED = ''ca-index_old-published''"
| "step_value CA_INDEX_ATTR_OLD_PUBLISHED = ''ca-index_attr_old-published''"
| "step_value CA_SERIAL_OLD_PUBLISHED = ''ca-serial_old-published''"
| "step_value CA_NEWCERT_PUBLISHED = ''ca-newcert-published''"
| "step_value CA_COMMITTED = ''ca-committed''"
| "step_value RESPONSE_SIGNING = ''response-signing''"
| "step_value RESPONSE_SIGNED = ''response-signed''"
| "step_value CANDIDATE_PUBLISHED = ''candidate-published''"
| "step_value RESPONSE_PUBLISHED = ''response-published''"
| "step_value JOURNAL_CLEANUP_PENDING = ''journal-cleanup-pending''"

definition SIGNING_PLANNED_STEPS :: "signing_step list" where
  "SIGNING_PLANNED_STEPS = [PLANNED, REPLAY_RESERVED, TRANSACTION_STAGED, SIGNING_READY,
     SIGNING_COMPLETE, SENSITIVE_KEY_REMOVED, CA_INDEX_PUBLISHED, CA_INDEX_ATTR_PUBLISHED,
     CA_SERIAL_PUBLISHED, CA_INDEX_OLD_PUBLISHED, CA_INDEX_ATTR_OLD_PUBLISHED,
     CA_SERIAL_OLD_PUBLISHED, CA_NEWCERT_PUBLISHED]"

definition SIGNING_COMMITTED_STEPS :: "signing_step list" where
  "SIGNING_COMMITTED_STEPS =
     [CA_COMMITTED, RESPONSE_SIGNING, RESPONSE_SIGNED, CANDIDATE_PUBLISHED, RESPONSE_PUBLISHED]"

definition SIGNING_POST_STEPS :: "signing_step list" where
  "SIGNING_POST_STEPS = [CA_INDEX_PUBLISHED, CA_INDEX_ATTR_PUBLISHED, CA_SERIAL_PUBLISHED,
     CA_INDEX_OLD_PUBLISHED, CA_INDEX_ATTR_OLD_PUBLISHED, CA_SERIAL_OLD_PUBLISHED,
     CA_NEWCERT_PUBLISHED]"

datatype finalization_phase = FinPlanned | OUTCOME_PUBLISHED | ACTIVE_PUBLISHED

fun finalization_value :: "finalization_phase \<Rightarrow> string" where
  "finalization_value FinPlanned = ''planned''"
| "finalization_value OUTCOME_PUBLISHED = ''outcome-published''"
| "finalization_value ACTIVE_PUBLISHED = ''active-published''"

datatype active_mode = CREATE | EXCHANGE

fun mode_value :: "active_mode \<Rightarrow> string" where
  "mode_value CREATE = ''create''"
| "mode_value EXCHANGE = ''exchange''"

section \<open>Records\<close>

record csr_journal_record =
  jr_pairs :: "(string \<times> string) list"
  jr_final_newline :: bool

definition val :: "csr_journal_record \<Rightarrow> string \<Rightarrow> string" where
  "val r f = (case map_of (jr_pairs r) f of Some v \<Rightarrow> v | None \<Rightarrow> [])"

record signing_journal =
  sj_record :: csr_journal_record
  sj_pki_dir :: string
  sj_operation_kind :: csr_operation_kind
  sj_phase :: signing_phase
  sj_recovery_step :: signing_step
  sj_committed :: bool
  sj_sensitive_key_removed :: "bool option"
  sj_created_epoch :: int
  sj_issued_serial :: "string option"
  sj_intermediate_dir :: "string option"
  sj_identities :: "(string \<times> parsed_identity) list"
  sj_paths :: "(string \<times> string option) list"

definition sj_identity :: "signing_journal \<Rightarrow> string \<Rightarrow> parsed_identity result" where
  "sj_identity j field = (case map_of (sj_identities j) field of
     Some i \<Rightarrow> Inr i | None \<Rightarrow> Inl (KeyError field))"

record finalization_journal =
  fj_record :: csr_journal_record
  fj_pki_dir :: string
  fj_phase :: finalization_phase
  fj_active_mode :: active_mode
  fj_identities :: "(string \<times> parsed_identity) list"
  fj_paths :: "(string \<times> string) list"
  fj_source_paths :: "(string \<times> string) list"

section \<open>Structure\<close>

text \<open>The loop over the lines in \<open>_parse_record\<close>.\<close>

fun journal_lines :: "bool \<Rightarrow> string set \<Rightarrow> string list \<Rightarrow> (string \<times> string) list result" where
  "journal_lines allow_empty seen [] = Inr []"
| "journal_lines allow_empty seen (line # lines) =
     (if CHR ''='' \<notin> set line then
        Inl (CsrRecoveryError ''CSR recovery journal contains a malformed field'')
      else (let (key, value) = split_once (CHR ''='') line
        in if \<not> fullmatch KEY_RX key then
             Inl (CsrRecoveryError ''CSR recovery journal contains an invalid field key'')
           else if key \<in> seen then
             Inl (CsrRecoveryError ''CSR recovery journal contains a duplicate field'')
           else if value = [] \<and> \<not> allow_empty then
             Inl (CsrRecoveryError ''CSR recovery journal contains an empty value'')
           else if \<not> list_all is_print value then
             Inl (CsrRecoveryError ''CSR recovery journal contains a non-ASCII value'')
           else bindE (journal_lines allow_empty (insert key seen) lines) (\<lambda>pairs.
             Inr ((key, value) # pairs))))"

definition journal_order :: "string list \<Rightarrow> string list \<Rightarrow> unit result" where
  "journal_order keys actual =
     (if actual = keys then Inr ()
      else if \<not> set actual \<subseteq> set keys then
        Inl (CsrRecoveryError ''CSR recovery journal contains an unexpected field'')
      else if \<not> set keys \<subseteq> set actual then
        Inl (CsrRecoveryError ''CSR recovery journal is missing a required field'')
      else Inl (CsrRecoveryError ''CSR recovery journal fields are reordered''))"

definition parse_journal_record ::
  "string \<Rightarrow> string list \<Rightarrow> bool \<Rightarrow> bool \<Rightarrow> csr_journal_record result" where
  "parse_journal_record data keys allow_empty require_final_newline =
     (let final_newline = ends_with [NL] data;
          body = (if final_newline then butlast data else data);
          lines = (if body = [] then [] else split_on NL body)
      in if require_final_newline \<and> \<not> final_newline then
           Inl (CsrRecoveryError ''CSR recovery journal must end with one newline'')
         else if ends_with [NL, NL] data then
           Inl (CsrRecoveryError ''CSR recovery journal contains a blank extra record'')
         else if length lines < length keys then
           Inl (CsrRecoveryError ''CSR recovery journal is missing a required field'')
         else if length keys < length lines then
           Inl (CsrRecoveryError ''CSR recovery journal contains an extra field'')
         else
           bindE (journal_lines allow_empty {} lines) (\<lambda>pairs.
           bindE (journal_order keys (map fst pairs)) (\<lambda>_.
             Inr \<lparr>jr_pairs = pairs, jr_final_newline = final_newline\<rparr>)))"

definition parse_signing_journal_structure :: "string \<Rightarrow> csr_journal_record result" where
  "parse_signing_journal_structure data =
     bindE (parse_journal_record data CSR_SIGNING_JOURNAL_FIELDS True False) (\<lambda>r.
       if val r ''schema'' \<noteq> ''1'' \<or> val r ''operation'' \<noteq> ''csr-sign'' then
         Inl (CsrRecoveryError ''CSR signing journal schema or operation is unsupported'')
       else Inr r)"

definition parse_finalization_journal_structure :: "string \<Rightarrow> csr_journal_record result" where
  "parse_finalization_journal_structure data =
     bindE (parse_journal_record data CANDIDATE_FINALIZATION_JOURNAL_FIELDS False True) (\<lambda>r.
       if val r ''schema'' \<noteq> ''1'' \<or> val r ''operation'' \<noteq> ''csr-finalize'' then
         Inl (CsrRecoveryError ''CSR finalization journal schema or operation is unsupported'')
       else Inr r)"

section \<open>Checks of one field\<close>

definition canonical_pki_dir :: "string \<Rightarrow> string result" where
  "canonical_pki_dir value =
     (if value = [] \<or> \<not> isabs value \<or> normpath value \<noteq> value \<or> char_of (0 :: nat) \<in> set value then
        Inl (CsrRecoveryError ''pki_dir must be a canonical absolute path'')
      else Inr value)"

definition expect_pattern :: "string \<Rightarrow> char rx \<Rightarrow> string \<Rightarrow> string result" where
  "expect_pattern value rx field =
     (if \<not> fullmatch rx value then
        Inl (CsrRecoveryError (''CSR recovery field '' @ field @ '' is invalid''))
      else Inr value)"

definition enum_member :: "('e \<Rightarrow> string) \<Rightarrow> 'e list \<Rightarrow> string \<Rightarrow> string \<Rightarrow> 'e result" where
  "enum_member value_of members value field =
     (case find (\<lambda>x. value_of x = value) members of
        None \<Rightarrow> Inl (CsrRecoveryError (''CSR recovery field '' @ field @ '' is invalid''))
      | Some x \<Rightarrow> Inr x)"

definition boolean :: "string \<Rightarrow> string \<Rightarrow> bool result" where
  "boolean value field =
     (if value \<notin> {''false'', ''true''} then
        Inl (CsrRecoveryError (''CSR recovery field '' @ field @ '' is not boolean''))
      else Inr (value = ''true''))"

definition check_digest :: "string \<Rightarrow> string \<Rightarrow> bool \<Rightarrow> unit result" where
  "check_digest value field allow_none =
     (if allow_none \<and> value = ''none'' then Inr ()
      else bindE (expect_pattern value HEX64_RX field) (\<lambda>_. Inr ()))"

datatype identity_kind = KDirectory | KFile | KObject

definition sentinel_or :: "('a \<Rightarrow> parsed_identity result) \<Rightarrow> 'a or_sentinel \<Rightarrow> parsed_identity result" where
  "sentinel_or f i = (case i of Sentinel s \<Rightarrow> Inr (PSentinel s) | Identity x \<Rightarrow> f x)"

definition identity_of_kind ::
  "string \<Rightarrow> identity_kind \<Rightarrow> identity_sentinel set \<Rightarrow> parsed_identity result" where
  "identity_of_kind value kind sentinels =
     (case kind of
        KDirectory \<Rightarrow> bindE (parse_directory_identity value sentinels)
          (sentinel_or (\<lambda>i. Inr (PDirectory i)))
      | KFile \<Rightarrow> bindE (parse_file_identity value sentinels)
          (sentinel_or (\<lambda>i.
             if fi_kind i \<noteq> Regular then
               Inl (PersistedIdentityError ''persisted file identity is not regular'')
             else Inr (PFile i)))
      | KObject \<Rightarrow> bindE (parse_file_object_state value sentinels)
          (sentinel_or (\<lambda>i.
             if os_kind i \<noteq> Regular then
               Inl (PersistedIdentityError ''persisted file object state is not regular'')
             else Inr (PObject i))))"

definition parse_identity ::
  "string \<Rightarrow> string \<Rightarrow> identity_kind \<Rightarrow> identity_sentinel set \<Rightarrow> parsed_identity result" where
  "parse_identity value field kind sentinels =
     (case identity_of_kind value kind sentinels of
        Inl (PersistedIdentityError error) \<Rightarrow>
          Inl (CsrRecoveryError (''CSR recovery identity '' @ field @ '' is invalid: '' @ error))
      | r \<Rightarrow> r)"

definition expect_path :: "string \<Rightarrow> string \<Rightarrow> string \<Rightarrow> string result" where
  "expect_path value expected field =
     (if \<not> isabs value \<or> normpath value \<noteq> value \<or> value \<noteq> expected then
        Inl (CsrRecoveryError (''CSR recovery path '' @ field @ '' is outside its contract''))
      else Inr value)"

definition optional_exact_path :: "string \<Rightarrow> string \<Rightarrow> string \<Rightarrow> string option result" where
  "optional_exact_path value expected field =
     (if value = ''none'' then Inr None
      else bindE (expect_path value expected field) (\<lambda>p. Inr (Some p)))"

text \<open>
  \<open>identities[field] = _identity(record[field], ...)\<close>: the assignment is the returned pair.
\<close>

definition identity_entry ::
  "csr_journal_record \<Rightarrow> identity_kind \<Rightarrow> identity_sentinel set \<Rightarrow> string \<Rightarrow>
     (string \<times> parsed_identity) result" where
  "identity_entry r kind sentinels field =
     bindE (parse_identity (val r field) field kind sentinels) (\<lambda>i. Inr (field, i))"

definition optional_identity ::
  "csr_journal_record \<Rightarrow> identity_kind \<Rightarrow> string \<Rightarrow> (string \<times> parsed_identity) result" where
  "optional_identity r kind field = identity_entry r kind {NONE} field"

definition optional_digest_identity_pair ::
  "csr_journal_record \<Rightarrow> string \<Rightarrow> string \<Rightarrow> (string \<times> parsed_identity) result" where
  "optional_digest_identity_pair r identity_field digest_field =
     bindE (optional_identity r KFile identity_field) (\<lambda>entry.
     bindE (check_digest (val r digest_field) digest_field True) (\<lambda>_.
     if (val r identity_field = ''none'') \<noteq> (val r digest_field = ''none'') then
       Inl (CsrRecoveryError
         (''CSR recovery evidence '' @ identity_field @ '' is only partially recorded''))
     else Inr entry))"

end
