(* ===== verification/SigningJournal.thy ===== *)
theory SigningJournal
  imports CsrJournal
begin

text \<open>
  \<^verbatim>\<open>src/platform_pki/csr_recovery.py\<close>, second part: the semantic parser of the CSR signing
  journal, \<open>parse_signing_journal\<close>, one definition per block of checks, in the code's order. A
  block that assigns to the dictionaries \<open>identities\<close> and \<open>paths\<close> returns its assignments.
\<close>

abbreviation fail :: "string \<Rightarrow> 'a result" where
  "fail m \<equiv> Inl (CsrRecoveryError m)"

abbreviation check :: "bool \<Rightarrow> string \<Rightarrow> unit result" where
  "check ok m \<equiv> requireE ok (CsrRecoveryError m)"

section \<open>Checkpoint evidence\<close>

text \<open>The local functions of \<open>_validate_signing_checkpoint_evidence\<close>.\<close>

definition present :: "csr_journal_record \<Rightarrow> string \<Rightarrow> bool" where
  "present r field \<longleftrightarrow> val r field \<noteq> ''none''"

definition uniform :: "csr_journal_record \<Rightarrow> string list \<Rightarrow> string \<Rightarrow> bool result" where
  "uniform r keys label =
     (let states = remdups (map (present r) keys)
      in if length states \<noteq> 1 then fail (''CSR signing '' @ label @ '' evidence is incomplete'')
         else Inr (hd states))"

type_synonym evidence = "bool list"

text \<open>\<open>index >= SIGNING_PLANNED_STEPS.index(step)\<close>\<close>

definition planned_from :: "signing_step \<Rightarrow> signing_step \<Rightarrow> bool" where
  "planned_from step bound \<longleftrightarrow>
     index_of bound SIGNING_PLANNED_STEPS \<le> index_of step SIGNING_PLANNED_STEPS"

definition planned_evidence :: "signing_step \<Rightarrow> evidence" where
  "planned_evidence step =
     [planned_from step REPLAY_RESERVED, planned_from step TRANSACTION_STAGED,
      planned_from step TRANSACTION_STAGED, planned_from step SIGNING_READY,
      planned_from step SENSITIVE_KEY_REMOVED, planned_from step SIGNING_COMPLETE,
      planned_from step SIGNING_COMPLETE, False, False, False, False, False]"

definition committed_evidence :: "signing_step \<Rightarrow> evidence list" where
  "committed_evidence step =
     (let base = [True, True, True, True, True, True, True]
      in if step \<in> {CA_COMMITTED, RESPONSE_SIGNING} then [base @ [False, False, False, False, False]]
         else if step = RESPONSE_SIGNED then
           map (\<lambda>publication. base @ [True] @ publication)
             [[False, False, False, False], [True, False, False, False],
              [True, False, True, False], [True, True, True, False]]
         else if step = CANDIDATE_PUBLISHED then
           map (\<lambda>response_destination. base @ [True, True, True, True, response_destination])
             [False, True]
         else [base @ [True, True, True, True, True]])"

definition terminal_evidence :: "bool \<Rightarrow> evidence list" where
  "terminal_evidence committed =
     (if committed then
        [[True, True, True, True, True, True, True, True, True, True, True, True]]
      else
        [[True, True, False, False, True, False, False, False, False, False, False, False],
         [True, True, True, False, True, False, False, False, False, False, False, False],
         [True, True, True, True, True, False, False, False, False, False, False, False],
         [True, True, True, True, True, True, True, False, False, False, False, False]])"

definition allowed_evidence :: "signing_phase \<Rightarrow> bool \<Rightarrow> signing_step \<Rightarrow> evidence list" where
  "allowed_evidence phase committed step =
     (case phase of
        PhPlanned \<Rightarrow> [planned_evidence step]
      | PhCaCommitted \<Rightarrow> committed_evidence step
      | PhTerminal \<Rightarrow> terminal_evidence committed)"

definition replay_fields :: "string list" where
  "replay_fields = [''replay_request_identity'', ''replay_request_sha256'',
     ''replay_nonce_identity'', ''replay_nonce_sha256'']"

definition artifact_fields :: "string list" where
  "artifact_fields = concat (map (\<lambda>prefix.
     [prefix @ ''_path'', prefix @ ''_identity'', prefix @ ''_sha256''])
       [''certificate'', ''chain'', ''fullchain'', ''response_manifest''])"

definition recorded_evidence :: "csr_journal_record \<Rightarrow> bool option \<Rightarrow> bool \<Rightarrow> bool \<Rightarrow> evidence" where
  "recorded_evidence r sensitive_removed replay artifacts =
     [replay, present r ''transaction_identity'', present r ''response_trust_identity'',
      present r ''sensitive_key_identity'', sensitive_removed = Some True, artifacts,
      present r ''response_signature_path'', present r ''response_signature_identity'',
      present r ''candidate_stage_identity'', present r ''candidate_destination_identity'',
      present r ''response_stage_identity'', present r ''response_destination_identity'']"

definition validate_signing_checkpoint_evidence ::
  "csr_journal_record \<Rightarrow> signing_phase \<Rightarrow> bool \<Rightarrow> signing_step \<Rightarrow> bool option \<Rightarrow> unit result" where
  "validate_signing_checkpoint_evidence r phase committed step sensitive_removed =
     (if phase \<noteq> PhTerminal \<and> step \<notin> {PLANNED, REPLAY_RESERVED, TRANSACTION_STAGED} \<and>
         \<not> present r ''sensitive_key_identity'' then
        fail ''Journaled CSR signing key copy has no recorded identity''
      else
        bindE (uniform r replay_fields ''replay'') (\<lambda>replay.
        bindE (uniform r artifact_fields ''signing artifact'') (\<lambda>artifacts.
          check (recorded_evidence r sensitive_removed replay artifacts \<in>
              set (allowed_evidence phase committed step))
            ''CSR signing checkpoint evidence conflicts with its durable writer state'')))"

section \<open>Identity of the transaction\<close>

definition valid_signing_state :: "signing_phase \<Rightarrow> bool \<Rightarrow> signing_step \<Rightarrow> bool" where
  "valid_signing_state phase committed step =
     (case phase of
        PhPlanned \<Rightarrow> \<not> committed \<and> step \<in> set SIGNING_PLANNED_STEPS
      | PhCaCommitted \<Rightarrow> committed \<and> step \<in> set SIGNING_COMMITTED_STEPS
      | PhTerminal \<Rightarrow> step = JOURNAL_CLEANUP_PENDING)"

record signing_header =
  sh_request_id :: string
  sh_nonce :: string
  sh_kind :: csr_operation_kind
  sh_committed :: bool
  sh_phase :: signing_phase
  sh_step :: signing_step

definition all_steps :: "signing_step list" where
  "all_steps = SIGNING_PLANNED_STEPS @ SIGNING_COMMITTED_STEPS @ [JOURNAL_CLEANUP_PENDING]"

definition parse_signing_header :: "csr_journal_record \<Rightarrow> signing_header result" where
  "parse_signing_header r =
     bindE (expect_pattern (val r ''request_id'') HEX32_RX ''request_id'') (\<lambda>request_id.
     bindE (expect_pattern (val r ''nonce'') HEX64_RX ''nonce'') (\<lambda>nonce.
     bindE (enum_member kind_value [KIssue, KMigrate, KRenew] (val r ''operation_kind'')
       ''operation_kind'') (\<lambda>kind.
     bindE (expect_pattern (val r ''service'') SERVICE_RX ''service'') (\<lambda>_.
     bindE (forE (\<lambda>f. bindE (expect_pattern (val r f) PRINCIPAL_RX f) (\<lambda>_. Inr ()))
       [''target'', ''requester_principal'', ''approver_principal'', ''response_principal'']) (\<lambda>_.
     bindE (check (val r ''requester_principal'' = val r ''target'')
       ''CSR signing requester principal does not match target'') (\<lambda>_.
     bindE (boolean (val r ''committed'') ''committed'') (\<lambda>committed.
     bindE (enum_member phase_value [PhPlanned, PhCaCommitted, PhTerminal] (val r ''phase'')
       ''phase'') (\<lambda>phase.
     bindE (enum_member step_value all_steps (val r ''recovery_step'') ''recovery_step'') (\<lambda>step.
     bindE (check (valid_signing_state phase committed step)
       ''CSR signing phase, committed state, and recovery step are inconsistent'') (\<lambda>_.
     bindE (check (val r ''transaction'' = ''csr-'' @ request_id)
       ''CSR signing transaction does not match request_id'') (\<lambda>_.
       Inr \<lparr>sh_request_id = request_id, sh_nonce = nonce, sh_kind = kind,
         sh_committed = committed, sh_phase = phase, sh_step = step\<rparr>)))))))))))"

text \<open>The digests and the predecessor; the result is the text of the creation epoch.\<close>

definition check_signing_digests :: "csr_journal_record \<Rightarrow> csr_operation_kind \<Rightarrow> string result" where
  "check_signing_digests r kind =
     bindE (forE (\<lambda>f. check_digest (val r f) f False)
       [''request_sha256'', ''approval_sha256'', ''inventory_sha256'', ''csr_sha256'',
        ''csr_spki_sha256'']) (\<lambda>_.
     bindE (check_digest (val r ''current_cert_sha256'') ''current_cert_sha256'' True) (\<lambda>_.
     bindE (if kind = KIssue then
              check (val r ''current_cert_sha256'' = ''none'')
                ''issue CSR signing journal has a predecessor digest''
            else
              check (val r ''current_cert_sha256'' \<noteq> ''none'')
                ''renewal or migration CSR journal lacks a predecessor digest'') (\<lambda>_.
       expect_pattern (val r ''created_epoch'') DECIMAL_RX ''created_epoch'')))"

section \<open>Paths\<close>

definition transaction_dir :: "string \<Rightarrow> string \<Rightarrow> string" where
  "transaction_dir root transaction =
     path_join root [''state'', ''csr'', ''transactions'', transaction]"

definition signing_dir :: "string \<Rightarrow> string" where
  "signing_dir tdir = path_join tdir [''signing'']"

definition expected_paths ::
  "string \<Rightarrow> string \<Rightarrow> string \<Rightarrow> string \<Rightarrow> string \<Rightarrow> (string \<times> string) list" where
  "expected_paths root tdir service request_id nonce =
     [(''transaction_dir'', tdir),
      (''response_trust_path'', path_join tdir [''responses.allowed_signers'']),
      (''sensitive_key_path'', path_join (signing_dir tdir) [''private'', ''intermediate-ca.key'']),
      (''candidate_stage'', path_join tdir [''candidate.publish'']),
      (''candidate_destination'',
        path_join root [''state'', ''csr'', ''candidates'', service, request_id]),
      (''response_stage'', path_join tdir [''response.publish'']),
      (''response_destination'',
        path_join root [''state'', ''csr'', ''responses'', service, request_id]),
      (''replay_request_path'',
        path_join root [''state'', ''csr'', ''replay'', ''requests'', request_id]),
      (''replay_nonce_path'',
        path_join root [''state'', ''csr'', ''replay'', ''nonces'', nonce])]"

definition artifact_paths :: "string \<Rightarrow> (string \<times> string) list" where
  "artifact_paths sdir =
     [(''certificate_path'', path_join sdir [''tls.crt'']),
      (''chain_path'', path_join sdir [''ca-chain.crt'']),
      (''fullchain_path'', path_join sdir [''fullchain.crt'']),
      (''response_manifest_path'', path_join sdir [''response'']),
      (''response_signature_path'', path_join sdir [''response.sig''])]"

definition check_signing_paths ::
  "csr_journal_record \<Rightarrow> string \<Rightarrow> string \<Rightarrow> string \<Rightarrow> (string \<times> string option) list result" where
  "check_signing_paths r root request_id nonce =
     (let tdir = transaction_dir root (val r ''transaction'')
      in bindE (mapE (\<lambda>(f, expected). bindE (expect_path (val r f) expected f) (\<lambda>p. Inr (f, Some p)))
           (expected_paths root tdir (val r ''service'') request_id nonce)) (\<lambda>fixed.
         bindE (mapE (\<lambda>(f, expected).
             bindE (optional_exact_path (val r f) expected f) (\<lambda>p. Inr (f, p)))
           (artifact_paths (signing_dir tdir))) (\<lambda>artifacts.
           Inr (fixed @ artifacts))))"

section \<open>Identities and evidence\<close>

definition signing_identities :: "csr_journal_record \<Rightarrow> (string \<times> parsed_identity) list result" where
  "signing_identities r =
     bindE (identity_entry r KDirectory {NONE} ''transaction_identity'') (\<lambda>t.
     bindE (mapE (optional_identity r KDirectory)
       [''candidate_stage_identity'', ''candidate_destination_identity'',
        ''response_stage_identity'', ''response_destination_identity'']) (\<lambda>stages.
     bindE (mapE (\<lambda>(i, d). optional_digest_identity_pair r i d)
       [(''response_trust_identity'', ''response_trust_sha256''),
        (''replay_request_identity'', ''replay_request_sha256''),
        (''replay_nonce_identity'', ''replay_nonce_sha256'')]) (\<lambda>pairs.
     bindE (optional_identity r KFile ''sensitive_key_identity'') (\<lambda>key.
       Inr ([t] @ stages @ pairs @ [key])))))"

definition sensitive_key_removed :: "csr_journal_record \<Rightarrow> bool option result" where
  "sensitive_key_removed r =
     (if val r ''sensitive_key_removed'' = ''none'' then Inr None
      else if val r ''sensitive_key_removed'' = ''true'' then Inr (Some True)
      else fail ''CSR signing sensitive_key_removed is invalid'')"

definition early_sensitive_steps :: "signing_step list" where
  "early_sensitive_steps = [PLANNED, REPLAY_RESERVED, TRANSACTION_STAGED]"

definition staged_sensitive_steps :: "signing_step list" where
  "staged_sensitive_steps = [SIGNING_READY, SIGNING_COMPLETE]"

definition sensitive_valid ::
  "csr_journal_record \<Rightarrow> signing_phase \<Rightarrow> bool \<Rightarrow> signing_step \<Rightarrow> bool option \<Rightarrow> bool" where
  "sensitive_valid r phase committed step removed =
     (let recorded = val r ''sensitive_key_identity'' \<noteq> ''none''
      in if phase = PhTerminal then removed = Some True \<and> (committed \<longrightarrow> recorded)
         else if step \<in> set early_sensitive_steps then \<not> recorded \<and> removed = None
         else if step \<in> set staged_sensitive_steps then recorded \<and> removed = None
         else recorded \<and> removed = Some True)"

definition check_sensitive_key ::
  "csr_journal_record \<Rightarrow> signing_phase \<Rightarrow> bool \<Rightarrow> signing_step \<Rightarrow> bool option result" where
  "check_sensitive_key r phase committed step =
     bindE (sensitive_key_removed r) (\<lambda>removed.
     bindE (check (sensitive_valid r phase committed step removed)
       ''CSR signing sensitive-key evidence is inconsistent with its checkpoint'') (\<lambda>_.
       Inr removed))"

definition check_artifact_evidence :: "csr_journal_record \<Rightarrow> (string \<times> parsed_identity) list result" where
  "check_artifact_evidence r =
     bindE (mapE (\<lambda>prefix.
         bindE (optional_digest_identity_pair r (prefix @ ''_identity'') (prefix @ ''_sha256'')) (\<lambda>e.
         bindE (check ((val r (prefix @ ''_path'') = ''none'') = (val r (prefix @ ''_identity'') = ''none''))
           (''CSR signing evidence '' @ prefix @ ''_path is incomplete'')) (\<lambda>_. Inr e)))
       [''certificate'', ''chain'', ''fullchain'', ''response_manifest'']) (\<lambda>artifacts.
     bindE (optional_digest_identity_pair r ''response_signature_identity''
       ''response_signature_sha256'') (\<lambda>signature.
     bindE (check (\<not> (val r ''response_signature_path'' = ''none'' \<and>
         (val r ''response_signature_identity'' \<noteq> ''none'' \<or>
          val r ''response_signature_sha256'' \<noteq> ''none'')))
       ''CSR response signature has evidence without a path'') (\<lambda>_.
     bindE (forE (\<lambda>(destination, stage).
         check (\<not> (val r destination \<noteq> ''none'' \<and> val r destination \<noteq> val r stage))
           ''CSR publication stage and destination differ'')
       [(''candidate_destination_identity'', ''candidate_stage_identity''),
        (''response_destination_identity'', ''response_stage_identity'')]) (\<lambda>_.
       Inr (artifacts @ [signature])))))"

section \<open>The CA database contract\<close>

text \<open>No database contract: every database field is \<open>none\<close>.\<close>

definition no_database_key ::
  "csr_journal_record \<Rightarrow> string \<Rightarrow>
     ((string \<times> parsed_identity) list \<times> (string \<times> string option) list) result" where
  "no_database_key r key =
     bindE (forE (\<lambda>suffix. check (val r (db_field key suffix) = ''none'')
         ''CSR signing journal has a partial DB contract'') CSR_DB_SUFFIXES) (\<lambda>_.
     bindE (mapE (\<lambda>(suffix, kind). identity_entry r kind {NONE} (db_field key suffix))
       [(''pre_identity'', KFile), (''source_identity'', KFile), (''source_object'', KObject),
        (''post_identity'', KFile), (''backup_identity'', KFile)]) (\<lambda>identities.
       Inr (identities,
         map (\<lambda>suffix. (db_field key suffix, None)) [''path'', ''source'', ''backup''])))"

definition check_no_database ::
  "csr_journal_record \<Rightarrow> signing_phase \<Rightarrow> bool \<Rightarrow> signing_step \<Rightarrow>
     ((string \<times> parsed_identity) list \<times> (string \<times> string option) list) result" where
  "check_no_database r phase committed step =
     bindE (mapE (no_database_key r) CSR_DB_KEYS) (\<lambda>entries.
     bindE (check (\<not> committed) ''committed CSR signing journal has no DB contract'') (\<lambda>_.
     bindE (check (\<not> (phase = PhPlanned \<and> step \<notin> set early_sensitive_steps))
       ''CSR signing checkpoint is missing its DB contract'') (\<lambda>_.
     bindE (check (\<not> (phase = PhTerminal \<and> val r ''sensitive_key_identity'' \<noteq> ''none''))
       ''terminal CSR signing DB and key evidence conflict'') (\<lambda>_.
       Inr (concat (map fst entries), concat (map snd entries))))))"

text \<open>The serial and the intermediate directory that the database paths name.\<close>

definition issued_serial :: "csr_journal_record \<Rightarrow> string result" where
  "issued_serial r =
     bindE (expect_pattern (removesuffix ''.pem'' (basename (val r ''db_newcert_path''))) SERIAL_RX
       ''db_newcert_path serial'') (\<lambda>serial.
     bindE (check (\<not> (length serial > 2 \<and> starts_with ''00'' serial))
       ''CSR signing journal db_newcert_path serial is not canonical'') (\<lambda>_. Inr serial))"

definition intermediate_parent :: "string \<Rightarrow> string" where
  "intermediate_parent root = path_join root [''authorities'', ''intermediates'']"

definition journal_intermediate_dir ::
  "string \<Rightarrow> csr_journal_record \<Rightarrow> string \<Rightarrow> string option \<Rightarrow> string result" where
  "journal_intermediate_dir cwd r root expected =
     (let index_path = val r ''db_index_path''; dir = dirname index_path
      in bindE (check (\<forall>e \<in> set_option expected. index_path = path_join e [''index.txt''])
           ''CSR recovery CA path is outside the active intermediate: index'') (\<lambda>_.
         bindE (relpath cwd dir (intermediate_parent root)) (\<lambda>relative.
         bindE (check (isabs dir \<and> normpath dir = dir \<and> relative \<notin> {''.'', ''..''} \<and>
             \<not> starts_with ''../'' relative \<and> SEP \<notin> set relative)
           ''CSR signing intermediate DB directory is invalid'') (\<lambda>_.
         bindE (check (\<forall>e \<in> set_option expected. dir = e)
           ''CSR signing DB directory does not match the active intermediate'') (\<lambda>_.
           Inr dir)))))"

text \<open>One file of the database: its paths, then its identities.\<close>

definition database_key ::
  "csr_journal_record \<Rightarrow> string \<Rightarrow> string \<Rightarrow> string \<Rightarrow> string \<times> (string \<Rightarrow> string) \<Rightarrow>
     ((string \<times> parsed_identity) list \<times> (string \<times> string option) list) result" where
  "database_key r tdir dir serial entry =
     (let (key, template) = entry; relative_path = template serial; f = db_field key
      in bindE (mapE (\<lambda>(field, expected).
             bindE (expect_path (val r field) expected field) (\<lambda>p. Inr (field, Some p)))
           [(f ''path'', path_join dir [relative_path]),
            (f ''source'', path_join (signing_dir tdir) [relative_path]),
            (f ''backup'', path_join tdir [''ca-backup'', key])]) (\<lambda>paths.
         bindE (identity_entry r KFile {ABSENT} (f ''pre_identity'')) (\<lambda>pre.
         bindE (optional_identity r KFile (f ''source_identity'')) (\<lambda>source.
         bindE (optional_identity r KObject (f ''source_object'')) (\<lambda>source_object.
         bindE (check ((val r (f ''source_identity'') = ''none'') = (val r (f ''source_object'') = ''none''))
           (''CSR signing DB source '' @ key @ '' is incomplete'')) (\<lambda>_.
         bindE (optional_identity r KFile (f ''post_identity'')) (\<lambda>post.
         bindE (optional_identity r KFile (f ''backup_identity'')) (\<lambda>backup.
         bindE (check ((val r (f ''pre_identity'') \<noteq> ''absent'') = (val r (f ''backup_identity'') \<noteq> ''none''))
           (''CSR signing DB backup '' @ key @ '' is inconsistent'')) (\<lambda>_.
           Inr ([pre, source, source_object, post, backup], paths))))))))))"

definition sources_present :: "csr_journal_record \<Rightarrow> bool list" where
  "sources_present r = map (\<lambda>key. val r (db_field key ''source_identity'') \<noteq> ''none'') CSR_DB_KEYS"

definition posts_present :: "csr_journal_record \<Rightarrow> bool list" where
  "posts_present r = map (\<lambda>key. val r (db_field key ''post_identity'') \<noteq> ''none'') CSR_DB_KEYS"

definition source_expected :: "signing_phase \<Rightarrow> bool \<Rightarrow> signing_step \<Rightarrow> bool option" where
  "source_expected phase committed step =
     (if phase = PhTerminal \<and> \<not> committed then None
      else Some (phase = PhCaCommitted \<or> phase = PhTerminal \<or> planned_from step SIGNING_COMPLETE))"

definition expected_post_count :: "signing_phase \<Rightarrow> bool \<Rightarrow> signing_step \<Rightarrow> nat \<Rightarrow> nat" where
  "expected_post_count phase committed step count =
     (if phase = PhPlanned then
        (if step \<in> set SIGNING_POST_STEPS then index_of step SIGNING_POST_STEPS + 1 else 0)
      else if committed then length CSR_DB_KEYS
      else count)"

definition check_database_evidence ::
  "csr_journal_record \<Rightarrow> signing_phase \<Rightarrow> bool \<Rightarrow> signing_step \<Rightarrow> unit result" where
  "check_database_evidence r phase committed step =
     (let sources = sources_present r; all_sources = list_all id sources;
          posts = posts_present r; count = length (filter id posts)
      in bindE (check (length (remdups sources) = 1)
           ''CSR signing DB source evidence is incomplete'') (\<lambda>_.
         bindE (check (\<forall>e \<in> set_option (source_expected phase committed step). all_sources = e)
           ''CSR signing DB source evidence conflicts with its checkpoint'') (\<lambda>_.
         bindE (check (posts = map (\<lambda>i. i < count) [0..<length CSR_DB_KEYS])
           ''CSR signing DB post identities are not a prefix'') (\<lambda>_.
         bindE (check (count = expected_post_count phase committed step count)
           ''CSR signing DB post identities conflict with its checkpoint'') (\<lambda>_.
         bindE (check (\<not> (count > 0 \<and> \<not> all_sources))
           ''CSR signing DB post identities have no complete source evidence'') (\<lambda>_.
         if phase = PhTerminal \<and> \<not> committed then
           bindE (check (\<not> (\<not> all_sources \<and> count > 0))
             ''terminal CSR signing DB evidence is inconsistent'') (\<lambda>_.
           check (val r ''sensitive_key_identity'' \<noteq> ''none'')
             ''terminal CSR signing DB and key evidence conflict'')
         else check (\<not> (phase = PhPlanned \<and> step \<in> set early_sensitive_steps))
           ''early CSR signing checkpoint has a DB contract''))))))"

record database_contract =
  dc_serial :: "string option"
  dc_dir :: "string option"
  dc_identities :: "(string \<times> parsed_identity) list"
  dc_paths :: "(string \<times> string option) list"

definition check_database ::
  "string \<Rightarrow> csr_journal_record \<Rightarrow> string \<Rightarrow> string option \<Rightarrow> signing_header \<Rightarrow>
     database_contract result" where
  "check_database cwd r root expected h =
     (let phase = sh_phase h; committed = sh_committed h; step = sh_step h;
          tdir = transaction_dir root (val r ''transaction'')
      in if val r ''db_index_path'' = ''none'' then
           bindE (check_no_database r phase committed step) (\<lambda>(identities, paths).
             Inr \<lparr>dc_serial = None, dc_dir = None, dc_identities = identities,
               dc_paths = paths\<rparr>)
         else
           bindE (issued_serial r) (\<lambda>serial.
           bindE (journal_intermediate_dir cwd r root expected) (\<lambda>dir.
           bindE (mapE (database_key r tdir dir serial) CSR_DB_PATHS) (\<lambda>entries.
           bindE (check_database_evidence r phase committed step) (\<lambda>_.
             Inr \<lparr>dc_serial = Some serial, dc_dir = Some dir,
               dc_identities = concat (map fst entries),
               dc_paths = concat (map snd entries)\<rparr>)))))"

section \<open>The parser\<close>

definition signing_journal_of ::
  "string \<Rightarrow> csr_journal_record \<Rightarrow> string \<Rightarrow> string option \<Rightarrow> signing_journal result" where
  "signing_journal_of cwd r root expected =
     bindE (parse_signing_header r) (\<lambda>h.
     bindE (check_signing_digests r (sh_kind h)) (\<lambda>created.
     bindE (check_signing_paths r root (sh_request_id h) (sh_nonce h)) (\<lambda>paths.
     bindE (signing_identities r) (\<lambda>identities.
     bindE (check_sensitive_key r (sh_phase h) (sh_committed h) (sh_step h)) (\<lambda>removed.
     bindE (check_artifact_evidence r) (\<lambda>artifacts.
     bindE (check_database cwd r root expected h) (\<lambda>db.
     bindE (validate_signing_checkpoint_evidence r (sh_phase h) (sh_committed h) (sh_step h)
       removed) (\<lambda>_.
     bindE (int_of_digits created) (\<lambda>created_epoch.
       Inr \<lparr>sj_record = r, sj_pki_dir = root, sj_operation_kind = sh_kind h,
         sj_phase = sh_phase h, sj_recovery_step = sh_step h, sj_committed = sh_committed h,
         sj_sensitive_key_removed = removed, sj_created_epoch = created_epoch,
         sj_issued_serial = dc_serial db, sj_intermediate_dir = dc_dir db,
         sj_identities = sorted_items (dict_of (identities @ artifacts @ dc_identities db)),
         sj_paths = sorted_items (dict_of (paths @ dc_paths db))\<rparr>)))))))))"

definition parse_signing_journal ::
  "string \<Rightarrow> string \<Rightarrow> string \<Rightarrow> string option \<Rightarrow> signing_journal result" where
  "parse_signing_journal cwd data pki_dir active_intermediate_dir =
     bindE (parse_signing_journal_structure data) (\<lambda>r.
     bindE (canonical_pki_dir pki_dir) (\<lambda>root.
     bindE (case active_intermediate_dir of
              None \<Rightarrow> Inr None
            | Some d \<Rightarrow> bindE (canonical_pki_dir d) (\<lambda>e. Inr (Some e))) (\<lambda>expected.
       signing_journal_of cwd r root expected)))"

definition validate_signing_transaction_presence :: "signing_journal \<Rightarrow> bool \<Rightarrow> unit result" where
  "validate_signing_transaction_presence journal transaction_exists =
     bindE (sj_identity journal ''transaction_identity'') (\<lambda>identity.
       if transaction_exists \<and> identity = PSentinel NONE then
         fail ''unowned CSR signing transaction directory appeared''
       else if \<not> transaction_exists \<and> (identity \<noteq> PSentinel NONE \<or> sj_committed journal) then
         fail ''CSR signing transaction directory is missing''
       else Inr ())"

end
