(* ===== verification/JournalContracts.thy ===== *)
theory JournalContracts
  imports CsrJournal Records CsrContracts IdentityCodecs
begin

text \<open>
  What the structural journal parser accepts, and what each check of a field requires.
\<close>

section \<open>Structure\<close>

lemma journal_lines_eq: "journal_lines ae seen lines = Inr ps \<longleftrightarrow> parse_lines ae seen lines = Inr ps"
proof (induction lines arbitrary: seen ps)
  case (Cons line lines)
  then show ?case by (auto simp: ok_iff Let_def split: prod.splits)
qed simp

lemma journal_order_ok [ok_iff]: "journal_order keys actual = Inr u \<longleftrightarrow> actual = keys"
  by (auto simp: journal_order_def)

text \<open>The bytes of a journal record.\<close>

definition journal_text :: "csr_journal_record \<Rightarrow> string" where
  "journal_text r =
     join_on [NL] (map line_of (jr_pairs r)) @ (if jr_final_newline r then [NL] else [])"

definition journal_keys :: "string list \<Rightarrow> bool" where
  "journal_keys keys \<longleftrightarrow> keys \<noteq> [] \<and> distinct keys \<and> (\<forall>k \<in> set keys. fullmatch KEY_RX k)"

definition journal_of :: "string list \<Rightarrow> bool \<Rightarrow> csr_journal_record \<Rightarrow> bool" where
  "journal_of keys allow_empty r \<longleftrightarrow>
     map fst (jr_pairs r) = keys \<and> (\<forall>kv \<in> set (jr_pairs r). valid_value allow_empty (snd kv))"

lemma line_of_Nil [simp]: "line_of kv \<noteq> []"
  by (simp add: line_of_def)

lemma join_lines_end:
  assumes "ps \<noteq> []" and "\<forall>kv \<in> set ps. NL \<notin> set (line_of kv)"
  shows "\<exists>t c. join_on [NL] (map line_of ps) = t @ [c] \<and> c \<noteq> NL"
proof -
  obtain init q where ps: "ps = init @ [q]" using assms(1) by (metis rev_exhaust)
  obtain w c where q: "line_of q = w @ [c]" by (metis line_of_Nil rev_exhaust)
  then have "c \<noteq> NL" using assms(2) ps by force
  moreover have "\<exists>t. join_on [NL] (map line_of ps) = t @ [c]"
    by (cases "init = []") (simp_all add: ps q join_on_snoc)
  ultimately show ?thesis by blast
qed

lemma ends_with_Nil [simp]: "\<not> ends_with [x] []"
  by (simp add: ends_with_def)

lemma ends_with_snoc: "ends_with [x] (t @ [c]) \<longleftrightarrow> c = x"
  by (auto simp: ends_with_def)

lemma ends_with_snoc2: "ends_with [x, y] (t @ [c]) \<longleftrightarrow> c = y \<and> ends_with [x] t"
  by (cases t rule: rev_cases) (auto simp: ends_with_def)

text \<open>The end of a text whose last line does not end in a newline character.\<close>

lemma data_end:
  assumes "c \<noteq> NL"
  shows "ends_with [NL] ((t @ [c]) @ (if nl then [NL] else [])) = nl"
    and "\<not> ends_with [NL, NL] ((t @ [c]) @ (if nl then [NL] else []))"
    and "(if nl then butlast ((t @ [c]) @ (if nl then [NL] else []))
          else (t @ [c]) @ (if nl then [NL] else [])) = t @ [c]"
proof -
  note one = ends_with_snoc [of NL "t @ [c]" NL] ends_with_snoc [of NL t c]
  note two = ends_with_snoc2 [of NL NL "t @ [c]" NL] ends_with_snoc2 [of NL NL t c]
  show "ends_with [NL] ((t @ [c]) @ (if nl then [NL] else [])) = nl"
    using assms one by (cases nl) simp_all
  show "\<not> ends_with [NL, NL] ((t @ [c]) @ (if nl then [NL] else []))"
    using assms one two by (cases nl) simp_all
  show "(if nl then butlast ((t @ [c]) @ (if nl then [NL] else []))
      else (t @ [c]) @ (if nl then [NL] else [])) = t @ [c]"
    by (cases nl) (simp_all add: butlast_append)
qed

lemma parse_journal_record_ok:
  assumes keys: "journal_keys keys"
  shows "parse_journal_record data keys ae req = Inr r \<longleftrightarrow>
    journal_of keys ae r \<and> (req \<longrightarrow> jr_final_newline r) \<and> data = journal_text r"
proof
  assume ok: "parse_journal_record data keys ae req = Inr r"
  let ?nl = "ends_with [NL] data"
  let ?body = "if ?nl then butlast data else data"
  from ok obtain ps where ne: "?body \<noteq> []" and lines: "split_on NL ?body = map line_of ps"
    and v: "\<forall>kv \<in> set ps. fullmatch KEY_RX (fst kv) \<and> valid_value ae (snd kv)"
    and k: "map fst ps = keys" and r: "r = \<lparr>jr_pairs = ps, jr_final_newline = ?nl\<rparr>"
    and req: "req \<longrightarrow> ?nl"
    using keys by (auto simp: parse_journal_record_def Let_def ok_iff journal_lines_eq parse_lines_ok
        journal_keys_def split: if_splits)
  have "?body = join_on [NL] (map line_of ps)" by (metis join_split lines)
  moreover have "data = ?body @ (if ?nl then [NL] else [])"
    by (cases data rule: rev_cases) (simp_all add: ends_with_snoc)
  ultimately have "data = journal_text r" by (simp add: journal_text_def r)
  moreover have "journal_of keys ae r" using v k by (simp add: journal_of_def r)
  moreover have "req \<longrightarrow> jr_final_newline r" using req by (simp add: r)
  ultimately show "journal_of keys ae r \<and> (req \<longrightarrow> jr_final_newline r) \<and> data = journal_text r"
    by blast
next
  assume r: "journal_of keys ae r \<and> (req \<longrightarrow> jr_final_newline r) \<and> data = journal_text r"
  obtain ps nl where ps: "r = \<lparr>jr_pairs = ps, jr_final_newline = nl\<rparr>" by (cases r)
  from r ps have k: "map fst ps = keys" and v: "\<forall>kv \<in> set ps. valid_value ae (snd kv)"
    by (auto simp: journal_of_def)
  have rx: "\<forall>kv \<in> set ps. fullmatch KEY_RX (fst kv)" and ne: "ps \<noteq> []" and d: "distinct (map fst ps)"
    using keys unfolding k [symmetric] by (auto simp: journal_keys_def)
  have nonl: "\<forall>kv \<in> set ps. NL \<notin> set (line_of kv)" using rx v by (metis valid_line_no_NL)
  let ?j = "join_on [NL] (map line_of ps)"
  from join_lines_end [OF ne nonl] obtain t c where j: "?j = t @ [c]" "c \<noteq> NL" by blast
  have data: "data = ?j @ (if nl then [NL] else [])" using r by (simp add: ps journal_text_def)
  note ends = data_end [OF j(2), where t = t and nl = nl, folded j(1), folded data]
  note e = ends(1,2) and body = ends(3)
  have split: "split_on NL ?j = map line_of ps" using ne nonl by (simp add: split_join)
  have lines: "journal_lines ae {} (map line_of ps) = Inr ps"
    using rx v d by (simp add: journal_lines_eq parse_lines_ok)
  have "?j \<noteq> []" using j by simp
  moreover have "length keys = length ps" using k by auto
  ultimately show "parse_journal_record data keys ae req = Inr r"
    unfolding parse_journal_record_def Let_def e(1) body
    using r e(2) by (simp add: ps split lines k bindE_ok journal_order_def)
qed

section \<open>Fields of a journal\<close>

lemma expect_pattern_ok [ok_iff]: "expect_pattern v rx f = Inr w \<longleftrightarrow> w = v \<and> fullmatch rx v"
  by (auto simp: expect_pattern_def)

lemma enum_member_ok:
  assumes "inj_on g (set ms)"
  shows "enum_member g ms v f = Inr x \<longleftrightarrow> x \<in> set ms \<and> g x = v"
proof (cases "find (\<lambda>x. g x = v) ms")
  case None
  then have "\<not> (x \<in> set ms \<and> g x = v)" by (auto simp: find_None_iff)
  with None show ?thesis by (simp add: enum_member_def)
next
  case (Some y)
  then have "y \<in> set ms" "g y = v" by (auto simp: find_Some_iff)
  with assms Some show ?thesis by (auto simp: enum_member_def dest: inj_onD)
qed

lemma boolean_ok [ok_iff]: "boolean v f = Inr b \<longleftrightarrow> v = (if b then ''true'' else ''false'')"
  by (auto simp: boolean_def)

lemma check_digest_ok [ok_iff]:
  "check_digest v f allow = Inr u \<longleftrightarrow> (allow \<and> v = ''none'') \<or> is_digest v"
  by (auto simp: check_digest_def ok_iff HEX64_iff is_digest_def)

lemma expect_path_ok [ok_iff]:
  "expect_path v e f = Inr p \<longleftrightarrow> p = v \<and> v = e \<and> canonical_abs v"
  by (auto simp: expect_path_def canonical_abs_def)

lemma optional_exact_path_ok [ok_iff]:
  "optional_exact_path v e f = Inr p \<longleftrightarrow>
     (v = ''none'' \<and> p = None) \<or> (v \<noteq> ''none'' \<and> p = Some v \<and> v = e \<and> canonical_abs v)"
  by (auto simp: optional_exact_path_def ok_iff)

lemma identity_entry_ok [ok_iff]:
  "identity_entry r k s f = Inr e \<longleftrightarrow> (\<exists>i. e = (f, i) \<and> parse_identity (val r f) f k s = Inr i)"
  by (auto simp: identity_entry_def ok_iff)

lemma optional_identity_ok [ok_iff]:
  "optional_identity r k f = Inr e \<longleftrightarrow> (\<exists>i. e = (f, i) \<and> parse_identity (val r f) f k {NONE} = Inr i)"
  by (simp add: optional_identity_def identity_entry_ok)

lemma optional_digest_identity_pair_ok [ok_iff]:
  "optional_digest_identity_pair r i d = Inr e \<longleftrightarrow>
     optional_identity r KFile i = Inr e \<and> (val r d = ''none'' \<or> is_digest (val r d)) \<and>
     (val r i = ''none'' \<longleftrightarrow> val r d = ''none'')"
  by (auto simp: optional_digest_identity_pair_def ok_iff)

lemma parse_identity_ok:
  "parse_identity v f k s = Inr i \<longleftrightarrow> identity_of_kind v k s = Inr i"
  by (cases "identity_of_kind v k s") (auto simp: parse_identity_def split: exn.splits)

text \<open>An identity field is a sentinel exactly when its text is the sentinel's.\<close>

lemma sentinel_or_sentinel:
  "(\<And>x. f x \<noteq> Inr (PSentinel t)) \<Longrightarrow> sentinel_or f i = Inr (PSentinel t) \<longleftrightarrow> i = Sentinel t"
  by (cases i) (auto simp: sentinel_or_def)

lemma parse_identity_sentinel:
  "parse_identity v f k s = Inr (PSentinel t) \<longleftrightarrow> v = sentinel_text t \<and> t \<in> s"
  unfolding parse_identity_ok
  by (cases k) (auto simp: identity_of_kind_def ok_iff sentinel_or_sentinel with_sentinel_ok
      parse_directory_identity_def parse_file_identity_def parse_file_object_state_def
      dest!: sentinel_or_sentinel [THEN iffD1, rotated])

section \<open>The two field orders\<close>

lemma distinct_signing_fixed: "distinct CSR_SIGNING_FIXED_FIELDS"
  by (simp add: CSR_SIGNING_FIXED_FIELDS_def)

lemma distinct_signing_db:
  "distinct (concat (map (\<lambda>key. map (db_field key) CSR_DB_SUFFIXES) CSR_DB_KEYS))"
  by (simp add: CSR_DB_SUFFIXES_def CSR_DB_KEYS_def db_field_def)

lemma key_chars_ok: "list_all (\<lambda>k. k \<noteq> [] \<and> list_all is_key_char k) ks \<Longrightarrow> \<forall>k \<in> set ks. fullmatch KEY_RX k"
  by (auto simp: KEY_iff list_all_iff)

lemma signing_keys: "journal_keys CSR_SIGNING_JOURNAL_FIELDS"
proof -
  have "distinct CSR_SIGNING_JOURNAL_FIELDS"
    unfolding CSR_SIGNING_JOURNAL_FIELDS_def
    by (rule distinct_append_prefix [where p = "''db_''", OF distinct_signing_fixed distinct_signing_db])
      (auto simp: CSR_SIGNING_FIXED_FIELDS_def starts_with_def db_field_def list_all_iff)
  moreover have "list_all (\<lambda>k. k \<noteq> [] \<and> list_all is_key_char k) CSR_SIGNING_JOURNAL_FIELDS"
    by code_simp
  moreover have "CSR_SIGNING_JOURNAL_FIELDS \<noteq> []"
    by (simp add: CSR_SIGNING_JOURNAL_FIELDS_def CSR_SIGNING_FIXED_FIELDS_def)
  ultimately show ?thesis by (simp add: journal_keys_def key_chars_ok)
qed

lemma distinct_final_fixed: "distinct CANDIDATE_FINALIZATION_FIXED_FIELDS"
  by (simp add: CANDIDATE_FINALIZATION_FIXED_FIELDS_def)

lemma distinct_final_sources:
  "distinct (concat (map (\<lambda>key. map (source_field key) [''identity'', ''sha256'']) CANDIDATE_SOURCE_KEYS))"
  by (simp add: CANDIDATE_SOURCE_KEYS_def CANDIDATE_SOURCE_PATHS_def source_field_def)

lemma finalization_keys: "journal_keys CANDIDATE_FINALIZATION_JOURNAL_FIELDS"
proof -
  have "distinct CANDIDATE_FINALIZATION_JOURNAL_FIELDS"
    unfolding CANDIDATE_FINALIZATION_JOURNAL_FIELDS_def
    by (rule distinct_append_prefix [where p = "''source_''", OF distinct_final_fixed distinct_final_sources])
      (auto simp: CANDIDATE_FINALIZATION_FIXED_FIELDS_def starts_with_def source_field_def list_all_iff)
  moreover have "list_all (\<lambda>k. k \<noteq> [] \<and> list_all is_key_char k) CANDIDATE_FINALIZATION_JOURNAL_FIELDS"
    by code_simp
  moreover have "CANDIDATE_FINALIZATION_JOURNAL_FIELDS \<noteq> []"
    by (simp add: CANDIDATE_FINALIZATION_JOURNAL_FIELDS_def CANDIDATE_FINALIZATION_FIXED_FIELDS_def)
  ultimately show ?thesis by (simp add: journal_keys_def key_chars_ok)
qed

text \<open>A parsed journal has every field.\<close>

lemma journal_of_val:
  assumes "journal_of keys ae r" and "f \<in> set keys"
  shows "map_of (jr_pairs r) f = Some (val r f) \<and> valid_value ae (val r f)"
proof -
  from assms have "f \<in> fst ` set (jr_pairs r)" by (auto simp: journal_of_def simp flip: set_map)
  then obtain v where v: "map_of (jr_pairs r) f = Some v"
    by (metis domIff dom_map_of_conv_image_fst not_None_eq)
  with assms(1) show ?thesis by (auto simp: val_def journal_of_def dest!: map_of_SomeD)
qed

end
