(* ===== verification/SigningContracts.thy ===== *)
theory SigningContracts
  imports SigningJournal JournalContracts
begin

text \<open>
  What an accepted CSR signing journal guarantees: each block of the parser is characterised by
  the conditions it checks, then the accepted journals by the conjunction of the blocks.
\<close>

section \<open>Enumerations\<close>

lemma kind_inj [simp]: "inj_on kind_value S"
proof (rule inj_onI)
  fix x y assume "kind_value x = kind_value y"
  then show "x = y" by (cases x; cases y) auto
qed

lemma phase_inj [simp]: "inj_on phase_value S"
proof (rule inj_onI)
  fix x y assume "phase_value x = phase_value y"
  then show "x = y" by (cases x; cases y) auto
qed

lemma distinct_step_values: "distinct (map step_value all_steps)"
  by code_simp

lemma step_inj: "inj_on step_value (set all_steps)"
  using distinct_step_values by (simp add: distinct_map)

lemma all_steps_complete: "step \<in> set all_steps"
  by (cases step) (auto simp: all_steps_def SIGNING_PLANNED_STEPS_def SIGNING_COMMITTED_STEPS_def)

section \<open>The header\<close>

definition valid_header :: "csr_journal_record \<Rightarrow> signing_header \<Rightarrow> bool" where
  "valid_header r h \<longleftrightarrow>
     sh_request_id h = val r ''request_id'' \<and> fullmatch HEX32_RX (sh_request_id h) \<and>
     sh_nonce h = val r ''nonce'' \<and> is_digest (sh_nonce h) \<and>
     kind_value (sh_kind h) = val r ''operation_kind'' \<and>
     fullmatch SERVICE_RX (val r ''service'') \<and>
     (\<forall>f \<in> {''target'', ''requester_principal'', ''approver_principal'', ''response_principal''}.
        fullmatch PRINCIPAL_RX (val r f)) \<and>
     val r ''requester_principal'' = val r ''target'' \<and>
     val r ''committed'' = (if sh_committed h then ''true'' else ''false'') \<and>
     phase_value (sh_phase h) = val r ''phase'' \<and> step_value (sh_step h) = val r ''recovery_step'' \<and>
     valid_signing_state (sh_phase h) (sh_committed h) (sh_step h) \<and>
     val r ''transaction'' = ''csr-'' @ sh_request_id h"

lemma is_digest_HEX64: "fullmatch HEX64_RX v \<longleftrightarrow> is_digest v"
  by (simp add: HEX64_iff is_digest_def)

lemma all_kinds: "k \<in> set [KIssue, KMigrate, KRenew]"
  by (cases k) auto

lemma all_phases: "p \<in> set [PhPlanned, PhCaCommitted, PhTerminal]"
  by (cases p) auto

lemma parse_signing_header_ok: "parse_signing_header r = Inr h \<longleftrightarrow> valid_header r h"
proof -
  obtain i n k c p s where h: "h = \<lparr>sh_request_id = i, sh_nonce = n, sh_kind = k, sh_committed = c,
      sh_phase = p, sh_step = s\<rparr>" by (cases h)
  show ?thesis
    unfolding parse_signing_header_def valid_header_def h
    using all_kinds [of k] all_phases [of p] all_steps_complete [of s]
    by (auto simp: ok_iff enum_member_ok step_inj is_digest_HEX64 simp del: all_steps_def set_simps)
qed

section \<open>Checkpoint evidence\<close>

lemma uniform_ok:
  assumes "keys \<noteq> []"
  shows "uniform r keys label = Inr b \<longleftrightarrow> (\<forall>f \<in> set keys. present r f = b)"
proof -
  have one: "length (remdups xs) = 1 \<and> hd (remdups xs) = b \<longleftrightarrow> (\<forall>x \<in> set xs. x = b)"
    if "xs \<noteq> []" for xs :: "bool list"
  proof
    assume l: "length (remdups xs) = 1 \<and> hd (remdups xs) = b"
    then obtain y where y: "remdups xs = [y]" by (cases "remdups xs") auto
    then have "set xs = {y}" by (metis list.set(1) list.simps(15) set_remdups)
    with l y show "\<forall>x \<in> set xs. x = b" by simp
  next
    assume a: "\<forall>x \<in> set xs. x = b"
    then have "set xs \<subseteq> {b}" by blast
    moreover have "set xs \<noteq> {}" using that by (simp only: set_empty simp_thms)
    ultimately have s: "set (remdups xs) = {b}" unfolding set_remdups by (metis subset_singletonD)
    have "remdups xs = [b]"
    proof -
      have "card (set (remdups xs)) = length (remdups xs)"
        by (rule distinct_card) simp
      with s have "length (remdups xs) = 1" by simp
      then obtain y where "remdups xs = [y]" by (cases "remdups xs") auto
      with s show ?thesis by simp
    qed
    then show "length (remdups xs) = 1 \<and> hd (remdups xs) = b" by simp
  qed
  have "uniform r keys label = Inr b \<longleftrightarrow>
      length (remdups (map (present r) keys)) = 1 \<and> hd (remdups (map (present r) keys)) = b"
    by (simp add: uniform_def Let_def)
  also have "\<dots> \<longleftrightarrow> (\<forall>x \<in> set (map (present r) keys). x = b)"
    by (rule one) (simp add: assms)
  finally show ?thesis by simp
qed

lemma evidence_fields_ne: "replay_fields \<noteq> []" "artifact_fields \<noteq> []"
  by (simp_all add: replay_fields_def artifact_fields_def)

text \<open>The evidence of a journal whose replay and artifact fields are uniform.\<close>

definition evidence_of :: "csr_journal_record \<Rightarrow> bool option \<Rightarrow> evidence" where
  "evidence_of r removed = recorded_evidence r removed
     (present r ''replay_request_identity'') (present r ''certificate_path'')"

lemma validate_evidence_ok:
  "validate_signing_checkpoint_evidence r phase committed step removed = Inr u \<longleftrightarrow>
     (phase \<noteq> PhTerminal \<and> step \<notin> {PLANNED, REPLAY_RESERVED, TRANSACTION_STAGED} \<longrightarrow>
        present r ''sensitive_key_identity'') \<and>
     (\<forall>f \<in> set replay_fields. present r f = present r ''replay_request_identity'') \<and>
     (\<forall>f \<in> set artifact_fields. present r f = present r ''certificate_path'') \<and>
     evidence_of r removed \<in> set (allowed_evidence phase committed step)"
proof -
  have f: "''replay_request_identity'' \<in> set replay_fields" "''certificate_path'' \<in> set artifact_fields"
    by (simp_all add: replay_fields_def artifact_fields_def)
  have r: "uniform r replay_fields l = Inr b \<longleftrightarrow> b = present r ''replay_request_identity'' \<and>
      (\<forall>f \<in> set replay_fields. present r f = present r ''replay_request_identity'')" for l b
    using uniform_ok [OF evidence_fields_ne(1), of r l b] f by auto
  have a: "uniform r artifact_fields l = Inr b \<longleftrightarrow> b = present r ''certificate_path'' \<and>
      (\<forall>f \<in> set artifact_fields. present r f = present r ''certificate_path'')" for l b
    using uniform_ok [OF evidence_fields_ne(2), of r l b] f by auto
  show ?thesis
    unfolding validate_signing_checkpoint_evidence_def evidence_of_def
    by (simp only: if_raise_ok bindE_ok r a requireE_ok) blast
qed

text \<open>The phase and the commit state that belong to a step.\<close>

definition phase_of :: "signing_step \<Rightarrow> signing_phase" where
  "phase_of step = (if step \<in> set SIGNING_PLANNED_STEPS then PhPlanned
     else if step \<in> set SIGNING_COMMITTED_STEPS then PhCaCommitted else PhTerminal)"

lemma valid_state_phase: "valid_signing_state phase committed step \<Longrightarrow> phase = phase_of step"
  by (cases phase; cases step)
    (auto simp: valid_signing_state_def phase_of_def SIGNING_PLANNED_STEPS_def SIGNING_COMMITTED_STEPS_def)

definition step_index :: "signing_step \<Rightarrow> nat" where
  "step_index step = index_of step all_steps"

definition evidence_le :: "evidence \<Rightarrow> evidence \<Rightarrow> bool" where
  "evidence_le e1 e2 \<longleftrightarrow> list_all2 (\<lambda>x y. x \<longrightarrow> y) e1 e2"

text \<open>Whatever evidence a step allows, every later step of a transaction that commits has it.\<close>

lemma allowed_evidence_grows:
  "list_all (\<lambda>s1. list_all (\<lambda>s2. step_index s1 < step_index s2 \<longrightarrow>
     list_all (\<lambda>e1. list_all (evidence_le e1)
         (allowed_evidence (phase_of s2) (phase_of s2 \<noteq> PhPlanned) s2))
       (allowed_evidence (phase_of s1) (phase_of s1 \<noteq> PhPlanned) s1)) all_steps) all_steps"
  by code_simp

section \<open>Database evidence\<close>

lemma check_database_evidence_ok:
  "check_database_evidence r phase committed step = Inr u \<Longrightarrow>
     posts_present r = map (\<lambda>i. i < length (filter id (posts_present r))) [0..<7] \<and>
     length (filter id (posts_present r)) =
       expected_post_count phase committed step (length (filter id (posts_present r))) \<and>
     (0 < length (filter id (posts_present r)) \<longrightarrow> list_all id (sources_present r)) \<and>
     (\<forall>e. source_expected phase committed step = Some e \<longrightarrow> list_all id (sources_present r) = e) \<and>
     \<not> (phase = PhPlanned \<and> step \<in> set early_sensitive_steps)"
proof -
  have seven: "length CSR_DB_KEYS = 7" by (simp add: CSR_DB_KEYS_def)
  assume "check_database_evidence r phase committed step = Inr u"
  then show ?thesis
    unfolding check_database_evidence_def Let_def bindE_ok requireE_ok seven
    by (cases "phase = PhTerminal \<and> \<not> committed";
        simp only: if_True if_False requireE_ok bindE_ok option.set simp_thms; blast)
qed

lemma check_database_Some:
  assumes "check_database cwd r root e h = Inr db" and "dc_serial db \<noteq> None"
  shows "check_database_evidence r (sh_phase h) (sh_committed h) (sh_step h) = Inr () \<and>
    issued_serial r = Inr (the (dc_serial db)) \<and>
    journal_intermediate_dir cwd r root e = Inr (the (dc_dir db)) \<and> dc_dir db \<noteq> None"
  using assms by (auto simp: check_database_def Let_def ok_iff split: if_splits prod.splits)

lemma check_database_None:
  assumes "check_database cwd r root e h = Inr db" and "dc_serial db = None"
  shows "\<not> sh_committed h \<and> dc_dir db = None \<and>
    (sh_phase h = PhPlanned \<longrightarrow> sh_step h \<in> set early_sensitive_steps) \<and>
    (\<forall>k \<in> set CSR_DB_KEYS. \<forall>s \<in> set CSR_DB_SUFFIXES. val r (db_field k s) = ''none'')"
proof -
  from assms obtain ids ps where "check_no_database r (sh_phase h) (sh_committed h) (sh_step h) = Inr (ids, ps)"
    and d: "dc_dir db = None"
    by (auto simp: check_database_def Let_def ok_iff split: if_splits prod.splits)
  then obtain es where es: "mapE (no_database_key r) CSR_DB_KEYS = Inr es"
    and c: "\<not> sh_committed h \<and> (sh_phase h = PhPlanned \<longrightarrow> sh_step h \<in> set early_sensitive_steps)"
    by (auto simp: check_no_database_def ok_iff)
  have "\<forall>s \<in> set CSR_DB_SUFFIXES. val r (db_field k s) = ''none''" if "k \<in> set CSR_DB_KEYS" for k
  proof -
    from mapE_in [OF es that] obtain y where "no_database_key r k = Inr y" by blast
    then show ?thesis by (auto simp: no_database_key_def ok_iff)
  qed
  with c d show ?thesis by blast
qed

section \<open>The whole journal\<close>

lemma signing_journal_of_ok:
  "signing_journal_of cwd r root e = Inr j \<longleftrightarrow>
     (\<exists>h created paths ids removed arts db n.
        valid_header r h \<and> check_signing_digests r (sh_kind h) = Inr created \<and>
        check_signing_paths r root (sh_request_id h) (sh_nonce h) = Inr paths \<and>
        signing_identities r = Inr ids \<and>
        check_sensitive_key r (sh_phase h) (sh_committed h) (sh_step h) = Inr removed \<and>
        check_artifact_evidence r = Inr arts \<and> check_database cwd r root e h = Inr db \<and>
        validate_signing_checkpoint_evidence r (sh_phase h) (sh_committed h) (sh_step h) removed = Inr () \<and>
        int_of_digits created = Inr n \<and>
        j = \<lparr>sj_record = r, sj_pki_dir = root, sj_operation_kind = sh_kind h,
          sj_phase = sh_phase h, sj_recovery_step = sh_step h, sj_committed = sh_committed h,
          sj_sensitive_key_removed = removed, sj_created_epoch = n,
          sj_issued_serial = dc_serial db, sj_intermediate_dir = dc_dir db,
          sj_identities = sorted_items (dict_of (ids @ arts @ dc_identities db)),
          sj_paths = sorted_items (dict_of (paths @ dc_paths db))\<rparr>)"
  unfolding signing_journal_of_def by (auto simp: bindE_ok parse_signing_header_ok)

lemma canonical_pki_dir_ok [ok_iff]:
  "canonical_pki_dir v = Inr w \<longleftrightarrow> w = v \<and> canonical_abs v \<and> char_of (0 :: nat) \<notin> set v"
  by (auto simp: canonical_pki_dir_def canonical_abs_def isabs_def starts_with_def)

lemma parse_signing_journal_ok:
  "parse_signing_journal cwd data root active = Inr j \<longleftrightarrow>
     parse_signing_journal_structure data = Inr (sj_record j) \<and>
     (\<forall>d \<in> insert root (set_option active). canonical_abs d \<and> char_of (0 :: nat) \<notin> set d) \<and>
     signing_journal_of cwd (sj_record j) root active = Inr j"
proof -
  have rec: "signing_journal_of cwd r root e = Inr j \<Longrightarrow> sj_record j = r" for r e
    by (auto simp: signing_journal_of_ok)
  show ?thesis
    unfolding parse_signing_journal_def
    by (cases active) (auto simp: ok_iff dest: rec)
qed

end
