(* ===== verification/JournalPaths.thy ===== *)
theory JournalPaths
  imports SigningContracts
begin

text \<open>
  Every path an accepted signing journal names lies below the PKI directory, and the CA database
  directory is a direct child of \<open>authorities/intermediates\<close>.
\<close>

section \<open>Below a directory\<close>

definition below :: "string \<Rightarrow> string \<Rightarrow> bool" where
  "below root p \<longleftrightarrow> canonical_abs p \<and>
     (\<exists>rest. rest \<noteq> [] \<and> nonempty_parts p = nonempty_parts root @ rest)"

lemma below_path_join:
  "canonical_abs root \<Longrightarrow> list_all plain_comp cs \<Longrightarrow> cs \<noteq> [] \<Longrightarrow> below root (path_join root cs)"
  by (simp add: below_def path_join_canonical)

lemma below_join: "below root a \<Longrightarrow> list_all plain_comp cs \<Longrightarrow> below root (path_join a cs)"
  by (auto simp: below_def path_join_canonical)

text \<open>A text with slashes inside joins like its components one after the other.\<close>

lemma join2_slash:
  assumes "b = x # xs" and "x \<noteq> SEP" and "b = ds @ [d]" and "d \<noteq> SEP" and "c = y # ys" and "y \<noteq> SEP"
  shows "join2 a (b @ [SEP] @ c) = join2 (join2 a b) c"
proof -
  have no: "\<not> starts_with [SEP] (b @ [SEP] @ c)" "\<not> starts_with [SEP] b" "\<not> starts_with [SEP] c"
    using assms(1,2,5,6) by (auto simp: starts_with_def)
  have "\<exists>u. join2 a b = u @ b"
    unfolding join2_def using no(2) by (metis append_Nil append_assoc)
  then obtain u where "join2 a b = (u @ ds) @ [d]" unfolding assms(3) by auto
  then have e: "join2 a b \<noteq> []" "\<not> ends_with [SEP] (join2 a b)"
    using assms(4) ends_with_snoc [of SEP "u @ ds" d] by simp_all
  have "join2 (join2 a b) c = join2 a b @ [SEP] @ c"
    using e no by (simp only: join2_def [of "join2 a b" c] if_False simp_thms)
  also have "\<dots> = join2 a (b @ [SEP] @ c)" using no by (simp add: join2_def)
  finally show ?thesis by simp
qed

lemma plain_ends:
  assumes "plain_comp b"
  obtains x xs ds d where "b = x # xs" and "x \<noteq> SEP" and "b = ds @ [d]" and "d \<noteq> SEP"
proof -
  from assms obtain x xs where "b = x # xs" "x \<noteq> SEP" by (cases b) (auto simp: plain_comp_def)
  moreover from this obtain ds d where d: "b = ds @ [d]" by (metis list.discI rev_exhaust)
  moreover have "d \<noteq> SEP" using assms d by (auto simp: plain_comp_def)
  ultimately show thesis using that by blast
qed

lemma join2_two:
  assumes "plain_comp b" and "plain_comp c"
  shows "join2 a (b @ [SEP] @ c) = join2 (join2 a b) c"
  using assms by (elim plain_ends) (rule join2_slash)

lemma join2_comps:
  assumes "list_all plain_comp cs" and "cs \<noteq> []"
  shows "join2 a (join_on [SEP] cs) = path_join a cs"
  using assms
proof (induction cs arbitrary: a)
  case (Cons c cs)
  show ?case
  proof (cases "cs = []")
    case False
    then obtain b bs where cs: "cs = b # bs" by (cases cs) auto
    have "plain_comp c" "plain_comp b" using Cons.prems cs by auto
    then obtain x xs ds d y ys where e: "c = x # xs" "x \<noteq> SEP" "c = ds @ [d]" "d \<noteq> SEP" "b = y # ys" "y \<noteq> SEP"
      by (elim plain_ends)
    have "join_on [SEP] (c # cs) = c @ [SEP] @ join_on [SEP] cs" by (simp add: cs)
    moreover have "\<exists>zs. join_on [SEP] cs = y # zs" using e(5) by (cases bs) (simp_all add: cs)
    then obtain zs where "join_on [SEP] cs = y # zs" by blast
    ultimately have "join2 a (join_on [SEP] (c # cs)) = join2 (join2 a c) (join_on [SEP] cs)"
      using join2_slash [OF e(1-4) _ e(6)] by simp
    then show ?thesis using Cons.IH Cons.prems False by simp
  qed simp
qed simp

lemma below_join_two:
  assumes "below root a" and "plain_comp b" and "plain_comp c"
  shows "below root (path_join a [b @ [SEP] @ c])"
  using below_join [OF assms(1), of "[b, c]"] assms by (simp add: join2_two del: append_Cons)

section \<open>Plain components\<close>

lemma plain_service: "fullmatch SERVICE_RX s \<Longrightarrow> plain_comp s"
  unfolding SERVICE_iff plain_comp_def by (elim exE conjE)
    (auto simp: char_class_defs dest: bspec [where x = SEP])

lemma plain_hex: "0 < length s \<Longrightarrow> \<forall>c \<in> set s. is_hex c \<Longrightarrow> plain_comp s"
  by (cases s) (auto simp: plain_comp_def char_class_defs)

lemma plain_request_id: "fullmatch HEX32_RX s \<Longrightarrow> plain_comp s \<and> plain_comp (''csr-'' @ s)"
  using plain_hex [of s] by (auto simp: HEX32_iff plain_comp_def)

lemma plain_digest: "is_digest s \<Longrightarrow> plain_comp s"
  using plain_hex [of s] by (auto simp: is_digest_def)

lemma plain_serial_pem: "fullmatch SERIAL_RX s \<Longrightarrow> plain_comp (s @ ''.pem'')"
  by (cases s) (auto simp: SERIAL_iff plain_comp_def is_upper_hex_def char_class_defs)

lemmas plain_literal = plain_comp_def

section \<open>The paths of a signing journal\<close>

lemma below_transaction:
  assumes "canonical_abs root" and "plain_comp t"
  shows "below root (transaction_dir root t)" "below root (signing_dir (transaction_dir root t))"
proof -
  show t: "below root (transaction_dir root t)"
    unfolding transaction_dir_def using assms
    by (intro below_path_join) (simp_all add: plain_literal)
  show "below root (signing_dir (transaction_dir root t))"
    unfolding signing_dir_def by (rule below_join [OF t]) (simp add: plain_literal)
qed

lemma expected_paths_below:
  assumes "canonical_abs root" and "plain_comp t" and "plain_comp service" and "plain_comp i"
    and "plain_comp n"
  shows "list_all (\<lambda>fp. below root (snd fp))
    (expected_paths root (transaction_dir root t) service i n)"
proof -
  note t = below_transaction [OF assms(1,2)]
  have j: "list_all plain_comp (c # cs) \<Longrightarrow> below root (path_join root (c # cs))" for c cs
    by (rule below_path_join [OF assms(1)]) simp_all
  have lit: "list_all plain_comp [''responses.allowed_signers'']"
      "list_all plain_comp [''private'', ''intermediate-ca.key'']"
      "list_all plain_comp [''candidate.publish'']" "list_all plain_comp [''response.publish'']"
      "list_all plain_comp [''state'', ''csr'', ''candidates'', service, i]"
      "list_all plain_comp [''state'', ''csr'', ''responses'', service, i]"
      "list_all plain_comp [''state'', ''csr'', ''replay'', ''requests'', i]"
      "list_all plain_comp [''state'', ''csr'', ''replay'', ''nonces'', n]"
    using assms(3-5) by (simp_all add: plain_literal)
  show ?thesis
    unfolding expected_paths_def list.pred_inject snd_conv
    by (simp only: t j [OF lit(5)] j [OF lit(6)] j [OF lit(7)] j [OF lit(8)] below_join [OF t(1) lit(1)]
        below_join [OF t(2) lit(2)] below_join [OF t(1) lit(3)] below_join [OF t(1) lit(4)] simp_thms
        list.pred_inject)
qed

lemma artifact_paths_below:
  assumes "below root d"
  shows "list_all (\<lambda>fp. below root (snd fp)) (artifact_paths d)"
proof -
  have lit: "list_all plain_comp [''tls.crt'']" "list_all plain_comp [''ca-chain.crt'']"
      "list_all plain_comp [''fullchain.crt'']" "list_all plain_comp [''response'']"
      "list_all plain_comp [''response.sig'']"
    by (simp_all add: plain_literal)
  show ?thesis
    unfolding artifact_paths_def list.pred_inject snd_conv
    by (simp only: lit [THEN below_join [OF assms]] simp_thms list.pred_inject)
qed

lemma check_signing_paths_below:
  assumes "valid_header r h" and "canonical_abs root"
    and "check_signing_paths r root (sh_request_id h) (sh_nonce h) = Inr paths"
    and "(f, Some p) \<in> set paths"
  shows "below root p"
proof -
  have h: "plain_comp (val r ''transaction'')" "plain_comp (val r ''service'')"
      "plain_comp (sh_request_id h)" "plain_comp (sh_nonce h)"
    using assms(1) plain_service plain_digest plain_request_id [of "sh_request_id h"]
    by (auto simp: valid_header_def)
  note e = expected_paths_below [OF assms(2) h]
  note a = artifact_paths_below [OF below_transaction(2) [OF assms(2) h(1)]]
  from assms(3) obtain xs ys where paths: "paths = xs @ ys"
    and xs: "mapE (\<lambda>(f, expected). bindE (expect_path (val r f) expected f) (\<lambda>p. Inr (f, Some p)))
      (expected_paths root (transaction_dir root (val r ''transaction'')) (val r ''service'')
        (sh_request_id h) (sh_nonce h)) = Inr xs"
    and ys: "mapE (\<lambda>(f, expected). bindE (optional_exact_path (val r f) expected f) (\<lambda>p. Inr (f, p)))
      (artifact_paths (signing_dir (transaction_dir root (val r ''transaction'')))) = Inr ys"
    by (auto simp: check_signing_paths_def Let_def ok_iff)
  from assms(4) consider "(f, Some p) \<in> set xs" | "(f, Some p) \<in> set ys" by (auto simp: paths)
  then show ?thesis
  proof cases
    case 1
    from mapE_from [OF xs 1] e show ?thesis by (auto simp: ok_iff list_all_iff)
  next
    case 2
    from mapE_from [OF ys 2] a show ?thesis by (auto simp: ok_iff list_all_iff)
  qed
qed

section \<open>The CA database\<close>

lemma journal_intermediate_dir_child:
  assumes "journal_intermediate_dir cwd r root e = Inr dir" and "canonical_abs root"
  shows "canonical_abs dir \<and> (\<exists>name. plain_comp name \<and>
    nonempty_parts dir = nonempty_parts root @ [''authorities'', ''intermediates'', name])"
proof -
  have parent: "canonical_abs (intermediate_parent root)"
      "nonempty_parts (intermediate_parent root) = nonempty_parts root @ [''authorities'', ''intermediates'']"
    unfolding intermediate_parent_def
    using path_join_canonical [OF assms(2), of "[''authorities'', ''intermediates'']"]
    by (simp_all add: plain_literal)
  from assms(1) obtain rel where rel: "relpath cwd dir (intermediate_parent root) = Inr rel"
    and c: "canonical_abs dir" and r: "rel \<noteq> ''.''" "rel \<noteq> ''..''" "SEP \<notin> set rel"
    by (auto simp: journal_intermediate_dir_def Let_def ok_iff canonical_abs_def)
  from relpath_child [OF c parent(1) rel r] parent(2) c show ?thesis by auto
qed

lemma issued_serial_ok:
  "issued_serial r = Inr s \<Longrightarrow> valid_serial s"
  by (auto simp: issued_serial_def ok_iff valid_serial_def)

lemma db_paths_below:
  assumes "below root d" and "valid_serial s" and "(key, template) \<in> set CSR_DB_PATHS"
  shows "below root (path_join d [template s])"
proof -
  have lit: "plain_comp ''index.txt''" "plain_comp ''index.txt.attr''" "plain_comp ''serial''"
      "plain_comp ''index.txt.old''" "plain_comp ''index.txt.attr.old''" "plain_comp ''serial.old''"
      "plain_comp ''newcerts''"
    by (simp_all add: plain_literal)
  have "fullmatch SERIAL_RX s" using assms(2) by (simp add: valid_serial_def)
  from below_join_two [OF assms(1) lit(7) plain_serial_pem [OF this]]
  have "below root (path_join d [''newcerts/'' @ s @ ''.pem''])" by simp
  moreover have "below root (path_join d [c])" if "plain_comp c" for c
    using below_join [OF assms(1), of "[c]"] that by simp
  note this [OF lit(1)] this [OF lit(2)] this [OF lit(3)] this [OF lit(4)] this [OF lit(5)]
    this [OF lit(6)]
  ultimately show ?thesis using assms(3)
    unfolding CSR_DB_PATHS_def list.set by (elim insertE emptyE) (simp_all del: path_join_Cons)
qed

lemma database_key_below:
  assumes "database_key r (transaction_dir root t) d s entry = Inr (ids, paths)"
    and "entry \<in> set CSR_DB_PATHS" and "canonical_abs root" and "plain_comp t" and "below root d"
    and "valid_serial s" and "(f, Some p) \<in> set paths"
  shows "below root p"
proof -
  obtain key template where entry: "entry = (key, template)" by (cases entry)
  note t = below_transaction [OF assms(3,4)]
  note db = db_paths_below [OF _ assms(6), of root _ key template]
  have k: "plain_comp key" using assms(2) by (auto simp: entry CSR_DB_PATHS_def plain_literal)
  have b: "below root (path_join (transaction_dir root t) [''ca-backup'', key])"
    using k by (intro below_join [OF t(1)]) (simp add: plain_literal)
  from assms(1) have "mapE (\<lambda>(field, expected).
      bindE (expect_path (val r field) expected field) (\<lambda>p. Inr (field, Some p)))
      [(db_field key ''path'', path_join d [template s]),
       (db_field key ''source'', path_join (signing_dir (transaction_dir root t)) [template s]),
       (db_field key ''backup'', path_join (transaction_dir root t) [''ca-backup'', key])] = Inr paths"
    unfolding database_key_def entry Let_def prod.case bindE_ok by auto
  from mapE_from [OF this assms(7)] obtain e where e: "e \<in> {(path_join d [template s]),
      path_join (signing_dir (transaction_dir root t)) [template s],
      path_join (transaction_dir root t) [''ca-backup'', key]}" "p = e"
    by (auto simp: ok_iff)
  with db [OF assms(5)] db [OF t(2)] b assms(2) show ?thesis by (auto simp: entry)
qed

end
