(* ===== verification/SigningSamples.thy ===== *)
theory SigningSamples
  imports JournalPaths CsrProperties
begin

text \<open>
  Three CSR signing journals on which the properties of the parser are instantiated: one at the
  first step, one of a completed transaction, and one whose database path has no directory.
\<close>

section \<open>The records\<close>

definition sample_id :: string where "sample_id = hex_text 32 (CHR ''a'')"
definition sample_hex :: string where "sample_hex = hex_text 64 (CHR ''b'')"
definition sample_tdir :: string where "sample_tdir = transaction_dir ''/p'' (''csr-'' @ sample_id)"
definition sample_ca_dir :: string where
  "sample_ca_dir = path_join ''/p'' [''authorities'', ''intermediates'', ''ca1'']"

definition sample_file :: file_identity where
  "sample_file = \<lparr>fi_dev = 2049, fi_ino = 131, fi_uid = 0, fi_permissions = 384, fi_links = 1,
     fi_size = 0, fi_mtime_ns = 86399123456789, fi_ctime_ns = 86399123456789, fi_kind = Regular\<rparr>"

definition sample_file_text :: string where
  "sample_file_text = ''2049:131:0:600:1:0:1970-01-01 22:29:59.123456789 -0130:1970-01-01 22:29:59.123456789 -0130:regular empty file''"
definition sample_object_text :: string where
  "sample_object_text = ''2049:131:0:600:1:0:regular empty file''"
definition sample_directory_text :: string where
  "sample_directory_text = ''2049:77:0:700:directory''"

definition sample_planned :: csr_journal_record where
  "sample_planned = \<lparr>jr_pairs = [
     (''schema'', ''1''),
     (''operation'', ''csr-sign''),
     (''transaction'', ''csr-'' @ sample_id),
     (''phase'', ''planned''),
     (''committed'', ''false''),
     (''recovery_step'', ''planned''),
     (''request_id'', sample_id),
     (''nonce'', sample_hex),
     (''operation_kind'', ''issue''),
     (''service'', ''web''),
     (''target'', ''host''),
     (''requester_principal'', ''host''),
     (''approver_principal'', ''ca''),
     (''response_principal'', ''ca''),
     (''request_sha256'', sample_hex),
     (''approval_sha256'', sample_hex),
     (''inventory_sha256'', sample_hex),
     (''csr_sha256'', sample_hex),
     (''csr_spki_sha256'', sample_hex),
     (''current_cert_sha256'', ''none''),
     (''created_epoch'', ''1000''),
     (''transaction_dir'', sample_tdir),
     (''transaction_identity'', ''none''),
     (''response_trust_path'', path_join sample_tdir [''responses.allowed_signers'']),
     (''response_trust_identity'', ''none''),
     (''response_trust_sha256'', ''none''),
     (''sensitive_key_path'', path_join (signing_dir sample_tdir) [''private'', ''intermediate-ca.key'']),
     (''sensitive_key_identity'', ''none''),
     (''sensitive_key_removed'', ''none''),
     (''certificate_path'', ''none''),
     (''certificate_identity'', ''none''),
     (''certificate_sha256'', ''none''),
     (''chain_path'', ''none''),
     (''chain_identity'', ''none''),
     (''chain_sha256'', ''none''),
     (''fullchain_path'', ''none''),
     (''fullchain_identity'', ''none''),
     (''fullchain_sha256'', ''none''),
     (''response_manifest_path'', ''none''),
     (''response_manifest_identity'', ''none''),
     (''response_manifest_sha256'', ''none''),
     (''response_signature_path'', ''none''),
     (''response_signature_identity'', ''none''),
     (''response_signature_sha256'', ''none''),
     (''candidate_stage'', path_join sample_tdir [''candidate.publish'']),
     (''candidate_stage_identity'', ''none''),
     (''candidate_destination'', path_join ''/p'' [''state'', ''csr'', ''candidates'', ''web'', sample_id]),
     (''candidate_destination_identity'', ''none''),
     (''response_stage'', path_join sample_tdir [''response.publish'']),
     (''response_stage_identity'', ''none''),
     (''response_destination'', path_join ''/p'' [''state'', ''csr'', ''responses'', ''web'', sample_id]),
     (''response_destination_identity'', ''none''),
     (''replay_request_path'', path_join ''/p'' [''state'', ''csr'', ''replay'', ''requests'', sample_id]),
     (''replay_request_identity'', ''none''),
     (''replay_request_sha256'', ''none''),
     (''replay_nonce_path'', path_join ''/p'' [''state'', ''csr'', ''replay'', ''nonces'', sample_hex]),
     (''replay_nonce_identity'', ''none''),
     (''replay_nonce_sha256'', ''none''),
     (''db_index_path'', ''none''),
     (''db_index_pre_identity'', ''none''),
     (''db_index_source'', ''none''),
     (''db_index_source_identity'', ''none''),
     (''db_index_source_object'', ''none''),
     (''db_index_post_identity'', ''none''),
     (''db_index_backup'', ''none''),
     (''db_index_backup_identity'', ''none''),
     (''db_index_attr_path'', ''none''),
     (''db_index_attr_pre_identity'', ''none''),
     (''db_index_attr_source'', ''none''),
     (''db_index_attr_source_identity'', ''none''),
     (''db_index_attr_source_object'', ''none''),
     (''db_index_attr_post_identity'', ''none''),
     (''db_index_attr_backup'', ''none''),
     (''db_index_attr_backup_identity'', ''none''),
     (''db_serial_path'', ''none''),
     (''db_serial_pre_identity'', ''none''),
     (''db_serial_source'', ''none''),
     (''db_serial_source_identity'', ''none''),
     (''db_serial_source_object'', ''none''),
     (''db_serial_post_identity'', ''none''),
     (''db_serial_backup'', ''none''),
     (''db_serial_backup_identity'', ''none''),
     (''db_index_old_path'', ''none''),
     (''db_index_old_pre_identity'', ''none''),
     (''db_index_old_source'', ''none''),
     (''db_index_old_source_identity'', ''none''),
     (''db_index_old_source_object'', ''none''),
     (''db_index_old_post_identity'', ''none''),
     (''db_index_old_backup'', ''none''),
     (''db_index_old_backup_identity'', ''none''),
     (''db_index_attr_old_path'', ''none''),
     (''db_index_attr_old_pre_identity'', ''none''),
     (''db_index_attr_old_source'', ''none''),
     (''db_index_attr_old_source_identity'', ''none''),
     (''db_index_attr_old_source_object'', ''none''),
     (''db_index_attr_old_post_identity'', ''none''),
     (''db_index_attr_old_backup'', ''none''),
     (''db_index_attr_old_backup_identity'', ''none''),
     (''db_serial_old_path'', ''none''),
     (''db_serial_old_pre_identity'', ''none''),
     (''db_serial_old_source'', ''none''),
     (''db_serial_old_source_identity'', ''none''),
     (''db_serial_old_source_object'', ''none''),
     (''db_serial_old_post_identity'', ''none''),
     (''db_serial_old_backup'', ''none''),
     (''db_serial_old_backup_identity'', ''none''),
     (''db_newcert_path'', ''none''),
     (''db_newcert_pre_identity'', ''none''),
     (''db_newcert_source'', ''none''),
     (''db_newcert_source_identity'', ''none''),
     (''db_newcert_source_object'', ''none''),
     (''db_newcert_post_identity'', ''none''),
     (''db_newcert_backup'', ''none''),
     (''db_newcert_backup_identity'', ''none'')], jr_final_newline = True\<rparr>"

definition sample_no_dir :: csr_journal_record where
  "sample_no_dir = \<lparr>jr_pairs = [
     (''schema'', ''1''),
     (''operation'', ''csr-sign''),
     (''transaction'', ''csr-'' @ sample_id),
     (''phase'', ''planned''),
     (''committed'', ''false''),
     (''recovery_step'', ''planned''),
     (''request_id'', sample_id),
     (''nonce'', sample_hex),
     (''operation_kind'', ''issue''),
     (''service'', ''web''),
     (''target'', ''host''),
     (''requester_principal'', ''host''),
     (''approver_principal'', ''ca''),
     (''response_principal'', ''ca''),
     (''request_sha256'', sample_hex),
     (''approval_sha256'', sample_hex),
     (''inventory_sha256'', sample_hex),
     (''csr_sha256'', sample_hex),
     (''csr_spki_sha256'', sample_hex),
     (''current_cert_sha256'', ''none''),
     (''created_epoch'', ''1000''),
     (''transaction_dir'', sample_tdir),
     (''transaction_identity'', ''none''),
     (''response_trust_path'', path_join sample_tdir [''responses.allowed_signers'']),
     (''response_trust_identity'', ''none''),
     (''response_trust_sha256'', ''none''),
     (''sensitive_key_path'', path_join (signing_dir sample_tdir) [''private'', ''intermediate-ca.key'']),
     (''sensitive_key_identity'', ''none''),
     (''sensitive_key_removed'', ''none''),
     (''certificate_path'', ''none''),
     (''certificate_identity'', ''none''),
     (''certificate_sha256'', ''none''),
     (''chain_path'', ''none''),
     (''chain_identity'', ''none''),
     (''chain_sha256'', ''none''),
     (''fullchain_path'', ''none''),
     (''fullchain_identity'', ''none''),
     (''fullchain_sha256'', ''none''),
     (''response_manifest_path'', ''none''),
     (''response_manifest_identity'', ''none''),
     (''response_manifest_sha256'', ''none''),
     (''response_signature_path'', ''none''),
     (''response_signature_identity'', ''none''),
     (''response_signature_sha256'', ''none''),
     (''candidate_stage'', path_join sample_tdir [''candidate.publish'']),
     (''candidate_stage_identity'', ''none''),
     (''candidate_destination'', path_join ''/p'' [''state'', ''csr'', ''candidates'', ''web'', sample_id]),
     (''candidate_destination_identity'', ''none''),
     (''response_stage'', path_join sample_tdir [''response.publish'']),
     (''response_stage_identity'', ''none''),
     (''response_destination'', path_join ''/p'' [''state'', ''csr'', ''responses'', ''web'', sample_id]),
     (''response_destination_identity'', ''none''),
     (''replay_request_path'', path_join ''/p'' [''state'', ''csr'', ''replay'', ''requests'', sample_id]),
     (''replay_request_identity'', ''none''),
     (''replay_request_sha256'', ''none''),
     (''replay_nonce_path'', path_join ''/p'' [''state'', ''csr'', ''replay'', ''nonces'', sample_hex]),
     (''replay_nonce_identity'', ''none''),
     (''replay_nonce_sha256'', ''none''),
     (''db_index_path'', ''''),
     (''db_index_pre_identity'', ''none''),
     (''db_index_source'', ''none''),
     (''db_index_source_identity'', ''none''),
     (''db_index_source_object'', ''none''),
     (''db_index_post_identity'', ''none''),
     (''db_index_backup'', ''none''),
     (''db_index_backup_identity'', ''none''),
     (''db_index_attr_path'', ''none''),
     (''db_index_attr_pre_identity'', ''none''),
     (''db_index_attr_source'', ''none''),
     (''db_index_attr_source_identity'', ''none''),
     (''db_index_attr_source_object'', ''none''),
     (''db_index_attr_post_identity'', ''none''),
     (''db_index_attr_backup'', ''none''),
     (''db_index_attr_backup_identity'', ''none''),
     (''db_serial_path'', ''none''),
     (''db_serial_pre_identity'', ''none''),
     (''db_serial_source'', ''none''),
     (''db_serial_source_identity'', ''none''),
     (''db_serial_source_object'', ''none''),
     (''db_serial_post_identity'', ''none''),
     (''db_serial_backup'', ''none''),
     (''db_serial_backup_identity'', ''none''),
     (''db_index_old_path'', ''none''),
     (''db_index_old_pre_identity'', ''none''),
     (''db_index_old_source'', ''none''),
     (''db_index_old_source_identity'', ''none''),
     (''db_index_old_source_object'', ''none''),
     (''db_index_old_post_identity'', ''none''),
     (''db_index_old_backup'', ''none''),
     (''db_index_old_backup_identity'', ''none''),
     (''db_index_attr_old_path'', ''none''),
     (''db_index_attr_old_pre_identity'', ''none''),
     (''db_index_attr_old_source'', ''none''),
     (''db_index_attr_old_source_identity'', ''none''),
     (''db_index_attr_old_source_object'', ''none''),
     (''db_index_attr_old_post_identity'', ''none''),
     (''db_index_attr_old_backup'', ''none''),
     (''db_index_attr_old_backup_identity'', ''none''),
     (''db_serial_old_path'', ''none''),
     (''db_serial_old_pre_identity'', ''none''),
     (''db_serial_old_source'', ''none''),
     (''db_serial_old_source_identity'', ''none''),
     (''db_serial_old_source_object'', ''none''),
     (''db_serial_old_post_identity'', ''none''),
     (''db_serial_old_backup'', ''none''),
     (''db_serial_old_backup_identity'', ''none''),
     (''db_newcert_path'', ''01.pem''),
     (''db_newcert_pre_identity'', ''none''),
     (''db_newcert_source'', ''none''),
     (''db_newcert_source_identity'', ''none''),
     (''db_newcert_source_object'', ''none''),
     (''db_newcert_post_identity'', ''none''),
     (''db_newcert_backup'', ''none''),
     (''db_newcert_backup_identity'', ''none'')], jr_final_newline = True\<rparr>"

definition sample_published :: csr_journal_record where
  "sample_published = \<lparr>jr_pairs = [
     (''schema'', ''1''),
     (''operation'', ''csr-sign''),
     (''transaction'', ''csr-'' @ sample_id),
     (''phase'', ''terminal''),
     (''committed'', ''true''),
     (''recovery_step'', ''journal-cleanup-pending''),
     (''request_id'', sample_id),
     (''nonce'', sample_hex),
     (''operation_kind'', ''issue''),
     (''service'', ''web''),
     (''target'', ''host''),
     (''requester_principal'', ''host''),
     (''approver_principal'', ''ca''),
     (''response_principal'', ''ca''),
     (''request_sha256'', sample_hex),
     (''approval_sha256'', sample_hex),
     (''inventory_sha256'', sample_hex),
     (''csr_sha256'', sample_hex),
     (''csr_spki_sha256'', sample_hex),
     (''current_cert_sha256'', ''none''),
     (''created_epoch'', ''1000''),
     (''transaction_dir'', sample_tdir),
     (''transaction_identity'', sample_directory_text),
     (''response_trust_path'', path_join sample_tdir [''responses.allowed_signers'']),
     (''response_trust_identity'', sample_file_text),
     (''response_trust_sha256'', sample_hex),
     (''sensitive_key_path'', path_join (signing_dir sample_tdir) [''private'', ''intermediate-ca.key'']),
     (''sensitive_key_identity'', sample_file_text),
     (''sensitive_key_removed'', ''true''),
     (''certificate_path'', path_join (signing_dir sample_tdir) [''tls.crt'']),
     (''certificate_identity'', sample_file_text),
     (''certificate_sha256'', sample_hex),
     (''chain_path'', path_join (signing_dir sample_tdir) [''ca-chain.crt'']),
     (''chain_identity'', sample_file_text),
     (''chain_sha256'', sample_hex),
     (''fullchain_path'', path_join (signing_dir sample_tdir) [''fullchain.crt'']),
     (''fullchain_identity'', sample_file_text),
     (''fullchain_sha256'', sample_hex),
     (''response_manifest_path'', path_join (signing_dir sample_tdir) [''response'']),
     (''response_manifest_identity'', sample_file_text),
     (''response_manifest_sha256'', sample_hex),
     (''response_signature_path'', path_join (signing_dir sample_tdir) [''response.sig'']),
     (''response_signature_identity'', sample_file_text),
     (''response_signature_sha256'', sample_hex),
     (''candidate_stage'', path_join sample_tdir [''candidate.publish'']),
     (''candidate_stage_identity'', sample_directory_text),
     (''candidate_destination'', path_join ''/p'' [''state'', ''csr'', ''candidates'', ''web'', sample_id]),
     (''candidate_destination_identity'', sample_directory_text),
     (''response_stage'', path_join sample_tdir [''response.publish'']),
     (''response_stage_identity'', sample_directory_text),
     (''response_destination'', path_join ''/p'' [''state'', ''csr'', ''responses'', ''web'', sample_id]),
     (''response_destination_identity'', sample_directory_text),
     (''replay_request_path'', path_join ''/p'' [''state'', ''csr'', ''replay'', ''requests'', sample_id]),
     (''replay_request_identity'', sample_file_text),
     (''replay_request_sha256'', sample_hex),
     (''replay_nonce_path'', path_join ''/p'' [''state'', ''csr'', ''replay'', ''nonces'', sample_hex]),
     (''replay_nonce_identity'', sample_file_text),
     (''replay_nonce_sha256'', sample_hex),
     (''db_index_path'', path_join sample_ca_dir [''index.txt'']),
     (''db_index_pre_identity'', ''absent''),
     (''db_index_source'', path_join (signing_dir sample_tdir) [''index.txt'']),
     (''db_index_source_identity'', sample_file_text),
     (''db_index_source_object'', sample_object_text),
     (''db_index_post_identity'', sample_file_text),
     (''db_index_backup'', path_join sample_tdir [''ca-backup'', ''index'']),
     (''db_index_backup_identity'', ''none''),
     (''db_index_attr_path'', path_join sample_ca_dir [''index.txt.attr'']),
     (''db_index_attr_pre_identity'', ''absent''),
     (''db_index_attr_source'', path_join (signing_dir sample_tdir) [''index.txt.attr'']),
     (''db_index_attr_source_identity'', sample_file_text),
     (''db_index_attr_source_object'', sample_object_text),
     (''db_index_attr_post_identity'', sample_file_text),
     (''db_index_attr_backup'', path_join sample_tdir [''ca-backup'', ''index_attr'']),
     (''db_index_attr_backup_identity'', ''none''),
     (''db_serial_path'', path_join sample_ca_dir [''serial'']),
     (''db_serial_pre_identity'', ''absent''),
     (''db_serial_source'', path_join (signing_dir sample_tdir) [''serial'']),
     (''db_serial_source_identity'', sample_file_text),
     (''db_serial_source_object'', sample_object_text),
     (''db_serial_post_identity'', sample_file_text),
     (''db_serial_backup'', path_join sample_tdir [''ca-backup'', ''serial'']),
     (''db_serial_backup_identity'', ''none''),
     (''db_index_old_path'', path_join sample_ca_dir [''index.txt.old'']),
     (''db_index_old_pre_identity'', ''absent''),
     (''db_index_old_source'', path_join (signing_dir sample_tdir) [''index.txt.old'']),
     (''db_index_old_source_identity'', sample_file_text),
     (''db_index_old_source_object'', sample_object_text),
     (''db_index_old_post_identity'', sample_file_text),
     (''db_index_old_backup'', path_join sample_tdir [''ca-backup'', ''index_old'']),
     (''db_index_old_backup_identity'', ''none''),
     (''db_index_attr_old_path'', path_join sample_ca_dir [''index.txt.attr.old'']),
     (''db_index_attr_old_pre_identity'', ''absent''),
     (''db_index_attr_old_source'', path_join (signing_dir sample_tdir) [''index.txt.attr.old'']),
     (''db_index_attr_old_source_identity'', sample_file_text),
     (''db_index_attr_old_source_object'', sample_object_text),
     (''db_index_attr_old_post_identity'', sample_file_text),
     (''db_index_attr_old_backup'', path_join sample_tdir [''ca-backup'', ''index_attr_old'']),
     (''db_index_attr_old_backup_identity'', ''none''),
     (''db_serial_old_path'', path_join sample_ca_dir [''serial.old'']),
     (''db_serial_old_pre_identity'', ''absent''),
     (''db_serial_old_source'', path_join (signing_dir sample_tdir) [''serial.old'']),
     (''db_serial_old_source_identity'', sample_file_text),
     (''db_serial_old_source_object'', sample_object_text),
     (''db_serial_old_post_identity'', sample_file_text),
     (''db_serial_old_backup'', path_join sample_tdir [''ca-backup'', ''serial_old'']),
     (''db_serial_old_backup_identity'', ''none''),
     (''db_newcert_path'', path_join sample_ca_dir [(''newcerts/'' @ ''01'' @ ''.pem'')]),
     (''db_newcert_pre_identity'', ''absent''),
     (''db_newcert_source'', path_join (signing_dir sample_tdir) [(''newcerts/'' @ ''01'' @ ''.pem'')]),
     (''db_newcert_source_identity'', sample_file_text),
     (''db_newcert_source_object'', sample_object_text),
     (''db_newcert_post_identity'', sample_file_text),
     (''db_newcert_backup'', path_join sample_tdir [''ca-backup'', ''newcert'']),
     (''db_newcert_backup_identity'', ''none'')], jr_final_newline = True\<rparr>"

section \<open>Their identities\<close>

lemma sample_file_serializes:
  "serialize_file_identity lo sample_file (Some (-90)) = Inr sample_file_text"
  by (simp add: serialize_file_identity_def sample_file_def fi_state_def sample_file_text_def
      format_gnu_stat_timestamp_def Let_def) code_simp

lemma sample_object_serializes:
  "serialize_file_object_state (fi_state sample_file) = Inr sample_object_text"
  by code_simp

lemma sample_directory_serializes:
  "serialize_directory_identity \<lparr>di_dev = 2049, di_ino = 77, di_uid = 0, di_permissions = 448\<rparr> =
     Inr sample_directory_text"
  by code_simp

lemma sample_texts_present [simp]:
  "sample_file_text \<noteq> ''none''" "sample_object_text \<noteq> ''none''" "sample_directory_text \<noteq> ''none''"
  "sample_file_text \<noteq> ''absent''" "sample_object_text \<noteq> ''absent''" "sample_directory_text \<noteq> ''absent''"
  by (simp_all add: sample_file_text_def sample_object_text_def sample_directory_text_def)

lemma sample_file_identity [simp]:
  "parse_identity sample_file_text f KFile S = Inr (PFile sample_file)"
  unfolding parse_identity_ok identity_of_kind_def identity_kind.case bindE_ok
  using file_identity_roundtrip [OF sample_file_serializes]
  by (intro exI [of _ "Identity sample_file"])
    (simp add: with_sentinel_ok parse_file_identity_def sentinel_or_def, simp add: sample_file_def)

lemma sample_object_identity [simp]:
  "parse_identity sample_object_text f KObject S = Inr (PObject (fi_state sample_file))"
proof -
  have "valid_object_state (fi_state sample_file)" by code_simp
  then have "file_object_state_of_text sample_object_text = Inr (fi_state sample_file)"
    by (rule object_codec.serialize_parse) (rule sample_object_serializes)
  then show ?thesis
    unfolding parse_identity_ok identity_of_kind_def identity_kind.case bindE_ok
    by (intro exI [of _ "Identity (fi_state sample_file)"])
      (simp add: with_sentinel_ok parse_file_object_state_def sentinel_or_def sample_file_def fi_state_def)
qed

lemma sample_directory_identity [simp]:
  "parse_identity sample_directory_text f KDirectory S =
     Inr (PDirectory \<lparr>di_dev = 2049, di_ino = 77, di_uid = 0, di_permissions = 448\<rparr>)"
proof -
  let ?i = "\<lparr>di_dev = 2049, di_ino = 77, di_uid = 0, di_permissions = 448\<rparr>"
  have "valid_directory_identity ?i" by code_simp
  then have "directory_identity_of_text sample_directory_text = Inr ?i"
    by (rule directory_codec.serialize_parse) (rule sample_directory_serializes)
  then show ?thesis
    unfolding parse_identity_ok identity_of_kind_def identity_kind.case bindE_ok
    by (intro exI [of _ "Identity ?i"])
      (simp add: with_sentinel_ok parse_directory_identity_def sentinel_or_def)
qed

lemma none_identity [simp]: "NONE \<in> S \<Longrightarrow> parse_identity ''none'' f k S = Inr (PSentinel NONE)"
  by (simp add: parse_identity_sentinel)

lemma absent_identity [simp]: "ABSENT \<in> S \<Longrightarrow> parse_identity ''absent'' f k S = Inr (PSentinel ABSENT)"
  by (simp add: parse_identity_sentinel)

section \<open>Their fields\<close>

lemma record_vals:
  assumes r: "r = \<lparr>jr_pairs = ps, jr_final_newline = nl\<rparr>"
    and "map fst (jr_pairs r) = keys" and "distinct keys"
  shows "list_all (\<lambda>kv. val r (fst kv) = snd kv) ps"
proof -
  have d: "distinct (map fst (jr_pairs r))" using assms by simp
  have "val r (fst kv) = snd kv" if "kv \<in> set (jr_pairs r)" for kv
    using map_of_is_SomeI [OF d, of "fst kv" "snd kv"] that by (simp add: val_def)
  then show ?thesis by (simp add: list_all_iff r)
qed

lemma signing_fields_distinct: "distinct CSR_SIGNING_JOURNAL_FIELDS"
  using signing_keys by (simp add: journal_keys_def)

lemma sample_fields:
  "map fst (jr_pairs sample_planned) = CSR_SIGNING_JOURNAL_FIELDS"
  "map fst (jr_pairs sample_no_dir) = CSR_SIGNING_JOURNAL_FIELDS"
  "map fst (jr_pairs sample_published) = CSR_SIGNING_JOURNAL_FIELDS"
  by (simp_all add: sample_planned_def sample_no_dir_def sample_published_def
      CSR_SIGNING_JOURNAL_FIELDS_def CSR_SIGNING_FIXED_FIELDS_def CSR_DB_KEYS_def CSR_DB_SUFFIXES_def
      db_field_def)

lemmas planned_vals = record_vals [OF sample_planned_def sample_fields(1) signing_fields_distinct,
    unfolded list.pred_inject fst_conv snd_conv]
lemmas no_dir_vals = record_vals [OF sample_no_dir_def sample_fields(2) signing_fields_distinct,
    unfolded list.pred_inject fst_conv snd_conv]
lemmas published_vals = record_vals [OF sample_published_def sample_fields(3) signing_fields_distinct,
    unfolded list.pred_inject fst_conv snd_conv]

text \<open>Their texts are printable, so the structural parser accepts the journals.\<close>

lemma print_join2: "list_all is_print a \<Longrightarrow> list_all is_print b \<Longrightarrow> list_all is_print (join2 a b)"
  by (simp add: join2_def is_print_def code_def)

lemma print_path_join:
  "list_all is_print a \<Longrightarrow> list_all (list_all is_print) p \<Longrightarrow> list_all is_print (path_join a p)"
  by (induction p arbitrary: a) (auto simp: print_join2)

lemma print_constants [simp]:
  "list_all is_print sample_id" "list_all is_print sample_hex" "list_all is_print sample_file_text"
  "list_all is_print sample_object_text" "list_all is_print sample_directory_text"
  "list_all is_print sample_tdir" "list_all is_print sample_ca_dir"
  "list_all is_print (signing_dir sample_tdir)"
proof -
  show id: "list_all is_print sample_id" "list_all is_print sample_hex"
    by (simp_all add: sample_id_def sample_hex_def sample_chars)
  show "list_all is_print sample_file_text" "list_all is_print sample_object_text"
    "list_all is_print sample_directory_text" "list_all is_print sample_ca_dir"
    by code_simp+
  show t: "list_all is_print sample_tdir"
    unfolding sample_tdir_def transaction_dir_def using id
    by (intro print_path_join) (simp_all add: is_print_def code_def)
  show "list_all is_print (signing_dir sample_tdir)"
    unfolding signing_dir_def using t
    by (intro print_path_join) (simp_all add: is_print_def code_def)
qed

lemma journal_of_print:
  assumes "map fst (jr_pairs r) = keys" and "list_all (\<lambda>kv. list_all is_print (snd kv)) (jr_pairs r)"
  shows "journal_of keys True r"
  using assms by (auto simp: journal_of_def valid_value_def list_all_iff)

lemma is_print_Char:
  "is_print (Char b0 b1 b2 b3 b4 b5 b6 b7) \<longleftrightarrow>
     \<not> b7 \<and> (b5 \<or> b6) \<and> \<not> (b0 \<and> b1 \<and> b2 \<and> b3 \<and> b4 \<and> b5 \<and> b6)"
  by (cases b0; cases b1; cases b2; cases b3; cases b4; cases b5; cases b6; cases b7)
    (simp_all add: is_print_def code_def)

lemma sample_structures:
  "parse_signing_journal_structure (journal_text sample_planned) = Inr sample_planned"
  "parse_signing_journal_structure (journal_text sample_no_dir) = Inr sample_no_dir"
  "parse_signing_journal_structure (journal_text sample_published) = Inr sample_published"
proof -
  have p: "list_all (\<lambda>kv. list_all is_print (snd kv)) (jr_pairs sample_planned)"
      "list_all (\<lambda>kv. list_all is_print (snd kv)) (jr_pairs sample_no_dir)"
      "list_all (\<lambda>kv. list_all is_print (snd kv)) (jr_pairs sample_published)"
    by (simp_all add: sample_planned_def sample_no_dir_def sample_published_def print_join2 is_print_Char)
  show "parse_signing_journal_structure (journal_text sample_planned) = Inr sample_planned"
    using journal_of_print [OF sample_fields(1) p(1)]
    by (simp add: planned_vals parse_signing_journal_structure_def ok_iff parse_journal_record_ok [OF signing_keys])
  show "parse_signing_journal_structure (journal_text sample_no_dir) = Inr sample_no_dir"
    using journal_of_print [OF sample_fields(2) p(2)]
    by (simp add: no_dir_vals parse_signing_journal_structure_def ok_iff parse_journal_record_ok [OF signing_keys])
  show "parse_signing_journal_structure (journal_text sample_published) = Inr sample_published"
    using journal_of_print [OF sample_fields(3) p(3)]
    by (simp add: published_vals parse_signing_journal_structure_def ok_iff parse_journal_record_ok [OF signing_keys])
qed

end
