(* ===== verification/SigningWitness.thy ===== *)
theory SigningWitness
  imports SigningSamples
begin

text \<open>The sample journals are accepted: each block of the parser on each of them.\<close>

lemma mapE_exists: "(\<And>x. x \<in> set xs \<Longrightarrow> \<exists>y. f x = Inr y) \<Longrightarrow> \<exists>ys. mapE f xs = Inr ys"
proof (induction xs)
  case (Cons x xs)
  from Cons.prems [of x] obtain y where "f x = Inr y" by auto
  moreover from Cons have "\<exists>ys. mapE f xs = Inr ys" by simp
  then obtain ys where "mapE f xs = Inr ys" by blast
  ultimately show ?case by simp
qed simp

text \<open>Absolute paths are not the sentinel text.\<close>

lemma isabs_join2: "isabs a \<Longrightarrow> isabs (join2 a b)"
  by (auto simp: isabs_def join2_def starts_with_iff)

lemma isabs_present: "isabs a \<Longrightarrow> a \<noteq> ''none''"
  by (auto simp: isabs_def starts_with_def)

lemma sample_dirs_abs: "isabs sample_tdir" "isabs (signing_dir sample_tdir)" "isabs sample_ca_dir"
proof -
  show t: "isabs sample_tdir"
    unfolding sample_tdir_def transaction_dir_def path_join_Cons path_join_Nil
    by (intro isabs_join2) (simp add: isabs_def starts_with_def)
  then show "isabs (signing_dir sample_tdir)" by (simp add: signing_dir_def isabs_join2)
  show "isabs sample_ca_dir" by code_simp
qed

lemma sample_paths_present [simp]:
  "join2 sample_tdir c \<noteq> ''none''" "join2 (signing_dir sample_tdir) c \<noteq> ''none''"
  "join2 sample_ca_dir c \<noteq> ''none''" "join2 (join2 sample_tdir c) d \<noteq> ''none''"
  using sample_dirs_abs by (simp_all add: isabs_present isabs_join2)

lemma sample_hex_present [simp]: "sample_hex \<noteq> ''none''"
  using sample_chars by (auto simp: sample_hex_def hex_text_def dest: arg_cong [of _ _ length])

lemma expect_path_same: "canonical_abs v \<Longrightarrow> expect_path v v f = Inr v"
  by (simp add: expect_path_ok)

lemma sample_patterns [simp]:
  "fullmatch HEX32_RX sample_id" "is_digest sample_hex" "fullmatch PRINCIPAL_RX ''host''"
  "fullmatch PRINCIPAL_RX ''ca''" "fullmatch SERVICE_RX ''web''" "epoch_text ''1000''"
  using epoch_text_sample sample_names
  by (simp_all add: sample_id_def sample_hex_def sample_chars PRINCIPAL_iff is_lower_def is_digit_def code_def)

lemma sample_decimal: "fullmatch DECIMAL_RX ''1000''" "int_of_digits ''1000'' = Inr 1000"
  by code_simp+

lemma root_canonical [simp]: "canonical_abs ''/p''" and root_no_nul [simp]: "char_of (0 :: nat) \<notin> set ''/p''"
  by code_simp+

lemma sample_root: "canonical_pki_dir ''/p'' = Inr ''/p''"
  by code_simp

definition header_of :: "bool \<Rightarrow> signing_phase \<Rightarrow> signing_step \<Rightarrow> signing_header" where
  "header_of committed phase step = \<lparr>sh_request_id = sample_id, sh_nonce = sample_hex,
     sh_kind = KIssue, sh_committed = committed, sh_phase = phase, sh_step = step\<rparr>"

lemma sample_headers:
  "valid_header sample_planned (header_of False PhPlanned PLANNED)"
  "valid_header sample_no_dir (header_of False PhPlanned PLANNED)"
  "valid_header sample_published (header_of True PhTerminal JOURNAL_CLEANUP_PENDING)"
  by (simp_all add: planned_vals no_dir_vals published_vals valid_header_def header_of_def valid_signing_state_def SIGNING_PLANNED_STEPS_def)

lemma sample_digests:
  "check_signing_digests sample_planned KIssue = Inr ''1000''"
  "check_signing_digests sample_no_dir KIssue = Inr ''1000''"
  "check_signing_digests sample_published KIssue = Inr ''1000''"
  by (simp_all add: planned_vals no_dir_vals published_vals sample_decimal check_signing_digests_def ok_iff)

text \<open>Paths that equal the expected ones are accepted.\<close>

lemma check_signing_paths_exists:
  assumes h: "valid_header r h" and root: "canonical_abs root"
    and e: "list_all (\<lambda>fp. val r (fst fp) = snd fp)
      (expected_paths root (transaction_dir root (val r ''transaction'')) (val r ''service'')
        (sh_request_id h) (sh_nonce h))"
    and a: "list_all (\<lambda>fp. val r (fst fp) = ''none'' \<or> val r (fst fp) = snd fp)
      (artifact_paths (signing_dir (transaction_dir root (val r ''transaction''))))"
  shows "\<exists>paths. check_signing_paths r root (sh_request_id h) (sh_nonce h) = Inr paths"
proof -
  have plain: "plain_comp (val r ''transaction'')" "plain_comp (val r ''service'')"
      "plain_comp (sh_request_id h)" "plain_comp (sh_nonce h)"
    using h plain_service plain_digest plain_request_id [of "sh_request_id h"]
    by (auto simp: valid_header_def)
  note eb = expected_paths_below [OF root plain]
  note ab = artifact_paths_below [OF below_transaction(2) [OF root plain(1)]]
  have "\<exists>xs. mapE (\<lambda>(f, expected). bindE (expect_path (val r f) expected f) (\<lambda>p. Inr (f, Some p)))
      (expected_paths root (transaction_dir root (val r ''transaction'')) (val r ''service'')
        (sh_request_id h) (sh_nonce h)) = Inr xs"
    using e eb by (intro mapE_exists) (fastforce simp: list_all_iff below_def expect_path_same)
  moreover have "\<exists>ys. mapE (\<lambda>(f, expected).
      bindE (optional_exact_path (val r f) expected f) (\<lambda>p. Inr (f, p)))
      (artifact_paths (signing_dir (transaction_dir root (val r ''transaction'')))) = Inr ys"
    using a ab by (intro mapE_exists)
      (fastforce simp: list_all_iff below_def expect_path_same optional_exact_path_def)
  ultimately show ?thesis by (auto simp: check_signing_paths_def Let_def)
qed

lemma sample_paths:
  "\<exists>ps. check_signing_paths sample_planned ''/p'' sample_id sample_hex = Inr ps"
  "\<exists>ps. check_signing_paths sample_no_dir ''/p'' sample_id sample_hex = Inr ps"
  "\<exists>ps. check_signing_paths sample_published ''/p'' sample_id sample_hex = Inr ps"
  using check_signing_paths_exists [OF sample_headers(1) root_canonical]
    check_signing_paths_exists [OF sample_headers(2) root_canonical]
    check_signing_paths_exists [OF sample_headers(3) root_canonical]
  by (simp_all add: planned_vals no_dir_vals published_vals header_of_def expected_paths_def artifact_paths_def sample_tdir_def del: path_join_Cons)

lemma sample_identity_blocks:
  "\<exists>ids. signing_identities sample_planned = Inr ids"
  "\<exists>ids. signing_identities sample_no_dir = Inr ids"
  "\<exists>ids. signing_identities sample_published = Inr ids"
  by (simp_all add: planned_vals no_dir_vals published_vals signing_identities_def identity_entry_def optional_identity_def
      optional_digest_identity_pair_def check_digest_def expect_pattern_def is_digest_HEX64)

lemma sample_keys:
  "check_sensitive_key sample_planned PhPlanned False PLANNED = Inr None"
  "check_sensitive_key sample_no_dir PhPlanned False PLANNED = Inr None"
  "check_sensitive_key sample_published PhTerminal True JOURNAL_CLEANUP_PENDING = Inr (Some True)"
  by (simp_all add: planned_vals no_dir_vals published_vals check_sensitive_key_def sensitive_key_removed_def sensitive_valid_def Let_def
      early_sensitive_steps_def)

lemma sample_artifacts:
  "\<exists>ids. check_artifact_evidence sample_planned = Inr ids"
  "\<exists>ids. check_artifact_evidence sample_no_dir = Inr ids"
  "\<exists>ids. check_artifact_evidence sample_published = Inr ids"
  by (simp_all add: planned_vals no_dir_vals published_vals check_artifact_evidence_def identity_entry_def optional_identity_def
      optional_digest_identity_pair_def check_digest_def expect_pattern_def is_digest_HEX64)

lemma sample_evidence:
  "validate_signing_checkpoint_evidence sample_planned PhPlanned False PLANNED None = Inr ()"
  "validate_signing_checkpoint_evidence sample_published PhTerminal True JOURNAL_CLEANUP_PENDING
     (Some True) = Inr ()"
proof -
  show "validate_signing_checkpoint_evidence sample_planned PhPlanned False PLANNED None = Inr ()"
    unfolding validate_evidence_ok
    by (simp add: planned_vals replay_fields_def artifact_fields_def evidence_of_def recorded_evidence_def present_def
        allowed_evidence_def planned_evidence_def planned_from_def index_of_def SIGNING_PLANNED_STEPS_def)
  show "validate_signing_checkpoint_evidence sample_published PhTerminal True JOURNAL_CLEANUP_PENDING
     (Some True) = Inr ()"
    unfolding validate_evidence_ok
    by (simp add: published_vals replay_fields_def artifact_fields_def evidence_of_def recorded_evidence_def present_def
        allowed_evidence_def terminal_evidence_def)
qed

section \<open>The database of the completed transaction\<close>

lemma sample_below: "below ''/p'' sample_tdir" "below ''/p'' (signing_dir sample_tdir)"
  "below ''/p'' sample_ca_dir"
proof -
  have "plain_comp (''csr-'' @ sample_id)" using plain_request_id [of sample_id] by simp
  note t = below_transaction [OF root_canonical this]
  then show "below ''/p'' sample_tdir" "below ''/p'' (signing_dir sample_tdir)"
    by (simp_all add: sample_tdir_def)
  show "below ''/p'' sample_ca_dir"
    unfolding sample_ca_dir_def by (intro below_path_join root_canonical) (simp_all add: plain_literal)
qed

lemma sample_serial: "valid_serial ''01''"
  by code_simp

lemma sample_issued_serial: "issued_serial sample_published = Inr ''01''"
proof -
  have "removesuffix ''.pem'' (basename (path_join sample_ca_dir [''newcerts/'' @ ''01'' @ ''.pem''])) = ''01''"
    by code_simp
  then show ?thesis
    using sample_serial by (simp add: issued_serial_def published_vals valid_serial_def expect_pattern_def)
qed

lemma sample_intermediate_dir:
  "journal_intermediate_dir [] sample_published ''/p'' None = Inr sample_ca_dir"
proof -
  have d: "dirname (path_join sample_ca_dir [''index.txt'']) = sample_ca_dir" by code_simp
  have r: "relpath [] sample_ca_dir (intermediate_parent ''/p'') = Inr ''ca1''" by code_simp
  have c: "isabs sample_ca_dir" "normpath sample_ca_dir = sample_ca_dir" by code_simp+
  show ?thesis using d by (simp add: journal_intermediate_dir_def published_vals Let_def r c starts_with_def)
qed

lemma sample_database_keys:
  "\<exists>es. mapE (database_key sample_published sample_tdir sample_ca_dir ''01'') CSR_DB_PATHS = Inr es"
proof (rule mapE_exists)
  fix entry assume e: "entry \<in> set CSR_DB_PATHS"
  obtain key template where entry: "entry = (key, template)" by (cases entry)
  have c: "canonical_abs (path_join d [template ''01''])" if "below ''/p'' d" for d
    using db_paths_below [OF that sample_serial] e unfolding entry below_def by blast
  have k: "plain_comp key" using e by (auto simp: entry CSR_DB_PATHS_def plain_literal)
  have b: "canonical_abs (path_join sample_tdir [''ca-backup'', key])"
    using below_join [OF sample_below(1), of "[''ca-backup'', key]"] k
    by (simp add: below_def plain_literal)
  have v: "val sample_published (db_field key ''path'') = path_join sample_ca_dir [template ''01'']"
      "val sample_published (db_field key ''source'') = path_join (signing_dir sample_tdir) [template ''01'']"
      "val sample_published (db_field key ''backup'') = path_join sample_tdir [''ca-backup'', key]"
      "val sample_published (db_field key ''pre_identity'') = ''absent''"
      "val sample_published (db_field key ''source_identity'') = sample_file_text"
      "val sample_published (db_field key ''source_object'') = sample_object_text"
      "val sample_published (db_field key ''post_identity'') = sample_file_text"
      "val sample_published (db_field key ''backup_identity'') = ''none''"
    using e by (auto simp: entry CSR_DB_PATHS_def db_field_def published_vals)
  show "\<exists>y. database_key sample_published sample_tdir sample_ca_dir ''01'' entry = Inr y"
    using expect_path_same [OF c [OF sample_below(3)]] expect_path_same [OF c [OF sample_below(2)]]
      expect_path_same [OF b]
    by (simp add: database_key_def entry Let_def v identity_entry_def optional_identity_def del: path_join_Cons)
qed

lemma sample_database_evidence:
  "check_database_evidence sample_published PhTerminal True JOURNAL_CLEANUP_PENDING = Inr ()"
proof -
  have "sources_present sample_published = replicate 7 True" "posts_present sample_published = replicate 7 True"
    by (simp_all add: sources_present_def posts_present_def CSR_DB_KEYS_def db_field_def published_vals
        numeral_eq_Suc)
  moreover have "length CSR_DB_KEYS = 7" by (simp add: CSR_DB_KEYS_def)
  ultimately show ?thesis
    unfolding check_database_evidence_def source_expected_def expected_post_count_def Let_def
    by (simp add: numeral_eq_Suc)
qed

lemma sample_database:
  "\<exists>db. check_database [] sample_published ''/p'' None (header_of True PhTerminal JOURNAL_CLEANUP_PENDING) =
     Inr db \<and> dc_serial db = Some ''01'' \<and> dc_dir db = Some sample_ca_dir"
proof -
  obtain es where "mapE (database_key sample_published sample_tdir sample_ca_dir ''01'') CSR_DB_PATHS = Inr es"
    using sample_database_keys by blast
  moreover have "val sample_published ''db_index_path'' \<noteq> ''none''"
    "transaction_dir ''/p'' (val sample_published ''transaction'') = sample_tdir"
    by (simp_all add: published_vals sample_tdir_def)
  ultimately show ?thesis
    by (simp add: check_database_def Let_def header_of_def sample_issued_serial sample_intermediate_dir
        sample_database_evidence)
qed

lemma sample_no_database:
  "\<exists>db. check_database [] sample_planned ''/p'' None (header_of False PhPlanned PLANNED) =
     Inr db \<and> dc_serial db = None \<and> dc_dir db = None"
  by (simp add: check_database_def Let_def header_of_def planned_vals check_no_database_def
      no_database_key_def CSR_DB_KEYS_def CSR_DB_SUFFIXES_def db_field_def identity_entry_def
      early_sensitive_steps_def)

section \<open>The parsed samples\<close>

lemma signing_sample_parses:
  assumes "parse_signing_journal_structure data = Inr r"
    and "valid_header r (header_of c p s)" and "check_signing_digests r KIssue = Inr ''1000''"
    and "\<exists>ps. check_signing_paths r ''/p'' sample_id sample_hex = Inr ps"
    and "\<exists>ids. signing_identities r = Inr ids" and "check_sensitive_key r p c s = Inr removed"
    and "\<exists>ids. check_artifact_evidence r = Inr ids"
    and "\<exists>db. check_database [] r ''/p'' None (header_of c p s) = Inr db \<and> dc_serial db = ser \<and> dc_dir db = d"
    and "validate_signing_checkpoint_evidence r p c s removed = Inr ()"
  shows "\<exists>j. parse_signing_journal [] data ''/p'' None = Inr j \<and> sj_record j = r \<and> sj_phase j = p \<and>
    sj_committed j = c \<and> sj_recovery_step j = s \<and> sj_issued_serial j = ser \<and>
    sj_intermediate_dir j = d \<and> sj_pki_dir j = ''/p'' \<and> sj_sensitive_key_removed j = removed"
proof -
  from assms(2) have "parse_signing_header r = Inr (header_of c p s)"
    by (simp add: parse_signing_header_ok)
  with assms(1,3-) show ?thesis
    by (auto simp: parse_signing_journal_def sample_root signing_journal_of_def
        header_of_def sample_decimal)
qed

lemmas planned_parses = signing_sample_parses [OF sample_structures(1) sample_headers(1) sample_digests(1)
    sample_paths(1) sample_identity_blocks(1) sample_keys(1) sample_artifacts(1) sample_no_database
    sample_evidence(1)]

lemmas published_parses = signing_sample_parses [OF sample_structures(3) sample_headers(3) sample_digests(3)
    sample_paths(3) sample_identity_blocks(3) sample_keys(3) sample_artifacts(3) sample_database
    sample_evidence(2)]

text \<open>The journal whose database path has no directory part stops in \<open>relpath\<close>.\<close>

lemma no_dir_error:
  "parse_signing_journal [] (journal_text sample_no_dir) ''/p'' None =
     Inl (ValueError ''no path specified'')"
proof -
  have h: "parse_signing_header sample_no_dir = Inr (header_of False PhPlanned PLANNED)"
    using sample_headers(2) by (simp add: parse_signing_header_ok)
  have serial: "issued_serial sample_no_dir = Inr ''01''"
  proof -
    have "removesuffix ''.pem'' (basename ''01.pem'') = ''01''" by code_simp
    then show ?thesis
      using sample_serial by (simp add: issued_serial_def no_dir_vals valid_serial_def expect_pattern_def)
  qed
  have "dirname [] = []" by code_simp
  then have d: "journal_intermediate_dir [] sample_no_dir ''/p'' None = Inl (ValueError ''no path specified'')"
    by (simp add: journal_intermediate_dir_def no_dir_vals Let_def relpath_def)
  have db: "check_database [] sample_no_dir ''/p'' None (header_of False PhPlanned PLANNED) =
      Inl (ValueError ''no path specified'')"
    by (simp add: check_database_def Let_def no_dir_vals serial d)
  from sample_paths(2) sample_identity_blocks(2) sample_artifacts(2)
  obtain ps ids arts where
    "check_signing_paths sample_no_dir ''/p'' sample_id sample_hex = Inr ps"
    "signing_identities sample_no_dir = Inr ids" "check_artifact_evidence sample_no_dir = Inr arts"
    by blast
  with h db sample_structures(2) sample_digests(2) sample_keys(2) show ?thesis
    by (simp add: parse_signing_journal_def sample_root signing_journal_of_def
        header_of_def)
qed

end
