(* ===== verification/SigningProperties.thy ===== *)
theory SigningProperties
  imports SigningWitness
begin

text \<open>
  The properties of the CSR signing journal: an accepted journal is in a state the writer can be
  in, with exactly the evidence of that state, and names no path outside the PKI directory.
\<close>

section \<open>Lemmas on accepted journals\<close>

text \<open>The blocks of an accepted journal.\<close>

lemma accepted_blocks:
  assumes "parse_signing_journal cwd data root active = Inr j"
  obtains h paths ids arts db where
    "valid_header (sj_record j) h" "sh_phase h = sj_phase j" "sh_committed h = sj_committed j"
    "sh_step h = sj_recovery_step j" "canonical_abs root" "sj_pki_dir j = root"
    "check_signing_paths (sj_record j) root (sh_request_id h) (sh_nonce h) = Inr paths"
    "signing_identities (sj_record j) = Inr ids" "check_artifact_evidence (sj_record j) = Inr arts"
    "check_sensitive_key (sj_record j) (sj_phase j) (sj_committed j) (sj_recovery_step j) =
       Inr (sj_sensitive_key_removed j)"
    "check_database cwd (sj_record j) root active h = Inr db"
    "dc_serial db = sj_issued_serial j" "dc_dir db = sj_intermediate_dir j"
    "validate_signing_checkpoint_evidence (sj_record j) (sj_phase j) (sj_committed j)
       (sj_recovery_step j) (sj_sensitive_key_removed j) = Inr ()"
    "sj_identities j = sorted_items (dict_of (ids @ arts @ dc_identities db))"
    "sj_paths j = sorted_items (dict_of (paths @ dc_paths db))"
proof -
  from assms have "signing_journal_of cwd (sj_record j) root active = Inr j" and c: "canonical_abs root"
    by (simp_all add: parse_signing_journal_ok)
  then obtain h created paths ids removed arts db n where
    b: "valid_header (sj_record j) h" "signing_identities (sj_record j) = Inr ids"
      "check_artifact_evidence (sj_record j) = Inr arts" "check_database cwd (sj_record j) root active h = Inr db"
      "check_signing_paths (sj_record j) root (sh_request_id h) (sh_nonce h) = Inr paths"
    and k: "check_sensitive_key (sj_record j) (sh_phase h) (sh_committed h) (sh_step h) = Inr removed"
      "validate_signing_checkpoint_evidence (sj_record j) (sh_phase h) (sh_committed h) (sh_step h)
         removed = Inr ()"
    and j: "j = \<lparr>sj_record = sj_record j, sj_pki_dir = root, sj_operation_kind = sh_kind h,
      sj_phase = sh_phase h, sj_recovery_step = sh_step h, sj_committed = sh_committed h,
      sj_sensitive_key_removed = removed, sj_created_epoch = n,
      sj_issued_serial = dc_serial db, sj_intermediate_dir = dc_dir db,
      sj_identities = sorted_items (dict_of (ids @ arts @ dc_identities db)),
      sj_paths = sorted_items (dict_of (paths @ dc_paths db))\<rparr>"
    unfolding signing_journal_of_ok by blast
  have sel: "sj_phase j = sh_phase h" "sj_committed j = sh_committed h" "sj_recovery_step j = sh_step h"
      "sj_pki_dir j = root" "sj_sensitive_key_removed j = removed" "sj_issued_serial j = dc_serial db"
      "sj_intermediate_dir j = dc_dir db"
      "sj_identities j = sorted_items (dict_of (ids @ arts @ dc_identities db))"
      "sj_paths j = sorted_items (dict_of (paths @ dc_paths db))"
    by (subst j, simp)+
  show thesis
    by (rule that [OF b(1) sel(1-3) [symmetric] c sel(4) b(5,2,3)])
      (simp_all only: sel k b)
qed

lemma accepted_state:
  "parse_signing_journal cwd data root active = Inr j \<Longrightarrow>
     valid_signing_state (sj_phase j) (sj_committed j) (sj_recovery_step j)"
  by (erule accepted_blocks) (auto simp: valid_header_def)

lemma accepted_evidence:
  "parse_signing_journal cwd data root active = Inr j \<Longrightarrow>
     evidence_of (sj_record j) (sj_sensitive_key_removed j)
       \<in> set (allowed_evidence (sj_phase j) (sj_committed j) (sj_recovery_step j))"
  by (erule accepted_blocks) (simp add: validate_evidence_ok)


text \<open>The flags of the evidence, by position.\<close>

lemma evidence_flags:
  "evidence_of r removed = map (\<lambda>b. b)
     [present r ''replay_request_identity'', present r ''transaction_identity'',
      present r ''response_trust_identity'', present r ''sensitive_key_identity'',
      removed = Some True, present r ''certificate_path'', present r ''response_signature_path'',
      present r ''response_signature_identity'', present r ''candidate_stage_identity'',
      present r ''candidate_destination_identity'', present r ''response_stage_identity'',
      present r ''response_destination_identity'']"
  by (simp add: evidence_of_def recorded_evidence_def)

section \<open>State and evidence\<close>

text \<open>
  The phase, the commit flag and the recovery step of an accepted journal agree: planned
  journals are not committed and stand at a planned step, committed ones at a committed step, and
  terminal journals wait for cleanup.
\<close>

theorem signing_state_consistent:
  assumes "parse_signing_journal cwd data root active = Inr j"
  shows "case sj_phase j of
      PhPlanned \<Rightarrow> \<not> sj_committed j \<and> sj_recovery_step j \<in> set SIGNING_PLANNED_STEPS
    | PhCaCommitted \<Rightarrow> sj_committed j \<and> sj_recovery_step j \<in> set SIGNING_COMMITTED_STEPS
    | PhTerminal \<Rightarrow> sj_recovery_step j = JOURNAL_CLEANUP_PENDING"
  using accepted_state [OF assms] by (simp add: valid_signing_state_def split: signing_phase.splits)

theorem signing_state_consistent_witness:
  "\<exists>j. parse_signing_journal [] (journal_text sample_planned) ''/p'' None = Inr j \<and>
     \<not> sj_committed j \<and> sj_recovery_step j \<in> set SIGNING_PLANNED_STEPS"
proof -
  from planned_parses obtain j where j: "parse_signing_journal [] (journal_text sample_planned) ''/p'' None = Inr j"
    and "sj_phase j = PhPlanned" by blast
  with signing_state_consistent [OF j] show ?thesis by auto
qed

lemma accepted_database:
  assumes "parse_signing_journal cwd data root active = Inr j"
  shows "(sj_issued_serial j = None \<longrightarrow> \<not> sj_committed j \<and>
      (sj_phase j = PhPlanned \<longrightarrow> sj_recovery_step j \<in> set early_sensitive_steps) \<and>
      (\<forall>k \<in> set CSR_DB_KEYS. \<forall>s \<in> set CSR_DB_SUFFIXES. val (sj_record j) (db_field k s) = ''none'')) \<and>
    (sj_issued_serial j \<noteq> None \<longrightarrow> sj_intermediate_dir j \<noteq> None \<and>
      check_database_evidence (sj_record j) (sj_phase j) (sj_committed j) (sj_recovery_step j) = Inr ())"
  using assms
proof (rule accepted_blocks)
  fix h paths ids arts db
  assume "check_database cwd (sj_record j) root active h = Inr db"
    "dc_serial db = sj_issued_serial j" "dc_dir db = sj_intermediate_dir j"
    "sh_phase h = sj_phase j" "sh_committed h = sj_committed j" "sh_step h = sj_recovery_step j"
  with check_database_None [of cwd "sj_record j" root active h db]
    check_database_Some [of cwd "sj_record j" root active h db]
  show ?thesis by auto
qed

text \<open>The number of database files that a step has published.\<close>

definition published_files :: "signing_step \<Rightarrow> nat" where
  "published_files step = step_index step - 5"

lemma posts_nth:
  "i < 7 \<Longrightarrow> posts_present r ! i = present r (db_field (CSR_DB_KEYS ! i) ''post_identity'')"
  by (subst posts_present_def, subst nth_map) (simp_all add: CSR_DB_KEYS_def present_def)

lemma expected_posts_planned:
  "step \<in> set SIGNING_PLANNED_STEPS \<Longrightarrow> expected_post_count PhPlanned c step n = published_files step \<and>
     published_files step \<le> 7"
  unfolding expected_post_count_def published_files_def step_index_def
  by (auto simp: SIGNING_PLANNED_STEPS_def SIGNING_POST_STEPS_def index_of_def all_steps_def)

lemma early_published: "step \<in> set early_sensitive_steps \<Longrightarrow> published_files step = 0"
  by (auto simp: early_sensitive_steps_def published_files_def step_index_def index_of_def all_steps_def
      SIGNING_PLANNED_STEPS_def)

lemma db_key_in: "i < 7 \<Longrightarrow> CSR_DB_KEYS ! i \<in> set CSR_DB_KEYS"
  by (rule nth_mem) (simp add: CSR_DB_KEYS_def)

text \<open>
  C23: while a journal is planned, exactly the database files that precede its recovery step in
  the publication order are recorded as published.
\<close>

theorem signing_published_prefix:
  assumes "parse_signing_journal cwd data root active = Inr j" and "sj_phase j = PhPlanned" and "i < 7"
  shows "val (sj_record j) (db_field (CSR_DB_KEYS ! i) ''post_identity'') \<noteq> ''none'' \<longleftrightarrow>
    i < published_files (sj_recovery_step j)"
proof (cases "sj_issued_serial j")
  case None
  with accepted_database [OF assms(1)] assms(2)
  have early: "sj_recovery_step j \<in> set early_sensitive_steps"
    and none: "val (sj_record j) (db_field (CSR_DB_KEYS ! i) ''post_identity'') = ''none''"
    using db_key_in [OF assms(3)] by (auto simp: CSR_DB_SUFFIXES_def)
  from early_published [OF early] none show ?thesis by simp
next
  case (Some s)
  let ?n = "length (filter id (posts_present (sj_record j)))"
  from Some accepted_database [OF assms(1)]
  have "check_database_evidence (sj_record j) (sj_phase j) (sj_committed j) (sj_recovery_step j) = Inr ()"
    by simp
  from check_database_evidence_ok [OF this]
  have posts: "posts_present (sj_record j) = map (\<lambda>i. i < ?n) [0..<7]"
    and n: "?n = expected_post_count PhPlanned (sj_committed j) (sj_recovery_step j) ?n"
    using assms(2) by simp_all
  have "sj_recovery_step j \<in> set SIGNING_PLANNED_STEPS"
    using accepted_state [OF assms(1)] assms(2) by (simp add: valid_signing_state_def)
  with expected_posts_planned n have n: "?n = published_files (sj_recovery_step j)" by metis
  have "posts_present (sj_record j) ! i = (i < ?n)"
    using assms(3) by (subst posts) simp
  then show ?thesis using posts_nth [OF assms(3), of "sj_record j"] n by (simp add: present_def)
qed

theorem signing_published_prefix_witness:
  "\<exists>j. parse_signing_journal [] (journal_text sample_planned) ''/p'' None = Inr j \<and>
     (val (sj_record j) (db_field (CSR_DB_KEYS ! 0) ''post_identity'') \<noteq> ''none'' \<longleftrightarrow>
        0 < published_files (sj_recovery_step j))"
proof -
  from planned_parses obtain j where j: "parse_signing_journal [] (journal_text sample_planned) ''/p'' None = Inr j"
    and p: "sj_phase j = PhPlanned" by blast
  from signing_published_prefix [OF j p, of 0] j show ?thesis by auto
qed


section \<open>Committed transactions\<close>

lemma committed_evidence_base:
  assumes "valid_signing_state phase True step" and "e \<in> set (allowed_evidence phase True step)"
  shows "take 7 e = replicate 7 True"
  using assms
  by (cases phase) (auto simp: valid_signing_state_def allowed_evidence_def committed_evidence_def
      terminal_evidence_def Let_def numeral_eq_Suc split: if_splits)

text \<open>
  C20: a committed journal is complete. It names the issued serial and its CA directory, every
  database file has its source and its published identity, the sensitive key copy is recorded and
  removed, and the replay, transaction, trust and artifact evidence is present.
\<close>

theorem signing_commit_complete:
  assumes "parse_signing_journal cwd data root active = Inr j" and "sj_committed j"
  shows "sj_issued_serial j \<noteq> None \<and> sj_intermediate_dir j \<noteq> None \<and>
    sj_sensitive_key_removed j = Some True \<and>
    (\<forall>k \<in> set CSR_DB_KEYS. val (sj_record j) (db_field k ''source_identity'') \<noteq> ''none'' \<and>
       val (sj_record j) (db_field k ''post_identity'') \<noteq> ''none'') \<and>
    (\<forall>f \<in> {''replay_request_identity'', ''transaction_identity'', ''response_trust_identity'',
       ''sensitive_key_identity'', ''certificate_path''}. val (sj_record j) f \<noteq> ''none'')"
proof -
  let ?r = "sj_record j"
  from accepted_database [OF assms(1)] assms(2)
  have some: "sj_issued_serial j \<noteq> None" "sj_intermediate_dir j \<noteq> None"
    and db: "check_database_evidence ?r (sj_phase j) True (sj_recovery_step j) = Inr ()"
    by auto
  have state: "valid_signing_state (sj_phase j) True (sj_recovery_step j)"
    using accepted_state [OF assms(1)] assms(2) by simp
  then have phase: "sj_phase j \<noteq> PhPlanned" by (auto simp: valid_signing_state_def)
  let ?n = "length (filter id (posts_present ?r))"
  have seven: "length CSR_DB_KEYS = 7" by (simp add: CSR_DB_KEYS_def)
  from check_database_evidence_ok [OF db] phase
  have n: "?n = 7" and sources: "list_all id (sources_present ?r)"
    by (auto simp: expected_post_count_def source_expected_def seven split: signing_phase.splits)
  from check_database_evidence_ok [OF db] have "posts_present ?r = map (\<lambda>i. i < ?n) [0..<7]" by blast
  then have "list_all id (posts_present ?r)" unfolding n by (simp add: list_all_iff)
  then have posts: "\<forall>k \<in> set CSR_DB_KEYS. val ?r (db_field k ''post_identity'') \<noteq> ''none''"
    by (simp add: posts_present_def list_all_iff)
  have sources: "\<forall>k \<in> set CSR_DB_KEYS. val ?r (db_field k ''source_identity'') \<noteq> ''none''"
    using sources by (simp add: sources_present_def list_all_iff)
  have "evidence_of ?r (sj_sensitive_key_removed j) \<in> set (allowed_evidence (sj_phase j) True (sj_recovery_step j))"
    using accepted_evidence [OF assms(1)] assms(2) by simp
  from committed_evidence_base [OF state this] some posts sources show ?thesis
    by (simp add: evidence_flags numeral_eq_Suc present_def)
qed

theorem signing_commit_complete_witness:
  "\<exists>j. parse_signing_journal [] (journal_text sample_published) ''/p'' None = Inr j \<and>
     sj_issued_serial j = Some ''01'' \<and> sj_sensitive_key_removed j = Some True"
proof -
  from published_parses obtain j where j: "parse_signing_journal [] (journal_text sample_published) ''/p'' None = Inr j"
    and c: "sj_committed j" "sj_issued_serial j = Some ''01''" by blast
  from signing_commit_complete [OF j c(1)] c(2) j show ?thesis by blast
qed

section \<open>Growth of the evidence\<close>






section \<open>Paths\<close>

lemma no_database_paths:
  "check_no_database r phase committed step = Inr (ids, paths) \<Longrightarrow> (f, Some p) \<notin> set paths"
proof
  assume "check_no_database r phase committed step = Inr (ids, paths)" and "(f, Some p) \<in> set paths"
  then obtain es where es: "mapE (no_database_key r) CSR_DB_KEYS = Inr es"
    and paths: "paths = concat (map snd es)"
    unfolding check_no_database_def by (auto simp: bindE_ok)
  with \<open>(f, Some p) \<in> set paths\<close> obtain i ps where "(i, ps) \<in> set es" "(f, Some p) \<in> set ps" by auto
  with mapE_from [OF es this(1)] show False by (auto simp: no_database_key_def bindE_ok)
qed

lemma check_database_cases:
  assumes "check_database cwd r root expected h = Inr db"
  shows "(\<exists>ids. check_no_database r (sh_phase h) (sh_committed h) (sh_step h) = Inr (ids, dc_paths db) \<and>
      dc_dir db = None) \<or>
    (\<exists>serial dir entries. issued_serial r = Inr serial \<and> dc_dir db = Some dir \<and>
       journal_intermediate_dir cwd r root expected = Inr dir \<and>
       mapE (database_key r (transaction_dir root (val r ''transaction'')) dir serial) CSR_DB_PATHS =
         Inr entries \<and> dc_paths db = concat (map snd entries))"
  using assms
  by (auto simp: check_database_def Let_def ok_iff split: if_splits)

lemma child_below:
  assumes "canonical_abs dir \<and> (\<exists>name. plain_comp name \<and>
    nonempty_parts dir = nonempty_parts root @ [''authorities'', ''intermediates'', name])"
  shows "below root dir"
  using assms by (auto simp: below_def)

lemma check_database_paths_below:
  assumes "check_database cwd r root expected h = Inr db" and "canonical_abs root"
    and "plain_comp (val r ''transaction'')" and "(f, Some p) \<in> set (dc_paths db)"
  shows "below root p"
  using check_database_cases [OF assms(1)]
proof (elim disjE exE conjE)
  fix ids
  assume "check_no_database r (sh_phase h) (sh_committed h) (sh_step h) = Inr (ids, dc_paths db)"
  from no_database_paths [OF this] assms(4) show ?thesis by blast
next
  fix serial dir entries
  assume serial: "issued_serial r = Inr serial"
    and dir: "journal_intermediate_dir cwd r root expected = Inr dir"
    and entries: "mapE (database_key r (transaction_dir root (val r ''transaction'')) dir serial)
      CSR_DB_PATHS = Inr entries" and paths: "dc_paths db = concat (map snd entries)"
  from assms(4) paths obtain ids ps where "(ids, ps) \<in> set entries" "(f, Some p) \<in> set ps"
    by auto
  with mapE_from [OF entries] obtain entry where "entry \<in> set CSR_DB_PATHS"
    "database_key r (transaction_dir root (val r ''transaction'')) dir serial entry = Inr (ids, ps)"
    by blast
  from database_key_below [OF this(2,1) assms(2,3) child_below issued_serial_ok [OF serial]
      \<open>(f, Some p) \<in> set ps\<close>]
    journal_intermediate_dir_child [OF dir assms(2)]
  show ?thesis by blast
qed

text \<open>
  C21: every path of an accepted journal is a canonical absolute path strictly below the PKI
  directory: whatever the bytes of the journal, recovery acts on nothing outside of it.
\<close>

theorem signing_paths_confined:
  assumes "parse_signing_journal cwd data root active = Inr j" and "(f, Some p) \<in> set (sj_paths j)"
  shows "below root p"
  using assms(1)
proof (rule accepted_blocks)
  fix h paths ids arts db
  assume h: "valid_header (sj_record j) h" and root: "canonical_abs root"
    and paths: "check_signing_paths (sj_record j) root (sh_request_id h) (sh_nonce h) = Inr paths"
    and db: "check_database cwd (sj_record j) root active h = Inr db"
    and j: "sj_paths j = sorted_items (dict_of (paths @ dc_paths db))"
  from h have t: "plain_comp (val (sj_record j) ''transaction'')"
    by (auto simp: valid_header_def dest: plain_request_id)
  from assms(2) set_dict_of [of "paths @ dc_paths db"]
  have "(f, Some p) \<in> set paths \<or> (f, Some p) \<in> set (dc_paths db)" by (auto simp: j)
  then show ?thesis
    using check_signing_paths_below [OF h root paths] check_database_paths_below [OF db root t] by blast
qed

theorem signing_paths_confined_witness:
  "\<exists>j. parse_signing_journal [] (journal_text sample_published) ''/p'' None = Inr j \<and>
     list_all (\<lambda>(f, p). case p of None \<Rightarrow> True | Some p \<Rightarrow> below ''/p'' p) (sj_paths j)"
proof -
  from published_parses obtain j where
    j: "parse_signing_journal [] (journal_text sample_published) ''/p'' None = Inr j" by blast
  with signing_paths_confined [OF j] show ?thesis
    by (auto simp: list_all_iff split: option.splits)
qed

text \<open>
  The CA directory an accepted journal names is a direct child of the directory of the
  intermediate authorities, and it is the active one when the caller gives the active one.
\<close>

theorem signing_ca_directory:
  assumes "parse_signing_journal cwd data root active = Inr j" and "sj_intermediate_dir j = Some dir"
  shows "canonical_abs dir \<and> (\<exists>name. plain_comp name \<and>
      nonempty_parts dir = nonempty_parts root @ [''authorities'', ''intermediates'', name]) \<and>
    (active = None \<or> active = Some dir)"
  using assms(1)
proof (rule accepted_blocks)
  fix h paths ids arts db
  assume root: "canonical_abs root" and db: "check_database cwd (sj_record j) root active h = Inr db"
    and "dc_dir db = sj_intermediate_dir j"
  with assms(2) check_database_cases [OF db]
  have dir: "journal_intermediate_dir cwd (sj_record j) root active = Inr dir" by auto
  then have "active = None \<or> active = Some dir"
    by (cases active) (auto simp: journal_intermediate_dir_def Let_def ok_iff)
  with journal_intermediate_dir_child [OF dir root] show ?thesis by blast
qed

theorem signing_ca_directory_witness:
  "\<exists>j dir. parse_signing_journal [] (journal_text sample_published) ''/p'' None = Inr j \<and>
     sj_intermediate_dir j = Some dir \<and> canonical_abs dir"
proof -
  from published_parses obtain j dir where
    j: "parse_signing_journal [] (journal_text sample_published) ''/p'' None = Inr j"
    and d: "sj_intermediate_dir j = Some dir" by blast
  from signing_ca_directory [OF j d] j d show ?thesis by blast
qed

section \<open>Errors\<close>


section \<open>The recorded identities\<close>

text \<open>An entry of the identity dictionary is the parse of its own field.\<close>

definition own_field :: "csr_journal_record \<Rightarrow> string \<times> parsed_identity \<Rightarrow> bool" where
  "own_field r e \<longleftrightarrow> (\<exists>k s. parse_identity (val r (fst e)) (fst e) k s = Inr (snd e) \<and>
     (fst e = ''transaction_identity'' \<longrightarrow> s = {NONE}))"

lemma own_field_entry:
  "identity_entry r k s f = Inr e \<Longrightarrow> f \<noteq> ''transaction_identity'' \<or> s = {NONE} \<Longrightarrow> own_field r e"
  unfolding identity_entry_ok own_field_def by fastforce

lemma own_field_optional: "optional_identity r k f = Inr e \<Longrightarrow> own_field r e"
  unfolding optional_identity_def by (erule own_field_entry) simp

lemma own_field_pair: "optional_digest_identity_pair r i d = Inr e \<Longrightarrow> own_field r e"
  unfolding optional_digest_identity_pair_ok using own_field_optional by blast

lemma db_field_transaction: "db_field k s \<noteq> ''transaction_identity''"
  by (simp add: db_field_def)

lemma signing_identities_own: "signing_identities r = Inr ids \<Longrightarrow> e \<in> set ids \<Longrightarrow> own_field r e"
  by (auto simp: signing_identities_def bindE_ok split: prod.splits dest!: mapE_from
      intro: own_field_entry own_field_optional own_field_pair)

lemma artifact_evidence_own: "check_artifact_evidence r = Inr ids \<Longrightarrow> e \<in> set ids \<Longrightarrow> own_field r e"
  by (auto simp: check_artifact_evidence_def bindE_ok split: prod.splits dest!: mapE_from
      intro: own_field_pair)

lemma no_database_own:
  "check_no_database r p c s = Inr (ids, ps) \<Longrightarrow> e \<in> set ids \<Longrightarrow> own_field r e"
proof -
  assume "check_no_database r p c s = Inr (ids, ps)" and e: "e \<in> set ids"
  then obtain es where es: "mapE (no_database_key r) CSR_DB_KEYS = Inr es" and "ids = concat (map fst es)"
    unfolding check_no_database_def by (auto simp: bindE_ok)
  with e obtain i ps where "(i, ps) \<in> set es" "e \<in> set i" by auto
  with mapE_from [OF es this(1)] show ?thesis
    by (auto simp: no_database_key_def bindE_ok db_field_transaction intro: own_field_entry)
qed

lemma database_key_own:
  "database_key r tdir dir sn entry = Inr (ids, ps) \<Longrightarrow> e \<in> set ids \<Longrightarrow> own_field r e"
  by (cases entry) (auto simp: database_key_def Let_def bindE_ok db_field_transaction simp del: mapE.simps
      dest!: own_field_optional own_field_entry [OF _ disjI1])

lemma check_database_own:
  assumes "check_database cwd r root expected h = Inr db" and "e \<in> set (dc_identities db)"
  shows "own_field r e"
proof -
  from assms consider ids ps where "check_no_database r (sh_phase h) (sh_committed h) (sh_step h) = Inr (ids, ps)"
      "dc_identities db = ids"
    | tdir dir sn entries where "mapE (database_key r tdir dir sn) CSR_DB_PATHS = Inr entries"
      "dc_identities db = concat (map fst entries)"
    by (auto simp: check_database_def Let_def bindE_ok split: if_splits)
  then show ?thesis
  proof cases
    case 1
    with assms(2) no_database_own show ?thesis by blast
  next
    case 2
    with assms(2) obtain ids ps where "(ids, ps) \<in> set entries" "e \<in> set ids" by auto
    with mapE_from [OF 2(1)] database_key_own show ?thesis by blast
  qed
qed

lemma accepted_identities_own:
  assumes "parse_signing_journal cwd data root active = Inr j"
  shows "(\<forall>e \<in> set (sj_identities j). own_field (sj_record j) e) \<and>
    (\<exists>i. map_of (sj_identities j) ''transaction_identity'' = Some i)"
  using assms
proof (rule accepted_blocks)
  fix h paths ids arts db
  assume ids: "signing_identities (sj_record j) = Inr ids"
    and "check_artifact_evidence (sj_record j) = Inr arts"
    and "check_database cwd (sj_record j) root active h = Inr db"
    and j: "sj_identities j = sorted_items (dict_of (ids @ arts @ dc_identities db))"
  then have "\<forall>e \<in> set (ids @ arts @ dc_identities db). own_field (sj_record j) e"
    using signing_identities_own artifact_evidence_own check_database_own by auto
  with set_dict_of [of "ids @ arts @ dc_identities db"]
  have own: "\<forall>e \<in> set (sj_identities j). own_field (sj_record j) e" by (auto simp: j)
  from ids have "\<exists>i. (''transaction_identity'', i) \<in> set ids"
    by (auto simp: signing_identities_def bindE_ok identity_entry_ok)
  then have "''transaction_identity'' \<in> fst ` set (rev (ids @ arts @ dc_identities db))" by force
  then have "\<exists>i. map_of (sj_identities j) ''transaction_identity'' = Some i"
    by (metis j map_of_sorted_items dict_of_distinct map_of_dict_of map_of_eq_None_iff not_Some_eq)
  with own show ?thesis by blast
qed

text \<open>
  For an accepted journal the transaction directory may exist exactly when the journal records
  the identity of the directory, and a committed journal never passes without the directory.
\<close>

theorem signing_transaction_presence:
  assumes "parse_signing_journal cwd data root active = Inr j"
  shows "validate_signing_transaction_presence j found = Inr () \<longleftrightarrow>
    (if found then val (sj_record j) ''transaction_identity'' \<noteq> ''none''
     else val (sj_record j) ''transaction_identity'' = ''none'' \<and> \<not> sj_committed j)"
proof -
  from accepted_identities_own [OF assms] obtain i where
    i: "map_of (sj_identities j) ''transaction_identity'' = Some i"
    and "own_field (sj_record j) (''transaction_identity'', i)"
    by (meson map_of_SomeD)
  then obtain k where k: "parse_identity (val (sj_record j) ''transaction_identity'') ''transaction_identity''
      k {NONE} = Inr i"
    by (auto simp: own_field_def)
  have "i = PSentinel NONE \<longleftrightarrow> val (sj_record j) ''transaction_identity'' = ''none''"
    using k parse_identity_sentinel [of "val (sj_record j) ''transaction_identity''"
        "''transaction_identity''" k "{NONE}" NONE] by auto
  with i show ?thesis by (auto simp: validate_signing_transaction_presence_def sj_identity_def)
qed

theorem signing_transaction_presence_witness:
  "\<exists>j. parse_signing_journal [] (journal_text sample_published) ''/p'' None = Inr j \<and>
     validate_signing_transaction_presence j False \<noteq> Inr ()"
proof -
  from published_parses obtain j where
    j: "parse_signing_journal [] (journal_text sample_published) ''/p'' None = Inr j"
    and c: "sj_committed j" by blast
  from signing_transaction_presence [OF j, of False] c j show ?thesis by auto
qed

end
