(* ===== verification/FinalizationJournal.thy ===== *)
theory FinalizationJournal
  imports CsrJournal
begin

text \<open>
  \<^verbatim>\<open>src/platform_pki/csr_recovery.py\<close>, third part: the semantic parser of the candidate
  finalization journal, \<open>parse_finalization_journal\<close>, one definition per block of checks.
\<close>

section \<open>Paths\<close>

text \<open>\<open>[A-Za-z0-9]{6}\<close>\<close>

definition STAGE_SUFFIX_RX :: "char rx" where
  "STAGE_SUFFIX_RX = Times (Cls is_alnum) 6"

definition generated_stage :: "string \<Rightarrow> string \<Rightarrow> string \<Rightarrow> string result" where
  "generated_stage value prefix field =
     (if \<not> starts_with prefix value then
        Inl (CsrRecoveryError (''CSR finalization path '' @ field @ '' is outside its contract''))
      else if \<not> fullmatch STAGE_SUFFIX_RX (drop (length prefix) value) \<or> normpath value \<noteq> value then
        Inl (CsrRecoveryError (''CSR finalization path '' @ field @ '' is not a generated stage''))
      else Inr value)"

definition outcome_parent :: "string \<Rightarrow> string \<Rightarrow> string" where
  "outcome_parent root service = path_join root [''state'', ''csr'', ''outcomes'', service]"

definition active_parent :: "string \<Rightarrow> string" where
  "active_parent root = path_join root [''state'', ''csr'', ''active'']"

definition candidate_dir :: "string \<Rightarrow> string \<Rightarrow> string \<Rightarrow> string" where
  "candidate_dir root service request_id =
     path_join root [''state'', ''csr'', ''candidates'', service, request_id]"

definition response_dir :: "string \<Rightarrow> string \<Rightarrow> string \<Rightarrow> string" where
  "response_dir root service request_id =
     path_join root [''state'', ''csr'', ''responses'', service, request_id]"

definition artifact_dir :: "string \<Rightarrow> string \<Rightarrow> string \<Rightarrow> string" where
  "artifact_dir root service request_id =
     path_join root [''export'', ''certificates'', ''v1'', ''artifacts'', service, request_id]"

definition final_transaction_dir :: "string \<Rightarrow> string \<Rightarrow> string" where
  "final_transaction_dir root request_id =
     path_join root [''state'', ''csr'', ''transactions'', ''csr-'' @ request_id]"

text \<open>A path of the dictionary \<open>paths\<close>: a generated stage with its prefix, or a fixed path.\<close>

datatype expected_path = Stage string | Exact string

definition check_final_path :: "csr_journal_record \<Rightarrow> string \<times> expected_path \<Rightarrow> (string \<times> string) result" where
  "check_final_path r entry =
     (let (field, expected) = entry
      in bindE (case expected of
             Stage prefix \<Rightarrow> generated_stage (val r field) prefix field
           | Exact path \<Rightarrow> expect_path (val r field) path field) (\<lambda>p. Inr (field, p)))"

definition final_paths :: "string \<Rightarrow> string \<Rightarrow> string \<Rightarrow> (string \<times> expected_path) list" where
  "final_paths root service request_id =
     (let outcome = outcome_parent root service; active = active_parent root;
          candidate = candidate_dir root service request_id;
          response = response_dir root service request_id;
          artifact = artifact_dir root service request_id;
          transaction = final_transaction_dir root request_id
      in [(''outcome_stage'',
            Stage (path_join outcome [''.platform-pki-csr-outcome.'' @ request_id @ ''.''])),
          (''outcome_destination'', Exact (path_join outcome [request_id])),
          (''active_stage'', Stage (path_join active [''.platform-pki-active.'' @ service @ ''.''])),
          (''active_destination'', Exact (path_join active [service])),
          (''candidate_dir'', Exact candidate),
          (''candidate_path'', Exact (path_join candidate [''candidate''])),
          (''response_dir'', Exact response),
          (''response_path'', Exact (path_join response [''response''])),
          (''response_signature_path'', Exact (path_join response [''response.sig''])),
          (''artifact_dir'', Exact artifact),
          (''artifact_path'', Exact (path_join artifact [''artifact''])),
          (''transaction_dir'', Exact transaction),
          (''response_trust_path'', Exact (path_join transaction [''responses.allowed_signers'']))])"

section \<open>Identities and digests\<close>

definition file_identity_fields :: "string list" where
  "file_identity_fields =
     [''response_trust_identity'', ''candidate_identity'', ''artifact_identity'',
      ''response_identity'', ''response_signature_identity'', ''outcome_deployment_identity'',
      ''outcome_deployment_signature_identity'', ''outcome_deployers_identity'',
      ''outcome_decision_identity''] @
     map (\<lambda>key. source_field key ''identity'') CANDIDATE_SOURCE_KEYS"

definition final_identities :: "csr_journal_record \<Rightarrow> (string \<times> parsed_identity) list result" where
  "final_identities r =
     bindE (mapE (identity_entry r KDirectory {})
       [''outcome_stage_identity'', ''candidate_dir_identity'', ''response_dir_identity'',
        ''transaction_dir_identity'', ''artifact_dir_identity'']) (\<lambda>directories.
     bindE (identity_entry r KDirectory {NONE} ''outcome_destination_identity'') (\<lambda>outcome.
     bindE (mapE (\<lambda>(field, sentinels). identity_entry r KObject sentinels field)
       [(''active_stage_identity'', {}), (''active_pre_identity'', {ABSENT})]) (\<lambda>actives.
     bindE (identity_entry r KObject {NONE} ''active_destination_identity'') (\<lambda>active.
     bindE (mapE (identity_entry r KFile {}) file_identity_fields) (\<lambda>files.
       Inr (directories @ [outcome] @ actives @ [active] @ files))))))"

definition digest_fields :: "string list" where
  "digest_fields =
     [''response_trust_sha256'', ''candidate_sha256'', ''artifact_sha256'', ''response_sha256'',
      ''response_signature_sha256'', ''deployment_sha256'', ''deployment_signature_sha256'',
      ''deployers_sha256'', ''decision_sha256'', ''active_sha256''] @
     map (\<lambda>key. source_field key ''sha256'') CANDIDATE_SOURCE_KEYS"

section \<open>Consistency\<close>

definition check_active_mode :: "csr_journal_record \<Rightarrow> active_mode \<Rightarrow> unit result" where
  "check_active_mode r mode =
     (case mode of
        CREATE \<Rightarrow>
          requireE (val r ''active_pre_identity'' = ''absent'' \<and> val r ''active_pre_sha256'' = ''none'')
            (CsrRecoveryError ''CSR finalization create mode has a predecessor'')
      | EXCHANGE \<Rightarrow>
          bindE (requireE (val r ''active_pre_identity'' \<noteq> ''absent'')
            (CsrRecoveryError ''CSR finalization exchange mode lacks a predecessor'')) (\<lambda>_.
          check_digest (val r ''active_pre_sha256'') ''active_pre_sha256'' False))"

definition expected_outcome :: "csr_journal_record \<Rightarrow> finalization_phase \<Rightarrow> string" where
  "expected_outcome r phase =
     (if phase = FinPlanned then ''none'' else val r ''outcome_stage_identity'')"

definition expected_active :: "csr_journal_record \<Rightarrow> finalization_phase \<Rightarrow> string" where
  "expected_active r phase =
     (if phase = ACTIVE_PUBLISHED then val r ''active_stage_identity'' else ''none'')"

definition check_final_phase :: "csr_journal_record \<Rightarrow> finalization_phase \<Rightarrow> unit result" where
  "check_final_phase r phase =
     requireE (\<not> (val r ''outcome_destination_identity'' \<noteq> expected_outcome r phase \<or>
         val r ''active_destination_identity'' \<noteq> expected_active r phase))
       (CsrRecoveryError ''CSR finalization phase identities are inconsistent'')"

definition source_root :: "string \<Rightarrow> string \<Rightarrow> string \<Rightarrow> string \<Rightarrow> string" where
  "source_root root service request_id source =
     (if source = ''candidate'' then candidate_dir root service request_id
      else if source = ''response'' then response_dir root service request_id
      else artifact_dir root service request_id)"

definition source_paths :: "string \<Rightarrow> string \<Rightarrow> string \<Rightarrow> (string \<times> string) list" where
  "source_paths root service request_id =
     map (\<lambda>(key, source, name). (key, path_join (source_root root service request_id source) [name]))
       CANDIDATE_SOURCE_PATHS"

definition main_source_bindings :: "(string \<times> string) list" where
  "main_source_bindings =
     [(''candidate'', ''source_candidate_candidate''), (''artifact'', ''source_artifact_artifact''),
      (''response'', ''source_response_response''),
      (''response_signature'', ''source_response_response_sig'')]"

definition check_source_binding :: "csr_journal_record \<Rightarrow> string \<times> string \<Rightarrow> unit result" where
  "check_source_binding r binding =
     (let (field, source) = binding
      in requireE (\<not> (val r (field @ ''_identity'') \<noteq> val r (source @ ''_identity'') \<or>
             val r (field @ ''_sha256'') \<noteq> val r (source @ ''_sha256'')))
           (CsrRecoveryError (''CSR finalization source evidence '' @ field @ '' conflicts'')))"

section \<open>The parser\<close>

definition finalization_journal_of :: "csr_journal_record \<Rightarrow> string \<Rightarrow> finalization_journal result" where
  "finalization_journal_of r root =
     bindE (expect_pattern (val r ''service'') SERVICE_RX ''service'') (\<lambda>service.
     bindE (expect_pattern (val r ''request_id'') HEX32_RX ''request_id'') (\<lambda>request_id.
     bindE (enum_member finalization_value [FinPlanned, OUTCOME_PUBLISHED, ACTIVE_PUBLISHED]
       (val r ''phase'') ''phase'') (\<lambda>phase.
     bindE (enum_member mode_value [CREATE, EXCHANGE] (val r ''active_mode'') ''active_mode'') (\<lambda>mode.
     bindE (mapE (check_final_path r) (final_paths root service request_id)) (\<lambda>paths.
     bindE (final_identities r) (\<lambda>identities.
     bindE (forE (\<lambda>f. check_digest (val r f) f False) digest_fields) (\<lambda>_.
     bindE (check_active_mode r mode) (\<lambda>_.
     bindE (check_final_phase r phase) (\<lambda>_.
     bindE (forE (check_source_binding r) main_source_bindings) (\<lambda>_.
       Inr \<lparr>fj_record = r, fj_pki_dir = root, fj_phase = phase, fj_active_mode = mode,
         fj_identities = sorted_items (dict_of identities),
         fj_paths = sorted_items (dict_of paths),
         fj_source_paths = source_paths root service request_id\<rparr>))))))))))"

definition parse_finalization_journal :: "string \<Rightarrow> string \<Rightarrow> finalization_journal result" where
  "parse_finalization_journal data pki_dir =
     bindE (parse_finalization_journal_structure data) (\<lambda>r.
     bindE (canonical_pki_dir pki_dir) (\<lambda>root. finalization_journal_of r root))"

end
