(* ===== verification/CliText.thy ===== *)
theory CliText
  imports Text
begin

text \<open>
  The text primitives of the command surface. A command-line argument is a Python string; the
  model covers the code points below 256, one 8-bit character each. Of these the Unicode categories
  \<open>Cc\<close>, \<open>Cf\<close>, \<open>Cs\<close>, \<open>Zl\<close>, \<open>Zp\<close> hold the control characters and the soft hyphen.
  \<open>text_greater\<close> is the code point order of Python strings and of byte strings.
\<close>

section \<open>Unsafe characters\<close>

definition unsafe_char :: "char \<Rightarrow> bool" where
  "unsafe_char c \<longleftrightarrow> code c < 32 \<or> (127 \<le> code c \<and> code c < 160) \<or> code c = 173"

definition unsafe_text :: "string \<Rightarrow> bool" where
  "unsafe_text s = list_ex unsafe_char s"

definition safe_text :: "string \<Rightarrow> string" where
  "safe_text value = map (\<lambda>c. if unsafe_char c then CHR ''?'' else c) value"

lemma unsafe_text_append [simp]: "unsafe_text (s @ t) \<longleftrightarrow> unsafe_text s \<or> unsafe_text t"
  by (simp add: unsafe_text_def)

lemma unsafe_text_Nil [simp]: "\<not> unsafe_text []"
  by (simp add: unsafe_text_def)

lemma unsafe_text_Cons [simp]: "unsafe_text (c # s) \<longleftrightarrow> unsafe_char c \<or> unsafe_text s"
  by (simp add: unsafe_text_def)

lemma safe_text_safe [simp]: "\<not> unsafe_text (safe_text s)"
  by (induction s) (auto simp: safe_text_def unsafe_char_def code_def)

lemma safe_text_id: "\<not> unsafe_text s \<Longrightarrow> safe_text s = s"
  by (induction s) (auto simp: safe_text_def)

lemma length_safe_text [simp]: "length (safe_text s) = length s"
  by (simp add: safe_text_def)

section \<open>Joining and comparing\<close>

lemma unsafe_text_join:
  "\<not> unsafe_text sep \<Longrightarrow> (\<And>w. w \<in> set ws \<Longrightarrow> \<not> unsafe_text w) \<Longrightarrow> \<not> unsafe_text (join_on sep ws)"
  by (induction sep ws rule: join_on.induct) auto

text \<open>\<open>a > b\<close> for Python strings: the first difference decides, a proper extension is greater.\<close>

fun text_greater :: "string \<Rightarrow> string \<Rightarrow> bool" where
  "text_greater [] t \<longleftrightarrow> False"
| "text_greater (a # s) [] \<longleftrightarrow> True"
| "text_greater (a # s) (b # t) \<longleftrightarrow> code a > code b \<or> (a = b \<and> text_greater s t)"

lemma text_greater_irrefl [simp]: "\<not> text_greater s s"
  by (induction s) auto

lemma text_greater_trans: "text_greater a b \<Longrightarrow> text_greater b c \<Longrightarrow> text_greater a c"
proof (induction a b arbitrary: c rule: text_greater.induct)
  case (3 a s b t)
  then show ?case by (cases c) auto
qed auto

lemma text_greater_total: "s = t \<or> text_greater s t \<or> text_greater t s"
proof (induction s t rule: text_greater.induct)
  case (3 a s b t)
  then show ?case using code_inj [of a b] by (auto simp: not_less_iff_gr_or_eq)
next
  case (1 t)
  then show ?case by (cases t) auto
qed simp

text \<open>On digit strings of one length the text order is the order of the numbers.\<close>

lemma text_nat_Cons:
  "text_nat b (c # s) = digit_val c * b ^ length s + text_nat b s"
  by (induction s rule: rev_induct) (simp_all add: algebra_simps flip: append_Cons)

lemma text_greater_nat:
  assumes "length s = length t" and "\<forall>c \<in> set s. is_digit c" and "\<forall>c \<in> set t. is_digit c"
  shows "text_greater s t \<longleftrightarrow> text_nat 10 s > text_nat 10 t"
  using assms
proof (induction s t rule: list_induct2)
  case (Cons a s b t)
  have less: "text_nat 10 s < 10 ^ length s" "text_nat 10 t < 10 ^ length s"
    using Cons.prems Cons.hyps text_nat_less [of s] text_nat_less [of t] by auto
  have val: "code a = digit_val a + 48" "code b = digit_val b + 48"
    using Cons.prems by (auto simp: is_digit_def digit_val_def code_def)
  consider "digit_val a < digit_val b" | "digit_val a > digit_val b" | "digit_val a = digit_val b"
    by linarith
  then show ?case
  proof cases
    case 1
    then have "digit_val a * 10 ^ length s + 10 ^ length s \<le> digit_val b * 10 ^ length s"
      by (metis Suc_leI mult_Suc add.commute mult_le_mono1)
    with 1 less val Cons.hyps show ?thesis by (auto simp: text_nat_Cons)
  next
    case 2
    then have "digit_val b * 10 ^ length s + 10 ^ length s \<le> digit_val a * 10 ^ length s"
      by (metis Suc_leI mult_Suc add.commute mult_le_mono1)
    with 2 less val Cons.hyps show ?thesis by (auto simp: text_nat_Cons)
  next
    case 3
    with val have "a = b" by (intro code_inj) simp
    with Cons show ?thesis by (simp add: text_nat_Cons)
  qed
qed simp

section \<open>Day counts\<close>

text \<open>
  The bound that the parser and the inventory put on a number of days, on the text of the number:
  a value whose leading zeros are dropped is too long, or it is larger as text.
\<close>

definition days_normal :: "string \<Rightarrow> string" where
  "days_normal value = (let s = lstrip (CHR ''0'') value in if s = [] then ''0'' else s)"

definition days_above :: "string \<Rightarrow> bool" where
  "days_above n \<longleftrightarrow> length n > 6 \<or> (length n = 6 \<and> text_greater n ''365000'')"

lemma lstrip_Cons: "lstrip c (a # s) = (if a = c then lstrip c s else a # s)"
  by (simp add: lstrip_def)

lemma text_nat_lstrip: "text_nat b (lstrip (CHR ''0'') s) = text_nat b s"
proof (induction s)
  case (Cons a s)
  have "digit_val (CHR ''0'') = 0" by (simp add: digit_val_def code_def)
  with Cons show ?case by (simp add: lstrip_Cons text_nat_Cons)
qed (simp add: lstrip_def)

lemma lstrip_digits: "\<forall>c \<in> set s. is_digit c \<Longrightarrow> \<forall>c \<in> set (lstrip a s). is_digit c"
  by (auto simp: lstrip_def dest: set_dropWhileD)

lemma hd_lstrip: "lstrip a s \<noteq> [] \<Longrightarrow> hd (lstrip a s) \<noteq> a"
  unfolding lstrip_def by (rule hd_dropWhile)

lemma days_normal_digits: "\<forall>c \<in> set s. is_digit c \<Longrightarrow> \<forall>c \<in> set (days_normal s). is_digit c"
  using lstrip_digits [of s "CHR ''0''"] by (auto simp: days_normal_def Let_def is_digit_def code_def)

lemma text_nat_days_normal: "text_nat 10 (days_normal s) = text_nat 10 s"
  using text_nat_lstrip [of 10 s]
  by (auto simp: days_normal_def Let_def digit_val_def code_def)

lemma days_zero:
  assumes "\<forall>c \<in> set s. is_digit c"
  shows "days_normal s = ''0'' \<longleftrightarrow> text_nat 10 s = 0"
proof (cases "lstrip (CHR ''0'') s = []")
  case True
  with text_nat_lstrip [of 10 s] show ?thesis by (simp add: days_normal_def)
next
  case False
  let ?n = "lstrip (CHR ''0'') s"
  have "is_digit (hd ?n)" using lstrip_digits [OF assms, of "CHR ''0''"] False by simp
  from text_nat_pos [OF _ False this hd_lstrip [OF False]] have "0 < text_nat 10 s"
    by (simp add: text_nat_lstrip)
  moreover have "?n \<noteq> ''0''" using hd_lstrip [OF False] by auto
  ultimately show ?thesis using False by (simp add: days_normal_def)
qed

text \<open>The textual bound is the bound on the number.\<close>

lemma days_above_iff:
  assumes "\<forall>c \<in> set s. is_digit c"
  shows "days_above (days_normal s) \<longleftrightarrow> text_nat 10 s > 365000"
proof (cases "lstrip (CHR ''0'') s = []")
  case True
  with text_nat_lstrip [of 10 s] show ?thesis by (simp add: days_normal_def days_above_def)
next
  case False
  let ?n = "lstrip (CHR ''0'') s"
  have n: "days_normal s = ?n" using False by (simp add: days_normal_def)
  have digits: "\<forall>c \<in> set ?n. is_digit c" using lstrip_digits [OF assms] .
  have v365: "text_nat 10 ''365000'' = 365000" by (simp add: text_nat_Cons digit_val_def code_def)
  have less: "text_nat 10 ?n < 10 ^ length ?n" using text_nat_less [OF digits] .
  obtain a t where at: "?n = a # t" using False by (cases ?n) auto
  have a: "is_digit a" "a \<noteq> CHR ''0''" using digits hd_lstrip [OF False] by (simp_all add: at)
  then have "1 \<le> digit_val a" using digit_val_eq_0 [of a] by (cases "digit_val a") auto
  then have low: "10 ^ length t \<le> text_nat 10 ?n"
    unfolding at text_nat_Cons by (simp add: trans_le_add1)
  consider "length ?n < 6" | "length ?n = 6" | "length ?n > 6" by linarith
  then show ?thesis
  proof cases
    case 1
    then have "(10::nat) ^ length ?n \<le> 10 ^ 5" by (intro power_increasing) simp_all
    with less 1 show ?thesis by (simp add: n days_above_def text_nat_lstrip)
  next
    case 2
    have "text_greater ?n ''365000'' \<longleftrightarrow> text_nat 10 ?n > text_nat 10 ''365000''"
      by (rule text_greater_nat) (use 2 digits in \<open>simp_all add: is_digit_def code_def\<close>)
    with 2 v365 show ?thesis by (simp add: n days_above_def text_nat_lstrip)
  next
    case 3
    then have "(10::nat) ^ 6 \<le> 10 ^ length t" by (intro power_increasing) (simp_all add: at)
    with low 3 show ?thesis by (simp add: n days_above_def text_nat_lstrip)
  qed
qed

end
