(* ===== verification/ParserTypes.thy ===== *)
theory ParserTypes
  imports CliText Regex
begin

text \<open>
  The data model of \<open>parser.py\<close>: positional, option and route specifications, the diagnostics, and
  the helpers \<open>_option\<close>, \<open>_options\<close>, \<open>_service\<close> and \<open>_route\<close> that build the route table. The keyword
  arguments of \<open>_route\<close> are the fields of \<open>route_args\<close>, their defaults are \<open>no_args\<close>.
\<close>

section \<open>Diagnostics\<close>

text \<open>
  \<open>ParserError(message, application=...)\<close>: the constructor refuses an empty message and one with
  unsafe characters other than line feeds.
\<close>

definition parser_error :: "string \<Rightarrow> bool \<Rightarrow> exn" where
  "parser_error message application =
     (if message = [] \<or> list_ex (\<lambda>c. unsafe_char c \<and> c \<noteq> NL) message then
        ValueError ''parser diagnostic must be nonempty text''
      else ParserError message application)"

definition render_parser_error :: "string \<Rightarrow> bool \<Rightarrow> string" where
  "render_parser_error message application =
     (if application then ''[ERROR] '' else []) @ rev (dropWhile (\<lambda>c. c = NL) (rev message)) @ [NL]"

section \<open>Specifications\<close>

record positional_spec =
  pos_name :: string
  pos_metavar :: string
  pos_required :: bool
  pos_repeatable :: bool

record option_spec =
  os_name :: string
  os_metavar :: "string option"
  os_required :: bool
  os_default :: "string option"
  os_choices :: "string list"
  os_validator :: "string option"
  os_repeatable :: bool
  os_reject_duplicate :: bool
  os_conflicts :: "string list"

definition os_boolean :: "option_spec \<Rightarrow> bool" where
  "os_boolean option = (os_metavar option = None)"

text \<open>An absent metavar prints as \<open>None\<close>.\<close>

definition metavar_text :: "option_spec \<Rightarrow> string" where
  "metavar_text option = (case os_metavar option of None \<Rightarrow> ''None'' | Some m \<Rightarrow> m)"

record route_spec =
  rs_route :: "string list"
  rs_positionals :: "positional_spec list"
  rs_options :: "option_spec list"
  rs_reject_duplicates :: "string list"

section \<open>Constants\<close>

definition HELP_FLAGS :: "string set" where
  "HELP_FLAGS = {''-h'', ''--help''}"

definition VERSION_FLAGS :: "string set" where
  "VERSION_FLAGS = {''-v'', ''--version''}"

definition is_option_char :: "char \<Rightarrow> bool" where
  "is_option_char c \<longleftrightarrow> is_alnum c \<or> c = CHR ''_'' \<or> c = CHR ''-''"

definition LONG_OPTION_RX :: "char rx" where
  "LONG_OPTION_RX = Cat (Lit ''--'') (Plus (Cls is_option_char))"

definition SHORT_OPTION_RX :: "char rx" where
  "SHORT_OPTION_RX = Cat (Lit ''-'') (Cls is_alnum)"

definition SHORT_CLUSTER_RX :: "char rx" where
  "SHORT_CLUSTER_RX = Cat (Lit ''-'') (Cat (Cls is_alnum) (Plus (Cls is_alnum)))"

definition BOOLEAN_OPTIONS :: "string list" where
  "BOOLEAN_OPTIONS = [''--force'', ''--yes'', ''--allow-unencrypted-root-key'',
     ''--allow-unencrypted-intermediate-key'', ''--rotate-key'', ''--allow-plain-backup'']"

definition CSR_INPUT_OPTIONS :: "string list" where
  "CSR_INPUT_OPTIONS = [''--csr-file'', ''--request-file'', ''--request-signature'',
     ''--approval-file'', ''--approval-signature'', ''--response-key'', ''--current-cert-file'']"

definition OPTION_METAVARS :: "(string \<times> string) list" where
  "OPTION_METAVARS =
    [(''--namespace'', ''PATH''), (''--pki-dir'', ''PATH''), (''--root'', ''PATH''),
     (''--private-repo'', ''PATH''), (''--transaction'', ''ID''),
     (''--response-key'', ''PATH''), (''--outcome-key'', ''PATH''),
     (''--approval-key'', ''PATH''), (''--input-dir'', ''PATH''),
     (''--output-dir'', ''PATH''), (''--operation'', ''OPERATION''),
     (''--request-id'', ''ID''), (''--manifest-sha256'', ''DIGEST''),
     (''--format'', ''FORMAT''), (''--artifact-manifest-sha256'', ''DIGEST''),
     (''--evidence-file'', ''PATH''), (''--evidence-signature'', ''PATH''),
     (''--name'', ''CN''), (''--org'', ''ORG''), (''--country'', ''COUNTRY''),
     (''--days'', ''DAYS''), (''--root-pass-file'', ''PATH''),
     (''--issuer-safety-days'', ''DAYS''), (''--intermediate-pass-file'', ''PATH''),
     (''--csr-file'', ''PATH''), (''--request-file'', ''PATH''),
     (''--request-signature'', ''PATH''), (''--approval-file'', ''PATH''),
     (''--approval-signature'', ''PATH''), (''--current-cert-file'', ''PATH''),
     (''--min-days'', ''DAYS''), (''--warn-days'', ''DAYS''), (''--critical-days'', ''DAYS''),
     (''--export-dir'', ''PATH''), (''--backup-dir'', ''PATH''),
     (''--age-recipient'', ''VALUE''), (''--backup-receipt'', ''PATH''),
     (''--expected-root-sha256'', ''DIGEST''),
     (''--expected-intermediate-sha256'', ''DIGEST''), (''--type'', ''TYPE''),
     (''--root-name'', ''CN''), (''--intermediate-name'', ''CN''),
     (''--root-days'', ''DAYS''), (''--intermediate-days'', ''DAYS''),
     (''--action'', ''ACTION''), (''--exchange-root'', ''PATH''), (''--stage'', ''STAGE''),
     (''--service'', ''SERVICE''), (''--target'', ''TARGET''),
     (''--package-version'', ''VERSION''), (''--source-dir'', ''PATH''),
     (''--destination-dir'', ''PATH''), (''--project-record'', ''PATH''),
     (''--token-type'', ''TYPE''), (''--token-file'', ''PATH''), (''--ca-file'', ''PATH''),
     (''--inventory-record'', ''PATH''), (''--trust-dir'', ''PATH''),
     (''--transport-host-key-sha256'', ''DIGEST''), (''--timeout'', ''SECONDS''),
     (''--processing-attempts'', ''COUNT''), (''--processing-interval'', ''SECONDS'')]"

section \<open>Building the table\<close>

record route_args =
  ra_positionals :: "positional_spec list"
  ra_required :: "string list"
  ra_defaults :: "(string \<times> string) list"
  ra_choices :: "(string \<times> string list) list"
  ra_validators :: "(string \<times> string) list"
  ra_repeatable :: "string list"
  ra_reject_duplicates :: "string list"
  ra_conflicts :: "(string \<times> string list) list"

definition no_args :: route_args where
  "no_args = \<lparr>ra_positionals = [], ra_required = [], ra_defaults = [], ra_choices = [],
     ra_validators = [], ra_repeatable = [], ra_reject_duplicates = [], ra_conflicts = []\<rparr>"

text \<open>
  \<open>dict(pairs).get(name)\<close>: a later pair replaces an earlier one. A name outside the metavar table
  stops the import of the module with a \<open>KeyError\<close>; no route of the table has one
  (\<open>route_options_known\<close>).
\<close>

definition dict_get :: "(string \<times> 'a) list \<Rightarrow> string \<Rightarrow> 'a option" where
  "dict_get pairs name = map_of (rev pairs) name"

definition option_of :: "route_args \<Rightarrow> string \<Rightarrow> option_spec" where
  "option_of a name =
     \<lparr>os_name = name,
      os_metavar = (if name \<in> set BOOLEAN_OPTIONS then None else map_of OPTION_METAVARS name),
      os_required = (name \<in> set (ra_required a)),
      os_default = dict_get (ra_defaults a) name,
      os_choices = (case dict_get (ra_choices a) name of None \<Rightarrow> [] | Some cs \<Rightarrow> cs),
      os_validator = dict_get (ra_validators a) name,
      os_repeatable = (name \<in> set (ra_repeatable a)),
      os_reject_duplicate = (name \<in> set (ra_reject_duplicates a)),
      os_conflicts = (case dict_get (ra_conflicts a) name of None \<Rightarrow> [] | Some cs \<Rightarrow> cs)\<rparr>"

definition options_of :: "route_args \<Rightarrow> string list \<Rightarrow> option_spec list" where
  "options_of a names = map (option_of a) names"

definition service_positional :: "bool \<Rightarrow> positional_spec list" where
  "service_positional repeatable =
     [\<lparr>pos_name = (if repeatable then ''services'' else ''service''),
       pos_metavar = (if repeatable then ''SERVICES'' else ''SERVICE''),
       pos_required = (\<not> repeatable), pos_repeatable = repeatable\<rparr>]"

definition route :: "string list \<Rightarrow> string list \<Rightarrow> route_args \<Rightarrow> route_spec" where
  "route r option_names a =
     \<lparr>rs_route = r, rs_positionals = ra_positionals a, rs_options = options_of a option_names,
      rs_reject_duplicates = ra_reject_duplicates a\<rparr>"

section \<open>Simple facts\<close>

lemma os_name_option_of [simp]: "os_name (option_of a n) = n"
  by (simp add: option_of_def)

lemma parser_error_safe:
  "m \<noteq> [] \<Longrightarrow> \<not> list_ex (\<lambda>c. unsafe_char c \<and> c \<noteq> NL) m \<Longrightarrow> parser_error m a = ParserError m a"
  by (simp add: parser_error_def)

lemma parser_error_no_unsafe: "m \<noteq> [] \<Longrightarrow> \<not> unsafe_text m \<Longrightarrow> parser_error m a = ParserError m a"
  by (rule parser_error_safe) (auto simp: unsafe_text_def list_ex_iff)

end
