(* ===== verification/Routes.thy ===== *)
theory Routes
  imports ParserTypes
begin

text \<open>
  The route table \<open>ROUTES\<close> of \<open>parser.py\<close>, one definition per \<open>_route\<close> call, in the order of the
  table. \<open>lookup_route\<close> is \<open>ROUTE_SPECS\<close>.
\<close>

section \<open>Shared option lists\<close>

definition NS :: "string list" where
  "NS = [''--namespace'', ''--pki-dir'']"

definition NS_VALIDATORS :: "(string \<times> string) list" where
  "NS_VALIDATORS = [(''--namespace'', ''not_empty''), (''--pki-dir'', ''not_empty'')]"

definition SERVICE_OPTIONS :: "string list" where
  "SERVICE_OPTIONS = NS @ [''--days'', ''--issuer-safety-days'', ''--intermediate-pass-file'',
     ''--rotate-key''] @ CSR_INPUT_OPTIONS"

definition SERVICE_VALIDATORS :: "(string \<times> string) list" where
  "SERVICE_VALIDATORS = NS_VALIDATORS @ [(''--days'', ''days''), (''--issuer-safety-days'', ''days''),
     (''--intermediate-pass-file'', ''not_empty'')] @ map (\<lambda>name. (name,
     ''not_empty'')) CSR_INPUT_OPTIONS"

definition CERT_EXPORT_DUPLICATES :: "string list" where
  "CERT_EXPORT_DUPLICATES = [''--request-id'', ''--manifest-sha256'', ''--format'', ''--namespace'', ''--pki-dir'']"

definition CSR_OUTCOME_PUBLISH_DUPLICATES :: "string list" where
  "CSR_OUTCOME_PUBLISH_DUPLICATES = [''--request-id'', ''--outcome-key'', ''--namespace'', ''--pki-dir'']"

definition CSR_OUTCOME_RESOLVE_DUPLICATES :: "string list" where
  "CSR_OUTCOME_RESOLVE_DUPLICATES = [''--request-id'', ''--manifest-sha256'', ''--format'', ''--namespace'', ''--pki-dir'']"

definition CANDIDATE_DECISION_DUPLICATES :: "string list" where
  "CANDIDATE_DECISION_DUPLICATES = [''--request-id'', ''--artifact-manifest-sha256'', ''--evidence-file'',
     ''--evidence-signature'', ''--yes'', ''--namespace'', ''--pki-dir'']"

section \<open>Routes\<close>

definition route_init :: route_spec where
  "route_init = route [''init'']
    (NS @ [''--force''])
    (no_args\<lparr>ra_validators := NS_VALIDATORS\<rparr>)"

definition route_inventory_install :: route_spec where
  "route_inventory_install = route [''inventory-install'']
    ([''--private-repo''] @ NS)
    (no_args\<lparr>ra_defaults := [(''--private-repo'', ''../platform-private'')],
      ra_validators := [(''--private-repo'', ''not_empty'')] @ NS_VALIDATORS,
      ra_reject_duplicates := [''--private-repo''] @ NS\<rparr>)"

definition route_csr_trust_install :: route_spec where
  "route_csr_trust_install = route [''csr-trust-install'']
    ([''--private-repo''] @ NS)
    (no_args\<lparr>ra_defaults := [(''--private-repo'', ''../platform-private'')],
      ra_validators := [(''--private-repo'', ''not_empty'')] @ NS_VALIDATORS,
      ra_reject_duplicates := [''--private-repo''] @ NS\<rparr>)"

definition route_csr_recover :: route_spec where
  "route_csr_recover = route [''csr-recover'']
    ([''--transaction'', ''--response-key''] @ NS @ [''--yes''])
    (no_args\<lparr>ra_validators := [(''--transaction'', ''not_empty''), (''--response-key'', ''not_empty'')] @
        NS_VALIDATORS,
      ra_reject_duplicates := [''--transaction'', ''--response-key''] @ NS @ [''--yes'']\<rparr>)"

definition route_offline_csr_approve :: route_spec where
  "route_offline_csr_approve = route [''offline-csr'', ''approve'']
    ([''--operation'', ''--request-id'', ''--input-dir'', ''--approval-key'', ''--output-dir'',
     ''--current-cert-file''] @ NS @ [''--yes''])
    (no_args\<lparr>ra_positionals := service_positional False,
      ra_required := [''--operation'', ''--request-id'', ''--input-dir'', ''--approval-key'',
        ''--output-dir''],
      ra_choices := [(''--operation'', [''issue'', ''migrate'', ''renew''])],
      ra_validators := [(''--request-id'', ''not_empty''), (''--input-dir'', ''not_empty''),
        (''--approval-key'', ''not_empty''), (''--output-dir'', ''not_empty''),
        (''--current-cert-file'', ''not_empty'')] @ NS_VALIDATORS,
      ra_reject_duplicates := [''--operation'', ''--request-id'', ''--input-dir'', ''--approval-key'',
        ''--output-dir'', ''--current-cert-file''] @ NS @ [''--yes'']\<rparr>)"

definition route_offline_csr_sign :: route_spec where
  "route_offline_csr_sign = route [''offline-csr'', ''sign'']
    ([''--operation'', ''--request-id'', ''--input-dir'', ''--response-key'',
     ''--current-cert-file'', ''--intermediate-pass-file'', ''--issuer-safety-days''] @ NS @
     [''--yes''])
    (no_args\<lparr>ra_positionals := service_positional False,
      ra_required := [''--operation'', ''--request-id'', ''--input-dir'', ''--response-key''],
      ra_defaults := [(''--issuer-safety-days'', ''1'')],
      ra_choices := [(''--operation'', [''issue'', ''migrate'', ''renew''])],
      ra_validators := [(''--request-id'', ''not_empty''), (''--input-dir'', ''not_empty''),
        (''--response-key'', ''not_empty''), (''--current-cert-file'', ''not_empty''),
        (''--intermediate-pass-file'', ''not_empty''), (''--issuer-safety-days'', ''days'')] @
        NS_VALIDATORS,
      ra_reject_duplicates := [''--operation'', ''--request-id'', ''--input-dir'', ''--response-key'',
        ''--current-cert-file'', ''--intermediate-pass-file'', ''--issuer-safety-days''] @ NS @
        [''--yes'']\<rparr>)"

definition route_offline_workspace_init :: route_spec where
  "route_offline_workspace_init = route [''offline-workspace'', ''init'']
    ([''--root''])
    (no_args\<lparr>ra_positionals := service_positional False,
      ra_validators := [(''--root'', ''not_empty'')],
      ra_reject_duplicates := [''--root'']\<rparr>)"

definition route_certificate_export_publish :: route_spec where
  "route_certificate_export_publish = route [''certificate-export'', ''publish'']
    ([''--request-id''] @ NS)
    (no_args\<lparr>ra_positionals := service_positional False,
      ra_required := [''--request-id''],
      ra_validators := [(''--request-id'', ''not_empty'')] @ NS_VALIDATORS,
      ra_reject_duplicates := CERT_EXPORT_DUPLICATES\<rparr>)"

definition route_certificate_export_resolve :: route_spec where
  "route_certificate_export_resolve = route [''certificate-export'', ''resolve'']
    ([''--request-id'', ''--manifest-sha256'', ''--format''] @ NS)
    (no_args\<lparr>ra_positionals := service_positional False,
      ra_required := [''--request-id'', ''--manifest-sha256''],
      ra_defaults := [(''--format'', ''path'')],
      ra_choices := [(''--format'', [''path'', ''json''])],
      ra_validators := [(''--request-id'', ''not_empty''), (''--manifest-sha256'', ''not_empty'')] @
        NS_VALIDATORS,
      ra_reject_duplicates := CERT_EXPORT_DUPLICATES\<rparr>)"

definition route_csr_outcome_publish :: route_spec where
  "route_csr_outcome_publish = route [''csr-outcome'', ''publish'']
    ([''--request-id'', ''--outcome-key''] @ NS)
    (no_args\<lparr>ra_positionals := service_positional False,
      ra_required := [''--request-id'', ''--outcome-key''],
      ra_validators := [(''--request-id'', ''not_empty''), (''--outcome-key'', ''not_empty'')] @ NS_VALIDATORS,
      ra_reject_duplicates := CSR_OUTCOME_PUBLISH_DUPLICATES\<rparr>)"

definition route_csr_outcome_resolve :: route_spec where
  "route_csr_outcome_resolve = route [''csr-outcome'', ''resolve'']
    ([''--request-id'', ''--manifest-sha256'', ''--format''] @ NS)
    (no_args\<lparr>ra_positionals := service_positional False,
      ra_required := [''--request-id'', ''--manifest-sha256''],
      ra_defaults := [(''--format'', ''path'')],
      ra_choices := [(''--format'', [''path'', ''json''])],
      ra_validators := [(''--request-id'', ''not_empty''), (''--manifest-sha256'', ''not_empty'')] @
        NS_VALIDATORS,
      ra_reject_duplicates := CSR_OUTCOME_RESOLVE_DUPLICATES\<rparr>)"

definition route_csr_candidate_verify :: route_spec where
  "route_csr_candidate_verify = route [''csr-candidate'', ''verify'']
    ([''--request-id'', ''--format''] @ NS)
    (no_args\<lparr>ra_positionals := service_positional False,
      ra_required := [''--request-id''],
      ra_defaults := [(''--format'', ''text'')],
      ra_choices := [(''--format'', [''text'', ''json''])],
      ra_validators := [(''--request-id'', ''not_empty'')] @ NS_VALIDATORS,
      ra_reject_duplicates := [''--request-id'', ''--format''] @ NS\<rparr>)"

definition route_csr_candidate_decision :: "string \<Rightarrow> route_spec" where
  "route_csr_candidate_decision action = route [''csr-candidate'', action]
    ([''--request-id'', ''--artifact-manifest-sha256'', ''--evidence-file'',
     ''--evidence-signature'', ''--yes''] @ NS)
    (no_args\<lparr>ra_positionals := service_positional False,
      ra_required := [''--request-id'', ''--artifact-manifest-sha256'', ''--evidence-file'',
        ''--evidence-signature''],
      ra_validators := [(''--request-id'', ''not_empty''), (''--artifact-manifest-sha256'', ''not_empty''),
        (''--evidence-file'', ''not_empty''), (''--evidence-signature'', ''not_empty'')] @
        NS_VALIDATORS,
      ra_reject_duplicates := CANDIDATE_DECISION_DUPLICATES\<rparr>)"

definition route_root_create :: route_spec where
  "route_root_create = route [''root-create'']
    (NS @ [''--name'', ''--org'', ''--country'', ''--days'', ''--root-pass-file'',
     ''--allow-unencrypted-root-key'', ''--force''])
    (no_args\<lparr>ra_required := [''--name'', ''--org'', ''--country''],
      ra_validators := NS_VALIDATORS @ [(''--name'', ''not_empty''), (''--org'', ''not_empty''),
        (''--country'', ''not_empty''), (''--days'', ''days''),
        (''--root-pass-file'', ''not_empty'')],
      ra_conflicts := [(''--root-pass-file'', [''--allow-unencrypted-root-key'']),
        (''--allow-unencrypted-root-key'', [''--root-pass-file''])]\<rparr>)"

definition route_intermediate_create :: route_spec where
  "route_intermediate_create = route [''intermediate-create'']
    (NS @ [''--name'', ''--org'', ''--country'', ''--days'', ''--issuer-safety-days'',
     ''--root-pass-file'', ''--intermediate-pass-file'',
     ''--allow-unencrypted-intermediate-key'', ''--force''])
    (no_args\<lparr>ra_required := [''--name'', ''--org'', ''--country''],
      ra_defaults := [(''--issuer-safety-days'', ''1'')],
      ra_validators := NS_VALIDATORS @ [(''--name'', ''not_empty''), (''--org'', ''not_empty''),
        (''--country'', ''not_empty''), (''--days'', ''days''),
        (''--issuer-safety-days'', ''days''), (''--root-pass-file'', ''not_empty''),
        (''--intermediate-pass-file'', ''not_empty'')],
      ra_conflicts := [(''--intermediate-pass-file'', [''--allow-unencrypted-intermediate-key'']),
        (''--allow-unencrypted-intermediate-key'', [''--intermediate-pass-file''])]\<rparr>)"

definition route_service_write :: "string \<Rightarrow> route_spec" where
  "route_service_write action = route [''service-'' @ action]
    (SERVICE_OPTIONS)
    (no_args\<lparr>ra_positionals := service_positional False,
      ra_defaults := [(''--issuer-safety-days'', ''1'')],
      ra_validators := SERVICE_VALIDATORS,
      ra_reject_duplicates := CSR_INPUT_OPTIONS\<rparr>)"

definition route_service_verify :: route_spec where
  "route_service_verify = route [''service-verify'']
    (NS @ [''--min-days''])
    (no_args\<lparr>ra_positionals := service_positional False,
      ra_defaults := [(''--min-days'', ''30'')],
      ra_validators := NS_VALIDATORS @ [(''--min-days'', ''days'')]\<rparr>)"

definition route_service_recover :: route_spec where
  "route_service_recover = route [''service-recover'']
    ([''--transaction''] @ NS @ [''--yes''])
    (no_args\<lparr>ra_required := [''--transaction''],
      ra_validators := [(''--transaction'', ''not_empty'')] @ NS_VALIDATORS,
      ra_reject_duplicates := [''--transaction''] @ NS @ [''--yes'']\<rparr>)"

definition route_list_expiry :: route_spec where
  "route_list_expiry = route [''list-expiry'']
    (NS @ [''--warn-days'', ''--critical-days''])
    (no_args\<lparr>ra_defaults := [(''--warn-days'', ''90''), (''--critical-days'', ''30'')],
      ra_validators := NS_VALIDATORS @ [(''--warn-days'', ''days''), (''--critical-days'', ''days'')]\<rparr>)"

definition route_print_cert :: route_spec where
  "route_print_cert = route [''print-cert'']
    (NS)
    (no_args\<lparr>ra_positionals := service_positional False,
      ra_validators := NS_VALIDATORS\<rparr>)"

definition route_export_ansible :: route_spec where
  "route_export_ansible = route [''export-ansible'']
    (NS @ [''--export-dir'', ''--force''])
    (no_args\<lparr>ra_positionals := service_positional True,
      ra_validators := NS_VALIDATORS @ [(''--export-dir'', ''not_empty'')]\<rparr>)"

definition route_backup :: route_spec where
  "route_backup = route [''backup'']
    (NS @ [''--backup-dir'', ''--age-recipient'', ''--allow-plain-backup''])
    (no_args\<lparr>ra_validators := NS_VALIDATORS @ [(''--backup-dir'', ''not_empty''),
        (''--age-recipient'', ''not_empty'')],
      ra_repeatable := [''--age-recipient'']\<rparr>)"

definition route_custody_report :: route_spec where
  "route_custody_report = route [''custody-report'']
    (NS @ [''--format''])
    (no_args\<lparr>ra_defaults := [(''--format'', ''text'')],
      ra_validators := NS_VALIDATORS @ [(''--format'', ''format'')],
      ra_reject_duplicates := NS @ [''--format'']\<rparr>)"

definition route_ca_passphrase_verify :: route_spec where
  "route_ca_passphrase_verify = route [''ca-passphrase-verify'']
    (NS @ [''--root-pass-file'', ''--intermediate-pass-file''])
    (no_args\<lparr>ra_validators := NS_VALIDATORS @ [(''--root-pass-file'', ''not_empty''),
        (''--intermediate-pass-file'', ''not_empty'')],
      ra_reject_duplicates := NS @ [''--root-pass-file'', ''--intermediate-pass-file'']\<rparr>)"

definition route_ca_rollover_migrate :: route_spec where
  "route_ca_rollover_migrate = route [''ca-rollover'', ''migrate'']
    (NS @ [''--backup-receipt'', ''--private-repo'', ''--yes'', ''--expected-root-sha256'',
     ''--expected-intermediate-sha256''])
    (no_args\<lparr>ra_required := [''--backup-receipt''],
      ra_defaults := [(''--private-repo'', ''../platform-private'')],
      ra_validators := NS_VALIDATORS @ [(''--backup-receipt'', ''not_empty''),
        (''--private-repo'', ''not_empty''), (''--expected-root-sha256'', ''not_empty''),
        (''--expected-intermediate-sha256'', ''not_empty'')],
      ra_reject_duplicates := NS @ [''--backup-receipt'', ''--private-repo'', ''--yes'', ''--expected-root-sha256'',
        ''--expected-intermediate-sha256'']\<rparr>)"

definition route_ca_rollover_status :: route_spec where
  "route_ca_rollover_status = route [''ca-rollover'', ''status'']
    (NS @ [''--format''])
    (no_args\<lparr>ra_defaults := [(''--format'', ''text'')],
      ra_choices := [(''--format'', [''text'', ''json''])],
      ra_validators := NS_VALIDATORS,
      ra_reject_duplicates := NS @ [''--format'']\<rparr>)"

definition route_ca_rollover_prepare :: route_spec where
  "route_ca_rollover_prepare = route [''ca-rollover'', ''prepare'']
    (NS @ [''--type'', ''--backup-receipt'', ''--root-name'', ''--intermediate-name'',
     ''--org'', ''--country'', ''--root-days'', ''--intermediate-days'', ''--root-pass-file'',
     ''--intermediate-pass-file'', ''--issuer-safety-days'', ''--private-repo''])
    (no_args\<lparr>ra_required := [''--type'', ''--backup-receipt'', ''--intermediate-name'', ''--org'', ''--country''],
      ra_defaults := [(''--issuer-safety-days'', ''1'')],
      ra_choices := [(''--type'', [''intermediate'', ''root''])],
      ra_validators := NS_VALIDATORS @ [(''--backup-receipt'', ''not_empty''),
        (''--root-name'', ''not_empty''), (''--intermediate-name'', ''not_empty''),
        (''--org'', ''not_empty''), (''--country'', ''not_empty''),
        (''--root-days'', ''not_empty''), (''--intermediate-days'', ''not_empty''),
        (''--root-pass-file'', ''not_empty''), (''--intermediate-pass-file'', ''not_empty''),
        (''--issuer-safety-days'', ''not_empty''), (''--private-repo'', ''not_empty'')],
      ra_reject_duplicates := NS @ [''--type'', ''--backup-receipt'', ''--root-name'', ''--intermediate-name'',
        ''--org'', ''--country'', ''--root-days'', ''--intermediate-days'',
        ''--root-pass-file'', ''--intermediate-pass-file'', ''--issuer-safety-days'',
        ''--private-repo'']\<rparr>)"

definition route_ca_rollover_recover :: route_spec where
  "route_ca_rollover_recover = route [''ca-rollover'', ''recover'']
    (NS @ [''--transaction'', ''--action'', ''--yes''])
    (no_args\<lparr>ra_required := [''--transaction'', ''--action''],
      ra_choices := [(''--action'', [''resume'', ''rollback''])],
      ra_validators := NS_VALIDATORS @ [(''--transaction'', ''not_empty'')],
      ra_reject_duplicates := NS @ [''--transaction'', ''--action'', ''--yes'']\<rparr>)"

definition route_direct_exchange_request_pull :: route_spec where
  "route_direct_exchange_request_pull = route [''direct-exchange'', ''request-pull'']
    ([])
    (no_args\<lparr>ra_positionals := [\<lparr>pos_name = ''endpoint'', pos_metavar = ''ENDPOINT'', pos_required = True,
        pos_repeatable = False\<rparr>,
        \<lparr>pos_name = ''request_id'',
        pos_metavar = ''REQUEST_ID'', pos_required = True,
        pos_repeatable = False\<rparr>,
        \<lparr>pos_name = ''output_dir'',
        pos_metavar = ''OUTPUT_DIR'', pos_required = True, pos_repeatable = False\<rparr>]\<rparr>)"

definition route_direct_exchange_evidence_pull :: route_spec where
  "route_direct_exchange_evidence_pull = route [''direct-exchange'', ''evidence-pull'']
    ([])
    (no_args\<lparr>ra_positionals := [\<lparr>pos_name = ''endpoint'', pos_metavar = ''ENDPOINT'', pos_required = True,
        pos_repeatable = False\<rparr>,
        \<lparr>pos_name = ''request_id'',
        pos_metavar = ''REQUEST_ID'', pos_required = True,
        pos_repeatable = False\<rparr>,
        \<lparr>pos_name = ''artifact_sha256'',
        pos_metavar = ''ARTIFACT_SHA256'', pos_required = True,
        pos_repeatable = False\<rparr>,
        \<lparr>pos_name = ''deployment_sha256'',
        pos_metavar = ''DEPLOYMENT_SHA256'', pos_required = True,
        pos_repeatable = False\<rparr>,
        \<lparr>pos_name = ''output_dir'',
        pos_metavar = ''OUTPUT_DIR'', pos_required = True, pos_repeatable = False\<rparr>]\<rparr>)"

definition route_direct_exchange_response_push :: route_spec where
  "route_direct_exchange_response_push = route [''direct-exchange'', ''response-push'']
    ([])
    (no_args\<lparr>ra_positionals := [\<lparr>pos_name = ''endpoint'', pos_metavar = ''ENDPOINT'', pos_required = True,
        pos_repeatable = False\<rparr>,
        \<lparr>pos_name = ''request_id'',
        pos_metavar = ''REQUEST_ID'', pos_required = True,
        pos_repeatable = False\<rparr>,
        \<lparr>pos_name = ''artifact_sha256'',
        pos_metavar = ''ARTIFACT_SHA256'', pos_required = True,
        pos_repeatable = False\<rparr>,
        \<lparr>pos_name = ''input_dir'',
        pos_metavar = ''INPUT_DIR'', pos_required = True, pos_repeatable = False\<rparr>]\<rparr>)"

definition route_direct_exchange_outcome_push :: route_spec where
  "route_direct_exchange_outcome_push = route [''direct-exchange'', ''outcome-push'']
    ([])
    (no_args\<lparr>ra_positionals := [\<lparr>pos_name = ''endpoint'', pos_metavar = ''ENDPOINT'', pos_required = True,
        pos_repeatable = False\<rparr>,
        \<lparr>pos_name = ''request_id'',
        pos_metavar = ''REQUEST_ID'', pos_required = True,
        pos_repeatable = False\<rparr>,
        \<lparr>pos_name = ''artifact_sha256'',
        pos_metavar = ''ARTIFACT_SHA256'', pos_required = True,
        pos_repeatable = False\<rparr>,
        \<lparr>pos_name = ''deployment_sha256'',
        pos_metavar = ''DEPLOYMENT_SHA256'', pos_required = True,
        pos_repeatable = False\<rparr>,
        \<lparr>pos_name = ''outcome_sha256'',
        pos_metavar = ''OUTCOME_SHA256'', pos_required = True,
        pos_repeatable = False\<rparr>,
        \<lparr>pos_name = ''input_dir'',
        pos_metavar = ''INPUT_DIR'', pos_required = True, pos_repeatable = False\<rparr>]\<rparr>)"

definition route_gitlab_package_publish :: route_spec where
  "route_gitlab_package_publish = route [''gitlab-package'', ''publish'']
    ([''--stage'', ''--service'', ''--target'', ''--request-id'', ''--package-version'',
     ''--source-dir'', ''--project-record'', ''--token-type'', ''--token-file'', ''--ca-file'',
     ''--inventory-record'', ''--trust-dir'', ''--transport-host-key-sha256'', ''--timeout'',
     ''--processing-attempts'', ''--processing-interval''])
    (no_args\<lparr>ra_required := [''--stage'', ''--service'', ''--target'', ''--request-id'', ''--package-version'',
        ''--source-dir'', ''--project-record'', ''--token-type'', ''--token-file'',
        ''--ca-file''],
      ra_defaults := [(''--timeout'', ''30''), (''--processing-attempts'', ''3''),
        (''--processing-interval'', ''2'')],
      ra_choices := [(''--stage'', [''request'', ''approval'', ''response'', ''evidence'', ''outcome'']),
        (''--token-type'', [''job'', ''private'', ''deploy''])],
      ra_validators := map (\<lambda>name. (name, ''not_empty'')) ([''--stage'', ''--service'', ''--target'',
        ''--request-id'', ''--package-version'', ''--source-dir'', ''--project-record'',
        ''--token-type'', ''--token-file'', ''--ca-file'', ''--inventory-record'',
        ''--trust-dir'', ''--transport-host-key-sha256'', ''--timeout'',
        ''--processing-attempts'', ''--processing-interval'']),
      ra_reject_duplicates := [''--stage'', ''--service'', ''--target'', ''--request-id'', ''--package-version'',
        ''--source-dir'', ''--project-record'', ''--token-type'', ''--token-file'',
        ''--ca-file'', ''--inventory-record'', ''--trust-dir'', ''--transport-host-key-sha256'',
        ''--timeout'', ''--processing-attempts'', ''--processing-interval'']\<rparr>)"

definition route_gitlab_package_download :: route_spec where
  "route_gitlab_package_download = route [''gitlab-package'', ''download'']
    ([''--stage'', ''--service'', ''--target'', ''--request-id'', ''--package-version'',
     ''--destination-dir'', ''--project-record'', ''--token-type'', ''--token-file'',
     ''--ca-file'', ''--inventory-record'', ''--trust-dir'', ''--transport-host-key-sha256'',
     ''--timeout'', ''--processing-attempts'', ''--processing-interval''])
    (no_args\<lparr>ra_required := [''--stage'', ''--service'', ''--target'', ''--request-id'', ''--package-version'',
        ''--destination-dir'', ''--project-record'', ''--token-type'', ''--token-file'',
        ''--ca-file''],
      ra_defaults := [(''--timeout'', ''30''), (''--processing-attempts'', ''3''),
        (''--processing-interval'', ''2'')],
      ra_choices := [(''--stage'', [''request'', ''approval'', ''response'', ''evidence'', ''outcome'']),
        (''--token-type'', [''job'', ''private'', ''deploy''])],
      ra_validators := map (\<lambda>name. (name, ''not_empty'')) ([''--stage'', ''--service'', ''--target'',
        ''--request-id'', ''--package-version'', ''--destination-dir'', ''--project-record'',
        ''--token-type'', ''--token-file'', ''--ca-file'', ''--inventory-record'',
        ''--trust-dir'', ''--transport-host-key-sha256'', ''--timeout'',
        ''--processing-attempts'', ''--processing-interval'']),
      ra_reject_duplicates := [''--stage'', ''--service'', ''--target'', ''--request-id'', ''--package-version'',
        ''--destination-dir'', ''--project-record'', ''--token-type'', ''--token-file'',
        ''--ca-file'', ''--inventory-record'', ''--trust-dir'', ''--transport-host-key-sha256'',
        ''--timeout'', ''--processing-attempts'', ''--processing-interval'']\<rparr>)"

definition route_gitlab_package_publish_request :: route_spec where
  "route_gitlab_package_publish_request = route [''gitlab-package'', ''publish-request'']
    ([''--exchange-root'', ''--service'', ''--target'', ''--request-id'',
     ''--inventory-record'', ''--transport-host-key-sha256'', ''--project-record'',
     ''--token-type'', ''--token-file'', ''--ca-file'', ''--timeout'',
     ''--processing-attempts'', ''--processing-interval''])
    (no_args\<lparr>ra_required := [''--exchange-root'', ''--service'', ''--target'', ''--request-id'',
        ''--inventory-record'', ''--transport-host-key-sha256'', ''--project-record'',
        ''--token-type'', ''--token-file'', ''--ca-file''],
      ra_defaults := [(''--timeout'', ''30''), (''--processing-attempts'', ''3''),
        (''--processing-interval'', ''2'')],
      ra_choices := [(''--token-type'', [''job'', ''private''])],
      ra_validators := map (\<lambda>name. (name, ''not_empty'')) ([''--exchange-root'', ''--service'',
        ''--target'', ''--request-id'', ''--inventory-record'', ''--transport-host-key-sha256'',
        ''--project-record'', ''--token-type'', ''--token-file'', ''--ca-file'', ''--timeout'',
        ''--processing-attempts'', ''--processing-interval'']),
      ra_reject_duplicates := [''--exchange-root'', ''--service'', ''--target'', ''--request-id'',
        ''--inventory-record'', ''--transport-host-key-sha256'', ''--project-record'',
        ''--token-type'', ''--token-file'', ''--ca-file'', ''--timeout'',
        ''--processing-attempts'', ''--processing-interval'']\<rparr>)"

section \<open>The table\<close>

definition ROUTES :: "route_spec list" where
  "ROUTES = [route_init, route_inventory_install, route_csr_trust_install, route_csr_recover,
     route_offline_csr_approve, route_offline_csr_sign, route_offline_workspace_init,
     route_certificate_export_publish, route_certificate_export_resolve,
     route_csr_outcome_publish, route_csr_outcome_resolve, route_csr_candidate_verify] @
     map route_csr_candidate_decision [''finalize'', ''abandon''] @ [route_root_create,
     route_intermediate_create] @ map route_service_write [''issue'', ''renew''] @
     [route_service_verify, route_service_recover, route_list_expiry, route_print_cert,
     route_export_ansible, route_backup, route_custody_report, route_ca_passphrase_verify,
     route_ca_rollover_migrate, route_ca_rollover_status, route_ca_rollover_prepare,
     route_ca_rollover_recover, route_direct_exchange_request_pull,
     route_direct_exchange_evidence_pull, route_direct_exchange_response_push,
     route_direct_exchange_outcome_push, route_gitlab_package_publish,
     route_gitlab_package_download, route_gitlab_package_publish_request]"

definition lookup_route :: "string list \<Rightarrow> route_spec option" where
  "lookup_route r = map_of (rev (map (\<lambda>spec. (rs_route spec, spec)) ROUTES)) r"

end
