(* ===== verification/ParseRoute.thy ===== *)
theory ParseRoute
  imports Routes "HOL-Library.AList"
begin

text \<open>
  \<open>leading_action\<close>, \<open>_normalize_arguments\<close>, \<open>_validate_value\<close>, \<open>_runtime_relationships\<close> and
  \<open>parse_route\<close> of \<open>parser.py\<close>. The dictionary of values is an association list in insertion order;
  the loop over the tokens is a recursion on the tokens that are left.
\<close>

section \<open>Leading help and version flags\<close>

datatype lead_action = HelpAction | VersionAction

definition is_option_text :: "string \<Rightarrow> bool" where
  "is_option_text s \<longleftrightarrow> fullmatch LONG_OPTION_RX s \<or> fullmatch SHORT_OPTION_RX s"

definition leading_action :: "string \<Rightarrow> bool \<Rightarrow> lead_action option" where
  "leading_action argument version =
     (let allowed = HELP_FLAGS \<union> (if version then VERSION_FLAGS else {});
          action = (\<lambda>flag. if flag \<in> HELP_FLAGS then HelpAction else VersionAction);
          (flag, value) = split_once (CHR ''='') argument;
          first = ''-'' @ [argument ! 1]
      in if argument \<in> allowed then Some (action argument)
         else if CHR ''='' \<in> set argument \<and> value \<noteq> [] \<and> flag \<in> allowed \<and> is_option_text flag then
           Some (action flag)
         else if fullmatch SHORT_CLUSTER_RX argument \<and> first \<in> allowed then
           Some (if first = ''-h'' then HelpAction else VersionAction)
         else None)"

section \<open>Normalization\<close>

text \<open>\<open>--name=value\<close> becomes two arguments, a cluster of short options one argument each.\<close>

definition normalize_argument :: "string \<Rightarrow> string list" where
  "normalize_argument argument =
     (let (flag, value) = split_once (CHR ''='') argument
      in if CHR ''='' \<in> set argument \<and> value \<noteq> [] \<and> is_option_text flag then [flag, value]
         else if fullmatch SHORT_CLUSTER_RX argument then map (\<lambda>c. ''-'' @ [c]) (tl argument)
         else [argument])"

definition normalize_arguments :: "string list \<Rightarrow> string list" where
  "normalize_arguments arguments = concat (map normalize_argument arguments)"

section \<open>Values\<close>

datatype arg_value = VTrue | VText string | VList "string list" | VTuple "string list"

text \<open>Python's truth of a value.\<close>

fun truthy :: "arg_value \<Rightarrow> bool" where
  "truthy VTrue \<longleftrightarrow> True"
| "truthy (VText s) \<longleftrightarrow> s \<noteq> []"
| "truthy (VList xs) \<longleftrightarrow> xs \<noteq> []"
| "truthy (VTuple xs) \<longleftrightarrow> xs \<noteq> []"

text \<open>Iterating over a value: a string yields its characters.\<close>

fun items_of :: "arg_value \<Rightarrow> string list" where
  "items_of VTrue = []"
| "items_of (VText s) = map (\<lambda>c. [c]) s"
| "items_of (VList xs) = xs"
| "items_of (VTuple xs) = xs"

fun text_of :: "arg_value \<Rightarrow> string" where
  "text_of (VText s) = s"
| "text_of _ = []"

type_synonym arg_values = "(string \<times> arg_value) list"

definition append_value :: "string \<Rightarrow> string \<Rightarrow> arg_values \<Rightarrow> arg_values" where
  "append_value name s values =
     AList.update name
       (VList ((case map_of values name of None \<Rightarrow> [] | Some v \<Rightarrow> items_of v) @ [s])) values"

text \<open>\<open>values[name]\<close>.\<close>

definition value_item :: "arg_values \<Rightarrow> string \<Rightarrow> arg_value result" where
  "value_item values name = (case map_of values name of None \<Rightarrow> Inl (KeyError name) | Some v \<Rightarrow> Inr v)"

section \<open>Validation of one value\<close>

definition validation_error :: "option_spec \<Rightarrow> string \<Rightarrow> exn" where
  "validation_error option detail =
     parser_error (''validation error in '' @ os_name option @ '' '' @ metavar_text option @ '':'' @
       [NL] @ detail) False"

definition check_not_empty :: "option_spec \<Rightarrow> string \<Rightarrow> unit result" where
  "check_not_empty option value =
     requireE (\<not> (os_validator option = Some ''not_empty'' \<and> value = []))
       (validation_error option ''value must not be empty'')"

definition check_days :: "option_spec \<Rightarrow> string \<Rightarrow> unit result" where
  "check_days option value =
     (if os_validator option = Some ''days'' then
        bindE (requireE (fullmatch (Plus (Cls is_digit)) value)
          (validation_error option (''Days value must be numeric: '' @ safe_text value))) (\<lambda>_.
        bindE (requireE (\<not> days_above (days_normal value))
          (validation_error option (''Days value must be at most 365000: '' @ safe_text value))) (\<lambda>_.
        requireE (days_normal value \<noteq> ''0'')
          (validation_error option (''Days value must be at least 1: '' @ safe_text value))))
      else Inr ())"

definition check_format :: "option_spec \<Rightarrow> string \<Rightarrow> unit result" where
  "check_format option value =
     requireE (\<not> (os_validator option = Some ''format'' \<and> value \<notin> {''text'', ''json''}))
       (parser_error (''validation error in '' @ os_name option @ '' VALUE:'' @ [NL] @
         ''Format must be text or json: '' @ safe_text value) False)"

definition check_choices :: "option_spec \<Rightarrow> string \<Rightarrow> unit result" where
  "check_choices option value =
     requireE (\<not> (os_choices option \<noteq> [] \<and> value \<noteq> [] \<and> value \<notin> set (os_choices option)))
       (parser_error (''invalid value for '' @ os_name option @ '' '' @ metavar_text option @ '': '' @
         safe_text value @ ''; allowed: '' @ join_on '', '' (os_choices option)) False)"

definition check_value :: "option_spec \<Rightarrow> string \<Rightarrow> unit result" where
  "check_value option value =
     bindE (check_not_empty option value) (\<lambda>_.
     bindE (check_days option value) (\<lambda>_.
     bindE (check_format option value) (\<lambda>_.
       check_choices option value)))"

section \<open>Relations between the options of a route\<close>

definition app_error :: "string \<Rightarrow> exn" where
  "app_error message = parser_error message True"

definition service_relations :: "bool \<Rightarrow> string set \<Rightarrow> unit result" where
  "service_relations issue provided =
     (if \<not> (\<exists>option \<in> set CSR_INPUT_OPTIONS. option \<in> provided) then Inr ()
      else bindE (forE (\<lambda>option. requireE (option \<in> provided)
             (app_error (''Authenticated host-local '' @
               (if issue then ''issuance'' else ''renewal'') @ '' requires '' @ option)))
             (if issue then butlast CSR_INPUT_OPTIONS else CSR_INPUT_OPTIONS)) (\<lambda>_.
           bindE (requireE (''--days'' \<notin> provided)
             (app_error ''--days is unavailable for host-local CSR signing; inventory is authoritative'')) (\<lambda>_.
           bindE (requireE (''--rotate-key'' \<notin> provided)
             (app_error ''--rotate-key conflicts with --csr-file'')) (\<lambda>_.
           requireE (\<not> (issue \<and> ''--current-cert-file'' \<in> provided))
             (app_error ''--current-cert-file is available only for host-local renewal'')))))"

definition offline_relations :: "arg_values \<Rightarrow> string set \<Rightarrow> unit result" where
  "offline_relations values provided =
     bindE (value_item values ''--operation'') (\<lambda>operation.
       let renewal = (operation = VText ''renew''); current = (''--current-cert-file'' \<in> provided)
       in bindE (requireE (\<not> (renewal \<and> \<not> current))
            (app_error ''Offline CSR renewal requires --current-cert-file'')) (\<lambda>_.
          requireE (\<not> (\<not> renewal \<and> current))
            (app_error ''--current-cert-file is available only for offline CSR renewal'')))"

definition is_any_hex :: "char \<Rightarrow> bool" where
  "is_any_hex c \<longleftrightarrow> is_digit c \<or> (code (CHR ''A'') \<le> code c \<and> code c \<le> code (CHR ''F'')) \<or>
     (code (CHR ''a'') \<le> code c \<and> code c \<le> code (CHR ''f''))"

definition FINGERPRINT_RX :: "char rx" where
  "FINGERPRINT_RX = Times (Cls is_any_hex) 64"

definition migrate_relations :: "arg_values \<Rightarrow> unit result" where
  "migrate_relations values =
     forE (\<lambda>option. requireE (case map_of values option of None \<Rightarrow> False
          | Some v \<Rightarrow> fullmatch FINGERPRINT_RX (text_of v))
        (app_error ''--yes requires both expected 64-hex SHA-256 fingerprints''))
       [''--expected-root-sha256'', ''--expected-intermediate-sha256'']"

definition days_option :: "string \<Rightarrow> option_spec" where
  "days_option name = option_of (no_args\<lparr>ra_validators := [(name, ''days'')]\<rparr>) name"

definition prepare_relations ::
  "arg_values \<Rightarrow> string set \<Rightarrow> string set \<Rightarrow> bool \<Rightarrow> unit result" where
  "prepare_relations values provided explicit_empty interactive =
     bindE (requireE (''--type'' \<notin> explicit_empty) (app_error ''Candidate type must not be empty'')) (\<lambda>_.
     bindE (requireE (''--issuer-safety-days'' \<notin> explicit_empty)
       (app_error ''Option must not be empty: --issuer-safety-days'')) (\<lambda>_.
     bindE (forE (\<lambda>name. case map_of values name of None \<Rightarrow> Inr ()
          | Some v \<Rightarrow> check_value (days_option name) (text_of v))
        [''--root-days'', ''--intermediate-days'', ''--issuer-safety-days'']) (\<lambda>_.
     bindE (value_item values ''--type'') (\<lambda>type.
     bindE (requireE (\<not> (type = VText ''root'' \<and> ''--root-name'' \<notin> provided))
       (app_error ''--root-name is required for root preparation'')) (\<lambda>_.
     bindE (requireE (\<not> (type = VText ''intermediate'' \<and>
         (\<exists>option \<in> {''--root-name'', ''--root-days'', ''--private-repo''}. option \<in> provided)))
       (app_error ''--root-name, --root-days, and --private-repo are forbidden for intermediate preparation'')) (\<lambda>_.
     requireE (\<not> (\<not> interactive \<and> \<not> {''--root-pass-file'', ''--intermediate-pass-file''} \<subseteq> provided))
       (app_error ''Preparation without all required passphrase files requires an interactive TTY'')))))))"

definition runtime_relationships ::
  "route_spec \<Rightarrow> arg_values \<Rightarrow> string set \<Rightarrow> string set \<Rightarrow> bool \<Rightarrow> unit result" where
  "runtime_relationships spec values provided explicit_empty interactive =
     (let r = rs_route spec
      in if r = [''service-issue''] \<or> r = [''service-renew''] then
           service_relations (r = [''service-issue'']) provided
         else if r = [''ca-passphrase-verify''] then
           requireE (''--root-pass-file'' \<in> provided \<or> ''--intermediate-pass-file'' \<in> provided)
             (app_error ''At least one of --root-pass-file or --intermediate-pass-file is required'')
         else if r = [''offline-csr'', ''approve''] \<or> r = [''offline-csr'', ''sign''] then
           offline_relations values provided
         else if r = [''ca-rollover'', ''migrate''] \<and> ''--yes'' \<in> provided then
           migrate_relations values
         else if r = [''ca-rollover'', ''prepare''] then
           prepare_relations values provided explicit_empty interactive
         else if r = [''ca-rollover'', ''recover''] \<and> ''--action'' \<in> explicit_empty then
           Inl (app_error ''Recovery action must not be empty'')
         else Inr ())"

section \<open>Usage\<close>

definition positional_usage :: "positional_spec \<Rightarrow> string" where
  "positional_usage p =
     (if pos_repeatable p then ''['' @ pos_metavar p @ ''...]''
      else if pos_required p then pos_metavar p
      else ''['' @ pos_metavar p @ '']'')"

definition render_usage :: "route_spec \<Rightarrow> string" where
  "render_usage spec =
     (let invocation = join_on '' '' (''platform-pki'' # rs_route spec);
          positionals = join_on '' '' (map positional_usage (rs_positionals spec));
          suffix = join_on '' '' (filter (\<lambda>part. part \<noteq> []) [positionals, ''[OPTIONS]''])
      in ''Usage: '' @ invocation @ '' '' @ suffix @ [NL])"

section \<open>The token loop\<close>

record parse_state =
  ps_values :: arg_values
  ps_provided :: "string set"
  ps_counts :: "(string \<times> nat) list"
  ps_empty :: "string set"
  ps_position :: nat

definition initial_state :: parse_state where
  "initial_state = \<lparr>ps_values = [], ps_provided = {}, ps_counts = [], ps_empty = {}, ps_position = 0\<rparr>"

definition option_count :: "parse_state \<Rightarrow> string \<Rightarrow> nat" where
  "option_count st name = (case map_of (ps_counts st) name of None \<Rightarrow> 0 | Some n \<Rightarrow> n)"

definition see_option :: "string \<Rightarrow> parse_state \<Rightarrow> parse_state" where
  "see_option token st =
     st\<lparr>ps_counts := AList.update token (option_count st token + 1) (ps_counts st),
        ps_provided := insert token (ps_provided st)\<rparr>"

definition take_value :: "option_spec \<Rightarrow> string \<Rightarrow> string \<Rightarrow> parse_state \<Rightarrow> parse_state" where
  "take_value option token value st =
     st\<lparr>ps_values := (if os_repeatable option then append_value token value (ps_values st)
          else AList.update token (VText value) (ps_values st)),
        ps_empty := (if value = [] then insert token (ps_empty st) else ps_empty st)\<rparr>"

definition take_positional :: "positional_spec \<Rightarrow> string \<Rightarrow> parse_state \<Rightarrow> parse_state" where
  "take_positional p token st =
     (if pos_repeatable p then
        st\<lparr>ps_provided := insert (pos_name p) (ps_provided st),
           ps_values := append_value (pos_name p) token (ps_values st)\<rparr>
      else
        st\<lparr>ps_provided := insert (pos_name p) (ps_provided st),
           ps_values := AList.update (pos_name p) (VText token) (ps_values st),
           ps_position := ps_position st + 1\<rparr>)"

definition is_option_token :: "string \<Rightarrow> bool" where
  "is_option_token token \<longleftrightarrow> starts_with ''-'' token \<and> token \<noteq> ''-''"

definition find_option :: "route_spec \<Rightarrow> string \<Rightarrow> option_spec option" where
  "find_option spec token = map_of (rev (map (\<lambda>option. (os_name option, option)) (rs_options spec))) token"

fun parse_tokens :: "route_spec \<Rightarrow> parse_state \<Rightarrow> string list \<Rightarrow> parse_state result" where
  "parse_tokens spec st [] = Inr st"
| "parse_tokens spec st (token # rest) =
     (if is_option_token token then
        case find_option spec token of
          None \<Rightarrow> Inl (parser_error (''invalid option: '' @ safe_text token) False)
        | Some option \<Rightarrow>
            let st' = see_option token st
            in if os_boolean option then
                 parse_tokens spec (st'\<lparr>ps_values := AList.update token VTrue (ps_values st')\<rparr>) rest
               else (case rest of
                   [] \<Rightarrow> Inl (parser_error (token @ '' requires an argument: '' @ token @ '' '' @
                     metavar_text option) False)
                 | value # rest' \<Rightarrow> parse_tokens spec (take_value option token value st') rest')
      else if length (rs_positionals spec) \<le> ps_position st then
        Inl (parser_error (''invalid argument: '' @ safe_text token) False)
      else parse_tokens spec (take_positional (rs_positionals spec ! ps_position st) token st) rest)"

section \<open>The checks after the loop\<close>

definition close_positional :: "route_spec \<Rightarrow> string set \<Rightarrow> positional_spec \<Rightarrow> arg_values \<Rightarrow> arg_values result" where
  "close_positional spec provided p values =
     bindE (requireE (\<not> (pos_required p \<and> pos_name p \<notin> provided))
       (parser_error (''missing required argument: '' @ pos_metavar p @ [NL] @
         rev (dropWhile (\<lambda>c. c = NL \<or> c = CHR '' '') (rev (render_usage spec)))) False)) (\<lambda>_.
     Inr (if pos_repeatable p then
            AList.update (pos_name p)
              (VTuple (case map_of values (pos_name p) of None \<Rightarrow> [] | Some v \<Rightarrow> items_of v)) values
          else values))"

definition close_option :: "string set \<Rightarrow> option_spec \<Rightarrow> arg_values \<Rightarrow> arg_values result" where
  "close_option provided option values =
     bindE (requireE (\<not> (os_required option \<and> os_name option \<notin> provided))
       (parser_error (''missing required flag: '' @ os_name option @ '' '' @ metavar_text option) False)) (\<lambda>_.
     Inr (case os_default option of
            None \<Rightarrow> values
          | Some d \<Rightarrow>
              if \<exists>v \<in> set_option (map_of values (os_name option)). truthy v then values
              else AList.update (os_name option) (VText d) values))"

definition validate_option :: "string set \<Rightarrow> option_spec \<Rightarrow> arg_values \<Rightarrow> arg_values result" where
  "validate_option provided option values =
     bindE (case map_of values (os_name option) of
         None \<Rightarrow> Inr values
       | Some v \<Rightarrow>
           if os_repeatable option then
             bindE (forE (check_value option) (items_of v)) (\<lambda>_.
               Inr (AList.update (os_name option) (VTuple (items_of v)) values))
           else if \<not> os_boolean option then
             bindE (check_value option (text_of v)) (\<lambda>_. Inr values)
           else Inr values) (\<lambda>values.
     bindE (if os_name option \<in> provided then
         forE (\<lambda>conflict. requireE (conflict \<notin> provided)
           (parser_error (''conflicting options: '' @ os_name option @ '' and '' @ conflict) False))
           (os_conflicts option)
       else Inr ()) (\<lambda>_. Inr values))"

text \<open>A loop that updates the values and may raise.\<close>

fun foldE :: "('a \<Rightarrow> 's \<Rightarrow> 's result) \<Rightarrow> 'a list \<Rightarrow> 's \<Rightarrow> 's result" where
  "foldE f [] s = Inr s"
| "foldE f (x # xs) s = bindE (f x s) (foldE f xs)"

definition check_repeats :: "route_spec \<Rightarrow> parse_state \<Rightarrow> unit result" where
  "check_repeats spec st =
     forE (\<lambda>option. requireE (\<not> (os_reject_duplicate option \<and> option_count st (os_name option) > 1))
       (app_error (''Option must not be repeated: '' @ os_name option))) (rs_options spec)"

section \<open>The parser\<close>

record parse_result =
  pr_spec :: route_spec
  pr_values :: arg_values
  pr_provided :: "string set"

definition parse_spec :: "route_spec \<Rightarrow> string list \<Rightarrow> bool \<Rightarrow> parse_result result" where
  "parse_spec spec arguments interactive =
     bindE (parse_tokens spec initial_state (normalize_arguments arguments)) (\<lambda>st.
     bindE (foldE (close_positional spec (ps_provided st)) (rs_positionals spec) (ps_values st)) (\<lambda>values.
     bindE (foldE (close_option (ps_provided st)) (rs_options spec) values) (\<lambda>values.
     bindE (foldE (validate_option (ps_provided st)) (rs_options spec) values) (\<lambda>values.
     bindE (check_repeats spec st) (\<lambda>_.
     bindE (runtime_relationships spec values (ps_provided st) (ps_empty st) interactive) (\<lambda>_.
       Inr \<lparr>pr_spec = spec, pr_values = values, pr_provided = ps_provided st\<rparr>))))))"

definition parse_route :: "string list \<Rightarrow> string list \<Rightarrow> bool \<Rightarrow> parse_result result" where
  "parse_route r arguments interactive =
     (case lookup_route r of
        None \<Rightarrow> Inl (ValueError ''unknown parser route'')
      | Some spec \<Rightarrow> parse_spec spec arguments interactive)"

text \<open>\<open>result[name]\<close>.\<close>

definition result_item :: "parse_result \<Rightarrow> string \<Rightarrow> arg_value result" where
  "result_item result name = value_item (pr_values result) name"

end
