(* ===== verification/RouteFacts.thy ===== *)
theory RouteFacts
  imports ParseRoute
begin

text \<open>
  What the route table promises the parser: the routes are distinct, the option and positional names
  of a route are distinct and printable, defaults are admissible values, conflicts are symmetric and
  only the last positional of a route repeats.
\<close>

section \<open>Well-formed specifications\<close>

definition wf_default :: "option_spec \<Rightarrow> bool" where
  "wf_default option = (case os_default option of None \<Rightarrow> True
     | Some d \<Rightarrow> d \<noteq> [] \<and> \<not> os_required option \<and> \<not> os_repeatable option \<and> \<not> os_boolean option \<and>
         check_value option d = Inr ())"

definition wf_option :: "option_spec \<Rightarrow> bool" where
  "wf_option option \<longleftrightarrow>
     starts_with ''--'' (os_name option) \<and> os_name option \<noteq> ''--'' \<and> CHR ''='' \<notin> set (os_name option) \<and>
     \<not> unsafe_text (os_name option) \<and> \<not> unsafe_text (metavar_text option) \<and>
     list_all (\<lambda>c. \<not> unsafe_text c) (os_choices option) \<and>
     (os_boolean option \<longrightarrow> \<not> os_repeatable option) \<and>
     (os_boolean option \<longleftrightarrow> os_name option \<in> set BOOLEAN_OPTIONS) \<and> wf_default option"

definition wf_positional :: "positional_spec \<Rightarrow> bool" where
  "wf_positional p \<longleftrightarrow> \<not> starts_with ''-'' (pos_name p) \<and> \<not> unsafe_text (pos_metavar p)"

definition symmetric_conflicts :: "option_spec list \<Rightarrow> bool" where
  "symmetric_conflicts options =
     list_all (\<lambda>x. list_all (\<lambda>c. list_ex (\<lambda>y. os_name y = c \<and> os_name x \<in> set (os_conflicts y)) options)
       (os_conflicts x)) options"

definition wf_spec :: "route_spec \<Rightarrow> bool" where
  "wf_spec spec \<longleftrightarrow>
     distinct (map os_name (rs_options spec)) \<and> list_all wf_option (rs_options spec) \<and>
     distinct (map pos_name (rs_positionals spec)) \<and> list_all wf_positional (rs_positionals spec) \<and>
     list_all (\<lambda>p. \<not> pos_repeatable p) (butlast (rs_positionals spec)) \<and>
     list_all (\<lambda>w. \<not> unsafe_text w) (rs_route spec) \<and> symmetric_conflicts (rs_options spec)"

section \<open>The routes are well-formed\<close>

lemma rs_route_route [simp]: "rs_route (route r n a) = r"
  by (simp add: route_def)

text \<open>The fields of an option, and what a value has to satisfy.\<close>

lemma option_of_sel [simp]:
  "os_required (option_of a n) = (n \<in> set (ra_required a))"
  "os_default (option_of a n) = dict_get (ra_defaults a) n"
  "os_choices (option_of a n) = (case dict_get (ra_choices a) n of None \<Rightarrow> [] | Some cs \<Rightarrow> cs)"
  "os_validator (option_of a n) = dict_get (ra_validators a) n"
  "os_repeatable (option_of a n) = (n \<in> set (ra_repeatable a))"
  "os_reject_duplicate (option_of a n) = (n \<in> set (ra_reject_duplicates a))"
  "os_conflicts (option_of a n) = (case dict_get (ra_conflicts a) n of None \<Rightarrow> [] | Some cs \<Rightarrow> cs)"
  by (simp_all add: option_of_def)

definition value_fits :: "string option \<Rightarrow> string list \<Rightarrow> string \<Rightarrow> bool" where
  "value_fits validator choices v \<longleftrightarrow> (validator = Some ''not_empty'' \<longrightarrow> v \<noteq> []) \<and>
     (validator = Some ''days'' \<longrightarrow> v \<noteq> [] \<and> list_all is_digit v \<and>
        1 \<le> text_nat 10 v \<and> text_nat 10 v \<le> 365000) \<and>
     (validator = Some ''format'' \<longrightarrow> v = ''text'' \<or> v = ''json'') \<and>
     (choices \<noteq> [] \<and> v \<noteq> [] \<longrightarrow> v \<in> set choices)"

lemma digits_match: "fullmatch (Plus (Cls is_digit)) v \<longleftrightarrow> v \<noteq> [] \<and> list_all is_digit v"
  by (simp add: fullmatch_lang rx_lang list_all_iff)

lemma check_value_ok [ok_iff]:
  "check_value option v = Inr u \<longleftrightarrow> value_fits (os_validator option) (os_choices option) v"
proof -
  have "list_all is_digit v \<Longrightarrow> \<not> days_above (days_normal v) \<longleftrightarrow> text_nat 10 v \<le> 365000"
    and "list_all is_digit v \<Longrightarrow> days_normal v \<noteq> ''0'' \<longleftrightarrow> 1 \<le> text_nat 10 v"
    using days_above_iff [of v] days_zero [of v] by (auto simp: list_all_iff)
  then show ?thesis
    by (auto simp: check_value_def check_not_empty_def check_days_def check_format_def
        check_choices_def value_fits_def ok_iff digits_match)
qed

lemmas route_list_defs = NS_def NS_VALIDATORS_def SERVICE_OPTIONS_def SERVICE_VALIDATORS_def
  CSR_INPUT_OPTIONS_def CERT_EXPORT_DUPLICATES_def CSR_OUTCOME_PUBLISH_DUPLICATES_def
  CSR_OUTCOME_RESOLVE_DUPLICATES_def CANDIDATE_DECISION_DUPLICATES_def

lemmas route_build = route_def options_of_def no_args_def dict_get_def service_positional_def

text \<open>Every name of the metavar table and every switch is printable.\<close>

definition known_name :: "string \<Rightarrow> bool" where
  "known_name n \<longleftrightarrow> n \<in> set BOOLEAN_OPTIONS \<or> n \<in> fst ` set OPTION_METAVARS"

definition good_name :: "string \<Rightarrow> bool" where
  "good_name n \<longleftrightarrow> starts_with ''--'' n \<and> n \<noteq> ''--'' \<and> CHR ''='' \<notin> set n \<and> \<not> unsafe_text n"

lemma known_names:
  "list_all good_name BOOLEAN_OPTIONS"
  "list_all (\<lambda>(n, m). good_name n \<and> \<not> unsafe_text m) OPTION_METAVARS"
  by (simp_all add: BOOLEAN_OPTIONS_def OPTION_METAVARS_def good_name_def unsafe_char_def code_def
      starts_with_def)

lemma known_good: "known_name n \<Longrightarrow> good_name n"
  using known_names by (auto simp: known_name_def list_all_iff)

lemma known_metavar:
  assumes "known_name n"
  shows "os_boolean (option_of a n) \<longleftrightarrow> n \<in> set BOOLEAN_OPTIONS"
    and "\<not> unsafe_text (metavar_text (option_of a n))"
proof -
  have some: "n \<notin> set BOOLEAN_OPTIONS \<Longrightarrow> \<exists>m. map_of OPTION_METAVARS n = Some m"
    using assms by (simp add: known_name_def) (metis map_of_eq_None_iff not_Some_eq)
  then show "os_boolean (option_of a n) \<longleftrightarrow> n \<in> set BOOLEAN_OPTIONS"
    by (auto simp: os_boolean_def option_of_def)
  have "map_of OPTION_METAVARS n = Some m \<Longrightarrow> \<not> unsafe_text m" for m
    using known_names(2) by (auto simp: list_all_iff dest: map_of_SomeD)
  moreover have "\<not> unsafe_text ''None''" by (simp add: unsafe_char_def code_def)
  ultimately show "\<not> unsafe_text (metavar_text (option_of a n))"
    using some by (auto simp: metavar_text_def option_of_def)
qed

lemma known_all: "list_all known_name (BOOLEAN_OPTIONS @ map fst OPTION_METAVARS)"
  by (auto simp: known_name_def list_all_iff)

lemmas known_simps = known_all [unfolded BOOLEAN_OPTIONS_def OPTION_METAVARS_def, simplified]

definition not_boolean :: "string \<Rightarrow> bool" where
  "not_boolean n \<longleftrightarrow> n \<notin> set BOOLEAN_OPTIONS"

text \<open>The conditions on the arguments of \<open>_route\<close> that make its options well-formed.\<close>

definition wf_args :: "string list \<Rightarrow> route_args \<Rightarrow> bool" where
  "wf_args names a \<longleftrightarrow> list_all known_name names \<and> distinct names \<and>
     list_all (\<lambda>(n, cs). list_all (\<lambda>c. \<not> unsafe_text c) cs) (ra_choices a) \<and>
     list_all not_boolean (ra_repeatable a) \<and>
     list_all (\<lambda>(n, d). d \<noteq> [] \<and> known_name n \<and> not_boolean n \<and> n \<notin> set (ra_required a) \<and>
       n \<notin> set (ra_repeatable a) \<and>
       value_fits (dict_get (ra_validators a) n) (os_choices (option_of a n)) d) (ra_defaults a)"

lemma wf_default_none: "os_default option = None \<Longrightarrow> wf_default option"
  by (simp add: wf_default_def)

lemma wf_options_of:
  assumes "wf_args names a"
  shows "list_all wf_option (options_of a names)" and "map os_name (options_of a names) = names"
proof -
  show "map os_name (options_of a names) = names"
    by (simp add: options_of_def comp_def)
  have "wf_option (option_of a n)" if n: "n \<in> set names" for n
  proof -
    have k: "known_name n" using assms n by (simp add: wf_args_def list_all_iff)
    have "list_all (\<lambda>c. \<not> unsafe_text c) (os_choices (option_of a n))"
    proof (cases "dict_get (ra_choices a) n")
      case (Some cs)
      then have "(n, cs) \<in> set (ra_choices a)"
        unfolding dict_get_def by (auto dest: map_of_SomeD)
      moreover have "list_all (\<lambda>(n, cs). list_all (\<lambda>c. \<not> unsafe_text c) cs) (ra_choices a)"
        using assms by (simp add: wf_args_def)
      ultimately show ?thesis using Some by (auto simp: list_all_iff)
    qed simp
    moreover have "os_boolean (option_of a n) \<longrightarrow> \<not> os_repeatable (option_of a n)"
      unfolding known_metavar(1) [OF k]
      using assms by (auto simp: wf_args_def list_all_iff not_boolean_def)
    moreover have "wf_default (option_of a n)"
    proof (cases "os_default (option_of a n)")
      case (Some d)
      then have "(n, d) \<in> set (ra_defaults a)"
        unfolding option_of_sel dict_get_def by (auto dest: map_of_SomeD)
      with assms Some show ?thesis
        by (auto simp: wf_args_def list_all_iff wf_default_def ok_iff not_boolean_def known_metavar(1))
    qed (rule wf_default_none)
    ultimately show ?thesis
      using known_good [OF k] known_metavar [OF k, of a] by (simp add: wf_option_def good_name_def)
  qed
  then show "list_all wf_option (options_of a names)"
    by (simp add: options_of_def list_all_iff)
qed

lemma symmetric_conflicts_none: "ra_conflicts a = [] \<Longrightarrow> symmetric_conflicts (options_of a names)"
  by (simp add: symmetric_conflicts_def options_of_def dict_get_def list_all_iff)

definition wf_shape :: "string list \<Rightarrow> route_args \<Rightarrow> bool" where
  "wf_shape r a \<longleftrightarrow> distinct (map pos_name (ra_positionals a)) \<and>
     list_all wf_positional (ra_positionals a) \<and>
     list_all (\<lambda>p. \<not> pos_repeatable p) (butlast (ra_positionals a)) \<and>
     list_all (\<lambda>w. \<not> unsafe_text w) r"

lemma wf_route:
  assumes "wf_args names a" and "wf_shape r a" and "symmetric_conflicts (options_of a names)"
  shows "wf_spec (route r names a)"
  using assms wf_options_of [OF assms(1)]
  by (simp add: wf_spec_def route_def wf_shape_def) (simp add: wf_args_def)

lemmas wf_eval = wf_args_def wf_shape_def wf_positional_def unsafe_char_def code_def starts_with_def
  value_fits_def is_digit_def text_nat_def digit_val_def not_boolean_def BOOLEAN_OPTIONS_def

lemma wf_route_init [simp]: "wf_spec route_init"
  unfolding route_init_def
  by (rule wf_route [OF _ _ symmetric_conflicts_none])
    (auto simp: route_list_defs route_build wf_eval known_simps)

lemma wf_route_inventory_install [simp]: "wf_spec route_inventory_install"
  unfolding route_inventory_install_def
  by (rule wf_route [OF _ _ symmetric_conflicts_none])
    (auto simp: route_list_defs route_build wf_eval known_simps)

lemma wf_route_csr_trust_install [simp]: "wf_spec route_csr_trust_install"
  unfolding route_csr_trust_install_def
  by (rule wf_route [OF _ _ symmetric_conflicts_none])
    (auto simp: route_list_defs route_build wf_eval known_simps)

lemma wf_route_csr_recover [simp]: "wf_spec route_csr_recover"
  unfolding route_csr_recover_def
  by (rule wf_route [OF _ _ symmetric_conflicts_none])
    (auto simp: route_list_defs route_build wf_eval known_simps)

lemma wf_route_offline_csr_approve [simp]: "wf_spec route_offline_csr_approve"
  unfolding route_offline_csr_approve_def
  by (rule wf_route [OF _ _ symmetric_conflicts_none])
    (auto simp: route_list_defs route_build wf_eval known_simps)

lemma wf_route_offline_csr_sign [simp]: "wf_spec route_offline_csr_sign"
  unfolding route_offline_csr_sign_def
  by (rule wf_route [OF _ _ symmetric_conflicts_none])
    (auto simp: route_list_defs route_build wf_eval known_simps)

lemma wf_route_offline_workspace_init [simp]: "wf_spec route_offline_workspace_init"
  unfolding route_offline_workspace_init_def
  by (rule wf_route [OF _ _ symmetric_conflicts_none])
    (auto simp: route_list_defs route_build wf_eval known_simps)

lemma wf_route_certificate_export_publish [simp]: "wf_spec route_certificate_export_publish"
  unfolding route_certificate_export_publish_def
  by (rule wf_route [OF _ _ symmetric_conflicts_none])
    (auto simp: route_list_defs route_build wf_eval known_simps)

lemma wf_route_certificate_export_resolve [simp]: "wf_spec route_certificate_export_resolve"
  unfolding route_certificate_export_resolve_def
  by (rule wf_route [OF _ _ symmetric_conflicts_none])
    (auto simp: route_list_defs route_build wf_eval known_simps)

lemma wf_route_csr_outcome_publish [simp]: "wf_spec route_csr_outcome_publish"
  unfolding route_csr_outcome_publish_def
  by (rule wf_route [OF _ _ symmetric_conflicts_none])
    (auto simp: route_list_defs route_build wf_eval known_simps)

lemma wf_route_csr_outcome_resolve [simp]: "wf_spec route_csr_outcome_resolve"
  unfolding route_csr_outcome_resolve_def
  by (rule wf_route [OF _ _ symmetric_conflicts_none])
    (auto simp: route_list_defs route_build wf_eval known_simps)

lemma wf_route_csr_candidate_verify [simp]: "wf_spec route_csr_candidate_verify"
  unfolding route_csr_candidate_verify_def
  by (rule wf_route [OF _ _ symmetric_conflicts_none])
    (auto simp: route_list_defs route_build wf_eval known_simps)

lemma wf_route_csr_candidate_decision [simp]: "action \<in> {''finalize'', ''abandon''} \<Longrightarrow> wf_spec (route_csr_candidate_decision action)"
  unfolding route_csr_candidate_decision_def
  by (rule wf_route [OF _ _ symmetric_conflicts_none])
    (auto simp: route_list_defs route_build wf_eval known_simps)

lemma wf_route_root_create [simp]: "wf_spec route_root_create"
  unfolding route_root_create_def
  by (rule wf_route)
    (auto simp: route_list_defs route_build wf_eval known_simps symmetric_conflicts_def)

lemma wf_route_intermediate_create [simp]: "wf_spec route_intermediate_create"
  unfolding route_intermediate_create_def
  by (rule wf_route)
    (auto simp: route_list_defs route_build wf_eval known_simps symmetric_conflicts_def)

lemma wf_route_service_write [simp]: "action \<in> {''issue'', ''renew''} \<Longrightarrow> wf_spec (route_service_write action)"
  unfolding route_service_write_def
  by (rule wf_route [OF _ _ symmetric_conflicts_none])
    (auto simp: route_list_defs route_build wf_eval known_simps)

lemma wf_route_service_verify [simp]: "wf_spec route_service_verify"
  unfolding route_service_verify_def
  by (rule wf_route [OF _ _ symmetric_conflicts_none])
    (auto simp: route_list_defs route_build wf_eval known_simps)

lemma wf_route_service_recover [simp]: "wf_spec route_service_recover"
  unfolding route_service_recover_def
  by (rule wf_route [OF _ _ symmetric_conflicts_none])
    (auto simp: route_list_defs route_build wf_eval known_simps)

lemma wf_route_list_expiry [simp]: "wf_spec route_list_expiry"
  unfolding route_list_expiry_def
  by (rule wf_route [OF _ _ symmetric_conflicts_none])
    (auto simp: route_list_defs route_build wf_eval known_simps)

lemma wf_route_print_cert [simp]: "wf_spec route_print_cert"
  unfolding route_print_cert_def
  by (rule wf_route [OF _ _ symmetric_conflicts_none])
    (auto simp: route_list_defs route_build wf_eval known_simps)

lemma wf_route_export_ansible [simp]: "wf_spec route_export_ansible"
  unfolding route_export_ansible_def
  by (rule wf_route [OF _ _ symmetric_conflicts_none])
    (auto simp: route_list_defs route_build wf_eval known_simps)

lemma wf_route_backup [simp]: "wf_spec route_backup"
  unfolding route_backup_def
  by (rule wf_route [OF _ _ symmetric_conflicts_none])
    (auto simp: route_list_defs route_build wf_eval known_simps)

lemma wf_route_custody_report [simp]: "wf_spec route_custody_report"
  unfolding route_custody_report_def
  by (rule wf_route [OF _ _ symmetric_conflicts_none])
    (auto simp: route_list_defs route_build wf_eval known_simps)

lemma wf_route_ca_passphrase_verify [simp]: "wf_spec route_ca_passphrase_verify"
  unfolding route_ca_passphrase_verify_def
  by (rule wf_route [OF _ _ symmetric_conflicts_none])
    (auto simp: route_list_defs route_build wf_eval known_simps)

lemma wf_route_ca_rollover_migrate [simp]: "wf_spec route_ca_rollover_migrate"
  unfolding route_ca_rollover_migrate_def
  by (rule wf_route [OF _ _ symmetric_conflicts_none])
    (auto simp: route_list_defs route_build wf_eval known_simps)

lemma wf_route_ca_rollover_status [simp]: "wf_spec route_ca_rollover_status"
  unfolding route_ca_rollover_status_def
  by (rule wf_route [OF _ _ symmetric_conflicts_none])
    (auto simp: route_list_defs route_build wf_eval known_simps)

lemma wf_route_ca_rollover_prepare [simp]: "wf_spec route_ca_rollover_prepare"
  unfolding route_ca_rollover_prepare_def
  by (rule wf_route [OF _ _ symmetric_conflicts_none])
    (auto simp: route_list_defs route_build wf_eval known_simps)

lemma wf_route_ca_rollover_recover [simp]: "wf_spec route_ca_rollover_recover"
  unfolding route_ca_rollover_recover_def
  by (rule wf_route [OF _ _ symmetric_conflicts_none])
    (auto simp: route_list_defs route_build wf_eval known_simps)

lemma wf_route_direct_exchange_request_pull [simp]: "wf_spec route_direct_exchange_request_pull"
  unfolding route_direct_exchange_request_pull_def
  by (rule wf_route [OF _ _ symmetric_conflicts_none])
    (auto simp: route_list_defs route_build wf_eval known_simps)

lemma wf_route_direct_exchange_evidence_pull [simp]: "wf_spec route_direct_exchange_evidence_pull"
  unfolding route_direct_exchange_evidence_pull_def
  by (rule wf_route [OF _ _ symmetric_conflicts_none])
    (auto simp: route_list_defs route_build wf_eval known_simps)

lemma wf_route_direct_exchange_response_push [simp]: "wf_spec route_direct_exchange_response_push"
  unfolding route_direct_exchange_response_push_def
  by (rule wf_route [OF _ _ symmetric_conflicts_none])
    (auto simp: route_list_defs route_build wf_eval known_simps)

lemma wf_route_direct_exchange_outcome_push [simp]: "wf_spec route_direct_exchange_outcome_push"
  unfolding route_direct_exchange_outcome_push_def
  by (rule wf_route [OF _ _ symmetric_conflicts_none])
    (auto simp: route_list_defs route_build wf_eval known_simps)

lemma wf_route_gitlab_package_publish [simp]: "wf_spec route_gitlab_package_publish"
  unfolding route_gitlab_package_publish_def
  by (rule wf_route [OF _ _ symmetric_conflicts_none])
    (auto simp: route_list_defs route_build wf_eval known_simps)

lemma wf_route_gitlab_package_download [simp]: "wf_spec route_gitlab_package_download"
  unfolding route_gitlab_package_download_def
  by (rule wf_route [OF _ _ symmetric_conflicts_none])
    (auto simp: route_list_defs route_build wf_eval known_simps)

lemma wf_route_gitlab_package_publish_request [simp]: "wf_spec route_gitlab_package_publish_request"
  unfolding route_gitlab_package_publish_request_def
  by (rule wf_route [OF _ _ symmetric_conflicts_none])
    (auto simp: route_list_defs route_build wf_eval known_simps)

section \<open>The table\<close>

lemmas route_defs = route_init_def route_inventory_install_def route_csr_trust_install_def
  route_csr_recover_def route_offline_csr_approve_def route_offline_csr_sign_def
  route_offline_workspace_init_def route_certificate_export_publish_def
  route_certificate_export_resolve_def route_csr_outcome_publish_def
  route_csr_outcome_resolve_def route_csr_candidate_verify_def
  route_csr_candidate_decision_def route_root_create_def route_intermediate_create_def
  route_service_write_def route_service_verify_def route_service_recover_def
  route_list_expiry_def route_print_cert_def route_export_ansible_def route_backup_def
  route_custody_report_def route_ca_passphrase_verify_def route_ca_rollover_migrate_def
  route_ca_rollover_status_def route_ca_rollover_prepare_def route_ca_rollover_recover_def
  route_direct_exchange_request_pull_def route_direct_exchange_evidence_pull_def
  route_direct_exchange_response_push_def route_direct_exchange_outcome_push_def
  route_gitlab_package_publish_def route_gitlab_package_download_def
  route_gitlab_package_publish_request_def

lemma routes_wf: "spec \<in> set ROUTES \<Longrightarrow> wf_spec spec"
  by (auto simp: ROUTES_def)

lemma routes_distinct: "distinct (map rs_route ROUTES)"
  by (simp add: ROUTES_def route_defs)

lemma lookup_route_iff: "lookup_route r = Some spec \<longleftrightarrow> spec \<in> set ROUTES \<and> rs_route spec = r"
proof -
  have "distinct (map fst (rev (map (\<lambda>spec. (rs_route spec, spec)) ROUTES)))"
    using routes_distinct by (simp add: comp_def flip: rev_map)
  then show ?thesis by (auto simp: lookup_route_def map_of_eq_Some_iff)
qed

lemma lookup_wf: "lookup_route r = Some spec \<Longrightarrow> wf_spec spec"
  by (simp add: lookup_route_iff routes_wf)

end
