(* ===== verification/ParserContracts.thy ===== *)
theory ParserContracts
  imports RouteFacts
begin

text \<open>
  The lemmas of the parser: the loops over positionals and options as folds that touch one key each
  (the locale \<open>keyed_fold\<close>), the invariant of the token loop, and the exceptions of every step.
\<close>

section \<open>Folds that own their key\<close>

text \<open>
  A loop over items that each update the dictionary at their own key. Whatever the order of the
  items, the entry of an item after the loop is what its own step made of the entry before it.
\<close>

locale keyed_fold =
  fixes step :: "'a \<Rightarrow> (string \<times> 'v) list \<Rightarrow> (string \<times> 'v) list result"
    and key :: "'a \<Rightarrow> string"
  assumes own_key: "step x s = Inr s' \<Longrightarrow> n \<noteq> key x \<Longrightarrow> map_of s' n = map_of s n"
begin

lemma untouched: "foldE step xs s = Inr s' \<Longrightarrow> n \<notin> key ` set xs \<Longrightarrow> map_of s' n = map_of s n"
  by (induction xs arbitrary: s) (auto simp: bindE_ok dest: own_key)

lemma touched:
  assumes "foldE step xs s = Inr s'" and "distinct (map key xs)" and "x \<in> set xs"
  shows "\<exists>s1 s2. step x s1 = Inr s2 \<and> map_of s1 (key x) = map_of s (key x) \<and>
    map_of s' (key x) = map_of s2 (key x)"
  using assms
proof (induction xs arbitrary: s)
  case (Cons y ys)
  from Cons.prems(1) obtain t where t: "step y s = Inr t" "foldE step ys t = Inr s'"
    by (auto simp: bindE_ok)
  show ?case
  proof (cases "x = y")
    case True
    moreover have "map_of s' (key y) = map_of t (key y)"
      using untouched [OF t(2)] Cons.prems(2) by simp
    ultimately show ?thesis using t(1) by blast
  next
    case False
    with Cons.prems have x: "x \<in> set ys" "distinct (map key ys)" by auto
    with Cons.prems(2) have "key x \<noteq> key y" by (metis distinct.simps(2) image_eqI list.set_map list.simps(9))
    note x = x this
    from Cons.IH [OF t(2) x(2,1)] own_key [OF t(1) x(3)] show ?thesis by metis
  qed
qed simp

lemma keys_kept:
  assumes "foldE step xs s = Inr s'" and "\<And>x s t. step x s = Inr t \<Longrightarrow> map_of s (key x) \<noteq> None \<Longrightarrow> map_of t (key x) \<noteq> None"
    and "map_of s n \<noteq> None"
  shows "map_of s' n \<noteq> None"
  using assms(1,3)
proof (induction xs arbitrary: s)
  case (Cons y ys)
  from Cons.prems(1) obtain t where t: "step y s = Inr t" "foldE step ys t = Inr s'"
    by (auto simp: bindE_ok)
  have "map_of t n \<noteq> None"
    using own_key [OF t(1), of n] assms(2) [OF t(1)] Cons.prems(2) by (cases "n = key y") auto
  with Cons.IH [OF t(2)] show ?case .
qed simp

end

lemma map_of_update: "map_of (AList.update k v al) n = (if n = k then Some v else map_of al n)"
  by (simp add: update_conv')

interpretation positionals: keyed_fold "close_positional spec provided" pos_name
  by unfold_locales (auto simp: close_positional_def ok_iff map_of_update)

interpretation closed: keyed_fold "close_option provided" os_name
  by unfold_locales (auto simp: close_option_def ok_iff map_of_update split: option.splits if_splits)

interpretation validated: keyed_fold "validate_option provided" os_name
  by unfold_locales (auto simp: validate_option_def ok_iff map_of_update split: option.splits if_splits)

section \<open>Exceptions\<close>

definition is_parser_error :: "exn \<Rightarrow> bool" where
  "is_parser_error e \<longleftrightarrow> (\<exists>m a. e = ParserError m a)"

definition printable :: "string \<Rightarrow> bool" where
  "printable s \<longleftrightarrow> list_all (\<lambda>c. \<not> unsafe_char c \<or> c = NL) s"

lemma printable_simps [simp]:
  "printable []"
  "printable (c # s) \<longleftrightarrow> (\<not> unsafe_char c \<or> c = NL) \<and> printable s"
  "printable (s @ t) \<longleftrightarrow> printable s \<and> printable t"
  by (simp_all add: printable_def)

lemma printable_safe: "\<not> unsafe_text s \<Longrightarrow> printable s"
  by (auto simp: printable_def unsafe_text_def list_all_iff list_ex_iff)

lemma printable_safe_text [simp]: "printable (safe_text s)"
  by (rule printable_safe) simp

lemma parser_error_printable: "m \<noteq> [] \<Longrightarrow> printable m \<Longrightarrow> is_parser_error (parser_error m a)"
  by (auto simp: parser_error_def is_parser_error_def printable_def list_all_iff list_ex_iff)

lemmas printable_literal = unsafe_char_def code_def NL_def

lemma wf_option_printable:
  assumes "wf_option option"
  shows "printable (os_name option)" and "printable (metavar_text option)"
    and "c \<in> set (os_choices option) \<Longrightarrow> printable c"
  using assms by (auto simp: wf_option_def list_all_iff intro: printable_safe)

lemma printable_join:
  "printable sep \<Longrightarrow> (\<And>w. w \<in> set ws \<Longrightarrow> printable w) \<Longrightarrow> printable (join_on sep ws)"
  by (induction sep ws rule: join_on.induct) auto

lemma raises_check_value:
  assumes "wf_option option"
  shows "raises_only is_parser_error (check_value option v)"
proof -
  note p = wf_option_printable [OF assms]
  have j: "printable (join_on '', '' (os_choices option))"
    by (rule printable_join) (simp_all add: p printable_literal)
  show ?thesis
    unfolding check_value_def check_not_empty_def check_days_def check_format_def check_choices_def
      validation_error_def
    by (intro raises parser_error_printable) (simp_all add: p j printable_literal)
qed

lemma raises_app_error: "m \<noteq> [] \<Longrightarrow> printable m \<Longrightarrow> is_parser_error (app_error m)"
  by (simp add: app_error_def parser_error_printable)

section \<open>The token loop\<close>

lemma find_option_iff:
  assumes "wf_spec spec"
  shows "find_option spec n = Some option \<longleftrightarrow> option \<in> set (rs_options spec) \<and> os_name option = n"
proof -
  have "distinct (map fst (rev (map (\<lambda>option. (os_name option, option)) (rs_options spec))))"
    using assms by (simp add: wf_spec_def comp_def flip: rev_map)
  then show ?thesis by (auto simp: find_option_def map_of_eq_Some_iff)
qed

lemma wf_spec_option: "wf_spec spec \<Longrightarrow> option \<in> set (rs_options spec) \<Longrightarrow> wf_option option"
  by (simp add: wf_spec_def list_all_iff)

lemma wf_spec_positional: "wf_spec spec \<Longrightarrow> p \<in> set (rs_positionals spec) \<Longrightarrow> wf_positional p"
  by (simp add: wf_spec_def list_all_iff)

lemma option_positional_names:
  "wf_spec spec \<Longrightarrow> option \<in> set (rs_options spec) \<Longrightarrow> p \<in> set (rs_positionals spec) \<Longrightarrow>
     os_name option \<noteq> pos_name p"
  using wf_spec_option [of spec option] wf_spec_positional [of spec p]
  by (auto simp: wf_option_def wf_positional_def starts_with_iff)

lemma os_name_unique:
  "wf_spec spec \<Longrightarrow> x \<in> set (rs_options spec) \<Longrightarrow> y \<in> set (rs_options spec) \<Longrightarrow>
     os_name x = os_name y \<Longrightarrow> x = y"
  by (auto simp: wf_spec_def distinct_map dest: inj_onD)

lemma pos_name_unique:
  "wf_spec spec \<Longrightarrow> x \<in> set (rs_positionals spec) \<Longrightarrow> y \<in> set (rs_positionals spec) \<Longrightarrow>
     pos_name x = pos_name y \<Longrightarrow> x = y"
  by (auto simp: wf_spec_def distinct_map dest: inj_onD)

text \<open>The shape of the value of an option and of a positional while the tokens are read.\<close>

definition option_shape :: "option_spec \<Rightarrow> arg_value \<Rightarrow> bool" where
  "option_shape option v \<longleftrightarrow>
     (if os_boolean option then v = VTrue
      else if os_repeatable option then \<exists>xs. v = VList xs \<and> xs \<noteq> []
      else \<exists>s. v = VText s)"

definition positional_shape :: "positional_spec \<Rightarrow> arg_value \<Rightarrow> bool" where
  "positional_shape p v \<longleftrightarrow>
     (if pos_repeatable p then \<exists>xs. v = VList xs \<and> xs \<noteq> [] else \<exists>s. v = VText s)"

definition fits :: "route_spec \<Rightarrow> string \<Rightarrow> arg_value \<Rightarrow> bool" where
  "fits spec n v \<longleftrightarrow>
     (\<exists>option \<in> set (rs_options spec). os_name option = n \<and> option_shape option v) \<or>
     (\<exists>p \<in> set (rs_positionals spec). pos_name p = n \<and> positional_shape p v)"

definition tokens_inv :: "route_spec \<Rightarrow> parse_state \<Rightarrow> bool" where
  "tokens_inv spec st \<longleftrightarrow> dom (map_of (ps_values st)) = ps_provided st \<and>
     (\<forall>n v. map_of (ps_values st) n = Some v \<longrightarrow> fits spec n v)"

lemma fits_option:
  assumes "wf_spec spec" and "option \<in> set (rs_options spec)"
  shows "fits spec (os_name option) v \<longleftrightarrow> option_shape option v"
  unfolding fits_def using os_name_unique [OF assms] option_positional_names [OF assms] assms(2)
  by metis

lemma fits_positional:
  assumes "wf_spec spec" and "p \<in> set (rs_positionals spec)"
  shows "fits spec (pos_name p) v \<longleftrightarrow> positional_shape p v"
  unfolding fits_def using pos_name_unique [OF assms] option_positional_names [OF assms(1) _ assms(2)]
    assms(2) by metis

lemma tokens_inv_initial: "tokens_inv spec initial_state"
  by (simp add: tokens_inv_def initial_state_def)

lemma tokens_inv_update:
  assumes "tokens_inv spec st" and "fits spec n v"
    and "ps_values st' = AList.update n v (ps_values st)" and "ps_provided st' = insert n (ps_provided st)"
  shows "tokens_inv spec st'"
proof -
  have "dom (map_of (ps_values st')) = insert n (dom (map_of (ps_values st)))"
    unfolding assms(3) by (auto simp: map_of_update dom_def)
  with assms show ?thesis by (auto simp: tokens_inv_def map_of_update split: if_splits)
qed

lemma tokens_inv_fits: "tokens_inv spec st \<Longrightarrow> map_of (ps_values st) n = Some v \<Longrightarrow> fits spec n v"
  by (simp add: tokens_inv_def)

lemma append_value_eq:
  assumes "\<And>v. map_of values n = Some v \<Longrightarrow> \<exists>xs. v = VList xs"
  shows "\<exists>xs. append_value n x values = AList.update n (VList (xs @ [x])) values"
  using assms by (auto simp: append_value_def)

lemma tokens_inv_switch:
  assumes "tokens_inv spec st" and "wf_spec spec" and "find_option spec n = Some option" and "os_boolean option"
  shows "tokens_inv spec (see_option n st\<lparr>ps_values := AList.update n VTrue (ps_values (see_option n st))\<rparr>)"
  using assms fits_option [OF assms(2), of option VTrue]
  by (intro tokens_inv_update [OF assms(1), of n VTrue])
    (auto simp: find_option_iff see_option_def option_shape_def)

lemma tokens_inv_value:
  assumes inv: "tokens_inv spec st" and wf: "wf_spec spec" and "find_option spec n = Some option"
    and nb: "\<not> os_boolean option"
  shows "tokens_inv spec (take_value option n x (see_option n st))"
proof -
  from assms(3) have o: "option \<in> set (rs_options spec)" "os_name option = n"
    by (simp_all add: find_option_iff wf)
  note shape = fits_option [OF wf o(1), unfolded o(2)]
  show ?thesis
  proof (cases "os_repeatable option")
    case True
    have "\<exists>xs. v = VList xs" if "map_of (ps_values st) n = Some v" for v
      using tokens_inv_fits [OF inv that] True nb by (auto simp: shape option_shape_def)
    then obtain xs where "append_value n x (ps_values st) = AList.update n (VList (xs @ [x])) (ps_values st)"
      using append_value_eq by blast
    with True nb show ?thesis
      by (intro tokens_inv_update [OF inv, of n "VList (xs @ [x])"])
        (simp_all add: shape option_shape_def take_value_def see_option_def)
  next
    case False
    with nb show ?thesis
      by (intro tokens_inv_update [OF inv, of n "VText x"])
        (simp_all add: shape option_shape_def take_value_def see_option_def)
  qed
qed

lemma tokens_inv_positional:
  assumes inv: "tokens_inv spec st" and wf: "wf_spec spec" and p: "p \<in> set (rs_positionals spec)"
  shows "tokens_inv spec (take_positional p x st)"
proof (cases "pos_repeatable p")
  case True
  have "\<exists>xs. v = VList xs" if "map_of (ps_values st) (pos_name p) = Some v" for v
    using tokens_inv_fits [OF inv that] True by (auto simp: fits_positional [OF wf p] positional_shape_def)
  then obtain xs where "append_value (pos_name p) x (ps_values st) =
      AList.update (pos_name p) (VList (xs @ [x])) (ps_values st)"
    using append_value_eq by blast
  with True show ?thesis
    by (intro tokens_inv_update [OF inv, of "pos_name p" "VList (xs @ [x])"])
      (simp_all add: fits_positional [OF wf p] positional_shape_def take_positional_def)
next
  case False
  then show ?thesis
    by (intro tokens_inv_update [OF inv, of "pos_name p" "VText x"])
      (simp_all add: fits_positional [OF wf p] positional_shape_def take_positional_def)
qed

lemma parse_tokens_inv:
  assumes "parse_tokens spec st ts = Inr st'" and "wf_spec spec" and "tokens_inv spec st"
  shows "tokens_inv spec st'"
  using assms
proof (induction spec st ts rule: parse_tokens.induct)
  case (2 spec st token rest)
  show ?case
  proof (cases "is_option_token token")
    case True
    with "2.prems"(1) obtain option where o: "find_option spec token = Some option"
      by (auto split: option.splits)
    show ?thesis
    proof (cases "os_boolean option")
      case b: True
      show ?thesis
        using "2.IH"(1) [OF True o refl b _ "2.prems"(2)] "2.prems" True o b
          tokens_inv_switch [OF "2.prems"(3,2) o b] by (simp add: Let_def)
    next
      case b: False
      with "2.prems"(1) True o obtain x rest' where r: "rest = x # rest'"
        by (auto simp: Let_def split: list.splits)
      show ?thesis
        using "2.IH"(2) [OF True o refl b r _ "2.prems"(2)] "2.prems" True o b r
          tokens_inv_value [OF "2.prems"(3,2) o b] by (simp add: Let_def)
    qed
  next
    case False
    with "2.prems"(1) have i: "\<not> length (rs_positionals spec) \<le> ps_position st" by auto
    then have "rs_positionals spec ! ps_position st \<in> set (rs_positionals spec)" by simp
    from tokens_inv_positional [OF "2.prems"(3,2) this, of token] "2.IH"(3) [OF False i _ "2.prems"(2)]
      "2.prems"(1) False i
    show ?thesis by simp
  qed
qed simp

lemma raises_parse_tokens:
  assumes "wf_spec spec"
  shows "raises_only is_parser_error (parse_tokens spec st ts)"
  using assms
proof (induction spec st ts rule: parse_tokens.induct)
  case (2 spec st token rest)
  show ?case
  proof (cases "is_option_token token")
    case True
    show ?thesis
    proof (cases "find_option spec token")
      case None
      with True show ?thesis
        by simp (intro parser_error_printable; simp add: printable_literal)
    next
      case (Some option)
      then have "wf_option option" "os_name option = token"
        using "2.prems" by (auto simp: find_option_iff wf_spec_option)
      with wf_option_printable [of option]
      have "is_parser_error (parser_error (token @ '' requires an argument: '' @ token @ '' '' @
          metavar_text option) False)"
        by (intro parser_error_printable) (auto simp: printable_literal)
      with True Some "2.IH"(1,2) [OF True Some refl] "2.prems" show ?thesis
        by (auto simp: Let_def split: list.splits)
    qed
  next
    case False
    have "is_parser_error (parser_error (''invalid argument: '' @ safe_text token) False)"
      by (intro parser_error_printable) (simp_all add: printable_literal)
    with False "2.IH"(3) [OF False] "2.prems" show ?thesis by simp
  qed
qed simp

section \<open>The checks after the loop\<close>

text \<open>The values an option has in a parsed command.\<close>

definition admitted :: "option_spec \<Rightarrow> arg_value \<Rightarrow> bool" where
  "admitted option v \<longleftrightarrow>
     (if os_boolean option then v = VTrue
      else if os_repeatable option then
        \<exists>xs. v = VTuple xs \<and> (\<forall>x \<in> set xs. value_fits (os_validator option) (os_choices option) x)
      else \<exists>s. v = VText s \<and> value_fits (os_validator option) (os_choices option) s)"

lemma close_option_entry:
  assumes "close_option provided option s1 = Inr s2" and "wf_option option"
    and "\<And>v. map_of s1 (os_name option) = Some v \<Longrightarrow> option_shape option v"
    and "map_of s1 (os_name option) \<noteq> None \<longleftrightarrow> os_name option \<in> provided"
  shows "(os_required option \<longrightarrow> os_name option \<in> provided) \<and>
    (map_of s2 (os_name option) \<noteq> None \<longleftrightarrow> os_name option \<in> provided \<or> os_default option \<noteq> None) \<and>
    (\<forall>v. map_of s2 (os_name option) = Some v \<longrightarrow> option_shape option v)"
proof (cases "os_default option")
  case None
  with assms show ?thesis by (auto simp: close_option_def ok_iff)
next
  case (Some d)
  with assms(2) have "\<not> os_required option" "\<not> os_repeatable option" "\<not> os_boolean option"
    by (auto simp: wf_option_def wf_default_def)
  then have "option_shape option (VText d)" by (simp add: option_shape_def)
  with assms Some \<open>\<not> os_required option\<close> show ?thesis
    by (auto simp: close_option_def ok_iff map_of_update split: if_splits)
qed

lemma validate_option_entry:
  assumes "validate_option provided option s1 = Inr s2" and "wf_option option"
    and "\<And>v. map_of s1 (os_name option) = Some v \<Longrightarrow> option_shape option v"
  shows "(map_of s2 (os_name option) = None \<longleftrightarrow> map_of s1 (os_name option) = None) \<and>
    (\<forall>v. map_of s2 (os_name option) = Some v \<longrightarrow> admitted option v) \<and>
    (os_name option \<in> provided \<longrightarrow> (\<forall>c \<in> set (os_conflicts option). c \<notin> provided))"
proof (cases "map_of s1 (os_name option)")
  case None
  with assms show ?thesis by (auto simp: validate_option_def ok_iff split: if_splits)
next
  case (Some v)
  with assms(3) have "option_shape option v" .
  moreover have "os_boolean option \<longrightarrow> \<not> os_repeatable option"
    using assms(2) by (simp add: wf_option_def)
  ultimately show ?thesis using Some assms(1)
    by (auto simp: validate_option_def ok_iff option_shape_def admitted_def map_of_update split: if_splits)
qed

lemma close_positional_entry:
  assumes "close_positional spec provided p s1 = Inr s2"
    and "\<And>v. map_of s1 (pos_name p) = Some v \<Longrightarrow> positional_shape p v"
  shows "(pos_required p \<longrightarrow> pos_name p \<in> provided) \<and>
    (if pos_repeatable p then \<exists>xs. map_of s2 (pos_name p) = Some (VTuple xs)
     else map_of s2 (pos_name p) = map_of s1 (pos_name p))"
  using assms by (auto simp: close_positional_def ok_iff map_of_update split: if_splits)

text \<open>The steps of a successful parse.\<close>

lemma parse_spec_steps:
  assumes "parse_spec spec args i = Inr p"
  obtains st v1 v2 where
    "parse_tokens spec initial_state (normalize_arguments args) = Inr st"
    "foldE (close_positional spec (pr_provided p)) (rs_positionals spec) (ps_values st) = Inr v1"
    "foldE (close_option (pr_provided p)) (rs_options spec) v1 = Inr v2"
    "foldE (validate_option (pr_provided p)) (rs_options spec) v2 = Inr (pr_values p)"
    "check_repeats spec st = Inr ()" "pr_provided p = ps_provided st" "pr_spec p = spec"
    "runtime_relationships spec (pr_values p) (pr_provided p) (ps_empty st) i = Inr ()"
  using assms by (auto simp: parse_spec_def bindE_ok)

lemma closed_options:
  assumes inv: "tokens_inv spec st" and wf: "wf_spec spec" and o: "option \<in> set (rs_options spec)"
    and v1: "foldE (close_positional spec (ps_provided st)) (rs_positionals spec) (ps_values st) = Inr v1"
    and v2: "foldE (close_option (ps_provided st)) (rs_options spec) v1 = Inr v2"
  shows "(os_required option \<longrightarrow> os_name option \<in> ps_provided st) \<and>
    (map_of v2 (os_name option) \<noteq> None \<longleftrightarrow> os_name option \<in> ps_provided st \<or> os_default option \<noteq> None) \<and>
    (\<forall>v. map_of v2 (os_name option) = Some v \<longrightarrow> option_shape option v)"
proof -
  let ?n = "os_name option"
  have "?n \<notin> pos_name ` set (rs_positionals spec)"
    using option_positional_names [OF wf o] by auto
  from positionals.untouched [OF v1 this] have e1: "map_of v1 ?n = map_of (ps_values st) ?n" .
  have "distinct (map os_name (rs_options spec))" using wf by (simp add: wf_spec_def)
  from closed.touched [OF v2 this o] obtain s1 s2 where
    s: "close_option (ps_provided st) option s1 = Inr s2" "map_of s1 ?n = map_of v1 ?n"
      "map_of v2 ?n = map_of s2 ?n" by blast
  have "option_shape option v" if "map_of s1 ?n = Some v" for v
    using that s(2) e1 tokens_inv_fits [OF inv, of ?n v] fits_option [OF wf o] by simp
  moreover have "map_of s1 ?n \<noteq> None \<longleftrightarrow> ?n \<in> ps_provided st"
    unfolding s(2) e1 using inv by (auto simp: tokens_inv_def)
  ultimately show ?thesis
    using close_option_entry [OF s(1) wf_spec_option [OF wf o]] s(3) by simp
qed

lemma parsed_option:
  assumes parse: "parse_spec spec args i = Inr p" and wf: "wf_spec spec" and o: "option \<in> set (rs_options spec)"
  shows "(os_required option \<longrightarrow> os_name option \<in> pr_provided p) \<and>
    (map_of (pr_values p) (os_name option) \<noteq> None \<longleftrightarrow> os_name option \<in> pr_provided p \<or> os_default option \<noteq> None) \<and>
    (\<forall>v. map_of (pr_values p) (os_name option) = Some v \<longrightarrow> admitted option v) \<and>
    (os_name option \<in> pr_provided p \<longrightarrow> (\<forall>c \<in> set (os_conflicts option). c \<notin> pr_provided p))"
  using parse
proof (rule parse_spec_steps)
  fix st v1 v2
  assume tokens: "parse_tokens spec initial_state (normalize_arguments args) = Inr st"
    and v1: "foldE (close_positional spec (pr_provided p)) (rs_positionals spec) (ps_values st) = Inr v1"
    and v2: "foldE (close_option (pr_provided p)) (rs_options spec) v1 = Inr v2"
    and v3: "foldE (validate_option (pr_provided p)) (rs_options spec) v2 = Inr (pr_values p)"
    and provided: "pr_provided p = ps_provided st"
  have inv: "tokens_inv spec st" using parse_tokens_inv [OF tokens wf tokens_inv_initial] .
  note closed = closed_options [OF inv wf o v1 [unfolded provided] v2 [unfolded provided]]
  have "distinct (map os_name (rs_options spec))" using wf by (simp add: wf_spec_def)
  from validated.touched [OF v3 this o] obtain s1 s2 where
    s: "validate_option (pr_provided p) option s1 = Inr s2" "map_of s1 (os_name option) = map_of v2 (os_name option)"
      "map_of (pr_values p) (os_name option) = map_of s2 (os_name option)" by blast
  have "option_shape option v" if "map_of s1 (os_name option) = Some v" for v
    using closed that s(2) by simp
  from validate_option_entry [OF s(1) wf_spec_option [OF wf o] this] closed s show ?thesis by (simp add: provided)
qed

lemma parsed_positional:
  assumes parse: "parse_spec spec args i = Inr p" and wf: "wf_spec spec" and q: "q \<in> set (rs_positionals spec)"
  shows "(pos_required q \<longrightarrow> pos_name q \<in> pr_provided p) \<and>
    (if pos_repeatable q then \<exists>xs. map_of (pr_values p) (pos_name q) = Some (VTuple xs)
     else pos_name q \<in> pr_provided p \<longrightarrow> (\<exists>s. map_of (pr_values p) (pos_name q) = Some (VText s)))"
  using parse
proof (rule parse_spec_steps)
  fix st v1 v2
  assume tokens: "parse_tokens spec initial_state (normalize_arguments args) = Inr st"
    and v1: "foldE (close_positional spec (pr_provided p)) (rs_positionals spec) (ps_values st) = Inr v1"
    and v2: "foldE (close_option (pr_provided p)) (rs_options spec) v1 = Inr v2"
    and v3: "foldE (validate_option (pr_provided p)) (rs_options spec) v2 = Inr (pr_values p)"
    and provided: "pr_provided p = ps_provided st"
  have inv: "tokens_inv spec st" using parse_tokens_inv [OF tokens wf tokens_inv_initial] .
  have no: "pos_name q \<notin> os_name ` set (rs_options spec)"
    using option_positional_names [OF wf _ q] by auto metis
  have "distinct (map pos_name (rs_positionals spec))" using wf by (simp add: wf_spec_def)
  from positionals.touched [OF v1 this q] obtain s1 s2 where
    s: "close_positional spec (pr_provided p) q s1 = Inr s2" "map_of s1 (pos_name q) = map_of (ps_values st) (pos_name q)"
      "map_of v1 (pos_name q) = map_of s2 (pos_name q)" by blast
  have shape: "positional_shape q v" if "map_of (ps_values st) (pos_name q) = Some v" for v
    using tokens_inv_fits [OF inv that] fits_positional [OF wf q] by simp
  have e: "map_of (pr_values p) (pos_name q) = map_of s2 (pos_name q)"
    using closed.untouched [OF v2 no] validated.untouched [OF v3 no] s(3) by simp
  have dom: "pos_name q \<in> pr_provided p \<Longrightarrow> \<exists>v. map_of (ps_values st) (pos_name q) = Some v"
    using inv unfolding provided tokens_inv_def by blast
  have "positional_shape q v" if "map_of s1 (pos_name q) = Some v" for v
    using that s(2) shape by simp
  from close_positional_entry [OF s(1) this] e s(2) dom shape show ?thesis
    by (auto simp: positional_shape_def)
qed

section \<open>Only parser errors\<close>

lemma raises_foldE [raises]:
  "(\<And>x s. x \<in> set xs \<Longrightarrow> raises_only P (step x s)) \<Longrightarrow> raises_only P (foldE step xs s)"
  by (induction xs arbitrary: s) (auto intro!: raises_only_bindE)

lemma printable_rstrip: "printable s \<Longrightarrow> printable (rev (dropWhile P (rev s)))"
  by (auto simp: printable_def list_all_iff dest: set_dropWhileD)

lemma printable_usage:
  assumes "wf_spec spec"
  shows "printable (render_usage spec)"
proof -
  have "printable w" if "w \<in> set (rs_route spec)" for w
    using assms that by (auto simp: wf_spec_def list_all_iff intro: printable_safe)
  then have "printable (join_on '' '' (''platform-pki'' # rs_route spec))"
    by (intro printable_join) (auto simp: printable_literal)
  moreover have "printable (positional_usage p)" if "p \<in> set (rs_positionals spec)" for p
    using wf_spec_positional [OF assms that]
    by (auto simp: positional_usage_def wf_positional_def printable_literal intro: printable_safe)
  then have "printable (join_on '' '' (map positional_usage (rs_positionals spec)))"
    by (intro printable_join) (auto simp: printable_literal)
  then have "printable (join_on '' '' (filter (\<lambda>part. part \<noteq> [])
      [join_on '' '' (map positional_usage (rs_positionals spec)), ''[OPTIONS]'']))"
    by (intro printable_join) (auto simp: printable_literal split: if_splits)
  ultimately show ?thesis by (simp add: render_usage_def Let_def printable_literal)
qed

lemma raises_close_positional:
  assumes "wf_spec spec" and "p \<in> set (rs_positionals spec)"
  shows "raises_only is_parser_error (close_positional spec provided p s)"
proof -
  have "printable (pos_metavar p)"
    using wf_spec_positional [OF assms] by (auto simp: wf_positional_def intro: printable_safe)
  with printable_usage [OF assms(1)] show ?thesis
    unfolding close_positional_def
    by (intro raises parser_error_printable) (auto simp: printable_literal intro: printable_rstrip)
qed

lemma raises_close_option:
  "wf_option option \<Longrightarrow> raises_only is_parser_error (close_option provided option s)"
  unfolding close_option_def using wf_option_printable [of option]
  by (intro raises parser_error_printable) (auto simp: printable_literal)

lemma conflict_printable:
  assumes "wf_spec spec" and "option \<in> set (rs_options spec)" and "c \<in> set (os_conflicts option)"
  shows "printable c"
proof -
  from assms obtain y where "y \<in> set (rs_options spec)" "os_name y = c"
    unfolding wf_spec_def symmetric_conflicts_def list_all_iff list_ex_iff by blast
  with wf_option_printable(1) [OF wf_spec_option [OF assms(1)]] show ?thesis by blast
qed

lemma raises_validate_option:
  assumes "wf_spec spec" and "option \<in> set (rs_options spec)"
  shows "raises_only is_parser_error (validate_option provided option s)"
proof -
  note o = wf_spec_option [OF assms]
  have "is_parser_error (parser_error (''conflicting options: '' @ os_name option @ '' and '' @ c) False)"
    if "c \<in> set (os_conflicts option)" for c
    using wf_option_printable(1) [OF o] conflict_printable [OF assms that]
    by (intro parser_error_printable) (simp_all add: printable_literal)
  then show ?thesis
    unfolding validate_option_def
    by (intro raises) (auto split: option.splits intro!: raises_only_bindE raises_only_forE
        raises_only_requireE_intro raises_check_value [OF o] raises)
qed

lemma raises_check_repeats:
  assumes "wf_spec spec"
  shows "raises_only is_parser_error (check_repeats spec st)"
proof -
  have "is_parser_error (app_error (''Option must not be repeated: '' @ os_name option))"
    if "option \<in> set (rs_options spec)" for option
    using wf_option_printable(1) [OF wf_spec_option [OF assms that]]
    by (intro raises_app_error) (simp_all add: printable_literal)
  then show ?thesis unfolding check_repeats_def by (intro raises)
qed

text \<open>The routes whose checks read an option by index require that option.\<close>

lemma route_unique:
  "spec \<in> set ROUTES \<Longrightarrow> spec' \<in> set ROUTES \<Longrightarrow> rs_route spec = rs_route spec' \<Longrightarrow> spec = spec'"
  using lookup_route_iff [of "rs_route spec" spec] lookup_route_iff [of "rs_route spec" spec'] by simp

lemma required_option:
  "n \<in> set names \<Longrightarrow> n \<in> set (ra_required a) \<Longrightarrow>
    \<exists>option \<in> set (rs_options (route r names a)). os_name option = n \<and> os_required option"
  by (auto simp: route_def options_of_def)

lemma checked_routes:
  "route_offline_csr_approve \<in> set ROUTES" "rs_route route_offline_csr_approve = [''offline-csr'', ''approve'']"
  "route_offline_csr_sign \<in> set ROUTES" "rs_route route_offline_csr_sign = [''offline-csr'', ''sign'']"
  "route_ca_rollover_prepare \<in> set ROUTES" "rs_route route_ca_rollover_prepare = [''ca-rollover'', ''prepare'']"
  by (simp_all add: ROUTES_def) (simp_all add: route_offline_csr_approve_def route_offline_csr_sign_def
      route_ca_rollover_prepare_def)

lemma operation_required:
  assumes "spec \<in> set ROUTES"
    and "rs_route spec = [''offline-csr'', ''approve''] \<or> rs_route spec = [''offline-csr'', ''sign'']"
  shows "\<exists>option \<in> set (rs_options spec). os_name option = ''--operation'' \<and> os_required option"
proof -
  have "spec = route_offline_csr_approve \<or> spec = route_offline_csr_sign"
    using assms route_unique checked_routes by metis
  then show ?thesis
    by (elim disjE ssubst; unfold route_offline_csr_approve_def route_offline_csr_sign_def;
        intro required_option) simp_all
qed

lemma type_required:
  assumes "spec \<in> set ROUTES" and "rs_route spec = [''ca-rollover'', ''prepare'']"
  shows "\<exists>option \<in> set (rs_options spec). os_name option = ''--type'' \<and> os_required option"
proof -
  have "spec = route_ca_rollover_prepare" using assms route_unique checked_routes by metis
  then show ?thesis
    by (elim ssubst; unfold route_ca_rollover_prepare_def; intro required_option) simp_all
qed

lemma app_literals:
  "is_parser_error (app_error ''--days is unavailable for host-local CSR signing; inventory is authoritative'')"
  "is_parser_error (app_error ''--rotate-key conflicts with --csr-file'')"
  "is_parser_error (app_error ''--current-cert-file is available only for host-local renewal'')"
  "is_parser_error (app_error ''Offline CSR renewal requires --current-cert-file'')"
  "is_parser_error (app_error ''--current-cert-file is available only for offline CSR renewal'')"
  "is_parser_error (app_error ''--yes requires both expected 64-hex SHA-256 fingerprints'')"
  "is_parser_error (app_error ''Candidate type must not be empty'')"
  "is_parser_error (app_error ''Option must not be empty: --issuer-safety-days'')"
  "is_parser_error (app_error ''--root-name is required for root preparation'')"
  "is_parser_error (app_error ''--root-name, --root-days, and --private-repo are forbidden for intermediate preparation'')"
  "is_parser_error (app_error ''Preparation without all required passphrase files requires an interactive TTY'')"
  "is_parser_error (app_error ''At least one of --root-pass-file or --intermediate-pass-file is required'')"
  "is_parser_error (app_error ''Recovery action must not be empty'')"
  by (rule raises_app_error; simp add: printable_literal)+

lemma raises_service_relations: "raises_only is_parser_error (service_relations issue provided)"
proof -
  have "is_parser_error (app_error (''Authenticated host-local '' @
      (if issue then ''issuance'' else ''renewal'') @ '' requires '' @ option))"
    if "option \<in> set (if issue then butlast CSR_INPUT_OPTIONS else CSR_INPUT_OPTIONS)" for option
    using that by (intro raises_app_error)
      (auto simp: CSR_INPUT_OPTIONS_def printable_literal split: if_splits)
  then show ?thesis
    unfolding service_relations_def by (intro raises app_literals)
qed

lemma days_option_wf:
  "name \<in> {''--root-days'', ''--intermediate-days'', ''--issuer-safety-days''} \<Longrightarrow> wf_option (days_option name)"
  using wf_options_of(1) [of "[name]" "no_args\<lparr>ra_validators := [(name, ''days'')]\<rparr>"]
  by (auto simp: days_option_def options_of_def wf_args_def known_simps no_args_def)

lemma raises_prepare_relations:
  assumes "map_of values ''--type'' \<noteq> None"
  shows "raises_only is_parser_error (prepare_relations values provided blanks interactive)"
  unfolding prepare_relations_def value_item_def
  using assms
  by (intro raises app_literals)
    (auto split: option.splits intro!: raises_check_value days_option_wf)

lemma raises_runtime:
  assumes "spec \<in> set ROUTES"
    and "\<And>option. option \<in> set (rs_options spec) \<Longrightarrow> os_required option \<Longrightarrow> map_of values (os_name option) \<noteq> None"
  shows "raises_only is_parser_error (runtime_relationships spec values provided blanks interactive)"
proof -
  have "map_of values ''--operation'' \<noteq> None"
    if "rs_route spec = [''offline-csr'', ''approve''] \<or> rs_route spec = [''offline-csr'', ''sign'']"
    using operation_required [OF assms(1) that] assms(2) by metis
  moreover have "map_of values ''--type'' \<noteq> None" if "rs_route spec = [''ca-rollover'', ''prepare'']"
    using type_required [OF assms(1) that] assms(2) by metis
  ultimately show ?thesis
    unfolding runtime_relationships_def Let_def offline_relations_def migrate_relations_def
    by (intro raises raises_service_relations raises_prepare_relations app_literals)
      (auto simp: value_item_def app_literals)
qed

text \<open>Every step of the parser raises parser errors only.\<close>

lemma raises_parse_spec:
  assumes "spec \<in> set ROUTES"
  shows "raises_only is_parser_error (parse_spec spec args i)"
proof -
  note wf = routes_wf [OF assms]
  have "raises_only is_parser_error (runtime_relationships spec v3 (ps_provided st) (ps_empty st) i)"
    if tokens: "parse_tokens spec initial_state (normalize_arguments args) = Inr st"
      and v1: "foldE (close_positional spec (ps_provided st)) (rs_positionals spec) (ps_values st) = Inr v1"
      and v2: "foldE (close_option (ps_provided st)) (rs_options spec) v1 = Inr v2"
      and v3: "foldE (validate_option (ps_provided st)) (rs_options spec) v2 = Inr v3" for st v1 v2 v3
  proof (rule raises_runtime [OF assms])
    fix option
    assume o: "option \<in> set (rs_options spec)" and req: "os_required option"
    have "tokens_inv spec st" using parse_tokens_inv [OF tokens wf tokens_inv_initial] .
    from closed_options [OF this wf o v1 v2] req have "map_of v2 (os_name option) \<noteq> None" by simp
    then show "map_of v3 (os_name option) \<noteq> None"
      by (rule validated.keys_kept [OF v3, rotated])
        (auto simp: validate_option_def ok_iff map_of_update split: option.splits if_splits)
  qed
  then show ?thesis
    unfolding parse_spec_def
    by (intro raises raises_parse_tokens [OF wf] raises_close_positional [OF wf]
        raises_close_option wf_spec_option [OF wf] raises_validate_option [OF wf]
        raises_check_repeats [OF wf])
qed

end
