(* ===== verification/ParserProperties.thy ===== *)
theory ParserProperties
  imports ParserContracts
begin

text \<open>
  The properties of the command-line parser: what an accepted command satisfies, which exceptions a
  refused one raises, the two spellings of an option, and the rules between options.
\<close>

section \<open>Option syntax\<close>

lemma is_option_text_iff:
  "is_option_text s \<longleftrightarrow>
     (starts_with ''--'' s \<and> drop 2 s \<noteq> [] \<and> list_all is_option_char (drop 2 s)) \<or>
     (length s = 2 \<and> hd s = CHR ''-'' \<and> is_alnum (s ! 1))"
proof -
  have "fullmatch LONG_OPTION_RX s \<longleftrightarrow>
      starts_with ''--'' s \<and> drop 2 s \<noteq> [] \<and> list_all is_option_char (drop 2 s)"
    by (auto simp: LONG_OPTION_RX_def fullmatch_lang rx_lang starts_with_iff list_all_iff)
  moreover have "fullmatch SHORT_OPTION_RX s \<longleftrightarrow> length s = 2 \<and> hd s = CHR ''-'' \<and> is_alnum (s ! 1)"
    by (auto simp: SHORT_OPTION_RX_def fullmatch_lang rx_lang length_Suc_conv numeral_2_eq_2)
  ultimately show ?thesis by (simp add: is_option_text_def)
qed

lemma short_cluster_iff:
  "fullmatch SHORT_CLUSTER_RX s \<longleftrightarrow>
     2 < length s \<and> hd s = CHR ''-'' \<and> list_all is_alnum (tl s)"
proof -
  have "fullmatch SHORT_CLUSTER_RX s \<longleftrightarrow>
      (\<exists>c v. s = CHR ''-'' # c # v \<and> is_alnum c \<and> v \<noteq> [] \<and> (\<forall>x \<in> set v. is_alnum x))"
    unfolding fullmatch_lang SHORT_CLUSTER_RX_def lang_Cat [of _ "Lit _"] lang_Cat_Cls
    by (auto simp: lang_Lit lang_Plus_Cls)
  then show ?thesis
    by (cases s; cases "tl s") (auto simp: list_all_iff neq_Nil_conv)
qed

lemma dash_not_alnum [simp]: "\<not> is_alnum (CHR ''-'')"
  by (simp add: is_alnum_def is_digit_def is_lower_def is_upper_def code_def)

lemma option_text_no_equals: "is_option_text s \<Longrightarrow> CHR ''='' \<notin> set s"
proof -
  assume "is_option_text s"
  moreover have "\<not> is_option_char (CHR ''='')" "\<not> is_alnum (CHR ''='')"
    by (simp_all add: is_option_char_def is_alnum_def is_digit_def is_lower_def is_upper_def code_def)
  ultimately show ?thesis
    unfolding is_option_text_iff
    by (auto simp: starts_with_iff list_all_iff length_Suc_conv numeral_2_eq_2)
qed

lemma option_text_not_cluster: "is_option_text s \<Longrightarrow> \<not> fullmatch SHORT_CLUSTER_RX s"
  unfolding is_option_text_iff short_cluster_iff by (auto simp: starts_with_iff)

text \<open>Arguments that normalization leaves alone.\<close>

definition plain_argument :: "string \<Rightarrow> bool" where
  "plain_argument a \<longleftrightarrow> CHR ''='' \<notin> set a \<and> \<not> fullmatch SHORT_CLUSTER_RX a"

lemma normalize_plain: "plain_argument a \<Longrightarrow> normalize_argument a = [a]"
  by (simp add: plain_argument_def normalize_argument_def split: prod.splits)

lemma normalize_assignment:
  assumes "is_option_text n" and "v \<noteq> []"
  shows "normalize_argument (n @ ''='' @ v) = [n, v]"
  using assms split_once_append [OF option_text_no_equals [OF assms(1)], of v]
  by (simp add: normalize_argument_def)

text \<open>
  An option may be written in one argument with an equals sign or in two arguments: the parser
  gives the same result, wherever in the command line the option stands.
\<close>

theorem parse_assignment_spelling:
  assumes "is_option_text n" and "v \<noteq> []" and "plain_argument v"
  shows "parse_route r (before @ [n @ ''='' @ v] @ after) i = parse_route r (before @ [n, v] @ after) i"
proof -
  have "plain_argument n"
    using assms(1) by (simp add: plain_argument_def option_text_no_equals option_text_not_cluster)
  then have "normalize_arguments (before @ [n @ ''='' @ v] @ after) = normalize_arguments (before @ [n, v] @ after)"
    using assms by (simp add: normalize_arguments_def normalize_assignment normalize_plain del: append_Cons)
  then show ?thesis by (simp add: parse_route_def parse_spec_def split: option.splits)
qed

theorem parse_assignment_spelling_witness:
  "parse_route [''service-verify''] [''api'', ''--min-days=10''] False =
     parse_route [''service-verify''] [''api'', ''--min-days'', ''10''] False"
  using parse_assignment_spelling [of "''--min-days''" "''10''" "[''service-verify'']" "[''api'']" "[]" False]
  by (simp add: is_option_text_iff starts_with_def is_option_char_def is_alnum_def is_digit_def
      is_lower_def is_upper_def code_def plain_argument_def short_cluster_iff)

section \<open>Evaluating sample commands\<close>

lemma route_lookup:
  "lookup_route [''service-verify''] = Some route_service_verify"
  "lookup_route [''service-issue''] = Some (route_service_write ''issue'')"
  "lookup_route [''offline-csr'', ''approve''] = Some route_offline_csr_approve"
  "lookup_route [''root-create''] = Some route_root_create"
  unfolding lookup_route_iff by (simp_all add: ROUTES_def)
    (simp_all add: route_service_verify_def route_service_write_def route_offline_csr_approve_def
      route_root_create_def)

lemma find_option_route:
  "find_option (route r names a) n = (if n \<in> set names then Some (option_of a n) else None)"
proof -
  have "map_of (rev (map (\<lambda>n. (n, option_of a n)) names)) n = (if n \<in> set names then Some (option_of a n) else None)"
    by (induction names) (auto simp: map_add_def)
  then show ?thesis by (simp add: find_option_def route_def options_of_def comp_def)
qed

lemma rs_positionals_route [simp]: "rs_positionals (route r names a) = ra_positionals a"
  by (simp add: route_def)

lemma rs_options_route [simp]: "rs_options (route r names a) = map (option_of a) names"
  by (simp add: route_def options_of_def)

lemma no_args_sel [simp]:
  "ra_positionals no_args = []" "ra_required no_args = []" "ra_defaults no_args = []"
  "ra_choices no_args = []" "ra_validators no_args = []" "ra_repeatable no_args = []"
  "ra_reject_duplicates no_args = []" "ra_conflicts no_args = []"
  by (simp_all add: no_args_def)

lemma check_value_Inr: "check_value option v = (if value_fits (os_validator option) (os_choices option) v
    then Inr () else check_value option v)"
  using check_value_ok [of option v "()"] by simp

lemma check_fits: "value_fits (os_validator option) (os_choices option) v \<Longrightarrow> check_value option v = Inr ()"
  using check_value_ok [of option v "()"] by simp

lemma os_boolean_option_of: "known_name n \<Longrightarrow> os_boolean (option_of a n) \<longleftrightarrow> n \<in> set BOOLEAN_OPTIONS"
  by (rule known_metavar(1))

lemmas parse_eval = normalize_arguments_def normalize_plain
  plain_argument_def short_cluster_iff is_option_token_def starts_with_def initial_state_def
  see_option_def take_value_def take_positional_def option_count_def find_option_route
  os_boolean_option_of known_simps BOOLEAN_OPTIONS_def service_positional_def

lemmas check_eval = close_positional_def close_option_def validate_option_def check_repeats_def
  check_fits value_fits_def dict_get_def is_digit_def code_def text_nat_def digit_val_def

text \<open>A verification command with a day count that has leading zeros.\<close>

lemma sample_verify_tokens:
  "parse_tokens route_service_verify initial_state (normalize_arguments [''api'', ''--min-days'', ''0010'']) =
     Inr \<lparr>ps_values = [(''service'', VText ''api''), (''--min-days'', VText ''0010'')],
       ps_provided = {''--min-days'', ''service''}, ps_counts = [(''--min-days'', 1)], ps_empty = {},
       ps_position = 1\<rparr>"
  unfolding route_service_verify_def
  by (simp add: parse_eval NS_def)

lemma sample_verify:
  "\<exists>p. parse_route [''service-verify''] [''api'', ''--min-days'', ''0010''] False = Inr p \<and>
     map_of (pr_values p) ''--min-days'' = Some (VText ''0010'') \<and> pr_spec p = route_service_verify"
  unfolding parse_route_def route_lookup option.case parse_spec_def sample_verify_tokens
  by (simp add: route_service_verify_def check_eval NS_def NS_VALIDATORS_def parse_eval runtime_relationships_def)

section \<open>Accepted commands\<close>

lemma parse_route_spec:
  assumes "parse_route r args i = Inr p"
  obtains spec where "spec \<in> set ROUTES" "rs_route spec = r" "parse_spec spec args i = Inr p"
    "pr_spec p = spec" "wf_spec spec"
proof -
  from assms obtain spec where "lookup_route r = Some spec" "parse_spec spec args i = Inr p"
    by (auto simp: parse_route_def split: option.splits)
  moreover from this(2) have "pr_spec p = spec" by (rule parse_spec_steps)
  ultimately show thesis using that routes_wf unfolding lookup_route_iff by blast
qed

text \<open>
  C24: an accepted command satisfies its route. Required options and positionals were given, an option
  has a value exactly when it was given or has a default, every value is admitted by the validator
  and the choices of its option, and no two conflicting options were given.
\<close>

theorem parse_route_sound:
  assumes "parse_route r args i = Inr p"
  shows "pr_spec p \<in> set ROUTES \<and> rs_route (pr_spec p) = r \<and>
    (\<forall>option \<in> set (rs_options (pr_spec p)).
       (os_required option \<longrightarrow> os_name option \<in> pr_provided p) \<and>
       (map_of (pr_values p) (os_name option) \<noteq> None \<longleftrightarrow>
          os_name option \<in> pr_provided p \<or> os_default option \<noteq> None) \<and>
       (\<forall>v. map_of (pr_values p) (os_name option) = Some v \<longrightarrow> admitted option v) \<and>
       (os_name option \<in> pr_provided p \<longrightarrow> (\<forall>c \<in> set (os_conflicts option). c \<notin> pr_provided p))) \<and>
    (\<forall>q \<in> set (rs_positionals (pr_spec p)). pos_required q \<longrightarrow> pos_name q \<in> pr_provided p)"
proof -
  from parse_route_spec [OF assms] obtain spec where
    s: "spec \<in> set ROUTES" "rs_route spec = r" "parse_spec spec args i = Inr p" "pr_spec p = spec" "wf_spec spec" .
  from parsed_option [OF s(3,5)] parsed_positional [OF s(3,5)] s(1,2) show ?thesis
    unfolding s(4) by blast
qed

theorem parse_route_sound_witness:
  "\<exists>p. parse_route [''service-verify''] [''api'', ''--min-days'', ''0010''] False = Inr p \<and>
     rs_route (pr_spec p) = [''service-verify'']"
proof -
  from sample_verify obtain p where
    p: "parse_route [''service-verify''] [''api'', ''--min-days'', ''0010''] False = Inr p" by blast
  with parse_route_sound [OF p] show ?thesis by blast
qed



section \<open>Refused commands\<close>

text \<open>
  C22: a refused command line raises a parser diagnostic, and nothing else. No argument makes the
  parser fail with a \<open>KeyError\<close> or with a diagnostic that is unsafe to print; only a route outside
  the table is a \<open>ValueError\<close>.
\<close>

theorem parse_route_errors:
  assumes "parse_route r args i = Inl e"
  shows "if r \<in> rs_route ` set ROUTES then is_parser_error e else e = ValueError ''unknown parser route''"
proof (cases "lookup_route r")
  case None
  then have "r \<notin> rs_route ` set ROUTES" using lookup_route_iff [of r] by auto
  with None assms show ?thesis by (simp add: parse_route_def)
next
  case (Some spec)
  then have spec: "spec \<in> set ROUTES" "rs_route spec = r" by (simp_all add: lookup_route_iff)
  with Some assms raises_onlyD [OF raises_parse_spec] have "is_parser_error e"
    by (simp add: parse_route_def)
  with spec show ?thesis by auto
qed

lemma sample_missing: "\<exists>e. parse_route [''service-verify''] [] False = Inl e"
  unfolding parse_route_def route_lookup option.case parse_spec_def
  by (simp add: route_service_verify_def check_eval parse_eval)

theorem parse_route_errors_witness:
  "\<exists>m a. parse_route [''service-verify''] [] False = Inl (ParserError m a)"
proof -
  from sample_missing obtain e where e: "parse_route [''service-verify''] [] False = Inl e" by blast
  have "[''service-verify''] \<in> rs_route ` set ROUTES"
    using route_lookup(1) unfolding lookup_route_iff by force
  with parse_route_errors [OF e] e show ?thesis by (auto simp: is_parser_error_def)
qed

section \<open>Rules between options\<close>

text \<open>
  Host-local issuance. A service-issue command that gives any of the CSR inputs gives all six of
  request, approval and key, and gives neither a validity period nor a key rotation nor a current
  certificate: those come from the inventory and the request.
\<close>

theorem host_local_issue_inputs:
  assumes "parse_route [''service-issue''] args i = Inr p" and "n \<in> set CSR_INPUT_OPTIONS"
    and "n \<in> pr_provided p"
  shows "set (butlast CSR_INPUT_OPTIONS) \<subseteq> pr_provided p \<and> ''--days'' \<notin> pr_provided p \<and>
    ''--rotate-key'' \<notin> pr_provided p \<and> ''--current-cert-file'' \<notin> pr_provided p"
proof -
  from parse_route_spec [OF assms(1)] obtain spec where
    s: "rs_route spec = [''service-issue'']" "parse_spec spec args i = Inr p" "pr_spec p = spec" .
  from s(2) have "service_relations True (pr_provided p) = Inr ()"
    by (rule parse_spec_steps) (simp add: runtime_relationships_def s(1))
  with assms(2,3) show ?thesis by (auto simp: service_relations_def ok_iff split: if_splits)
qed

definition host_local_args :: "string list" where
  "host_local_args = ''web'' # concat (map (\<lambda>n. [n, ''in'']) (butlast CSR_INPUT_OPTIONS))"

lemma host_local_tokens:
  "parse_tokens (route_service_write ''issue'') initial_state (normalize_arguments host_local_args) =
     Inr \<lparr>ps_values = (''service'', VText ''web'') # map (\<lambda>n. (n, VText ''in'')) (butlast CSR_INPUT_OPTIONS),
       ps_provided = insert ''service'' (set (butlast CSR_INPUT_OPTIONS)),
       ps_counts = map (\<lambda>n. (n, 1)) (butlast CSR_INPUT_OPTIONS), ps_empty = {}, ps_position = 1\<rparr>"
  unfolding route_service_write_def host_local_args_def
  by (simp add: parse_eval CSR_INPUT_OPTIONS_def SERVICE_OPTIONS_def) auto

lemma host_local_parses:
  "\<exists>p. parse_route [''service-issue''] host_local_args False = Inr p \<and> ''--csr-file'' \<in> pr_provided p"
  unfolding parse_route_def route_lookup option.case parse_spec_def host_local_tokens
  by (simp add: route_service_write_def check_eval NS_def NS_VALIDATORS_def SERVICE_OPTIONS_def
      SERVICE_VALIDATORS_def CSR_INPUT_OPTIONS_def parse_eval runtime_relationships_def service_relations_def)

theorem host_local_issue_inputs_witness:
  "\<exists>p. parse_route [''service-issue''] host_local_args False = Inr p \<and> ''--days'' \<notin> pr_provided p"
proof -
  from host_local_parses obtain p where p: "parse_route [''service-issue''] host_local_args False = Inr p"
    and c: "''--csr-file'' \<in> pr_provided p" by blast
  from host_local_issue_inputs [OF p _ c] p show ?thesis by (auto simp: CSR_INPUT_OPTIONS_def)
qed




end
