(* ===== verification/Cli.thy ===== *)
theory Cli
  imports ParserProperties
begin

text \<open>
  The help texts of \<open>parser.py\<close>, \<open>errors.py\<close>, the command table of \<open>routes.py\<close> and the dispatch of
  \<open>cli.py\<close>. The terminal, the environment variable and the version are in \<open>cli_env\<close>; the command
  handlers are a parameter, since each is the entry point of another module. A run yields what was
  printed, the exit status and the handler that ran; an exception that leaves \<open>main\<close> is an error value.
\<close>

section \<open>Public errors\<close>

definition ERROR_STATUS :: int where
  "ERROR_STATUS = 1"

definition validate_status :: "int \<Rightarrow> int result" where
  "validate_status status =
     (if 1 \<le> status \<and> status \<le> 255 then Inr status
      else Inl (ValueError ''status must be between 1 and 255''))"

definition shell_status :: "int \<Rightarrow> int" where
  "shell_status returncode = (if returncode < 0 then 128 - returncode else returncode)"

text \<open>Constructing an \<open>ApplicationError\<close> can itself raise.\<close>

definition application_error :: "string \<Rightarrow> int \<Rightarrow> exn" where
  "application_error message status =
     (if message = [] \<or> unsafe_text message then ValueError ''message must be a nonempty single line''
      else case validate_status status of Inl e \<Rightarrow> e | Inr s \<Rightarrow> ApplicationError message s)"

definition render_error :: "string \<Rightarrow> string" where
  "render_error message = ''[ERROR] '' @ message @ [NL]"

section \<open>Help of a route\<close>

definition ROUTE_FOOTERS :: "(string list \<times> string) list" where
  "ROUTE_FOOTERS =
    [([''csr-outcome'', ''publish''],
       ''Authenticates one immutable finalized or abandoned signer outcome, '' @
       ''requires the retained response signer key, and no-clobber-publishes '' @
       ''an exact signed six-file package.''),
     ([''csr-outcome'', ''resolve''],
       ''Requires the exact outcome-manifest digest and reauthenticates the '' @
       ''package and retained source without claiming live target state.''),
     ([''offline-csr'', ''approve''],
       ''Authenticates an exact three-file request snapshot, requires explicit '' @
       ''review, and no-clobber-publishes one protected five-file approval '' @
       ''directory without mutating CA, replay, candidate, or target state. '' @
       ''Interactive approval uses a default-deny [y/N] prompt; --yes skips '' @
       ''only that prompt.''),
     ([''offline-csr'', ''sign''],
       ''Authenticates an exact five-file approval snapshot and delegates every '' @
       ''signing mutation to the host-local writer. Recovery remains exclusively '' @
       ''through platform-pki csr-recover. Interactive signing uses a '' @
       ''default-deny [y/N] prompt; --yes skips only that prompt.''),
     ([''csr-candidate'', ''finalize''],
       ''Records authenticated activation evidence as finalized historical state. '' @
       ''Interactive finalization uses a default-deny [y/N] prompt; --yes skips '' @
       ''only that prompt.''),
     ([''csr-candidate'', ''abandon''],
       ''Records authenticated non-activation evidence as abandoned historical '' @
       ''state. Interactive abandonment uses a default-deny [y/N] prompt; --yes '' @
       ''skips only that prompt.''),
     ([''offline-workspace'', ''init''],
       ''Creates only an owner-only custody and staging directory skeleton. '' @
       ''The root must be disjoint from the known default authoritative PKI tree. '' @
       ''Reruns validate the skeleton without inspecting leaf payload contents; '' @
       ''signer replay, transaction, candidate, and recovery state remains outside.''),
     ([''ca-passphrase-verify''],
       ''Passphrases are supplied to OpenSSL through inherited file descriptors '' @
       ''and are never placed in argv, the environment, or output. No receipt or '' @
       ''persistent verification state is written.''),
     ([''custody-report''],
       ''The report inspects managed PKI paths, file metadata, storage ancestry, '' @
       ''age headers, and only the first PEM header line of validated private-key '' @
       ''files. It never decrypts, parses, hashes, copies, or prints private-key '' @
       ''content.''),
     ([''direct-exchange'', ''request-pull''],
       ''Pull one exact request package over host-key-pinned restricted SSH.''),
     ([''direct-exchange'', ''evidence-pull''],
       ''Pull one exact deployment evidence package over host-key-pinned restricted SSH.''),
     ([''direct-exchange'', ''response-push''],
       ''Push one exact response package to the restricted target ingress.''),
     ([''direct-exchange'', ''outcome-push''],
       ''Push one exact signer outcome package to the restricted target ingress.''),
     ([''gitlab-package'', ''publish''],
       ''Validate and publish one exact host-local PKI package through GitLab.''),
     ([''gitlab-package'', ''download''],
       ''Download, validate, and no-clobber-publish one exact GitLab PKI package.''),
     ([''gitlab-package'', ''publish-request''],
       ''Compatibility publication for an existing validated request workspace.'')]"

definition option_label :: "option_spec \<Rightarrow> string" where
  "option_label option =
     os_name option @ (case os_metavar option of None \<Rightarrow> [] | Some m \<Rightarrow> '' '' @ m) @
     (if os_repeatable option then '' ...'' else []) @
     (if os_required option then ''  (required)''
      else case os_default option of None \<Rightarrow> [] | Some d \<Rightarrow> ''  (default: '' @ d @ '')'')"

definition render_route_help :: "route_spec \<Rightarrow> string" where
  "render_route_help spec =
     (let usage = rev (dropWhile (\<lambda>c. c = NL \<or> c = CHR '' '') (rev (render_usage spec)));
          footer = (case map_of ROUTE_FOOTERS (rs_route spec) of None \<Rightarrow> [] | Some f \<Rightarrow> [[], f])
      in join_on [NL] ([usage, [], ''Options:'', ''  -h, --help  Show this help''] @
           map (\<lambda>option. ''  '' @ option_label option) (rs_options spec) @ footer) @ [NL])"

section \<open>Commands and handlers\<close>

definition COMMANDS :: "(string \<times> string list) list" where
  "COMMANDS =
    [(''init'', []), (''inventory-install'', []), (''csr-trust-install'', []),
     (''csr-recover'', []), (''offline-csr'', [''approve'', ''sign'']),
     (''offline-workspace'', [''init'']),
     (''certificate-export'', [''publish'', ''resolve'']),
     (''csr-outcome'', [''publish'', ''resolve'']),
     (''direct-exchange'', [''request-pull'', ''evidence-pull'', ''response-push'', ''outcome-push'']),
     (''gitlab-package'', [''publish'', ''download'', ''publish-request'']),
     (''csr-candidate'', [''verify'', ''finalize'', ''abandon'']), (''root-create'', []),
     (''intermediate-create'', []), (''service-issue'', []), (''service-renew'', []),
     (''service-recover'', []), (''service-verify'', []), (''list-expiry'', []),
     (''print-cert'', []), (''export-ansible'', []), (''backup'', []),
     (''custody-report'', []), (''ca-passphrase-verify'', []),
     (''ca-rollover'', [''migrate'', ''status'', ''prepare'', ''recover''])]"

datatype handler =
    H_initialize
  | H_install_inventory
  | H_install_csr_trust
  | H_recover_csr
  | H_offline_csr
  | H_initialize_offline_workspace
  | H_csr_candidate
  | H_certificate_export
  | H_csr_outcome
  | H_direct_exchange
  | H_gitlab_package
  | H_export_ansible
  | H_backup
  | H_custody_report
  | H_verify_ca_passphrases
  | H_create_root
  | H_create_intermediate
  | H_migrate_ca_rollover
  | H_ca_rollover_status
  | H_prepare_ca_rollover
  | H_recover_ca_rollover
  | H_list_expiry
  | H_print_certificate
  | H_verify_service
  | H_issue_service
  | H_renew_service
  | H_recover_service

definition handler_of :: "string list \<Rightarrow> handler option" where
  "handler_of r =
     (if r = [''init''] then Some H_initialize
      else if r = [''inventory-install''] then Some H_install_inventory
      else if r = [''csr-trust-install''] then Some H_install_csr_trust
      else if r = [''csr-recover''] then Some H_recover_csr
      else if r = [''offline-csr'', ''approve''] \<or> r = [''offline-csr'', ''sign''] then Some H_offline_csr
      else if r = [''offline-workspace'', ''init''] then Some H_initialize_offline_workspace
      else if r = [''csr-candidate'', ''verify''] \<or> r = [''csr-candidate'', ''finalize''] \<or> r = [''csr-candidate'', ''abandon''] then Some H_csr_candidate
      else if r = [''certificate-export'', ''publish''] \<or> r = [''certificate-export'', ''resolve''] then Some H_certificate_export
      else if r = [''csr-outcome'', ''publish''] \<or> r = [''csr-outcome'', ''resolve''] then Some H_csr_outcome
      else if hd r = ''direct-exchange'' then Some H_direct_exchange
      else if hd r = ''gitlab-package'' then Some H_gitlab_package
      else if r = [''export-ansible''] then Some H_export_ansible
      else if r = [''backup''] then Some H_backup
      else if r = [''custody-report''] then Some H_custody_report
      else if r = [''ca-passphrase-verify''] then Some H_verify_ca_passphrases
      else if r = [''root-create''] then Some H_create_root
      else if r = [''intermediate-create''] then Some H_create_intermediate
      else if r = [''ca-rollover'', ''migrate''] then Some H_migrate_ca_rollover
      else if r = [''ca-rollover'', ''status''] then Some H_ca_rollover_status
      else if r = [''ca-rollover'', ''prepare''] then Some H_prepare_ca_rollover
      else if r = [''ca-rollover'', ''recover''] then Some H_recover_ca_rollover
      else if r = [''list-expiry''] then Some H_list_expiry
      else if r = [''print-cert''] then Some H_print_certificate
      else if r = [''service-verify''] then Some H_verify_service
      else if r = [''service-issue''] then Some H_issue_service
      else if r = [''service-renew''] then Some H_renew_service
      else if r = [''service-recover''] then Some H_recover_service
      else None)"

section \<open>Output\<close>

record cli_env =
  ce_stdin_tty :: bool
  ce_stdout_tty :: bool
  ce_no_color :: "string option"
  ce_version :: string

record cli_result =
  cr_out :: string
  cr_err :: string
  cr_status :: int
  cr_ran :: "(handler \<times> parse_result) option"

text \<open>A handler prints, and returns a status or raises.\<close>

type_synonym handler_run = "handler \<Rightarrow> parse_result \<Rightarrow> string \<times> string \<times> int result"

definition printed :: "string \<Rightarrow> cli_result result" where
  "printed s = Inr \<lparr>cr_out = s, cr_err = [], cr_status = 0, cr_ran = None\<rparr>"

definition color :: "cli_env \<Rightarrow> string \<Rightarrow> string \<Rightarrow> string" where
  "color env s style =
     (if ce_stdout_tty env \<and> \<not> (\<exists>v \<in> set_option (ce_no_color env). v \<noteq> []) then
        [char_of (27 :: nat)] @ ''['' @ style @ ''m'' @ s @ [char_of (27 :: nat)] @ ''[0m''
      else s)"

definition root_help :: "cli_env \<Rightarrow> string" where
  "root_help env =
     color env ''Usage:'' ''1;33'' @ '' platform-pki COMMAND [OPTIONS]'' @ [NL, NL] @
     color env ''Commands:'' ''1;33'' @ [NL] @
     join_on [NL] (map (\<lambda>(command, _). ''  '' @ command) COMMANDS) @ [NL, NL] @
     color env ''Options:'' ''1;33'' @ [NL] @
     ''  -h, --help     Show this help'' @ [NL] @ ''  -v, --version  Show version'' @ [NL]"

definition command_help :: "cli_env \<Rightarrow> string \<Rightarrow> string list \<Rightarrow> string" where
  "command_help env command subcommands =
     color env ''Usage:'' ''1;33'' @ '' platform-pki '' @ command @ '' COMMAND [OPTIONS]'' @ [NL, NL] @
     color env ''Commands:'' ''1;33'' @ [NL] @
     join_on [NL] (map (\<lambda>subcommand. ''  '' @ subcommand) subcommands) @ [NL, NL] @
     color env ''Options:'' ''1;33'' @ [NL] @ ''  -h, --help  Show this help'' @ [NL]"

definition cli_error :: "string \<Rightarrow> cli_result result" where
  "cli_error message =
     (case application_error message ERROR_STATUS of
        ApplicationError m status \<Rightarrow>
          Inr \<lparr>cr_out = [], cr_err = render_error m, cr_status = status, cr_ran = None\<rparr>
      | e \<Rightarrow> Inl e)"

text \<open>\<open>text.replace(old, new, 1)\<close> for a nonempty \<open>old\<close>.\<close>

fun replace_first :: "string \<Rightarrow> string \<Rightarrow> string \<Rightarrow> string" where
  "replace_first old new [] = []"
| "replace_first old new (c # s) =
     (if starts_with old (c # s) then new @ drop (length old) (c # s)
      else c # replace_first old new s)"

definition route_help :: "cli_env \<Rightarrow> string list \<Rightarrow> cli_result result" where
  "route_help env r =
     (case lookup_route r of
        None \<Rightarrow> Inl (KeyError (join_on '' '' r))
      | Some spec \<Rightarrow>
          printed (replace_first ''Options:'' (color env ''Options:'' ''1;33'')
            (replace_first ''Usage:'' (color env ''Usage:'' ''1;33'') (render_route_help spec))))"

section \<open>Dispatch\<close>

definition requests_help :: "string \<Rightarrow> bool" where
  "requests_help argument \<longleftrightarrow> leading_action argument False = Some HelpAction"

definition positional_prefix_requests_help :: "string list \<Rightarrow> string list \<Rightarrow> bool" where
  "positional_prefix_requests_help r arguments =
     (let before = takeWhile (\<lambda>a. \<not> requests_help a) arguments;
          positionals = (case lookup_route r of None \<Rightarrow> [] | Some spec \<Rightarrow> rs_positionals spec)
      in length arguments \<ge> 2 \<and> before \<noteq> arguments \<and> before \<noteq> [] \<and>
         \<not> list_ex (starts_with ''-'') before \<and> positionals \<noteq> [] \<and>
         (pos_repeatable (last positionals) \<or> length before \<le> length positionals))"

definition run_handler :: "handler_run \<Rightarrow> handler \<Rightarrow> parse_result \<Rightarrow> cli_result result" where
  "run_handler run h parsed =
     (case run h parsed of (out, err, r) \<Rightarrow>
        case r of
          Inr status \<Rightarrow> Inr \<lparr>cr_out = out, cr_err = err, cr_status = status, cr_ran = Some (h, parsed)\<rparr>
        | Inl (ApplicationError m status) \<Rightarrow>
            Inr \<lparr>cr_out = out, cr_err = err @ render_error m, cr_status = status, cr_ran = Some (h, parsed)\<rparr>
        | Inl e \<Rightarrow> Inl e)"

definition dispatch_route ::
  "cli_env \<Rightarrow> handler_run \<Rightarrow> bool \<Rightarrow> string list \<Rightarrow> string list \<Rightarrow> cli_result result" where
  "dispatch_route env run nested r arguments =
     (if positional_prefix_requests_help r arguments then route_help env r
      else if \<not> nested \<and> arguments \<noteq> [] \<and> requests_help (hd arguments) then route_help env r
      else case parse_route r arguments (ce_stdin_tty env \<and> ce_stdout_tty env) of
          Inl (ParserError m application) \<Rightarrow>
            Inr \<lparr>cr_out = [], cr_err = render_parser_error m application, cr_status = 1, cr_ran = None\<rparr>
        | Inl e \<Rightarrow> Inl e
        | Inr parsed \<Rightarrow>
            (case handler_of r of
               None \<Rightarrow> cli_error (''Command is not available in the Python foundation: '' @ join_on '' '' r)
             | Some h \<Rightarrow> run_handler run h parsed))"

definition dispatch :: "cli_env \<Rightarrow> handler_run \<Rightarrow> string \<Rightarrow> string list \<Rightarrow> cli_result result" where
  "dispatch env run command arguments =
     (case map_of COMMANDS command of
        None \<Rightarrow> Inl (KeyError command)
      | Some nested \<Rightarrow>
          if nested \<noteq> [] \<and> arguments \<noteq> [] \<and> requests_help (hd arguments) then
            printed (command_help env command nested)
          else if nested = [] then dispatch_route env run False [command] arguments
          else (case arguments of
              [] \<Rightarrow> cli_error (''A subcommand is required for '' @ command)
            | leaf # rest \<Rightarrow>
                if leaf \<notin> set nested then
                  cli_error (''Unknown '' @ command @ '' subcommand: '' @ leaf)
                else if rest \<noteq> [] \<and> requests_help (hd rest) then route_help env [command, leaf]
                else dispatch_route env run True [command, leaf] rest))"

definition main :: "cli_env \<Rightarrow> handler_run \<Rightarrow> string list \<Rightarrow> cli_result result" where
  "main env run arguments =
     (case arguments of
        [] \<Rightarrow> cli_error ''A command is required''
      | command # rest \<Rightarrow>
          (case leading_action command True of
             Some HelpAction \<Rightarrow> printed (root_help env)
           | Some VersionAction \<Rightarrow> printed (''platform-pki '' @ ce_version env @ [NL])
           | None \<Rightarrow>
               if command \<notin> fst ` set COMMANDS then cli_error (''Unknown command: '' @ command)
               else dispatch env run command rest))"

end
