(* ===== verification/CliProperties.thy ===== *)
theory CliProperties
  imports Cli
begin

text \<open>
  The properties of the command surface: the tables of commands, routes and handlers agree, a handler
  runs only on a parsed command, and which command lines end in an exception instead of a diagnostic.
\<close>

section \<open>The tables agree\<close>

definition command_routes :: "string list list" where
  "command_routes = concat (map (\<lambda>(command, nested).
     if nested = [] then [[command]] else map (\<lambda>leaf. [command, leaf]) nested) COMMANDS)"

lemma command_routes_known:
  "list_all (\<lambda>r. r \<in> set (map rs_route ROUTES)) command_routes"
  by (simp add: command_routes_def COMMANDS_def ROUTES_def route_defs)

lemma routes_commanded:
  "list_all (\<lambda>r. r \<in> set command_routes) (map rs_route ROUTES)"
  by (simp add: command_routes_def COMMANDS_def ROUTES_def route_defs)


lemma commands_distinct: "distinct (map fst COMMANDS)"
  by (simp add: COMMANDS_def)

lemma command_handlers: "list_all (\<lambda>r. handler_of r \<noteq> None) command_routes"
  by (simp add: command_routes_def COMMANDS_def handler_of_def)


lemma concat_member: "x \<in> set xs \<Longrightarrow> y \<in> set (f x) \<Longrightarrow> y \<in> set (concat (map f xs))"
  by auto

lemma command_route_single: "map_of COMMANDS c = Some [] \<Longrightarrow> [c] \<in> set command_routes"
  unfolding command_routes_def by (rule concat_member [OF map_of_SomeD], assumption) simp

lemma command_route_nested:
  "map_of COMMANDS c = Some nested \<Longrightarrow> leaf \<in> set nested \<Longrightarrow> [c, leaf] \<in> set command_routes"
  unfolding command_routes_def by (rule concat_member [OF map_of_SomeD], assumption) auto

text \<open>
  C29: the three tables of the command surface agree. The commands of \<open>routes.py\<close> are exactly the routes
  of the parser, no route is listed twice, and each of them has a handler: the branch of the dispatch
  that reports a missing handler is dead.
\<close>

theorem command_tables_agree:
  "set command_routes = rs_route ` set ROUTES \<and> distinct (map rs_route ROUTES) \<and>
   distinct (map fst COMMANDS) \<and> None \<notin> handler_of ` set command_routes"
proof -
  have "set command_routes = rs_route ` set ROUTES"
    using command_routes_known routes_commanded unfolding list_all_iff set_map by blast
  moreover have "None \<notin> handler_of ` set command_routes"
    using command_handlers by (auto simp: list_all_iff)
  ultimately show ?thesis using routes_distinct commands_distinct by blast
qed

section \<open>When a handler runs\<close>

lemma cli_error_ran: "cli_error m = Inr x \<Longrightarrow> cr_ran x = None"
  by (auto simp: cli_error_def split: exn.splits)

lemma route_help_ran: "route_help env r = Inr x \<Longrightarrow> cr_ran x = None"
  by (auto simp: route_help_def printed_def split: option.splits)

lemma run_handler_ran: "run_handler run h p = Inr x \<Longrightarrow> cr_ran x = Some (h, p)"
  by (auto simp: run_handler_def split: prod.splits sum.splits exn.splits)

lemma dispatch_route_ran:
  assumes "dispatch_route env run nested r args = Inr x" and "cr_ran x = Some (h, p)"
  shows "handler_of r = Some h \<and> parse_route r args (ce_stdin_tty env \<and> ce_stdout_tty env) = Inr p"
  using assms
  by (auto simp: dispatch_route_def split: if_splits sum.splits exn.splits option.splits
      dest: route_help_ran cli_error_ran run_handler_ran)

text \<open>
  C28: a handler runs only on a command line that the parser accepts for the handler's own route:
  the route is the command and its subcommand, and the arguments are what follows them.
\<close>

theorem handler_runs_parsed:
  assumes "main env run args = Inr x" and "cr_ran x = Some (h, p)"
  shows "\<exists>r rest. args = r @ rest \<and> r \<in> set command_routes \<and> handler_of r = Some h \<and>
    parse_route r rest (ce_stdin_tty env \<and> ce_stdout_tty env) = Inr p"
proof -
  from assms obtain c rest where args: "args = c # rest"
    by (cases args) (auto simp: main_def dest: cli_error_ran)
  with assms have d: "dispatch env run c rest = Inr x"
    by (auto simp: main_def printed_def split: option.splits lead_action.splits if_splits dest: cli_error_ran)
  then obtain nested where nested: "map_of COMMANDS c = Some nested"
    by (auto simp: dispatch_def split: option.splits)
  show ?thesis
  proof (cases "nested = []")
    case True
    with d nested have "dispatch_route env run False [c] rest = Inr x" by (simp add: dispatch_def)
    from dispatch_route_ran [OF this assms(2)] nested True command_route_single show ?thesis
      by (intro exI [of _ "[c]"] exI [of _ rest]) (simp add: args)
  next
    case False
    with d nested assms(2) obtain leaf rest' where r: "rest = leaf # rest'" "leaf \<in> set nested"
      and dr: "dispatch_route env run True [c, leaf] rest' = Inr x"
      by (auto simp: dispatch_def printed_def split: list.splits if_splits dest: cli_error_ran route_help_ran)
    from dispatch_route_ran [OF dr assms(2)] command_route_nested [OF nested r(2)] show ?thesis
      by (intro exI [of _ "[c, leaf]"] exI [of _ rest']) (simp add: args r(1))
  qed
qed

text \<open>A run of the verification command.\<close>

definition sample_env :: cli_env where
  "sample_env = \<lparr>ce_stdin_tty = False, ce_stdout_tty = False, ce_no_color = None, ce_version = ''1''\<rparr>"

lemmas leading_eval = leading_action_def split_once_def HELP_FLAGS_def VERSION_FLAGS_def short_cluster_iff
  is_alnum_def is_digit_def is_lower_def is_upper_def code_def

lemma sample_leading:
  "leading_action ''service-verify'' True = None" "\<not> requests_help ''api''"
  "\<not> requests_help ''--min-days''" "\<not> requests_help ''0010''"
  by (simp_all add: requests_help_def leading_eval)

lemma sample_run:
  "\<exists>x p. main sample_env (\<lambda>h p. ([], [], Inr 0)) [''service-verify'', ''api'', ''--min-days'', ''0010''] = Inr x \<and>
     cr_ran x = Some (H_verify_service, p)"
proof -
  from sample_verify obtain p where
    "parse_route [''service-verify''] [''api'', ''--min-days'', ''0010''] False = Inr p" by blast
  then show ?thesis
    by (simp add: main_def sample_leading dispatch_def dispatch_route_def run_handler_def
        positional_prefix_requests_help_def sample_env_def COMMANDS_def handler_of_def)
qed

theorem handler_runs_parsed_witness:
  "\<exists>r rest p. [''service-verify'', ''api'', ''--min-days'', ''0010''] = r @ rest \<and>
     handler_of r = Some H_verify_service \<and> parse_route r rest False = Inr p"
proof -
  from sample_run obtain x p where
    "main sample_env (\<lambda>h p. ([], [], Inr 0)) [''service-verify'', ''api'', ''--min-days'', ''0010''] = Inr x"
    "cr_ran x = Some (H_verify_service, p)" by blast
  from handler_runs_parsed [OF this] show ?thesis by (auto simp: sample_env_def)
qed

section \<open>Exceptions that leave the program\<close>












end
