(* ===== verification/Inventory.thy ===== *)
theory Inventory
  imports CliText Patterns "HOL-Library.AList"
begin

text \<open>
  The inventory parser \<open>inventory.py\<close>: a strict line language over bytes, with the services of the
  inventory, their scalar fields and their \<open>dns\<close> and \<open>ips\<close> lists. The service under construction is
  the last of \<open>is_builders\<close>: the source keeps a second reference to that object. The dictionary of
  fields of a service is an association list in insertion order.
\<close>

section \<open>Data\<close>

record inventory_entry =
  ie_field :: string
  ie_value :: string

record inventory_service =
  iv_name :: string
  iv_entries :: "inventory_entry list"
  iv_common_name :: string
  iv_dns :: "string list"
  iv_ips :: "string list"
  iv_days :: "string option"
  iv_key_custody :: string
  iv_target :: "string option"
  iv_validation_boundary_sha256 :: "string option"
  iv_rollback_hold_seconds :: "string option"

type_synonym inventory = "inventory_service list"

definition TAB :: char where
  "TAB = char_of (9 :: nat)"

definition canonical_bytes :: "inventory \<Rightarrow> string" where
  "canonical_bytes services =
     concat (map (\<lambda>s. concat (map (\<lambda>e.
       iv_name s @ [TAB] @ ie_field e @ [TAB] @ ie_value e @ [NL]) (iv_entries s))) services)"

record service_builder =
  sb_name :: string
  sb_entries :: "(string \<times> string) list"
  sb_fields :: "(string \<times> string list) list"

section \<open>Patterns\<close>

definition is_name_char :: "char \<Rightarrow> bool" where
  "is_name_char c \<longleftrightarrow> is_alnum c \<or> c = CHR ''_'' \<or> c = CHR ''.'' \<or> c = CHR ''-''"

definition is_target_char :: "char \<Rightarrow> bool" where
  "is_target_char c \<longleftrightarrow> is_digit c \<or> is_lower c \<or> c = CHR ''.'' \<or> c = CHR ''-''"

definition any_byte :: "char \<Rightarrow> bool" where
  "any_byte c \<longleftrightarrow> c \<noteq> NL"

definition spaces_then_value :: "char rx" where
  "spaces_then_value = Cat (Plus (Lit '' '')) (Grp (Plus (Cls any_byte)))"

definition INV_SERVICE_RX :: "char rx" where
  "INV_SERVICE_RX = Cat (Lit ''  '') (Cat (Grp (Cat (Cls is_alnum) (Star (Cls is_name_char)))) (Lit '':''))"

definition SCALAR_FIELDS :: "string list" where
  "SCALAR_FIELDS = [''common_name'', ''days'', ''key_custody'', ''target'',
     ''validation_boundary_sha256'', ''rollback_hold_seconds'']"

definition SCALAR_RX :: "char rx" where
  "SCALAR_RX = Cat (Lit ''    '') (Cat (Grp (Alts (map Lit SCALAR_FIELDS)))
     (Cat (Lit '':'') spaces_then_value))"

definition LIST_RX :: "char rx" where
  "LIST_RX = Cat (Lit ''    '') (Cat (Grp (Alts [Lit ''dns'', Lit ''ips''])) (Lit '':''))"

definition LIST_ITEM_RX :: "char rx" where
  "LIST_ITEM_RX = Cat (Lit ''      -'') spaces_then_value"

definition is_label_char :: "char \<Rightarrow> bool" where
  "is_label_char c \<longleftrightarrow> is_alnum c \<or> c = CHR ''-''"

definition DNS_LABEL_RX :: "char rx" where
  "DNS_LABEL_RX = Cat (Cls is_alnum) (Opt (Cat (UpTo (Cls is_label_char) 61) (Cls is_alnum)))"

definition DNS_NAME_RX :: "char rx" where
  "DNS_NAME_RX = Cat DNS_LABEL_RX (Star (Cat (Lit ''.'') DNS_LABEL_RX))"

definition TARGET_RX :: "char rx" where
  "TARGET_RX = Cat (Cls (\<lambda>c. is_lower c \<or> is_digit c)) (Star (Cls is_target_char))"

definition DIGITS_RX :: "char rx" where
  "DIGITS_RX = Plus (Cls is_digit)"

definition HOST_LOCAL_FIELDS :: "string list" where
  "HOST_LOCAL_FIELDS = [''target'', ''validation_boundary_sha256'', ''rollback_hold_seconds'']"

section \<open>Values\<close>

definition inv_fail :: "string \<Rightarrow> 'a result" where
  "inv_fail message = Inl (InventoryError message)"

definition inv_require :: "bool \<Rightarrow> string \<Rightarrow> unit result" where
  "inv_require ok message = requireE ok (InventoryError message)"

text \<open>\<open>value.decode("ascii")\<close>.\<close>

definition decode_ascii :: "string \<Rightarrow> string result" where
  "decode_ascii s =
     (if list_all (\<lambda>c. code c < 128) s then Inr s else Inl (ValueError ''ordinal not in range(128)''))"

definition safe_value :: "string \<Rightarrow> string option" where
  "safe_value s = (if list_all (\<lambda>c. 32 \<le> code c \<and> code c \<le> 126) s then Some s else None)"

definition value_error_text :: "string \<Rightarrow> string \<Rightarrow> string" where
  "value_error_text message s = (case safe_value s of Some t \<Rightarrow> message @ '': '' @ t | None \<Rightarrow> message)"

definition parse_value :: "string \<Rightarrow> string result" where
  "parse_value s =
     bindE (inv_require (s \<noteq> []) ''Inventory value must be non-empty'') (\<lambda>_.
     bindE (if hd s \<in> {CHR 0x27, CHR 0x22} then
         (let quote = hd s; inner = butlast (tl s)
          in bindE (inv_require (length s \<ge> 2 \<and> last s = quote) ''Inventory value has unmatched quotes'') (\<lambda>_.
             bindE (inv_require (quote \<notin> set inner)
               ''Inventory value contains an unsupported embedded quote'') (\<lambda>_. Inr inner)))
       else bindE (inv_require (CHR 0x27 \<notin> set s \<and> CHR 0x22 \<notin> set s)
              ''Inventory value contains an unsupported quote'') (\<lambda>_. Inr s)) (\<lambda>v.
     bindE (inv_require (CHR 0x5C \<notin> set v) ''Inventory value contains unsupported backslash syntax'') (\<lambda>_.
     bindE (inv_require (CHR ''#'' \<notin> set v) ''Inventory inline comments are not supported'') (\<lambda>_.
       Inr v))))"

definition validate_openssl_value :: "string \<Rightarrow> string \<Rightarrow> unit result" where
  "validate_openssl_value label s =
     bindE (inv_require (s \<noteq> []) (label @ '' must be non-empty'')) (\<lambda>_.
     bindE (inv_require (CHR ''$'' \<notin> set s)
       (label @ '' must not contain OpenSSL variable expansion syntax'')) (\<lambda>_.
     inv_require (\<not> (hd s = CHR '' '' \<or> last s = CHR '' ''))
       (label @ '' must not start or end with whitespace'')))"

definition validate_dns :: "string \<Rightarrow> string \<Rightarrow> unit result" where
  "validate_dns label s =
     bindE (validate_openssl_value label s) (\<lambda>_.
     bindE (inv_require (length s \<le> 253) (label @ '' must be at most 253 characters'')) (\<lambda>_.
     inv_require (fullmatch DNS_NAME_RX s)
       (label @ '' must be a DNS name using letters, digits, dots, and hyphens'')))"

definition is_octet :: "string \<Rightarrow> bool" where
  "is_octet o8 \<longleftrightarrow> 1 \<le> length o8 \<and> length o8 \<le> 3 \<and> fullmatch DIGITS_RX o8 \<and> text_nat 10 o8 \<le> 255"

definition validate_ip :: "string \<Rightarrow> string \<Rightarrow> unit result" where
  "validate_ip label s =
     bindE (validate_openssl_value label s) (\<lambda>_.
     inv_require (length (split_on (CHR ''.'') s) = 4 \<and> list_all is_octet (split_on (CHR ''.'') s))
       (label @ '' must be a valid IPv4 address''))"

definition validate_days :: "string \<Rightarrow> unit result" where
  "validate_days s =
     bindE (inv_require (fullmatch DIGITS_RX s) (value_error_text ''Days value must be numeric'' s)) (\<lambda>_.
     bindE (inv_require (\<not> days_above (days_normal s))
       (value_error_text ''Days value must be at most 365000'' s)) (\<lambda>_.
     inv_require (days_normal s \<noteq> ''0'') (value_error_text ''Days value must be at least 1'' s)))"

definition validate_scalar :: "string \<Rightarrow> string \<Rightarrow> string \<Rightarrow> unit result" where
  "validate_scalar service field s =
     (if field = ''common_name'' then validate_dns (''common_name for service '' @ service) s
      else if field = ''days'' then validate_days s
      else if field = ''key_custody'' then
        inv_require (s = ''host-local'')
          (''Inventory key_custody for service '' @ service @ '' must be host-local'')
      else if field = ''target'' then
        inv_require (fullmatch TARGET_RX s) (''Inventory target for service '' @ service @ '' is invalid'')
      else if field = ''validation_boundary_sha256'' then
        inv_require (fullmatch HEX64_RX s)
          (''Inventory validation_boundary_sha256 for service '' @ service @
           '' must be 64 lowercase hexadecimal characters'')
      else
        inv_require (fullmatch POSITIVE_RX s)
          (''Inventory rollback_hold_seconds for service '' @ service @
           '' must be a canonical positive decimal''))"

section \<open>Services\<close>

definition finish_list :: "service_builder option \<Rightarrow> string option \<Rightarrow> unit result" where
  "finish_list service field =
     (case (service, field) of
        (Some b, Some f) \<Rightarrow>
          inv_require (\<not> (f \<in> {''dns'', ''ips''} \<and> map_of (sb_fields b) f = Some []))
            (''Inventory '' @ f @ '' list for service '' @ sb_name b @ '' must not be empty'')
      | _ \<Rightarrow> Inr ())"

definition first_value :: "service_builder \<Rightarrow> string \<Rightarrow> string option result" where
  "first_value b field =
     (case map_of (sb_fields b) field of
        None \<Rightarrow> Inr None
      | Some vs \<Rightarrow> bindE (decode_ascii (hd vs)) (\<lambda>v. Inr (Some v)))"

definition list_values :: "service_builder \<Rightarrow> string \<Rightarrow> string list result" where
  "list_values b field =
     (case map_of (sb_fields b) field of None \<Rightarrow> Inr [] | Some vs \<Rightarrow> mapE decode_ascii vs)"

definition has_field :: "service_builder \<Rightarrow> string \<Rightarrow> bool" where
  "has_field b field \<longleftrightarrow> map_of (sb_fields b) field \<noteq> None"

definition check_host_local :: "service_builder \<Rightarrow> string \<Rightarrow> unit result" where
  "check_host_local b field =
     (if has_field b ''key_custody'' \<and> \<not> has_field b field then
        inv_fail (''Inventory '' @ field @ '' is required for host-local service: '' @ sb_name b)
      else if \<not> has_field b ''key_custody'' \<and> has_field b field then
        inv_fail (''Inventory '' @ field @ '' is allowed only for key_custody: host-local service: '' @ sb_name b)
      else Inr ())"

definition build_entry :: "string \<times> string \<Rightarrow> inventory_entry result" where
  "build_entry e =
     bindE (decode_ascii (fst e)) (\<lambda>f. bindE (decode_ascii (snd e)) (\<lambda>v.
       Inr \<lparr>ie_field = f, ie_value = v\<rparr>))"

definition build_service :: "service_builder \<Rightarrow> inventory_service result" where
  "build_service b =
     bindE (decode_ascii (sb_name b)) (\<lambda>name.
     bindE (inv_require (has_field b ''common_name'') (''common_name is missing for service: '' @ name)) (\<lambda>_.
     bindE (inv_require (has_field b ''dns'' \<or> has_field b ''ips'')
       (''Service must define at least one DNS or IP SAN: '' @ name)) (\<lambda>_.
     bindE (forE (check_host_local b) HOST_LOCAL_FIELDS) (\<lambda>_.
     bindE (mapE build_entry (sb_entries b)) (\<lambda>entries.
     bindE (first_value b ''common_name'') (\<lambda>cn.
     bindE (list_values b ''dns'') (\<lambda>dns.
     bindE (list_values b ''ips'') (\<lambda>ips.
     bindE (first_value b ''days'') (\<lambda>days.
     bindE (first_value b ''target'') (\<lambda>target.
     bindE (first_value b ''validation_boundary_sha256'') (\<lambda>boundary.
     bindE (first_value b ''rollback_hold_seconds'') (\<lambda>hold.
       Inr \<lparr>iv_name = name, iv_entries = entries,
         iv_common_name = (case cn of None \<Rightarrow> [] | Some s \<Rightarrow> s), iv_dns = dns, iv_ips = ips, iv_days = days,
         iv_key_custody = (if has_field b ''key_custody'' then ''host-local'' else ''managed''),
         iv_target = target, iv_validation_boundary_sha256 = boundary,
         iv_rollback_hold_seconds = hold\<rparr>))))))))))))"

section \<open>Lines\<close>

record inv_state =
  is_document :: bool
  is_services :: bool
  is_builders :: "service_builder list"
  is_seen :: "string set"
  is_field :: "string option"

definition inv_start :: inv_state where
  "inv_start = \<lparr>is_document = False, is_services = False, is_builders = [], is_seen = {}, is_field = None\<rparr>"

definition current :: "inv_state \<Rightarrow> service_builder option" where
  "current st = (if is_builders st = [] then None else Some (last (is_builders st)))"

definition set_current :: "service_builder \<Rightarrow> inv_state \<Rightarrow> inv_state" where
  "set_current b st = st\<lparr>is_builders := butlast (is_builders st) @ [b]\<rparr>"

definition at_line :: "string \<Rightarrow> nat \<Rightarrow> string" where
  "at_line message n = message @ '' at line '' @ nat_text 10 n"

definition start_service :: "string \<Rightarrow> inv_state \<Rightarrow> inv_state result" where
  "start_service name st =
     bindE (finish_list (current st) (is_field st)) (\<lambda>_.
     bindE (inv_require (name \<notin> is_seen st) (''Inventory contains duplicate service: '' @ name)) (\<lambda>_.
       Inr (st\<lparr>is_seen := insert name (is_seen st),
         is_builders := is_builders st @ [\<lparr>sb_name = name, sb_entries = [], sb_fields = []\<rparr>],
         is_field := None\<rparr>)))"

definition check_new_field :: "service_builder \<Rightarrow> string \<Rightarrow> unit result" where
  "check_new_field b field =
     inv_require (\<not> has_field b field)
       (''Inventory contains duplicate '' @ field @ '' field for service '' @ sb_name b)"

definition take_scalar :: "service_builder \<Rightarrow> string \<Rightarrow> string \<Rightarrow> inv_state \<Rightarrow> inv_state result" where
  "take_scalar b field raw st =
     bindE (finish_list (Some b) (is_field st)) (\<lambda>_.
     bindE (check_new_field b field) (\<lambda>_.
     bindE (parse_value raw) (\<lambda>v.
     bindE (validate_scalar (sb_name b) field v) (\<lambda>_.
       Inr ((set_current (b\<lparr>sb_fields := AList.update field [v] (sb_fields b),
         sb_entries := sb_entries b @ [(field, v)]\<rparr>) st)\<lparr>is_field := Some field\<rparr>)))))"

definition take_list :: "service_builder \<Rightarrow> string \<Rightarrow> inv_state \<Rightarrow> inv_state result" where
  "take_list b field st =
     bindE (finish_list (Some b) (is_field st)) (\<lambda>_.
     bindE (check_new_field b field) (\<lambda>_.
       Inr ((set_current (b\<lparr>sb_fields := AList.update field [] (sb_fields b)\<rparr>) st)\<lparr>is_field := Some field\<rparr>)))"

definition shown_value :: "string \<Rightarrow> string" where
  "shown_value s = (case safe_value s of None \<Rightarrow> ''<invalid value>''
     | Some t \<Rightarrow> if t = [] then ''<invalid value>'' else t)"

definition field_list :: "service_builder \<Rightarrow> string \<Rightarrow> string list" where
  "field_list b field = (case map_of (sb_fields b) field of None \<Rightarrow> [] | Some vs \<Rightarrow> vs)"

definition take_item :: "nat \<Rightarrow> service_builder \<Rightarrow> string \<Rightarrow> inv_state \<Rightarrow> inv_state result" where
  "take_item n b raw st =
     (case is_field st of
        Some field \<Rightarrow>
          if field \<in> {''dns'', ''ips''} then
            bindE (parse_value raw) (\<lambda>v.
            let vs = field_list b field
            in bindE (inv_require (v \<notin> set vs) (''Inventory contains duplicate '' @ field @
                 '' SAN for service '' @ sb_name b @ '': '' @ shown_value v)) (\<lambda>_.
               bindE (if field = ''dns'' then validate_dns (''DNS SAN for service '' @ sb_name b) v
                 else validate_ip (''IP SAN for service '' @ sb_name b) v) (\<lambda>_.
               Inr (set_current (b\<lparr>sb_fields := AList.update field (vs @ [v]) (sb_fields b),
                 sb_entries := sb_entries b @ [(field, v)]\<rparr>) st))))
          else inv_fail (at_line ''Inventory list item has no dns or ips field'' n)
      | None \<Rightarrow> inv_fail (at_line ''Inventory list item has no dns or ips field'' n))"

definition service_line :: "nat \<Rightarrow> string \<Rightarrow> inv_state \<Rightarrow> inv_state result" where
  "service_line n line st =
     (case match_groups INV_SERVICE_RX line of
        Some [name] \<Rightarrow> start_service name st
      | _ \<Rightarrow>
        (case current st of
           None \<Rightarrow> inv_fail (at_line ''Inventory requires a service key'' n)
         | Some b \<Rightarrow>
           (case match_groups SCALAR_RX line of
              Some [field, raw] \<Rightarrow> take_scalar b field raw st
            | _ \<Rightarrow>
              (case match_groups LIST_RX line of
                 Some [field] \<Rightarrow> take_list b field st
               | _ \<Rightarrow>
                 (case match_groups LIST_ITEM_RX line of
                    Some [raw] \<Rightarrow> take_item n b raw st
                  | _ \<Rightarrow> inv_fail (at_line ''Unsupported inventory grammar'' n))))))"

definition is_control :: "char \<Rightarrow> bool" where
  "is_control c \<longleftrightarrow> code c < 32 \<or> code c = 127"

definition blank_or_comment :: "string \<Rightarrow> bool" where
  "blank_or_comment line \<longleftrightarrow> strip (CHR '' '') line = [] \<or> starts_with ''#'' (lstrip (CHR '' '') line)"

definition inv_line :: "nat \<Rightarrow> string \<Rightarrow> inv_state \<Rightarrow> inv_state result" where
  "inv_line n line st =
     bindE (inv_require (TAB \<notin> set line) (at_line ''Inventory tabs are not supported'' n)) (\<lambda>_.
     bindE (inv_require (\<not> list_ex is_control line)
       (at_line ''Inventory control characters are not supported'' n)) (\<lambda>_.
     if blank_or_comment line then Inr st
     else if line = ''---'' then
       bindE (inv_require (\<not> (is_document st \<or> is_services st))
         (at_line ''Inventory document marker is misplaced'' n)) (\<lambda>_.
       Inr (st\<lparr>is_document := True\<rparr>))
     else if line = ''...'' then
       inv_fail (at_line ''Inventory document end markers are not supported'' n)
     else if line = ''services:'' then
       bindE (inv_require (\<not> is_services st) (at_line ''Inventory contains duplicate services'' n)) (\<lambda>_.
       Inr (st\<lparr>is_services := True\<rparr>))
     else if \<not> is_services st then
       inv_fail (at_line ''Inventory content outside services'' n)
     else service_line n line st))"

fun inv_lines :: "nat \<Rightarrow> string list \<Rightarrow> inv_state \<Rightarrow> inv_state result" where
  "inv_lines n [] st = Inr st"
| "inv_lines n (line # lines) st = bindE (inv_line n line st) (inv_lines (n + 1) lines)"

section \<open>The parser\<close>

definition parse_inventory :: "string \<Rightarrow> inventory result" where
  "parse_inventory data =
     bindE (inv_require (char_of (0 :: nat) \<notin> set data) ''Inventory NUL bytes are not supported'') (\<lambda>_.
     bindE (inv_lines 1 (if ends_with [NL] data then butlast (split_on NL data) else split_on NL data)
       inv_start) (\<lambda>st.
     bindE (inv_require (is_services st) ''Inventory must contain exactly one services mapping'') (\<lambda>_.
     bindE (inv_require (is_builders st \<noteq> []) ''Inventory must define at least one service'') (\<lambda>_.
     bindE (finish_list (current st) (is_field st)) (\<lambda>_.
       mapE build_service (is_builders st))))))"

end
