(* ===== verification/InventoryContracts.thy ===== *)
theory InventoryContracts
  imports Inventory
begin

text \<open>
  The lemmas of the inventory parser: what the line patterns capture, which values the validators
  admit, and the invariant of the service builders that every line preserves.
\<close>

section \<open>Exceptions\<close>

definition is_inventory_error :: "exn \<Rightarrow> bool" where
  "is_inventory_error e \<longleftrightarrow> (\<exists>m. e = InventoryError m)"

lemma inv_require_ok [ok_iff]: "inv_require ok m = Inr u \<longleftrightarrow> ok"
  by (simp add: inv_require_def requireE_ok)

lemma inv_fail_ok [simp]: "inv_fail m \<noteq> Inr x"
  by (simp add: inv_fail_def)

lemma raises_inv_require [raises]: "raises_only is_inventory_error (inv_require ok m)"
  by (simp add: inv_require_def is_inventory_error_def)

lemma raises_inv_fail [raises, simp]: "raises_only is_inventory_error (inv_fail m)"
  by (simp add: inv_fail_def is_inventory_error_def)

section \<open>Admitted values\<close>

definition valid_openssl :: "string \<Rightarrow> bool" where
  "valid_openssl s \<longleftrightarrow> s \<noteq> [] \<and> CHR ''$'' \<notin> set s \<and> hd s \<noteq> CHR '' '' \<and> last s \<noteq> CHR '' ''"

definition valid_dns :: "string \<Rightarrow> bool" where
  "valid_dns s \<longleftrightarrow> valid_openssl s \<and> length s \<le> 253 \<and> fullmatch DNS_NAME_RX s"

definition valid_ip :: "string \<Rightarrow> bool" where
  "valid_ip s \<longleftrightarrow> length (split_on (CHR ''.'') s) = 4 \<and> list_all is_octet (split_on (CHR ''.'') s)"

definition valid_days :: "string \<Rightarrow> bool" where
  "valid_days s \<longleftrightarrow> s \<noteq> [] \<and> list_all is_digit s \<and> 1 \<le> text_nat 10 s \<and> text_nat 10 s \<le> 365000"

definition valid_scalar :: "string \<Rightarrow> string \<Rightarrow> bool" where
  "valid_scalar field s \<longleftrightarrow>
     (if field = ''common_name'' then valid_dns s
      else if field = ''days'' then valid_days s
      else if field = ''key_custody'' then s = ''host-local''
      else if field = ''target'' then fullmatch TARGET_RX s
      else if field = ''validation_boundary_sha256'' then fullmatch HEX64_RX s
      else fullmatch POSITIVE_RX s)"

lemma validate_openssl_ok: "validate_openssl_value label s = Inr u \<longleftrightarrow> valid_openssl s"
  by (auto simp: validate_openssl_value_def valid_openssl_def ok_iff)

lemma validate_dns_ok [ok_iff]: "validate_dns label s = Inr u \<longleftrightarrow> valid_dns s"
  by (auto simp: validate_dns_def valid_dns_def ok_iff validate_openssl_ok)

lemma validate_ip_ok [ok_iff]: "validate_ip label s = Inr u \<longleftrightarrow> valid_openssl s \<and> valid_ip s"
  by (auto simp: validate_ip_def valid_ip_def ok_iff validate_openssl_ok)

lemma digits_iff: "fullmatch DIGITS_RX s \<longleftrightarrow> s \<noteq> [] \<and> list_all is_digit s"
  by (simp add: DIGITS_RX_def fullmatch_lang rx_lang list_all_iff)

lemma validate_days_ok [ok_iff]: "validate_days s = Inr u \<longleftrightarrow> valid_days s"
proof -
  have "list_all is_digit s \<Longrightarrow> \<not> days_above (days_normal s) \<longleftrightarrow> text_nat 10 s \<le> 365000"
    and "list_all is_digit s \<Longrightarrow> days_normal s \<noteq> ''0'' \<longleftrightarrow> 1 \<le> text_nat 10 s"
    using days_above_iff [of s] days_zero [of s] by (auto simp: list_all_iff)
  then show ?thesis by (auto simp: validate_days_def valid_days_def ok_iff digits_iff)
qed

lemma validate_scalar_ok [ok_iff]: "validate_scalar service field s = Inr u \<longleftrightarrow> valid_scalar field s"
  by (simp add: validate_scalar_def valid_scalar_def ok_iff)

text \<open>Every admitted value is printable ASCII without a tab or a line feed.\<close>

definition clean :: "string \<Rightarrow> bool" where
  "clean s \<longleftrightarrow> list_all (\<lambda>c. 32 < code c \<and> code c < 127) s"

lemma clean_class: "(\<And>c. P c \<Longrightarrow> 32 < code c \<and> code c < 127) \<Longrightarrow> \<forall>c \<in> set s. P c \<Longrightarrow> clean s"
  by (auto simp: clean_def list_all_iff)

lemma alnum_clean: "is_alnum c \<Longrightarrow> 32 < code c \<and> code c < 127"
  by (auto simp: is_alnum_def is_digit_def is_lower_def is_upper_def code_def)

lemma dns_label_chars: "s \<in> lang DNS_LABEL_RX \<Longrightarrow> c \<in> set s \<Longrightarrow> is_label_char c"
  by (auto simp: DNS_LABEL_RX_def rx_lang is_label_char_def)

lemma lang_Star_chars:
  assumes "s \<in> lang (Star r)" and "\<And>u c. u \<in> lang r \<Longrightarrow> c \<in> set u \<Longrightarrow> P c"
  shows "\<forall>c \<in> set s. P c"
proof -
  from assms(1) obtain g where "caps (Star r) s g" by (auto simp: lang_def)
  then show ?thesis
    by (induction "Star r" s g rule: caps.induct) (use assms(2) in \<open>auto simp: lang_def\<close>)
qed

lemma dns_name_chars:
  assumes "fullmatch DNS_NAME_RX s"
  shows "\<forall>c \<in> set s. is_label_char c \<or> c = CHR ''.''"
proof -
  from assms obtain v w where s: "s = v @ w" "v \<in> lang DNS_LABEL_RX"
    "w \<in> lang (Star (Cat (Lit ''.'') DNS_LABEL_RX))"
    unfolding fullmatch_lang DNS_NAME_RX_def lang_Cat by blast
  have "\<forall>c \<in> set w. is_label_char c \<or> c = CHR ''.''"
    by (rule lang_Star_chars [OF s(3)]) (auto simp: lang_Cat lang_Lit dest: dns_label_chars)
  with s dns_label_chars [OF s(2)] show ?thesis by auto
qed

lemma valid_dns_clean: "valid_dns s \<Longrightarrow> clean s"
  by (rule clean_class [OF _ dns_name_chars])
    (auto simp: valid_dns_def is_label_char_def code_def dest: alnum_clean)

lemma digit_clean: "is_digit c \<Longrightarrow> 32 < code c \<and> code c < 127"
  by (auto simp: is_digit_def code_def)

lemma valid_scalar_clean: "valid_scalar field s \<Longrightarrow> clean s"
proof -
  have "valid_days s \<Longrightarrow> clean s" by (auto simp: valid_days_def clean_def list_all_iff dest: digit_clean)
  moreover have "s = ''host-local'' \<Longrightarrow> clean s" by (simp add: clean_def code_def)
  moreover have "fullmatch TARGET_RX s \<Longrightarrow> clean s"
    by (rule clean_class [where P = is_target_char])
      (auto simp: TARGET_RX_def fullmatch_lang rx_lang is_target_char_def is_lower_def is_digit_def code_def)
  moreover have "fullmatch HEX64_RX s \<Longrightarrow> clean s"
    by (auto simp: HEX64_iff clean_def list_all_iff is_hex_def is_digit_def code_def)
  moreover have "fullmatch POSITIVE_RX s \<Longrightarrow> clean s"
    by (auto simp: POSITIVE_iff canonical_digits_def clean_def list_all_iff dest: digit_clean)
  ultimately show "valid_scalar field s \<Longrightarrow> clean s"
    using valid_dns_clean by (auto simp: valid_scalar_def split: if_splits)
qed

lemma valid_ip_clean: "valid_ip s \<Longrightarrow> clean s"
proof -
  assume ip: "valid_ip s"
  have join: "\<forall>c \<in> set (join_on sep ws). c \<in> set sep \<or> (\<exists>w \<in> set ws. c \<in> set w)" for sep :: string and ws
    by (induction sep ws rule: join_on.induct) auto
  have "c = CHR ''.'' \<or> is_digit c" if "c \<in> set s" for c
    using join [of "[CHR ''.'']" "split_on (CHR ''.'') s"] that ip
    unfolding join_split by (auto simp: valid_ip_def list_all_iff is_octet_def digits_iff)
  then show ?thesis
    by (intro clean_class [where P = "\<lambda>c. c = CHR ''.'' \<or> is_digit c"])
      (auto simp: code_def dest: digit_clean)
qed

lemma clean_ascii [simp]: "clean s \<Longrightarrow> decode_ascii s = Inr s"
  by (auto simp: clean_def decode_ascii_def list_all_iff)

section \<open>What the patterns capture\<close>

lemma groups_caps: "match_groups r s = Some g \<Longrightarrow> caps r s g"
  by (rule match_groups_caps)

lemma service_groups:
  assumes "match_groups INV_SERVICE_RX line = Some [name]"
  shows "name \<noteq> [] \<and> list_all is_name_char name"
proof -
  have "no_groups (Cat (Cls is_alnum) (Star (Cls is_name_char)))" by simp
  with groups_caps [OF assms] have "name \<in> lang (Cat (Cls is_alnum) (Star (Cls is_name_char)))"
    by (auto simp: INV_SERVICE_RX_def caps_Cat_plain caps_Cat_Grp)
  then show ?thesis by (auto simp: rx_lang is_name_char_def list_all_iff)
qed

lemma scalar_groups:
  assumes "match_groups SCALAR_RX line = Some [field, raw]"
  shows "field \<in> set SCALAR_FIELDS"
proof -
  have "no_groups (Alts (map Lit SCALAR_FIELDS))" by (intro no_groups_Alts) auto
  with groups_caps [OF assms] have "field \<in> lang (Alts (map Lit SCALAR_FIELDS))"
    by (auto simp: SCALAR_RX_def caps_Cat_plain caps_Cat_Grp)
  then show ?thesis by (auto simp: lang_Alts lang_Lit)
qed

lemma list_groups:
  assumes "match_groups LIST_RX line = Some [field]"
  shows "field \<in> {''dns'', ''ips''}"
proof -
  have "no_groups (Alts [Lit ''dns'', Lit ''ips''])" by (intro no_groups_Alts) auto
  with groups_caps [OF assms] have "field \<in> lang (Alts [Lit ''dns'', Lit ''ips''])"
    by (auto simp: LIST_RX_def caps_Cat_plain caps_Cat_Grp)
  then show ?thesis by (auto simp: lang_Alts lang_Lit)
qed

lemma name_clean: "list_all is_name_char s \<Longrightarrow> clean s"
  by (rule clean_class [where P = is_name_char])
    (auto simp: is_name_char_def list_all_iff code_def dest: alnum_clean)

section \<open>The invariant of the builders\<close>

definition field_values :: "string \<Rightarrow> (string \<times> string) list \<Rightarrow> string list" where
  "field_values f entries = map snd (filter (\<lambda>e. fst e = f) entries)"

lemma field_values_simps [simp]:
  "field_values f [] = []"
  "field_values f (es @ [(g, v)]) = (if g = f then field_values f es @ [v] else field_values f es)"
  by (simp_all add: field_values_def)

definition field_ok :: "string \<Rightarrow> string list \<Rightarrow> bool" where
  "field_ok f vs \<longleftrightarrow>
     (if f = ''dns'' then distinct vs \<and> list_all valid_dns vs
      else if f = ''ips'' then distinct vs \<and> list_all valid_ip vs
      else f \<in> set SCALAR_FIELDS \<and> (\<exists>v. vs = [v] \<and> valid_scalar f v))"

definition builder_ok :: "service_builder \<Rightarrow> bool" where
  "builder_ok b \<longleftrightarrow> sb_name b \<noteq> [] \<and> list_all is_name_char (sb_name b) \<and>
     (\<forall>f. map_of (sb_fields b) f = None \<longrightarrow> field_values f (sb_entries b) = []) \<and>
     (\<forall>f vs. map_of (sb_fields b) f = Some vs \<longrightarrow> vs = field_values f (sb_entries b) \<and> field_ok f vs)"

definition no_empty_list :: "service_builder \<Rightarrow> bool" where
  "no_empty_list b \<longleftrightarrow> (\<forall>f. map_of (sb_fields b) f \<noteq> Some [])"

definition inv_ok :: "inv_state \<Rightarrow> bool" where
  "inv_ok st \<longleftrightarrow> is_seen st = set (map sb_name (is_builders st)) \<and>
     distinct (map sb_name (is_builders st)) \<and> list_all builder_ok (is_builders st) \<and>
     list_all no_empty_list (butlast (is_builders st)) \<and>
     (\<forall>b. current st = Some b \<longrightarrow> (\<forall>f. map_of (sb_fields b) f = Some [] \<longrightarrow> is_field st = Some f))"

lemma map_of_update': "map_of (AList.update k v al) n = (if n = k then Some v else map_of al n)"
  by (simp add: update_conv')

lemma field_ok_empty: "field_ok f [] \<Longrightarrow> f \<in> {''dns'', ''ips''}"
  by (auto simp: field_ok_def split: if_splits)

lemma inv_ok_start: "inv_ok inv_start"
  by (simp add: inv_ok_def inv_start_def current_def)

lemma current_Some: "current st = Some b \<longleftrightarrow> is_builders st \<noteq> [] \<and> b = last (is_builders st)"
  by (auto simp: current_def)

lemma inv_ok_current: "inv_ok st \<Longrightarrow> current st = Some b \<Longrightarrow> builder_ok b"
  by (auto simp: inv_ok_def current_Some list_all_iff)

lemma finished:
  assumes "inv_ok st" and "current st = Some b" and "finish_list (current st) (is_field st) = Inr ()"
  shows "no_empty_list b"
  unfolding no_empty_list_def
proof (intro allI notI)
  fix f assume f: "map_of (sb_fields b) f = Some []"
  with assms(1,2) have field: "is_field st = Some f" by (auto simp: inv_ok_def)
  have "field_ok f []" using inv_ok_current [OF assms(1,2)] f by (auto simp: builder_ok_def)
  from field_ok_empty [OF this] f field assms(2,3) show False
    by (auto simp: finish_list_def ok_iff)
qed

lemma finished_all:
  assumes "inv_ok st" and "finish_list (current st) (is_field st) = Inr ()"
  shows "list_all no_empty_list (is_builders st)"
proof (cases "is_builders st = []")
  case False
  then have "no_empty_list (last (is_builders st))"
    using finished [OF assms(1) _ assms(2)] by (simp add: current_Some)
  then have "list_all no_empty_list (butlast (is_builders st) @ [last (is_builders st)])"
    using assms(1) by (simp add: inv_ok_def)
  with False show ?thesis by simp
qed simp

lemma inv_ok_set_current:
  assumes "inv_ok st" and "current st = Some b" and "builder_ok b'" and "sb_name b' = sb_name b"
    and "\<And>f. map_of (sb_fields b') f = Some [] \<Longrightarrow> field = Some f"
  shows "inv_ok ((set_current b' st)\<lparr>is_field := field\<rparr>)"
proof -
  have b: "is_builders st = butlast (is_builders st) @ [b]"
    using assms(2) by (simp add: current_Some)
  have "map sb_name (butlast (is_builders st) @ [b']) = map sb_name (is_builders st)"
    by (subst (2) b) (simp add: assms(4))
  moreover have "list_all builder_ok (butlast (is_builders st))"
    using assms(1) by (auto simp: inv_ok_def list_all_iff dest: in_set_butlastD)
  ultimately show ?thesis
    using assms(1,3,5) by (auto simp: inv_ok_def set_current_def current_Some)
qed

lemma inv_ok_start_service:
  assumes "start_service name st = Inr st'" and "inv_ok st" and "name \<noteq> []" "list_all is_name_char name"
  shows "inv_ok st'"
proof -
  let ?b = "\<lparr>sb_name = name, sb_entries = [], sb_fields = []\<rparr>"
  from assms(1) have f: "finish_list (current st) (is_field st) = Inr ()" "name \<notin> is_seen st"
    and st': "st' = st\<lparr>is_seen := insert name (is_seen st), is_builders := is_builders st @ [?b], is_field := None\<rparr>"
    by (simp_all add: start_service_def ok_iff)
  have "builder_ok ?b" using assms(3,4) by (simp add: builder_ok_def)
  with assms(2) f finished_all [OF assms(2) f(1)] show ?thesis
    by (auto simp: st' inv_ok_def current_Some)
qed

text \<open>A field is set together with the entries that hold its values.\<close>

lemma builder_ok_set:
  assumes "builder_ok b" and "field_ok field vs" and "vs = field_values field es"
    and "\<And>f. f \<noteq> field \<Longrightarrow> field_values f es = field_values f (sb_entries b)"
  shows "builder_ok (b\<lparr>sb_fields := AList.update field vs (sb_fields b), sb_entries := es\<rparr>)"
proof -
  have "vs' = field_values f es \<and> field_ok f vs'"
    if "map_of (AList.update field vs (sb_fields b)) f = Some vs'" for f vs'
    using that assms by (cases "f = field") (simp_all add: map_of_update' builder_ok_def)
  moreover have "field_values f es = []" if "map_of (AList.update field vs (sb_fields b)) f = None" for f
    using that assms by (cases "f = field") (simp_all add: map_of_update' builder_ok_def)
  ultimately show ?thesis using assms(1) by (simp add: builder_ok_def)
qed

lemma new_field_values: "builder_ok b \<Longrightarrow> \<not> has_field b field \<Longrightarrow> field_values field (sb_entries b) = []"
  by (simp add: builder_ok_def has_field_def)

lemma builder_ok_add:
  assumes "builder_ok b" and "\<not> has_field b field" and "field_ok field [v]"
  shows "builder_ok (b\<lparr>sb_fields := AList.update field [v] (sb_fields b), sb_entries := sb_entries b @ [(field, v)]\<rparr>)"
  using builder_ok_set [OF assms(1,3), of "sb_entries b @ [(field, v)]"] new_field_values [OF assms(1,2)] by simp

lemma builder_ok_list:
  assumes "builder_ok b" and "\<not> has_field b field" and "field \<in> {''dns'', ''ips''}"
  shows "builder_ok (b\<lparr>sb_fields := AList.update field [] (sb_fields b)\<rparr>)"
proof -
  have "field_ok field []" using assms(3) by (auto simp: field_ok_def)
  from builder_ok_set [OF assms(1) this, of "sb_entries b"] new_field_values [OF assms(1,2)] show ?thesis by simp
qed

lemma empty_after_set:
  assumes "no_empty_list b" and "map_of (AList.update field vs (sb_fields b)) f = Some []"
  shows "f = field \<and> vs = []"
  using assms by (auto simp: no_empty_list_def map_of_update' split: if_splits)

lemma inv_ok_take_scalar:
  assumes "take_scalar b field raw st = Inr st'" and "inv_ok st" and "current st = Some b"
    and "field \<in> set SCALAR_FIELDS"
  shows "inv_ok st'"
proof -
  from assms(1,3) obtain v where f: "finish_list (current st) (is_field st) = Inr ()" "\<not> has_field b field"
    "valid_scalar field v" and st': "st' = (set_current (b\<lparr>sb_fields := AList.update field [v] (sb_fields b),
        sb_entries := sb_entries b @ [(field, v)]\<rparr>) st)\<lparr>is_field := Some field\<rparr>"
    by (auto simp: take_scalar_def check_new_field_def ok_iff)
  have "field_ok field [v]" using assms(4) f(3) by (auto simp: field_ok_def SCALAR_FIELDS_def)
  from builder_ok_add [OF inv_ok_current [OF assms(2,3)] f(2) this] finished [OF assms(2,3) f(1)]
  show ?thesis unfolding st'
    by (intro inv_ok_set_current [OF assms(2,3)]) (auto dest: empty_after_set)
qed

lemma inv_ok_take_list:
  assumes "take_list b field st = Inr st'" and "inv_ok st" and "current st = Some b"
    and "field \<in> {''dns'', ''ips''}"
  shows "inv_ok st'"
proof -
  from assms(1,3) have f: "finish_list (current st) (is_field st) = Inr ()" "\<not> has_field b field"
    and st': "st' = (set_current (b\<lparr>sb_fields := AList.update field [] (sb_fields b)\<rparr>) st)\<lparr>is_field := Some field\<rparr>"
    by (simp_all add: take_list_def check_new_field_def ok_iff)
  from builder_ok_list [OF inv_ok_current [OF assms(2,3)] f(2) assms(4)] finished [OF assms(2,3) f(1)]
  show ?thesis unfolding st'
    by (intro inv_ok_set_current [OF assms(2,3)]) (auto dest: empty_after_set)
qed

lemma builder_ok_append:
  assumes "builder_ok b" and "field_ok field (field_values field (sb_entries b) @ [v])"
    and "field \<in> {''dns'', ''ips''}"
  shows "builder_ok (b\<lparr>sb_fields := AList.update field (field_values field (sb_entries b) @ [v]) (sb_fields b),
    sb_entries := sb_entries b @ [(field, v)]\<rparr>)"
  using builder_ok_set [OF assms(1,2), of "sb_entries b @ [(field, v)]"] by simp

lemma inv_ok_take_item:
  assumes "take_item n b raw st = Inr st'" and "inv_ok st" and "current st = Some b"
  shows "inv_ok st'"
proof -
  note ok = inv_ok_current [OF assms(2,3)]
  from assms(1) obtain field where field: "is_field st = Some field" "field \<in> {''dns'', ''ips''}"
    by (auto simp: take_item_def split: option.splits if_splits)
  with assms(1) obtain v where step: "bindE (inv_require (v \<notin> set (field_list b field))
      (''Inventory contains duplicate '' @ field @ '' SAN for service '' @ sb_name b @ '': '' @ shown_value v)) (\<lambda>_.
      bindE (if field = ''dns'' then validate_dns (''DNS SAN for service '' @ sb_name b) v
        else validate_ip (''IP SAN for service '' @ sb_name b) v) (\<lambda>_.
      Inr (set_current (b\<lparr>sb_fields := AList.update field (field_list b field @ [v]) (sb_fields b),
        sb_entries := sb_entries b @ [(field, v)]\<rparr>) st))) = Inr st'"
    unfolding take_item_def Let_def bindE_ok by (auto simp: bindE_ok)
  then have v: "v \<notin> set (field_list b field)" "if field = ''dns'' then valid_dns v else valid_ip v"
    and st': "st' = set_current (b\<lparr>sb_fields := AList.update field (field_list b field @ [v]) (sb_fields b),
        sb_entries := sb_entries b @ [(field, v)]\<rparr>) st"
    by (simp_all add: ok_iff split: if_splits)
  have vs: "field_list b field = field_values field (sb_entries b)"
    using ok by (auto simp: builder_ok_def field_list_def split: option.splits)
  have "field_ok field (field_values field (sb_entries b) @ [v])"
  proof (cases "map_of (sb_fields b) field")
    case None
    then have "field_values field (sb_entries b) = []" using ok by (simp add: builder_ok_def)
    with field(2) v(2) show ?thesis by (auto simp: field_ok_def split: if_splits)
  next
    case (Some ws)
    then have "field_ok field (field_values field (sb_entries b))" using ok by (simp add: builder_ok_def)
    with field(2) v vs show ?thesis by (auto simp: field_ok_def split: if_splits)
  qed
  from builder_ok_append [OF ok this field(2)]
  have "inv_ok ((set_current (b\<lparr>sb_fields := AList.update field (field_values field (sb_entries b) @ [v]) (sb_fields b),
      sb_entries := sb_entries b @ [(field, v)]\<rparr>) st)\<lparr>is_field := is_field st\<rparr>)"
    by (intro inv_ok_set_current [OF assms(2,3)])
      (use assms(2,3) in \<open>auto simp: map_of_update' inv_ok_def split: if_splits\<close>)
  then show ?thesis unfolding st' vs by (simp add: set_current_def)
qed

lemma inv_ok_service_line:
  assumes "service_line n line st = Inr st'" and "inv_ok st"
  shows "inv_ok st'"
proof -
  consider (start) name where "match_groups INV_SERVICE_RX line = Some [name]" "start_service name st = Inr st'"
    | (scalar) b field raw where "current st = Some b" "match_groups SCALAR_RX line = Some [field, raw]"
        "take_scalar b field raw st = Inr st'"
    | (lst) b field where "current st = Some b" "match_groups LIST_RX line = Some [field]"
        "take_list b field st = Inr st'"
    | (item) b raw where "current st = Some b" "take_item n b raw st = Inr st'"
    using assms(1) unfolding service_line_def by (auto split: option.splits list.splits)
  then show ?thesis
  proof cases
    case start
    from inv_ok_start_service [OF start(2) assms(2)] service_groups [OF start(1)] show ?thesis by blast
  next
    case scalar
    from inv_ok_take_scalar [OF scalar(3) assms(2) scalar(1) scalar_groups [OF scalar(2)]] show ?thesis .
  next
    case lst
    from inv_ok_take_list [OF lst(3) assms(2) lst(1) list_groups [OF lst(2)]] show ?thesis .
  next
    case item
    from inv_ok_take_item [OF item(2) assms(2) item(1)] show ?thesis .
  qed
qed

lemma inv_ok_line: "inv_line n line st = Inr st' \<Longrightarrow> inv_ok st \<Longrightarrow> inv_ok st'"
  unfolding inv_line_def
  by (auto simp: ok_iff inv_ok_def current_def split: if_splits dest: inv_ok_service_line [unfolded inv_ok_def current_def])

lemma inv_ok_lines: "inv_lines n lines st = Inr st' \<Longrightarrow> inv_ok st \<Longrightarrow> inv_ok st'"
  by (induction n lines st rule: inv_lines.induct) (auto simp: ok_iff dest: inv_ok_line)

end
