(* ===== verification/InventoryProperties.thy ===== *)
theory InventoryProperties
  imports InventoryContracts
begin

text \<open>
  The properties of the inventory parser: what an accepted inventory satisfies, that its canonical
  bytes determine it, and that only inventory errors are raised.
\<close>

section \<open>Building a service\<close>

definition first_of :: "string list \<Rightarrow> string option" where
  "first_of vs = (if vs = [] then None else Some (hd vs))"

text \<open>The service of a name and its entries.\<close>

definition service_from :: "string \<Rightarrow> (string \<times> string) list \<Rightarrow> inventory_service" where
  "service_from name es =
     \<lparr>iv_name = name, iv_entries = map (\<lambda>(f, v). \<lparr>ie_field = f, ie_value = v\<rparr>) es,
      iv_common_name = (case first_of (field_values ''common_name'' es) of None \<Rightarrow> [] | Some s \<Rightarrow> s),
      iv_dns = field_values ''dns'' es, iv_ips = field_values ''ips'' es,
      iv_days = first_of (field_values ''days'' es),
      iv_key_custody = (if field_values ''key_custody'' es = [] then ''managed'' else ''host-local''),
      iv_target = first_of (field_values ''target'' es),
      iv_validation_boundary_sha256 = first_of (field_values ''validation_boundary_sha256'' es),
      iv_rollback_hold_seconds = first_of (field_values ''rollback_hold_seconds'' es)\<rparr>"

definition entry_fields :: "string list" where
  "entry_fields = SCALAR_FIELDS @ [''dns'', ''ips'']"

lemma entry_fields_clean: "list_all clean entry_fields"
  by (simp add: entry_fields_def SCALAR_FIELDS_def clean_def code_def)

lemma field_ok_clean: "field_ok f vs \<Longrightarrow> v \<in> set vs \<Longrightarrow> f \<in> set entry_fields \<and> clean v"
  by (auto simp: field_ok_def entry_fields_def list_all_iff split: if_splits
      intro: valid_dns_clean valid_ip_clean valid_scalar_clean)

lemma entries_clean:
  assumes "builder_ok b" and "(f, v) \<in> set (sb_entries b)"
  shows "f \<in> set entry_fields \<and> clean f \<and> clean v"
proof -
  have v: "v \<in> set (field_values f (sb_entries b))" using assms(2) by (force simp: field_values_def)
  then have "map_of (sb_fields b) f \<noteq> None" using assms(1) by (auto simp: builder_ok_def)
  then obtain vs where "map_of (sb_fields b) f = Some vs" by auto
  with assms(1) v have "field_ok f vs" "v \<in> set vs" by (auto simp: builder_ok_def)
  from field_ok_clean [OF this] entry_fields_clean show ?thesis by (auto simp: list_all_iff)
qed

lemma field_of_values:
  assumes "builder_ok b" and "no_empty_list b"
  shows "map_of (sb_fields b) f =
    (if field_values f (sb_entries b) = [] then None else Some (field_values f (sb_entries b)))"
  using assms by (cases "map_of (sb_fields b) f") (auto simp: builder_ok_def no_empty_list_def)

lemma field_values_clean:
  "builder_ok b \<Longrightarrow> v \<in> set (field_values f (sb_entries b)) \<Longrightarrow> clean v"
  using entries_clean [of b] by (auto simp: field_values_def)

lemma first_value_eq:
  assumes "builder_ok b" and "no_empty_list b"
  shows "first_value b f = Inr (first_of (field_values f (sb_entries b)))"
proof (cases "field_values f (sb_entries b)")
  case Nil
  then show ?thesis using field_of_values [OF assms] by (simp add: first_value_def first_of_def)
next
  case (Cons v vs)
  with field_values_clean [OF assms(1), of v f] field_of_values [OF assms, of f] show ?thesis
    by (simp add: first_value_def first_of_def)
qed

lemma list_values_eq:
  assumes "builder_ok b" and "no_empty_list b"
  shows "list_values b f = Inr (field_values f (sb_entries b))"
proof -
  have "mapE decode_ascii vs = Inr (map id vs)" if "\<forall>v \<in> set vs. clean v" for vs
    using that by (intro mapE_Inr_map) simp
  with field_of_values [OF assms, of f] field_values_clean [OF assms(1)] show ?thesis
    by (auto simp: list_values_def)
qed

lemma has_field_iff:
  "builder_ok b \<Longrightarrow> no_empty_list b \<Longrightarrow> has_field b f \<longleftrightarrow> field_values f (sb_entries b) \<noteq> []"
  using field_of_values [of b f] by (simp add: has_field_def)

lemma build_entries:
  assumes "builder_ok b"
  shows "mapE build_entry (sb_entries b) = Inr (map (\<lambda>(f, v). \<lparr>ie_field = f, ie_value = v\<rparr>) (sb_entries b))"
  using entries_clean [OF assms] by (intro mapE_Inr_map) (auto simp: build_entry_def)

text \<open>The fields that make a service complete.\<close>

definition complete_entries :: "(string \<times> string) list \<Rightarrow> bool" where
  "complete_entries es \<longleftrightarrow> field_values ''common_name'' es \<noteq> [] \<and>
     (field_values ''dns'' es \<noteq> [] \<or> field_values ''ips'' es \<noteq> []) \<and>
     list_all (\<lambda>f. field_values f es \<noteq> [] \<longleftrightarrow> field_values ''key_custody'' es \<noteq> []) HOST_LOCAL_FIELDS"

lemma check_host_local_ok [ok_iff]:
  "check_host_local b f = Inr u \<longleftrightarrow> (has_field b f \<longleftrightarrow> has_field b ''key_custody'')"
  by (auto simp: check_host_local_def)

lemma build_service_ok:
  assumes "builder_ok b" and "no_empty_list b"
  shows "build_service b = Inr s \<longleftrightarrow>
    complete_entries (sb_entries b) \<and> s = service_from (sb_name b) (sb_entries b)"
proof -
  have "clean (sb_name b)" using assms(1) by (simp add: builder_ok_def name_clean)
  then show ?thesis
    by (auto simp: build_service_def ok_iff first_value_eq [OF assms] list_values_eq [OF assms]
        has_field_iff [OF assms] build_entries [OF assms(1)] complete_entries_def service_from_def list_all_iff)
qed

section \<open>Accepted inventories\<close>

lemma parse_inventory_builders:
  assumes "parse_inventory data = Inr services"
  obtains bs where "list_all builder_ok bs" "list_all no_empty_list bs" "distinct (map sb_name bs)" "bs \<noteq> []"
    "list_all (\<lambda>b. complete_entries (sb_entries b)) bs"
    "services = map (\<lambda>b. service_from (sb_name b) (sb_entries b)) bs"
proof -
  from assms obtain st lines where st: "inv_lines 1 lines inv_start = Inr st" "is_builders st \<noteq> []"
    "finish_list (current st) (is_field st) = Inr ()" "mapE build_service (is_builders st) = Inr services"
    unfolding parse_inventory_def bindE_ok inv_require_ok by auto
  let ?bs = "is_builders st"
  have inv: "inv_ok st" using inv_ok_lines [OF st(1) inv_ok_start] .
  then have ok: "list_all builder_ok ?bs" "distinct (map sb_name ?bs)" by (simp_all add: inv_ok_def)
  have full: "list_all no_empty_list ?bs" using finished_all [OF inv st(3)] .
  have built: "build_service b = Inr s \<longleftrightarrow>
      complete_entries (sb_entries b) \<and> s = service_from (sb_name b) (sb_entries b)" if "b \<in> set ?bs" for b s
    using build_service_ok [of b s] that ok(1) full by (simp add: list_all_iff)
  from st(4) have all2: "list_all2 (\<lambda>b s. build_service b = Inr s) ?bs services" by (simp add: mapE_ok)
  then have "list_all2 (\<lambda>b s. s = service_from (sb_name b) (sb_entries b)) ?bs services"
    by (rule list.rel_mono_strong) (simp add: built)
  then have "services = map (\<lambda>b. service_from (sb_name b) (sb_entries b)) ?bs"
    by (auto simp: list_all2_conv_all_nth intro: nth_equalityI)
  moreover have "list_all (\<lambda>b. complete_entries (sb_entries b)) ?bs"
    using all2 built unfolding list_all_length list_all2_conv_all_nth by (metis nth_mem)
  ultimately show thesis using that ok full st(2) by blast
qed

definition valid_service :: "inventory_service \<Rightarrow> bool" where
  "valid_service s \<longleftrightarrow> iv_name s \<noteq> [] \<and> list_all is_name_char (iv_name s) \<and>
     valid_dns (iv_common_name s) \<and> distinct (iv_dns s) \<and> list_all valid_dns (iv_dns s) \<and>
     distinct (iv_ips s) \<and> list_all valid_ip (iv_ips s) \<and> (iv_dns s \<noteq> [] \<or> iv_ips s \<noteq> []) \<and>
     (\<forall>d \<in> set_option (iv_days s). valid_days d) \<and>
     (if iv_key_custody s = ''host-local'' then
        (\<exists>t h k. iv_target s = Some t \<and> fullmatch TARGET_RX t \<and>
           iv_validation_boundary_sha256 s = Some h \<and> fullmatch HEX64_RX h \<and>
           iv_rollback_hold_seconds s = Some k \<and> fullmatch POSITIVE_RX k)
      else iv_key_custody s = ''managed'' \<and> iv_target s = None \<and>
        iv_validation_boundary_sha256 s = None \<and> iv_rollback_hold_seconds s = None)"

lemma field_values_ok:
  assumes "builder_ok b" and "no_empty_list b" and "field_values f (sb_entries b) \<noteq> []"
  shows "field_ok f (field_values f (sb_entries b))"
proof -
  have "map_of (sb_fields b) f = Some (field_values f (sb_entries b))"
    using field_of_values [OF assms(1,2)] assms(3) by simp
  with assms(1) show ?thesis unfolding builder_ok_def by blast
qed

lemma scalar_value:
  assumes "builder_ok b" and "no_empty_list b" and "f \<in> set SCALAR_FIELDS"
  shows "(case first_of (field_values f (sb_entries b)) of None \<Rightarrow> field_values f (sb_entries b) = []
    | Some v \<Rightarrow> field_values f (sb_entries b) \<noteq> [] \<and> valid_scalar f v)"
proof (cases "field_values f (sb_entries b) = []")
  case False
  have "f \<noteq> ''dns''" "f \<noteq> ''ips''" using assms(3) by (auto simp: SCALAR_FIELDS_def)
  with field_values_ok [OF assms(1,2) False] obtain v where
    "field_values f (sb_entries b) = [v]" "valid_scalar f v"
    by (auto simp: field_ok_def)
  then show ?thesis by (simp add: first_of_def)
qed (simp add: first_of_def)

lemma list_value:
  assumes "builder_ok b" and "no_empty_list b"
  shows "distinct (field_values ''dns'' (sb_entries b)) \<and> list_all valid_dns (field_values ''dns'' (sb_entries b)) \<and>
    distinct (field_values ''ips'' (sb_entries b)) \<and> list_all valid_ip (field_values ''ips'' (sb_entries b))"
proof -
  have "distinct vs \<and> list_all valid_dns vs" if "vs = field_values ''dns'' (sb_entries b)" for vs
    using field_values_ok [OF assms, of "''dns''"] that by (cases "vs = []") (auto simp: field_ok_def)
  moreover have "distinct vs \<and> list_all valid_ip vs" if "vs = field_values ''ips'' (sb_entries b)" for vs
    using field_values_ok [OF assms, of "''ips''"] that by (cases "vs = []") (auto simp: field_ok_def)
  ultimately show ?thesis by blast
qed

lemma service_from_valid:
  assumes "builder_ok b" and "no_empty_list b" and "complete_entries (sb_entries b)"
  shows "valid_service (service_from (sb_name b) (sb_entries b))"
proof -
  note sv = scalar_value [OF assms(1,2)]
  have cn: "valid_dns (iv_common_name (service_from (sb_name b) (sb_entries b)))"
    using sv [of "''common_name''"] assms(3)
    by (auto simp: service_from_def complete_entries_def SCALAR_FIELDS_def valid_scalar_def split: option.splits)
  have days: "\<forall>d \<in> set_option (first_of (field_values ''days'' (sb_entries b))). valid_days d"
    using sv [of "''days''"] by (auto simp: SCALAR_FIELDS_def valid_scalar_def split: option.splits)
  have custody: "first_of (field_values f (sb_entries b)) = None \<longleftrightarrow> field_values ''key_custody'' (sb_entries b) = []"
    if "f \<in> set HOST_LOCAL_FIELDS" for f
    using assms(3) that by (auto simp: complete_entries_def list_all_iff first_of_def split: if_splits)
  have host: "valid_scalar f v" if "f \<in> set SCALAR_FIELDS" "first_of (field_values f (sb_entries b)) = Some v" for f v
    using sv [OF that(1)] that(2) by simp
  have "sb_name b \<noteq> [] \<and> list_all is_name_char (sb_name b)" using assms(1) by (simp add: builder_ok_def)
  with cn days list_value [OF assms(1,2)] assms(3) custody [of "''target''"]
    custody [of "''validation_boundary_sha256''"] custody [of "''rollback_hold_seconds''"]
    host [of "''target''"] host [of "''validation_boundary_sha256''"] host [of "''rollback_hold_seconds''"]
  show ?thesis
    by (auto simp: valid_service_def service_from_def complete_entries_def HOST_LOCAL_FIELDS_def
        SCALAR_FIELDS_def valid_scalar_def)
qed

text \<open>
  C31: an accepted inventory has at least one service, distinct service names, and valid services: a
  DNS common name, at least one subject alternative name and no duplicate ones, a day count from 1 to
  365000 when there is one, and the three host-local fields exactly for host-local key custody.
\<close>

theorem inventory_services_valid:
  assumes "parse_inventory data = Inr services"
  shows "services \<noteq> [] \<and> distinct (map iv_name services) \<and> list_all valid_service services"
  using assms
proof (rule parse_inventory_builders)
  fix bs
  assume b: "list_all builder_ok bs" "list_all no_empty_list bs" "distinct (map sb_name bs)" "bs \<noteq> []"
    "list_all (\<lambda>b. complete_entries (sb_entries b)) bs"
    and s: "services = map (\<lambda>b. service_from (sb_name b) (sb_entries b)) bs"
  have "map iv_name services = map sb_name bs" by (simp add: s service_from_def comp_def)
  moreover have "list_all valid_service services"
    using b service_from_valid by (auto simp: s list_all_iff)
  moreover have "services \<noteq> []" using b(4) by (simp add: s)
  ultimately show ?thesis using b(3) by simp
qed

section \<open>Canonical bytes\<close>

type_synonym row = "string \<times> string \<times> string"

definition row_bytes :: "row \<Rightarrow> string" where
  "row_bytes r = (case r of (n, f, v) \<Rightarrow> n @ [TAB] @ f @ [TAB] @ v @ [NL])"

definition clean_row :: "row \<Rightarrow> bool" where
  "clean_row r = (case r of (n, f, v) \<Rightarrow> clean n \<and> clean f \<and> clean v)"

lemma clean_no_sep: "clean s \<Longrightarrow> TAB \<notin> set s \<and> NL \<notin> set s"
  by (auto simp: clean_def list_all_iff TAB_def NL_def code_def)

lemma row_bytes_inj:
  assumes "clean_row r" and "clean_row r'" and "row_bytes r @ s = row_bytes r' @ s'"
  shows "r = r' \<and> s = s'"
proof -
  obtain n f v n' f' v' where r: "r = (n, f, v)" "r' = (n', f', v')" by (cases r; cases r')
  note c = assms(1,2) [unfolded r clean_row_def, simplified]
  from assms(3) have e: "n @ TAB # (f @ TAB # (v @ NL # s)) = n' @ TAB # (f' @ TAB # (v' @ NL # s'))"
    by (simp add: r row_bytes_def)
  with append_sep_unique [of TAB n n'] c clean_no_sep have 1: "n = n'"
    "f @ TAB # (v @ NL # s) = f' @ TAB # (v' @ NL # s')" by blast+
  with append_sep_unique [of TAB f f'] c clean_no_sep have 2: "f = f'" "v @ NL # s = v' @ NL # s'" by blast+
  with append_sep_unique [of NL v v'] c clean_no_sep have "v = v'" "s = s'" by blast+
  with 1 2 show ?thesis by (simp add: r)
qed

lemma rows_inj:
  "list_all clean_row xs \<Longrightarrow> list_all clean_row ys \<Longrightarrow>
     concat (map row_bytes xs) = concat (map row_bytes ys) \<Longrightarrow> xs = ys"
proof (induction xs arbitrary: ys)
  case Nil
  then show ?case by (cases ys) (auto simp: row_bytes_def)
next
  case (Cons x xs)
  then obtain y ys' where y: "ys = y # ys'" by (cases ys) (auto simp: row_bytes_def split: prod.splits)
  with Cons.prems row_bytes_inj [of x y] have "x = y" "concat (map row_bytes xs) = concat (map row_bytes ys')"
    by auto
  with Cons y show ?case by simp
qed

definition group_rows :: "string \<times> (string \<times> string) list \<Rightarrow> row list" where
  "group_rows g = map (\<lambda>(f, v). (fst g, f, v)) (snd g)"

lemma while_append:
  "\<forall>x \<in> set xs. P x \<Longrightarrow> \<forall>y \<in> set ys. \<not> P y \<Longrightarrow>
     takeWhile P (xs @ ys) = xs \<and> dropWhile P (xs @ ys) = ys"
  by (cases ys) auto

lemma group_rows_inj:
  "distinct (map fst gs) \<Longrightarrow> distinct (map fst hs) \<Longrightarrow> list_all (\<lambda>g. snd g \<noteq> []) gs \<Longrightarrow>
     list_all (\<lambda>g. snd g \<noteq> []) hs \<Longrightarrow>
     concat (map group_rows gs) = concat (map group_rows hs) \<Longrightarrow> gs = hs"
proof (induction gs arbitrary: hs)
  case Nil
  then show ?case by (cases hs) (auto simp: group_rows_def)
next
  case (Cons g gs)
  then obtain h hs' where hs: "hs = h # hs'" by (cases hs) (auto simp: group_rows_def)
  let ?own = "\<lambda>g. takeWhile (\<lambda>r. fst r = fst g)" and ?rest = "\<lambda>g. dropWhile (\<lambda>r. fst r = fst g)"
  have other: "\<forall>r \<in> set (concat (map group_rows ks)). fst r \<noteq> fst k"
    if "distinct (map fst (k # ks))" for k ks
    using that by (force simp: group_rows_def)
  have split: "?own k (group_rows k @ concat (map group_rows ks)) = group_rows k \<and>
      ?rest k (group_rows k @ concat (map group_rows ks)) = concat (map group_rows ks)"
    if "distinct (map fst (k # ks))" for k ks
    by (rule while_append) (use other [OF that] in \<open>auto simp: group_rows_def\<close>)
  have heads: "fst (hd (group_rows g)) = fst g" "fst (hd (group_rows h)) = fst h"
      "group_rows g \<noteq> []" "group_rows h \<noteq> []"
    using Cons.prems hs by (auto simp: group_rows_def hd_map split: prod.splits)
  have e: "group_rows g @ concat (map group_rows gs) = group_rows h @ concat (map group_rows hs')"
    using Cons.prems(5) by (simp add: hs)
  with heads have name: "fst g = fst h" by (metis hd_append2)
  have "group_rows g = group_rows h \<and> concat (map group_rows gs) = concat (map group_rows hs')"
    using split [of g gs] split [of h hs'] Cons.prems(1,2) hs e name by metis
  moreover from this name have "snd g = snd h"
    by (auto simp: group_rows_def dest!: map_injective intro: injI)
  ultimately show ?case using Cons hs name by (auto simp: prod_eq_iff)
qed

lemma canonical_rows:
  "canonical_bytes (map (\<lambda>b. service_from (sb_name b) (sb_entries b)) bs) =
     concat (map row_bytes (concat (map group_rows (map (\<lambda>b. (sb_name b, sb_entries b)) bs))))"
proof -
  have "concat (map (\<lambda>e. n @ [TAB] @ ie_field e @ [TAB] @ ie_value e @ [NL])
      (map (\<lambda>(f, v). \<lparr>ie_field = f, ie_value = v\<rparr>) es)) = concat (map row_bytes (group_rows (n, es)))" for n es
    by (induction es) (auto simp: group_rows_def row_bytes_def)
  then show ?thesis
    by (induction bs) (simp_all add: canonical_bytes_def service_from_def)
qed

lemma builders_rows_clean:
  assumes "list_all builder_ok bs"
  shows "list_all clean_row (concat (map group_rows (map (\<lambda>b. (sb_name b, sb_entries b)) bs)))"
proof -
  have "clean (sb_name b) \<and> (\<forall>(f, v) \<in> set (sb_entries b). clean f \<and> clean v)" if "b \<in> set bs" for b
    using assms that entries_clean [of b] name_clean [of "sb_name b"]
    by (auto simp: list_all_iff builder_ok_def)
  then show ?thesis by (fastforce simp: list_all_iff group_rows_def clean_row_def)
qed

text \<open>The inventory file of a host with one service.\<close>

definition sample_inventory :: string where
  "sample_inventory = join_on [NL] [''services:'', ''  web:'', ''    common_name: w'', ''    dns:'',
     ''      - w'', []]"

lemma sample_inventory_parses:
  "parse_inventory sample_inventory = Inr [service_from ''web'' [(''common_name'', ''w''), (''dns'', ''w'')]]"
  by code_simp

text \<open>
  C32: the canonical bytes of accepted inventories determine them: two inventories with the same
  canonical bytes, and so with the same digest input, have the same services in the same order with
  the same values.
\<close>

theorem inventory_canonical_injective:
  assumes "parse_inventory data = Inr services" and "parse_inventory data' = Inr services'"
    and "canonical_bytes services = canonical_bytes services'"
  shows "services = services'"
proof -
  let ?groups = "map (\<lambda>b. (sb_name b, sb_entries b))"
  obtain bs where b: "list_all builder_ok bs" "list_all no_empty_list bs" "distinct (map sb_name bs)"
    "list_all (\<lambda>b. complete_entries (sb_entries b)) bs"
    and s: "services = map (\<lambda>b. service_from (sb_name b) (sb_entries b)) bs"
    using parse_inventory_builders [OF assms(1)] by metis
  obtain bs' where b': "list_all builder_ok bs'" "list_all no_empty_list bs'" "distinct (map sb_name bs')"
    "list_all (\<lambda>b. complete_entries (sb_entries b)) bs'"
    and s': "services' = map (\<lambda>b. service_from (sb_name b) (sb_entries b)) bs'"
    using parse_inventory_builders [OF assms(2)] by metis
  have full: "list_all (\<lambda>g. snd g \<noteq> []) (?groups cs)" if "list_all (\<lambda>b. complete_entries (sb_entries b)) cs" for cs
    using that by (auto simp: list_all_iff complete_entries_def)
  have "concat (map group_rows (?groups bs)) = concat (map group_rows (?groups bs'))"
    using assms(3) unfolding s s' canonical_rows
    by (rule rows_inj [OF builders_rows_clean [OF b(1)] builders_rows_clean [OF b'(1)]])
  then have "?groups bs = ?groups bs'"
    by (intro group_rows_inj) (use b b' full in \<open>simp_all add: comp_def\<close>)
  then have "map (\<lambda>(n, es). service_from n es) (?groups bs) = map (\<lambda>(n, es). service_from n es) (?groups bs')"
    by (rule arg_cong)
  then show ?thesis by (simp add: s s' comp_def)
qed

theorem inventory_canonical_injective_witness:
  "\<exists>services. parse_inventory sample_inventory = Inr services \<and>
     parse_inventory (CHR ''#'' # NL # sample_inventory) = Inr services"
proof -
  have "case parse_inventory (CHR ''#'' # NL # sample_inventory) of Inl _ \<Rightarrow> False
    | Inr services' \<Rightarrow> canonical_bytes services' =
        canonical_bytes [service_from ''web'' [(''common_name'', ''w''), (''dns'', ''w'')]]"
    by code_simp
  then obtain services' where "parse_inventory (CHR ''#'' # NL # sample_inventory) = Inr services'"
    "canonical_bytes services' =
      canonical_bytes [service_from ''web'' [(''common_name'', ''w''), (''dns'', ''w'')]]"
    by (simp split: sum.splits)
  with inventory_canonical_injective [OF this(1) sample_inventory_parses this(2)] show ?thesis
    using sample_inventory_parses by blast
qed

theorem inventory_services_valid_witness:
  "\<exists>services. parse_inventory sample_inventory = Inr services \<and> valid_service (hd services)"
proof -
  from inventory_services_valid [OF sample_inventory_parses] show ?thesis
    using sample_inventory_parses by simp
qed

section \<open>Errors\<close>

lemma raises_finish_list: "raises_only is_inventory_error (finish_list b f)"
  by (auto simp: finish_list_def split: option.splits intro: raises_inv_require)

lemma raises_parse_value: "raises_only is_inventory_error (parse_value s)"
  unfolding parse_value_def Let_def by (intro raises)

lemma raises_validators:
  "raises_only is_inventory_error (validate_dns label s)"
  "raises_only is_inventory_error (validate_ip label s)"
  "raises_only is_inventory_error (validate_scalar service field s)"
  unfolding validate_scalar_def validate_dns_def validate_ip_def validate_days_def validate_openssl_value_def
  by (intro raises)+

lemma raises_steps:
  "raises_only is_inventory_error (start_service name st)"
  "raises_only is_inventory_error (take_scalar b field raw st)"
  "raises_only is_inventory_error (take_list b field st)"
  unfolding start_service_def take_scalar_def take_list_def check_new_field_def
  by (intro raises raises_finish_list raises_parse_value raises_validators)+

lemma raises_take_item: "raises_only is_inventory_error (take_item n b raw st)"
proof (cases "is_field st")
  case (Some field)
  show ?thesis unfolding take_item_def Some option.case Let_def
    by (intro raises raises_parse_value raises_validators)
qed (simp add: take_item_def)

lemma raises_service_line: "raises_only is_inventory_error (service_line n line st)"
  unfolding service_line_def
  by (simp add: raises_steps raises_take_item split: option.splits list.splits)

lemma raises_inv_line: "raises_only is_inventory_error (inv_line n line st)"
  unfolding inv_line_def by (intro raises raises_service_line)

lemma raises_inv_lines: "raises_only is_inventory_error (inv_lines n lines st)"
  by (induction n lines st rule: inv_lines.induct) (auto intro: raises_only_bindE raises_inv_line)

lemma raises_build_service:
  assumes "builder_ok b" and "no_empty_list b"
  shows "raises_only is_inventory_error (build_service b)"
proof -
  have "clean (sb_name b)" using assms(1) by (simp add: builder_ok_def name_clean)
  then have "decode_ascii (sb_name b) = Inr (sb_name b)" by simp
  then show ?thesis
    unfolding build_service_def check_host_local_def build_entries [OF assms(1)]
      first_value_eq [OF assms] list_values_eq [OF assms]
    by (intro raises) simp
qed

text \<open>
  The parser raises nothing but inventory errors, whatever the bytes: in particular no value
  reaches the ASCII decoding of the services that cannot be decoded.
\<close>

theorem inventory_errors:
  assumes "parse_inventory data = Inl e"
  shows "\<exists>m. e = InventoryError m"
proof -
  have "raises_only is_inventory_error (mapE build_service (is_builders st))"
    if "inv_lines 1 lines inv_start = Inr st" "finish_list (current st) (is_field st) = Inr ()" for lines st
  proof -
    have inv: "inv_ok st" using inv_ok_lines [OF that(1) inv_ok_start] .
    with finished_all [OF inv that(2)] show ?thesis
      by (intro raises raises_build_service) (auto simp: inv_ok_def list_all_iff)
  qed
  then have "raises_only is_inventory_error (parse_inventory data)"
    unfolding parse_inventory_def
    by (intro raises_only_bindE raises_inv_require raises_inv_lines raises_finish_list) simp
  from raises_onlyD [OF this assms] show ?thesis by (simp add: is_inventory_error_def)
qed

theorem inventory_errors_witness: "\<exists>m. parse_inventory [] = Inl (InventoryError m)"
proof -
  have "\<not> isl (parse_inventory []) \<longrightarrow> False" by code_simp
  then obtain e where "parse_inventory [] = Inl e" by (cases "parse_inventory []") simp_all
  with inventory_errors [OF this] show ?thesis by blast
qed

end
