(* ===== verification/TreeManifest.thy ===== *)
theory TreeManifest
  imports PersistedIdentity Sha256 CliText "HOL-Library.List_Lexorder"
begin

text \<open>
  \<^verbatim>\<open>src/platform_pki/tree_manifests.py\<close>: parsing and validation of tree and provenance
  manifests. File names are byte strings, so \<open>os.fsencode\<close> and \<open>os.fsdecode\<close>, which are inverse to
  each other, do not show. The file system is the record \<open>tree_io\<close> of what the calls of
  \<open>_validate_manifest\<close> on it return; the tree that \<open>fsync_tree\<close> reports is a list of \<open>tree_entry\<close>.
\<close>

section \<open>Data\<close>

definition MAX_TREE_MANIFEST_BYTES :: int where "MAX_TREE_MANIFEST_BYTES = 16 * 1024 * 1024"
definition MAX_TREE_MANIFEST_ENTRIES :: int where "MAX_TREE_MANIFEST_ENTRIES = 65536"
definition MAX_TREE_MANIFEST_DEPTH :: int where "MAX_TREE_MANIFEST_DEPTH = 64"

definition tree_fail :: "string \<Rightarrow> 'a result" where
  "tree_fail m = Inl (TreeManifestError m)"

definition tree_require :: "bool \<Rightarrow> string \<Rightarrow> unit result" where
  "tree_require ok m = requireE ok (TreeManifestError m)"

datatype digest_policy = TREE | PROVENANCE

datatype member_identity = IdFile file_identity | IdDirectory directory_identity

record manifest_entry =
  me_relative :: "string list"
  me_identity :: member_identity
  me_digest :: "string option"
  me_secret :: bool

definition positive_bound :: "int \<Rightarrow> string \<Rightarrow> int result" where
  "positive_bound n label =
     (if n < 1 then Inl (ValueError (label @ '' must be a positive integer'')) else Inr n)"

section \<open>Expected identities\<close>

datatype expected_file = ExpectText string | ExpectIdentity file_identity | ExpectState file_object_state

datatype file_or_state = FullIdentity file_identity | ObjectState file_object_state

text \<open>Without sentinels the parsers return no sentinel.\<close>

definition expected_file_identity :: "expected_file \<Rightarrow> file_or_state result" where
  "expected_file_identity e =
     (case e of
        ExpectIdentity i \<Rightarrow> Inr (FullIdentity i)
      | ExpectState s \<Rightarrow> Inr (ObjectState s)
      | ExpectText t \<Rightarrow>
          (case parse_file_identity t {} of
             Inr (Identity i) \<Rightarrow> Inr (FullIdentity i)
           | Inl (PersistedIdentityError _) \<Rightarrow>
               (case parse_file_object_state t {} of
                  Inr (Identity s) \<Rightarrow> Inr (ObjectState s)
                | Inr (Sentinel _) \<Rightarrow> Inl (TypeError ''assertion'')
                | Inl x \<Rightarrow> Inl x)
           | Inr (Sentinel _) \<Rightarrow> Inl (TypeError ''assertion'')
           | Inl x \<Rightarrow> Inl x))"

definition matches_file_identity :: "file_identity \<Rightarrow> file_or_state \<Rightarrow> bool" where
  "matches_file_identity actual expected =
     (case expected of FullIdentity i \<Rightarrow> actual = i | ObjectState s \<Rightarrow> fi_state actual = s)"

definition canonical_sha256 :: "string \<Rightarrow> string \<Rightarrow> string result" where
  "canonical_sha256 s label =
     bindE (tree_require (fullmatch HEX64_RX s) (label @ '' is not a canonical SHA-256 digest'')) (\<lambda>_. Inr s)"

section \<open>Rows\<close>

definition SLASH :: char where
  "SLASH = CHR ''/''"

definition relative_parts :: "string \<Rightarrow> int \<Rightarrow> string list result" where
  "relative_parts raw max_depth =
     bindE (tree_require (\<not> (raw = [] \<or> starts_with [SLASH] raw \<or> char_of (0 :: nat) \<in> set raw \<or>
         CHR ''|'' \<in> set raw \<or> NL \<in> set raw))
       ''tree manifest contains an unsafe relative path'') (\<lambda>_.
     let parts = split_on SLASH raw
     in bindE (tree_require (\<not> list_ex (\<lambda>p. p \<in> {[], ''.'', ''..''}) parts)
          ''tree manifest contains path traversal'') (\<lambda>_.
        bindE (tree_require (int (length parts) \<le> max_depth)
          ''tree manifest path exceeds the depth bound'') (\<lambda>_. Inr parts)))"

text \<open>\<open>needle in text\<close> for byte strings.\<close>

fun contains_text :: "string \<Rightarrow> string \<Rightarrow> bool" where
  "contains_text needle [] \<longleftrightarrow> needle = []"
| "contains_text needle (c # s) \<longleftrightarrow> starts_with needle (c # s) \<or> contains_text needle s"

definition is_secret :: "string list \<Rightarrow> digest_policy \<Rightarrow> bool" where
  "is_secret relative policy =
     (let encoded = join_on [SLASH] relative
      in if policy = PROVENANCE then starts_with ''quarantine/'' encoded
         else ''private'' \<in> set (butlast relative) \<or> ends_with ''.key'' encoded \<or>
           contains_text ''passphrase'' encoded)"

text \<open>\<open>bytes.fromhex\<close> on lowercase digits.\<close>

definition hex_digit_val :: "char \<Rightarrow> nat" where
  "hex_digit_val c = (if is_digit c then code c - 48 else code c - 87)"

fun from_hex :: "string \<Rightarrow> string" where
  "from_hex (a # b # s) = char_of (16 * hex_digit_val a + hex_digit_val b) # from_hex s"
| "from_hex s = []"

definition is_ascii :: "string \<Rightarrow> bool" where
  "is_ascii s = list_all (\<lambda>c. code c < 128) s"

definition directory_row :: "string list \<Rightarrow> string \<Rightarrow> string \<Rightarrow> manifest_entry result" where
  "directory_row relative identity digest =
     (case parse_directory_identity identity {} of
        Inl (PersistedIdentityError _) \<Rightarrow> tree_fail ''tree manifest directory identity is invalid''
      | Inl e \<Rightarrow> Inl e
      | Inr (Sentinel _) \<Rightarrow> Inl (TypeError ''assertion'')
      | Inr (Identity i) \<Rightarrow>
          bindE (tree_require (digest = ''-'') ''tree manifest directory digest is invalid'') (\<lambda>_.
            Inr \<lparr>me_relative = relative, me_identity = IdDirectory i, me_digest = None, me_secret = False\<rparr>))"

definition file_digest :: "bool \<Rightarrow> string \<Rightarrow> string option result" where
  "file_digest secret digest =
     (if secret then
        bindE (tree_require (digest = ''secret'') ''tree manifest secret digest is invalid'') (\<lambda>_. Inr None)
      else
        bindE (tree_require (is_ascii digest) ''tree manifest digest is not ASCII'') (\<lambda>_.
        bindE (tree_require (fullmatch HEX64_RX digest) ''tree manifest file digest is invalid'') (\<lambda>_.
          Inr (Some (from_hex digest)))))"

definition file_row ::
  "digest_policy \<Rightarrow> string \<Rightarrow> string list \<Rightarrow> string \<Rightarrow> string \<Rightarrow> manifest_entry result" where
  "file_row policy raw_type relative identity digest =
     (case parse_file_identity identity {} of
        Inl (PersistedIdentityError _) \<Rightarrow> tree_fail ''tree manifest file identity is invalid''
      | Inl e \<Rightarrow> Inl e
      | Inr (Sentinel _) \<Rightarrow> Inl (TypeError ''assertion'')
      | Inr (Identity i) \<Rightarrow>
          bindE (tree_require (raw_type = (if fi_size i = 0 then ''regular empty file'' else ''regular file''))
            ''tree manifest file type is inconsistent'') (\<lambda>_.
          let secret = is_secret relative policy
          in bindE (file_digest secret digest) (\<lambda>d.
               Inr \<lparr>me_relative = relative, me_identity = IdFile i, me_digest = d, me_secret = secret\<rparr>)))"

definition member_row ::
  "digest_policy \<Rightarrow> string \<Rightarrow> string list \<Rightarrow> string \<Rightarrow> string \<Rightarrow> manifest_entry result" where
  "member_row policy raw_type relative identity digest =
     bindE (tree_require (is_ascii identity) ''tree manifest identity is not ASCII'') (\<lambda>_.
     if raw_type = ''directory'' then directory_row relative identity digest
     else if raw_type \<in> {''regular file'', ''regular empty file''} then
       file_row policy raw_type relative identity digest
     else tree_fail ''tree manifest object type is unsupported'')"

definition parse_row ::
  "digest_policy \<Rightarrow> int \<Rightarrow> string option \<Rightarrow> string set \<Rightarrow> string \<Rightarrow> (string \<times> manifest_entry) result" where
  "parse_row policy max_depth previous seen line =
     (case split_on (CHR ''|'') line of
        [raw_type, raw_relative, raw_identity, raw_digest] \<Rightarrow>
          bindE (relative_parts raw_relative max_depth) (\<lambda>relative.
          bindE (tree_require (raw_relative \<notin> seen) ''tree manifest contains a duplicate member'') (\<lambda>_.
          bindE (tree_require (\<not> (\<exists>p \<in> set_option previous. raw_relative \<le> p))
            ''tree manifest members are not in C-locale order'') (\<lambda>_.
          bindE (member_row policy raw_type relative raw_identity raw_digest) (\<lambda>entry.
            Inr (raw_relative, entry)))))
      | _ \<Rightarrow> tree_fail ''tree manifest contains a malformed row'')"

fun parse_rows ::
  "digest_policy \<Rightarrow> int \<Rightarrow> string option \<Rightarrow> string set \<Rightarrow> string list \<Rightarrow> manifest_entry list result" where
  "parse_rows policy max_depth previous seen [] = Inr []"
| "parse_rows policy max_depth previous seen (line # lines) =
     bindE (parse_row policy max_depth previous seen line) (\<lambda>(raw, entry).
     bindE (parse_rows policy max_depth (Some raw) (insert raw seen) lines) (\<lambda>entries.
       Inr (entry # entries)))"

definition parse_manifest :: "string \<Rightarrow> digest_policy \<Rightarrow> int \<Rightarrow> int \<Rightarrow> manifest_entry list result" where
  "parse_manifest data policy max_entries max_depth =
     (if data = [] then Inr []
      else bindE (tree_require (ends_with [NL] data) ''tree manifest must end with a newline'') (\<lambda>_.
        let lines = split_on NL (butlast data)
        in bindE (tree_require (int (length lines) \<le> max_entries) ''tree manifest exceeds the entry bound'') (\<lambda>_.
             parse_rows policy max_depth None {} lines)))"

section \<open>The tree\<close>

text \<open>An entry of the synchronized tree; a symbolic link has no file identity.\<close>

datatype tree_entry =
  TreeEntry (te_name: string) (te_identity: "file_identity option") (te_digest: "string option")
    (te_children: "tree_entry list")

type_synonym member = "string list \<times> file_identity \<times> string option"

definition sort_members :: "member list \<Rightarrow> member list" where
  "sort_members ms = sort_key (\<lambda>m. join_on [SLASH] (fst m)) ms"

fun flatten_level :: "tree_entry list \<Rightarrow> string list \<Rightarrow> member list result" where
  "flatten_level [] pre = Inr []"
| "flatten_level (TreeEntry name identity digest children # entries) pre =
     (case identity of
        None \<Rightarrow> tree_fail ''tree readiness contains an unsupported object''
      | Some i \<Rightarrow>
          bindE (if fi_kind i = Directory then
              bindE (flatten_level children (pre @ [name])) (\<lambda>ms. Inr (sort_members ms))
            else Inr []) (\<lambda>below.
          bindE (flatten_level entries pre) (\<lambda>rest.
            Inr ((pre @ [name], i, digest) # below @ rest))))"

definition flatten_readiness :: "tree_entry list \<Rightarrow> string list \<Rightarrow> member list result" where
  "flatten_readiness entries pre = bindE (flatten_level entries pre) (\<lambda>ms. Inr (sort_members ms))"

record metadata_entry =
  md_relative :: "string list"
  md_dev :: int

fun count_members ::
  "int \<Rightarrow> string list option \<Rightarrow> int \<Rightarrow> int \<Rightarrow> int \<Rightarrow> metadata_entry list \<Rightarrow> unit result" where
  "count_members root_device excluded max_entries max_depth n [] = Inr ()"
| "count_members root_device excluded max_entries max_depth n (e # es) =
     (if md_relative e = [] then count_members root_device excluded max_entries max_depth n es
      else bindE (tree_require (md_dev e = root_device) ''tree contains a cross-device member'') (\<lambda>_.
        bindE (tree_require (int (length (md_relative e)) \<le> max_depth)
          ''tree exceeds the manifest depth bound'') (\<lambda>_.
        if Some (md_relative e) = excluded then
          count_members root_device excluded max_entries max_depth n es
        else bindE (tree_require (n + 1 \<le> max_entries) ''tree exceeds the manifest entry bound'') (\<lambda>_.
          count_members root_device excluded max_entries max_depth (n + 1) es))))"

section \<open>Matching the tree with the manifest\<close>

definition identity_matches :: "file_identity \<Rightarrow> member_identity \<Rightarrow> bool" where
  "identity_matches actual persisted =
     (case persisted of
        IdDirectory d \<Rightarrow> fi_directory actual = Inr d
      | IdFile i \<Rightarrow> actual = i)"

definition check_member :: "manifest_entry list \<Rightarrow> member \<Rightarrow> unit result" where
  "check_member expected m =
     (case m of (relative, identity, digest) \<Rightarrow>
        (case map_of (rev (map (\<lambda>e. (me_relative e, e)) expected)) relative of
           None \<Rightarrow> tree_fail ''tree members do not match the manifest''
         | Some e \<Rightarrow>
             bindE (tree_require (identity_matches identity (me_identity e))
               ''tree member identity does not match the manifest'') (\<lambda>_.
             tree_require (me_secret e \<or> digest = me_digest e)
               ''tree member digest does not match the manifest'')))"

definition validate_entries ::
  "manifest_entry list \<Rightarrow> tree_entry list \<Rightarrow> string list option \<Rightarrow> int \<Rightarrow> int \<Rightarrow> bool \<Rightarrow> unit result" where
  "validate_entries expected snapshot excluded max_entries max_depth allow_missing =
     bindE (flatten_readiness snapshot []) (\<lambda>members.
     let actual = filter (\<lambda>m. Some (fst m) \<noteq> excluded) members
     in bindE (tree_require (int (length actual) \<le> max_entries) ''tree exceeds the manifest entry bound'') (\<lambda>_.
        bindE (tree_require (\<not> list_ex (\<lambda>m. int (length (fst m)) > max_depth) actual)
          ''tree exceeds the manifest depth bound'') (\<lambda>_.
        bindE (tree_require (allow_missing \<or> length actual = length expected)
          ''tree members do not match the manifest'') (\<lambda>_.
        forE (check_member expected) actual))))"

section \<open>Validation of a manifest\<close>

record tree_io =
  io_manifest_identity :: file_identity
  io_read :: "int \<Rightarrow> string result"
  io_in_tree :: "string list \<Rightarrow> unit result"
  io_recheck_manifest :: "unit result"
  io_root_device :: int
  io_walk :: "metadata_entry list result"
  io_fsync :: "tree_entry list result"
  io_recheck_end :: "unit result"

definition validate_manifest ::
  "tree_io \<Rightarrow> expected_file \<Rightarrow> string \<Rightarrow> digest_policy \<Rightarrow> string option \<Rightarrow> int \<Rightarrow> int \<Rightarrow> int \<Rightarrow> bool \<Rightarrow>
     tree_entry list result" where
  "validate_manifest io expected sha policy excluded max_bytes max_entries max_depth allow_missing =
     bindE (positive_bound max_bytes ''max_bytes'') (\<lambda>max_bytes.
     bindE (positive_bound max_entries ''max_entries'') (\<lambda>max_entries.
     bindE (positive_bound max_depth ''max_depth'') (\<lambda>max_depth.
     bindE (expected_file_identity expected) (\<lambda>identity.
     bindE (canonical_sha256 sha ''expected_manifest_sha256'') (\<lambda>digest.
     bindE (tree_require (matches_file_identity (io_manifest_identity io) identity)
       ''tree manifest identity changed'') (\<lambda>_.
     bindE (io_read io max_bytes) (\<lambda>data.
     bindE (tree_require (sha256_hex data = digest) ''tree manifest digest changed'') (\<lambda>_.
     bindE (parse_manifest data policy max_entries max_depth) (\<lambda>entries.
     bindE (case excluded of
         None \<Rightarrow> Inr None
       | Some e \<Rightarrow>
           bindE (relative_parts e max_depth) (\<lambda>parts.
           bindE (io_in_tree io parts) (\<lambda>_.
           bindE (io_recheck_manifest io) (\<lambda>_. Inr (Some parts))))) (\<lambda>excluded_parts.
     bindE (io_walk io) (\<lambda>walk.
     bindE (count_members (io_root_device io) excluded_parts max_entries max_depth 0 walk) (\<lambda>_.
     bindE (io_fsync io) (\<lambda>snapshot.
     bindE (validate_entries entries snapshot excluded_parts max_entries max_depth allow_missing) (\<lambda>_.
     bindE (io_recheck_end io) (\<lambda>_.
       Inr snapshot)))))))))))))))"

definition validate_tree_manifest ::
  "tree_io \<Rightarrow> expected_file \<Rightarrow> string \<Rightarrow> string option \<Rightarrow> tree_entry list result" where
  "validate_tree_manifest io expected sha excluded =
     validate_manifest io expected sha TREE excluded MAX_TREE_MANIFEST_BYTES
       MAX_TREE_MANIFEST_ENTRIES MAX_TREE_MANIFEST_DEPTH False"

definition validate_provenance_manifest ::
  "tree_io \<Rightarrow> expected_file \<Rightarrow> string \<Rightarrow> tree_entry list result" where
  "validate_provenance_manifest io expected sha =
     validate_manifest io expected sha PROVENANCE (Some ''provenance-manifest'')
       MAX_TREE_MANIFEST_BYTES MAX_TREE_MANIFEST_ENTRIES MAX_TREE_MANIFEST_DEPTH False"

end
