(* ===== verification/TreeProperties.thy ===== *)
theory TreeProperties
  imports TreeManifest IdentityCodecs
begin

text \<open>
  The properties of tree manifests: the members of an accepted manifest are confined and strictly
  ordered, and a validated tree has exactly the members of the authenticated manifest.
\<close>

section \<open>Accepted rows\<close>

lemma tree_require_ok [ok_iff]: "tree_require ok m = Inr u \<longleftrightarrow> ok"
  by (simp add: tree_require_def requireE_ok)

lemma tree_fail_ok [simp]: "tree_fail m \<noteq> Inr x"
  by (simp add: tree_fail_def)

text \<open>A path component that stays below its directory.\<close>

definition plain_part :: "string \<Rightarrow> bool" where
  "plain_part p \<longleftrightarrow> p \<notin> {[], ''.'', ''..''} \<and> SLASH \<notin> set p \<and> NL \<notin> set p \<and> char_of (0 :: nat) \<notin> set p"

definition member_ok :: "digest_policy \<Rightarrow> int \<Rightarrow> manifest_entry \<Rightarrow> bool" where
  "member_ok policy max_depth e \<longleftrightarrow>
     me_relative e \<noteq> [] \<and> list_all plain_part (me_relative e) \<and> int (length (me_relative e)) \<le> max_depth \<and>
     (case me_identity e of
        IdDirectory _ \<Rightarrow> \<not> me_secret e \<and> me_digest e = None
      | IdFile i \<Rightarrow> me_secret e = is_secret (me_relative e) policy \<and>
          (case me_digest e of None \<Rightarrow> me_secret e
           | Some d \<Rightarrow> \<not> me_secret e \<and> (\<exists>h. fullmatch HEX64_RX h \<and> d = from_hex h)))"

definition member_path :: "manifest_entry \<Rightarrow> string" where
  "member_path e = join_on [SLASH] (me_relative e)"

lemma split_on_chars: "w \<in> set (split_on c s) \<Longrightarrow> set w \<subseteq> set s"
proof -
  have "set w \<subseteq> set (join_on [c] ws)" if "w \<in> set ws" for ws :: "'a list list"
    using that by (induction "[c]" ws rule: join_on.induct) auto
  from this [of "split_on c s"] show "w \<in> set (split_on c s) \<Longrightarrow> set w \<subseteq> set s" by (simp add: join_split)
qed

lemma relative_parts_ok:
  assumes "relative_parts raw d = Inr ps"
  shows "ps \<noteq> [] \<and> list_all plain_part ps \<and> int (length ps) \<le> d \<and> join_on [SLASH] ps = raw"
proof -
  from assms have ps: "ps = split_on SLASH raw" and "NL \<notin> set raw" "char_of (0 :: nat) \<notin> set raw"
    and "\<forall>p \<in> set ps. p \<notin> {[], ''.'', ''..''}" "int (length ps) \<le> d"
    by (auto simp: relative_parts_def Let_def ok_iff list_ex_iff)
  moreover from this have "list_all plain_part ps"
    using split_on_chars [of _ SLASH raw] split_on_no_sep [of _ SLASH raw]
    by (fastforce simp: list_all_iff plain_part_def)
  ultimately show ?thesis using join_split [of SLASH raw] by simp
qed

lemma file_digest_ok:
  "file_digest secret digest = Inr d \<Longrightarrow>
     (case d of None \<Rightarrow> secret | Some b \<Rightarrow> \<not> secret \<and> (\<exists>h. fullmatch HEX64_RX h \<and> b = from_hex h))"
  by (auto simp: file_digest_def ok_iff HEX64_iff split: if_splits)

lemma member_row_ok:
  assumes "member_row policy raw_type relative identity digest = Inr e" and "relative \<noteq> []"
    and "list_all plain_part relative" and "int (length relative) \<le> d"
  shows "member_ok policy d e \<and> me_relative e = relative"
proof -
  from assms(1) consider "directory_row relative identity digest = Inr e"
    | "file_row policy raw_type relative identity digest = Inr e"
    by (auto simp: member_row_def ok_iff split: if_splits)
  then show ?thesis
  proof cases
    case 1
    with assms(2-4) show ?thesis
      by (auto simp: directory_row_def member_ok_def ok_iff split: sum.splits exn.splits or_sentinel.splits)
  next
    case 2
    then obtain i dg where "file_digest (is_secret relative policy) digest = Inr dg"
      "e = \<lparr>me_relative = relative, me_identity = IdFile i, me_digest = dg, me_secret = is_secret relative policy\<rparr>"
      by (auto simp: file_row_def Let_def ok_iff split: sum.splits exn.splits or_sentinel.splits)
    with file_digest_ok assms(2-4) show ?thesis by (auto simp: member_ok_def split: option.splits)
  qed
qed

lemma parse_row_ok:
  assumes "parse_row policy d previous seen line = Inr (raw, e)"
  shows "member_ok policy d e \<and> member_path e = raw \<and> (\<forall>p \<in> set_option previous. p < raw)"
proof -
  from assms obtain raw_type raw_identity raw_digest relative where
    "relative_parts raw d = Inr relative" "\<not> (\<exists>p \<in> set_option previous. raw \<le> p)"
    "member_row policy raw_type relative raw_identity raw_digest = Inr e"
    by (auto simp: parse_row_def ok_iff split: list.splits)
  with relative_parts_ok [OF this(1)] member_row_ok [OF this(3), of d] show ?thesis
    by (auto simp: member_path_def not_le)
qed

lemma parse_rows_ok:
  assumes "parse_rows policy d previous seen lines = Inr es"
  shows "list_all (member_ok policy d) es \<and> length es = length lines \<and>
    sorted_wrt (<) (map member_path es) \<and> (\<forall>p \<in> set_option previous. \<forall>e \<in> set es. p < member_path e)"
  using assms
proof (induction policy d previous seen lines arbitrary: es rule: parse_rows.induct)
  case (2 policy d previous seen line lines)
  from "2.prems" obtain raw e es' where row: "parse_row policy d previous seen line = Inr (raw, e)"
    and rest: "parse_rows policy d (Some raw) (insert raw seen) lines = Inr es'" and es: "es = e # es'"
    by (auto simp: ok_iff)
  from "2.IH" [OF row refl rest] parse_row_ok [OF row] show ?case
    by (auto simp: es)
qed simp

text \<open>
  C34: the members of an accepted manifest are confined and ordered: every path has plain components
  only and stays within the depth bound, the paths are strictly increasing in byte order and so
  distinct, directories have no digest and a file has a digest exactly when the policy does not
  make it secret.
\<close>

theorem tree_manifest_members:
  assumes "parse_manifest data policy max_entries max_depth = Inr es" and "1 \<le> max_entries"
  shows "list_all (member_ok policy max_depth) es \<and> sorted_wrt (<) (map member_path es) \<and>
    distinct (map me_relative es) \<and> int (length es) \<le> max_entries"
proof (cases "data = []")
  case True
  with assms show ?thesis by (simp add: parse_manifest_def)
next
  case False
  with assms(1) have n: "int (length (split_on NL (butlast data))) \<le> max_entries"
    and rows: "parse_rows policy max_depth None {} (split_on NL (butlast data)) = Inr es"
    by (auto simp: parse_manifest_def Let_def ok_iff)
  note ok = parse_rows_ok [OF rows]
  then have "distinct (map member_path es)" using strict_sorted_iff by blast
  then have "distinct (map me_relative es)"
    by (auto simp: distinct_map inj_on_def member_path_def)
  with ok n show ?thesis by simp
qed

section \<open>A sample tree\<close>

definition sample_dir_text :: string where
  "sample_dir_text = ''1:2:0:700:directory''"

definition sample_manifest :: string where
  "sample_manifest = ''directory|a|'' @ sample_dir_text @ ''|-'' @ [NL]"

definition sample_dir :: directory_identity where
  "sample_dir = \<lparr>di_dev = 1, di_ino = 2, di_uid = 0, di_permissions = 448\<rparr>"


definition sample_entry :: manifest_entry where
  "sample_entry = \<lparr>me_relative = [''a''], me_identity = IdDirectory sample_dir, me_digest = None, me_secret = False\<rparr>"

lemma sample_manifest_entries: "parse_manifest sample_manifest TREE 4 4 = Inr [sample_entry]"
  by code_simp

text \<open>
  Witness: the one-directory manifest is accepted.
\<close>

theorem tree_manifest_members_witness:
  "list_all (member_ok TREE 4) [sample_entry] \<and> sorted_wrt (<) (map member_path [sample_entry]) \<and>
    distinct (map me_relative [sample_entry]) \<and> int (length [sample_entry]) \<le> 4"
  using tree_manifest_members [OF sample_manifest_entries] by simp

section \<open>A validated tree\<close>

text \<open>The loop that matches members keeps the last entry of a path, which is the only one.\<close>

lemma check_member_ok [ok_iff]:
  "check_member es (rel, i, d) = Inr u \<longleftrightarrow>
     (\<exists>e. map_of (rev (map (\<lambda>e. (me_relative e, e)) es)) rel = Some e \<and>
        identity_matches i (me_identity e) \<and> (me_secret e \<or> d = me_digest e))"
  by (auto simp: check_member_def ok_iff split: option.splits)
















section \<open>Errors\<close>

definition is_tree_error :: "exn \<Rightarrow> bool" where
  "is_tree_error e = (case e of TreeManifestError _ \<Rightarrow> True | _ \<Rightarrow> False)"

lemma is_tree_error_simp [simp]: "is_tree_error (TreeManifestError m)"
  by (simp add: is_tree_error_def)

lemma raises_tree [raises]: "raises_only is_tree_error (tree_require ok m)" "raises_only is_tree_error (tree_fail m)"
  by (simp_all add: tree_require_def tree_fail_def)

lemma parsed_identity_cases:
  assumes "raises_only is_PersistedIdentityError m" "\<And>x. m \<noteq> Inr (Sentinel x)"
  obtains (error) msg where "m = Inl (PersistedIdentityError msg)" | (identity) i where "m = Inr (Identity i)"
proof (cases m)
  case (Inl e) with assms(1) error show ?thesis by (auto simp: is_PersistedIdentityError_def)
next
  case (Inr v) with assms(2) identity show ?thesis by (cases v) auto
qed

lemma raises_directory_row: "raises_only is_tree_error (directory_row relative identity digest)"
proof -
  have "raises_only is_PersistedIdentityError (parse_directory_identity identity {})"
    by (simp add: parse_directory_identity_def raises_with_sentinel raises_directory)
  moreover have "parse_directory_identity identity {} \<noteq> Inr (Sentinel x)" for x
    by (simp add: parse_directory_identity_def with_sentinel_ok)
  ultimately show ?thesis
    by (rule parsed_identity_cases) (simp_all add: directory_row_def raises)
qed

lemma raises_file_row: "raises_only is_tree_error (file_row policy raw_type relative identity digest)"
proof -
  have "raises_only is_PersistedIdentityError (parse_file_identity identity {})"
    by (simp add: parse_file_identity_def raises_with_sentinel raises_file_identity)
  moreover have "parse_file_identity identity {} \<noteq> Inr (Sentinel x)" for x
    by (simp add: parse_file_identity_def with_sentinel_ok)
  ultimately show ?thesis
    by (rule parsed_identity_cases) (simp_all add: file_row_def file_digest_def Let_def raises)
qed

lemma raises_parse_row: "raises_only is_tree_error (parse_row policy d previous seen line)"
  unfolding parse_row_def member_row_def relative_parts_def Let_def
  by (auto intro!: raises raises_directory_row raises_file_row split: list.splits)

lemma raises_parse_rows: "raises_only is_tree_error (parse_rows policy d previous seen lines)"
  by (induction policy d previous seen lines rule: parse_rows.induct)
    (auto intro!: raises raises_parse_row split: prod.splits)

text \<open>
  Whatever the bytes of a tree manifest are, parsing them raises nothing but TreeManifestError.
\<close>

theorem tree_manifest_errors:
  "raises_only is_tree_error (parse_manifest bytes policy n d)"
  unfolding parse_manifest_def Let_def by (intro raises raises_parse_rows)

end
