(* ===== verification/Paths.thy ===== *)
theory Paths
  imports PosixPath CliText "HOL-Library.Sublist"
begin

text \<open>
  \<^verbatim>\<open>src/platform_pki/paths.py\<close>: the lexical validation and resolution of paths, and the relations
  between the trees below two paths. A path is a text; the type checks of the source are the types.
\<close>

section \<open>Validation\<close>

datatype path_error_reason = NOT_ABSOLUTE | ROOT | TRAILING_SLASH | NONCANONICAL_COMPONENT | UNSAFE_TEXT

fun reason_text :: "path_error_reason \<Rightarrow> string" where
  "reason_text NOT_ABSOLUTE = ''Path must be absolute''"
| "reason_text ROOT = ''Path must not be the filesystem root''"
| "reason_text TRAILING_SLASH = ''Path must not end with a slash''"
| "reason_text NONCANONICAL_COMPONENT = ''Path contains an empty, dot, or parent component''"
| "reason_text UNSAFE_TEXT = ''Path contains unsafe text''"

definition path_error :: "path_error_reason \<Rightarrow> 'a result" where
  "path_error r = Inl (PathError (reason_text r))"

definition validate_path :: "string \<Rightarrow> bool \<Rightarrow> string result" where
  "validate_path path allow_root =
     (if unsafe_text path then path_error UNSAFE_TEXT
      else if \<not> starts_with [SEP] path then path_error NOT_ABSOLUTE
      else if path = [SEP] then (if allow_root then Inr path else path_error ROOT)
      else if ends_with [SEP] path then path_error TRAILING_SLASH
      else if list_ex (\<lambda>c. c \<in> {[], ''.'', ''..''}) (split_on SEP (drop 1 path)) then
        path_error NONCANONICAL_COMPONENT
      else Inr path)"

definition validate_absolute_path :: "string \<Rightarrow> string result" where
  "validate_absolute_path path = validate_path path False"

section \<open>Resolution\<close>

definition expand_home :: "string \<Rightarrow> string \<Rightarrow> string" where
  "expand_home path home =
     (if path = ''~'' then home
      else if starts_with ''~/'' path then home @ [SEP] @ drop 2 path
      else path)"

definition default_namespace :: "string \<Rightarrow> string option \<Rightarrow> string" where
  "default_namespace home xdg_config_home =
     (let config_home = (case xdg_config_home of None \<Rightarrow> [] | Some x \<Rightarrow> x);
          base = (if config_home \<noteq> [] then config_home else home @ ''/.config'')
      in base @ ''/platform-infrastructure'')"

definition default_pki_dir :: "string \<Rightarrow> string result" where
  "default_pki_dir namespace = bindE (validate_absolute_path namespace) (\<lambda>n. Inr (n @ ''/pki''))"

definition absolutize_path :: "string \<Rightarrow> string \<Rightarrow> string result" where
  "absolutize_path path physical_cwd =
     bindE (validate_path physical_cwd True) (\<lambda>cwd.
     if path = [] then path_error NOT_ABSOLUTE
     else validate_absolute_path
       (if starts_with [SEP] path then path
        else if cwd = [SEP] then [SEP] @ path
        else cwd @ [SEP] @ path))"

record pki_paths =
  pp_namespace :: string
  pp_pki_dir :: string

definition pki_paths_new :: "string \<Rightarrow> string \<Rightarrow> pki_paths result" where
  "pki_paths_new namespace pki_dir =
     bindE (validate_absolute_path namespace) (\<lambda>_.
     bindE (validate_absolute_path pki_dir) (\<lambda>_.
       Inr \<lparr>pp_namespace = namespace, pp_pki_dir = pki_dir\<rparr>))"

definition resolve_pki_paths ::
  "string option \<Rightarrow> string option \<Rightarrow> string \<Rightarrow> string option \<Rightarrow> string \<Rightarrow> pki_paths result" where
  "resolve_pki_paths namespace pki_dir home xdg_config_home physical_cwd =
     (let namespace_input =
        (case namespace of
           None \<Rightarrow> default_namespace home xdg_config_home
         | Some n \<Rightarrow> expand_home n home)
      in bindE (absolutize_path namespace_input physical_cwd) (\<lambda>resolved.
         bindE (case pki_dir of
             None \<Rightarrow> default_pki_dir resolved
           | Some d \<Rightarrow> absolutize_path (expand_home d home) physical_cwd) (\<lambda>dir.
           pki_paths_new resolved dir)))"

section \<open>Trees\<close>

definition is_same_or_descendant :: "string \<Rightarrow> string \<Rightarrow> bool result" where
  "is_same_or_descendant path parent =
     bindE (validate_absolute_path path) (\<lambda>child.
     bindE (validate_absolute_path parent) (\<lambda>ancestor.
       Inr (child = ancestor \<or> starts_with (ancestor @ [SEP]) child)))"

text \<open>\<open>or\<close> evaluates its second operand only when the first is false.\<close>

definition trees_are_disjoint :: "string \<Rightarrow> string \<Rightarrow> bool result" where
  "trees_are_disjoint first second =
     bindE (validate_absolute_path first) (\<lambda>first_path.
     bindE (validate_absolute_path second) (\<lambda>second_path.
     bindE (is_same_or_descendant first_path second_path) (\<lambda>below.
     if below then Inr False
     else bindE (is_same_or_descendant second_path first_path) (\<lambda>above. Inr (\<not> above)))))"

section \<open>Canonical paths and their components\<close>

definition path_comps :: "string \<Rightarrow> string list" where
  "path_comps p = split_on SEP (drop 1 p)"

definition canonical_path :: "string \<Rightarrow> bool" where
  "canonical_path p \<longleftrightarrow> \<not> unsafe_text p \<and> (\<exists>cs. cs \<noteq> [] \<and> list_all plain_comp cs \<and> p = SEP # join_on [SEP] cs)"

lemma comps_of [simp]: "list_all plain_comp cs \<Longrightarrow> cs \<noteq> [] \<Longrightarrow> path_comps (SEP # join_on [SEP] cs) = cs"
  by (simp add: path_comps_def split_plain)

lemma canonical_pathE:
  assumes "canonical_path p"
  obtains cs where "p = SEP # join_on [SEP] cs" "cs \<noteq> []" "list_all plain_comp cs" "path_comps p = cs"
  using assms by (auto simp: canonical_path_def)

lemma split_on_snoc_sep: "split_on c (t @ [c]) = split_on c t @ [[]]"
  by (induction t) auto

lemma validate_absolute_path_ok [ok_iff]: "validate_absolute_path p = Inr q \<longleftrightarrow> canonical_path p \<and> q = p"
proof
  assume v: "validate_absolute_path p = Inr q"
  then have safe: "\<not> unsafe_text p" and s: "starts_with [SEP] p"
    and cs: "\<not> list_ex (\<lambda>c. c \<in> {[], ''.'', ''..''}) (split_on SEP (drop 1 p))" and q: "q = p"
    by (auto simp: validate_absolute_path_def validate_path_def path_error_def split: if_splits)
  from cs split_on_no_sep [of _ SEP "drop 1 p"] have "list_all plain_comp (split_on SEP (drop 1 p))"
    by (auto simp: list_ex_iff list_all_iff plain_comp_def)
  moreover from s have p: "p = SEP # join_on [SEP] (split_on SEP (drop 1 p))"
    by (auto simp: starts_with_iff join_split)
  ultimately show "canonical_path p \<and> q = p"
    unfolding canonical_path_def using safe q by (intro conjI exI [of _ "split_on SEP (drop 1 p)"]) simp_all
next
  assume c: "canonical_path p \<and> q = p"
  then obtain cs where p: "p = SEP # join_on [SEP] cs" "cs \<noteq> []" "list_all plain_comp cs" "path_comps p = cs"
    by (auto elim: canonical_pathE)
  from p have "split_on SEP (drop 1 p) = cs" by (simp add: path_comps_def)
  moreover have "\<not> ends_with [SEP] p"
  proof
    assume "ends_with [SEP] p"
    then obtain t where t: "p = t @ [SEP]" by (auto simp: ends_with_iff)
    show False
    proof (cases t)
      case Nil
      with t p have "cs = [[]]" using join_split [of SEP "[]"] by (auto simp: path_comps_def)
      with p show False by (simp add: plain_comp_def)
    next
      case (Cons a t')
      with t have "path_comps p = split_on SEP (t' @ [SEP])" by (simp add: path_comps_def)
      then have "[] \<in> set cs" using p(4) by (simp add: split_on_snoc_sep)
      with p(3) show False by (auto simp: list_all_iff plain_comp_def)
    qed
  qed
  moreover have "p \<noteq> [SEP]" using p by (cases cs rule: remdups_adj.cases) (auto simp: plain_comp_def)
  ultimately show "validate_absolute_path p = Inr q"
    using c p by (auto simp: validate_absolute_path_def validate_path_def canonical_path_def starts_with_def
        list_ex_iff list_all_iff plain_comp_def)
qed

end
