(* ===== verification/PathProperties.thy ===== *)
theory PathProperties
  imports Paths
begin

text \<open>
  The properties of lexical paths: the tree relations of the source, which compare texts, are the
  relations of the component lists, and resolved paths are canonical.
\<close>

section \<open>Texts and components\<close>

definition invalid_path :: "string \<Rightarrow> exn" where
  "invalid_path p = (case validate_absolute_path p of Inl e \<Rightarrow> e | Inr _ \<Rightarrow> PathError [])"

lemma validate_canonical: "canonical_path p \<Longrightarrow> validate_absolute_path p = Inr p"
  by (simp add: ok_iff)

lemma validate_not_canonical: "\<not> canonical_path p \<Longrightarrow> validate_absolute_path p = Inl (invalid_path p)"
  using validate_absolute_path_ok [of p] by (cases "validate_absolute_path p") (auto simp: invalid_path_def)

lemma comps_inj: "canonical_path p \<Longrightarrow> canonical_path q \<Longrightarrow> path_comps p = path_comps q \<longleftrightarrow> p = q"
  by (metis canonical_pathE)

lemma join_on_append: "xs \<noteq> [] \<Longrightarrow> ys \<noteq> [] \<Longrightarrow> join_on s (xs @ ys) = join_on s xs @ s @ join_on s ys"
  by (induction xs rule: induct_list012) (auto simp: neq_Nil_conv)

text \<open>One canonical path starts with another and a slash exactly when its components extend the other's.\<close>

lemma starts_with_slash:
  assumes "canonical_path p" and "canonical_path q"
  shows "starts_with (q @ [SEP]) p \<longleftrightarrow> strict_prefix (path_comps q) (path_comps p)"
proof
  assume "starts_with (q @ [SEP]) p"
  then obtain t where t: "p = q @ SEP # t" by (auto simp: starts_with_iff)
  have "path_comps p = path_comps q @ split_on SEP t"
  proof -
    obtain q' where q: "q = SEP # q'" using assms(2) by (auto elim: canonical_pathE)
    have "split_on SEP (q' @ SEP # t) = split_on SEP q' @ split_on SEP t" for q'
      by (induction q') auto
    with t q show ?thesis by (simp add: path_comps_def)
  qed
  then show "strict_prefix (path_comps q) (path_comps p)" by (auto simp: strict_prefix_def)
next
  assume "strict_prefix (path_comps q) (path_comps p)"
  then obtain ds where ds: "path_comps p = path_comps q @ ds" "ds \<noteq> []"
    by (auto simp: strict_prefix_def prefix_def)
  from assms obtain cs where q: "q = SEP # join_on [SEP] cs" "cs \<noteq> []" "path_comps q = cs" by (auto elim: canonical_pathE)
  from assms obtain bs where p: "p = SEP # join_on [SEP] bs" "path_comps p = bs" by (auto elim: canonical_pathE)
  from ds p q have "bs = cs @ ds" by simp
  with p ds(2) q(2) have "p = SEP # join_on [SEP] cs @ [SEP] @ join_on [SEP] ds" by (simp add: join_on_append)
  with q show "starts_with (q @ [SEP]) p" by (simp add: starts_with_iff)
qed

lemma below_iff:
  assumes "canonical_path p" and "canonical_path q"
  shows "p = q \<or> starts_with (q @ [SEP]) p \<longleftrightarrow> prefix (path_comps q) (path_comps p)"
  using starts_with_slash [OF assms] comps_inj [OF assms] by (auto simp: strict_prefix_def)

text \<open>
  C36: the descendant relation of the source, a comparison of texts, is the prefix order of the component
  lists: no sibling whose name starts with the name of the parent is below it. A path that is not
  canonical is refused with its own reason, the first argument first.
\<close>

theorem descendant_is_prefix:
  "is_same_or_descendant p q =
     (if \<not> canonical_path p then Inl (invalid_path p)
      else if \<not> canonical_path q then Inl (invalid_path q)
      else Inr (prefix (path_comps q) (path_comps p)))"
  by (simp add: is_same_or_descendant_def validate_canonical validate_not_canonical below_iff)

lemma common_below:
  "(\<exists>r. prefix xs r \<and> prefix ys r) \<longleftrightarrow> prefix xs ys \<or> prefix ys xs"
  using prefix_same_cases by blast

lemma disjoint_ok:
  "trees_are_disjoint p q = Inr b \<longleftrightarrow> canonical_path p \<and> canonical_path q \<and>
     b = (\<not> prefix (path_comps p) (path_comps q) \<and> \<not> prefix (path_comps q) (path_comps p))"
  by (cases "canonical_path p"; cases "canonical_path q")
    (simp_all add: trees_are_disjoint_def validate_canonical validate_not_canonical
      is_same_or_descendant_def below_iff, auto)

text \<open>
  Two trees are reported disjoint exactly when both paths are canonical and no canonical path is the
  same as or below both of them.
\<close>

theorem disjoint_trees_share_nothing:
  "trees_are_disjoint p q = Inr True \<longleftrightarrow> canonical_path p \<and> canonical_path q \<and>
     \<not> (\<exists>r. is_same_or_descendant r p = Inr True \<and> is_same_or_descendant r q = Inr True)"
proof (cases "canonical_path p \<and> canonical_path q")
  case True
  have below: "is_same_or_descendant r x = Inr True \<longleftrightarrow> canonical_path r \<and> prefix (path_comps x) (path_comps r)"
    if "canonical_path x" for r x
    using that by (cases "canonical_path r")
      (simp_all add: is_same_or_descendant_def validate_canonical validate_not_canonical below_iff)
  have "(\<exists>r. canonical_path r \<and> prefix (path_comps p) (path_comps r) \<and> prefix (path_comps q) (path_comps r)) \<longleftrightarrow>
      prefix (path_comps p) (path_comps q) \<or> prefix (path_comps q) (path_comps p)"
    using True prefix_same_cases by blast
  with True show ?thesis by (auto simp: disjoint_ok below)
qed (auto simp: disjoint_ok)

section \<open>Resolution\<close>

lemma canonical_child:
  assumes "canonical_path p" and "plain_comp c" and "\<not> unsafe_text c"
  shows "canonical_path (p @ SEP # c)" "path_comps (p @ SEP # c) = path_comps p @ [c]"
proof -
  from assms(1) obtain cs where p: "p = SEP # join_on [SEP] cs" "cs \<noteq> []" "list_all plain_comp cs" "path_comps p = cs"
    by (auto elim: canonical_pathE)
  have e: "p @ SEP # c = SEP # join_on [SEP] (cs @ [c])" using p by (simp add: join_on_snoc)
  have l: "list_all plain_comp (cs @ [c])" using p assms(2) by simp
  have safe: "\<not> unsafe_text (p @ SEP # c)"
    using assms by (simp add: canonical_path_def unsafe_char_def code_def)
  from safe show "canonical_path (p @ SEP # c)"
    unfolding canonical_path_def e by (intro conjI exI [of _ "cs @ [c]"]) (simp_all add: p l assms(2))
  show "path_comps (p @ SEP # c) = path_comps p @ [c]"
    unfolding e using l p by simp
qed

lemma absolutize_path_ok: "absolutize_path p cwd = Inr q \<Longrightarrow> canonical_path q"
  by (auto simp: absolutize_path_def path_error_def ok_iff split: if_splits)

text \<open>
  C37: resolved paths are well formed: the namespace and the PKI directory are canonical absolute paths, and
  without an explicit PKI directory it is the child \<open>pki\<close> of the namespace.
\<close>

theorem resolved_paths_canonical:
  assumes "resolve_pki_paths namespace pki_dir home xdg cwd = Inr paths"
  shows "canonical_path (pp_namespace paths) \<and> canonical_path (pp_pki_dir paths) \<and>
    (pki_dir = None \<longrightarrow> path_comps (pp_pki_dir paths) = path_comps (pp_namespace paths) @ [''pki''])"
proof -
  from assms obtain dir where n: "canonical_path (pp_namespace paths)" and d: "canonical_path dir" "pp_pki_dir paths = dir"
    and default: "pki_dir = None \<Longrightarrow> default_pki_dir (pp_namespace paths) = Inr dir"
    by (auto simp: resolve_pki_paths_def Let_def pki_paths_new_def ok_iff split: option.splits)
  have "plain_comp ''pki''" "\<not> unsafe_text ''pki''" by (simp_all add: plain_comp_def unsafe_char_def code_def)
  with n have "path_comps (pp_namespace paths @ SEP # ''pki'') = path_comps (pp_namespace paths) @ [''pki'']"
    by (rule canonical_child)
  with n d default show ?thesis by (auto simp: default_pki_dir_def ok_iff)
qed

text \<open>
  Witness: the defaults below a home directory.
\<close>

theorem resolved_paths_canonical_witness:
  "canonical_path ''/home/u/.config/platform-infrastructure/pki'' \<and>
   path_comps ''/home/u/.config/platform-infrastructure/pki'' =
     path_comps ''/home/u/.config/platform-infrastructure'' @ [''pki'']"
proof -
  have "resolve_pki_paths None None ''/home/u'' None ''/'' =
      Inr \<lparr>pp_namespace = ''/home/u/.config/platform-infrastructure'',
        pp_pki_dir = ''/home/u/.config/platform-infrastructure/pki''\<rparr>"
    by code_simp
  from resolved_paths_canonical [OF this] show ?thesis by simp
qed

end
