(* ===== verification/Locks.thy ===== *)
theory Locks
  imports PersistedIdentity Paths
begin

text \<open>
  \<^verbatim>\<open>src/platform_pki/locks.py\<close>: ordered advisory locks, with the file policies of \<^verbatim>\<open>filesystem.py\<close>.

  The code is modelled as a program: a tree of calls, each with a continuation for every reply. A
  call is one atomic action of the code, that is one system call or one section under
  \<open>_REGISTRY_GUARD\<close>; between two calls of a program other threads and processes may run. What a call
  does is defined in the theory \<open>LockSystem\<close>. A program ends with a value; a raised exception is
  the exception with its \<open>__cause__\<close>.
\<close>

section \<open>Programs\<close>

datatype os_error = EEXIST | EWOULDBLOCK | EOTHER

datatype lock_error =
    LockDuplicateError
  | LockOrderError
  | LockPolicyError
  | LockContentionError "string option"
  | LockAcquireError
  | LockReleaseError
  | FilesystemPolicyError
  | OSFailure
  | InvalidPath exn
  | Foreign string

datatype reply =
    ROk
  | RContext nat
  | RFd nat
  | RIdentity file_identity
  | RAbsent
  | RBool bool
  | ROSError os_error
  | RRaise lock_error

datatype call =
    CReserve string "string list"
  | CUnregister nat
  | COpenDirs nat string int
  | CIdentityAt string string
  | CFaultHook string
  | CPauseHook string
  | COpenTmp nat string
  | COpenName nat string string
  | CFchmod nat int
  | CInheritable nat
  | CFstat nat
  | CLink nat string string
  | CRecheck string
  | CFlock nat
  | CClose nat nat bool
  | CBody nat
  | CInherited nat
  | CCloseDirs nat

datatype 'a prog = Done 'a | Call call "reply \<Rightarrow> 'a prog"

primrec seqP :: "'a prog \<Rightarrow> ('a \<Rightarrow> 'b prog) \<Rightarrow> 'b prog" where
  "seqP (Done x) f = f x"
| "seqP (Call c k) f = Call c (\<lambda>r. seqP (k r) f)"

type_synonym raised = "lock_error \<times> lock_error option"
type_synonym 'a act = "(raised + 'a) prog"

definition retA :: "'a \<Rightarrow> 'a act" where
  "retA x = Done (Inr x)"

definition raiseA :: "lock_error \<Rightarrow> 'a act" where
  "raiseA e = Done (Inl (e, None))"

definition bindA :: "'a act \<Rightarrow> ('a \<Rightarrow> 'b act) \<Rightarrow> 'b act" where
  "bindA m f = seqP m (\<lambda>r. case r of Inl e \<Rightarrow> Done (Inl e) | Inr x \<Rightarrow> f x)"

definition requireA :: "bool \<Rightarrow> lock_error \<Rightarrow> unit act" where
  "requireA ok e = (if ok then retA () else raiseA e)"

section \<open>Profiles\<close>

definition LOCK_ORDER :: "string list" where
  "LOCK_ORDER = [''lifecycle'', ''root'', ''intermediate'', ''inventory'', ''export'']"

definition LOCK_PROFILES :: "string list list" where
  "LOCK_PROFILES = map (\<lambda>n. take n LOCK_ORDER) [1..<length LOCK_ORDER + 1]"

definition CHECKPOINT_PHASES :: "string list" where
  "CHECKPOINT_PHASES = [''after-pre-stat'', ''after-stage-init'', ''after-open'', ''after-acquire'',
     ''before-release'', ''after-release'']"

definition LOCK_CHECKPOINTS :: "string list" where
  "LOCK_CHECKPOINTS = concat (map (\<lambda>name. map (\<lambda>phase. ''lock-'' @ name @ ''-'' @ phase) CHECKPOINT_PHASES) LOCK_ORDER)"

datatype profile = ByName string | ByNames "string list"

definition profile_names :: "profile \<Rightarrow> (lock_error + string list)" where
  "profile_names p =
     (case p of
        ByName name \<Rightarrow>
          (case map_of (zip LOCK_ORDER LOCK_PROFILES) name of
             None \<Rightarrow> Inl LockOrderError
           | Some names \<Rightarrow> Inr names)
      | ByNames names \<Rightarrow>
          if names = [] \<or> names \<notin> set LOCK_PROFILES then Inl LockOrderError else Inr names)"

fun lock_message :: "lock_error \<Rightarrow> string" where
  "lock_message LockDuplicateError = ''PKI lock is already held by this process''"
| "lock_message LockOrderError = ''PKI lock profile is not an ordered prefix''"
| "lock_message LockPolicyError = ''PKI lock state does not satisfy its policy''"
| "lock_message (LockContentionError name) = ''Another PKI operation is in progress''"
| "lock_message LockAcquireError = ''PKI lock could not be acquired''"
| "lock_message LockReleaseError = ''PKI lock could not be released''"
| "lock_message FilesystemPolicyError = ''Filesystem object does not satisfy its policy''"
| "lock_message _ = []"

text \<open>\<open>isinstance(e, (OSError, LockError))\<close>.\<close>

fun os_or_lock_error :: "lock_error \<Rightarrow> bool" where
  "os_or_lock_error FilesystemPolicyError = False"
| "os_or_lock_error (InvalidPath e) = False"
| "os_or_lock_error (Foreign m) = False"
| "os_or_lock_error _ = True"

section \<open>Policies of files\<close>

unbundle bit_operations_syntax

record object_policy =
  pl_owner :: "int option"
  pl_mode :: "int option"
  pl_forbidden_bits :: int
  pl_links :: "int option"
  pl_max_size :: "int option"

text \<open>False when the policy raises \<open>FilesystemPolicyError\<close>.\<close>

definition satisfies_policy :: "file_identity \<Rightarrow> object_policy \<Rightarrow> file_kind \<Rightarrow> bool" where
  "satisfies_policy identity policy kind \<longleftrightarrow>
     \<not> (fi_kind identity \<noteq> kind \<or>
        (\<exists>o' \<in> set_option (pl_owner policy). fi_uid identity \<noteq> o') \<or>
        (\<exists>m \<in> set_option (pl_mode policy). fi_permissions identity \<noteq> m) \<or>
        fi_permissions identity AND pl_forbidden_bits policy \<noteq> 0 \<or>
        (\<exists>l \<in> set_option (pl_links policy). fi_links identity \<noteq> l) \<or>
        (\<exists>s \<in> set_option (pl_max_size policy). fi_size identity > s))"

definition lock_policy :: "int \<Rightarrow> int option \<Rightarrow> object_policy" where
  "lock_policy uid links = \<lparr>pl_owner = Some uid, pl_mode = Some 384, pl_forbidden_bits = 0,
     pl_links = links, pl_max_size = None\<rparr>"

definition valid_lock_file :: "file_identity \<Rightarrow> int \<Rightarrow> bool" where
  "valid_lock_file identity uid = satisfies_policy identity (lock_policy uid (Some 1)) Regular"

definition lock_signature :: "file_identity \<Rightarrow> int \<times> int \<times> int \<times> int \<times> int \<times> file_kind" where
  "lock_signature i = (fi_dev i, fi_ino i, fi_uid i, fi_permissions i, fi_links i, fi_kind i)"

section \<open>Steps of an acquisition\<close>

definition checkpoint :: "string \<Rightarrow> string \<Rightarrow> unit act" where
  "checkpoint name phase =
     (let point = ''lock-'' @ name @ ''-'' @ phase
      in Call (CFaultHook point) (\<lambda>r. case r of RRaise e \<Rightarrow> raiseA e
         | _ \<Rightarrow> Call (CPauseHook point) (\<lambda>r. case r of RRaise e \<Rightarrow> raiseA e | _ \<Rightarrow> retA ())))"

definition identity_at :: "string \<Rightarrow> string \<Rightarrow> bool \<Rightarrow> file_identity option act" where
  "identity_at path name acquiring =
     Call (CIdentityAt path name) (\<lambda>r. case r of
         RIdentity i \<Rightarrow> retA (Some i)
       | RAbsent \<Rightarrow> retA None
       | _ \<Rightarrow> raiseA (if acquiring then LockAcquireError else LockPolicyError))"

definition fstat_lock :: "nat \<Rightarrow> file_identity act" where
  "fstat_lock fd = Call (CFstat fd) (\<lambda>r. case r of RIdentity i \<Rightarrow> retA i | _ \<Rightarrow> raiseA LockAcquireError)"

definition open_tracked :: "call \<Rightarrow> nat act" where
  "open_tracked c = Call c (\<lambda>r. case r of RFd fd \<Rightarrow> retA fd | _ \<Rightarrow> raiseA LockAcquireError)"

definition close_tracked :: "nat \<Rightarrow> nat \<Rightarrow> bool \<Rightarrow> lock_error option prog" where
  "close_tracked cx fd unlock =
     Call (CClose cx fd unlock) (\<lambda>r. Done (if r = ROk then None else Some LockReleaseError))"

definition raise_primary :: "raised \<Rightarrow> lock_error option \<Rightarrow> 'a act" where
  "raise_primary primary cleanup =
     Done (Inl (case cleanup of None \<Rightarrow> primary | Some e \<Rightarrow> (fst primary, Some e)))"

definition inheritable_check :: "nat \<Rightarrow> lock_error \<Rightarrow> lock_error \<Rightarrow> unit act" where
  "inheritable_check fd refused inheritable =
     Call (CInheritable fd) (\<lambda>r. case r of
         RBool b \<Rightarrow> requireA (\<not> b) inheritable
       | _ \<Rightarrow> raiseA refused)"

text \<open>
  The body of the \<open>try\<close> of \<open>_create_anonymous_lock\<close>, and the function: its handler catches operating
  system errors and lock errors, not the error of the file policy.
\<close>

definition init_anonymous :: "nat \<Rightarrow> int \<Rightarrow> unit act" where
  "init_anonymous fd uid =
     Call (CFchmod fd 384) (\<lambda>r. if r \<noteq> ROk then raiseA OSFailure else
       bindA (inheritable_check fd OSFailure OSFailure) (\<lambda>_.
       bindA (fstat_lock fd) (\<lambda>opened.
       bindA (requireA (satisfies_policy opened (lock_policy uid None) Regular) FilesystemPolicyError) (\<lambda>_.
         requireA (fi_links opened = 0) LockAcquireError))))"

definition create_anonymous_lock :: "nat \<Rightarrow> string \<Rightarrow> int \<Rightarrow> nat act" where
  "create_anonymous_lock cx path uid =
     bindA (open_tracked (COpenTmp cx path)) (\<lambda>fd.
     seqP (init_anonymous fd uid) (\<lambda>r. case r of
         Inr _ \<Rightarrow> retA fd
       | Inl e \<Rightarrow>
           if os_or_lock_error (fst e) then
             seqP (close_tracked cx fd False) (\<lambda>c. raise_primary (LockAcquireError, None) c)
           else Done (Inl e)))"

definition publish_anonymous_lock :: "string \<Rightarrow> nat \<Rightarrow> string \<Rightarrow> unit act" where
  "publish_anonymous_lock path fd name =
     Call (CLink fd path name) (\<lambda>r. case r of
         ROk \<Rightarrow> retA ()
       | ROSError EEXIST \<Rightarrow> raiseA (LockContentionError (Some name))
       | _ \<Rightarrow> raiseA LockAcquireError)"

definition recheck_directory :: "string \<Rightarrow> unit act" where
  "recheck_directory path = Call (CRecheck path) (\<lambda>r. requireA (r = ROk) LockAcquireError)"

text \<open>The handler \<open>except BaseException\<close> of \<open>_open_lock\<close> around code that holds \<open>descriptor\<close>.\<close>

definition closing :: "nat \<Rightarrow> nat \<Rightarrow> bool \<Rightarrow> 'a act \<Rightarrow> 'a act" where
  "closing cx fd locked m =
     seqP m (\<lambda>r. case r of
         Inr x \<Rightarrow> Done (Inr x)
       | Inl e \<Rightarrow> seqP (close_tracked cx fd locked) (\<lambda>c. raise_primary e c))"

definition flock_exclusive :: "nat \<Rightarrow> string \<Rightarrow> unit act" where
  "flock_exclusive fd name =
     Call (CFlock fd) (\<lambda>r. case r of
         ROk \<Rightarrow> retA ()
       | ROSError EWOULDBLOCK \<Rightarrow> raiseA (LockContentionError (Some name))
       | _ \<Rightarrow> raiseA LockAcquireError)"

text \<open>From the checkpoint \<open>after-open\<close> to the lock; the result is the opened identity.\<close>

definition verify_and_lock ::
  "string \<Rightarrow> string \<Rightarrow> int \<Rightarrow> file_identity option \<Rightarrow> nat \<Rightarrow> file_identity act" where
  "verify_and_lock path name uid before fd =
     bindA (checkpoint name ''after-open'') (\<lambda>_.
     bindA (fstat_lock fd) (\<lambda>opened.
     bindA (requireA (valid_lock_file opened uid) LockAcquireError) (\<lambda>_.
     bindA (identity_at path name True) (\<lambda>found. case found of
         None \<Rightarrow> raiseA LockAcquireError
       | Some after \<Rightarrow>
           bindA (requireA (valid_lock_file after uid) LockAcquireError) (\<lambda>_.
           bindA (requireA (card (lock_signature ` ({opened, after} \<union> set_option before)) = 1) LockAcquireError) (\<lambda>_.
           bindA (recheck_directory path) (\<lambda>_.
           bindA (flock_exclusive fd name) (\<lambda>_. retA opened))))))))"

text \<open>From the lock to the return of the descriptor.\<close>

definition confirm_locked :: "string \<Rightarrow> string \<Rightarrow> int \<Rightarrow> file_identity \<Rightarrow> unit act" where
  "confirm_locked path name uid opened =
     bindA (checkpoint name ''after-acquire'') (\<lambda>_.
     bindA (identity_at path name True) (\<lambda>found. case found of
         None \<Rightarrow> raiseA LockAcquireError
       | Some final \<Rightarrow>
           bindA (requireA (valid_lock_file final uid) LockAcquireError) (\<lambda>_.
           bindA (requireA (lock_signature final = lock_signature opened) LockAcquireError) (\<lambda>_.
             recheck_directory path))))"

definition lock_descriptor ::
  "nat \<Rightarrow> string \<Rightarrow> string \<Rightarrow> int \<Rightarrow> file_identity option \<Rightarrow> nat \<Rightarrow> unit act \<Rightarrow> nat act" where
  "lock_descriptor cx path name uid before fd setup =
     bindA (closing cx fd False (bindA setup (\<lambda>_. verify_and_lock path name uid before fd))) (\<lambda>opened.
     bindA (closing cx fd True (confirm_locked path name uid opened)) (\<lambda>_. retA fd))"

definition open_lock :: "nat \<Rightarrow> string \<Rightarrow> int \<Rightarrow> bool \<Rightarrow> string \<Rightarrow> nat act" where
  "open_lock cx path uid no_state name =
     bindA (identity_at path name False) (\<lambda>before.
     bindA (requireA (\<forall>i \<in> set_option before. valid_lock_file i uid) LockPolicyError) (\<lambda>_.
     bindA (checkpoint name ''after-pre-stat'') (\<lambda>_.
     case before of
       None \<Rightarrow>
         if no_state then raiseA LockPolicyError
         else bindA (create_anonymous_lock cx path uid) (\<lambda>fd.
           lock_descriptor cx path name uid before fd
             (bindA (checkpoint name ''after-stage-init'') (\<lambda>_. publish_anonymous_lock path fd name)))
     | Some _ \<Rightarrow>
         bindA (open_tracked (COpenName cx path name)) (\<lambda>fd.
           lock_descriptor cx path name uid before fd
             (inheritable_check fd OSFailure LockAcquireError)))))"

section \<open>Release\<close>

definition error_of :: "raised + 'a \<Rightarrow> raised option" where
  "error_of r = (case r of Inl e \<Rightarrow> Some e | Inr _ \<Rightarrow> None)"

text \<open>\<open>failure or current\<close>.\<close>

definition first_error :: "'e option \<Rightarrow> 'e option \<Rightarrow> 'e option" where
  "first_error a b = (case a of None \<Rightarrow> b | Some e \<Rightarrow> Some e)"

definition plain_raise :: "lock_error option \<Rightarrow> raised option" where
  "plain_raise e = map_option (\<lambda>e. (e, None)) e"

definition release_lock :: "nat \<Rightarrow> string \<Rightarrow> nat \<Rightarrow> raised option prog" where
  "release_lock cx name fd =
     seqP (checkpoint name ''before-release'') (\<lambda>before.
     seqP (close_tracked cx fd True) (\<lambda>current.
     seqP (checkpoint name ''after-release'') (\<lambda>after.
       Done (first_error (first_error (error_of before) (plain_raise current)) (error_of after)))))"

text \<open>The list is in the order of release, the last lock first.\<close>

fun release_loop :: "nat \<Rightarrow> (string \<times> nat) list \<Rightarrow> raised option \<Rightarrow> raised option prog" where
  "release_loop cx [] failure = Done failure"
| "release_loop cx ((name, fd) # held) failure =
     seqP (release_lock cx name fd) (\<lambda>current. release_loop cx held (first_error failure current))"

definition release_all :: "nat \<Rightarrow> (string \<times> nat) list \<Rightarrow> raised option prog" where
  "release_all cx held = release_loop cx (rev held) None"

definition close_directories :: "nat \<Rightarrow> raised option prog" where
  "close_directories cx =
     Call (CCloseDirs cx) (\<lambda>r. Done (if r = ROk then None else Some (LockReleaseError, None)))"

section \<open>The context manager\<close>

fun acquire_loop ::
  "nat \<Rightarrow> string \<Rightarrow> int \<Rightarrow> bool \<Rightarrow> string list \<Rightarrow> (string \<times> nat) list \<Rightarrow> ((string \<times> nat) list \<times> raised option) prog" where
  "acquire_loop cx path uid no_state [] held = Done (held, None)"
| "acquire_loop cx path uid no_state (name # names) held =
     seqP (open_lock cx path uid no_state name) (\<lambda>r. case r of
         Inl e \<Rightarrow> Done (held, Some e)
       | Inr fd \<Rightarrow> acquire_loop cx path uid no_state names (held @ [(name, fd)]))"

text \<open>The \<open>try\<close> around the acquisition and the \<open>with\<close> block of the caller: the held locks and \<open>primary\<close>.\<close>

definition hold_locks ::
  "nat \<Rightarrow> string \<Rightarrow> int \<Rightarrow> bool \<Rightarrow> string list \<Rightarrow> ((string \<times> nat) list \<times> raised option) prog" where
  "hold_locks cx path uid no_state names =
     Call (COpenDirs cx path uid) (\<lambda>r.
       if r \<noteq> ROk then Done ([], Some (LockPolicyError, None))
       else seqP (acquire_loop cx path uid no_state names []) (\<lambda>(held, primary).
         case primary of
           Some e \<Rightarrow> Done (held, Some e)
         | None \<Rightarrow> Call (CBody cx) (\<lambda>r. case r of
               RRaise e \<Rightarrow> Done (held, Some (e, None))
             | _ \<Rightarrow> Done (held, None))))"

definition raise_or_return :: "raised option \<Rightarrow> unit act" where
  "raise_or_return primary = (case primary of None \<Rightarrow> retA () | Some e \<Rightarrow> Done (Inl e))"

definition release_context :: "nat \<Rightarrow> (string \<times> nat) list \<Rightarrow> raised option \<Rightarrow> unit act" where
  "release_context cx held primary =
     seqP (release_all cx held) (\<lambda>release_failure.
     seqP (close_directories cx) (\<lambda>directory_failure.
     Call (CUnregister cx) (\<lambda>_.
       let cleanup = first_error release_failure directory_failure
       in case primary of
            Some e \<Rightarrow> raise_primary e (map_option fst cleanup)
          | None \<Rightarrow> raise_or_return cleanup)))"

definition locked_context :: "nat \<Rightarrow> string \<Rightarrow> int \<Rightarrow> bool \<Rightarrow> string list \<Rightarrow> unit act" where
  "locked_context cx path uid no_state names =
     seqP (hold_locks cx path uid no_state names) (\<lambda>(held, primary).
     Call (CInherited cx) (\<lambda>r.
       if r = RBool True then raise_or_return primary
       else release_context cx held primary))"

definition acquire_pki_locks :: "string \<Rightarrow> profile \<Rightarrow> bool \<Rightarrow> int \<Rightarrow> unit act" where
  "acquire_pki_locks pki_dir profile no_state uid =
     (case validate_absolute_path pki_dir of
        Inl e \<Rightarrow> raiseA (InvalidPath e)
      | Inr path \<Rightarrow>
          (case profile_names profile of
             Inl e \<Rightarrow> raiseA e
           | Inr names \<Rightarrow>
               Call (CReserve path names) (\<lambda>r. case r of
                   RContext cx \<Rightarrow> locked_context cx path uid no_state names
                 | RRaise e \<Rightarrow> raiseA e
                 | _ \<Rightarrow> raiseA LockAcquireError)))"

end
