(* ===== verification/Transitions.thy ===== *)
theory Transitions
  imports Main
begin

text \<open>
  Reachable states of a transition system, and the two proof rules the components share, as locales: an
  inductive invariant holds in every reachable state, and an abstraction that follows every step
  with steps of a specification maps reachable states to reachable states.
\<close>

inductive reach :: "('s \<Rightarrow> bool) \<Rightarrow> ('s \<Rightarrow> 's \<Rightarrow> bool) \<Rightarrow> 's \<Rightarrow> bool" for init step where
  start: "init s \<Longrightarrow> reach init step s"
| later: "reach init step s \<Longrightarrow> step s s' \<Longrightarrow> reach init step s'"

locale invariant =
  fixes init :: "'s \<Rightarrow> bool" and step :: "'s \<Rightarrow> 's \<Rightarrow> bool" and inv :: "'s \<Rightarrow> bool"
  assumes holds_init: "init s \<Longrightarrow> inv s"
    and preserved: "inv s \<Longrightarrow> step s s' \<Longrightarrow> inv s'"
begin

lemma holds: "reach init step s \<Longrightarrow> inv s"
  by (induction rule: reach.induct) (auto intro: holds_init preserved)

end

locale refinement =
  fixes init :: "'s \<Rightarrow> bool" and step :: "'s \<Rightarrow> 's \<Rightarrow> bool" and abs :: "'s \<Rightarrow> 'a"
    and spec_init :: "'a \<Rightarrow> bool" and spec_step :: "'a \<Rightarrow> 'a \<Rightarrow> bool"
  assumes abs_init: "init s \<Longrightarrow> spec_init (abs s)"
    and abs_step: "reach init step s \<Longrightarrow> step s s' \<Longrightarrow> spec_step\<^sup>*\<^sup>* (abs s) (abs s')"
begin

lemma spec_steps: "spec_step\<^sup>*\<^sup>* a a' \<Longrightarrow> reach spec_init spec_step a \<Longrightarrow> reach spec_init spec_step a'"
  by (induction rule: rtranclp_induct) (auto intro: reach.later)

lemma refines: "reach init step s \<Longrightarrow> reach spec_init spec_step (abs s)"
proof (induction rule: reach.induct)
  case (start s)
  then show ?case by (intro reach.start abs_init)
next
  case (later s s')
  then show ?case using spec_steps abs_step by blast
qed

text \<open>An invariant of the specification holds of the abstraction of every reachable state.\<close>

lemma inherits:
  assumes "invariant spec_init spec_step P" and "reach init step s"
  shows "P (abs s)"
  using invariant.holds [OF assms(1) refines [OF assms(2)]] .

end

end
