(* ===== verification/LockSystem.thy ===== *)
theory LockSystem
  imports Locks Transitions
begin

text \<open>
  What the calls of \<^verbatim>\<open>locks.py\<close> do: the registry of a process, the descriptor-based system calls with
  \<open>flock\<close> and \<open>fork\<close>, and the interleaved executions of threads and processes.

  An open file description is a number; a descriptor of a process refers to one, \<open>fork\<close> duplicates
  the reference, and a lock belongs to the description until the last reference is closed or
  the lock is removed. A \<open>choice\<close> says what the environment decides at a call: whether the system
  refuses it, the number of a new descriptor, the identity of a new file, what a hook or the body
  of the \<open>with\<close> statement raises.
\<close>

section \<open>The state\<close>

record context_state =
  cx_owner :: nat
  cx_keys :: "(string \<times> string) list"
  cx_descriptors :: "nat list"
  cx_directories :: nat
  cx_inherited :: bool

record process =
  pr_pid :: nat
  pr_held :: "(string \<times> string) list"
  pr_active :: "nat list"
  pr_registry_pid :: nat
  pr_contexts :: "nat \<Rightarrow> context_state option"
  pr_next :: nat

text \<open>Open descriptors, the inode of a description, lock owners, directory entries and attributes.\<close>

record kernel =
  kn_fds :: "((nat \<times> nat) \<times> nat) list"
  kn_file :: "nat \<Rightarrow> nat"
  kn_flock :: "nat \<Rightarrow> nat option"
  kn_names :: "string \<times> string \<Rightarrow> nat option"
  kn_stat :: "nat \<Rightarrow> file_identity"
  kn_next :: nat

section \<open>The registry\<close>

definition new_context :: "nat \<Rightarrow> (string \<times> string) list \<Rightarrow> context_state" where
  "new_context pid keys = \<lparr>cx_owner = pid, cx_keys = keys, cx_descriptors = [], cx_directories = 0, cx_inherited = False\<rparr>"

definition reset_registry :: "process \<Rightarrow> process" where
  "reset_registry p =
     (if pr_pid p \<noteq> pr_registry_pid p then
        p\<lparr>pr_held := [], pr_active := [], pr_registry_pid := pr_pid p\<rparr>
      else p)"

definition reserve_context :: "string \<Rightarrow> string list \<Rightarrow> process \<Rightarrow> reply \<times> process" where
  "reserve_context path names p0 =
     (let keys = map (\<lambda>name. (path, name)) names; p = reset_registry p0
      in if list_ex (\<lambda>k. k \<in> set (pr_held p)) keys then (RRaise LockDuplicateError, p)
         else (RContext (pr_next p),
           p\<lparr>pr_contexts := (pr_contexts p)(pr_next p \<mapsto> new_context (pr_pid p) keys),
             pr_next := pr_next p + 1, pr_held := pr_held p @ keys, pr_active := pr_active p @ [pr_next p]\<rparr>))"

definition unregister_context :: "nat \<Rightarrow> process \<Rightarrow> process" where
  "unregister_context cx p =
     (case pr_contexts p cx of
        None \<Rightarrow> p
      | Some c \<Rightarrow> p\<lparr>pr_active := filter (\<lambda>x. x \<noteq> cx) (pr_active p),
          pr_held := filter (\<lambda>k. k \<notin> set (cx_keys c)) (pr_held p)\<rparr>)"

definition update_context :: "nat \<Rightarrow> (context_state \<Rightarrow> context_state) \<Rightarrow> process \<Rightarrow> process" where
  "update_context cx f p = p\<lparr>pr_contexts := (pr_contexts p)(cx := map_option f (pr_contexts p cx))\<rparr>"

definition track_descriptor :: "nat \<Rightarrow> context_state \<Rightarrow> context_state" where
  "track_descriptor fd c = c\<lparr>cx_descriptors := cx_descriptors c @ [fd]\<rparr>"

definition discard_descriptor :: "nat \<Rightarrow> context_state \<Rightarrow> context_state" where
  "discard_descriptor fd c = c\<lparr>cx_descriptors := filter (\<lambda>x. x \<noteq> fd) (cx_descriptors c)\<rparr>"

definition is_inherited :: "nat \<Rightarrow> process \<Rightarrow> bool" where
  "is_inherited cx p =
     (case pr_contexts p cx of
        None \<Rightarrow> False
      | Some c \<Rightarrow> cx_owner c \<noteq> pr_pid p \<or> cx_inherited c)"

section \<open>The system calls\<close>

definition file_of :: "nat \<Rightarrow> nat \<Rightarrow> kernel \<Rightarrow> nat option" where
  "file_of pid fd k = map_of (kn_fds k) (pid, fd)"

text \<open>Descriptors are closed; a lock whose description has no reference left is gone.\<close>

definition close_entries :: "((nat \<times> nat) \<Rightarrow> bool) \<Rightarrow> kernel \<Rightarrow> kernel" where
  "close_entries P k =
     (let fds = filter (\<lambda>e. \<not> P (fst e)) (kn_fds k)
      in k\<lparr>kn_fds := fds, kn_flock := (\<lambda>i. case kn_flock k i of
           None \<Rightarrow> None
         | Some d \<Rightarrow> if d \<in> snd ` set fds then Some d else None)\<rparr>)"

definition open_file :: "nat \<Rightarrow> nat \<Rightarrow> nat \<Rightarrow> kernel \<Rightarrow> kernel" where
  "open_file pid fd inode k =
     k\<lparr>kn_fds := ((pid, fd), kn_next k) # kn_fds k, kn_file := (kn_file k)(kn_next k := inode),
       kn_next := kn_next k + 1\<rparr>"

definition new_inode :: "file_identity \<Rightarrow> kernel \<Rightarrow> nat \<times> kernel" where
  "new_inode identity k =
     (kn_next k, k\<lparr>kn_stat := (kn_stat k)(kn_next k := identity\<lparr>fi_ino := int (kn_next k), fi_links := 0\<rparr>),
        kn_next := kn_next k + 1\<rparr>)"

datatype choice =
    Accept
  | Refuse
  | Opens nat file_identity
  | Inheritable bool
  | Raises lock_error
  | OpensDirectories nat
  | CloseResult bool bool

definition lock_file :: "nat \<Rightarrow> kernel \<Rightarrow> reply \<times> kernel" where
  "lock_file d k =
     (let i = kn_file k d
      in case kn_flock k i of
           Some d' \<Rightarrow> if d' = d then (ROk, k) else (ROSError EWOULDBLOCK, k)
         | None \<Rightarrow> (ROk, k\<lparr>kn_flock := (kn_flock k)(i \<mapsto> d)\<rparr>))"

definition unlock_file :: "nat \<Rightarrow> kernel \<Rightarrow> kernel" where
  "unlock_file d k =
     (let i = kn_file k d
      in if kn_flock k i = Some d then k\<lparr>kn_flock := (kn_flock k)(i := None)\<rparr> else k)"

definition link_file :: "nat \<Rightarrow> string \<times> string \<Rightarrow> kernel \<Rightarrow> reply \<times> kernel" where
  "link_file d name k =
     (if kn_names k name \<noteq> None then (ROSError EEXIST, k)
      else (let i = kn_file k d; s = kn_stat k i
            in (ROk, k\<lparr>kn_names := (kn_names k)(name \<mapsto> i),
                 kn_stat := (kn_stat k)(i := s\<lparr>fi_links := fi_links s + 1\<rparr>)\<rparr>)))"

text \<open>A new descriptor must be unused in the process; it is recorded in the same guarded section.\<close>

definition open_and_track ::
  "nat \<Rightarrow> nat \<Rightarrow> nat \<Rightarrow> process \<Rightarrow> kernel \<Rightarrow> reply \<times> process \<times> kernel" where
  "open_and_track cx fd inode p k =
     (if file_of (pr_pid p) fd k \<noteq> None then (ROSError EOTHER, p, k)
      else (RFd fd, update_context cx (track_descriptor fd) p, open_file (pr_pid p) fd inode k))"

text \<open>\<open>_close_tracked\<close>: the descriptor is gone whether or not the calls report an error.\<close>

definition close_descriptor ::
  "nat \<Rightarrow> nat \<Rightarrow> bool \<Rightarrow> bool \<Rightarrow> bool \<Rightarrow> process \<Rightarrow> kernel \<Rightarrow> reply \<times> process \<times> kernel" where
  "close_descriptor cx fd unlock unlocks closes p k =
     (let opened = file_of (pr_pid p) fd k;
          k1 = (case opened of Some d \<Rightarrow> if unlock \<and> unlocks then unlock_file d k else k | None \<Rightarrow> k);
          k2 = close_entries (\<lambda>e. e = (pr_pid p, fd)) k1;
          ok = (opened \<noteq> None \<and> (unlock \<longrightarrow> unlocks) \<and> closes)
      in (if ok then ROk else ROSError EOTHER, update_context cx (discard_descriptor fd) p, k2))"

section \<open>One call\<close>

definition on_descriptor :: "nat \<Rightarrow> process \<Rightarrow> kernel \<Rightarrow> (nat \<Rightarrow> reply \<times> kernel) \<Rightarrow> reply \<times> process \<times> kernel" where
  "on_descriptor fd p k f =
     (case file_of (pr_pid p) fd k of
        None \<Rightarrow> (ROSError EOTHER, p, k)
      | Some d \<Rightarrow> (case f d of (r, k') \<Rightarrow> (r, p, k')))"

fun perform :: "choice \<Rightarrow> call \<Rightarrow> process \<Rightarrow> kernel \<Rightarrow> reply \<times> process \<times> kernel" where
  "perform c (CReserve path names) p k = (case reserve_context path names p of (r, p') \<Rightarrow> (r, p', k))"
| "perform c (CUnregister cx) p k = (ROk, unregister_context cx p, k)"
| "perform c (COpenDirs cx path uid) p k =
     (case c of
        OpensDirectories n \<Rightarrow> (ROSError EOTHER, update_context cx (\<lambda>s. s\<lparr>cx_directories := min n 2\<rparr>) p, k)
      | _ \<Rightarrow> (ROk, update_context cx (\<lambda>s. s\<lparr>cx_directories := 2\<rparr>) p, k))"
| "perform c (CIdentityAt path name) p k =
     (if c = Refuse then (ROSError EOTHER, p, k)
      else case kn_names k (path, name) of
          None \<Rightarrow> (RAbsent, p, k)
        | Some i \<Rightarrow> (RIdentity (kn_stat k i), p, k))"
| "perform c (CFaultHook point) p k = (case c of Raises e \<Rightarrow> (RRaise e, p, k) | _ \<Rightarrow> (ROk, p, k))"
| "perform c (CPauseHook point) p k = (case c of Raises e \<Rightarrow> (RRaise e, p, k) | _ \<Rightarrow> (ROk, p, k))"
| "perform c (COpenTmp cx path) p k =
     (case c of
        Opens fd identity \<Rightarrow> (case new_inode identity k of (i, k') \<Rightarrow> open_and_track cx fd i p k')
      | _ \<Rightarrow> (ROSError EOTHER, p, k))"
| "perform c (COpenName cx path name) p k =
     (case (c, kn_names k (path, name)) of
        (Opens fd _, Some i) \<Rightarrow> open_and_track cx fd i p k
      | _ \<Rightarrow> (ROSError EOTHER, p, k))"
| "perform c (CFchmod fd mode) p k =
     (if c = Refuse then (ROSError EOTHER, p, k)
      else on_descriptor fd p k (\<lambda>d.
        (ROk, k\<lparr>kn_stat := (kn_stat k)(kn_file k d := (kn_stat k (kn_file k d))\<lparr>fi_permissions := mode\<rparr>)\<rparr>)))"
| "perform c (CInheritable fd) p k =
     on_descriptor fd p k (\<lambda>d. (case c of Refuse \<Rightarrow> ROSError EOTHER | Inheritable b \<Rightarrow> RBool b | _ \<Rightarrow> RBool False, k))"
| "perform c (CFstat fd) p k =
     (if c = Refuse then (ROSError EOTHER, p, k)
      else on_descriptor fd p k (\<lambda>d. (RIdentity (kn_stat k (kn_file k d)), k)))"
| "perform c (CLink fd path name) p k =
     (if c = Refuse then (ROSError EOTHER, p, k) else on_descriptor fd p k (\<lambda>d. link_file d (path, name) k))"
| "perform c (CRecheck path) p k = (if c = Refuse then ROSError EOTHER else ROk, p, k)"
| "perform c (CFlock fd) p k =
     (if c = Refuse then (ROSError EOTHER, p, k) else on_descriptor fd p k (\<lambda>d. lock_file d k))"
| "perform c (CClose cx fd unlock) p k =
     (case c of
        CloseResult unlocks closes \<Rightarrow> close_descriptor cx fd unlock unlocks closes p k
      | _ \<Rightarrow> close_descriptor cx fd unlock True True p k)"
| "perform c (CBody cx) p k = (case c of Raises e \<Rightarrow> (RRaise e, p, k) | _ \<Rightarrow> (ROk, p, k))"
| "perform c (CInherited cx) p k = (RBool (is_inherited cx p), p, k)"
| "perform c (CCloseDirs cx) p k =
     (if c = Refuse then ROSError EOTHER else ROk, update_context cx (\<lambda>s. s\<lparr>cx_directories := 0\<rparr>) p, k)"

text \<open>A thread that runs alone, one choice a call.\<close>

fun run_alone :: "choice list \<Rightarrow> 'a prog \<Rightarrow> process \<Rightarrow> kernel \<Rightarrow> 'a prog \<times> process \<times> kernel" where
  "run_alone (c # cs) (Call a g) p k = (case perform c a p k of (r, p', k') \<Rightarrow> run_alone cs (g r) p' k')"
| "run_alone _ m p k = (m, p, k)"

section \<open>Fork\<close>

text \<open>The child has copies of the descriptors; \<open>_at_fork_child\<close> gives up the inherited contexts.\<close>

definition tracked_descriptors :: "process \<Rightarrow> nat list" where
  "tracked_descriptors p =
     concat (map (\<lambda>cx. case pr_contexts p cx of None \<Rightarrow> [] | Some c \<Rightarrow> cx_descriptors c) (pr_active p))"

definition at_fork_child :: "nat \<Rightarrow> process \<Rightarrow> process" where
  "at_fork_child pid p =
     p\<lparr>pr_pid := pid,
       pr_contexts := (\<lambda>cx. case pr_contexts p cx of
           None \<Rightarrow> None
         | Some c \<Rightarrow> Some (if cx \<in> set (pr_active p)
             then c\<lparr>cx_inherited := True, cx_descriptors := [], cx_directories := 0\<rparr> else c)),
       pr_active := [], pr_held := [], pr_registry_pid := pid\<rparr>"

definition fork_kernel :: "nat \<Rightarrow> process \<Rightarrow> kernel \<Rightarrow> kernel" where
  "fork_kernel pid p k =
     close_entries (\<lambda>(q, fd). q = pid \<and> fd \<in> set (tracked_descriptors p))
       (k\<lparr>kn_fds := kn_fds k @ map (\<lambda>e. ((pid, snd (fst e)), snd e)) (filter (\<lambda>e. fst (fst e) = pr_pid p) (kn_fds k))\<rparr>)"

section \<open>Executions\<close>

type_synonym thread = "nat \<times> unit act"

record system =
  sy_processes :: "nat \<Rightarrow> process option"
  sy_threads :: "nat \<Rightarrow> thread option"
  sy_kernel :: kernel

definition new_process :: "nat \<Rightarrow> process" where
  "new_process pid = \<lparr>pr_pid = pid, pr_held = [], pr_active = [], pr_registry_pid = pid,
     pr_contexts = (\<lambda>_. None), pr_next = 0\<rparr>"

text \<open>
  A process starts; a thread calls \<open>acquire_pki_locks\<close>; a thread performs its next call; a process
  forks in the body of a \<open>with\<close> statement; a process dies; a file's attributes change.
\<close>

inductive lock_step :: "system \<Rightarrow> system \<Rightarrow> bool" where
  spawn: "sy_processes s pid = None \<Longrightarrow> (\<forall>e \<in> set (kn_fds (sy_kernel s)). fst (fst e) \<noteq> pid) \<Longrightarrow>
    lock_step s (s\<lparr>sy_processes := (sy_processes s)(pid \<mapsto> new_process pid)\<rparr>)"
| enter: "sy_threads s t = None \<Longrightarrow> sy_processes s pid \<noteq> None \<Longrightarrow>
    lock_step s (s\<lparr>sy_threads := (sy_threads s)(t \<mapsto> (pid, acquire_pki_locks path profile no_state uid))\<rparr>)"
| run: "sy_threads s t = Some (pid, Call a g) \<Longrightarrow> sy_processes s pid = Some p \<Longrightarrow>
    perform c a p (sy_kernel s) = (r, p', k') \<Longrightarrow>
    lock_step s (s\<lparr>sy_processes := (sy_processes s)(pid \<mapsto> p'), sy_threads := (sy_threads s)(t \<mapsto> (pid, g r)),
      sy_kernel := k'\<rparr>)"
| fork: "sy_threads s t = Some (pid, Call (CBody cx) g) \<Longrightarrow> sy_processes s pid = Some p \<Longrightarrow>
    sy_processes s child = None \<Longrightarrow> (\<forall>e \<in> set (kn_fds (sy_kernel s)). fst (fst e) \<noteq> child) \<Longrightarrow>
    sy_threads s t' = None \<Longrightarrow>
    lock_step s (s\<lparr>sy_processes := (sy_processes s)(child \<mapsto> at_fork_child child p),
      sy_threads := (sy_threads s)(t' \<mapsto> (child, Call (CBody cx) g)),
      sy_kernel := fork_kernel child p (sy_kernel s)\<rparr>)"
| die: "sy_processes s pid = Some p \<Longrightarrow>
    lock_step s (s\<lparr>sy_processes := (sy_processes s)(pid := None),
      sy_threads := (\<lambda>t. case sy_threads s t of None \<Rightarrow> None | Some (q, m) \<Rightarrow> if q = pid then None else Some (q, m)),
      sy_kernel := close_entries (\<lambda>e. fst e = pid) (sy_kernel s)\<rparr>)"
| chattr: "lock_step s (s\<lparr>sy_kernel := (sy_kernel s)\<lparr>kn_stat := f\<rparr>\<rparr>)"

text \<open>A system without processes, on any file system.\<close>

definition initial_system :: "system \<Rightarrow> bool" where
  "initial_system s \<longleftrightarrow> sy_processes s = (\<lambda>_. None) \<and> sy_threads s = (\<lambda>_. None) \<and>
     kn_fds (sy_kernel s) = [] \<and> kn_flock (sy_kernel s) = (\<lambda>_. None)"

abbreviation reachable :: "system \<Rightarrow> bool" where
  "reachable \<equiv> reach initial_system lock_step"

end
