(* ===== verification/LockLogic.thy ===== *)
theory LockLogic
  imports LockSystem
begin

text \<open>
  A program logic for the lock programs. The ghost state of a thread says which context it has
  registered and which descriptors it owns; \<open>call_pre\<close> and \<open>call_post\<close> say what a call asks of the ghost
  state and how it changes it. \<open>wp\<close> is the weakest precondition of a program over these two, and
  \<open>within\<close> bounds the number of its calls. The theory proves the specification of every program of \<open>Locks\<close>.
\<close>

section \<open>Ghost states\<close>

datatype fd_status = Anonymous | Named string | Locked string

datatype ghost_phase = Idle | Active | Gone | Ended

record ghost =
  gh_phase :: ghost_phase
  gh_cx :: nat
  gh_path :: string
  gh_names :: "string list"
  gh_owned :: "(nat \<times> fd_status) list"

definition idle :: ghost where
  "idle = \<lparr>gh_phase = Idle, gh_cx = 0, gh_path = [], gh_names = [], gh_owned = []\<rparr>"

definition active :: "nat \<Rightarrow> string \<Rightarrow> string list \<Rightarrow> (nat \<times> fd_status) list \<Rightarrow> ghost" where
  "active cx path names owned =
     \<lparr>gh_phase = Active, gh_cx = cx, gh_path = path, gh_names = names, gh_owned = owned\<rparr>"

definition gone :: "ghost \<Rightarrow> ghost" where
  "gone g = g\<lparr>gh_phase := Gone, gh_owned := []\<rparr>"

definition owning :: "(nat \<times> fd_status) list \<Rightarrow> ghost \<Rightarrow> ghost" where
  "owning owned g = g\<lparr>gh_owned := owned\<rparr>"

definition set_status :: "nat \<Rightarrow> fd_status \<Rightarrow> (nat \<times> fd_status) list \<Rightarrow> (nat \<times> fd_status) list" where
  "set_status fd s owned = map (\<lambda>e. if fst e = fd then (fd, s) else e) owned"

definition drop_fd :: "nat \<Rightarrow> (nat \<times> fd_status) list \<Rightarrow> (nat \<times> fd_status) list" where
  "drop_fd fd owned = filter (\<lambda>e. fst e \<noteq> fd) owned"

definition owns_context :: "nat \<Rightarrow> ghost \<Rightarrow> bool" where
  "owns_context cx g \<longleftrightarrow> gh_phase g = Active \<and> gh_cx g = cx"

fun call_pre :: "call \<Rightarrow> ghost \<Rightarrow> bool" where
  "call_pre (CReserve path names) g \<longleftrightarrow> gh_phase g = Idle \<and> names \<in> set LOCK_PROFILES"
| "call_pre (CUnregister cx) g \<longleftrightarrow> owns_context cx g"
| "call_pre (COpenDirs cx path uid) g \<longleftrightarrow> owns_context cx g"
| "call_pre (COpenTmp cx path) g \<longleftrightarrow> owns_context cx g \<and> path = gh_path g"
| "call_pre (COpenName cx path name) g \<longleftrightarrow> owns_context cx g \<and> path = gh_path g"
| "call_pre (CLink fd path name) g \<longleftrightarrow> gh_phase g = Active \<and> path = gh_path g \<and> (fd, Anonymous) \<in> set (gh_owned g)"
| "call_pre (CFlock fd) g \<longleftrightarrow> gh_phase g = Active \<and> (\<exists>n. (fd, Named n) \<in> set (gh_owned g))"
| "call_pre (CClose cx fd unlock) g \<longleftrightarrow> owns_context cx g \<and> fd \<in> fst ` set (gh_owned g)"
| "call_pre (CBody cx) g \<longleftrightarrow> gh_cx g = cx \<and>
     (gh_phase g = Gone \<or> gh_phase g = Active \<and> map snd (gh_owned g) = map Locked (gh_names g))"
| "call_pre (CInherited cx) g \<longleftrightarrow> gh_cx g = cx \<and> (gh_phase g = Gone \<or> gh_phase g = Active)"
| "call_pre (CCloseDirs cx) g \<longleftrightarrow> owns_context cx g"
| "call_pre _ g \<longleftrightarrow> True"

fun call_post :: "call \<Rightarrow> ghost \<Rightarrow> reply \<Rightarrow> ghost \<Rightarrow> bool" where
  "call_post (CReserve path names) g r g' \<longleftrightarrow>
     (\<exists>cx. r = RContext cx \<and> g' = active cx path names []) \<or> (r = RRaise LockDuplicateError \<and> g' = g)"
| "call_post (CUnregister cx) g r g' \<longleftrightarrow> g' = g\<lparr>gh_phase := Ended\<rparr>"
| "call_post (COpenTmp cx path) g r g' \<longleftrightarrow>
     (\<exists>fd. r = RFd fd \<and> fd \<notin> fst ` set (gh_owned g) \<and> g' = owning (gh_owned g @ [(fd, Anonymous)]) g) \<or>
     (r = ROSError EOTHER \<and> g' = g)"
| "call_post (COpenName cx path name) g r g' \<longleftrightarrow>
     (\<exists>fd. r = RFd fd \<and> fd \<notin> fst ` set (gh_owned g) \<and> g' = owning (gh_owned g @ [(fd, Named name)]) g) \<or>
     (r = ROSError EOTHER \<and> g' = g)"
| "call_post (CLink fd path name) g r g' \<longleftrightarrow>
     g' = (if r = ROk then owning (set_status fd (Named name) (gh_owned g)) g else g)"
| "call_post (CFlock fd) g r g' \<longleftrightarrow>
     (if r = ROk then \<exists>n. (fd, Named n) \<in> set (gh_owned g) \<and> g' = owning (set_status fd (Locked n) (gh_owned g)) g
      else g' = g)"
| "call_post (CClose cx fd unlock) g r g' \<longleftrightarrow> g' = owning (drop_fd fd (gh_owned g)) g"
| "call_post (CBody cx) g r g' \<longleftrightarrow> g' = g \<or> g' = gone g"
| "call_post (CInherited cx) g r g' \<longleftrightarrow> r = RBool (gh_phase g = Gone) \<and> g' = g"
| "call_post _ g r g' \<longleftrightarrow> g' = g"

section \<open>Weakest preconditions\<close>

primrec wp :: "'a prog \<Rightarrow> ('a \<Rightarrow> ghost \<Rightarrow> bool) \<Rightarrow> ghost \<Rightarrow> bool" where
  "wp (Done x) = (\<lambda>Q g. Q x g)"
| "wp (Call c k) = (\<lambda>Q g. call_pre c g \<and> (\<forall>r g'. call_post c g r g' \<longrightarrow> wp (k r) Q g'))"

lemma wp_seq [simp]: "wp (seqP m f) Q g \<longleftrightarrow> wp m (\<lambda>x. wp (f x) Q) g"
  by (induction m arbitrary: g) auto

lemma wp_mono: "wp m P g \<Longrightarrow> (\<And>x g. P x g \<Longrightarrow> Q x g) \<Longrightarrow> wp m Q g"
  by (induction m arbitrary: g) auto

lemma wp_bind:
  "wp (bindA m f) Q g \<longleftrightarrow> wp m (\<lambda>r g. case r of Inl e \<Rightarrow> Q (Inl e) g | Inr x \<Rightarrow> wp (f x) Q g) g"
  by (auto simp: bindA_def elim!: wp_mono split: sum.splits)

lemma wp_retA [simp]: "wp (retA x) Q g \<longleftrightarrow> Q (Inr x) g"
  by (simp add: retA_def)

lemma wp_raiseA [simp]: "wp (raiseA e) Q g \<longleftrightarrow> Q (Inl (e, None)) g"
  by (simp add: raiseA_def)

lemma wp_requireA [simp]: "wp (requireA ok e) Q g \<longleftrightarrow> (if ok then Q (Inr ()) g else Q (Inl (e, None)) g)"
  by (simp add: requireA_def)

lemma wp_raise_primary [simp]:
  "wp (raise_primary p c) Q g \<longleftrightarrow> Q (Inl (case c of None \<Rightarrow> p | Some e \<Rightarrow> (fst p, Some e))) g"
  by (simp add: raise_primary_def)

lemma wp_raise_or_return [simp]:
  "wp (raise_or_return q) Q g \<longleftrightarrow> Q (case q of None \<Rightarrow> Inr () | Some e \<Rightarrow> Inl e) g"
  by (simp add: raise_or_return_def split: option.splits)

text \<open>A program that leaves the ghost state alone, and asks nothing of it.\<close>

definition neutral :: "'a prog \<Rightarrow> bool" where
  "neutral m \<longleftrightarrow> (\<forall>g. wp m (\<lambda>_ g'. g' = g) g)"

lemma neutral_wp: "neutral m \<Longrightarrow> (\<And>x. Q x g) \<Longrightarrow> wp m Q g"
  unfolding neutral_def by (rule wp_mono [of m "\<lambda>_ g'. g' = g"]) auto

named_theorems neutral_intros "programs that leave the ghost state alone"

lemma neutral_retA [neutral_intros]: "neutral (retA x)"
  by (simp add: neutral_def)

lemma neutral_raiseA [neutral_intros]: "neutral (raiseA e)"
  by (simp add: neutral_def)

lemma neutral_requireA [neutral_intros]: "neutral (requireA ok e)"
  by (simp add: neutral_def)

lemma neutral_bind [neutral_intros]:
  assumes "neutral m" and "\<And>x. neutral (f x)"
  shows "neutral (bindA m f)"
  unfolding neutral_def
proof
  fix g
  show "wp (bindA m f) (\<lambda>_ g'. g' = g) g"
    unfolding wp_bind using assms(2)
    by (intro neutral_wp [OF assms(1)]) (simp add: neutral_def split: sum.splits)
qed

lemma neutral_call [neutral_intros]:
  "\<forall>g. call_pre c g \<and> (\<forall>r g'. call_post c g r g' \<longrightarrow> g' = g) \<Longrightarrow> (\<And>r. neutral (k r)) \<Longrightarrow> neutral (Call c k)"
  by (simp add: neutral_def) blast

lemma neutral_steps [neutral_intros]:
  "neutral (checkpoint name phase)" "neutral (identity_at path name acquiring)" "neutral (fstat_lock fd)"
  "neutral (inheritable_check fd e e')" "neutral (recheck_directory path)"
  by (auto simp: checkpoint_def identity_at_def fstat_lock_def inheritable_check_def recheck_directory_def Let_def
      intro!: neutral_intros split: reply.splits)

lemma neutral_init [neutral_intros]: "neutral (init_anonymous fd uid)"
  by (auto simp: init_anonymous_def intro!: neutral_intros)

lemma neutral_confirm [neutral_intros]: "neutral (confirm_locked path name uid opened)"
  by (auto simp: confirm_locked_def intro!: neutral_intros split: option.splits)

section \<open>Specifications\<close>

lemma wp_close:
  assumes "gh_phase g = Active" "gh_cx g = cx" "fd \<in> fst ` set (gh_owned g)"
    and "\<And>c. Q c (owning (drop_fd fd (gh_owned g)) g)"
  shows "wp (close_tracked cx fd unlock) Q g"
  using assms by (simp add: close_tracked_def owns_context_def)

lemma active_simps [simp]:
  "gh_phase (active cx path names owned) = Active" "gh_cx (active cx path names owned) = cx"
  "gh_path (active cx path names owned) = path" "gh_names (active cx path names owned) = names"
  "gh_owned (active cx path names owned) = owned"
  "owning owned' (active cx path names owned) = active cx path names owned'"
  by (simp_all add: active_def owning_def)

lemma owned_snoc:
  "fd \<notin> fst ` set held \<Longrightarrow> drop_fd fd (held @ [(fd, s)]) = held"
  "fd \<notin> fst ` set held \<Longrightarrow> set_status fd s' (held @ [(fd, s)]) = held @ [(fd, s')]"
  by (induction held) (auto simp: drop_fd_def set_status_def)

lemma owned_status: "fd \<notin> fst ` set held \<Longrightarrow> (fd, s') \<in> set (held @ [(fd, s)]) \<longleftrightarrow> s' = s"
  by (auto simp: image_iff)

lemma wp_closing:
  assumes "fd \<notin> fst ` set held"
    and "wp m (\<lambda>r g'. case r of Inr x \<Rightarrow> Q (Inr x) g'
          | Inl e \<Rightarrow> (\<exists>s. g' = active cx path names (held @ [(fd, s)]))) g"
    and "\<And>e. Q (Inl e) (active cx path names held)"
  shows "wp (closing cx fd locked m) Q g"
  unfolding closing_def wp_seq
  by (rule wp_mono [OF assms(2)])
    (auto intro!: wp_close assms(3) simp: owned_snoc [OF assms(1)] split: sum.splits)

lemma wp_flock:
  assumes "fd \<notin> fst ` set held"
    and "\<And>e. Q (Inl e) (active cx path names (held @ [(fd, Named name)]))"
    and "Q (Inr ()) (active cx path names (held @ [(fd, Locked name)]))"
  shows "wp (flock_exclusive fd name) Q (active cx path names (held @ [(fd, Named name)]))"
proof -
  have own: "(fd, Named n) \<in> set (held @ [(fd, Named name)]) \<longleftrightarrow> n = name" for n
    using owned_status [OF assms(1), of "Named n" "Named name"] by auto
  have ok: "wp (case r of ROk \<Rightarrow> retA () | ROSError EWOULDBLOCK \<Rightarrow> raiseA (LockContentionError (Some name))
      | _ \<Rightarrow> raiseA LockAcquireError) Q g'"
    if "if r = ROk then g' = active cx path names (held @ [(fd, Locked name)])
        else g' = active cx path names (held @ [(fd, Named name)])" for r g'
    using that by (simp add: assms(2,3) split: if_splits reply.split os_error.split)
  show ?thesis
    unfolding flock_exclusive_def wp.simps call_pre.simps call_post.simps active_simps own
    by (intro conjI allI impI ok) (auto simp: owned_snoc [OF assms(1)])
qed

text \<open>A neutral step in front of a program.\<close>

lemma wp_bind_neutral:
  assumes "neutral m" and "\<And>e. Q (Inl e) g" and "\<And>x. wp (f x) Q g"
  shows "wp (bindA m f) Q g"
  unfolding wp_bind by (rule neutral_wp [OF assms(1)]) (simp add: assms(2,3) split: sum.splits)

lemma wp_verify:
  assumes "fd \<notin> fst ` set held"
    and "\<And>e. Q (Inl e) (active cx path names (held @ [(fd, Named name)]))"
    and "\<And>i. Q (Inr i) (active cx path names (held @ [(fd, Locked name)]))"
  shows "wp (verify_and_lock path' name uid before fd) Q (active cx path names (held @ [(fd, Named name)]))"
proof -
  have flock: "wp (bindA (flock_exclusive fd name) (\<lambda>_. retA opened)) Q
      (active cx path names (held @ [(fd, Named name)]))" for opened
    unfolding wp_bind by (rule wp_flock [OF assms(1)]) (simp_all add: assms(2,3))
  show ?thesis
    unfolding verify_and_lock_def
    by (intro wp_bind_neutral neutral_intros assms(2) flock)
      (simp del: wp_seq split: option.split, intro conjI allI impI wp_bind_neutral neutral_intros assms(2) flock)
qed

lemma wp_lock_descriptor:
  assumes fresh: "fd \<notin> fst ` set held"
    and prep: "wp prep (\<lambda>r g'. case r of Inr x \<Rightarrow> g' = active cx path names (held @ [(fd, Named name)])
          | Inl e \<Rightarrow> \<exists>s. g' = active cx path names (held @ [(fd, s)])) (active cx path names (held @ [(fd, s0)]))"
    and fails: "\<And>e. Q (Inl e) (active cx path names held)"
    and locks: "Q (Inr fd) (active cx path names (held @ [(fd, Locked name)]))"
  shows "wp (lock_descriptor cx path name uid before fd prep) Q (active cx path names (held @ [(fd, s0)]))"
proof -
  have confirm: "wp (bindA (closing cx fd True (confirm_locked path name uid opened)) (\<lambda>_. retA fd)) Q
      (active cx path names (held @ [(fd, Locked name)]))" for opened
    unfolding wp_bind
    by (rule wp_closing [OF fresh], rule neutral_wp [OF neutral_confirm])
      (auto simp: fails locks split: sum.splits)
  have verify: "wp (bindA prep (\<lambda>_. verify_and_lock path name uid before fd))
      (\<lambda>r g'. case r of Inr x \<Rightarrow> g' = active cx path names (held @ [(fd, Locked name)])
        | Inl e \<Rightarrow> \<exists>s. g' = active cx path names (held @ [(fd, s)]))
      (active cx path names (held @ [(fd, s0)]))"
    unfolding wp_bind
    by (rule wp_mono [OF prep]) (auto intro!: wp_verify [OF fresh] split: sum.splits)
  show ?thesis
    unfolding lock_descriptor_def wp_bind [of "closing cx fd False _"]
    by (rule wp_closing [OF fresh], rule wp_mono [OF verify])
      (auto intro: confirm simp: fails split: sum.splits)
qed

lemma wp_open_tracked:
  assumes "\<And>fd. fd \<notin> fst ` set held \<Longrightarrow> Q (Inr fd) (active cx path names (held @ [(fd, Anonymous)]))"
    and "Q (Inl (LockAcquireError, None)) (active cx path names held)"
  shows "wp (open_tracked (COpenTmp cx path)) Q (active cx path names held)"
  using assms by (auto simp: open_tracked_def owns_context_def)

lemma wp_open_named:
  assumes "\<And>fd. fd \<notin> fst ` set held \<Longrightarrow> Q (Inr fd) (active cx path names (held @ [(fd, Named name)]))"
    and "Q (Inl (LockAcquireError, None)) (active cx path names held)"
  shows "wp (open_tracked (COpenName cx path name)) Q (active cx path names held)"
  using assms by (auto simp: open_tracked_def owns_context_def)

lemma wp_create_anonymous:
  assumes "\<And>e. Q (Inl e) (active cx path names held)"
    and "\<And>fd c. fd \<notin> fst ` set held \<Longrightarrow> Q (Inl (FilesystemPolicyError, c)) (active cx path names (held @ [(fd, Anonymous)]))"
    and "\<And>fd. fd \<notin> fst ` set held \<Longrightarrow> Q (Inr fd) (active cx path names (held @ [(fd, Anonymous)]))"
  shows "wp (create_anonymous_lock cx path uid) Q (active cx path names held)"
proof -
  have init: "wp (init_anonymous fd uid) (\<lambda>r g'. g' = g \<and>
      (\<forall>e. r = Inl e \<longrightarrow> os_or_lock_error (fst e) \<or> fst e = FilesystemPolicyError)) g" for fd g
    by (simp add: init_anonymous_def inheritable_check_def fstat_lock_def wp_bind split: reply.splits)
  show ?thesis
    unfolding create_anonymous_lock_def wp_bind [of "open_tracked _"]
    by (rule wp_open_tracked; unfold sum.case wp_seq, (rule wp_mono [OF init])?)
      (auto intro!: wp_close assms simp: owned_snoc split: sum.splits)
qed

lemma wp_open_lock:
  assumes fails: "\<And>e. Q (Inl e) (active cx path names held)"
    and leaks: "\<And>fd c. fd \<notin> fst ` set held \<Longrightarrow>
      Q (Inl (FilesystemPolicyError, c)) (active cx path names (held @ [(fd, Anonymous)]))"
    and locked: "\<And>fd. fd \<notin> fst ` set held \<Longrightarrow> Q (Inr fd) (active cx path names (held @ [(fd, Locked name)]))"
  shows "wp (open_lock cx path uid no_state name) Q (active cx path names held)"
proof -
  have publish: "wp (bindA (checkpoint name ''after-stage-init'') (\<lambda>_. publish_anonymous_lock path fd name))
      (\<lambda>r g'. case r of Inr x \<Rightarrow> g' = active cx path names (held @ [(fd, Named name)])
          | Inl e \<Rightarrow> \<exists>s. g' = active cx path names (held @ [(fd, s)])) (active cx path names (held @ [(fd, Anonymous)]))"
    if fresh: "fd \<notin> fst ` set held" for fd
    by (rule wp_bind_neutral [OF neutral_steps(1)])
      (auto simp: publish_anonymous_lock_def owned_snoc [OF fresh] split: reply.splits os_error.splits)
  have inherit: "wp (inheritable_check fd OSFailure LockAcquireError)
      (\<lambda>r g'. case r of Inr x \<Rightarrow> g' = active cx path names (held @ [(fd, Named name)])
          | Inl e \<Rightarrow> \<exists>s. g' = active cx path names (held @ [(fd, s)])) (active cx path names (held @ [(fd, Named name)]))"
    for fd
    by (rule neutral_wp [OF neutral_steps(4)]) (auto split: sum.splits)
  have create: "wp (bindA (create_anonymous_lock cx path uid) (\<lambda>fd. lock_descriptor cx path name uid None fd
        (bindA (checkpoint name ''after-stage-init'') (\<lambda>_. publish_anonymous_lock path fd name)))) Q
      (active cx path names held)"
    unfolding wp_bind [of "create_anonymous_lock _ _ _"]
    by (rule wp_create_anonymous)
      (auto intro: fails leaks locked wp_lock_descriptor publish)
  have existing: "wp (bindA (open_tracked (COpenName cx path name)) (\<lambda>fd. lock_descriptor cx path name uid before fd
        (inheritable_check fd OSFailure LockAcquireError))) Q (active cx path names held)" for before
    unfolding wp_bind [of "open_tracked _"]
    by (rule wp_open_named) (auto intro: fails locked wp_lock_descriptor inherit)
  show ?thesis
    unfolding open_lock_def
    by (intro wp_bind_neutral neutral_intros fails) (auto intro: fails create existing split: option.split)
qed

section \<open>The context manager\<close>

text \<open>What the program knows as \<open>held\<close>, as ghost state.\<close>

definition owned_of :: "(string \<times> nat) list \<Rightarrow> (nat \<times> fd_status) list" where
  "owned_of held = map (\<lambda>(name, fd). (fd, Locked name)) held"

lemma owned_of_snoc [simp]: "owned_of (held @ [(name, fd)]) = owned_of held @ [(fd, Locked name)]"
  by (simp add: owned_of_def)

lemma owned_of_Nil [simp]: "owned_of [] = []"
  by (simp add: owned_of_def)

text \<open>The state in which an acquisition ends: the held locks, and a leaked descriptor in one case.\<close>

definition acquired :: "nat \<Rightarrow> string \<Rightarrow> string list \<Rightarrow> (string \<times> nat) list \<Rightarrow> raised option \<Rightarrow> ghost \<Rightarrow> bool" where
  "acquired cx path names held primary g \<longleftrightarrow> distinct (map snd held) \<and>
     (g = active cx path names (owned_of held) \<or>
      (\<exists>fd c. primary = Some (FilesystemPolicyError, c) \<and> fd \<notin> snd ` set held \<and>
        g = active cx path names (owned_of held @ [(fd, Anonymous)])))"

lemma fds_owned_of [simp]: "fst ` set (owned_of held) = snd ` set held"
  by (force simp: owned_of_def image_iff)

lemma wp_acquire_loop:
  assumes "distinct (map snd held)"
    and fails: "\<And>held' e g. acquired cx path names held' (Some e) g \<Longrightarrow> Q (held', Some e) g"
    and locked: "\<And>held'. map fst held' = map fst held @ todo \<Longrightarrow> distinct (map snd held') \<Longrightarrow>
      Q (held', None) (active cx path names (owned_of held'))"
  shows "wp (acquire_loop cx path uid no_state todo held) Q (active cx path names (owned_of held))"
  using assms(1) locked
proof (induction todo arbitrary: held)
  case (Cons name todo)
  have next_lock: "wp (acquire_loop cx path uid no_state todo (held @ [(name, fd)])) Q
      (active cx path names (owned_of held @ [(fd, Locked name)]))" if "fd \<notin> fst ` set (owned_of held)" for fd
    using Cons.IH [of "held @ [(name, fd)]"] Cons.prems that by simp
  have "Q (held, Some e) (active cx path names (owned_of held))" for e
    using Cons.prems(1) by (intro fails) (simp add: acquired_def)
  moreover have "Q (held, Some (FilesystemPolicyError, c)) (active cx path names (owned_of held @ [(fd, Anonymous)]))"
    if "fd \<notin> fst ` set (owned_of held)" for fd c
    using Cons.prems(1) that by (intro fails) (auto simp: acquired_def)
  ultimately show ?case
    by (simp only: acquire_loop.simps wp_seq) (rule wp_open_lock, simp_all add: next_lock)
qed simp

text \<open>After the body of the \<open>with\<close> statement a forked child may have lost everything.\<close>

definition after_body :: "nat \<Rightarrow> string \<Rightarrow> string list \<Rightarrow> (string \<times> nat) list \<Rightarrow> raised option \<Rightarrow> ghost \<Rightarrow> bool" where
  "after_body cx path names held primary g \<longleftrightarrow>
     acquired cx path names held primary g \<or> g = gone (active cx path names [])"

lemma gone_active: "gone (active cx path names owned) = gone (active cx path names [])"
  by (simp add: gone_def active_def)

lemma status_owned_of: "map snd (owned_of held) = map Locked (map fst held)"
  by (auto simp: owned_of_def)

lemma wp_hold_locks:
  assumes "\<And>held primary g. after_body cx path names held primary g \<Longrightarrow> Q (held, primary) g"
  shows "wp (hold_locks cx path uid no_state names) Q (active cx path names [])"
proof -
  have fails: "Q (held, Some e) g" if "acquired cx path names held (Some e) g" for held e g
    using that by (intro assms) (simp add: after_body_def)
  have body: "wp (Call (CBody cx) (\<lambda>r. case r of RRaise e \<Rightarrow> Done (held, Some (e, None)) | _ \<Rightarrow> Done (held, None))) Q
      (active cx path names (owned_of held))" if "map fst held = names" "distinct (map snd held)" for held
    using that by (auto simp: status_owned_of after_body_def acquired_def intro!: assms gone_active split: reply.splits)
  have loop: "wp (seqP (acquire_loop cx path uid no_state names []) (\<lambda>(held, primary).
      case primary of Some e \<Rightarrow> Done (held, Some e)
      | None \<Rightarrow> Call (CBody cx) (\<lambda>r. case r of RRaise e \<Rightarrow> Done (held, Some (e, None)) | _ \<Rightarrow> Done (held, None))))
      Q (active cx path names (owned_of []))"
    unfolding wp_seq
    by (rule wp_acquire_loop) (simp_all add: fails body del: owned_of_Nil wp.simps(2))
  have dirs: "Q ([], Some (LockPolicyError, None)) (active cx path names [])"
    by (intro fails) (simp add: acquired_def)
  show ?thesis
    unfolding hold_locks_def wp.simps call_pre.simps call_post.simps
    using loop dirs by (simp add: owns_context_def del: wp_seq)
qed

section \<open>Release\<close>

lemma wp_release_lock:
  assumes "owned = rest @ (fd, s) # leak" and "fd \<notin> fst ` set rest" "fd \<notin> fst ` set leak"
    and "\<And>x. Q x (active cx path names (rest @ leak))"
  shows "wp (release_lock cx name fd) Q (active cx path names owned)"
proof -
  have "filter (\<lambda>e. fst e \<noteq> fd) xs = xs" if "fd \<notin> fst ` set xs" for xs :: "(nat \<times> fd_status) list"
    using that by (induction xs) auto
  with assms(1-3) have drop: "drop_fd fd owned = rest @ leak" by (simp add: drop_fd_def)
  show ?thesis
    unfolding release_lock_def wp_seq
    by (intro neutral_wp [OF neutral_steps(1)] wp_close)
      (use assms drop in \<open>auto intro!: neutral_wp [OF neutral_steps(1)]\<close>)
qed

lemma wp_release_loop:
  assumes "distinct (map snd held)" and "snd ` set held \<inter> fst ` set leak = {}"
    and "\<And>x. Q x (active cx path names leak)"
  shows "wp (release_loop cx (rev held) failure) Q (active cx path names (owned_of held @ leak))"
  using assms(1,2)
proof (induction held arbitrary: failure rule: rev_induct)
  case (snoc l held)
  obtain name fd where l: "l = (name, fd)" by (cases l)
  have "fd \<notin> fst ` set (owned_of held)" using snoc.prems(1) by (simp add: l)
  with snoc show ?case
    by (simp add: l)
      (rule wp_release_lock [where rest = "owned_of held" and leak = leak and s = "Locked name"], simp_all)
qed (simp add: assms(3))

text \<open>The end of a context: nothing is owned, except the descriptor that a failed policy has leaked.\<close>

definition ended :: "nat \<Rightarrow> raised + unit \<Rightarrow> ghost \<Rightarrow> bool" where
  "ended cx r g \<longleftrightarrow> gh_cx g = cx \<and> (gh_phase g = Gone \<or>
     gh_phase g = Ended \<and> (gh_owned g = [] \<or> (\<exists>c. r = Inl (FilesystemPolicyError, c))))"

lemma wp_release_context:
  assumes "acquired cx path names held primary g" and "\<And>r g. ended cx r g \<Longrightarrow> Q r g"
  shows "wp (release_context cx held primary) Q g"
proof -
  from assms(1) obtain leak where d: "distinct (map snd held)" and leak: "snd ` set held \<inter> fst ` set leak = {}"
    and g: "g = active cx path names (owned_of held @ leak)"
    and why: "leak = [] \<or> (\<exists>c. primary = Some (FilesystemPolicyError, c))"
  proof (cases "g = active cx path names (owned_of held)")
    case False
    with assms(1) obtain fd c where "primary = Some (FilesystemPolicyError, c)" "fd \<notin> snd ` set held"
      "g = active cx path names (owned_of held @ [(fd, Anonymous)])" by (auto simp: acquired_def)
    with assms(1) that [of "[(fd, Anonymous)]"] show ?thesis by (auto simp: acquired_def)
  qed (use assms(1) that [of "[]"] in \<open>auto simp: acquired_def\<close>)
  have fin: "wp (let cleanup = first_error rf df in case primary of
        Some e \<Rightarrow> raise_primary e (map_option fst cleanup) | None \<Rightarrow> raise_or_return cleanup) Q
      ((active cx path names leak)\<lparr>gh_phase := Ended\<rparr>)" for rf df
    using why by (cases primary) (auto simp: Let_def ended_def active_def intro!: assms(2) split: option.splits)
  show ?thesis
    unfolding release_context_def release_all_def wp_seq g
    by (rule wp_release_loop [OF d leak]) (simp add: close_directories_def owns_context_def fin del: wp_raise_primary wp_raise_or_return)
qed

lemma wp_locked_context:
  assumes "\<And>r g. ended cx r g \<Longrightarrow> Q r g"
  shows "wp (locked_context cx path uid no_state names) Q (active cx path names [])"
proof -
  have "wp (Call (CInherited cx) (\<lambda>r. if r = RBool True then raise_or_return primary
      else release_context cx held primary)) Q g"
    if "after_body cx path names held primary g" for held primary g
  proof (cases "gh_phase g = Gone")
    case True
    with that show ?thesis
      by (auto simp: after_body_def acquired_def gone_def intro!: assms)
        (auto simp: ended_def active_def)
  next
    case False
    with that have "acquired cx path names held primary g" by (auto simp: after_body_def gone_def)
    moreover from this have "gh_phase g = Active" "gh_cx g = cx" by (auto simp: acquired_def)
    ultimately show ?thesis
      by (simp del: wp_seq) (rule wp_release_context [where path = path and names = names], simp_all add: assms)
  qed
  then show ?thesis
    unfolding locked_context_def wp_seq
    by (intro wp_hold_locks) (simp del: wp.simps)
qed

text \<open>The whole call: it never registers anything, or its context has ended.\<close>

definition call_done :: "raised + unit \<Rightarrow> ghost \<Rightarrow> bool" where
  "call_done r g \<longleftrightarrow> gh_phase g = Idle \<or> ended (gh_cx g) r g"

lemma profile_names_ok: "profile_names p = Inr names \<Longrightarrow> names \<in> set LOCK_PROFILES"
  by (auto simp: profile_names_def dest!: map_of_SomeD set_zip_rightD split: profile.splits option.splits if_splits)

lemma wp_acquire_pki_locks: "wp (acquire_pki_locks path profile no_state uid) call_done idle"
  unfolding acquire_pki_locks_def
  by (auto simp: call_done_def idle_def ended_def profile_names_ok
      intro!: wp_locked_context split: sum.splits)

end
