(* ===== verification/LockInvariant.thy ===== *)
theory LockInvariant
  imports LockLogic
begin

text \<open>
  The invariant of the lock system: the ghost state of every thread agrees with its process and with the
  kernel, ghost states of different threads of a process are apart, and every program is correct
  for its ghost state. A descriptor that a thread owns is the only reference to its
  description, so nothing another thread or process does touches its lock.
\<close>

section \<open>Agreement of a ghost state with the system\<close>

definition sole_reference :: "kernel \<Rightarrow> nat \<times> nat \<Rightarrow> nat \<Rightarrow> bool" where
  "sole_reference k x d \<longleftrightarrow> {y. (y, d) \<in> set (kn_fds k)} = {x}"

definition status_ok :: "string \<Rightarrow> kernel \<Rightarrow> nat \<Rightarrow> fd_status \<Rightarrow> bool" where
  "status_ok path k d st \<longleftrightarrow>
     (case st of
        Anonymous \<Rightarrow> True
      | Named n \<Rightarrow> kn_names k (path, n) = Some (kn_file k d)
      | Locked n \<Rightarrow> kn_names k (path, n) = Some (kn_file k d) \<and> kn_flock k (kn_file k d) = Some d)"

definition entry_ok :: "nat \<Rightarrow> string \<Rightarrow> kernel \<Rightarrow> nat \<times> fd_status \<Rightarrow> bool" where
  "entry_ok pid path k e \<longleftrightarrow> (\<exists>d. sole_reference k (pid, fst e) d \<and> status_ok path k d (snd e))"

lemma entry_okE:
  assumes "entry_ok pid path k e"
  obtains d where "sole_reference k (pid, fst e) d" "status_ok path k d (snd e)"
  using assms by (auto simp: entry_ok_def)

lemma sole_member: "sole_reference k x d \<Longrightarrow> (x, d) \<in> set (kn_fds k)"
  by (auto simp: sole_reference_def)

lemma sole_unique: "sole_reference k x d \<Longrightarrow> (y, d) \<in> set (kn_fds k) \<Longrightarrow> y = x"
  by (auto simp: sole_reference_def)

definition live_context :: "process \<Rightarrow> ghost \<Rightarrow> context_state \<Rightarrow> bool" where
  "live_context p g c \<longleftrightarrow> cx_owner c = pr_pid p \<and> \<not> cx_inherited c \<and>
     set (cx_descriptors c) = fst ` set (gh_owned g) \<and> cx_keys c = map (Pair (gh_path g)) (gh_names g) \<and>
     gh_names g \<in> set LOCK_PROFILES \<and> gh_cx g \<in> set (pr_active p) \<and> set (cx_keys c) \<subseteq> set (pr_held p)"

definition thread_ok :: "process \<Rightarrow> kernel \<Rightarrow> ghost \<Rightarrow> bool" where
  "thread_ok p k g \<longleftrightarrow>
     (gh_phase g = Active \<longrightarrow> (\<exists>c. pr_contexts p (gh_cx g) = Some c \<and> live_context p g c) \<and>
        (\<forall>e \<in> set (gh_owned g). entry_ok (pr_pid p) (gh_path g) k e) \<and> distinct (map fst (gh_owned g))) \<and>
     (gh_phase g = Gone \<longrightarrow> (\<exists>c. pr_contexts p (gh_cx g) = Some c \<and> cx_inherited c)) \<and>
     (gh_phase g = Ended \<longrightarrow> (\<exists>c. pr_contexts p (gh_cx g) = Some c \<and>
        set (cx_descriptors c) = fst ` set (gh_owned g) \<and> gh_cx g \<notin> set (pr_active p)))"

definition apart :: "ghost \<Rightarrow> ghost \<Rightarrow> bool" where
  "apart g h \<longleftrightarrow>
     (gh_phase g \<noteq> Idle \<and> gh_phase h \<noteq> Idle \<longrightarrow> gh_cx g \<noteq> gh_cx h) \<and>
     (gh_phase g = Active \<and> gh_phase h = Active \<longrightarrow>
        fst ` set (gh_owned g) \<inter> fst ` set (gh_owned h) = {} \<and>
        (gh_path g = gh_path h \<longrightarrow> set (gh_names g) \<inter> set (gh_names h) = {}))"

definition process_ok :: "nat \<Rightarrow> process \<Rightarrow> bool" where
  "process_ok pid p \<longleftrightarrow> pr_pid p = pid \<and> pr_registry_pid p = pid \<and>
     (\<forall>cx. pr_contexts p cx \<noteq> None \<longrightarrow> cx < pr_next p) \<and> (\<forall>cx \<in> set (pr_active p). pr_contexts p cx \<noteq> None)"

text \<open>Descriptors are unique, descriptions are old, and every open descriptor is tracked by a context.\<close>

definition kernel_ok :: "(nat \<Rightarrow> process option) \<Rightarrow> kernel \<Rightarrow> bool" where
  "kernel_ok ps k \<longleftrightarrow> distinct (map fst (kn_fds k)) \<and>
     (\<forall>q fd d. ((q, fd), d) \<in> set (kn_fds k) \<longrightarrow> d < kn_next k \<and>
        (\<exists>p cx c. ps q = Some p \<and> pr_contexts p cx = Some c \<and> fd \<in> set (cx_descriptors c)))"

definition lock_inv :: "system \<Rightarrow> (nat \<Rightarrow> ghost) \<Rightarrow> bool" where
  "lock_inv s G \<longleftrightarrow>
     (\<forall>pid p. sy_processes s pid = Some p \<longrightarrow> process_ok pid p) \<and>
     kernel_ok (sy_processes s) (sy_kernel s) \<and>
     (\<forall>t pid m. sy_threads s t = Some (pid, m) \<longrightarrow> wp m call_done (G t) \<and>
        (\<exists>p. sy_processes s pid = Some p \<and> thread_ok p (sy_kernel s) (G t))) \<and>
     (\<forall>t t' pid m m'. sy_threads s t = Some (pid, m) \<longrightarrow> sy_threads s t' = Some (pid, m') \<longrightarrow> t \<noteq> t' \<longrightarrow>
        apart (G t) (G t'))"

lemma lock_invD:
  assumes "lock_inv s G"
  shows "sy_processes s pid = Some p \<Longrightarrow> process_ok pid p"
    and "kernel_ok (sy_processes s) (sy_kernel s)"
    and "sy_threads s t = Some (pid, m) \<Longrightarrow> wp m call_done (G t)"
    and "sy_threads s t = Some (pid, m) \<Longrightarrow> \<exists>p. sy_processes s pid = Some p \<and> thread_ok p (sy_kernel s) (G t)"
    and "sy_threads s t = Some (pid, m) \<Longrightarrow> sy_threads s t' = Some (pid, m') \<Longrightarrow> t \<noteq> t' \<Longrightarrow> apart (G t) (G t')"
  using assms by (force simp: lock_inv_def)+

section \<open>Kernel steps that leave owned descriptors alone\<close>

definition kernel_grows :: "kernel \<Rightarrow> kernel \<Rightarrow> bool" where
  "kernel_grows k k' \<longleftrightarrow> set (kn_fds k) \<subseteq> set (kn_fds k') \<and>
     (\<forall>x d. (x, d) \<in> set (kn_fds k') \<longrightarrow> (x, d) \<in> set (kn_fds k) \<or> kn_next k \<le> d) \<and>
     (\<forall>d < kn_next k. kn_file k' d = kn_file k d) \<and>
     (\<forall>x i. kn_names k x = Some i \<longrightarrow> kn_names k' x = Some i) \<and>
     (\<forall>i d. kn_flock k i = Some d \<longrightarrow> kn_flock k' i = Some d)"

lemma grows_refl [simp]: "kernel_grows k k"
  by (auto simp: kernel_grows_def)

lemma entry_ok_grows:
  assumes "entry_ok pid path k e" and grows: "kernel_grows k k'"
    and "\<forall>q fd d. ((q, fd), d) \<in> set (kn_fds k) \<longrightarrow> d < kn_next k"
  shows "entry_ok pid path k' e"
proof -
  from assms(1) obtain d where sole: "sole_reference k (pid, fst e) d" and st: "status_ok path k d (snd e)"
    by (rule entry_okE)
  have less: "d < kn_next k" using assms(3) sole_member [OF sole] by blast
  have "(x, d) \<in> set (kn_fds k') \<longleftrightarrow> (x, d) \<in> set (kn_fds k)" for x
    using grows less unfolding kernel_grows_def by (meson leD subsetD)
  then have "sole_reference k' (pid, fst e) d" using sole by (simp add: sole_reference_def)
  moreover have "kn_file k' d = kn_file k d" using grows less by (simp add: kernel_grows_def)
  then have "status_ok path k' d (snd e)"
    using st grows by (auto simp: status_ok_def kernel_grows_def split: fd_status.splits)
  ultimately show ?thesis by (auto simp: entry_ok_def)
qed

text \<open>Closing descriptors keeps the entries of the others.\<close>

lemma close_entries_simps [simp]:
  "kn_fds (close_entries P k) = filter (\<lambda>e. \<not> P (fst e)) (kn_fds k)"
  "kn_file (close_entries P k) = kn_file k" "kn_names (close_entries P k) = kn_names k"
  "kn_next (close_entries P k) = kn_next k"
  by (simp_all add: close_entries_def Let_def)

lemma flock_close_entries:
  "kn_flock k i = Some d \<Longrightarrow> (x, d) \<in> set (kn_fds k) \<Longrightarrow> \<not> P x \<Longrightarrow> kn_flock (close_entries P k) i = Some d"
proof -
  assume "kn_flock k i = Some d" "(x, d) \<in> set (kn_fds k)" "\<not> P x"
  moreover from this have "d \<in> snd ` set (filter (\<lambda>e. \<not> P (fst e)) (kn_fds k))"
    by (intro image_eqI [of _ _ "(x, d)"]) simp_all
  ultimately show ?thesis by (simp add: close_entries_def Let_def)
qed

lemma entry_ok_close:
  assumes "entry_ok pid path k e" and "\<not> P (pid, fst e)"
  shows "entry_ok pid path (close_entries P k) e"
proof -
  from assms(1) obtain d where sole: "sole_reference k (pid, fst e) d" and st: "status_ok path k d (snd e)"
    by (rule entry_okE)
  have "sole_reference (close_entries P k) (pid, fst e) d"
    using sole assms(2) by (auto simp: sole_reference_def)
  moreover have "status_ok path (close_entries P k) d (snd e)"
    using st flock_close_entries [where P = P, OF _ sole_member [OF sole] assms(2)]
    by (auto simp: status_ok_def split: fd_status.splits)
  ultimately show ?thesis by (auto simp: entry_ok_def)
qed

lemma unlock_file_simps [simp]:
  "kn_fds (unlock_file d k) = kn_fds k" "kn_file (unlock_file d k) = kn_file k"
  "kn_names (unlock_file d k) = kn_names k" "kn_next (unlock_file d k) = kn_next k"
  by (simp_all add: unlock_file_def Let_def)

lemma flock_unlock: "kn_flock k i = Some d \<Longrightarrow> d \<noteq> d0 \<Longrightarrow> kn_flock (unlock_file d0 k) i = Some d"
  by (auto simp: unlock_file_def Let_def)

lemma entry_ok_unlock:
  assumes "entry_ok pid path k e" and "(x, d0) \<in> set (kn_fds k)" and "x \<noteq> (pid, fst e)"
  shows "entry_ok pid path (unlock_file d0 k) e"
proof -
  from assms(1) obtain d where sole: "sole_reference k (pid, fst e) d" and st: "status_ok path k d (snd e)"
    by (rule entry_okE)
  have "d \<noteq> d0" using assms(2,3) sole_unique [OF sole] by blast
  then have "status_ok path (unlock_file d0 k) d (snd e)"
    using st flock_unlock by (auto simp: status_ok_def split: fd_status.splits)
  with sole show ?thesis by (auto simp: entry_ok_def sole_reference_def)
qed

lemma thread_ok_kernel:
  assumes "thread_ok p k g"
    and "\<And>e. gh_phase g = Active \<Longrightarrow> e \<in> set (gh_owned g) \<Longrightarrow> entry_ok (pr_pid p) (gh_path g) k e \<Longrightarrow>
      entry_ok (pr_pid p) (gh_path g) k' e"
  shows "thread_ok p k' g"
  using assms by (auto simp: thread_ok_def)

section \<open>A step of one thread\<close>

text \<open>What a step of a thread may do to its process, from the point of view of the context of another thread.\<close>

definition context_kept :: "nat \<Rightarrow> process \<Rightarrow> process \<Rightarrow> bool" where
  "context_kept cx p p' \<longleftrightarrow> pr_pid p' = pr_pid p \<and> pr_contexts p' cx = pr_contexts p cx \<and>
     (cx \<in> set (pr_active p') \<longleftrightarrow> cx \<in> set (pr_active p))"

lemma thread_ok_process:
  assumes "thread_ok p k h" and "gh_phase h \<noteq> Idle \<Longrightarrow> context_kept (gh_cx h) p p'"
    and "gh_phase h = Active \<Longrightarrow> \<forall>n \<in> set (gh_names h). (gh_path h, n) \<in> set (pr_held p) \<longrightarrow> (gh_path h, n) \<in> set (pr_held p')"
  shows "thread_ok p' k h"
proof (cases "gh_phase h")
  case Active
  with assms have "context_kept (gh_cx h) p p'" by simp
  with Active assms(1,3) show ?thesis
    by (simp add: thread_ok_def context_kept_def live_context_def) (elim conjE exE, simp add: image_subset_iff)
qed (use assms in \<open>auto simp: thread_ok_def context_kept_def is_inherited_def split: option.splits\<close>)

lemma lock_inv_step:
  assumes inv: "lock_inv s G" and t: "sy_threads s t = Some (pid, m)" and p: "sy_processes s pid = Some p"
    and p': "process_ok pid p'" and k': "kernel_ok ((sy_processes s)(pid \<mapsto> p')) k'"
    and wp: "wp m' call_done g'" and ok: "thread_ok p' k' g'"
    and same: "\<And>h. thread_ok p (sy_kernel s) h \<Longrightarrow> apart (G t) h \<Longrightarrow> apart h (G t) \<Longrightarrow>
      thread_ok p' k' h \<and> apart g' h \<and> apart h g'"
    and other: "\<And>q pq h. q \<noteq> pid \<Longrightarrow> process_ok q pq \<Longrightarrow> thread_ok pq (sy_kernel s) h \<Longrightarrow> thread_ok pq k' h"
  shows "lock_inv (s\<lparr>sy_processes := (sy_processes s)(pid \<mapsto> p'), sy_threads := (sy_threads s)(t \<mapsto> (pid, m')),
      sy_kernel := k'\<rparr>) (G(t := g'))"
  unfolding lock_inv_def
proof (intro conjI allI impI, goal_cases)
  case (1 q pq)
  with inv p' show ?case by (auto simp: lock_inv_def split: if_splits)
next
  case 2
  with k' show ?case by simp
next
  case (3 t' q m1)
  with inv wp show ?case by (auto simp: lock_inv_def split: if_splits)
next
  case (4 t' q m1)
  show ?case
  proof (cases "t' = t")
    case True
    with 4 ok show ?thesis by auto
  next
    case False
    with 4 have t': "sy_threads s t' = Some (q, m1)" by simp
    with lock_invD(4) [OF inv] obtain pq where q: "sy_processes s q = Some pq" "thread_ok pq (sy_kernel s) (G t')"
      by blast
    with lock_invD(1) [OF inv] have q_ok: "process_ok q pq" by blast
    show ?thesis
    proof (cases "q = pid")
      case True
      with False t t' lock_invD(5) [OF inv] have "apart (G t) (G t')" "apart (G t') (G t)" by metis+
      with True q p False same [of "G t'"] show ?thesis by auto
    next
      case neq: False
      with q other [OF neq q_ok q(2)] False show ?thesis by auto
    qed
  qed
next
  case (5 t1 t2 q m1 m2)
  have both: "apart g' (G t') \<and> apart (G t') g'" if "t' \<noteq> t" "sy_threads s t' = Some (pid, m1)" for t' m1
  proof -
    from that t lock_invD(5) [OF inv] have "apart (G t) (G t')" "apart (G t') (G t)" by metis+
    moreover from that p lock_invD(4) [OF inv] have "thread_ok p (sy_kernel s) (G t')" by force
    ultimately show ?thesis using same by blast
  qed
  from 5 t lock_invD(5) [OF inv] both show ?case by (fastforce split: if_splits)
qed

section \<open>Steps that leave the ghost state alone\<close>

text \<open>An update of a context that keeps what the invariant says of it.\<close>

definition keeps_context :: "(context_state \<Rightarrow> context_state) \<Rightarrow> bool" where
  "keeps_context f \<longleftrightarrow> (\<forall>c. cx_owner (f c) = cx_owner c \<and> cx_keys (f c) = cx_keys c \<and>
     cx_descriptors (f c) = cx_descriptors c \<and> cx_inherited (f c) = cx_inherited c)"

lemma keeps_contextD:
  assumes "keeps_context f"
  shows "cx_owner (f c) = cx_owner c" "cx_keys (f c) = cx_keys c" "cx_descriptors (f c) = cx_descriptors c"
    "cx_inherited (f c) = cx_inherited c"
  using assms by (simp_all add: keeps_context_def)

lemma update_context_simps [simp]:
  "pr_pid (update_context cx f p) = pr_pid p" "pr_held (update_context cx f p) = pr_held p"
  "pr_active (update_context cx f p) = pr_active p" "pr_next (update_context cx f p) = pr_next p"
  "pr_registry_pid (update_context cx f p) = pr_registry_pid p"
  "pr_contexts (update_context cx f p) cx' = (if cx' = cx then map_option f (pr_contexts p cx') else pr_contexts p cx')"
  by (auto simp: update_context_def)

lemma process_ok_update: "process_ok pid p \<Longrightarrow> process_ok pid (update_context cx f p)"
  by (auto simp: process_ok_def)

lemma thread_ok_update:
  assumes ok: "thread_ok p k h" and keeps: "keeps_context f"
  shows "thread_ok (update_context cx f p) k h"
proof (cases "gh_cx h = cx")
  case True
  note keep = keeps_contextD [OF keeps]
  have live: "live_context (update_context cx f p) h (f c) \<longleftrightarrow> live_context p h c" for c
    by (simp add: live_context_def keep)
  show ?thesis
    using ok True
    by (cases "pr_contexts p cx") (simp_all add: thread_ok_def is_inherited_def live keep)
next
  case False
  then have "context_kept (gh_cx h) p (update_context cx f p)" by (simp add: context_kept_def)
  with ok show ?thesis by (rule thread_ok_process) simp
qed

lemma kernel_ok_update:
  assumes "kernel_ok ps k" and "ps pid = Some p" and "keeps_context f"
  shows "kernel_ok (ps(pid \<mapsto> update_context cx f p)) k"
  unfolding kernel_ok_def
proof (intro conjI allI impI)
  show "distinct (map fst (kn_fds k))" using assms(1) by (simp add: kernel_ok_def)
  fix q fd d assume e: "((q, fd), d) \<in> set (kn_fds k)"
  then show "d < kn_next k" using assms(1) by (auto simp: kernel_ok_def)
  from e assms(1) obtain pq x c where t: "ps q = Some pq" "pr_contexts pq x = Some c" "fd \<in> set (cx_descriptors c)"
    unfolding kernel_ok_def by blast
  show "\<exists>p' cx' c'. (ps(pid \<mapsto> update_context cx f p)) q = Some p' \<and> pr_contexts p' cx' = Some c' \<and> fd \<in> set (cx_descriptors c')"
  proof (cases "q = pid")
    case True
    with t assms(2) obtain c' where "pr_contexts (update_context cx f p) x = Some c'" "fd \<in> set (cx_descriptors c')"
      using keeps_contextD [OF assms(3)] by (cases "x = cx") auto
    with True show ?thesis by (intro exI [of _ "update_context cx f p"] exI [of _ x] exI [of _ c']) simp
  qed (use t in auto)
qed

lemma kernel_ok_same_fds:
  "kernel_ok ps k \<Longrightarrow> kn_fds k' = kn_fds k \<Longrightarrow> kn_next k \<le> kn_next k' \<Longrightarrow> kernel_ok ps k'"
  unfolding kernel_ok_def by (metis order_less_le_trans)

lemma fds_old: "kernel_ok ps k \<Longrightarrow> \<forall>q fd d. ((q, fd), d) \<in> set (kn_fds k) \<longrightarrow> d < kn_next k"
  by (simp add: kernel_ok_def)

lemma thread_ok_grows:
  "thread_ok p k h \<Longrightarrow> kernel_grows k k' \<Longrightarrow> kernel_ok ps k \<Longrightarrow> thread_ok p k' h"
  by (erule thread_ok_kernel) (rule entry_ok_grows, assumption+, erule fds_old)

text \<open>A quiet call: it may update its context harmlessly and extend the kernel state.\<close>

lemma lock_inv_quiet:
  assumes inv: "lock_inv s G" and t: "sy_threads s t = Some (pid, m)" and p: "sy_processes s pid = Some p"
    and wp: "wp m' call_done (G t)"
    and k': "kernel_grows (sy_kernel s) k'" "kn_fds k' = kn_fds (sy_kernel s)" "kn_next (sy_kernel s) \<le> kn_next k'"
    and p': "p' = p \<or> (\<exists>cx f. p' = update_context cx f p \<and> keeps_context f)"
  shows "lock_inv (s\<lparr>sy_processes := (sy_processes s)(pid \<mapsto> p'), sy_threads := (sy_threads s)(t \<mapsto> (pid, m')),
      sy_kernel := k'\<rparr>) G"
proof -
  note kok = lock_invD(2) [OF inv]
  have keep: "thread_ok q k' h" if "thread_ok q (sy_kernel s) h" for q h
    using thread_ok_grows [OF that k'(1) kok] .
  have pok: "process_ok pid p'" using p' lock_invD(1) [OF inv p] process_ok_update by blast
  have same: "thread_ok p' k' h" if "thread_ok p (sy_kernel s) h" for h
    using p' keep [OF that] thread_ok_update by blast
  have "kernel_ok ((sy_processes s)(pid \<mapsto> p')) (sy_kernel s)"
    using p' kok kernel_ok_update [OF kok p] p by (auto simp: fun_upd_idem)
  then have "kernel_ok ((sy_processes s)(pid \<mapsto> p')) k'" using k'(2,3) by (rule kernel_ok_same_fds)
  moreover have "thread_ok p' k' (G t)" using lock_invD(4) [OF inv t] p same by auto
  ultimately have "lock_inv (s\<lparr>sy_processes := (sy_processes s)(pid \<mapsto> p'), sy_threads := (sy_threads s)(t \<mapsto> (pid, m')),
      sy_kernel := k'\<rparr>) (G(t := G t))"
    by (intro lock_inv_step [OF inv t p pok _ wp]) (auto intro: same keep)
  then show ?thesis by simp
qed

section \<open>Registering and unregistering a context\<close>

lemma idle_ok [simp]: "gh_phase h = Idle \<Longrightarrow> thread_ok p k h"
  by (simp add: thread_ok_def)

lemma context_exists:
  assumes "thread_ok p k h" and "gh_phase h \<noteq> Idle"
  obtains c where "pr_contexts p (gh_cx h) = Some c"
  using assms by (cases "gh_phase h") (auto simp: thread_ok_def is_inherited_def split: option.splits)

lemma kernel_ok_contexts:
  assumes "kernel_ok ps k" and "ps pid = Some p"
    and "\<And>x c. pr_contexts p x = Some c \<Longrightarrow> pr_contexts p' x = Some c"
  shows "kernel_ok (ps(pid \<mapsto> p')) k"
  unfolding kernel_ok_def
proof (intro conjI allI impI)
  show "distinct (map fst (kn_fds k))" using assms(1) by (simp add: kernel_ok_def)
  fix q fd d assume e: "((q, fd), d) \<in> set (kn_fds k)"
  then show "d < kn_next k" using assms(1) by (auto simp: kernel_ok_def)
  from e assms(1) obtain pq x c where t: "ps q = Some pq" "pr_contexts pq x = Some c" "fd \<in> set (cx_descriptors c)"
    unfolding kernel_ok_def by blast
  show "\<exists>p1 cx' c'. (ps(pid \<mapsto> p')) q = Some p1 \<and> pr_contexts p1 cx' = Some c' \<and> fd \<in> set (cx_descriptors c')"
  proof (cases "q = pid")
    case True
    with t assms(2) have "pr_contexts p' x = Some c" by (intro assms(3)) simp
    with True t(3) show ?thesis by (intro exI [of _ p'] exI [of _ x] exI [of _ c]) simp
  qed (use t in auto)
qed

lemma lock_inv_reserve:
  assumes inv: "lock_inv s G" and t: "sy_threads s t = Some (pid, Call (CReserve path names) m)"
    and p: "sy_processes s pid = Some p" and r: "reserve_context path names p = (r, p')"
  shows "\<exists>g'. call_post (CReserve path names) (G t) r g' \<and>
    lock_inv (s\<lparr>sy_processes := (sy_processes s)(pid \<mapsto> p'), sy_threads := (sy_threads s)(t \<mapsto> (pid, m r)),
      sy_kernel := sy_kernel s\<rparr>) (G(t := g'))"
proof -
  have pre: "gh_phase (G t) = Idle" "names \<in> set LOCK_PROFILES"
    and post: "\<And>r g'. call_post (CReserve path names) (G t) r g' \<Longrightarrow> wp (m r) call_done g'"
    using lock_invD(3) [OF inv t] by auto
  have pid: "pr_pid p = pid" "reset_registry p = p"
    using lock_invD(1) [OF inv p] by (auto simp: process_ok_def reset_registry_def)
  show ?thesis
  proof (cases "list_ex (\<lambda>k. k \<in> set (pr_held p)) (map (\<lambda>name. (path, name)) names)")
    case True
    with r have "r = RRaise LockDuplicateError" "p' = p" by (auto simp: reserve_context_def Let_def pid)
    with post have "lock_inv (s\<lparr>sy_processes := (sy_processes s)(pid \<mapsto> p'), sy_threads := (sy_threads s)(t \<mapsto> (pid, m r)),
        sy_kernel := sy_kernel s\<rparr>) G" by (intro lock_inv_quiet [OF inv t p]) auto
    with \<open>r = _\<close> show ?thesis by (intro exI [of _ "G t"]) simp
  next
    case False
    let ?cx = "pr_next p" and ?keys = "map (\<lambda>name. (path, name)) names"
    let ?g = "active ?cx path names []"
    from False r have r: "r = RContext ?cx"
      and p': "p' = p\<lparr>pr_contexts := (pr_contexts p)(?cx \<mapsto> new_context pid ?keys), pr_next := ?cx + 1,
        pr_held := pr_held p @ ?keys, pr_active := pr_active p @ [?cx]\<rparr>"
      by (auto simp: reserve_context_def Let_def pid)
    have fresh: "pr_contexts p ?cx = None"
      using lock_invD(1) [OF inv p] unfolding process_ok_def by (metis less_irrefl)
    have old: "gh_cx h \<noteq> ?cx" if "thread_ok p (sy_kernel s) h" "gh_phase h \<noteq> Idle" for h
    proof -
      from that obtain c where "pr_contexts p (gh_cx h) = Some c" by (rule context_exists)
      with fresh show ?thesis by auto
    qed
    have "lock_inv (s\<lparr>sy_processes := (sy_processes s)(pid \<mapsto> p'), sy_threads := (sy_threads s)(t \<mapsto> (pid, m r)),
        sy_kernel := sy_kernel s\<rparr>) (G(t := ?g))"
    proof (rule lock_inv_step [OF inv t p])
      show "process_ok pid p'" using lock_invD(1) [OF inv p] by (auto simp: process_ok_def p')
      show "kernel_ok ((sy_processes s)(pid \<mapsto> p')) (sy_kernel s)"
        using fresh by (intro kernel_ok_contexts [OF lock_invD(2) [OF inv] p]) (auto simp: p')
      show "wp (m r) call_done ?g" using post r by simp
      show "thread_ok p' (sy_kernel s) ?g"
        using pre pid by (auto simp: thread_ok_def live_context_def new_context_def p')
      fix h assume h: "thread_ok p (sy_kernel s) h"
      have "thread_ok p' (sy_kernel s) h"
        using h by (rule thread_ok_process) (use old [OF h] in \<open>auto simp: context_kept_def p'\<close>)
      moreover have "set names \<inter> set (gh_names h) = {}" if "gh_phase h = Active" "gh_path h = path"
        using h that False by (fastforce simp: thread_ok_def live_context_def list_ex_iff)
      ultimately show "thread_ok p' (sy_kernel s) h \<and> apart ?g h \<and> apart h ?g"
        using old [OF h] by (auto simp: apart_def)
    qed
    with r show ?thesis by (intro exI [of _ ?g]) simp
  qed
qed

lemma live_keys:
  assumes "pr_contexts p (gh_cx g) = Some c" and "live_context p g c"
  shows "(x, n) \<in> set (cx_keys c) \<longleftrightarrow> x = gh_path g \<and> n \<in> set (gh_names g)"
  using assms(2) by (auto simp: live_context_def)

lemma lock_inv_unregister:
  assumes inv: "lock_inv s G" and t: "sy_threads s t = Some (pid, Call (CUnregister cx) m)"
    and p: "sy_processes s pid = Some p"
  shows "lock_inv (s\<lparr>sy_processes := (sy_processes s)(pid \<mapsto> unregister_context cx p),
      sy_threads := (sy_threads s)(t \<mapsto> (pid, m r)), sy_kernel := sy_kernel s\<rparr>) (G(t := (G t)\<lparr>gh_phase := Ended\<rparr>))"
proof -
  let ?g = "(G t)\<lparr>gh_phase := Ended\<rparr>"
  have pre: "gh_phase (G t) = Active" "gh_cx (G t) = cx" and post: "wp (m r) call_done ?g"
    using lock_invD(3) [OF inv t] by (auto simp: owns_context_def)
  from lock_invD(4) [OF inv t] p have ok: "thread_ok p (sy_kernel s) (G t)" by auto
  with pre obtain c where c: "pr_contexts p cx = Some c" and live: "live_context p (G t) c"
    by (auto simp: thread_ok_def)
  have p': "unregister_context cx p = p\<lparr>pr_active := filter (\<lambda>x. x \<noteq> cx) (pr_active p),
      pr_held := filter (\<lambda>k. k \<notin> set (cx_keys c)) (pr_held p)\<rparr>"
    by (simp add: unregister_context_def c)
  show ?thesis
  proof (rule lock_inv_step [OF inv t p _ _ post])
    show "process_ok pid (unregister_context cx p)" using lock_invD(1) [OF inv p] by (auto simp: process_ok_def p')
    show "kernel_ok ((sy_processes s)(pid \<mapsto> unregister_context cx p)) (sy_kernel s)"
      by (intro kernel_ok_contexts [OF lock_invD(2) [OF inv] p]) (simp add: p')
    show "thread_ok (unregister_context cx p) (sy_kernel s) ?g"
      using live c by (auto simp: thread_ok_def live_context_def p' pre)
    fix h assume h: "thread_ok p (sy_kernel s) h" and apart: "apart (G t) h" "apart h (G t)"
    have "thread_ok (unregister_context cx p) (sy_kernel s) h"
      using h
    proof (rule thread_ok_process)
      show "context_kept (gh_cx h) p (unregister_context cx p)" if "gh_phase h \<noteq> Idle"
        using that apart pre by (auto simp: context_kept_def p' apart_def)
      show "\<forall>n \<in> set (gh_names h). (gh_path h, n) \<in> set (pr_held p) \<longrightarrow>
          (gh_path h, n) \<in> set (pr_held (unregister_context cx p))" if "gh_phase h = Active"
        using that apart pre live_keys [of p "G t" c "gh_path h"] live c by (auto simp: p' apart_def)
    qed
    with apart show "thread_ok (unregister_context cx p) (sy_kernel s) h \<and> apart ?g h \<and> apart h ?g"
      by (auto simp: apart_def pre)
  qed
qed

end
