(* ===== verification/LockSteps.thy ===== *)
theory LockSteps
  imports LockInvariant
begin

text \<open>
  The calls that change the kernel state keep the invariant of the lock system: opening, publishing, locking
  and closing a lock file, then every step of the system, and with it every reachable state.
\<close>

section \<open>Descriptors of a thread\<close>

lemma file_of_iff: "kernel_ok ps k \<Longrightarrow> file_of pid fd k = Some d \<longleftrightarrow> ((pid, fd), d) \<in> set (kn_fds k)"
  by (simp add: file_of_def kernel_ok_def)

lemma owned_open:
  assumes "thread_ok p k g" and "gh_phase g = Active" and "(fd, st) \<in> set (gh_owned g)" and "kernel_ok ps k"
  obtains d where "file_of (pr_pid p) fd k = Some d" "sole_reference k (pr_pid p, fd) d" "status_ok (gh_path g) k d st"
proof -
  from assms(1-3) have "entry_ok (pr_pid p) (gh_path g) k (fd, st)" by (auto simp: thread_ok_def)
  then obtain d where "sole_reference k (pr_pid p, fd) d" "status_ok (gh_path g) k d st" by (auto elim: entry_okE)
  moreover from this have "file_of (pr_pid p) fd k = Some d"
    using sole_member file_of_iff [OF assms(4)] by blast
  ultimately show ?thesis using that by blast
qed

lemma set_status_fds [simp]: "map fst (set_status fd st owned) = map fst owned"
  by (induction owned) (auto simp: set_status_def)

lemma set_status_set [simp]: "fst ` set (set_status fd st owned) = fst ` set owned"
  by (metis set_map set_status_fds)

lemma set_status_member: "e \<in> set (set_status fd st owned) \<Longrightarrow> e = (fd, st) \<or> e \<in> set owned"
  by (auto simp: set_status_def)

lemma owning_simps [simp]:
  "gh_phase (owning owned g) = gh_phase g" "gh_cx (owning owned g) = gh_cx g" "gh_path (owning owned g) = gh_path g"
  "gh_names (owning owned g) = gh_names g" "gh_owned (owning owned g) = owned"
  by (simp_all add: owning_def)

text \<open>A thread changes the status of one of its descriptors in a growing kernel.\<close>

lemma lock_inv_status:
  assumes inv: "lock_inv s G" and t: "sy_threads s t = Some (pid, m)" and p: "sy_processes s pid = Some p"
    and wp: "wp m' call_done (owning (set_status fd st (gh_owned (G t))) (G t))"
    and k': "kernel_grows (sy_kernel s) k'" "kn_fds k' = kn_fds (sy_kernel s)" "kn_next (sy_kernel s) \<le> kn_next k'"
    and entry: "entry_ok pid (gh_path (G t)) k' (fd, st)"
  shows "lock_inv (s\<lparr>sy_processes := (sy_processes s)(pid \<mapsto> p), sy_threads := (sy_threads s)(t \<mapsto> (pid, m')),
      sy_kernel := k'\<rparr>) (G(t := owning (set_status fd st (gh_owned (G t))) (G t)))"
proof -
  let ?g = "owning (set_status fd st (gh_owned (G t))) (G t)"
  note kok = lock_invD(2) [OF inv]
  have pid: "pr_pid p = pid" using lock_invD(1) [OF inv p] by (simp add: process_ok_def)
  have keep: "thread_ok q k' h" if "thread_ok q (sy_kernel s) h" for q h
    using thread_ok_grows [OF that k'(1) kok] .
  have live: "live_context p ?g c \<longleftrightarrow> live_context p (G t) c" for c by (simp add: live_context_def)
  have apart: "apart ?g h = apart (G t) h" "apart h ?g = apart h (G t)" for h by (simp_all add: apart_def)
  from lock_invD(4) [OF inv t] p keep have "thread_ok p k' (G t)" by auto
  then have "thread_ok p k' ?g"
    using entry by (auto simp: thread_ok_def live pid dest: set_status_member)
  moreover have "kernel_ok ((sy_processes s)(pid \<mapsto> p)) k'"
    using kernel_ok_same_fds [OF kok k'(2,3)] p by (simp add: fun_upd_idem)
  ultimately show ?thesis
    using lock_invD(1) [OF inv p] by (intro lock_inv_step [OF inv t p _ _ wp]) (auto intro: keep simp: apart)
qed

section \<open>Opening a lock file\<close>

lemma lock_inv_open:
  assumes inv: "lock_inv s G" and t: "sy_threads s t = Some (pid, m)" and p: "sy_processes s pid = Some p"
    and active: "gh_phase (G t) = Active" "gh_cx (G t) = cx"
    and k1: "kernel_grows (sy_kernel s) k1" "kn_fds k1 = kn_fds (sy_kernel s)" "kn_next (sy_kernel s) \<le> kn_next k1"
    and op: "open_and_track cx fd i p k1 = (r, p', k')"
    and st: "st = Anonymous \<or> st = Named name \<and> kn_names k1 (gh_path (G t), name) = Some i"
    and post: "\<And>r g'. (r = RFd fd \<and> fd \<notin> fst ` set (gh_owned (G t)) \<and> g' = owning (gh_owned (G t) @ [(fd, st)]) (G t)) \<or>
      (r = ROSError EOTHER \<and> g' = G t) \<Longrightarrow> P r g'"
    and wp: "\<And>r g'. P r g' \<Longrightarrow> wp (m' r) call_done g'"
  shows "\<exists>g'. P r g' \<and> lock_inv (s\<lparr>sy_processes := (sy_processes s)(pid \<mapsto> p'), sy_threads := (sy_threads s)(t \<mapsto> (pid, m' r)),
      sy_kernel := k'\<rparr>) (G(t := g'))"
proof (cases "file_of pid fd k1 = None")
  case False
  moreover have "pr_pid p = pid" using lock_invD(1) [OF inv p] by (simp add: process_ok_def)
  ultimately have "r = ROSError EOTHER" "p' = p" "k' = k1" using op by (auto simp: open_and_track_def)
  moreover from this post have P: "P r (G t)" by blast
  ultimately have "lock_inv (s\<lparr>sy_processes := (sy_processes s)(pid \<mapsto> p'), sy_threads := (sy_threads s)(t \<mapsto> (pid, m' r)),
      sy_kernel := k'\<rparr>) G" using wp [OF P] k1 by (intro lock_inv_quiet [OF inv t p]) auto
  with P show ?thesis by (intro exI [of _ "G t"]) simp
next
  case True
  let ?d = "kn_next k1" and ?g = "owning (gh_owned (G t) @ [(fd, st)]) (G t)"
  note kok = lock_invD(2) [OF inv]
  have pok: "process_ok pid p" and pid: "pr_pid p = pid" using lock_invD(1) [OF inv p] by (auto simp: process_ok_def)
  from True pid op have r: "r = RFd fd" and p': "p' = update_context cx (track_descriptor fd) p"
    and k': "k' = open_file pid fd i k1" by (auto simp: open_and_track_def)
  have k1_ok: "kernel_ok (sy_processes s) k1" using kok k1(2,3) by (rule kernel_ok_same_fds)
  have new: "((pid, fd), d) \<notin> set (kn_fds k1)" for d using True file_of_iff [OF k1_ok, of pid fd d] by auto
  have old: "d < ?d" if "(x, d) \<in> set (kn_fds k1)" for x d using fds_old [OF k1_ok] that by (cases x) auto
  have "kernel_grows k1 k'" by (auto simp: kernel_grows_def k' open_file_def)
  then have keep: "thread_ok q k' h" if "thread_ok q (sy_kernel s) h" for q h
    using thread_ok_grows [OF thread_ok_grows [OF that k1(1) kok] _ k1_ok] by blast
  from lock_invD(4) [OF inv t] p have gt: "thread_ok p (sy_kernel s) (G t)" by auto
  have fresh: "fd \<notin> fst ` set (gh_owned h)" if "thread_ok p (sy_kernel s) h" "gh_phase h = Active" for h
  proof
    note h = that
    assume "fd \<in> fst ` set (gh_owned h)"
    then obtain e where "(fd, e) \<in> set (gh_owned h)" by auto
    then obtain d where "file_of (pr_pid p) fd (sy_kernel s) = Some d" by (rule owned_open [OF h _ kok])
    with True k1(2) pid show False by (simp add: file_of_def)
  qed
  obtain c where c: "pr_contexts p cx = Some c" and live: "live_context p (G t) c" using gt active by (auto simp: thread_ok_def)
  have entry: "entry_ok pid (gh_path (G t)) k' (fd, st)"
    unfolding entry_ok_def
  proof (intro exI [of _ ?d] conjI)
    show "sole_reference k' (pid, fst (fd, st)) ?d" using old by (force simp: sole_reference_def k' open_file_def)
    show "status_ok (gh_path (G t)) k' ?d (snd (fd, st))" using st by (auto simp: status_ok_def k' open_file_def)
  qed
  have P: "P r ?g" using post r fresh [OF gt active(1)] by blast
  have "lock_inv (s\<lparr>sy_processes := (sy_processes s)(pid \<mapsto> p'), sy_threads := (sy_threads s)(t \<mapsto> (pid, m' r)),
      sy_kernel := k'\<rparr>) (G(t := ?g))"
  proof (rule lock_inv_step [OF inv t p])
    show "process_ok pid p'" unfolding p' by (rule process_ok_update [OF pok])
    show "wp (m' r) call_done ?g" by (rule wp [OF P])
    show "thread_ok q k' h" if "thread_ok q (sy_kernel s) h" for q h using that by (rule keep)
    show "kernel_ok ((sy_processes s)(pid \<mapsto> p')) k'"
      unfolding kernel_ok_def
    proof (intro conjI allI impI)
      show "distinct (map fst (kn_fds k'))"
        using k1_ok new by (auto simp: kernel_ok_def k' open_file_def)
      fix q fd' d assume e: "((q, fd'), d) \<in> set (kn_fds k')"
      then show "d < kn_next k'" using old by (auto simp: k' open_file_def less_Suc_eq)
      show "\<exists>p1 cx1 c1. ((sy_processes s)(pid \<mapsto> p')) q = Some p1 \<and> pr_contexts p1 cx1 = Some c1 \<and> fd' \<in> set (cx_descriptors c1)"
      proof (cases "((q, fd'), d) \<in> set (kn_fds k1)")
        case True
        with k1_ok obtain pq x cq where t: "sy_processes s q = Some pq" "pr_contexts pq x = Some cq" "fd' \<in> set (cx_descriptors cq)"
          unfolding kernel_ok_def by blast
        show ?thesis
        proof (cases "q = pid")
          case True
          with t p have "pr_contexts p' x = Some (if x = cx then track_descriptor fd cq else cq)" by (auto simp: p')
          with True t(3) show ?thesis
            by (intro exI [of _ p'] exI [of _ x]) (auto simp: track_descriptor_def)
        qed (use t in auto)
      next
        case False
        with e have "q = pid" "fd' = fd" by (auto simp: k' open_file_def)
        with c show ?thesis
          by (intro exI [of _ p'] exI [of _ cx] exI [of _ "track_descriptor fd c"])
            (simp add: p' track_descriptor_def)
      qed
    qed
    show "thread_ok p' k' ?g"
    proof -
      have "live_context p' ?g (track_descriptor fd c)"
        using live by (auto simp: live_context_def p' track_descriptor_def)
      moreover have "pr_contexts p' cx = Some (track_descriptor fd c)" using c by (simp add: p')
      ultimately show ?thesis
        using keep [OF gt] entry fresh [OF gt active(1)] active by (auto simp: thread_ok_def p' pid)
    qed
    fix h assume h: "thread_ok p (sy_kernel s) h" and apart: "apart (G t) h" "apart h (G t)"
    have "thread_ok p' (sy_kernel s) h"
      using h by (rule thread_ok_process) (use apart active in \<open>auto simp: context_kept_def p' apart_def\<close>)
    with keep fresh [OF h] apart show "thread_ok p' k' h \<and> apart ?g h \<and> apart h ?g"
      by (auto simp: apart_def)
  qed
  with P show ?thesis by blast
qed

section \<open>Publishing, locking and closing\<close>

lemma system_same [simp]: "sy_processes s pid = Some p \<Longrightarrow> (sy_processes s)(pid \<mapsto> p) = sy_processes s"
  by auto

lemma grows_next: "kn_fds k' = kn_fds k \<Longrightarrow> kn_file k' = kn_file k \<Longrightarrow>
    (\<And>x i. kn_names k x = Some i \<Longrightarrow> kn_names k' x = Some i) \<Longrightarrow>
    (\<And>i d. kn_flock k i = Some d \<Longrightarrow> kn_flock k' i = Some d) \<Longrightarrow> kernel_grows k k'"
  by (auto simp: kernel_grows_def)

lemma lock_inv_link:
  assumes inv: "lock_inv s G" and t: "sy_threads s t = Some (pid, Call (CLink fd path name) m)"
    and p: "sy_processes s pid = Some p" and r: "perform c (CLink fd path name) p (sy_kernel s) = (r, p', k')"
  shows "\<exists>g'. call_post (CLink fd path name) (G t) r g' \<and> lock_inv (s\<lparr>sy_processes := (sy_processes s)(pid \<mapsto> p'), sy_threads := (sy_threads s)(t \<mapsto> (pid, m r)),
      sy_kernel := k'\<rparr>) (G(t := g'))"
proof -
  let ?k = "sy_kernel s"
  have pre: "gh_phase (G t) = Active" "path = gh_path (G t)" "(fd, Anonymous) \<in> set (gh_owned (G t))"
    and post: "\<And>r g'. call_post (CLink fd path name) (G t) r g' \<Longrightarrow> wp (m r) call_done g'"
    using lock_invD(3) [OF inv t] by auto
  note kok = lock_invD(2) [OF inv]
  have pid: "pr_pid p = pid" using lock_invD(1) [OF inv p] by (simp add: process_ok_def)
  from lock_invD(4) [OF inv t] p have gt: "thread_ok p ?k (G t)" by auto
  from owned_open [OF gt pre(1,3) kok] obtain d where d: "file_of pid fd ?k = Some d" "sole_reference ?k (pid, fd) d"
    using pid by metis
  show ?thesis
  proof (cases "r = ROk")
    case True
    with r d pid have names: "kn_names ?k (path, name) = None" and p': "p' = p" and k': "kn_fds k' = kn_fds ?k" "kn_file k' = kn_file ?k"
      "kn_names k' = (kn_names ?k)((path, name) \<mapsto> kn_file ?k d)" "kn_flock k' = kn_flock ?k" "kn_next k' = kn_next ?k"
      by (auto simp: on_descriptor_def link_file_def Let_def split: if_splits)
    have "kernel_grows ?k k'" using names by (intro grows_next) (auto simp: k')
    moreover have "entry_ok pid (gh_path (G t)) k' (fd, Named name)"
      using d(2) pre(2) by (auto simp: entry_ok_def sole_reference_def status_ok_def k')
    moreover have P: "call_post (CLink fd path name) (G t) r (owning (set_status fd (Named name) (gh_owned (G t))) (G t))"
      using True by (auto simp: True)
    moreover have "wp (m r) call_done (owning (set_status fd (Named name) (gh_owned (G t))) (G t))"
      by (rule post [OF P])
    ultimately have "lock_inv (s\<lparr>sy_processes := (sy_processes s)(pid \<mapsto> p'), sy_threads := (sy_threads s)(t \<mapsto> (pid, m r)),
        sy_kernel := k'\<rparr>) (G(t := owning (set_status fd (Named name) (gh_owned (G t))) (G t)))"
      unfolding p' by (intro lock_inv_status [OF inv t p]) (simp_all add: k')
    with P show ?thesis by blast
  next
    case False
    with r d pid have "p' = p" "k' = ?k"
      by (auto simp: on_descriptor_def link_file_def Let_def split: if_splits)
    moreover have P: "call_post (CLink fd path name) (G t) r (G t)" by (simp add: False)
    ultimately have "lock_inv (s\<lparr>sy_processes := (sy_processes s)(pid \<mapsto> p'), sy_threads := (sy_threads s)(t \<mapsto> (pid, m r)),
        sy_kernel := k'\<rparr>) G" by (intro lock_inv_quiet [OF inv t p post [OF P]]) auto
    with P show ?thesis by (intro exI [of _ "G t"]) simp
  qed
qed

lemma lock_inv_flock:
  assumes inv: "lock_inv s G" and t: "sy_threads s t = Some (pid, Call (CFlock fd) m)"
    and p: "sy_processes s pid = Some p" and r: "perform c (CFlock fd) p (sy_kernel s) = (r, p', k')"
  shows "\<exists>g'. call_post (CFlock fd) (G t) r g' \<and> lock_inv (s\<lparr>sy_processes := (sy_processes s)(pid \<mapsto> p'), sy_threads := (sy_threads s)(t \<mapsto> (pid, m r)),
      sy_kernel := k'\<rparr>) (G(t := g'))"
proof -
  let ?k = "sy_kernel s"
  have pre: "gh_phase (G t) = Active" "\<exists>n. (fd, Named n) \<in> set (gh_owned (G t))"
    and post: "\<And>r g'. call_post (CFlock fd) (G t) r g' \<Longrightarrow> wp (m r) call_done g'"
    using lock_invD(3) [OF inv t] by auto
  from pre(2) obtain n where n: "(fd, Named n) \<in> set (gh_owned (G t))" by blast
  note kok = lock_invD(2) [OF inv]
  have pid: "pr_pid p = pid" using lock_invD(1) [OF inv p] by (simp add: process_ok_def)
  from lock_invD(4) [OF inv t] p have gt: "thread_ok p ?k (G t)" by auto
  from owned_open [OF gt pre(1) n kok] obtain d where d: "file_of pid fd ?k = Some d" "sole_reference ?k (pid, fd) d"
    and names: "kn_names ?k (gh_path (G t), n) = Some (kn_file ?k d)"
    using pid by (auto simp: status_ok_def)
  show ?thesis
  proof (cases "r = ROk")
    case True
    with r d pid have p': "p' = p" and k': "kn_fds k' = kn_fds ?k" "kn_file k' = kn_file ?k"
      "kn_names k' = kn_names ?k" "kn_next k' = kn_next ?k" and lock: "kn_flock k' (kn_file ?k d) = Some d"
      and keep: "\<And>i e. kn_flock ?k i = Some e \<Longrightarrow> kn_flock k' i = Some e"
      by (auto simp: on_descriptor_def lock_file_def Let_def split: if_splits option.splits)
    have "kernel_grows ?k k'" by (intro grows_next) (auto simp: k' keep)
    moreover have "entry_ok pid (gh_path (G t)) k' (fd, Locked n)"
      using d(2) names lock by (auto simp: entry_ok_def sole_reference_def status_ok_def k')
    moreover have P: "call_post (CFlock fd) (G t) r (owning (set_status fd (Locked n) (gh_owned (G t))) (G t))"
      using n by (auto simp: True)
    moreover have "wp (m r) call_done (owning (set_status fd (Locked n) (gh_owned (G t))) (G t))"
      by (rule post [OF P])
    ultimately have "lock_inv (s\<lparr>sy_processes := (sy_processes s)(pid \<mapsto> p'), sy_threads := (sy_threads s)(t \<mapsto> (pid, m r)),
        sy_kernel := k'\<rparr>) (G(t := owning (set_status fd (Locked n) (gh_owned (G t))) (G t)))"
      unfolding p' by (intro lock_inv_status [OF inv t p]) (simp_all add: k')
    with P show ?thesis by blast
  next
    case False
    with r d pid have "p' = p" "k' = ?k"
      by (auto simp: on_descriptor_def lock_file_def Let_def split: if_splits option.splits)
    moreover have P: "call_post (CFlock fd) (G t) r (G t)" by (simp add: False)
    ultimately have "lock_inv (s\<lparr>sy_processes := (sy_processes s)(pid \<mapsto> p'), sy_threads := (sy_threads s)(t \<mapsto> (pid, m r)),
        sy_kernel := k'\<rparr>) G" by (intro lock_inv_quiet [OF inv t p post [OF P]]) auto
    with P show ?thesis by (intro exI [of _ "G t"]) simp
  qed
qed

lemma apart_owning:
  assumes "apart g h" "apart h g" and sub: "fst ` set owned \<subseteq> fst ` set (gh_owned g)"
  shows "apart (owning owned g) h \<and> apart h (owning owned g)"
proof -
  have left: "fst ` set (gh_owned g) \<inter> fds = {} \<Longrightarrow> fst ` set owned \<inter> fds = {}" for fds using sub by blast
  have right: "fds \<inter> fst ` set (gh_owned g) = {} \<Longrightarrow> fds \<inter> fst ` set owned = {}" for fds using sub by blast
  show ?thesis
    using assms(1,2) left [of "fst ` set (gh_owned h)"] right [of "fst ` set (gh_owned h)"]
    by (simp add: apart_def)
qed

lemma lock_inv_close:
  assumes inv: "lock_inv s G" and t: "sy_threads s t = Some (pid, Call (CClose cx fd unlock) m)"
    and p: "sy_processes s pid = Some p" and r: "close_descriptor cx fd unlock a b p (sy_kernel s) = (r, p', k')"
  shows "\<exists>g'. call_post (CClose cx fd unlock) (G t) r g' \<and> lock_inv (s\<lparr>sy_processes := (sy_processes s)(pid \<mapsto> p'), sy_threads := (sy_threads s)(t \<mapsto> (pid, m r)),
      sy_kernel := k'\<rparr>) (G(t := g'))"
proof -
  let ?k = "sy_kernel s" and ?g = "owning (drop_fd fd (gh_owned (G t))) (G t)"
  have pre: "gh_phase (G t) = Active" "gh_cx (G t) = cx" "fd \<in> fst ` set (gh_owned (G t))"
    and post: "wp (m r) call_done ?g"
    using lock_invD(3) [OF inv t] by (auto simp: owns_context_def)
  note kok = lock_invD(2) [OF inv]
  have pok: "process_ok pid p" and pid: "pr_pid p = pid" using lock_invD(1) [OF inv p] by (auto simp: process_ok_def)
  from lock_invD(4) [OF inv t] p have gt: "thread_ok p ?k (G t)" by auto
  from pre(3) obtain st where "(fd, st) \<in> set (gh_owned (G t))" by auto
  from owned_open [OF gt pre(1) this kok] obtain d where d: "file_of pid fd ?k = Some d" "sole_reference ?k (pid, fd) d"
    using pid by metis
  have p': "p' = update_context cx (discard_descriptor fd) p"
    and k': "k' = close_entries (\<lambda>e. e = (pid, fd)) (if unlock \<and> a then unlock_file d ?k else ?k)"
    using r d pid by (auto simp: close_descriptor_def Let_def)
  have entry: "entry_ok q path k' e" if "entry_ok q path ?k e" "(q, fst e) \<noteq> (pid, fd)" for q path e
    unfolding k' using that entry_ok_unlock [OF that(1) sole_member [OF d(2)]]
    by (intro entry_ok_close) auto
  obtain c where c: "pr_contexts p cx = Some c" and live: "live_context p (G t) c" using gt pre by (auto simp: thread_ok_def)
  have "lock_inv (s\<lparr>sy_processes := (sy_processes s)(pid \<mapsto> p'), sy_threads := (sy_threads s)(t \<mapsto> (pid, m r)),
      sy_kernel := k'\<rparr>) (G(t := ?g))"
  proof (rule lock_inv_step [OF inv t p _ _ post])
    show "process_ok pid p'" unfolding p' by (rule process_ok_update [OF pok])
    show "thread_ok q k' h" if "q' \<noteq> pid" "process_ok q' q" "thread_ok q ?k h" for q q' h
      using that(3) by (rule thread_ok_kernel) (use that(1,2) in \<open>auto intro!: entry simp: process_ok_def\<close>)
    show "kernel_ok ((sy_processes s)(pid \<mapsto> p')) k'"
      unfolding kernel_ok_def
    proof (intro conjI allI impI)
      show "distinct (map fst (kn_fds k'))"
        using kok by (simp add: kernel_ok_def k' distinct_map_filter)
      fix q fd' d' assume "((q, fd'), d') \<in> set (kn_fds k')"
      then have e: "((q, fd'), d') \<in> set (kn_fds ?k)" "(q, fd') \<noteq> (pid, fd)" by (auto simp: k' split: if_splits)
      with kok show "d' < kn_next k'" by (auto simp: kernel_ok_def k')
      from e kok obtain pq x cq where u: "sy_processes s q = Some pq" "pr_contexts pq x = Some cq" "fd' \<in> set (cx_descriptors cq)"
        unfolding kernel_ok_def by blast
      show "\<exists>p1 cx1 c1. ((sy_processes s)(pid \<mapsto> p')) q = Some p1 \<and> pr_contexts p1 cx1 = Some c1 \<and> fd' \<in> set (cx_descriptors c1)"
      proof (cases "q = pid")
        case True
        with u p have "pr_contexts p' x = Some (if x = cx then discard_descriptor fd cq else cq)" by (auto simp: p')
        with True u(3) e(2) show ?thesis
          by (intro exI [of _ p'] exI [of _ x]) (auto simp: discard_descriptor_def)
      qed (use u in auto)
    qed
    show "thread_ok p' k' ?g"
    proof -
      have "live_context p' ?g (discard_descriptor fd c)"
        using live by (auto simp: live_context_def p' discard_descriptor_def drop_fd_def)
      moreover have "pr_contexts p' cx = Some (discard_descriptor fd c)" using c by (simp add: p')
      moreover have "\<forall>e \<in> set (drop_fd fd (gh_owned (G t))). entry_ok pid (gh_path (G t)) k' e"
        using gt pre(1) pid by (auto simp: drop_fd_def thread_ok_def intro!: entry)
      moreover have "distinct (map fst (drop_fd fd (gh_owned (G t))))"
        using gt pre(1) by (simp add: drop_fd_def thread_ok_def distinct_map_filter)
      ultimately show ?thesis using pre pid by (auto simp: thread_ok_def p')
    qed
    fix h assume h: "thread_ok p ?k h" and apart: "apart (G t) h" "apart h (G t)"
    have "fst e \<noteq> fd" if "gh_phase h = Active" "e \<in> set (gh_owned h)" for e
      using apart(1) pre that by (auto simp: apart_def)
    then have "thread_ok p k' h"
      using h by (intro thread_ok_kernel [OF h] entry) auto
    then have "thread_ok p' k' h"
      by (rule thread_ok_process) (use apart pre in \<open>auto simp: context_kept_def p' apart_def\<close>)
    moreover have "fst ` set (drop_fd fd (gh_owned (G t))) \<subseteq> fst ` set (gh_owned (G t))" by (auto simp: drop_fd_def)
    ultimately show "thread_ok p' k' h \<and> apart ?g h \<and> apart h ?g"
      using apart_owning apart by blast
  qed
  then show ?thesis by (intro exI [of _ ?g]) simp
qed

section \<open>Every call\<close>

lemma inherited_reply:
  assumes "thread_ok p k g" and "pr_pid p = pid" and "gh_phase g = Gone \<or> gh_phase g = Active"
  shows "is_inherited (gh_cx g) p \<longleftrightarrow> gh_phase g = Gone"
  using assms by (auto simp: thread_ok_def live_context_def is_inherited_def)

lemma keeps_directories [simp]: "keeps_context (\<lambda>c. c\<lparr>cx_directories := n\<rparr>)"
  by (simp add: keeps_context_def)

lemma grows_stat [simp]: "kernel_grows k (k\<lparr>kn_stat := f\<rparr>)"
  by (intro grows_next) auto

lemma grows_new_inode: "new_inode identity k = (i, k') \<Longrightarrow> kernel_grows k k' \<and> kn_fds k' = kn_fds k \<and> kn_next k \<le> kn_next k'"
  by (auto simp: new_inode_def kernel_grows_def)

lemma lock_inv_call:
  assumes inv: "lock_inv s G" and t: "sy_threads s t = Some (pid, Call a m)"
    and p: "sy_processes s pid = Some p" and r: "perform c a p (sy_kernel s) = (r, p', k')"
  shows "\<exists>g'. call_post a (G t) r g' \<and> lock_inv (s\<lparr>sy_processes := (sy_processes s)(pid \<mapsto> p'), sy_threads := (sy_threads s)(t \<mapsto> (pid, m r)),
      sy_kernel := k'\<rparr>) (G(t := g'))"
proof -
  let ?k = "sy_kernel s"
  let ?goal = "\<exists>g'. call_post a (G t) r g' \<and> lock_inv (s\<lparr>sy_processes := (sy_processes s)(pid \<mapsto> p'), sy_threads := (sy_threads s)(t \<mapsto> (pid, m r)),
      sy_kernel := k'\<rparr>) (G(t := g'))"
  have pre: "call_pre a (G t)" and post: "\<And>r g'. call_post a (G t) r g' \<Longrightarrow> wp (m r) call_done g'"
    using lock_invD(3) [OF inv t] by auto
  have pid: "pr_pid p = pid" using lock_invD(1) [OF inv p] by (simp add: process_ok_def)
  from lock_invD(4) [OF inv t] p have gt: "thread_ok p ?k (G t)" by auto
  have quiet: ?goal if "call_post a (G t) r (G t)" "p' = p \<or> (\<exists>cx f. p' = update_context cx f p \<and> keeps_context f)"
    "k' = ?k \<or> (\<exists>f. k' = ?k\<lparr>kn_stat := f\<rparr>)"
  proof -
    have "lock_inv (s\<lparr>sy_processes := (sy_processes s)(pid \<mapsto> p'), sy_threads := (sy_threads s)(t \<mapsto> (pid, m r)),
        sy_kernel := k'\<rparr>) G"
      using that post by (intro lock_inv_quiet [OF inv t p]) auto
    with that(1) show ?thesis by (intro exI [of _ "G t"]) simp
  qed
  have rest: ?goal if "call_post a (G t) r (G t) \<and> p' = p \<and> (k' = ?k \<or> (\<exists>f. k' = ?k\<lparr>kn_stat := f\<rparr>))"
    using that quiet by blast
  show ?thesis
  proof (cases a)
    case (CReserve path names)
    with r obtain "reserve_context path names p = (r, p')" "k' = ?k" by (auto split: prod.splits)
    with lock_inv_reserve [OF inv _ p] t CReserve show ?thesis by auto
  next
    case (CUnregister cx)
    with r have "p' = unregister_context cx p" "k' = ?k" by auto
    with lock_inv_unregister [OF inv _ p] t CUnregister show ?thesis by auto
  next
    case (COpenTmp cx path)
    show ?thesis
    proof (cases "\<exists>fd identity. c = Opens fd identity")
      case True
      then obtain fd identity where c: "c = Opens fd identity" by blast
      obtain i k1 where k1: "new_inode identity ?k = (i, k1)" by fastforce
      with r c COpenTmp have op: "open_and_track cx fd i p k1 = (r, p', k')" by simp
      from grows_new_inode [OF k1] pre COpenTmp show ?thesis
        by (intro lock_inv_open [OF inv t p _ _ _ _ _ op, of Anonymous, OF _ _ _ _ _ _ _ post]) (auto simp: owns_context_def)
    next
      case False
      with r COpenTmp have "r = ROSError EOTHER" "p' = p" "k' = ?k" by (auto split: choice.splits)
      with quiet COpenTmp show ?thesis by simp
    qed
  next
    case (COpenName cx path name)
    show ?thesis
    proof (cases "\<exists>fd identity i. c = Opens fd identity \<and> kn_names ?k (path, name) = Some i")
      case True
      then obtain fd identity i where c: "c = Opens fd identity" "kn_names ?k (path, name) = Some i" by blast
      with r COpenName have op: "open_and_track cx fd i p ?k = (r, p', k')" by simp
      from pre c COpenName show ?thesis
        by (intro lock_inv_open [OF inv t p _ _ _ _ _ op, of "Named name", OF _ _ _ _ _ _ _ post]) (auto simp: owns_context_def)
    next
      case False
      with r COpenName have "r = ROSError EOTHER" "p' = p" "k' = ?k" by (auto split: choice.splits option.splits)
      with quiet COpenName show ?thesis by simp
    qed
  next
    case (CLink fd path name)
    with lock_inv_link [OF inv _ p] t r show ?thesis by blast
  next
    case (CFlock fd)
    with lock_inv_flock [OF inv _ p] t r show ?thesis by blast
  next
    case (CClose cx fd unlock)
    with r obtain x y where "close_descriptor cx fd unlock x y p ?k = (r, p', k')" by (auto split: choice.splits)
    with lock_inv_close [OF inv _ p] t CClose show ?thesis by blast
  next
    case (CInherited cx)
    with r have "r = RBool (is_inherited cx p)" "p' = p" "k' = ?k" by auto
    with quiet pre inherited_reply [OF gt pid] CInherited show ?thesis by auto
  next
    case (COpenDirs cx path uid)
    with r have "\<exists>n. p' = update_context cx (\<lambda>c. c\<lparr>cx_directories := n\<rparr>) p" "k' = ?k" by (auto split: choice.splits)
    with COpenDirs show ?thesis by (intro quiet) (auto intro: keeps_directories)
  next
    case (CCloseDirs cx)
    with r have "p' = update_context cx (\<lambda>c. c\<lparr>cx_directories := 0\<rparr>) p" "k' = ?k" by auto
    with CCloseDirs show ?thesis by (intro quiet) (auto intro: keeps_directories)
  qed ((rule rest; insert r; auto simp: on_descriptor_def split: if_splits option.splits choice.splits; fail)+)
qed

section \<open>Every step of the system\<close>

lemma lock_inv_run:
  assumes "lock_inv s G" "sy_threads s t = Some (pid, Call a m)" "sy_processes s pid = Some p"
    "perform c a p (sy_kernel s) = (r, p', k')"
  shows "\<exists>G'. lock_inv (s\<lparr>sy_processes := (sy_processes s)(pid \<mapsto> p'), sy_threads := (sy_threads s)(t \<mapsto> (pid, m r)),
      sy_kernel := k'\<rparr>) G'"
  using lock_inv_call [OF assms] by blast

lemma no_thread: "lock_inv s G \<Longrightarrow> sy_processes s pid = None \<Longrightarrow> sy_threads s t \<noteq> Some (pid, m)"
  using lock_invD(4) by fastforce

lemma lock_inv_spawn:
  assumes inv: "lock_inv s G" and none: "sy_processes s pid = None"
  shows "lock_inv (s\<lparr>sy_processes := (sy_processes s)(pid \<mapsto> new_process pid)\<rparr>) G"
proof -
  have "kernel_ok ((sy_processes s)(pid \<mapsto> new_process pid)) (sy_kernel s)"
    using lock_invD(2) [OF inv] none unfolding kernel_ok_def by (metis fun_upd_other option.distinct(1))
  moreover have "process_ok pid (new_process pid)" by (simp add: process_ok_def new_process_def)
  ultimately show ?thesis
    using inv none unfolding lock_inv_def by (fastforce split: if_splits)
qed

lemma lock_inv_enter:
  assumes inv: "lock_inv s G" and t: "sy_threads s t = None" and pid: "sy_processes s pid \<noteq> None"
  shows "lock_inv (s\<lparr>sy_threads := (sy_threads s)(t \<mapsto> (pid, acquire_pki_locks path profile no_state uid))\<rparr>) (G(t := idle))"
proof -
  have idle: "gh_phase idle = Idle" by (simp add: idle_def)
  then have "apart idle h" "apart h idle" for h by (simp_all add: apart_def)
  moreover have "thread_ok p k idle" for p k using idle by simp
  ultimately show ?thesis
    using inv pid wp_acquire_pki_locks unfolding lock_inv_def by (fastforce split: if_splits)
qed

lemma thread_ok_cong:
  assumes "kn_fds k' = kn_fds k" "kn_file k' = kn_file k" "kn_names k' = kn_names k" "kn_flock k' = kn_flock k"
  shows "thread_ok p k' g = thread_ok p k g"
proof -
  have "status_ok path k' d st = status_ok path k d st" for path d st
    by (simp add: status_ok_def assms split: fd_status.split)
  then show ?thesis by (simp add: thread_ok_def entry_ok_def sole_reference_def assms(1))
qed

lemma lock_inv_chattr: "lock_inv s G \<Longrightarrow> lock_inv (s\<lparr>sy_kernel := (sy_kernel s)\<lparr>kn_stat := f\<rparr>\<rparr>) G"
  using thread_ok_cong [of "(sy_kernel s)\<lparr>kn_stat := f\<rparr>" "sy_kernel s"] by (simp add: lock_inv_def kernel_ok_def)

lemma lock_inv_die:
  assumes inv: "lock_inv s G"
  shows "lock_inv (s\<lparr>sy_processes := (sy_processes s)(pid := None),
      sy_threads := (\<lambda>t. case sy_threads s t of None \<Rightarrow> None | Some (q, m) \<Rightarrow> if q = pid then None else Some (q, m)),
      sy_kernel := close_entries (\<lambda>e. fst e = pid) (sy_kernel s)\<rparr>) G" (is "lock_inv ?s G")
proof -
  have threads: "sy_threads ?s t = Some (q, m) \<longleftrightarrow> sy_threads s t = Some (q, m) \<and> q \<noteq> pid" for t q m
    by (auto split: option.splits prod.splits)
  have ok: "thread_ok p (close_entries (\<lambda>e. fst e = pid) (sy_kernel s)) h"
    if "thread_ok p (sy_kernel s) h" "pr_pid p \<noteq> pid" for p h
    using that(1) by (rule thread_ok_kernel) (use that(2) in \<open>auto intro: entry_ok_close\<close>)
  have "kernel_ok (sy_processes ?s) (sy_kernel ?s)"
    using lock_invD(2) [OF inv] unfolding kernel_ok_def
    by (auto simp: distinct_map_filter)
  moreover have "\<exists>p. sy_processes ?s q = Some p \<and> thread_ok p (sy_kernel ?s) (G t)" if "sy_threads ?s t = Some (q, m)" for t q m
  proof -
    from that threads have q: "sy_threads s t = Some (q, m)" "q \<noteq> pid" by blast+
    with lock_invD(4) [OF inv] obtain p where p: "sy_processes s q = Some p" "thread_ok p (sy_kernel s) (G t)" by blast
    with lock_invD(1) [OF inv p(1)] q(2) ok [OF p(2)] show ?thesis by (auto simp: process_ok_def)
  qed
  ultimately show ?thesis
    using lock_invD(1,3,5) [OF inv] threads unfolding lock_inv_def by (auto split: if_splits)
qed

section \<open>Fork\<close>

lemma tracked_iff:
  "fd \<in> set (tracked_descriptors p) \<longleftrightarrow>
     (\<exists>cx c. cx \<in> set (pr_active p) \<and> pr_contexts p cx = Some c \<and> fd \<in> set (cx_descriptors c))"
proof -
  have "fd \<in> set (case pr_contexts p cx of None \<Rightarrow> [] | Some c \<Rightarrow> cx_descriptors c) \<longleftrightarrow>
      (\<exists>c. pr_contexts p cx = Some c \<and> fd \<in> set (cx_descriptors c))" for cx
    by (cases "pr_contexts p cx") auto
  then show ?thesis by (simp add: tracked_descriptors_def) blast
qed

lemma fork_fds:
  "((q, fd), d) \<in> set (kn_fds (fork_kernel child p k)) \<longleftrightarrow>
     (((q, fd), d) \<in> set (kn_fds k) \<or> q = child \<and> ((pr_pid p, fd), d) \<in> set (kn_fds k)) \<and>
     \<not> (q = child \<and> fd \<in> set (tracked_descriptors p))"
  by (force simp: fork_kernel_def image_iff)

lemma fork_simps [simp]:
  "kn_file (fork_kernel child p k) = kn_file k" "kn_names (fork_kernel child p k) = kn_names k"
  "kn_next (fork_kernel child p k) = kn_next k"
  by (simp_all add: fork_kernel_def)

lemma fork_flock:
  assumes "kn_flock k i = Some d" and "((q, fd), d) \<in> set (kn_fds k)" and "q \<noteq> child"
  shows "kn_flock (fork_kernel child p k) i = Some d"
  unfolding fork_kernel_def
  by (rule flock_close_entries [where x = "(q, fd)"]) (use assms in auto)

lemma sole_referenceI:
  "(x, d) \<in> set (kn_fds k) \<Longrightarrow> (\<And>y. (y, d) \<in> set (kn_fds k) \<Longrightarrow> y = x) \<Longrightarrow> sole_reference k x d"
  unfolding sole_reference_def by blast

text \<open>An owned descriptor is tracked by an active context, so the child has no reference to it.\<close>

lemma entry_ok_fork:
  assumes e: "entry_ok q path k (fd, st)" and "q \<noteq> child"
    and tracked: "q = pr_pid p \<Longrightarrow> fd \<in> set (tracked_descriptors p)"
  shows "entry_ok q path (fork_kernel child p k) (fd, st)"
proof -
  from e obtain d where sole: "sole_reference k (q, fd) d" and st: "status_ok path k d st" by (auto elim: entry_okE)
  have "x = (q, fd)" if x: "(x, d) \<in> set (kn_fds (fork_kernel child p k))" for x
  proof (cases x)
    case (Pair q' fd')
    with x have "((q', fd'), d) \<in> set (kn_fds k) \<or>
        q' = child \<and> ((pr_pid p, fd'), d) \<in> set (kn_fds k) \<and> fd' \<notin> set (tracked_descriptors p)"
      by (auto simp: fork_fds)
    with Pair tracked show ?thesis using sole_unique [OF sole] by blast
  qed
  moreover have "((q, fd), d) \<in> set (kn_fds (fork_kernel child p k))"
    using sole_member [OF sole] assms(2) by (simp add: fork_fds)
  ultimately have "sole_reference (fork_kernel child p k) (q, fd) d" by (intro sole_referenceI)
  moreover have "status_ok path (fork_kernel child p k) d st"
    using st fork_flock [OF _ sole_member [OF sole] assms(2)] by (auto simp: status_ok_def split: fd_status.splits)
  ultimately show ?thesis by (auto simp: entry_ok_def)
qed

lemma kernel_ok_fork:
  assumes k: "kernel_ok ps k" and p: "ps (pr_pid p) = Some p" and child: "ps child = None"
    and free: "\<forall>e \<in> set (kn_fds k). fst (fst e) \<noteq> child"
  shows "kernel_ok (ps(child \<mapsto> at_fork_child child p)) (fork_kernel child p k)"
  unfolding kernel_ok_def
proof (intro conjI allI impI)
  let ?copies = "map (\<lambda>e. ((child, snd (fst e)), snd e)) (filter (\<lambda>e. fst (fst e) = pr_pid p) (kn_fds k))"
  have d: "distinct (map fst (kn_fds k))" using k by (simp add: kernel_ok_def)
  then have own: "distinct (map fst (filter (\<lambda>e. fst (fst e) = pr_pid p) (kn_fds k)))" by (simp add: distinct_map_filter)
  have "map fst ?copies = map (\<lambda>x. (child, snd x)) (map fst (filter (\<lambda>e. fst (fst e) = pr_pid p) (kn_fds k)))" by simp
  moreover have "inj_on (\<lambda>x. (child, snd x)) (set (map fst (filter (\<lambda>e. fst (fst e) = pr_pid p) (kn_fds k))))"
    by (auto simp: inj_on_def)
  ultimately have "distinct (map fst ?copies)" using own by (simp only: distinct_map simp_thms)
  then have "distinct (map fst (kn_fds k @ ?copies))" using d free by auto
  then show "distinct (map fst (kn_fds (fork_kernel child p k)))"
    by (simp add: fork_kernel_def distinct_map_filter del: map_append filter_append)
  fix q fd d assume e: "((q, fd), d) \<in> set (kn_fds (fork_kernel child p k))"
  then show "d < kn_next (fork_kernel child p k)" using k by (auto simp: fork_fds kernel_ok_def)
  show "\<exists>p1 cx c. (ps(child \<mapsto> at_fork_child child p)) q = Some p1 \<and> pr_contexts p1 cx = Some c \<and> fd \<in> set (cx_descriptors c)"
  proof (cases "q = child")
    case True
    with e free have "((pr_pid p, fd), d) \<in> set (kn_fds k)" and "fd \<notin> set (tracked_descriptors p)"
      by (auto simp: fork_fds)
    moreover from this k p obtain x c where "pr_contexts p x = Some c" "fd \<in> set (cx_descriptors c)"
      unfolding kernel_ok_def by force
    ultimately have "pr_contexts (at_fork_child child p) x = Some c" "fd \<in> set (cx_descriptors c)"
      by (auto simp: at_fork_child_def tracked_iff)
    with True show ?thesis by (intro exI [of _ "at_fork_child child p"] exI [of _ x] exI [of _ c]) simp
  next
    case False
    with e k child show ?thesis unfolding kernel_ok_def by (auto simp: fork_fds)
  qed
qed

lemma lock_inv_fork:
  assumes inv: "lock_inv s G" and t: "sy_threads s t = Some (pid, Call (CBody cx) m)"
    and p: "sy_processes s pid = Some p" and child: "sy_processes s child = None"
    and free: "\<forall>e \<in> set (kn_fds (sy_kernel s)). fst (fst e) \<noteq> child" and t': "sy_threads s t' = None"
  shows "lock_inv (s\<lparr>sy_processes := (sy_processes s)(child \<mapsto> at_fork_child child p),
      sy_threads := (sy_threads s)(t' \<mapsto> (child, Call (CBody cx) m)),
      sy_kernel := fork_kernel child p (sy_kernel s)\<rparr>) (G(t' := gone (G t)))" (is "lock_inv ?s ?G")
proof -
  let ?k = "sy_kernel s"
  have pok: "process_ok pid p" and pid: "pr_pid p = pid" using lock_invD(1) [OF inv p] by (auto simp: process_ok_def)
  from lock_invD(4) [OF inv t] p have gt: "thread_ok p ?k (G t)" by auto
  have pre: "gh_cx (G t) = cx" "gh_phase (G t) = Gone \<or> gh_phase (G t) = Active"
    and post: "\<And>r. wp (m r) call_done (gone (G t))"
    using lock_invD(3) [OF inv t] by auto
  have kept: "thread_ok q (fork_kernel child p ?k) h" if q: "sy_processes s x = Some q" and h: "thread_ok q ?k h" for x q h
    using h
  proof (rule thread_ok_kernel)
    fix e assume e: "gh_phase h = Active" "e \<in> set (gh_owned h)" "entry_ok (pr_pid q) (gh_path h) ?k e"
    have x: "pr_pid q = x" using lock_invD(1) [OF inv q] by (simp add: process_ok_def)
    with q child have "pr_pid q \<noteq> child" by auto
    moreover have "fst e \<in> set (tracked_descriptors p)" if "pr_pid q = pr_pid p"
    proof -
      from that pid q p x have "q = p" by auto
      with h e show ?thesis by (force simp: thread_ok_def live_context_def tracked_iff)
    qed
    ultimately show "entry_ok (pr_pid q) (gh_path h) (fork_kernel child p ?k) e"
      using e(3) entry_ok_fork [of "pr_pid q" "gh_path h" ?k "fst e" "snd e" child p] by auto
  qed
  have new: "thread_ok (at_fork_child child p) (fork_kernel child p ?k) (gone (G t))"
    using gt pre by (auto simp: thread_ok_def gone_def at_fork_child_def live_context_def)
  have alone: "sy_threads s x \<noteq> Some (child, m')" for x m' using no_thread [OF inv child] .
  show ?thesis
    unfolding lock_inv_def
  proof (intro conjI allI impI, goal_cases)
    case (1 q pq)
    moreover have "process_ok child (at_fork_child child p)"
      using pok by (auto simp: process_ok_def at_fork_child_def split: option.splits)
    ultimately show ?case using lock_invD(1) [OF inv] by (auto split: if_splits)
  next
    case 2
    show ?case using kernel_ok_fork [OF lock_invD(2) [OF inv]] p pid child free by simp
  next
    case (3 x q m')
    then show ?case
      using lock_invD(3) [OF inv] post pre(1) by (auto simp: gone_def split: if_splits)
  next
    case (4 x q m')
    show ?case
    proof (cases "x = t'")
      case True
      with 4 new show ?thesis by auto
    next
      case False
      with 4 have x: "sy_threads s x = Some (q, m')" by simp
      with lock_invD(4) [OF inv] obtain pq where "sy_processes s q = Some pq" "thread_ok pq ?k (G x)" by blast
      with kept x alone False child show ?thesis by auto
    qed
  next
    case (5 x y q m1 m2)
    with alone lock_invD(5) [OF inv] show ?case by (auto split: if_splits)
  qed
qed

section \<open>Reachable states\<close>

lemma lock_inv_lock_step: "lock_step s s' \<Longrightarrow> lock_inv s G \<Longrightarrow> \<exists>G'. lock_inv s' G'"
proof (induction rule: lock_step.induct)
  case (spawn s pid)
  then show ?case using lock_inv_spawn by blast
next
  case (enter s t pid path profile no_state uid)
  then show ?case using lock_inv_enter by blast
next
  case (run s t pid a g p c r p' k')
  then show ?case using lock_inv_run by blast
next
  case (fork s t pid cx g p child t')
  then show ?case using lock_inv_fork by blast
next
  case (die s pid p)
  then show ?case using lock_inv_die by blast
next
  case (chattr s f)
  then show ?case using lock_inv_chattr by blast
qed

lemma lock_inv_initial: "initial_system s \<Longrightarrow> lock_inv s (\<lambda>_. idle)"
  by (simp add: initial_system_def lock_inv_def kernel_ok_def)

interpretation lock_system: invariant initial_system lock_step "\<lambda>s. \<exists>G. lock_inv s G"
  by unfold_locales (use lock_inv_initial lock_inv_lock_step in blast)+

end
