(* ===== verification/LockBounds.thy ===== *)
theory LockBounds
  imports LockSystem
begin

text \<open>
  How many calls a lock program makes. The locks are requested without waiting, so an acquisition is
  bounded: \<open>within m n Q\<close> says that the program makes at most \<open>n\<close> calls and ends with a
  value that satisfies \<open>Q\<close>, whatever the replies are.
\<close>

primrec within :: "'a prog \<Rightarrow> nat \<Rightarrow> ('a \<Rightarrow> bool) \<Rightarrow> bool" where
  "within (Done x) = (\<lambda>n Q. Q x)"
| "within (Call c k) = (\<lambda>n Q. 0 < n \<and> (\<forall>r. within (k r) (n - 1) Q))"

abbreviation bounded :: "'a prog \<Rightarrow> nat \<Rightarrow> bool" where
  "bounded m n \<equiv> within m n (\<lambda>_. True)"

lemma within_mono: "within m a P \<Longrightarrow> a \<le> b \<Longrightarrow> (\<And>x. P x \<Longrightarrow> Q x) \<Longrightarrow> within m b Q"
proof (induction m arbitrary: a b)
  case (Call c k)
  show ?case
    using Call.prems by (auto intro!: Call.IH [OF rangeI, of _ "a - 1"])
qed simp

lemma within_seq:
  "within m a P \<Longrightarrow> (\<And>x. P x \<Longrightarrow> within (f x) b Q) \<Longrightarrow> a + b \<le> n \<Longrightarrow> within (seqP m f) n Q"
proof (induction m arbitrary: a n)
  case (Done x)
  then show ?case by (auto intro: within_mono [of _ b Q])
next
  case (Call c k)
  show ?case
    using Call.prems by (auto intro!: Call.IH [OF rangeI, of _ "a - 1"])
qed

lemma bounded_bind: "bounded m a \<Longrightarrow> (\<And>x. bounded (f x) b) \<Longrightarrow> a + b \<le> n \<Longrightarrow> bounded (bindA m f) n"
  unfolding bindA_def by (rule within_seq) (auto split: sum.splits)

lemma bounded_results [simp]:
  "bounded (requireA ok e) n" "bounded (raise_primary p c) n" "bounded (raise_or_return q) n"
  by (simp_all add: requireA_def retA_def raiseA_def raise_primary_def raise_or_return_def split: option.splits)

lemma bounded_retA [simp]: "bounded (retA x) n"
  by (simp add: retA_def)

lemma bounded_raiseA [simp]: "bounded (raiseA e) n"
  by (simp add: raiseA_def)

lemma bounded_steps:
  "bounded (checkpoint name phase) 2" "bounded (identity_at path name acquiring) 1" "bounded (fstat_lock fd) 1"
  "bounded (inheritable_check fd e e') 1" "bounded (recheck_directory path) 1" "bounded (open_tracked c) 1"
  "bounded (flock_exclusive fd name) 1" "bounded (publish_anonymous_lock path fd name) 1"
  "bounded (close_tracked cx fd unlock) 1" "bounded (close_directories cx) 1"
  by (auto simp: checkpoint_def identity_at_def fstat_lock_def inheritable_check_def recheck_directory_def
      open_tracked_def flock_exclusive_def publish_anonymous_lock_def close_tracked_def close_directories_def Let_def
      split: reply.splits os_error.splits)

lemma bounded_closing: "bounded m a \<Longrightarrow> a + 1 \<le> n \<Longrightarrow> bounded (closing cx fd locked m) n"
  unfolding closing_def
  by (erule within_seq [where b = 1])
    (auto split: sum.splits intro!: within_seq [where b = 0, OF bounded_steps(9)])

lemma bounded_init: "bounded (init_anonymous fd uid) 3"
  by (auto simp: init_anonymous_def
      intro!: bounded_bind [OF bounded_steps(4), of _ 1] bounded_bind [OF bounded_steps(3), of _ 0]
        bounded_bind [of "requireA _ _" 0 _ 0])

lemma bounded_create: "bounded (create_anonymous_lock cx path uid) 5"
  unfolding create_anonymous_lock_def
  by (rule bounded_bind [OF bounded_steps(6), where b = 4])
    (auto intro!: within_seq [OF bounded_init, where b = 1] within_seq [where b = 0, OF bounded_steps(9)]
      split: sum.splits)

lemma bounded_require: "bounded f' n \<Longrightarrow> bounded (bindA (requireA ok e) (\<lambda>_. f')) n"
  by (rule bounded_bind [where a = 0 and b = n]) auto

lemma bounded_verify: "bounded (verify_and_lock path name uid before fd) 6"
  unfolding verify_and_lock_def
  by (rule bounded_bind [OF bounded_steps(1), where b = 4], rule bounded_bind [OF bounded_steps(3), where b = 3])
    (auto intro!: bounded_require bounded_bind [OF bounded_steps(2), where b = 2]
      bounded_bind [OF bounded_steps(5), where b = 1] bounded_bind [OF bounded_steps(7), where b = 0]
      split: option.splits)

lemma bounded_confirm: "bounded (confirm_locked path name uid opened) 4"
  unfolding confirm_locked_def
  by (rule bounded_bind [OF bounded_steps(1), where b = 2])
    (auto intro!: bounded_require bounded_bind [OF bounded_steps(2), where b = 1] split: option.splits
      simp: bounded_steps [simplified])

lemma bounded_lock_descriptor:
  "bounded setup' 3 \<Longrightarrow> bounded (lock_descriptor cx path name uid before fd setup') 15"
  unfolding lock_descriptor_def
  by (rule bounded_bind [where a = 10 and b = 5])
    (auto intro!: bounded_closing [where a = 9] bounded_bind [where b = 6, OF _ bounded_verify]
      bounded_bind [where a = 5 and b = 0] bounded_closing [OF bounded_confirm])

lemma bounded_publish:
  "bounded (bindA (checkpoint name phase) (\<lambda>_. publish_anonymous_lock path fd name)) 3"
  by (rule bounded_bind [OF bounded_steps(1) bounded_steps(8)]) simp

lemma bounded_open_lock: "bounded (open_lock cx path uid no_state name) 23"
  unfolding open_lock_def
  by (rule bounded_bind [OF bounded_steps(2), where b = 22])
    (auto intro!: bounded_require bounded_bind [OF bounded_steps(1), where b = 20]
      bounded_bind [OF bounded_create, where b = 15] bounded_bind [OF bounded_steps(6), where b = 15]
      bounded_lock_descriptor bounded_publish within_mono [OF bounded_steps(4)] split: option.splits)

lemma within_acquire_loop:
  "within (acquire_loop cx path uid no_state names held) (23 * length names)
     (\<lambda>(held', e). length held' \<le> length held + length names)"
proof (induction names arbitrary: held)
  case (Cons name names)
  have "within (acquire_loop cx path uid no_state names (held @ [(name, fd)])) (23 * length names)
      (\<lambda>(held', e). length held' \<le> length held + length (name # names))" for fd
    using Cons.IH [of "held @ [(name, fd)]"] by simp
  then show ?case
    by (auto intro!: within_seq [OF bounded_open_lock, where b = "23 * length names"] split: sum.splits)
qed simp

lemma within_hold_locks:
  "within (hold_locks cx path uid no_state names) (2 + 23 * length names)
     (\<lambda>(held, primary). length held \<le> length names)"
proof -
  have "within (seqP (acquire_loop cx path uid no_state names []) (\<lambda>(held, primary).
      case primary of Some e \<Rightarrow> Done (held, Some e)
      | None \<Rightarrow> Call (CBody cx) (\<lambda>r. case r of RRaise e \<Rightarrow> Done (held, Some (e, None)) | _ \<Rightarrow> Done (held, None))))
      (1 + 23 * length names) (\<lambda>(held, primary). length held \<le> length names)"
    by (rule within_seq [OF within_acquire_loop, where b = 1]) (auto split: option.splits reply.splits)
  then show ?thesis unfolding hold_locks_def by auto
qed

lemma bounded_release_lock: "bounded (release_lock cx name fd) 5"
  unfolding release_lock_def
  by (rule within_seq [OF bounded_steps(1), where b = 3], rule within_seq [OF bounded_steps(9), where b = 2],
      rule within_seq [OF bounded_steps(1), where b = 0]) auto

lemma bounded_release_loop: "bounded (release_loop cx held failure) (5 * length held)"
proof (induction held arbitrary: failure)
  case (Cons l held)
  then show ?case
    by (cases l) (auto intro!: within_seq [OF bounded_release_lock, where b = "5 * length held"])
qed simp

lemma bounded_release_context: "bounded (release_context cx held primary) (2 + 5 * length held)"
  unfolding release_context_def release_all_def
  by (rule within_seq [OF bounded_release_loop, where b = 2])
    (auto intro!: within_seq [OF bounded_steps(10), where b = 1] simp: Let_def split: option.splits)

lemma bounded_locked_context: "bounded (locked_context cx path uid no_state names) (5 + 28 * length names)"
  unfolding locked_context_def
  by (rule within_seq [OF within_hold_locks, where b = "3 + 5 * length names"])
    (auto intro!: within_mono [OF bounded_release_context])

lemma profile_length: "names \<in> set LOCK_PROFILES \<Longrightarrow> length names \<le> 5"
  by (auto simp: LOCK_PROFILES_def LOCK_ORDER_def)

lemma profile_names_profile: "profile_names p = Inr names \<Longrightarrow> names \<in> set LOCK_PROFILES"
  by (auto simp: profile_names_def dest!: map_of_SomeD set_zip_rightD split: profile.splits option.splits if_splits)

lemma bounded_acquire: "bounded (acquire_pki_locks path profile no_state uid) 146"
proof -
  have "bounded (locked_context cx p uid no_state names) 145" if "profile_names profile = Inr names" for cx p names
    using profile_length [OF profile_names_profile [OF that]]
    by (intro within_mono [OF bounded_locked_context]) auto
  then show ?thesis
    unfolding acquire_pki_locks_def by (auto split: sum.splits reply.splits)
qed

lemma bounded_0: "bounded m 0 \<Longrightarrow> \<exists>x. m = Done x"
  by (cases m) auto

text \<open>A bounded program that runs alone ends.\<close>

lemma run_alone_ends:
  "bounded m n \<Longrightarrow> n \<le> length cs \<Longrightarrow> \<exists>x p' k'. run_alone cs m p k = (Done x, p', k')"
proof (induction cs m p k arbitrary: n rule: run_alone.induct)
  case (1 c cs a g p k)
  obtain r p' k' where r: "perform c a p k = (r, p', k')" by (metis prod_cases3)
  with "1.prems" show ?case using "1.IH" [OF r [symmetric] refl, of "n - 1"] by auto
qed (auto dest: bounded_0)

end
