(* ===== verification/LockProperties.thy ===== *)
theory LockProperties
  imports LockSteps LockBounds
begin

text \<open>
  The properties of the PKI locks. Mutual exclusion over all interleavings of threads and processes, as a
  refinement of a lock manager with one holder for each PKI directory; the locks of the body are
  locks of the kernel on the named files; a context releases everything it has; an acquisition never waits.
\<close>

section \<open>Holding the locks of a directory\<close>

definition on_path :: "string \<Rightarrow> context_state \<Rightarrow> bool" where
  "on_path path c \<longleftrightarrow> path \<in> fst ` set (cx_keys c)"

text \<open>The thread is in the body of its \<open>with\<close> statement, in the process that has acquired the locks.\<close>

definition in_body :: "system \<Rightarrow> nat \<Rightarrow> string \<Rightarrow> bool" where
  "in_body s t path \<longleftrightarrow> (\<exists>pid cx m p c. sy_threads s t = Some (pid, Call (CBody cx) m) \<and>
     sy_processes s pid = Some p \<and> pr_contexts p cx = Some c \<and> \<not> is_inherited cx p \<and> on_path path c)"

lemma profile_lifecycle: "names \<in> set LOCK_PROFILES \<Longrightarrow> ''lifecycle'' \<in> set names"
  by (auto simp: LOCK_PROFILES_def LOCK_ORDER_def)

lemma in_bodyE:
  assumes inv: "lock_inv s G" and b: "in_body s t path"
  obtains pid cx m p where "sy_threads s t = Some (pid, Call (CBody cx) m)" "sy_processes s pid = Some p" "pr_pid p = pid"
    "gh_phase (G t) = Active" "gh_path (G t) = path" "gh_names (G t) \<in> set LOCK_PROFILES"
    "map snd (gh_owned (G t)) = map Locked (gh_names (G t))" "thread_ok p (sy_kernel s) (G t)"
proof -
  obtain pid cx m p c where t: "sy_threads s t = Some (pid, Call (CBody cx) m)" "sy_processes s pid = Some p"
    and c: "pr_contexts p cx = Some c" "\<not> is_inherited cx p" "on_path path c" using b unfolding in_body_def by blast
  from lock_invD(3) [OF inv t(1)] have pre: "call_pre (CBody cx) (G t)" by simp
  from lock_invD(4) [OF inv t(1)] t(2) have ok: "thread_ok p (sy_kernel s) (G t)" by auto
  have active: "gh_phase (G t) = Active"
    using pre ok c by (auto simp: thread_ok_def is_inherited_def)
  with ok pre c have "live_context p (G t) c" by (auto simp: thread_ok_def)
  with c(3) have "gh_path (G t) = path" "gh_names (G t) \<in> set LOCK_PROFILES" by (auto simp: live_context_def on_path_def)
  moreover have "pr_pid p = pid" using lock_invD(1) [OF inv t(2)] by (simp add: process_ok_def)
  ultimately show ?thesis using that [OF t] active pre ok by auto
qed

text \<open>Every lock of the profile is held on the file of its name.\<close>

lemma body_locked:
  assumes inv: "lock_inv s G" and "thread_ok p (sy_kernel s) (G t)" "gh_phase (G t) = Active"
    and "map snd (gh_owned (G t)) = map Locked (gh_names (G t))" and "n \<in> set (gh_names (G t))"
  obtains fd d where "(fd, Locked n) \<in> set (gh_owned (G t))" "sole_reference (sy_kernel s) (pr_pid p, fd) d"
    "kn_names (sy_kernel s) (gh_path (G t), n) = Some (kn_file (sy_kernel s) d)"
    "kn_flock (sy_kernel s) (kn_file (sy_kernel s) d) = Some d"
proof -
  have "Locked n \<in> set (map snd (gh_owned (G t)))" using assms(4,5) by simp
  then obtain fd where fd: "(fd, Locked n) \<in> set (gh_owned (G t))" by auto
  from owned_open [OF assms(2,3) this lock_invD(2) [OF inv]] obtain d
    where "sole_reference (sy_kernel s) (pr_pid p, fd) d" "status_ok (gh_path (G t)) (sy_kernel s) d (Locked n)" by metis
  with fd that show ?thesis by (auto simp: status_ok_def)
qed

lemma body_exclusive:
  assumes inv: "lock_inv s G" and b1: "in_body s t1 path" and b2: "in_body s t2 path"
  shows "t1 = t2"
proof (rule ccontr)
  assume neq: "t1 \<noteq> t2"
  from inv b1 obtain pid1 cx1 m1 p1 where t1: "sy_threads s t1 = Some (pid1, Call (CBody cx1) m1)" "sy_processes s pid1 = Some p1"
    "pr_pid p1 = pid1" and g1: "gh_phase (G t1) = Active" "gh_path (G t1) = path" "gh_names (G t1) \<in> set LOCK_PROFILES"
    "map snd (gh_owned (G t1)) = map Locked (gh_names (G t1))" "thread_ok p1 (sy_kernel s) (G t1)" by (rule in_bodyE)
  from inv b2 obtain pid2 cx2 m2 p2 where t2: "sy_threads s t2 = Some (pid2, Call (CBody cx2) m2)" "sy_processes s pid2 = Some p2"
    "pr_pid p2 = pid2" and g2: "gh_phase (G t2) = Active" "gh_path (G t2) = path" "gh_names (G t2) \<in> set LOCK_PROFILES"
    "map snd (gh_owned (G t2)) = map Locked (gh_names (G t2))" "thread_ok p2 (sy_kernel s) (G t2)" by (rule in_bodyE)
  obtain fd1 d1 where 1: "sole_reference (sy_kernel s) (pr_pid p1, fd1) d1"
    "kn_names (sy_kernel s) (gh_path (G t1), ''lifecycle'') = Some (kn_file (sy_kernel s) d1)"
    "kn_flock (sy_kernel s) (kn_file (sy_kernel s) d1) = Some d1"
    using body_locked [OF inv g1(5,1,4) profile_lifecycle [OF g1(3)]] by metis
  obtain fd2 d2 where 2: "sole_reference (sy_kernel s) (pr_pid p2, fd2) d2"
    "kn_names (sy_kernel s) (gh_path (G t2), ''lifecycle'') = Some (kn_file (sy_kernel s) d2)"
    "kn_flock (sy_kernel s) (kn_file (sy_kernel s) d2) = Some d2"
    using body_locked [OF inv g2(5,1,4) profile_lifecycle [OF g2(3)]] by metis
  from 1 2 g1(2) g2(2) have "d1 = d2" by simp
  with 1(1) 2(1) have "pr_pid p1 = pr_pid p2" by (auto simp: sole_reference_def)
  with t1 t2 have "sy_threads s t2 = Some (pid1, Call (CBody cx2) m2)" by simp
  from lock_invD(5) [OF inv t1(1) this neq] g1 g2
  have "set (gh_names (G t1)) \<inter> set (gh_names (G t2)) = {}" by (simp add: apart_def)
  with profile_lifecycle [OF g1(3)] profile_lifecycle [OF g2(3)] show False by blast
qed

section \<open>A sample execution\<close>

definition sample_file :: file_identity where
  "sample_file = \<lparr>fi_dev = 1, fi_ino = 0, fi_uid = 0, fi_permissions = 420, fi_links = 0,
     fi_size = 0, fi_mtime_ns = 0, fi_ctime_ns = 0, fi_kind = Regular\<rparr>"

definition sample_kernel :: kernel where
  "sample_kernel = \<lparr>kn_fds = [], kn_file = (\<lambda>_. 0), kn_flock = (\<lambda>_. None), kn_names = (\<lambda>_. None),
     kn_stat = (\<lambda>_. sample_file), kn_next = 0\<rparr>"

definition sample_program :: "unit act" where
  "sample_program = acquire_pki_locks ''/pki'' (ByName ''lifecycle'') False 0"

text \<open>All calls are accepted, the anonymous file gets descriptor 3: the program arrives at the body.\<close>

definition sample_choices :: "choice list" where
  "sample_choices = replicate 5 Accept @ [Opens 3 sample_file] @ replicate 16 Accept"

definition at_body :: "'a prog \<Rightarrow> nat option" where
  "at_body m = (case m of Call (CBody cx) _ \<Rightarrow> Some cx | _ \<Rightarrow> None)"

lemma at_body_iff: "at_body m = Some cx \<longleftrightarrow> (\<exists>g. m = Call (CBody cx) g)"
  by (cases m) (auto simp: at_body_def split: call.splits)

definition sample_run :: "unit act \<times> process \<times> kernel" where
  "sample_run = run_alone sample_choices sample_program (new_process 1) sample_kernel"

lemma sample_reaches_body:
  "at_body (fst sample_run) = Some 0"
  "pr_contexts (fst (snd sample_run)) 0 = Some \<lparr>cx_owner = 1, cx_keys = [(''/pki'', ''lifecycle'')], cx_descriptors = [3],
     cx_directories = 2, cx_inherited = False\<rparr>" "pr_pid (fst (snd sample_run)) = 1"
  "kn_fds (snd (snd sample_run)) = [((1, 3), 1)]"
  by code_simp+

lemma run_alone_reachable:
  assumes "reachable s" "sy_threads s t = Some (pid, m)" "sy_processes s pid = Some p"
    and "run_alone cs m p (sy_kernel s) = (m', p', k')"
  shows "\<exists>s'. reachable s' \<and> sy_threads s' t = Some (pid, m') \<and> sy_processes s' pid = Some p' \<and> sy_kernel s' = k'"
  using assms
proof (induction cs m p "sy_kernel s" arbitrary: s rule: run_alone.induct)
  case (1 c cs a g p)
  obtain r p1 k1 where r: "perform c a p (sy_kernel s) = (r, p1, k1)" by (metis prod_cases3)
  let ?s = "s\<lparr>sy_processes := (sy_processes s)(pid \<mapsto> p1), sy_threads := (sy_threads s)(t \<mapsto> (pid, g r)), sy_kernel := k1\<rparr>"
  have "lock_step s ?s" by (rule lock_step.run [OF "1.prems"(2,3) r])
  with "1.prems"(1) have "reachable ?s" by (rule reach.later)
  moreover have "run_alone cs (g r) p1 (sy_kernel ?s) = (m', p', k')" using "1.prems"(4) r by simp
  ultimately show ?case using "1.hyps" [OF r [symmetric], of p1 ?s] by simp
qed auto

lemma sample_reachable:
  "\<exists>s g. reachable s \<and> sy_threads s 0 = Some (1, Call (CBody 0) g) \<and>
     sy_processes s 1 = Some (fst (snd sample_run)) \<and> sy_kernel s = snd (snd sample_run)"
proof -
  let ?s0 = "\<lparr>sy_processes = (\<lambda>_. None), sy_threads = (\<lambda>_. None), sy_kernel = sample_kernel\<rparr>"
  let ?s1 = "?s0\<lparr>sy_processes := (sy_processes ?s0)(1 \<mapsto> new_process 1)\<rparr>"
  let ?s2 = "?s1\<lparr>sy_threads := (sy_threads ?s1)(0 \<mapsto> (1, sample_program))\<rparr>"
  have "reachable ?s0" by (intro reach.start) (simp add: initial_system_def sample_kernel_def)
  moreover have "lock_step ?s0 ?s1" by (rule lock_step.spawn) (simp_all add: sample_kernel_def)
  moreover have "lock_step ?s1 ?s2" unfolding sample_program_def by (rule lock_step.enter) simp_all
  ultimately have "reachable ?s2" by (blast intro: reach.later)
  moreover obtain m p k where run: "sample_run = (m, p, k)" by (metis prod_cases3)
  ultimately obtain s where "reachable s" "sy_threads s 0 = Some (1, m)" "sy_processes s 1 = Some p" "sy_kernel s = k"
    using run_alone_reachable [of ?s2 0 1 sample_program "new_process 1" sample_choices m p k]
    by (auto simp: sample_run_def)
  moreover have "at_body m = Some 0" using sample_reaches_body(1) unfolding run by simp
  then obtain g where "m = Call (CBody 0) g" by (auto simp: at_body_iff)
  ultimately show ?thesis unfolding run by (intro exI [of _ s] exI [of _ g]) simp
qed

lemma sample_in_body: "\<exists>s. reachable s \<and> in_body s 0 ''/pki''"
proof -
  from sample_reachable obtain s g where s: "reachable s" "sy_threads s 0 = Some (1, Call (CBody 0) g)"
    "sy_processes s 1 = Some (fst (snd sample_run))" by blast
  then have "in_body s 0 ''/pki''"
    using sample_reaches_body(2,3) unfolding in_body_def by (auto simp: is_inherited_def on_path_def)
  with s(1) show ?thesis by blast
qed

section \<open>Mutual exclusion\<close>

text \<open>
  C1: at most one thread of all processes is in the body of a \<open>with acquire_pki_locks(...)\<close> statement for
  a PKI directory, whatever the profiles, the interleaving, the failures of system calls, forks and deaths of
  processes: two threads in the body for the same directory are the same thread.
\<close>

theorem locks_mutual_exclusion:
  assumes "reachable s" and "in_body s t1 path" and "in_body s t2 path"
  shows "t1 = t2"
  using lock_system.holds [OF assms(1)] body_exclusive [OF _ assms(2,3)] by blast

text \<open>
  Witness: the sample execution brings a thread into the body.
\<close>

theorem locks_mutual_exclusion_witness: "\<exists>s. reachable s \<and> in_body s 0 ''/pki'' \<and> {t. in_body s t ''/pki''} = {0}"
proof -
  obtain s where "reachable s" "in_body s 0 ''/pki''" using sample_in_body by blast
  then show ?thesis using locks_mutual_exclusion [of s _ "''/pki''" 0] by (intro exI [of _ s]) blast
qed

text \<open>
  C3: the body runs under real locks: for every lock name of its profile the process has a descriptor whose
  open file is the one that the directory names, and the kernel's exclusive lock on this file belongs to it;
  no other descriptor of any process refers to the same open file.
\<close>

theorem body_holds_kernel_locks:
  assumes "reachable s" and "sy_threads s t = Some (pid, Call (CBody cx) m)" and "sy_processes s pid = Some p"
    and "pr_contexts p cx = Some c" and "\<not> is_inherited cx p" and "(path, n) \<in> set (cx_keys c)"
  shows "\<exists>fd d. fd \<in> set (cx_descriptors c) \<and> sole_reference (sy_kernel s) (pid, fd) d \<and>
    kn_names (sy_kernel s) (path, n) = Some (kn_file (sy_kernel s) d) \<and>
    kn_flock (sy_kernel s) (kn_file (sy_kernel s) d) = Some d"
proof -
  from lock_system.holds [OF assms(1)] obtain G where inv: "lock_inv s G" by blast
  have "on_path path c" using assms(6) by (force simp: on_path_def)
  with assms have "in_body s t path" unfolding in_body_def by blast
  with inv obtain pid' cx' m' p' where g: "sy_threads s t = Some (pid', Call (CBody cx') m')" "sy_processes s pid' = Some p'"
    "pr_pid p' = pid'" "gh_phase (G t) = Active" "gh_path (G t) = path"
    "map snd (gh_owned (G t)) = map Locked (gh_names (G t))" "thread_ok p' (sy_kernel s) (G t)" by (rule in_bodyE)
  then have p: "p' = p" "pid' = pid" "cx' = cx" using assms(2,3) by auto
  have "gh_cx (G t) = cx" using lock_invD(3) [OF inv assms(2)] by simp
  with g p assms(4) have live: "live_context p (G t) c" by (auto simp: thread_ok_def)
  with assms(6) have "n \<in> set (gh_names (G t))" by (auto simp: live_context_def)
  from body_locked [OF inv g(7,4,6) this] obtain fd d where "(fd, Locked n) \<in> set (gh_owned (G t))"
    "sole_reference (sy_kernel s) (pid, fd) d" "kn_names (sy_kernel s) (path, n) = Some (kn_file (sy_kernel s) d)"
    "kn_flock (sy_kernel s) (kn_file (sy_kernel s) d) = Some d" using g(3,5) p by metis
  moreover from this live have "fd \<in> set (cx_descriptors c)" by (force simp: live_context_def)
  ultimately show ?thesis by blast
qed

text \<open>
  Witness: the sample execution holds the lock of the directory.
\<close>

theorem body_holds_kernel_locks_witness:
  "kn_flock (snd (snd sample_run)) (kn_file (snd (snd sample_run)) 1) = Some 1 \<and>
   kn_names (snd (snd sample_run)) (''/pki'', ''lifecycle'') = Some (kn_file (snd (snd sample_run)) 1)"
proof -
  let ?k = "snd (snd sample_run)"
  from sample_reachable obtain s g where s: "reachable s" "sy_threads s 0 = Some (1, Call (CBody 0) g)"
    "sy_processes s 1 = Some (fst (snd sample_run))" "sy_kernel s = ?k" by blast
  have free: "\<not> is_inherited 0 (fst (snd sample_run))" using sample_reaches_body(2,3) by (simp add: is_inherited_def)
  obtain fd d where d: "sole_reference ?k (1, fd) d" "kn_names ?k (''/pki'', ''lifecycle'') = Some (kn_file ?k d)"
    "kn_flock ?k (kn_file ?k d) = Some d"
    using body_holds_kernel_locks [OF s(1,2,3) sample_reaches_body(2) free, of "''/pki''" "''lifecycle''"] s(4) by auto
  have "d = 1" using sole_member [OF d(1)] sample_reaches_body(4) by simp
  with d show ?thesis by simp
qed

end
