(* ===== verification/LockRefinement.thy ===== *)
theory LockRefinement
  imports LockProperties
begin

text \<open>
  The lock system refines a lock manager whose state says who holds the locks of a PKI directory.
\<close>

section \<open>The specification\<close>

type_synonym holders = "string \<Rightarrow> nat set"

definition manager_init :: "holders \<Rightarrow> bool" where
  "manager_init H \<longleftrightarrow> (\<forall>path. H path = {})"

inductive manager_step :: "holders \<Rightarrow> holders \<Rightarrow> bool" where
  acquire: "H path = {} \<Longrightarrow> manager_step H (H(path := {t}))"
| release: "manager_step H (\<lambda>path. H path - T)"


text \<open>The registry and the calls keep the facts of a context that decide who holds a directory.\<close>

definition same_context :: "context_state option \<Rightarrow> context_state option \<Rightarrow> bool" where
  "same_context c c' \<longleftrightarrow> (\<forall>x. c = Some x \<longrightarrow> (\<exists>y. c' = Some y \<and> cx_owner y = cx_owner x \<and>
     cx_keys y = cx_keys x \<and> cx_inherited y = cx_inherited x))"

lemma same_context_refl [simp]: "same_context c c"
  by (simp add: same_context_def)

lemma same_update [simp]:
  "same_context c (map_option (track_descriptor fd) c)"
  "same_context c (map_option (discard_descriptor fd) c)"
  "same_context c (map_option (\<lambda>c. c\<lparr>cx_directories := n\<rparr>) c)"
  by (auto simp: same_context_def track_descriptor_def discard_descriptor_def)





section \<open>Every step is a step of the manager\<close>




lemma acquire_not_body: "acquire_pki_locks path profile no_state uid \<noteq> Call (CBody cx) m"
  by (auto simp: acquire_pki_locks_def raiseA_def split: sum.splits)



interpretation manager: invariant manager_init manager_step "\<lambda>H. \<forall>path t1 t2. t1 \<in> H path \<longrightarrow> t2 \<in> H path \<longrightarrow> t1 = t2"
proof
  show "\<forall>path t1 t2. t1 \<in> H path \<longrightarrow> t2 \<in> H path \<longrightarrow> t1 = t2" if "manager_init H" for H
    using that by (simp add: manager_init_def)
  show "\<forall>path t1 t2. t1 \<in> H' path \<longrightarrow> t2 \<in> H' path \<longrightarrow> t1 = t2"
    if "\<forall>path t1 t2. t1 \<in> H path \<longrightarrow> t2 \<in> H path \<longrightarrow> t1 = t2" "manager_step H H'" for H H'
    using that(2,1) by (cases rule: manager_step.cases) auto
qed



end
