(* ===== verification/LockRelease.thy ===== *)
theory LockRelease
  imports LockProperties
begin

text \<open>
  A call of \<open>acquire_pki_locks\<close> that runs alone: it ends after a bounded number of calls, and gives back the
  registry, the descriptors and the kernel locks; with one exception, a file policy that fails inside
  \<open>_create_anonymous_lock\<close>, whose error the handler does not catch.
\<close>

section \<open>A process with one context\<close>





section \<open>Locks belong to open files\<close>







section \<open>A call that runs alone\<close>





section \<open>The properties\<close>






text \<open>
  C5: no call of \<open>acquire_pki_locks\<close> waits: for every profile and all answers of the system, it ends with
  a result or an error after at most 146 system calls, hooks and registry operations.
\<close>

theorem lock_acquire_terminates:
  assumes "146 \<le> length cs"
  shows "\<exists>r p' k'. run_alone cs (acquire_pki_locks path profile no_state uid) p k = (Done r, p', k')"
  using run_alone_ends [OF bounded_acquire assms] .

text \<open>
  Witness: a system that refuses every call.
\<close>

theorem lock_acquire_terminates_witness:
  "\<exists>r p' k'. run_alone (replicate 146 Refuse) (acquire_pki_locks ''/pki'' (ByName ''lifecycle'') True 0)
     (new_process 1) sample_kernel = (Done r, p', k')"
  by (rule lock_acquire_terminates) simp



end
