(* ===== verification/ServiceFields.thy ===== *)
theory ServiceFields
  imports Records PersistedIdentity PosixPath Dictionary Sha256
begin

text \<open>
  \<^verbatim>\<open>src/platform_pki/service_transaction.py\<close>, first part: the fields of the journal of a managed
  issue or renewal, the enumerations, the tables of destinations, and the orders in which a
  transaction publishes its mutations and rolls them back. A template \<open>"...".format(...)\<close> is a
  function of the names it mentions.
\<close>

section \<open>Keys and suffixes\<close>

definition SERVICE_TRANSACTION_JOURNAL_RELATIVE_PATH :: string where
  "SERVICE_TRANSACTION_JOURNAL_RELATIVE_PATH = ''state/service/recovery-journal''"
definition SERVICE_TRANSACTION_TREE_RELATIVE_PATH :: string where
  "SERVICE_TRANSACTION_TREE_RELATIVE_PATH = ''state/service/transactions''"
definition SERVICE_TRANSACTION_DIRECTORY_MODE :: int where
  "SERVICE_TRANSACTION_DIRECTORY_MODE = 448"
definition SERVICE_TRANSACTION_FILE_MODE :: int where
  "SERVICE_TRANSACTION_FILE_MODE = 384"
definition SERVICE_TRANSACTION_LINKS :: int where
  "SERVICE_TRANSACTION_LINKS = 1"

definition SERVICE_CLEANUP_OWNED_KEYS :: "string list" where
  "SERVICE_CLEANUP_OWNED_KEYS = [''archive-marker'', ''stage'', ''backup'']"

definition SERVICE_CONTAINER_ORDER :: "string list" where
  "SERVICE_CONTAINER_ORDER = [''service_root'', ''service_private_dir'', ''service_csr_dir'',
     ''service_certs_dir'', ''service_chain_dir'']"

definition SERVICE_CA_PUBLICATION_ORDER :: "string list" where
  "SERVICE_CA_PUBLICATION_ORDER = [''service_config'', ''service_csr'', ''service_certificate'',
     ''service_chain'', ''service_fullchain'', ''service_issuer'', ''ca_index'', ''ca_index_attr'',
     ''ca_serial'', ''ca_index_old'', ''ca_index_attr_old'', ''ca_serial_old'', ''ca_newcert'']"

definition MANAGED_ISSUE_PUBLICATION_ORDER :: "string list" where
  "MANAGED_ISSUE_PUBLICATION_ORDER = SERVICE_CA_PUBLICATION_ORDER"
definition MANAGED_RENEW_PUBLICATION_ORDER :: "string list" where
  "MANAGED_RENEW_PUBLICATION_ORDER = SERVICE_CA_PUBLICATION_ORDER"

definition MANAGED_ISSUE_ARCHIVE_MEMBER_ORDER :: "string list" where
  "MANAGED_ISSUE_ARCHIVE_MEMBER_ORDER = [''tls.key'']"

definition MANAGED_RENEW_ARCHIVE_MEMBER_ORDER :: "string list" where
  "MANAGED_RENEW_ARCHIVE_MEMBER_ORDER = [''.platform-pki-renew-archive'', ''tls.crt'', ''tls.csr'',
     ''ca-chain.crt'', ''fullchain.crt'', ''openssl.cnf'', ''issuer'', ''tls.key'']"

definition SERVICE_ISSUE_REPLACE_POLICY :: "bool list" where
  "SERVICE_ISSUE_REPLACE_POLICY = [True, True, False, True, True, False, True, True, True, True,
     True, True, False]"
definition SERVICE_RENEW_REPLACE_POLICY :: "bool list" where
  "SERVICE_RENEW_REPLACE_POLICY = [True, True, True, True, True, True, True, True, True, True,
     True, True, False]"

definition ARCHIVE_MUTATION_KEYS :: "string list" where
  "ARCHIVE_MUTATION_KEYS = [''archive_marker'', ''archive_certificate'', ''archive_csr'',
     ''archive_chain'', ''archive_fullchain'', ''archive_config'', ''archive_issuer'', ''archive_key'']"

definition FILE_MUTATION_KEYS :: "string list" where
  "FILE_MUTATION_KEYS = SERVICE_CA_PUBLICATION_ORDER @ [''service_key'', ''archive_marker'',
     ''archive_certificate'', ''archive_csr'', ''archive_chain'', ''archive_fullchain'',
     ''archive_config'', ''archive_issuer'', ''archive_key'']"

definition FILE_MUTATION_SUFFIXES :: "string list" where
  "FILE_MUTATION_SUFFIXES = [''destination'', ''pre_identity'', ''pre_sha256'', ''stage'',
     ''stage_identity'', ''stage_object'', ''stage_sha256'', ''backup'', ''backup_identity'',
     ''backup_object'', ''backup_sha256'', ''post_identity'', ''post_sha256'',
     ''rollback_identity'', ''rollback_sha256'']"

definition DIRECTORY_MUTATION_KEYS :: "string list" where
  "DIRECTORY_MUTATION_KEYS = SERVICE_CONTAINER_ORDER @ [''archive_root'', ''archive_dir'']"

definition DIRECTORY_MUTATION_SUFFIXES :: "string list" where
  "DIRECTORY_MUTATION_SUFFIXES =
     [''destination'', ''pre_identity'', ''post_identity'', ''rollback_identity'']"

definition MUTATION_KEYS :: "string list" where
  "MUTATION_KEYS = DIRECTORY_MUTATION_KEYS @ FILE_MUTATION_KEYS"
definition SERVICE_CONTINUITY_KEYS :: "string list" where
  "SERVICE_CONTINUITY_KEYS = MUTATION_KEYS"

definition ARCHIVE_EVIDENCE_SUFFIXES :: "string list" where
  "ARCHIVE_EVIDENCE_SUFFIXES = [''source'', ''source_identity'', ''source_sha256'']"

definition SERVICE_SIGNING_INPUT_KEYS :: "string list" where
  "SERVICE_SIGNING_INPUT_KEYS = [''signing_inventory'', ''signing_root_certificate'',
     ''signing_ca_key'', ''signing_ca_certificate'', ''signing_ca_config'',
     ''signing_ca_crlnumber'', ''signing_service_key'']"

definition SIGNING_INPUT_SUFFIXES :: "string list" where
  "SIGNING_INPUT_SUFFIXES = [''source'', ''source_identity'', ''source_sha256'', ''stage'',
     ''stage_identity'', ''stage_object'', ''stage_sha256'']"

section \<open>Fields\<close>

definition SERVICE_TRANSACTION_PREFIX_FIELDS :: "string list" where
  "SERVICE_TRANSACTION_PREFIX_FIELDS = [''schema'', ''operation'', ''transaction'', ''phase'',
     ''checkpoint'', ''mutation'', ''committed'', ''recovery_mode'', ''outcome'', ''service'',
     ''issuer_root'', ''issuer_intermediate'', ''serial'', ''key_action'', ''current_key_identity'',
     ''current_key_sha256'', ''archive_state'', ''archive_name'', ''archive_members'', ''owner'',
     ''created_epoch'', ''staged_count'', ''backed_up_count'', ''published_count'',
     ''rollback_count'', ''rollback_completion_count'', ''rollback_completion_path'',
     ''rollback_completion_identity'', ''rollback_completion_sha256'', ''journal_path'',
     ''journal_identity'', ''transaction_dir'', ''transaction_identity'',
     ''transaction_record_path'', ''transaction_record_identity'', ''transaction_record_sha256'',
     ''stage_dir'', ''stage_dir_identity'', ''inputs_dir'', ''inputs_dir_identity'', ''backup_dir'',
     ''backup_dir_identity'', ''archive_root_snapshot_identity'', ''archive_root_reference_path'',
     ''archive_root_reference_identity'', ''archive_root_reference_sha256'',
     ''archive_root_restored'', ''archive_root_restored_identity'', ''archive_marker_removed'',
     ''stage_removed'', ''backup_removed'', ''terminal_path'', ''terminal_identity'',
     ''terminal_sha256'']"

definition key_field :: "string \<Rightarrow> string \<Rightarrow> string" where
  "key_field key suffix = key @ ''_'' @ suffix"

definition fields_of :: "string list \<Rightarrow> string list \<Rightarrow> string list" where
  "fields_of keys suffixes = concat (map (\<lambda>key. map (key_field key) suffixes) keys)"

definition SERVICE_TRANSACTION_FIELDS :: "string list" where
  "SERVICE_TRANSACTION_FIELDS = SERVICE_TRANSACTION_PREFIX_FIELDS @
     fields_of DIRECTORY_MUTATION_KEYS DIRECTORY_MUTATION_SUFFIXES @
     fields_of FILE_MUTATION_KEYS FILE_MUTATION_SUFFIXES @
     fields_of ARCHIVE_MUTATION_KEYS ARCHIVE_EVIDENCE_SUFFIXES @
     fields_of SERVICE_SIGNING_INPUT_KEYS SIGNING_INPUT_SUFFIXES"

definition service_spec :: "string list \<Rightarrow> record_spec" where
  "service_spec keys = \<lparr>spec_fields = keys, spec_allow_empty = False, spec_schema = Some ''1''\<rparr>"

definition SERVICE_TRANSACTION_SPEC :: record_spec where
  "SERVICE_TRANSACTION_SPEC = service_spec SERVICE_TRANSACTION_FIELDS"

definition SERVICE_RETAINED_TRANSACTION_FIELDS :: "string list" where
  "SERVICE_RETAINED_TRANSACTION_FIELDS = [''schema'', ''transaction'', ''operation'', ''service'',
     ''issuer_root'', ''issuer_intermediate'', ''serial'', ''key_action'', ''archive_state'',
     ''archive_name'', ''archive_members'', ''owner'', ''created_epoch'']"

definition SERVICE_RETAINED_TERMINAL_FIELDS :: "string list" where
  "SERVICE_RETAINED_TERMINAL_FIELDS = [''schema'', ''transaction'', ''operation'', ''service'',
     ''outcome'', ''committed'', ''transaction_identity'', ''transaction_sha256'',
     ''rollback_completion_identity'', ''rollback_completion_sha256'']"

definition SERVICE_RETAINED_ROLLBACK_FIELDS :: "string list" where
  "SERVICE_RETAINED_ROLLBACK_FIELDS = [''schema'', ''transaction'', ''operation'', ''service'',
     ''outcome'', ''published_count'', ''completed_count'', ''rollback_order'',
     ''rollback_evidence_sha256'']"

definition SERVICE_RETAINED_TRANSACTION_SPEC :: record_spec where
  "SERVICE_RETAINED_TRANSACTION_SPEC = service_spec SERVICE_RETAINED_TRANSACTION_FIELDS"
definition SERVICE_RETAINED_TERMINAL_SPEC :: record_spec where
  "SERVICE_RETAINED_TERMINAL_SPEC = service_spec SERVICE_RETAINED_TERMINAL_FIELDS"
definition SERVICE_RETAINED_ROLLBACK_SPEC :: record_spec where
  "SERVICE_RETAINED_ROLLBACK_SPEC = service_spec SERVICE_RETAINED_ROLLBACK_FIELDS"

section \<open>Enumerations\<close>

datatype service_operation = SERVICE_ISSUE | SERVICE_RENEW

fun service_operation_value :: "service_operation \<Rightarrow> string" where
  "service_operation_value SERVICE_ISSUE = ''service-issue''"
| "service_operation_value SERVICE_RENEW = ''service-renew''"

datatype service_phase =
    STAGING | BACKING_UP | SERVICE_PLANNED | PUBLISHING | VERIFYING | COMMITTED | ROLLING_BACK
  | CLEANING_UP | TERMINAL

fun service_phase_value :: "service_phase \<Rightarrow> string" where
  "service_phase_value STAGING = ''staging''"
| "service_phase_value BACKING_UP = ''backing-up''"
| "service_phase_value SERVICE_PLANNED = ''planned''"
| "service_phase_value PUBLISHING = ''publishing''"
| "service_phase_value VERIFYING = ''verifying''"
| "service_phase_value COMMITTED = ''committed''"
| "service_phase_value ROLLING_BACK = ''rolling-back''"
| "service_phase_value CLEANING_UP = ''cleaning-up''"
| "service_phase_value TERMINAL = ''terminal''"

datatype recovery_mode = ROLLBACK | CLEANUP_ONLY

fun recovery_mode_value :: "recovery_mode \<Rightarrow> string" where
  "recovery_mode_value ROLLBACK = ''rollback''"
| "recovery_mode_value CLEANUP_ONLY = ''cleanup-only''"

datatype service_outcome = OUTCOME_NONE | SUCCEEDED | SERVICE_FAILED

fun service_outcome_value :: "service_outcome \<Rightarrow> string" where
  "service_outcome_value OUTCOME_NONE = ''none''"
| "service_outcome_value SUCCEEDED = ''succeeded''"
| "service_outcome_value SERVICE_FAILED = ''failed-pre-commit''"

datatype key_action = REUSE | KEY_CREATE | ROTATE

fun key_action_value :: "key_action \<Rightarrow> string" where
  "key_action_value REUSE = ''reuse''"
| "key_action_value KEY_CREATE = ''create''"
| "key_action_value ROTATE = ''rotate''"

datatype archive_state = ARCHIVE_NONE | ISSUE_KEY | ARCHIVE_RENEW

fun archive_state_value :: "archive_state \<Rightarrow> string" where
  "archive_state_value ARCHIVE_NONE = ''none''"
| "archive_state_value ISSUE_KEY = ''issue-key''"
| "archive_state_value ARCHIVE_RENEW = ''renew''"

definition service_cleanup_owned_keys :: "service_operation \<Rightarrow> service_outcome \<Rightarrow> string list" where
  "service_cleanup_owned_keys operation outcome =
     (if operation = SERVICE_RENEW \<and> outcome = SUCCEEDED then SERVICE_CLEANUP_OWNED_KEYS
      else filter (\<lambda>key. key \<noteq> ''archive-marker'') SERVICE_CLEANUP_OWNED_KEYS)"

section \<open>Tables\<close>

record service_names =
  sn_service :: string
  sn_root :: string
  sn_intermediate :: string
  sn_serial :: string
  sn_archive :: string

definition FILE_DESTINATIONS :: "(string \<times> (service_names \<Rightarrow> string)) list" where
  "FILE_DESTINATIONS = [
     (''service_config'', \<lambda>n. ''services/'' @ sn_service n @ ''/openssl.cnf''),
     (''service_csr'', \<lambda>n. ''services/'' @ sn_service n @ ''/csr/tls.csr''),
     (''service_certificate'', \<lambda>n. ''services/'' @ sn_service n @ ''/certs/tls.crt''),
     (''service_chain'', \<lambda>n. ''services/'' @ sn_service n @ ''/chain/ca-chain.crt''),
     (''service_fullchain'', \<lambda>n. ''services/'' @ sn_service n @ ''/chain/fullchain.crt''),
     (''service_issuer'', \<lambda>n. ''services/'' @ sn_service n @ ''/issuer''),
     (''ca_index'', \<lambda>n. ''authorities/intermediates/'' @ sn_intermediate n @ ''/index.txt''),
     (''ca_index_attr'', \<lambda>n. ''authorities/intermediates/'' @ sn_intermediate n @ ''/index.txt.attr''),
     (''ca_serial'', \<lambda>n. ''authorities/intermediates/'' @ sn_intermediate n @ ''/serial''),
     (''ca_index_old'', \<lambda>n. ''authorities/intermediates/'' @ sn_intermediate n @ ''/index.txt.old''),
     (''ca_index_attr_old'', \<lambda>n. ''authorities/intermediates/'' @ sn_intermediate n @ ''/index.txt.attr.old''),
     (''ca_serial_old'', \<lambda>n. ''authorities/intermediates/'' @ sn_intermediate n @ ''/serial.old''),
     (''ca_newcert'', \<lambda>n. ''authorities/intermediates/'' @ sn_intermediate n @ ''/newcerts/'' @ sn_serial n @ ''.pem''),
     (''service_key'', \<lambda>n. ''services/'' @ sn_service n @ ''/private/tls.key''),
     (''archive_marker'', \<lambda>n. ''services/'' @ sn_service n @ ''/archive/'' @ sn_archive n @ ''/.platform-pki-renew-archive''),
     (''archive_certificate'', \<lambda>n. ''services/'' @ sn_service n @ ''/archive/'' @ sn_archive n @ ''/tls.crt''),
     (''archive_csr'', \<lambda>n. ''services/'' @ sn_service n @ ''/archive/'' @ sn_archive n @ ''/tls.csr''),
     (''archive_chain'', \<lambda>n. ''services/'' @ sn_service n @ ''/archive/'' @ sn_archive n @ ''/ca-chain.crt''),
     (''archive_fullchain'', \<lambda>n. ''services/'' @ sn_service n @ ''/archive/'' @ sn_archive n @ ''/fullchain.crt''),
     (''archive_config'', \<lambda>n. ''services/'' @ sn_service n @ ''/archive/'' @ sn_archive n @ ''/openssl.cnf''),
     (''archive_issuer'', \<lambda>n. ''services/'' @ sn_service n @ ''/archive/'' @ sn_archive n @ ''/issuer''),
     (''archive_key'', \<lambda>n. ''services/'' @ sn_service n @ ''/archive/'' @ sn_archive n @ ''/tls.key'')]"

definition DIRECTORY_DESTINATIONS :: "(string \<times> (service_names \<Rightarrow> string)) list" where
  "DIRECTORY_DESTINATIONS = [
     (''service_root'', \<lambda>n. ''services/'' @ sn_service n),
     (''service_private_dir'', \<lambda>n. ''services/'' @ sn_service n @ ''/private''),
     (''service_csr_dir'', \<lambda>n. ''services/'' @ sn_service n @ ''/csr''),
     (''service_certs_dir'', \<lambda>n. ''services/'' @ sn_service n @ ''/certs''),
     (''service_chain_dir'', \<lambda>n. ''services/'' @ sn_service n @ ''/chain''),
     (''archive_root'', \<lambda>n. ''services/'' @ sn_service n @ ''/archive''),
     (''archive_dir'', \<lambda>n. ''services/'' @ sn_service n @ ''/archive/'' @ sn_archive n)]"

definition ARCHIVE_MEMBER_KEYS :: "(string \<times> string) list" where
  "ARCHIVE_MEMBER_KEYS = [(''.platform-pki-renew-archive'', ''archive_marker''),
     (''tls.crt'', ''archive_certificate''), (''tls.csr'', ''archive_csr''),
     (''ca-chain.crt'', ''archive_chain''), (''fullchain.crt'', ''archive_fullchain''),
     (''openssl.cnf'', ''archive_config''), (''issuer'', ''archive_issuer''), (''tls.key'', ''archive_key'')]"

definition ARCHIVE_SOURCE_KEYS :: "(string \<times> string) list" where
  "ARCHIVE_SOURCE_KEYS = [(''archive_certificate'', ''service_certificate''), (''archive_csr'', ''service_csr''),
     (''archive_chain'', ''service_chain''), (''archive_fullchain'', ''service_fullchain''),
     (''archive_config'', ''service_config''), (''archive_issuer'', ''service_issuer''),
     (''archive_key'', ''service_key'')]"

definition PRIVATE_PRE_KEYS :: "string list" where
  "PRIVATE_PRE_KEYS = [''service_config'', ''service_csr'', ''service_issuer'', ''service_key'', ''ca_index'',
     ''ca_index_attr'', ''ca_serial'', ''ca_index_old'', ''ca_index_attr_old'', ''ca_serial_old'']"

text \<open>\<open>0o600\<close> is 384, \<open>0o644\<close> is 420.\<close>

definition FIXED_STAGE_MODES :: "(string \<times> int) list" where
  "FIXED_STAGE_MODES = [(''service_config'', 384), (''service_csr'', 384), (''service_certificate'', 420),
     (''service_chain'', 420), (''service_fullchain'', 420), (''service_issuer'', 384), (''service_key'', 384),
     (''ca_index'', 384), (''ca_index_attr'', 384), (''ca_serial'', 384), (''ca_newcert'', 384),
     (''archive_marker'', 384)]"

definition CA_OLD_SOURCE_KEYS :: "(string \<times> string) list" where
  "CA_OLD_SOURCE_KEYS = [(''ca_index_old'', ''ca_index''), (''ca_index_attr_old'', ''ca_index_attr''),
     (''ca_serial_old'', ''ca_serial'')]"

definition SIGNING_INPUT_SOURCES :: "(string \<times> (service_names \<Rightarrow> string)) list" where
  "SIGNING_INPUT_SOURCES = [
     (''signing_inventory'', \<lambda>n. ''inventory/services.yml''),
     (''signing_root_certificate'', \<lambda>n. ''authorities/roots/'' @ sn_root n @ ''/certs/root-ca.crt''),
     (''signing_ca_key'', \<lambda>n. ''authorities/intermediates/'' @ sn_intermediate n @ ''/private/intermediate-ca.key''),
     (''signing_ca_certificate'', \<lambda>n. ''authorities/intermediates/'' @ sn_intermediate n @ ''/certs/intermediate-ca.crt''),
     (''signing_ca_config'', \<lambda>n. ''authorities/intermediates/'' @ sn_intermediate n @ ''/openssl.cnf''),
     (''signing_ca_crlnumber'', \<lambda>n. ''authorities/intermediates/'' @ sn_intermediate n @ ''/crlnumber''),
     (''signing_service_key'', \<lambda>n. ''services/'' @ sn_service n @ ''/private/tls.key'')]"

definition PRIVATE_SIGNING_INPUTS :: "string list" where
  "PRIVATE_SIGNING_INPUTS =
     [''signing_ca_key'', ''signing_ca_config'', ''signing_ca_crlnumber'', ''signing_service_key'']"

definition EXACT_SIGNING_METADATA_COPIES :: "string list" where
  "EXACT_SIGNING_METADATA_COPIES = [''signing_root_certificate'', ''signing_ca_key'',
     ''signing_ca_certificate'', ''signing_ca_crlnumber'']"

definition NORMALIZED_PRIVATE_COPIES :: "string list" where
  "NORMALIZED_PRIVATE_COPIES = [''signing_inventory'', ''signing_service_key'']"

definition ARCHIVE_STAMP_RX :: "char rx" where
  "ARCHIVE_STAMP_RX = Cat (Times (Cls is_digit) 8) (Cat (Lit ''-'') (Times (Cls is_digit) 6))"

text \<open>\<open>[0-9]{8}-[0-9]{6}(?:-[0-9]{2})?\<close>\<close>

definition ARCHIVE_NAME_RX :: "char rx" where
  "ARCHIVE_NAME_RX = Cat ARCHIVE_STAMP_RX (Or Eps (Cat (Lit ''-'') (Times (Cls is_digit) 2)))"

definition EMPTY_SHA256 :: string where
  "EMPTY_SHA256 = ''e3b0c44298fc1c149afbf4c8996fb92427ae41e4649b934ca495991b7852b855''"

section \<open>Orders\<close>

definition managed_publication_order ::
  "service_operation \<Rightarrow> key_action \<Rightarrow> archive_state \<Rightarrow> string list \<Rightarrow> bool \<Rightarrow> string list \<Rightarrow> string list result" where
  "managed_publication_order operation key_action archive_state archive_members create_archive_root created =
     (if filter (\<lambda>key. key \<in> set created) SERVICE_CONTAINER_ORDER \<noteq> created \<or> \<not> distinct created then
        Inl (ValueError ''created service directories are not canonical'')
      else bindE (if archive_state = ARCHIVE_NONE then Inr []
          else bindE (mapE (table_get ARCHIVE_MEMBER_KEYS) archive_members) (\<lambda>keys.
            Inr ((if create_archive_root then [''archive_root''] else []) @ [''archive_dir''] @ keys)))
        (\<lambda>archive.
          Inr (created @
            (if operation = SERVICE_ISSUE then MANAGED_ISSUE_PUBLICATION_ORDER
             else MANAGED_RENEW_PUBLICATION_ORDER) @
            (if key_action \<in> {KEY_CREATE, ROTATE} then [''service_key''] else []) @
            archive)))"

definition archive_containers :: "string set" where
  "archive_containers = {''archive_root'', ''archive_dir''}"

definition managed_rollback_order :: "string list \<Rightarrow> string list" where
  "managed_rollback_order publication_order =
     (let reverse = rev publication_order
      in filter (\<lambda>key. key \<notin> set SERVICE_CONTAINER_ORDER \<and> key \<notin> archive_containers) reverse @
         filter (\<lambda>key. key \<in> archive_containers) reverse @
         filter (\<lambda>key. key \<in> set SERVICE_CONTAINER_ORDER) reverse)"

end
