(* ===== verification/ServiceRetained.thy ===== *)
theory ServiceRetained
  imports ServiceFields
begin

text \<open>
  \<^verbatim>\<open>src/platform_pki/service_transaction.py\<close>, second part: the checks of single fields, and the
  three immutable records that a transaction retains, with their parsers and serializers. A value
  \<open>record[f]\<close> is \<open>sv r f\<close>: the record parser returns records with exactly the specification's fields, so the
  lookup of a literal field name never fails.
\<close>

section \<open>Fields\<close>

definition sv :: "ordered_record \<Rightarrow> string \<Rightarrow> string" where
  "sv r f = (case map_of (rec_pairs r) f of Some v \<Rightarrow> v | None \<Rightarrow> [])"

definition service_require :: "bool \<Rightarrow> string \<Rightarrow> unit result" where
  "service_require ok message = requireE ok (ServiceTransactionError message)"

definition service_fail :: "string \<Rightarrow> 'a result" where
  "service_fail message = Inl (ServiceTransactionError message)"

text \<open>\<open>assert isinstance(...)\<close>.\<close>

definition assertE :: "bool \<Rightarrow> unit result" where
  "assertE ok = requireE ok AssertionError"

text \<open>\<open>except RecordError as error: raise ServiceTransactionError(str(error)) from None\<close>.\<close>

definition as_service_error :: "'a result \<Rightarrow> 'a result" where
  "as_service_error m = (case m of Inl (RecordError e) \<Rightarrow> Inl (ServiceTransactionError e) | _ \<Rightarrow> m)"

definition canonical_root :: "string \<Rightarrow> string result" where
  "canonical_root value =
     (if value = [] \<or> \<not> isabs value \<or> normpath value \<noteq> value \<or> char_of (0 :: nat) \<in> set value then
        service_fail ''pki_dir must be a canonical absolute path''
      else Inr value)"

definition service_enum :: "('e \<Rightarrow> string) \<Rightarrow> 'e list \<Rightarrow> string \<Rightarrow> string \<Rightarrow> 'e result" where
  "service_enum value_of members value field =
     (case find (\<lambda>x. value_of x = value) members of
        None \<Rightarrow> service_fail (''service transaction field '' @ field @ '' is invalid'')
      | Some x \<Rightarrow> Inr x)"

definition service_pattern :: "string \<Rightarrow> char rx \<Rightarrow> string \<Rightarrow> string result" where
  "service_pattern value rx field =
     (if \<not> fullmatch rx value then
        service_fail (''service transaction field '' @ field @ '' is invalid'')
      else Inr value)"

definition service_serial :: "string \<Rightarrow> string \<Rightarrow> string result" where
  "service_serial value field =
     bindE (service_pattern value SERIAL_RX field) (\<lambda>serial.
       if length serial > 2 \<and> starts_with ''00'' serial then
         service_fail (''service transaction field '' @ field @ '' is not a canonical serial'')
       else Inr serial)"

definition service_boolean :: "string \<Rightarrow> string \<Rightarrow> bool \<Rightarrow> bool option result" where
  "service_boolean value field allow_none =
     (if allow_none \<and> value = ''none'' then Inr None
      else if value \<notin> {''false'', ''true''} then
        service_fail (''service transaction field '' @ field @ '' is not boolean'')
      else Inr (Some (value = ''true'')))"

text \<open>A required flag.\<close>

definition service_flag :: "string \<Rightarrow> string \<Rightarrow> bool result" where
  "service_flag value field = bindE (service_boolean value field False) (\<lambda>b. Inr (b = Some True))"

definition service_digest :: "string \<Rightarrow> string \<Rightarrow> bool \<Rightarrow> string option result" where
  "service_digest value field allow_none =
     (if allow_none \<and> value = ''none'' then Inr None
      else if \<not> fullmatch HEX64_RX value then
        service_fail (''service transaction digest '' @ field @ '' is invalid'')
      else Inr (Some value))"

text \<open>\<open>int(_pattern(record[field], _DECIMAL, field))\<close>.\<close>

definition service_count :: "ordered_record \<Rightarrow> string \<Rightarrow> int result" where
  "service_count r field = bindE (service_pattern (sv r field) DECIMAL_RX field) int_of_digits"

definition operation_of :: "ordered_record \<Rightarrow> service_operation result" where
  "operation_of r =
     service_enum service_operation_value [SERVICE_ISSUE, SERVICE_RENEW] (sv r ''operation'') ''operation''"

definition outcome_of :: "ordered_record \<Rightarrow> service_outcome result" where
  "outcome_of r = service_enum service_outcome_value [OUTCOME_NONE, SUCCEEDED, SERVICE_FAILED]
     (sv r ''outcome'') ''outcome''"

definition key_action_of :: "ordered_record \<Rightarrow> key_action result" where
  "key_action_of r =
     service_enum key_action_value [REUSE, KEY_CREATE, ROTATE] (sv r ''key_action'') ''key_action''"

definition archive_state_of :: "ordered_record \<Rightarrow> archive_state result" where
  "archive_state_of r = service_enum archive_state_value [ARCHIVE_NONE, ISSUE_KEY, ARCHIVE_RENEW]
     (sv r ''archive_state'') ''archive_state''"

definition removeprefix :: "string \<Rightarrow> string \<Rightarrow> string" where
  "removeprefix p s = (if starts_with p s then drop (length p) s else s)"

text \<open>The transaction name is \<open>service-\<close> and an identifier.\<close>

definition transaction_binding :: "ordered_record \<Rightarrow> string \<Rightarrow> unit result" where
  "transaction_binding r message =
     bindE (service_pattern (removeprefix ''service-'' (sv r ''transaction'')) HEX32_RX ''transaction'') (\<lambda>id.
       service_require (sv r ''transaction'' = ''service-'' @ id) message)"

definition issuer_fields :: "ordered_record \<Rightarrow> string \<Rightarrow> (string \<times> string) result" where
  "issuer_fields r message =
     bindE (service_pattern (sv r ''issuer_root'') ROOT_GENERATION_RX ''issuer_root'') (\<lambda>root.
     bindE (service_pattern (sv r ''issuer_intermediate'') INTERMEDIATE_GENERATION_RX ''issuer_intermediate'') (\<lambda>intermediate.
     bindE (service_require (starts_with (root @ ''-i'') intermediate) message) (\<lambda>_.
       Inr (root, intermediate))))"

section \<open>Archive members\<close>

definition archive_members :: "service_operation \<Rightarrow> archive_state \<Rightarrow> string \<Rightarrow> string list result" where
  "archive_members operation state value =
     (let members = (if value = ''none'' then [] else split_on (CHR '','') value);
          expected_order = (if operation = SERVICE_ISSUE then MANAGED_ISSUE_ARCHIVE_MEMBER_ORDER
            else MANAGED_RENEW_ARCHIVE_MEMBER_ORDER)
      in if members = [] \<or> list_ex (\<lambda>m. m = []) members then
           (if state = ARCHIVE_NONE \<and> value = ''none'' then Inr []
            else service_fail ''service transaction archive members are invalid'')
         else if \<not> distinct members \<or> filter (\<lambda>m. m \<in> set members) expected_order \<noteq> members then
           service_fail ''service transaction archive members are not canonical''
         else Inr members)"

text \<open>The archive that an issue must have; for a renewal the members are checked by the caller.\<close>

definition issue_archive :: "key_action \<Rightarrow> archive_state \<times> string list" where
  "issue_archive action =
     (if action = ROTATE then (ISSUE_KEY, [''tls.key'']) else (ARCHIVE_NONE, []))"

section \<open>Retained records\<close>

text \<open>The file of an identity is private and has one link.\<close>

definition retained_file :: "file_identity \<Rightarrow> bool" where
  "retained_file i \<longleftrightarrow> fi_permissions i = SERVICE_TRANSACTION_FILE_MODE \<and>
     fi_links i = SERVICE_TRANSACTION_LINKS \<and> fi_kind i = Regular"

definition retained_identity :: "string \<Rightarrow> identity_sentinel set \<Rightarrow> file_identity or_sentinel result" where
  "retained_identity value allowed =
     (case parse_file_identity value allowed of
        Inl (PersistedIdentityError e) \<Rightarrow> Inl (ServiceTransactionError e)
      | m \<Rightarrow> m)"

text \<open>\<open>outcome is FAILED_PRE_COMMIT\<close> needs the evidence of the rollback, another outcome excludes it.\<close>

definition check_rollback_evidence ::
  "service_outcome \<Rightarrow> file_identity or_sentinel \<Rightarrow> string option \<Rightarrow> unit result" where
  "check_rollback_evidence outcome rollback digest =
     (if outcome = SERVICE_FAILED then
        (case (rollback, digest) of
           (Identity i, Some _) \<Rightarrow> service_require (retained_file i)
             ''retained service terminal rollback identity is unsafe''
         | _ \<Rightarrow> service_fail ''retained service terminal rollback evidence is incomplete'')
      else service_require (rollback = Sentinel NONE \<and> digest = None)
        ''retained service terminal has unexpected rollback evidence'')"

definition check_terminal :: "ordered_record \<Rightarrow> unit result" where
  "check_terminal r =
     bindE (outcome_of r) (\<lambda>outcome.
     bindE (service_flag (sv r ''committed'') ''committed'') (\<lambda>committed.
     bindE (service_require (\<not> (outcome = OUTCOME_NONE \<or> committed \<noteq> (outcome = SUCCEEDED)))
       ''retained service terminal outcome is invalid'') (\<lambda>_.
     bindE (retained_identity (sv r ''transaction_identity'') {}) (\<lambda>transaction.
     bindE (retained_identity (sv r ''rollback_completion_identity'') {NONE}) (\<lambda>rollback.
     case transaction of
       Sentinel _ \<Rightarrow> Inl AssertionError
     | Identity i \<Rightarrow>
         bindE (service_require (retained_file i)
           ''retained service terminal transaction identity is unsafe'') (\<lambda>_.
         bindE (service_digest (sv r ''transaction_sha256'') ''transaction_sha256'' False) (\<lambda>_.
         bindE (service_digest (sv r ''rollback_completion_sha256'') ''rollback_completion_sha256'' True) (\<lambda>digest.
           check_rollback_evidence outcome rollback digest))))))))"

definition check_retained_archive ::
  "service_operation \<Rightarrow> key_action \<Rightarrow> archive_state \<Rightarrow> string list \<Rightarrow> unit result" where
  "check_retained_archive operation action state members =
     bindE (if operation = SERVICE_ISSUE then Inr (issue_archive action)
       else bindE (service_require (action \<noteq> KEY_CREATE)
           ''retained service renewal cannot create a missing key'') (\<lambda>_.
         bindE (service_require (members \<noteq> [] \<and> hd members = ''.platform-pki-renew-archive'')
           ''retained service renewal archive lacks its marker'') (\<lambda>_.
         bindE (service_require ((action = ROTATE) = (''tls.key'' \<in> set members))
           ''retained service renewal key archive conflicts with key action'') (\<lambda>_.
           Inr (ARCHIVE_RENEW, members))))) (\<lambda>(expected_archive, expected_members).
       service_require (state = expected_archive \<and> members = expected_members)
         ''retained service transaction archive state is invalid'')"

definition check_transaction :: "ordered_record \<Rightarrow> service_operation \<Rightarrow> unit result" where
  "check_transaction r operation =
     bindE (issuer_fields r ''retained service transaction issuer generations do not match'') (\<lambda>_.
     bindE (service_serial (sv r ''serial'') ''serial'') (\<lambda>_.
     bindE (key_action_of r) (\<lambda>action.
     bindE (archive_state_of r) (\<lambda>state.
     bindE (archive_members operation state (sv r ''archive_members'')) (\<lambda>members.
     bindE (check_retained_archive operation action state members) (\<lambda>_.
     bindE (if state = ARCHIVE_NONE then
         service_require (sv r ''archive_name'' = ''none'')
           ''retained non-archiving service transaction has an archive name''
       else bindE (service_pattern (sv r ''archive_name'') ARCHIVE_NAME_RX ''archive_name'') (\<lambda>_. Inr ())) (\<lambda>_.
     bindE (service_pattern (sv r ''owner'') DECIMAL_RX ''owner'') (\<lambda>_.
     bindE (service_pattern (sv r ''created_epoch'') DECIMAL_RX ''created_epoch'') (\<lambda>_. Inr ())))))))))"

definition parse_retained :: "string \<Rightarrow> record_spec \<Rightarrow> bool \<Rightarrow> ordered_record result" where
  "parse_retained data spec terminal =
     bindE (as_service_error (parse_ordered_record data spec)) (\<lambda>r.
     bindE (transaction_binding r ''retained service transaction binding is invalid'') (\<lambda>_.
     bindE (operation_of r) (\<lambda>operation.
     bindE (service_pattern (sv r ''service'') SERVICE_RX ''service'') (\<lambda>_.
     bindE (if terminal then check_terminal r else check_transaction r operation) (\<lambda>_.
       Inr r)))))"

definition parse_service_retained_transaction :: "string \<Rightarrow> ordered_record result" where
  "parse_service_retained_transaction data = parse_retained data SERVICE_RETAINED_TRANSACTION_SPEC False"

definition parse_service_retained_terminal :: "string \<Rightarrow> ordered_record result" where
  "parse_service_retained_terminal data = parse_retained data SERVICE_RETAINED_TERMINAL_SPEC True"

definition rollback_keys :: "string \<Rightarrow> string list" where
  "rollback_keys value = (if value = ''none'' then [] else split_on (CHR '','') value)"

definition parse_service_retained_rollback :: "string \<Rightarrow> ordered_record result" where
  "parse_service_retained_rollback data =
     bindE (as_service_error (parse_ordered_record data SERVICE_RETAINED_ROLLBACK_SPEC)) (\<lambda>r.
     bindE (transaction_binding r ''retained service rollback transaction binding is invalid'') (\<lambda>_.
     bindE (operation_of r) (\<lambda>_.
     bindE (service_pattern (sv r ''service'') SERVICE_RX ''service'') (\<lambda>_.
     bindE (service_require (sv r ''outcome'' = service_outcome_value SERVICE_FAILED)
       ''retained service rollback outcome is invalid'') (\<lambda>_.
     bindE (service_count r ''published_count'') (\<lambda>published.
     bindE (service_count r ''completed_count'') (\<lambda>completed.
     bindE (let order = rollback_keys (sv r ''rollback_order'')
       in service_require
         (\<not> (completed \<noteq> published \<or> int (length order) \<noteq> completed \<or> \<not> distinct order \<or>
           list_ex (\<lambda>key. key \<notin> set SERVICE_CONTINUITY_KEYS) order \<or>
           (order = [] \<and> sv r ''rollback_order'' \<noteq> ''none'')))
         ''retained service rollback completion is not an exact sequence'') (\<lambda>_.
     bindE (service_digest (sv r ''rollback_evidence_sha256'') ''rollback_evidence_sha256'' False) (\<lambda>_.
       Inr r)))))))))"

section \<open>Serializers\<close>

definition serialize_retained ::
  "(string \<times> string) list \<Rightarrow> record_spec \<Rightarrow> (string \<Rightarrow> 'q result) \<Rightarrow> string result" where
  "serialize_retained values spec parser =
     bindE (as_service_error (serialize_ordered_record values spec)) (\<lambda>data.
     bindE (parser data) (\<lambda>_. Inr data))"

definition serialize_service_retained_transaction :: "(string \<times> string) list \<Rightarrow> string result" where
  "serialize_service_retained_transaction values =
     serialize_retained values SERVICE_RETAINED_TRANSACTION_SPEC parse_service_retained_transaction"

definition serialize_service_retained_terminal :: "(string \<times> string) list \<Rightarrow> string result" where
  "serialize_service_retained_terminal values =
     serialize_retained values SERVICE_RETAINED_TERMINAL_SPEC parse_service_retained_terminal"

definition serialize_service_retained_rollback :: "(string \<times> string) list \<Rightarrow> string result" where
  "serialize_service_retained_rollback values =
     serialize_retained values SERVICE_RETAINED_ROLLBACK_SPEC parse_service_retained_rollback"

end
