(* ===== verification/ServiceChecks.thy ===== *)
theory ServiceChecks
  imports ServiceRetained
begin

text \<open>
  \<^verbatim>\<open>src/platform_pki/service_transaction.py\<close>, third part: identities and paths of the
  journal, the replace policy, the evidence of the cleanup steps, and the digest of the
  rollback evidence.
\<close>

unbundle bit_operations_syntax

section \<open>Identities\<close>

text \<open>The attributes that the identity classes share; a sentinel has none of them.\<close>

fun pi_uid :: "parsed_identity \<Rightarrow> int" where
  "pi_uid (PDirectory i) = di_uid i"
| "pi_uid (PFile i) = fi_uid i"
| "pi_uid (PObject i) = os_uid i"
| "pi_uid (PSentinel s) = 0"

fun pi_permissions :: "parsed_identity \<Rightarrow> int" where
  "pi_permissions (PDirectory i) = di_permissions i"
| "pi_permissions (PFile i) = fi_permissions i"
| "pi_permissions (PObject i) = os_permissions i"
| "pi_permissions (PSentinel s) = 0"

fun pi_kind :: "parsed_identity \<Rightarrow> file_kind" where
  "pi_kind (PDirectory i) = Directory"
| "pi_kind (PFile i) = fi_kind i"
| "pi_kind (PObject i) = os_kind i"
| "pi_kind (PSentinel s) = Regular"

fun pi_links :: "parsed_identity \<Rightarrow> int" where
  "pi_links (PFile i) = fi_links i"
| "pi_links (PObject i) = os_links i"
| "pi_links _ = 0"

fun is_sentinel :: "parsed_identity \<Rightarrow> bool" where
  "is_sentinel (PSentinel s) = True"
| "is_sentinel _ = False"

fun is_file :: "parsed_identity \<Rightarrow> bool" where
  "is_file (PFile i) = True"
| "is_file _ = False"

fun is_directory :: "parsed_identity \<Rightarrow> bool" where
  "is_directory (PDirectory i) = True"
| "is_directory _ = False"

definition mode_is_safe :: "int \<Rightarrow> bool \<Rightarrow> bool" where
  "mode_is_safe mode private = (mode AND (if private then 63 else 18) = 0)"

definition copied_metadata_matches :: "file_identity \<Rightarrow> file_identity \<Rightarrow> bool" where
  "copied_metadata_matches source copy \<longleftrightarrow>
     fi_uid copy = fi_uid source \<and> fi_permissions copy = fi_permissions source \<and>
     fi_size copy = fi_size source \<and> fi_mtime_ns copy = fi_mtime_ns source"

definition same_inode :: "file_identity \<Rightarrow> file_identity \<Rightarrow> bool" where
  "same_inode a b \<longleftrightarrow> fi_dev a = fi_dev b \<and> fi_ino a = fi_ino b"

datatype service_identity_kind = SDirectory | SFullDirectory | SFile | SObject

definition sentinel_to :: "('a \<Rightarrow> parsed_identity) \<Rightarrow> 'a or_sentinel \<Rightarrow> parsed_identity" where
  "sentinel_to f i = (case i of Sentinel s \<Rightarrow> PSentinel s | Identity x \<Rightarrow> f x)"

definition read_identity :: "string \<Rightarrow> service_identity_kind \<Rightarrow> identity_sentinel set \<Rightarrow> parsed_identity result" where
  "read_identity value kind sentinels =
     (case kind of
        SDirectory \<Rightarrow> bindE (parse_directory_identity value sentinels) (\<lambda>i. Inr (sentinel_to PDirectory i))
      | SFullDirectory \<Rightarrow> bindE (parse_file_identity value sentinels) (\<lambda>i. Inr (sentinel_to PFile i))
      | SFile \<Rightarrow> bindE (parse_file_identity value sentinels) (\<lambda>i. Inr (sentinel_to PFile i))
      | SObject \<Rightarrow> bindE (parse_file_object_state value sentinels) (\<lambda>i. Inr (sentinel_to PObject i)))"

text \<open>The checks of an identity that is not a sentinel.\<close>

definition check_identity ::
  "parsed_identity \<Rightarrow> string \<Rightarrow> service_identity_kind \<Rightarrow> int \<Rightarrow> int option \<Rightarrow> bool \<Rightarrow> unit result" where
  "check_identity i field kind owner expected_mode safe_directory =
     bindE (service_require (pi_uid i = owner)
       (''service transaction identity '' @ field @ '' has the wrong owner'')) (\<lambda>_.
     if kind \<in> {SDirectory, SFullDirectory} then
       bindE (service_require (pi_kind i = Directory)
         (''service transaction identity '' @ field @ '' is not a directory'')) (\<lambda>_.
       bindE (service_require (\<forall>m \<in> set_option expected_mode. pi_permissions i = m)
         (''service transaction directory '' @ field @ '' has the wrong mode'')) (\<lambda>_.
       service_require (safe_directory \<longrightarrow> mode_is_safe (pi_permissions i) False)
         (''service transaction directory '' @ field @ '' has an unsafe mode'')))
     else
       bindE (service_require (pi_kind i = Regular \<and> pi_links i = SERVICE_TRANSACTION_LINKS)
         (''service transaction identity '' @ field @ '' is not a single-link file'')) (\<lambda>_.
       service_require (\<forall>m \<in> set_option expected_mode. pi_permissions i = m)
         (''service transaction file '' @ field @ '' has the wrong mode'')))"

definition service_identity ::
  "string \<Rightarrow> string \<Rightarrow> service_identity_kind \<Rightarrow> int \<Rightarrow> identity_sentinel set \<Rightarrow> int option \<Rightarrow> bool \<Rightarrow>
     parsed_identity result" where
  "service_identity value field kind owner sentinels expected_mode safe_directory =
     (case read_identity value kind sentinels of
        Inl (PersistedIdentityError e) \<Rightarrow>
          service_fail (''service transaction identity '' @ field @ '' is invalid: '' @ e)
      | Inl e \<Rightarrow> Inl e
      | Inr i \<Rightarrow>
          bindE (if is_sentinel i then Inr ()
            else check_identity i field kind owner expected_mode safe_directory) (\<lambda>_. Inr i))"

definition exact_path :: "string \<Rightarrow> string \<Rightarrow> string \<Rightarrow> string result" where
  "exact_path value expected field =
     (if \<not> isabs value \<or> normpath value \<noteq> value \<or> value \<noteq> expected then
        service_fail (''service transaction path '' @ field @ '' is outside its contract'')
      else Inr value)"

definition replace_policy :: "service_operation \<Rightarrow> key_action \<Rightarrow> (string \<times> bool) list" where
  "replace_policy operation action =
     zip SERVICE_CA_PUBLICATION_ORDER
       (if operation = SERVICE_ISSUE then SERVICE_ISSUE_REPLACE_POLICY else SERVICE_RENEW_REPLACE_POLICY) @
     (if action \<in> {KEY_CREATE, ROTATE} then [(''service_key'', action = ROTATE)] else [])"

text \<open>\<open>policy.get(key, False)\<close>.\<close>

definition replaces :: "(string \<times> bool) list \<Rightarrow> string \<Rightarrow> bool" where
  "replaces policy key \<longleftrightarrow> map_of policy key = Some True"

section \<open>Cleanup evidence\<close>

definition prefix_flags :: "nat \<Rightarrow> nat \<Rightarrow> bool list" where
  "prefix_flags n count = map (\<lambda>position. position < count) [0..<n]"

text \<open>The legal pairs of a checkpoint and the flags of the steps before the journal.\<close>

definition legal_cleanup :: "string list \<Rightarrow> (string \<times> bool list) list" where
  "legal_cleanup steps =
     (let n = length steps - 1
      in concat (map (\<lambda>index.
           let step = steps ! index
           in if step = ''journal'' then [(''journal-cleanup-pending'', prefix_flags n index)]
              else [(''cleanup-'' @ step @ ''-pending'', prefix_flags n index),
                    (''cleanup-'' @ step @ ''-done'', prefix_flags n (index + 1))])
         [0..<length steps]))"

definition cleanup_state :: "bool option \<Rightarrow> bool \<Rightarrow> bool \<Rightarrow> bool \<Rightarrow> string \<Rightarrow> bool" where
  "cleanup_state marker stage backup terminal step =
     (if step = ''archive-marker'' then marker = Some True
      else if step = ''stage'' then stage
      else if step = ''backup'' then backup
      else terminal)"

definition cleanup_matrix :: "ordered_record \<Rightarrow> service_operation \<Rightarrow> service_outcome \<Rightarrow> unit result" where
  "cleanup_matrix r operation outcome =
     bindE (service_boolean (sv r ''archive_marker_removed'') ''archive_marker_removed'' True) (\<lambda>marker.
     bindE (service_flag (sv r ''stage_removed'') ''stage_removed'') (\<lambda>stage.
     bindE (service_flag (sv r ''backup_removed'') ''backup_removed'') (\<lambda>backup.
       let terminal = (sv r ''terminal_identity'' \<noteq> ''none'');
           owned = service_cleanup_owned_keys operation outcome
       in bindE (service_require (\<not> ((operation \<noteq> SERVICE_RENEW \<or> outcome \<noteq> SUCCEEDED) \<and> marker = Some True))
            ''archive marker cleanup evidence is not applicable'') (\<lambda>_.
          service_require
            ((sv r ''checkpoint'', map (cleanup_state marker stage backup terminal) (owned @ [''terminal'']))
               \<in> set (legal_cleanup (owned @ [''terminal'', ''journal''])))
            ''service transaction cleanup evidence conflicts with checkpoint''))))"

section \<open>The digest of the rollback evidence\<close>

definition rollback_lines :: "ordered_record \<Rightarrow> nat \<times> string \<Rightarrow> string list result" where
  "rollback_lines r = (\<lambda>(index, key).
     bindE (record_get r (key_field key ''pre_identity'')) (\<lambda>pre.
     bindE (if key \<in> set FILE_MUTATION_KEYS then record_get r (key_field key ''pre_sha256'')
       else Inr ''none'') (\<lambda>pre_sha256.
     bindE (if pre = ''absent'' then Inr (''absent'', ''none'')
       else bindE (record_get r (key_field key ''backup_object'')) (\<lambda>object.
         bindE (record_get r (key_field key ''backup_sha256'')) (\<lambda>sha. Inr (object, sha)))) (\<lambda>(object, sha).
       let at = (\<lambda>name value. ''rollback_'' @ nat_text 10 index @ ''_'' @ name @ ''='' @ value)
       in Inr [at ''key'' key, at ''pre_identity'' pre, at ''pre_sha256'' pre_sha256,
            at ''restore_object'' object, at ''restore_sha256'' sha]))))"

definition rollback_evidence_digest :: "ordered_record \<Rightarrow> string list \<Rightarrow> string result" where
  "rollback_evidence_digest r order =
     bindE (mapE (rollback_lines r) (enumerate 0 order)) (\<lambda>lines.
       Inr (sha256_hex (concat (map (\<lambda>l. l @ [NL])
         ([''schema=1'', ''transaction='' @ sv r ''transaction'',
           ''published_count='' @ sv r ''published_count'',
           ''archive_root_restored='' @ sv r ''archive_root_restored'',
           ''archive_root_restored_identity='' @ sv r ''archive_root_restored_identity''] @ concat lines)))))"

end
