(* ===== verification/ServiceMutations.thy ===== *)
theory ServiceMutations
  imports ServiceChecks
begin

text \<open>
  \<^verbatim>\<open>src/platform_pki/service_transaction.py\<close>, fourth part: the header of a journal, its fixed paths and
  identities, and the three loops of \<open>parse_service_transaction\<close> over the directory mutations, the file
  mutations and the signing inputs. A local variable of the source that several steps read is a
  field of a record here.
\<close>

section \<open>Typed values\<close>

record service_mutation =
  sm_key :: string
  sm_destination :: string
  sm_pre_identity :: parsed_identity
  sm_pre_sha256 :: "string option"
  sm_stage :: "string option"
  sm_stage_identity :: parsed_identity
  sm_stage_object :: parsed_identity
  sm_stage_sha256 :: "string option"
  sm_backup :: "string option"
  sm_backup_identity :: parsed_identity
  sm_backup_object :: parsed_identity
  sm_backup_sha256 :: "string option"
  sm_post_identity :: parsed_identity
  sm_post_sha256 :: "string option"
  sm_rollback_identity :: parsed_identity
  sm_rollback_sha256 :: "string option"
  sm_replace :: bool
  sm_archive_source :: "string option"
  sm_archive_source_identity :: parsed_identity
  sm_archive_source_sha256 :: "string option"

record service_signing_input =
  si_key :: string
  si_source :: string
  si_source_identity :: file_identity
  si_source_sha256 :: "string option"
  si_stage :: string
  si_stage_identity :: parsed_identity
  si_stage_object :: parsed_identity
  si_stage_sha256 :: "string option"

section \<open>The header\<close>

record service_header =
  th_operation :: service_operation
  th_phase :: service_phase
  th_recovery_mode :: recovery_mode
  th_outcome :: service_outcome
  th_key_action :: key_action
  th_archive_state :: archive_state
  th_committed :: bool
  th_names :: service_names
  th_owner :: int
  th_members :: "string list"

definition post_boundary :: "service_phase \<Rightarrow> bool" where
  "post_boundary phase \<longleftrightarrow> phase \<in> {COMMITTED, CLEANING_UP, TERMINAL}"

definition rollback_retained :: "ordered_record \<Rightarrow> bool" where
  "rollback_retained r \<longleftrightarrow> sv r ''rollback_count'' \<noteq> ''0'' \<or>
     list_ex (\<lambda>key. sv r (key_field key ''rollback_identity'') \<noteq> ''none'') MUTATION_KEYS \<or>
     list_ex (\<lambda>key. sv r (key_field key ''rollback_sha256'') \<noteq> ''none'') FILE_MUTATION_KEYS"

definition check_archive_state ::
  "service_operation \<Rightarrow> key_action \<Rightarrow> archive_state \<Rightarrow> string list \<Rightarrow> unit result" where
  "check_archive_state operation action state members =
     bindE (if operation = SERVICE_ISSUE then Inr (issue_archive action)
       else bindE (service_require (action \<in> {REUSE, ROTATE})
           ''managed renewal cannot create a missing key'') (\<lambda>_.
         bindE (service_require (members \<noteq> [] \<and> hd members = ''.platform-pki-renew-archive'')
           ''managed renewal archive lacks its marker'') (\<lambda>_. Inr (ARCHIVE_RENEW, members))))
       (\<lambda>(expected_archive, expected_members).
         service_require (state = expected_archive \<and> members = expected_members)
           ''service transaction archive state conflicts with operation'')"

definition parse_service_header :: "ordered_record \<Rightarrow> service_header result" where
  "parse_service_header r =
     bindE (operation_of r) (\<lambda>operation.
     bindE (service_enum service_phase_value [STAGING, BACKING_UP, SERVICE_PLANNED, PUBLISHING, VERIFYING,
       COMMITTED, ROLLING_BACK, CLEANING_UP, TERMINAL] (sv r ''phase'') ''phase'') (\<lambda>phase.
     bindE (service_enum recovery_mode_value [ROLLBACK, CLEANUP_ONLY] (sv r ''recovery_mode'') ''recovery_mode'') (\<lambda>mode.
     bindE (outcome_of r) (\<lambda>outcome.
     bindE (key_action_of r) (\<lambda>action.
     bindE (archive_state_of r) (\<lambda>state.
     bindE (service_flag (sv r ''committed'') ''committed'') (\<lambda>committed.
     bindE (service_require (\<not> (post_boundary phase \<and> rollback_retained r))
       ''service transaction post-boundary state retains rollback evidence'') (\<lambda>_.
     bindE (service_pattern (sv r ''service'') SERVICE_RX ''service'') (\<lambda>service.
     bindE (issuer_fields r ''service transaction issuer generations do not match'') (\<lambda>(root, intermediate).
     bindE (service_serial (sv r ''serial'') ''serial'') (\<lambda>serial.
     bindE (service_count r ''owner'') (\<lambda>owner.
     bindE (service_pattern (sv r ''created_epoch'') DECIMAL_RX ''created_epoch'') (\<lambda>_.
     bindE (transaction_binding r ''service transaction binding is invalid'') (\<lambda>_.
     bindE (archive_members operation state (sv r ''archive_members'')) (\<lambda>members.
     bindE (check_archive_state operation action state members) (\<lambda>_.
     bindE (if state = ARCHIVE_NONE then
         bindE (service_require (sv r ''archive_name'' = ''none'')
           ''non-archiving service transaction has an archive name'') (\<lambda>_. Inr ''none'')
       else service_pattern (sv r ''archive_name'') ARCHIVE_NAME_RX ''archive_name'') (\<lambda>archive.
       Inr \<lparr>th_operation = operation, th_phase = phase, th_recovery_mode = mode, th_outcome = outcome,
         th_key_action = action, th_archive_state = state, th_committed = committed,
         th_names = \<lparr>sn_service = service, sn_root = root, sn_intermediate = intermediate,
           sn_serial = serial, sn_archive = archive\<rparr>,
         th_owner = owner, th_members = members\<rparr>)))))))))))))))))"

section \<open>Paths\<close>

definition service_transaction_dir :: "string \<Rightarrow> ordered_record \<Rightarrow> string" where
  "service_transaction_dir root r =
     path_join root [SERVICE_TRANSACTION_TREE_RELATIVE_PATH, sv r ''transaction'']"

definition service_stage_dir :: "string \<Rightarrow> ordered_record \<Rightarrow> string" where
  "service_stage_dir root r = path_join (service_transaction_dir root r) [''stage'']"

definition service_inputs_dir :: "string \<Rightarrow> ordered_record \<Rightarrow> string" where
  "service_inputs_dir root r = path_join (service_stage_dir root r) [''inputs'']"

definition service_backup_dir :: "string \<Rightarrow> ordered_record \<Rightarrow> string" where
  "service_backup_dir root r = path_join (service_transaction_dir root r) [''backup'']"

definition service_fixed_paths :: "string \<Rightarrow> ordered_record \<Rightarrow> (string \<times> string) list" where
  "service_fixed_paths root r = [
     (''journal_path'', path_join root [SERVICE_TRANSACTION_JOURNAL_RELATIVE_PATH]),
     (''transaction_dir'', service_transaction_dir root r),
     (''transaction_record_path'', path_join (service_transaction_dir root r) [''transaction'']),
     (''stage_dir'', service_stage_dir root r),
     (''inputs_dir'', service_inputs_dir root r),
     (''backup_dir'', service_backup_dir root r),
     (''terminal_path'', path_join (service_transaction_dir root r) [''terminal''])]"

definition check_service_paths :: "string \<Rightarrow> ordered_record \<Rightarrow> (string \<times> string) list result" where
  "check_service_paths root r =
     mapE (\<lambda>(field, expected). bindE (exact_path (sv r field) expected field) (\<lambda>p. Inr (field, p)))
       (service_fixed_paths root r)"

section \<open>Fixed identities and retained records\<close>

text \<open>\<open>identities[field] = _identity(record[field], field, ...)\<close>.\<close>

definition identity_of_field ::
  "ordered_record \<Rightarrow> int \<Rightarrow> service_identity_kind \<Rightarrow> identity_sentinel set \<Rightarrow> int option \<Rightarrow> bool \<Rightarrow> string \<Rightarrow>
     (string \<times> parsed_identity) result" where
  "identity_of_field r owner kind sentinels mode safe field =
     bindE (service_identity (sv r field) field kind owner sentinels mode safe) (\<lambda>i. Inr (field, i))"

definition check_journal_identity :: "ordered_record \<Rightarrow> int \<Rightarrow> string \<Rightarrow> (string \<times> parsed_identity) result" where
  "check_journal_identity r owner data =
     bindE (identity_of_field r owner SObject {} (Some SERVICE_TRANSACTION_FILE_MODE) False ''journal_identity'') (\<lambda>e.
     case snd e of
       PObject i \<Rightarrow>
         bindE (service_require (os_size i = int (length data))
           ''service journal object state does not bind canonical bytes'') (\<lambda>_. Inr e)
     | _ \<Rightarrow> Inl AssertionError)"

definition check_current_key :: "ordered_record \<Rightarrow> service_header \<Rightarrow> (string \<times> parsed_identity) result" where
  "check_current_key r h =
     bindE (identity_of_field r (th_owner h) SFile {ABSENT} None False ''current_key_identity'') (\<lambda>e.
     bindE (service_digest (sv r ''current_key_sha256'') ''current_key_sha256'' True) (\<lambda>sha.
     bindE (service_require
         ((th_key_action h = KEY_CREATE) = (snd e = PSentinel ABSENT) \<and> (snd e = PSentinel ABSENT) = (sha = None))
         ''service transaction current key evidence conflicts with key action'') (\<lambda>_.
     bindE (service_require (is_file (snd e) \<longrightarrow> mode_is_safe (pi_permissions (snd e)) True)
         ''service transaction current key permissions are too open'') (\<lambda>_. Inr e))))"

definition retained_transaction_values :: "ordered_record \<Rightarrow> (string \<times> string) list" where
  "retained_transaction_values r =
     (''schema'', ''1'') # map (\<lambda>f. (f, sv r f)) [''transaction'', ''operation'', ''service'', ''issuer_root'',
       ''issuer_intermediate'', ''serial'', ''key_action'', ''archive_state'', ''archive_name'',
       ''archive_members'', ''owner'', ''created_epoch'']"

definition retained_terminal_values :: "ordered_record \<Rightarrow> string \<Rightarrow> (string \<times> string) list" where
  "retained_terminal_values r transaction_sha256 = [(''schema'', ''1''), (''transaction'', sv r ''transaction''),
     (''operation'', sv r ''operation''), (''service'', sv r ''service''), (''outcome'', sv r ''outcome''),
     (''committed'', sv r ''committed''), (''transaction_identity'', sv r ''transaction_record_identity''),
     (''transaction_sha256'', transaction_sha256),
     (''rollback_completion_identity'', sv r ''rollback_completion_identity''),
     (''rollback_completion_sha256'', sv r ''rollback_completion_sha256'')]"

text \<open>The identity of a file whose bytes are known: its size is their length.\<close>

definition binds_size :: "parsed_identity \<Rightarrow> string \<Rightarrow> string \<Rightarrow> unit result" where
  "binds_size i bytes message =
     (case i of
        PFile f \<Rightarrow> service_require (fi_size f = int (length bytes)) message
      | _ \<Rightarrow> Inl AssertionError)"

definition check_transaction_record :: "ordered_record \<Rightarrow> parsed_identity \<Rightarrow> string result" where
  "check_transaction_record r identity =
     bindE (serialize_service_retained_transaction (retained_transaction_values r)) (\<lambda>retained.
     bindE (service_require (sv r ''transaction_record_sha256'' = sha256_hex retained)
       ''service transaction record digest does not bind canonical bytes'') (\<lambda>_.
     bindE (binds_size identity retained
       ''service transaction record identity does not bind canonical bytes'') (\<lambda>_.
       Inr (sha256_hex retained))))"

definition check_terminal_record :: "ordered_record \<Rightarrow> int \<Rightarrow> string \<Rightarrow> (string \<times> parsed_identity) result" where
  "check_terminal_record r owner transaction_sha256 =
     bindE (identity_of_field r owner SFile {NONE} (Some SERVICE_TRANSACTION_FILE_MODE) False ''terminal_identity'') (\<lambda>e.
     bindE (service_require ((sv r ''terminal_identity'' = ''none'') = (sv r ''terminal_sha256'' = ''none''))
       ''service terminal evidence is incomplete'') (\<lambda>_.
     bindE (service_require (sv r ''terminal_sha256'' \<noteq> ''none'' \<longrightarrow> fullmatch HEX64_RX (sv r ''terminal_sha256''))
       ''service terminal digest is invalid'') (\<lambda>_.
     if is_sentinel (snd e) then Inr e
     else bindE (serialize_service_retained_terminal (retained_terminal_values r transaction_sha256)) (\<lambda>retained.
       bindE (service_require (sv r ''terminal_sha256'' = sha256_hex retained)
         ''service terminal digest does not bind canonical bytes'') (\<lambda>_.
       bindE (binds_size (snd e) retained ''service terminal identity does not bind canonical bytes'') (\<lambda>_. Inr e))))))"

text \<open>The identities of the journal, of its directories, of the current key and of the two retained records.\<close>

definition check_fixed_identities ::
  "ordered_record \<Rightarrow> service_header \<Rightarrow> string \<Rightarrow> (string \<times> parsed_identity) list result" where
  "check_fixed_identities r h data =
     bindE (check_journal_identity r (th_owner h) data) (\<lambda>journal.
     bindE (mapE (identity_of_field r (th_owner h) SDirectory {} (Some SERVICE_TRANSACTION_DIRECTORY_MODE) False)
       [''transaction_identity'', ''stage_dir_identity'', ''inputs_dir_identity'', ''backup_dir_identity'']) (\<lambda>dirs.
     bindE (identity_of_field r (th_owner h) SFile {} (Some SERVICE_TRANSACTION_FILE_MODE) False
       ''transaction_record_identity'') (\<lambda>transaction.
     bindE (check_current_key r h) (\<lambda>current.
     bindE (check_transaction_record r (snd transaction)) (\<lambda>transaction_sha256.
     bindE (check_terminal_record r (th_owner h) transaction_sha256) (\<lambda>terminal.
       Inr ([journal] @ dirs @ [transaction, current, terminal])))))))"

section \<open>The archive root\<close>

text \<open>What the checks of the archive root leave behind.\<close>

record archive_root_state =
  ar_snapshot :: parsed_identity
  ar_create :: bool
  ar_restore_required :: bool
  ar_restored :: "bool option"
  ar_paths :: "(string \<times> string) list"
  ar_identities :: "(string \<times> parsed_identity) list"

definition check_reference :: "ordered_record \<Rightarrow> parsed_identity \<Rightarrow> parsed_identity \<Rightarrow> unit result" where
  "check_reference r reference snapshot =
     (case (reference, snapshot) of
        (PFile i, PFile root) \<Rightarrow>
          bindE (service_require (fi_permissions i = SERVICE_TRANSACTION_FILE_MODE \<and> fi_size i = 0 \<and>
              fi_mtime_ns i = fi_mtime_ns root)
            ''service archive-root reference does not bind original metadata'') (\<lambda>_.
          service_require (sv r ''archive_root_reference_sha256'' = EMPTY_SHA256)
            ''service archive-root reference digest is invalid'')
      | _ \<Rightarrow> Inl AssertionError)"

definition check_restored :: "bool \<Rightarrow> parsed_identity \<Rightarrow> parsed_identity \<Rightarrow> unit result" where
  "check_restored restored identity snapshot =
     (if restored then
        (case (identity, snapshot) of
           (PSentinel _, _) \<Rightarrow> service_fail ''service archive-root restoration lacks exact identity evidence''
         | (PFile i, PFile root) \<Rightarrow>
             bindE (fi_directory i) (\<lambda>d. bindE (fi_directory root) (\<lambda>d'.
               service_require (d = d' \<and> fi_mtime_ns i = fi_mtime_ns root)
                 ''service archive-root restoration does not match original metadata''))
         | _ \<Rightarrow> Inl AssertionError)
      else service_require (identity = PSentinel NONE)
        ''service archive-root restoration evidence is premature'')"

definition check_archive_reference ::
  "ordered_record \<Rightarrow> service_header \<Rightarrow> string \<Rightarrow> parsed_identity \<Rightarrow>
     (bool \<times> (string \<times> string) list \<times> (string \<times> parsed_identity) list) result" where
  "check_archive_reference r h root snapshot =
     bindE (exact_path (sv r ''archive_root_reference_path'')
       (path_join (service_transaction_dir root r) [''archive-root-reference'']) ''archive_root_reference_path'') (\<lambda>path.
     bindE (identity_of_field r (th_owner h) SFile {} (Some SERVICE_TRANSACTION_FILE_MODE) False
       ''archive_root_reference_identity'') (\<lambda>reference.
     bindE (check_reference r (snd reference) snapshot) (\<lambda>_.
     bindE (service_flag (sv r ''archive_root_restored'') ''archive_root_restored'') (\<lambda>restored.
     bindE (identity_of_field r (th_owner h) SFullDirectory {NONE} None False ''archive_root_restored_identity'') (\<lambda>identity.
     bindE (check_restored restored (snd identity) snapshot) (\<lambda>_.
       Inr (restored, [(''archive_root_reference_path'', path)], [reference, identity])))))))"

definition check_archive_root ::
  "ordered_record \<Rightarrow> service_header \<Rightarrow> string \<Rightarrow> archive_root_state result" where
  "check_archive_root r h root =
     bindE (identity_of_field r (th_owner h) SFullDirectory {ABSENT, NONE} None True
       ''archive_root_snapshot_identity'') (\<lambda>snapshot.
     bindE (service_require (th_archive_state h = ARCHIVE_NONE \<longrightarrow> snd snapshot = PSentinel NONE)
       ''non-archiving transaction has archive identities'') (\<lambda>_.
     let create = (snd snapshot = PSentinel ABSENT);
         required = (th_archive_state h \<noteq> ARCHIVE_NONE \<and> \<not> create)
     in bindE (if required then
            bindE (check_archive_reference r h root (snd snapshot)) (\<lambda>(restored, paths, identities).
              Inr (Some restored, paths, identities))
          else bindE (service_require (list_all (\<lambda>f. sv r f = ''none'')
              [''archive_root_reference_path'', ''archive_root_reference_identity'',
               ''archive_root_reference_sha256'', ''archive_root_restored'', ''archive_root_restored_identity''])
            ''service transaction has inapplicable archive-root restoration evidence'') (\<lambda>_. Inr (None, [], [])))
        (\<lambda>(restored, paths, identities).
          Inr \<lparr>ar_snapshot = snd snapshot, ar_create = create, ar_restore_required = required,
            ar_restored = restored, ar_paths = paths, ar_identities = snapshot # identities\<rparr>)))"

section \<open>Directory mutations\<close>

definition field_identity ::
  "ordered_record \<Rightarrow> int \<Rightarrow> string \<Rightarrow> string \<Rightarrow> service_identity_kind \<Rightarrow> identity_sentinel set \<Rightarrow> bool \<Rightarrow>
     parsed_identity result" where
  "field_identity r owner key suffix kind sentinels safe =
     service_identity (sv r (key_field key suffix)) (key_field key suffix) kind owner sentinels None safe"

definition directory_mutation ::
  "string \<Rightarrow> string \<Rightarrow> parsed_identity \<Rightarrow> parsed_identity \<Rightarrow> parsed_identity \<Rightarrow> service_mutation" where
  "directory_mutation key destination pre post rollback =
     \<lparr>sm_key = key, sm_destination = destination, sm_pre_identity = pre, sm_pre_sha256 = None,
      sm_stage = None, sm_stage_identity = PSentinel NONE, sm_stage_object = PSentinel NONE, sm_stage_sha256 = None,
      sm_backup = None, sm_backup_identity = PSentinel NONE, sm_backup_object = PSentinel NONE,
      sm_backup_sha256 = None, sm_post_identity = post, sm_post_sha256 = None,
      sm_rollback_identity = rollback, sm_rollback_sha256 = None, sm_replace = False,
      sm_archive_source = None, sm_archive_source_identity = PSentinel NONE, sm_archive_source_sha256 = None\<rparr>"

text \<open>A created directory is private; an existing one does not change.\<close>

definition check_directory_states ::
  "string \<Rightarrow> parsed_identity \<Rightarrow> parsed_identity \<Rightarrow> parsed_identity \<Rightarrow> unit result" where
  "check_directory_states key pre post rollback =
     (if pre = PSentinel ABSENT then
        service_require (\<not> is_sentinel post \<longrightarrow> pi_permissions post = SERVICE_TRANSACTION_DIRECTORY_MODE)
          (''created service directory '' @ key @ '' has the wrong mode'')
      else bindE (assertE (is_directory pre)) (\<lambda>_.
        bindE (assertE (is_directory post)) (\<lambda>_.
        bindE (service_require (post = pre) (''existing service directory '' @ key @ '' changed identity'')) (\<lambda>_.
        service_require (rollback = PSentinel NONE)
          (''existing service directory '' @ key @ '' has rollback evidence'')))))"

definition check_archive_directory :: "string \<Rightarrow> parsed_identity \<Rightarrow> parsed_identity \<Rightarrow> unit result" where
  "check_archive_directory key pre snapshot =
     (if key = ''archive_root'' then
        bindE (case snapshot of
            PSentinel ABSENT \<Rightarrow> Inr (PSentinel ABSENT)
          | PFile i \<Rightarrow> bindE (fi_directory i) (\<lambda>d. Inr (PDirectory d))
          | _ \<Rightarrow> Inl AssertionError) (\<lambda>expected.
          service_require (pre = expected) ''service archive-root mutation does not bind its snapshot'')
      else service_require (\<not> (key = ''archive_dir'' \<and> pre \<noteq> PSentinel ABSENT))
        ''service archive destination was not preauthorized absent'')"

definition directory_enabled :: "service_header \<Rightarrow> string \<Rightarrow> bool" where
  "directory_enabled h key \<longleftrightarrow> key \<in> set SERVICE_CONTAINER_ORDER \<or>
     th_archive_state h \<noteq> ARCHIVE_NONE \<and> key \<in> archive_containers"

definition all_none :: "ordered_record \<Rightarrow> string \<Rightarrow> string list \<Rightarrow> bool" where
  "all_none r key suffixes = list_all (\<lambda>s. sv r (key_field key s) = ''none'') suffixes"

definition parse_directory_mutation ::
  "ordered_record \<Rightarrow> service_header \<Rightarrow> string \<Rightarrow> parsed_identity \<Rightarrow> string \<Rightarrow> service_mutation option result" where
  "parse_directory_mutation r h root snapshot key =
     (if \<not> directory_enabled h key then
        bindE (service_require (all_none r key DIRECTORY_MUTATION_SUFFIXES)
          (''disabled service mutation '' @ key @ '' has evidence'')) (\<lambda>_. Inr None)
      else bindE (table_get DIRECTORY_DESTINATIONS key) (\<lambda>template.
        bindE (exact_path (sv r (key_field key ''destination'')) (path_join root [template (th_names h)])
          (key_field key ''destination'')) (\<lambda>destination.
        bindE (field_identity r (th_owner h) key ''pre_identity'' SDirectory {ABSENT} True) (\<lambda>pre.
        bindE (field_identity r (th_owner h) key ''post_identity'' SDirectory {NONE} True) (\<lambda>post.
        bindE (field_identity r (th_owner h) key ''rollback_identity'' SDirectory {ABSENT, NONE} True) (\<lambda>rollback.
        bindE (check_directory_states key pre post rollback) (\<lambda>_.
        bindE (check_archive_directory key pre snapshot) (\<lambda>_.
          Inr (Some (directory_mutation key destination pre post rollback))))))))))"

definition parse_directory_mutations ::
  "ordered_record \<Rightarrow> service_header \<Rightarrow> string \<Rightarrow> parsed_identity \<Rightarrow> service_mutation list result" where
  "parse_directory_mutations r h root snapshot =
     bindE (mapE (parse_directory_mutation r h root snapshot) DIRECTORY_MUTATION_KEYS) (\<lambda>ms.
       Inr (map the (filter (\<lambda>m. m \<noteq> None) ms)))"

definition mutation_table :: "service_mutation list \<Rightarrow> (string \<times> service_mutation) list" where
  "mutation_table ms = map (\<lambda>m. (sm_key m, m)) ms"

text \<open>\<open>mutation_by_key[key]\<close>.\<close>

definition mutation_at :: "service_mutation list \<Rightarrow> string \<Rightarrow> service_mutation result" where
  "mutation_at ms key = table_get (mutation_table ms) key"

definition created_directories :: "service_mutation list \<Rightarrow> string list" where
  "created_directories ms = map sm_key (filter (\<lambda>m. sm_pre_identity m = PSentinel ABSENT \<and>
     sm_key m \<in> set SERVICE_CONTAINER_ORDER) ms)"

definition check_parent_directory :: "service_mutation list \<Rightarrow> unit result" where
  "check_parent_directory ms =
     bindE (mutation_at ms ''service_root'') (\<lambda>parent.
     bindE (if sm_pre_identity parent = PSentinel ABSENT then mapE (mutation_at ms) (tl SERVICE_CONTAINER_ORDER)
       else Inr []) (\<lambda>children.
       service_require (list_all (\<lambda>m. sm_pre_identity m = PSentinel ABSENT) children)
         ''service child directory exists without its parent pre-state''))"

section \<open>Orders and counts\<close>

record service_counts =
  sc_publication :: "string list"
  sc_inputs :: "string list"
  sc_staging :: "string list"
  sc_staged :: int
  sc_backed_up :: int
  sc_published :: int
  sc_rolled_back :: int
  sc_completed :: int

definition input_enabled :: "service_header \<Rightarrow> string \<Rightarrow> bool" where
  "input_enabled h key \<longleftrightarrow> key \<noteq> ''signing_service_key'' \<or> th_key_action h = REUSE"

definition parse_counts :: "ordered_record \<Rightarrow> service_header \<Rightarrow> string list \<Rightarrow> service_counts result" where
  "parse_counts r h publication =
     (let inputs = filter (input_enabled h) SERVICE_SIGNING_INPUT_KEYS;
          staging = inputs @ filter (\<lambda>key. key \<in> set FILE_MUTATION_KEYS) publication
      in bindE (service_count r ''staged_count'') (\<lambda>staged.
         bindE (service_count r ''backed_up_count'') (\<lambda>backed_up.
         bindE (service_count r ''published_count'') (\<lambda>published.
         bindE (service_count r ''rollback_count'') (\<lambda>rolled_back.
         bindE (service_count r ''rollback_completion_count'') (\<lambda>completed.
         bindE (service_require (\<not> (staged > int (length staging) \<or> published > int (length publication) \<or>
             rolled_back > published \<or> completed > published))
           ''service transaction mutation counts are invalid'') (\<lambda>_.
           Inr \<lparr>sc_publication = publication, sc_inputs = inputs, sc_staging = staging, sc_staged = staged,
             sc_backed_up = backed_up, sc_published = published, sc_rolled_back = rolled_back,
             sc_completed = completed\<rparr>)))))))"

definition stage_done :: "service_counts \<Rightarrow> string \<Rightarrow> bool" where
  "stage_done c key \<longleftrightarrow> int (index_of key (sc_staging c)) < sc_staged c"

end
