(* ===== verification/ServiceFiles.thy ===== *)
theory ServiceFiles
  imports ServiceMutations
begin

text \<open>
  \<^verbatim>\<open>src/platform_pki/service_transaction.py\<close>, fifth part: the loop of \<open>parse_service_transaction\<close>
  over the file mutations, the checks that connect mutations with each other, and the loop over the
  signing inputs.
\<close>

section \<open>Copies\<close>

text \<open>The identity, the object state and the digest of a copy, each of them possibly missing.\<close>

type_synonym copy_evidence = "parsed_identity \<times> parsed_identity \<times> string option"

definition parse_copy :: "ordered_record \<Rightarrow> int \<Rightarrow> string \<Rightarrow> string \<Rightarrow> copy_evidence result" where
  "parse_copy r owner key role =
     bindE (field_identity r owner key (role @ ''_identity'') SFile {NONE} False) (\<lambda>identity.
     bindE (field_identity r owner key (role @ ''_object'') SObject {NONE} False) (\<lambda>object.
     bindE (service_digest (sv r (key_field key (role @ ''_sha256''))) (key_field key (role @ ''_sha256'')) True) (\<lambda>sha.
       Inr (identity, object, sha))))"

definition no_copy :: copy_evidence where
  "no_copy = (PSentinel NONE, PSentinel NONE, None)"

text \<open>A completed copy is complete and consistent; before its turn there is none.\<close>

definition check_copy :: "string \<Rightarrow> string \<Rightarrow> string \<Rightarrow> bool \<Rightarrow> copy_evidence \<Rightarrow> unit result" where
  "check_copy label role binding complete e =
     (if complete then
        (case e of
           (PFile i, PObject ob, Some _) \<Rightarrow>
             service_require (fi_state i = ob) (label @ '' '' @ binding @ '' does not bind its object state'')
         | _ \<Rightarrow> service_fail (label @ '' lacks completed '' @ role @ '' evidence''))
      else service_require (e = no_copy)
        (label @ '' has '' @ role @ '' evidence beyond its completed prefix''))"

section \<open>One file mutation\<close>

record file_context =
  fc_record :: ordered_record
  fc_header :: service_header
  fc_root :: string
  fc_counts :: service_counts

definition mutation_label :: "string \<Rightarrow> string" where
  "mutation_label key = ''service mutation '' @ key"

definition file_destination :: "file_context \<Rightarrow> string \<Rightarrow> string result" where
  "file_destination x key =
     bindE (table_get FILE_DESTINATIONS key) (\<lambda>template.
       exact_path (sv (fc_record x) (key_field key ''destination''))
         (path_join (fc_root x) [template (th_names (fc_header x))]) (key_field key ''destination''))"

definition file_replace :: "file_context \<Rightarrow> string \<Rightarrow> bool" where
  "file_replace x key = replaces (replace_policy (th_operation (fc_header x)) (th_key_action (fc_header x))) key"

definition check_file_pre :: "file_context \<Rightarrow> string \<Rightarrow> parsed_identity \<Rightarrow> unit result" where
  "check_file_pre x key pre =
     bindE (service_require (\<not> (key \<in> {''ca_index'', ''ca_index_attr'', ''ca_serial''} \<and> pre = PSentinel ABSENT))
       (''service transaction required CA state '' @ key @ '' is absent'')) (\<lambda>_.
     bindE (service_require (\<not> (\<not> file_replace x key \<and> pre \<noteq> PSentinel ABSENT))
       (''no-clobber service mutation '' @ key @ '' has existing pre-state'')) (\<lambda>_.
     service_require (\<not> (is_file pre \<and> \<not> mode_is_safe (pi_permissions pre) (key \<in> set PRIVATE_PRE_KEYS)))
       (mutation_label key @ '' pre-state has an unsafe mode'')))"

definition parse_stage :: "file_context \<Rightarrow> string \<Rightarrow> (string \<times> copy_evidence) result" where
  "parse_stage x key =
     (let r = fc_record x in
      bindE (exact_path (sv r (key_field key ''stage'')) (path_join (service_stage_dir (fc_root x) r) [key])
        (key_field key ''stage'')) (\<lambda>stage.
      bindE (parse_copy r (th_owner (fc_header x)) key ''stage'') (\<lambda>e.
      bindE (check_copy (mutation_label key) ''stage'' ''stage identity'' (stage_done (fc_counts x) key) e) (\<lambda>_.
      bindE (service_require (\<forall>mode \<in> set_option (map_of FIXED_STAGE_MODES key).
          stage_done (fc_counts x) key \<longrightarrow> pi_permissions (fst e) = mode)
        (mutation_label key @ '' stage has the wrong mode'')) (\<lambda>_.
        Inr (stage, e))))))"

definition check_backup :: "string \<Rightarrow> file_identity \<Rightarrow> string \<Rightarrow> bool \<Rightarrow> copy_evidence \<Rightarrow> unit result" where
  "check_backup key pre pre_sha256 complete e =
     bindE (check_copy (mutation_label key) ''backup'' ''backup identity'' complete e) (\<lambda>_.
     case e of
       (PFile i, _, sha) \<Rightarrow>
         bindE (service_require (\<not> same_inode i pre) (mutation_label key @ '' backup is not a private copy'')) (\<lambda>_.
         service_require (sha = Some pre_sha256 \<and> copied_metadata_matches pre i)
           (mutation_label key @ '' backup does not bind displaced pre-state''))
     | _ \<Rightarrow> Inr ())"

text \<open>
  The pre-state digest and the backup; the flag says that the mutation is one of the backup order, of which
  \<open>earlier\<close> is the part before this mutation.
\<close>

definition parse_backup ::
  "file_context \<Rightarrow> nat \<Rightarrow> string \<Rightarrow> parsed_identity \<Rightarrow> (string option \<times> string option \<times> copy_evidence) result" where
  "parse_backup x earlier key pre =
     (let r = fc_record x in
      bindE (service_digest (sv r (key_field key ''pre_sha256'')) (key_field key ''pre_sha256'') True) (\<lambda>pre_sha256.
      if pre = PSentinel ABSENT then
        bindE (service_require (pre_sha256 = None \<and>
            all_none r key [''backup'', ''backup_identity'', ''backup_object'', ''backup_sha256''])
          (''absent service mutation '' @ key @ '' has backup evidence'')) (\<lambda>_. Inr (pre_sha256, None, no_copy))
      else (case pre of
          PFile i \<Rightarrow>
            (case pre_sha256 of
               None \<Rightarrow> service_fail (''existing service mutation '' @ key @ '' lacks a pre-state digest'')
             | Some sha \<Rightarrow>
                 bindE (exact_path (sv r (key_field key ''backup''))
                   (path_join (service_backup_dir (fc_root x) r) [key]) (key_field key ''backup'')) (\<lambda>backup.
                 bindE (parse_copy r (th_owner (fc_header x)) key ''backup'') (\<lambda>e.
                 bindE (check_backup key i sha (int (earlier + 1) \<le> sc_backed_up (fc_counts x)) e) (\<lambda>_.
                   Inr (pre_sha256, Some backup, e)))))
        | _ \<Rightarrow> Inl AssertionError)))"

definition check_post :: "string \<Rightarrow> parsed_identity \<Rightarrow> string option \<Rightarrow> copy_evidence \<Rightarrow> unit result" where
  "check_post key post post_sha256 stage =
     (if is_sentinel post then
        service_require (post_sha256 = None) (mutation_label key @ '' has digest without publication identity'')
      else (case (post, stage) of
          (PFile i, _, PObject ob, Some sha) \<Rightarrow>
            service_require (fi_state i = ob \<and> post_sha256 = Some sha)
              (mutation_label key @ '' publication does not bind its stage'')
        | (PFile i, _) \<Rightarrow> service_fail (mutation_label key @ '' publication precedes completed staging'')
        | _ \<Rightarrow> Inl AssertionError))"

definition parse_results ::
  "file_context \<Rightarrow> string \<Rightarrow> copy_evidence \<Rightarrow>
     (parsed_identity \<times> string option \<times> parsed_identity \<times> string option) result" where
  "parse_results x key stage =
     (let r = fc_record x; owner = th_owner (fc_header x) in
      bindE (field_identity r owner key ''post_identity'' SFile {NONE} False) (\<lambda>post.
      bindE (field_identity r owner key ''rollback_identity'' SFile {ABSENT, NONE} False) (\<lambda>rollback.
      bindE (service_digest (sv r (key_field key ''post_sha256'')) (key_field key ''post_sha256'') True) (\<lambda>post_sha256.
      bindE (service_digest (sv r (key_field key ''rollback_sha256'')) (key_field key ''rollback_sha256'') True) (\<lambda>rollback_sha256.
      bindE (check_post key post post_sha256 stage) (\<lambda>_.
      bindE (if is_sentinel rollback then
          service_require (rollback_sha256 = None) (mutation_label key @ '' has digest without rollback identity'')
        else service_require (rollback_sha256 \<noteq> None) (mutation_label key @ '' rollback identity lacks a digest'')) (\<lambda>_.
        Inr (post, post_sha256, rollback, rollback_sha256))))))))"

section \<open>Evidence that connects mutations\<close>

definition check_marker :: "ordered_record \<Rightarrow> bool \<Rightarrow> copy_evidence \<Rightarrow> unit result" where
  "check_marker r complete stage =
     bindE (service_require (all_none r ''archive_marker'' ARCHIVE_EVIDENCE_SUFFIXES)
       ''service archive marker cannot claim displaced source evidence'') (\<lambda>_.
     bindE (service_require (complete \<longrightarrow> snd (snd stage) = Some EMPTY_SHA256)
       ''service archive marker staged digest is not canonical'') (\<lambda>_.
     service_require (complete \<longrightarrow> (case fst stage of
         PFile i \<Rightarrow> fi_permissions i = SERVICE_TRANSACTION_FILE_MODE \<and> fi_size i = 0
       | _ \<Rightarrow> False))
       ''service archive marker staged identity is invalid''))"

definition private_copy :: "file_identity \<Rightarrow> parsed_identity \<Rightarrow> bool" where
  "private_copy source stage = (case stage of
     PFile i \<Rightarrow> \<not> same_inode i source \<and> copied_metadata_matches source i
   | _ \<Rightarrow> False)"

definition parse_archive_source ::
  "file_context \<Rightarrow> service_mutation list \<Rightarrow> string \<Rightarrow> copy_evidence \<Rightarrow>
     (string option \<times> parsed_identity \<times> string option) result" where
  "parse_archive_source x ms key stage =
     (let r = fc_record x; complete = stage_done (fc_counts x) key in
      bindE (table_get ARCHIVE_SOURCE_KEYS key) (\<lambda>source_key.
      bindE (mutation_at ms source_key) (\<lambda>source.
      bindE (exact_path (sv r (key_field key ''source'')) (sm_destination source) (key_field key ''source'')) (\<lambda>path.
      bindE (field_identity r (th_owner (fc_header x)) key ''source_identity'' SFile {} False) (\<lambda>identity.
      case identity of
        PFile i \<Rightarrow>
          bindE (service_digest (sv r (key_field key ''source_sha256'')) (key_field key ''source_sha256'') False) (\<lambda>sha.
          bindE (service_require (identity = sm_pre_identity source)
            (''service archive source '' @ key @ '' does not bind displaced pre-state'')) (\<lambda>_.
          bindE (service_require (sha = sm_pre_sha256 source \<and> (complete \<longrightarrow> sha = snd (snd stage)))
            (''service archive source '' @ key @ '' does not bind staged content'')) (\<lambda>_.
          bindE (service_require (complete \<longrightarrow> private_copy i (fst stage))
            (''service archive stage '' @ key @ '' does not preserve source metadata'')) (\<lambda>_.
            Inr (Some path, identity, sha)))))
      | _ \<Rightarrow> Inl AssertionError)))))"

definition parse_archive_evidence ::
  "file_context \<Rightarrow> service_mutation list \<Rightarrow> string \<Rightarrow> copy_evidence \<Rightarrow>
     (string option \<times> parsed_identity \<times> string option) result" where
  "parse_archive_evidence x ms key stage =
     (if key \<notin> set ARCHIVE_MUTATION_KEYS then Inr (None, PSentinel NONE, None)
      else if key = ''archive_marker'' then
        bindE (check_marker (fc_record x) (stage_done (fc_counts x) key) stage) (\<lambda>_.
          Inr (None, PSentinel NONE, None))
      else parse_archive_source x ms key stage)"

text \<open>The previous CA state is a private copy of the displaced one.\<close>

definition check_ca_old :: "service_mutation list \<Rightarrow> string \<Rightarrow> copy_evidence \<Rightarrow> unit result" where
  "check_ca_old ms key stage =
     bindE (table_get CA_OLD_SOURCE_KEYS key) (\<lambda>source_key.
     bindE (mutation_at ms source_key) (\<lambda>source.
     bindE (assertE (is_file (fst stage))) (\<lambda>_.
     case sm_pre_identity source of
       PFile pre \<Rightarrow>
         service_require (snd (snd stage) = sm_pre_sha256 source \<and> private_copy pre (fst stage))
           (''service CA old-state '' @ key @ '' does not bind authoritative pre-state'')
     | _ \<Rightarrow> service_fail (''service CA old-state '' @ key @ '' lacks authoritative pre-state''))))"

definition check_newcert :: "service_mutation list \<Rightarrow> copy_evidence \<Rightarrow> unit result" where
  "check_newcert ms stage =
     bindE (mutation_at ms ''service_certificate'') (\<lambda>certificate.
     case (sm_stage_identity certificate, fst stage) of
       (PFile c, PFile i) \<Rightarrow>
         service_require (snd (snd stage) = sm_stage_sha256 certificate \<and> fi_size i = fi_size c)
           ''service CA newcert does not bind staged service certificate''
     | _ \<Rightarrow> Inl AssertionError)"

definition issuer_bytes :: "service_names \<Rightarrow> string" where
  "issuer_bytes n = ''root='' @ sn_root n @ [NL] @ ''intermediate='' @ sn_intermediate n @ [NL]"

definition check_issuer :: "service_names \<Rightarrow> copy_evidence \<Rightarrow> unit result" where
  "check_issuer n stage =
     (case fst stage of
        PFile i \<Rightarrow>
          service_require (snd (snd stage) = Some (sha256_hex (issuer_bytes n)) \<and>
              fi_size i = int (length (issuer_bytes n)))
            ''service issuer does not bind the claimed issuer generations''
      | _ \<Rightarrow> Inl AssertionError)"

definition check_staged_content ::
  "file_context \<Rightarrow> service_mutation list \<Rightarrow> string \<Rightarrow> copy_evidence \<Rightarrow> unit result" where
  "check_staged_content x ms key stage =
     (if \<not> stage_done (fc_counts x) key then Inr ()
      else if key \<in> fst ` set CA_OLD_SOURCE_KEYS then check_ca_old ms key stage
      else if key = ''ca_newcert'' then check_newcert ms stage
      else if key = ''service_issuer'' then check_issuer (th_names (fc_header x)) stage
      else Inr ())"

section \<open>The loop over the file mutations\<close>

definition parse_file_mutation ::
  "file_context \<Rightarrow> service_mutation list \<Rightarrow> nat \<Rightarrow> string \<Rightarrow> service_mutation result" where
  "parse_file_mutation x ms earlier key =
     bindE (file_destination x key) (\<lambda>destination.
     bindE (field_identity (fc_record x) (th_owner (fc_header x)) key ''pre_identity'' SFile {ABSENT} False) (\<lambda>pre.
     bindE (check_file_pre x key pre) (\<lambda>_.
     bindE (parse_stage x key) (\<lambda>(stage, staged).
     bindE (parse_backup x earlier key pre) (\<lambda>(pre_sha256, backup, saved).
     bindE (parse_results x key staged) (\<lambda>(post, post_sha256, rollback, rollback_sha256).
     bindE (parse_archive_evidence x ms key staged) (\<lambda>(source, source_identity, source_sha256).
     bindE (check_staged_content x ms key staged) (\<lambda>_.
       Inr \<lparr>sm_key = key, sm_destination = destination, sm_pre_identity = pre, sm_pre_sha256 = pre_sha256,
         sm_stage = Some stage, sm_stage_identity = fst staged, sm_stage_object = fst (snd staged),
         sm_stage_sha256 = snd (snd staged), sm_backup = backup, sm_backup_identity = fst saved,
         sm_backup_object = fst (snd saved), sm_backup_sha256 = snd (snd saved), sm_post_identity = post,
         sm_post_sha256 = post_sha256, sm_rollback_identity = rollback, sm_rollback_sha256 = rollback_sha256,
         sm_replace = file_replace x key, sm_archive_source = source,
         sm_archive_source_identity = source_identity, sm_archive_source_sha256 = source_sha256\<rparr>))))))))"

text \<open>\<open>ms\<close> are the mutations so far, \<open>backups\<close> is the backup order so far.\<close>

fun parse_file_mutations ::
  "file_context \<Rightarrow> service_mutation list \<Rightarrow> string list \<Rightarrow> string list \<Rightarrow>
     (service_mutation list \<times> string list) result" where
  "parse_file_mutations x ms backups [] = Inr (ms, backups)"
| "parse_file_mutations x ms backups (key # keys) =
     (if key \<notin> set (sc_publication (fc_counts x)) then
        bindE (service_require (all_none (fc_record x) key FILE_MUTATION_SUFFIXES \<and>
            (key \<in> set ARCHIVE_MUTATION_KEYS \<longrightarrow> all_none (fc_record x) key ARCHIVE_EVIDENCE_SUFFIXES))
          (''disabled service mutation '' @ key @ '' has evidence'')) (\<lambda>_.
          parse_file_mutations x ms backups keys)
      else bindE (parse_file_mutation x ms (length backups) key) (\<lambda>m.
        parse_file_mutations x (ms @ [m])
          (if sm_pre_identity m = PSentinel ABSENT then backups else backups @ [key]) keys))"

section \<open>Checks over all mutations\<close>

definition check_service_key ::
  "service_header \<Rightarrow> parsed_identity \<Rightarrow> string option \<Rightarrow> service_mutation list \<Rightarrow> unit result" where
  "check_service_key h current current_sha256 ms =
     (case map_of (mutation_table ms) ''service_key'' of
        None \<Rightarrow> Inr ()
      | Some m \<Rightarrow>
          bindE (service_require ((th_key_action h = KEY_CREATE) = (sm_pre_identity m = PSentinel ABSENT))
            ''service key publication pre-state conflicts with key action'') (\<lambda>_.
          bindE (service_require (sm_pre_identity m = current)
            ''service key publication does not bind the current key'') (\<lambda>_.
          service_require (th_key_action h = ROTATE \<longrightarrow> sm_pre_sha256 m = current_sha256)
            ''service key publication digest does not bind the current key'')))"

definition renewed_member :: "service_mutation list \<Rightarrow> string \<Rightarrow> string list result" where
  "renewed_member ms member =
     bindE (table_get ARCHIVE_MEMBER_KEYS member) (\<lambda>archive_key.
     bindE (table_get ARCHIVE_SOURCE_KEYS archive_key) (\<lambda>source_key.
     bindE (mutation_at ms source_key) (\<lambda>m.
       Inr (if sm_pre_identity m \<noteq> PSentinel ABSENT then [member] else []))))"

definition check_renewed_members :: "service_header \<Rightarrow> service_mutation list \<Rightarrow> unit result" where
  "check_renewed_members h ms =
     (if th_operation h \<noteq> SERVICE_RENEW then Inr ()
      else bindE (mapE (renewed_member ms) (butlast (tl MANAGED_RENEW_ARCHIVE_MEMBER_ORDER))) (\<lambda>displaced.
        service_require (th_members h = [''.platform-pki-renew-archive''] @ concat displaced @
            (if th_key_action h = ROTATE then [''tls.key''] else []))
          ''managed renewal archive members do not match displaced service state''))"

definition check_ca_pre :: "service_mutation list \<Rightarrow> string \<Rightarrow> unit result" where
  "check_ca_pre ms key =
     bindE (mutation_at ms key) (\<lambda>m.
       service_require (sm_pre_identity m \<noteq> PSentinel ABSENT)
         (''service transaction required CA state '' @ key @ '' is absent''))"

definition check_mutations ::
  "service_header \<Rightarrow> service_counts \<Rightarrow> parsed_identity \<Rightarrow> string option \<Rightarrow> service_mutation list \<Rightarrow> string list \<Rightarrow>
     unit result" where
  "check_mutations h c current current_sha256 ms backups =
     bindE (service_require (sc_backed_up c \<le> int (length backups))
       ''service transaction backup count is invalid'') (\<lambda>_.
     bindE (forE (check_ca_pre ms) [''ca_index'', ''ca_index_attr'', ''ca_serial'']) (\<lambda>_.
     bindE (mutation_at ms ''ca_newcert'') (\<lambda>newcert.
     bindE (service_require (sm_pre_identity newcert = PSentinel ABSENT)
       ''service transaction CA newcert destination is not absent'') (\<lambda>_.
     bindE (check_service_key h current current_sha256 ms) (\<lambda>_.
       check_renewed_members h ms)))))"

section \<open>Signing inputs\<close>

definition input_label :: "string \<Rightarrow> string" where
  "input_label key = ''service signing input '' @ key"

definition normalized_copy_matches :: "file_identity \<Rightarrow> string option \<Rightarrow> file_identity \<Rightarrow> string option \<Rightarrow> bool" where
  "normalized_copy_matches source source_sha256 stage stage_sha256 \<longleftrightarrow>
     stage_sha256 = source_sha256 \<and> fi_permissions stage = SERVICE_TRANSACTION_FILE_MODE \<and>
     fi_uid stage = fi_uid source \<and> fi_size stage = fi_size source \<and> fi_mtime_ns stage = fi_mtime_ns source"

definition check_input_content ::
  "string \<Rightarrow> parsed_identity \<Rightarrow> string option \<Rightarrow> file_identity \<Rightarrow> string option \<Rightarrow> file_identity \<Rightarrow> string option \<Rightarrow>
     unit result" where
  "check_input_content key current current_sha256 source source_sha256 stage stage_sha256 =
     (if key \<in> set EXACT_SIGNING_METADATA_COPIES then
        service_require (stage_sha256 = source_sha256 \<and> copied_metadata_matches source stage)
          (input_label key @ '' does not preserve its source'')
      else if key = ''signing_ca_config'' then
        service_require (fi_permissions stage = SERVICE_TRANSACTION_FILE_MODE)
          ''service signing configuration stage has the wrong mode''
      else bindE (assertE (key \<in> set NORMALIZED_PRIVATE_COPIES)) (\<lambda>_.
        bindE (service_require (\<not> (key = ''signing_service_key'' \<and>
            (PFile source \<noteq> current \<or> source_sha256 \<noteq> current_sha256 \<or> stage_sha256 \<noteq> current_sha256 \<or>
             \<not> normalized_copy_matches source source_sha256 stage stage_sha256)))
          ''service signing key stage does not bind the current key'') (\<lambda>_.
        service_require (\<not> (key = ''signing_inventory'' \<and>
            \<not> normalized_copy_matches source source_sha256 stage stage_sha256))
          ''service inventory private stage does not preserve its source'')))"

text \<open>The evidence of a staged input: complete, consistent, a private copy, and with the expected content.\<close>

definition check_input_stage ::
  "string \<Rightarrow> bool \<Rightarrow> parsed_identity \<Rightarrow> string option \<Rightarrow> file_identity \<Rightarrow> string option \<Rightarrow> copy_evidence \<Rightarrow>
     unit result" where
  "check_input_stage key complete current current_sha256 source source_sha256 e =
     bindE (check_copy (input_label key) ''stage'' ''stage'' complete e) (\<lambda>_.
     case e of
       (PFile i, _, sha) \<Rightarrow>
         bindE (service_require (\<not> same_inode i source) (input_label key @ '' stage is not a private copy'')) (\<lambda>_.
           check_input_content key current current_sha256 source source_sha256 i sha)
     | _ \<Rightarrow> Inr ())"

definition parse_signing_input ::
  "file_context \<Rightarrow> parsed_identity \<Rightarrow> string option \<Rightarrow> string \<Rightarrow> service_signing_input option result" where
  "parse_signing_input x current current_sha256 key =
     (let r = fc_record x; h = fc_header x; owner = th_owner h in
      if \<not> input_enabled h key then
        bindE (service_require (all_none r key SIGNING_INPUT_SUFFIXES)
          (''disabled service signing input '' @ key @ '' has evidence'')) (\<lambda>_. Inr None)
      else bindE (table_get SIGNING_INPUT_SOURCES key) (\<lambda>template.
        bindE (exact_path (sv r (key_field key ''source'')) (path_join (fc_root x) [template (th_names h)])
          (key_field key ''source'')) (\<lambda>source.
        bindE (field_identity r owner key ''source_identity'' SFile {} False) (\<lambda>identity.
        case identity of
          PFile i \<Rightarrow>
            bindE (service_require (mode_is_safe (fi_permissions i) (key \<in> set PRIVATE_SIGNING_INPUTS))
              (input_label key @ '' source has an unsafe mode'')) (\<lambda>_.
            bindE (service_digest (sv r (key_field key ''source_sha256'')) (key_field key ''source_sha256'') False) (\<lambda>sha.
            bindE (exact_path (sv r (key_field key ''stage'')) (path_join (service_inputs_dir (fc_root x) r) [key])
              (key_field key ''stage'')) (\<lambda>stage.
            bindE (parse_copy r owner key ''stage'') (\<lambda>e.
            bindE (check_input_stage key (stage_done (fc_counts x) key) current current_sha256 i sha e) (\<lambda>_.
              Inr (Some \<lparr>si_key = key, si_source = source, si_source_identity = i, si_source_sha256 = sha,
                si_stage = stage, si_stage_identity = fst e, si_stage_object = fst (snd e),
                si_stage_sha256 = snd (snd e)\<rparr>))))))
        | _ \<Rightarrow> Inl AssertionError))))"

definition parse_signing_inputs ::
  "file_context \<Rightarrow> parsed_identity \<Rightarrow> string option \<Rightarrow> service_signing_input list result" where
  "parse_signing_inputs x current current_sha256 =
     bindE (mapE (parse_signing_input x current current_sha256) SERVICE_SIGNING_INPUT_KEYS) (\<lambda>inputs.
       Inr (map the (filter (\<lambda>i. i \<noteq> None) inputs)))"

end
