(* ===== verification/ServiceJournal.thy ===== *)
theory ServiceJournal
  imports ServiceFiles
begin

text \<open>
  \<^verbatim>\<open>src/platform_pki/service_transaction.py\<close>, last part: the progress of a transaction, its
  rollback, the phases, and \<open>parse_service_transaction\<close> and \<open>serialize_service_transaction\<close> themselves.
\<close>

section \<open>Progress\<close>

definition prepared :: "service_counts \<Rightarrow> string list \<Rightarrow> bool" where
  "prepared c backups \<longleftrightarrow> sc_staged c = int (length (sc_staging c)) \<and> sc_backed_up c = int (length backups)"

text \<open>A directory is created in its final state before its publication is recorded.\<close>

definition pending_directory_stage ::
  "ordered_record \<Rightarrow> service_header \<Rightarrow> service_counts \<Rightarrow> service_mutation list \<Rightarrow> bool result" where
  "pending_directory_stage r h c ms =
     (if th_phase h = PUBLISHING \<and> sv r ''checkpoint'' = ''publication-pending'' \<and>
         sc_published c < int (length (sc_publication c)) \<and>
         sv r ''mutation'' = sc_publication c ! nat (sc_published c) then
        bindE (mutation_at ms (sv r ''mutation'')) (\<lambda>m.
          Inr (sm_stage m = None \<and> is_directory (sm_post_identity m)))
      else Inr False)"

text \<open>The first \<open>published\<close> mutations, and only they, have a post identity.\<close>

definition check_post_prefix ::
  "service_counts \<Rightarrow> bool \<Rightarrow> service_mutation list \<Rightarrow> unit result" where
  "check_post_prefix c pending ms =
     bindE (mapE (mutation_at ms) (sc_publication c)) (\<lambda>ordered.
       service_require (map (\<lambda>m. sm_post_identity m \<noteq> PSentinel NONE) ordered =
           map (\<lambda>index. int index < sc_published c \<or> (pending \<and> int index = sc_published c))
             [0..<length (sc_publication c)])
         ''service transaction post identities are not the published prefix'')"

definition published_rollback_order :: "service_counts \<Rightarrow> string list" where
  "published_rollback_order c = managed_rollback_order (take (nat (sc_published c)) (sc_publication c))"

definition check_rollback_prefix :: "service_counts \<Rightarrow> service_mutation list \<Rightarrow> unit result" where
  "check_rollback_prefix c ms =
     (let order = published_rollback_order c in
      bindE (mapE (mutation_at ms) order) (\<lambda>ordered.
        service_require (map (\<lambda>m. sm_rollback_identity m \<noteq> PSentinel NONE) ordered =
            map (\<lambda>index. int index < sc_rolled_back c) [0..<length order])
          ''service transaction rollback identities are not the reverse prefix''))"

text \<open>A mutation that is rolled back is absent again, or has its backup as its file.\<close>

definition check_restoration :: "service_mutation list \<Rightarrow> string \<Rightarrow> unit result" where
  "check_restoration ms key =
     bindE (mutation_at ms key) (\<lambda>m.
     if sm_pre_identity m = PSentinel ABSENT then
       service_require (sm_rollback_identity m = PSentinel ABSENT \<and> sm_rollback_sha256 m = None)
         (''service transaction rollback evidence '' @ key @ '' does not restore absence'')
     else (case (sm_pre_identity m, sm_backup_object m) of
         (PFile pre, PObject saved) \<Rightarrow>
           (case sm_rollback_identity m of
              PFile i \<Rightarrow>
                service_require (fi_state i = saved \<and> sm_rollback_sha256 m = sm_pre_sha256 m \<and>
                    sm_rollback_sha256 m = sm_backup_sha256 m \<and> copied_metadata_matches pre i)
                  (''service transaction rollback evidence '' @ key @ '' does not bind its backup'')
            | _ \<Rightarrow> service_fail (''service transaction rollback evidence '' @ key @ '' is not restored file state''))
       | _ \<Rightarrow> Inl AssertionError))"

definition check_progress ::
  "ordered_record \<Rightarrow> service_header \<Rightarrow> service_counts \<Rightarrow> service_mutation list \<Rightarrow> string list \<Rightarrow> unit result" where
  "check_progress r h c ms backups =
     bindE (service_require (\<not> (sc_backed_up c > 0 \<and> sc_staged c \<noteq> int (length (sc_staging c))))
       ''service transaction backup progress precedes completed staging'') (\<lambda>_.
     bindE (service_require (\<not> (sc_published c > 0 \<and> \<not> prepared c backups))
       ''service transaction publication precedes completed preparation'') (\<lambda>_.
     bindE (pending_directory_stage r h c ms) (\<lambda>pending.
     bindE (check_post_prefix c pending ms) (\<lambda>_.
     bindE (service_require (\<not> (post_boundary (th_phase h) \<and> (sc_rolled_back c \<noteq> 0 \<or>
         list_ex (\<lambda>m. sm_rollback_identity m \<noteq> PSentinel NONE \<or> sm_rollback_sha256 m \<noteq> None) ms)))
       ''service transaction post-boundary state retains rollback evidence'') (\<lambda>_.
     bindE (check_rollback_prefix c ms) (\<lambda>_.
       forE (check_restoration ms) (take (nat (sc_rolled_back c)) (published_rollback_order c))))))))"

section \<open>Completion of a rollback\<close>

record completion =
  cp_started :: bool
  cp_present :: bool
  cp_paths :: "(string \<times> string) list"
  cp_identity :: "string \<times> parsed_identity"

definition retained_rollback_values ::
  "ordered_record \<Rightarrow> int \<Rightarrow> string list \<Rightarrow> string \<Rightarrow> (string \<times> string) list" where
  "retained_rollback_values r published order digest = [(''schema'', ''1''), (''transaction'', sv r ''transaction''),
     (''operation'', sv r ''operation''), (''service'', sv r ''service''),
     (''outcome'', service_outcome_value SERVICE_FAILED),
     (''published_count'', nat_text 10 (nat published)), (''completed_count'', nat_text 10 (nat published)),
     (''rollback_order'', if order = [] then ''none'' else join_on '','' order),
     (''rollback_evidence_sha256'', digest)]"

definition check_completion_record ::
  "ordered_record \<Rightarrow> service_counts \<Rightarrow> parsed_identity \<Rightarrow> string option \<Rightarrow> unit result" where
  "check_completion_record r c identity sha =
     (case identity of
        PFile i \<Rightarrow>
          (let order = published_rollback_order c in
           bindE (rollback_evidence_digest r order) (\<lambda>digest.
           bindE (serialize_service_retained_rollback
             (retained_rollback_values r (sc_published c) order digest)) (\<lambda>retained.
             service_require (sc_completed c = sc_published c \<and> sha = Some (sha256_hex retained) \<and>
                 fi_size i = int (length retained))
               ''service rollback completion does not bind the full reverse prefix'')))
      | _ \<Rightarrow> Inl AssertionError)"

definition check_completion :: "ordered_record \<Rightarrow> service_header \<Rightarrow> string \<Rightarrow> service_counts \<Rightarrow> completion result" where
  "check_completion r h root c =
     (let value = sv r ''rollback_completion_path''; started = (value \<noteq> ''none'') in
      bindE (if started then bindE (exact_path value
            (path_join (service_transaction_dir root r) [''rollback-complete'']) ''rollback_completion_path'')
            (\<lambda>p. Inr [(''rollback_completion_path'', p)])
          else Inr []) (\<lambda>paths.
      bindE (identity_of_field r (th_owner h) SFile {NONE} (Some SERVICE_TRANSACTION_FILE_MODE) False
        ''rollback_completion_identity'') (\<lambda>identity.
      bindE (service_digest (sv r ''rollback_completion_sha256'') ''rollback_completion_sha256'' True) (\<lambda>sha.
      let present = (\<not> is_sentinel (snd identity)) in
      bindE (if \<not> started then
          service_require (\<not> present \<and> sha = None \<and> sc_completed c = 0)
            ''service rollback completion evidence is incomplete''
        else if \<not> present then
          service_require (sha = None \<and> sc_completed c = 0)
            ''service rollback completion evidence is premature''
        else check_completion_record r c (snd identity) sha) (\<lambda>_.
        Inr \<lparr>cp_started = started, cp_present = present, cp_paths = paths, cp_identity = identity\<rparr>)))))"

section \<open>Phases\<close>

text \<open>What the phases are judged on.\<close>

record journal_state =
  js_header :: service_header
  js_counts :: service_counts
  js_backups :: "string list"
  js_checkpoint :: string
  js_active :: string
  js_completion :: completion
  js_restore_needed :: bool
  js_restored :: "bool option"

definition uncommitted :: "journal_state \<Rightarrow> bool" where
  "uncommitted s \<longleftrightarrow> \<not> th_committed (js_header s) \<and> th_recovery_mode (js_header s) = ROLLBACK"

definition no_completion :: "journal_state \<Rightarrow> bool" where
  "no_completion s \<longleftrightarrow> \<not> cp_started (js_completion s) \<and> sc_completed (js_counts s) = 0"

definition forward :: "journal_state \<Rightarrow> bool" where
  "forward s \<longleftrightarrow> uncommitted s \<and> th_outcome (js_header s) = OUTCOME_NONE \<and> no_completion s"

text \<open>The position of the active mutation: the next one when it is pending, the last one when it is done.\<close>

definition active_at :: "string \<Rightarrow> string \<Rightarrow> int \<Rightarrow> string list \<Rightarrow> journal_state \<Rightarrow> bool" where
  "active_at pending finished count order s =
     (let index = (if js_checkpoint s = pending then count
        else if js_checkpoint s = finished then count - 1 else -1)
      in 0 \<le> index \<and> index < int (length order) \<and> js_active s = order ! nat index)"

definition committed_prefixes :: "journal_state \<Rightarrow> bool" where
  "committed_prefixes s \<longleftrightarrow> prepared (js_counts s) (js_backups s) \<and>
     sc_published (js_counts s) = int (length (sc_publication (js_counts s)))"

definition legal_staging :: "journal_state \<Rightarrow> bool" where
  "legal_staging s \<longleftrightarrow>
     active_at ''staging-pending'' ''staging-done'' (sc_staged (js_counts s)) (sc_staging (js_counts s)) s \<and>
     sc_backed_up (js_counts s) = 0 \<and> sc_published (js_counts s) = 0 \<and> sc_rolled_back (js_counts s) = 0 \<and> forward s"

definition legal_backing_up :: "journal_state \<Rightarrow> bool" where
  "legal_backing_up s \<longleftrightarrow> sc_staged (js_counts s) = int (length (sc_staging (js_counts s))) \<and>
     active_at ''backup-pending'' ''backup-done'' (sc_backed_up (js_counts s)) (js_backups s) s \<and>
     sc_published (js_counts s) = 0 \<and> sc_rolled_back (js_counts s) = 0 \<and> forward s"

definition legal_planned :: "journal_state \<Rightarrow> bool" where
  "legal_planned s \<longleftrightarrow> js_checkpoint s = ''planned'' \<and> js_active s = ''none'' \<and>
     prepared (js_counts s) (js_backups s) \<and> sc_published (js_counts s) = 0 \<and> sc_rolled_back (js_counts s) = 0 \<and>
     forward s"

definition legal_publishing :: "journal_state \<Rightarrow> bool" where
  "legal_publishing s \<longleftrightarrow>
     active_at ''publication-pending'' ''publication-done'' (sc_published (js_counts s)) (sc_publication (js_counts s)) s \<and>
     prepared (js_counts s) (js_backups s) \<and> sc_rolled_back (js_counts s) = 0 \<and> forward s"

definition legal_verifying :: "journal_state \<Rightarrow> bool" where
  "legal_verifying s \<longleftrightarrow> js_checkpoint s \<in> {''verification-pending'', ''verification-done''} \<and>
     js_active s = ''none'' \<and> committed_prefixes s \<and> sc_rolled_back (js_counts s) = 0 \<and> forward s"

definition legal_committed :: "journal_state \<Rightarrow> bool" where
  "legal_committed s \<longleftrightarrow> js_checkpoint s = ''commit-done'' \<and> js_active s = ''none'' \<and> committed_prefixes s \<and>
     sc_rolled_back (js_counts s) = 0 \<and> th_committed (js_header s) \<and>
     th_recovery_mode (js_header s) = CLEANUP_ONLY \<and> th_outcome (js_header s) = SUCCEEDED \<and> no_completion s"

text \<open>The position after \<open>archive_dir\<close> in the rollback order, when the archive root has to be restored.\<close>

definition restore_boundary :: "journal_state \<Rightarrow> int option" where
  "restore_boundary s =
     (if js_restore_needed s then
        Some (int (index_of ''archive_dir'' (published_rollback_order (js_counts s))) + 1)
      else None)"

definition restoration_ordered :: "journal_state \<Rightarrow> bool" where
  "restoration_ordered s =
     (case restore_boundary s of
        None \<Rightarrow> True
      | Some boundary \<Rightarrow>
          if js_checkpoint s = ''rollback-pending'' then
            js_restored s = Some (sc_rolled_back (js_counts s) \<ge> boundary)
          else if js_checkpoint s = ''rollback-done'' then
            js_restored s = Some (sc_rolled_back (js_counts s) > boundary)
          else True)"

definition failed_rollback :: "journal_state \<Rightarrow> bool" where
  "failed_rollback s \<longleftrightarrow> uncommitted s \<and> th_outcome (js_header s) = SERVICE_FAILED"

definition legal_restore :: "journal_state \<Rightarrow> bool" where
  "legal_restore s \<longleftrightarrow> js_restore_needed s \<and> Some (sc_rolled_back (js_counts s)) = restore_boundary s \<and>
     js_active s = ''none'' \<and> failed_rollback s \<and>
     js_restored s = Some (js_checkpoint s = ''archive-root-restore-done'')"

definition legal_rollback_completion :: "journal_state \<Rightarrow> bool" where
  "legal_rollback_completion s =
     (let c = js_counts s; expected = (js_checkpoint s \<noteq> ''rollback-completion-pending'')
      in sc_rolled_back c = sc_published c \<and> js_active s = ''none'' \<and> failed_rollback s \<and>
         (\<not> js_restore_needed s \<or> js_restored s = Some True) \<and> cp_started (js_completion s) \<and>
         cp_present (js_completion s) = expected \<and>
         (if expected then sc_completed c = sc_published c else sc_completed c = 0))"

definition legal_rolling_back :: "journal_state \<Rightarrow> bool" where
  "legal_rolling_back s =
     (if js_checkpoint s \<in> {''archive-root-restore-pending'', ''archive-root-restore-done''} then legal_restore s
      else if js_checkpoint s \<in> {''rollback-completion-pending'', ''rollback-completion-done'',
          ''rollback-evidence-clear-pending''} then legal_rollback_completion s
      else active_at ''rollback-pending'' ''rollback-done'' (sc_rolled_back (js_counts s))
          (published_rollback_order (js_counts s)) s \<and>
        failed_rollback s \<and> no_completion s)"

definition terminal_outcome_valid :: "journal_state \<Rightarrow> bool" where
  "terminal_outcome_valid s \<longleftrightarrow>
     (th_committed (js_header s) \<and> th_outcome (js_header s) = SUCCEEDED \<and> no_completion s) \<or>
     (\<not> th_committed (js_header s) \<and> th_outcome (js_header s) = SERVICE_FAILED \<and>
        cp_present (js_completion s) \<and> sc_completed (js_counts s) = sc_published (js_counts s))"

definition legal_cleaning :: "journal_state \<Rightarrow> bool" where
  "legal_cleaning s \<longleftrightarrow> js_active s = ''none'' \<and> sc_rolled_back (js_counts s) = 0 \<and>
     (th_committed (js_header s) \<or> \<not> js_restore_needed s \<or> js_restored s = Some True) \<and>
     th_recovery_mode (js_header s) = CLEANUP_ONLY \<and> terminal_outcome_valid s"

definition legal_phase :: "ordered_record \<Rightarrow> journal_state \<Rightarrow> bool result" where
  "legal_phase r s =
     (let h = js_header s in
      case th_phase h of
        STAGING \<Rightarrow> Inr (legal_staging s)
      | BACKING_UP \<Rightarrow> Inr (legal_backing_up s)
      | SERVICE_PLANNED \<Rightarrow> Inr (legal_planned s)
      | PUBLISHING \<Rightarrow> Inr (legal_publishing s)
      | VERIFYING \<Rightarrow> Inr (legal_verifying s)
      | COMMITTED \<Rightarrow> Inr (legal_committed s)
      | ROLLING_BACK \<Rightarrow>
          bindE (service_require (restoration_ordered s)
            ''service archive-root restoration ordering is invalid'') (\<lambda>_. Inr (legal_rolling_back s))
      | _ \<Rightarrow>
          if legal_cleaning s then
            bindE (cleanup_matrix r (th_operation h) (th_outcome h)) (\<lambda>_.
              Inr ((th_phase h = TERMINAL) = (js_checkpoint s = ''journal-cleanup-pending'')))
          else Inr False)"

definition check_phase :: "ordered_record \<Rightarrow> journal_state \<Rightarrow> unit result" where
  "check_phase r s =
     (let h = js_header s in
      bindE (service_require (\<not> (js_restored s = Some True \<and> \<not> js_restore_needed s))
        ''service archive-root restoration was not required'') (\<lambda>_.
      bindE (service_require (\<not> (post_boundary (th_phase h) \<and> th_committed h \<and> th_outcome h = SUCCEEDED \<and>
          \<not> committed_prefixes s))
        ''service transaction does not retain complete committed prefixes'') (\<lambda>_.
      bindE (legal_phase r s) (\<lambda>legal.
      bindE (service_require legal ''service transaction phase and evidence are inconsistent'') (\<lambda>_.
      bindE (service_require (\<not> (th_phase h \<notin> {ROLLING_BACK, CLEANING_UP, TERMINAL} \<and> js_restored s = Some True))
        ''service transaction has premature archive-root restoration evidence'') (\<lambda>_.
        service_require (\<not> (th_phase h \<notin> {CLEANING_UP, TERMINAL} \<and>
            (list_ex (\<lambda>f. sv r f \<notin> {''false'', ''none''}) [''archive_marker_removed'', ''stage_removed'', ''backup_removed''] \<or>
             sv r ''terminal_identity'' \<noteq> ''none'')))
          ''service transaction has premature cleanup evidence''))))))"

section \<open>The journal\<close>

record service_transaction =
  st_record :: ordered_record
  st_pki_dir :: string
  st_operation :: service_operation
  st_phase :: service_phase
  st_recovery_mode :: recovery_mode
  st_outcome :: service_outcome
  st_key_action :: key_action
  st_archive_state :: archive_state
  st_archive_members :: "string list"
  st_staging_order :: "string list"
  st_backup_order :: "string list"
  st_publication_order :: "string list"
  st_rollback_order :: "string list"
  st_mutations :: "service_mutation list"
  st_signing_inputs :: "service_signing_input list"
  st_identities :: "(string \<times> parsed_identity) list"
  st_paths :: "(string \<times> string) list"

definition st_identity :: "service_transaction \<Rightarrow> string \<Rightarrow> parsed_identity result" where
  "st_identity t field = table_get (st_identities t) field"

definition service_transaction_of ::
  "ordered_record \<Rightarrow> string \<Rightarrow> service_header \<Rightarrow> service_counts \<Rightarrow> string list \<Rightarrow> service_mutation list \<Rightarrow>
     service_signing_input list \<Rightarrow> (string \<times> parsed_identity) list \<Rightarrow> (string \<times> string) list \<Rightarrow> service_transaction" where
  "service_transaction_of r root h c backups ms inputs identities paths =
     \<lparr>st_record = r, st_pki_dir = root, st_operation = th_operation h, st_phase = th_phase h,
      st_recovery_mode = th_recovery_mode h, st_outcome = th_outcome h, st_key_action = th_key_action h,
      st_archive_state = th_archive_state h, st_archive_members = th_members h,
      st_staging_order = sc_staging c, st_backup_order = backups, st_publication_order = sc_publication c,
      st_rollback_order = managed_rollback_order (sc_publication c), st_mutations = ms, st_signing_inputs = inputs,
      st_identities = sorted_items (dict_of identities), st_paths = sorted_items (dict_of paths)\<rparr>"

text \<open>The mutations and the signing inputs, with the backup order and the counts.\<close>

definition parse_service_mutations ::
  "ordered_record \<Rightarrow> service_header \<Rightarrow> string \<Rightarrow> archive_root_state \<Rightarrow> parsed_identity \<Rightarrow>
     (service_counts \<times> service_mutation list \<times> string list \<times> service_signing_input list) result" where
  "parse_service_mutations r h root ar current =
     bindE (parse_directory_mutations r h root (ar_snapshot ar)) (\<lambda>dirs.
     bindE (check_parent_directory dirs) (\<lambda>_.
     bindE (managed_publication_order (th_operation h) (th_key_action h) (th_archive_state h) (th_members h)
       (ar_create ar) (created_directories dirs)) (\<lambda>publication.
     bindE (parse_counts r h publication) (\<lambda>c.
     let x = \<lparr>fc_record = r, fc_header = h, fc_root = root, fc_counts = c\<rparr> in
     bindE (parse_file_mutations x dirs [] FILE_MUTATION_KEYS) (\<lambda>(ms, backups).
     bindE (service_digest (sv r ''current_key_sha256'') ''current_key_sha256'' True) (\<lambda>current_sha256.
     bindE (check_mutations h c current current_sha256 ms backups) (\<lambda>_.
     bindE (parse_signing_inputs x current current_sha256) (\<lambda>inputs.
       Inr (c, ms, backups, inputs)))))))))"

definition parse_service_transaction :: "string \<Rightarrow> string \<Rightarrow> service_transaction result" where
  "parse_service_transaction data pki_dir =
     bindE (as_service_error (parse_ordered_record data SERVICE_TRANSACTION_SPEC)) (\<lambda>r.
     bindE (canonical_root pki_dir) (\<lambda>root.
     bindE (parse_service_header r) (\<lambda>h.
     bindE (check_service_paths root r) (\<lambda>paths.
     bindE (check_fixed_identities r h data) (\<lambda>identities.
     bindE (check_archive_root r h root) (\<lambda>ar.
     bindE (table_get identities ''current_key_identity'') (\<lambda>current.
     bindE (parse_service_mutations r h root ar current) (\<lambda>(c, ms, backups, inputs).
     bindE (check_progress r h c ms backups) (\<lambda>_.
     bindE (check_completion r h root c) (\<lambda>cp.
     bindE (check_phase r \<lparr>js_header = h, js_counts = c, js_backups = backups, js_checkpoint = sv r ''checkpoint'',
         js_active = sv r ''mutation'', js_completion = cp,
         js_restore_needed = (ar_restore_required ar \<and>
           ''archive_dir'' \<in> set (take (nat (sc_published c)) (sc_publication c)) \<and> \<not> th_committed h),
         js_restored = ar_restored ar\<rparr>) (\<lambda>_.
       Inr (service_transaction_of r root h c backups ms inputs
         (identities @ ar_identities ar @ [cp_identity cp]) (paths @ ar_paths ar @ cp_paths cp)))))))))))))"

definition serialize_service_transaction :: "(string \<times> string) list \<Rightarrow> string \<Rightarrow> string result" where
  "serialize_service_transaction values pki_dir =
     bindE (as_service_error (serialize_ordered_record values SERVICE_TRANSACTION_SPEC)) (\<lambda>data.
     bindE (parse_service_transaction data pki_dir) (\<lambda>_. Inr data))"

end
