(* ===== verification/ServiceContracts.thy ===== *)
theory ServiceContracts
  imports ServiceJournal JournalPaths
begin

text \<open>
  What the steps of the service journal parser establish. The specifications are well-formed, and an
  accepted journal decomposes into the results of the steps, with one elimination rule for each.
\<close>

section \<open>The specifications\<close>

definition all_suffixes :: "string list" where
  "all_suffixes = remdups (FILE_MUTATION_SUFFIXES @ DIRECTORY_MUTATION_SUFFIXES @ ARCHIVE_EVIDENCE_SUFFIXES @
     SIGNING_INPUT_SUFFIXES)"

text \<open>No suffix ends another one at an underscore, so a field determines its key and its suffix.\<close>

lemma suffixes_apart:
  "list_all (\<lambda>s. list_all (\<lambda>s'. \<not> ends_with (''_'' @ s) s') all_suffixes) all_suffixes"
  by code_simp

lemma underscore_split: "us @ ''_'' @ s = ''_'' @ s' \<Longrightarrow> us = [] \<and> s = s' \<or> ends_with (''_'' @ s) s'"
  by (cases us) (auto simp: ends_with_iff)

lemma key_field_inj:
  assumes "s \<in> set all_suffixes" "s' \<in> set all_suffixes" "key_field k s = key_field k' s'"
  shows "k = k' \<and> s = s'"
proof -
  have apart: "\<not> ends_with (''_'' @ a) b" if "a \<in> set all_suffixes" "b \<in> set all_suffixes" for a b
    using suffixes_apart that by (simp add: list_all_iff)
  from assms(3) obtain us where "(k = k' @ us \<and> us @ ''_'' @ s = ''_'' @ s') \<or> (k' = k @ us \<and> us @ ''_'' @ s' = ''_'' @ s)"
    unfolding key_field_def append_eq_append_conv2 by metis
  then show ?thesis
    using underscore_split [of us s s'] underscore_split [of us s' s] apart assms(1,2) by auto
qed

lemma set_fields_of: "f \<in> set (fields_of keys suffixes) \<longleftrightarrow> (\<exists>k \<in> set keys. \<exists>s \<in> set suffixes. f = key_field k s)"
  by (auto simp: fields_of_def)

lemma distinct_fields_of:
  assumes "distinct keys" "distinct suffixes" "set suffixes \<subseteq> set all_suffixes"
  shows "distinct (fields_of keys suffixes)"
  using assms(1)
proof (induction keys)
  case (Cons key keys)
  have inj: "inj_on (key_field key) (set suffixes)"
    by (rule inj_onI) (use key_field_inj assms(3) in blast)
  have "key_field key s \<notin> set (fields_of keys suffixes)" if "s \<in> set suffixes" for s
  proof
    assume "key_field key s \<in> set (fields_of keys suffixes)"
    then obtain k s' where "k \<in> set keys" "s' \<in> set suffixes" "key_field key s = key_field k s'"
      unfolding set_fields_of by blast
    with key_field_inj [of s s' key k] that assms(3) Cons.prems show False by auto
  qed
  with Cons inj assms(2) show ?case by (auto simp: fields_of_def distinct_map)
qed (simp add: fields_of_def)

lemma fields_of_apart:
  assumes "set suffixes \<subseteq> set all_suffixes" "set suffixes' \<subseteq> set all_suffixes"
    and "set keys \<inter> set keys' = {} \<or> set suffixes \<inter> set suffixes' = {}"
  shows "set (fields_of keys suffixes) \<inter> set (fields_of keys' suffixes') = {}"
proof -
  have False if "k \<in> set keys" "s \<in> set suffixes" "k' \<in> set keys'" "s' \<in> set suffixes'" "key_field k s = key_field k' s'"
    for k s k' s'
    using key_field_inj [of s s' k k'] that assms by auto
  then show ?thesis by (auto simp: set_fields_of)
qed

lemmas key_defs = DIRECTORY_MUTATION_KEYS_def FILE_MUTATION_KEYS_def ARCHIVE_MUTATION_KEYS_def
  SERVICE_SIGNING_INPUT_KEYS_def SERVICE_CONTAINER_ORDER_def SERVICE_CA_PUBLICATION_ORDER_def

lemmas suffix_defs = FILE_MUTATION_SUFFIXES_def DIRECTORY_MUTATION_SUFFIXES_def ARCHIVE_EVIDENCE_SUFFIXES_def
  SIGNING_INPUT_SUFFIXES_def

lemma set_all_suffixes: "set all_suffixes = set FILE_MUTATION_SUFFIXES \<union> set DIRECTORY_MUTATION_SUFFIXES \<union>
    set ARCHIVE_EVIDENCE_SUFFIXES \<union> set SIGNING_INPUT_SUFFIXES"
  by (auto simp: all_suffixes_def)

lemma prefix_apart: "list_all (\<lambda>f. list_all (\<lambda>s. \<not> ends_with (''_'' @ s) f) all_suffixes) SERVICE_TRANSACTION_PREFIX_FIELDS"
  by code_simp

lemma prefix_not_key: "f \<in> set SERVICE_TRANSACTION_PREFIX_FIELDS \<Longrightarrow> s \<in> set all_suffixes \<Longrightarrow> f \<noteq> key_field k s"
  using prefix_apart by (fastforce simp: list_all_iff key_field_def ends_with_iff)

lemma key_lists_distinct:
  "distinct DIRECTORY_MUTATION_KEYS" "distinct FILE_MUTATION_KEYS" "distinct ARCHIVE_MUTATION_KEYS"
  "distinct SERVICE_SIGNING_INPUT_KEYS" "distinct FILE_MUTATION_SUFFIXES" "distinct DIRECTORY_MUTATION_SUFFIXES"
  "distinct ARCHIVE_EVIDENCE_SUFFIXES" "distinct SIGNING_INPUT_SUFFIXES" "distinct SERVICE_TRANSACTION_PREFIX_FIELDS"
  by code_simp+

lemma key_lists_apart:
  "list_all (\<lambda>k. k \<notin> set FILE_MUTATION_KEYS) DIRECTORY_MUTATION_KEYS"
  "list_all (\<lambda>k. k \<notin> set ARCHIVE_MUTATION_KEYS) DIRECTORY_MUTATION_KEYS"
  "list_all (\<lambda>k. k \<notin> set SERVICE_SIGNING_INPUT_KEYS) DIRECTORY_MUTATION_KEYS"
  "list_all (\<lambda>k. k \<notin> set SERVICE_SIGNING_INPUT_KEYS) FILE_MUTATION_KEYS"
  "list_all (\<lambda>k. k \<notin> set SERVICE_SIGNING_INPUT_KEYS) ARCHIVE_MUTATION_KEYS"
  "list_all (\<lambda>s. s \<notin> set ARCHIVE_EVIDENCE_SUFFIXES) FILE_MUTATION_SUFFIXES"
  by code_simp+

lemma distinct_service_fields: "distinct SERVICE_TRANSACTION_FIELDS"
proof -
  have sub: "set FILE_MUTATION_SUFFIXES \<subseteq> set all_suffixes" "set DIRECTORY_MUTATION_SUFFIXES \<subseteq> set all_suffixes"
    "set ARCHIVE_EVIDENCE_SUFFIXES \<subseteq> set all_suffixes" "set SIGNING_INPUT_SUFFIXES \<subseteq> set all_suffixes"
    by (auto simp: set_all_suffixes)
  have prefix: "set SERVICE_TRANSACTION_PREFIX_FIELDS \<inter> set (fields_of keys suffixes) = {}"
    if "set suffixes \<subseteq> set all_suffixes" for keys suffixes
    using prefix_not_key that unfolding set_fields_of disjoint_iff by blast
  have keys: "set DIRECTORY_MUTATION_KEYS \<inter> set FILE_MUTATION_KEYS = {}" "set DIRECTORY_MUTATION_KEYS \<inter> set ARCHIVE_MUTATION_KEYS = {}"
    "set DIRECTORY_MUTATION_KEYS \<inter> set SERVICE_SIGNING_INPUT_KEYS = {}" "set FILE_MUTATION_KEYS \<inter> set SERVICE_SIGNING_INPUT_KEYS = {}"
    "set ARCHIVE_MUTATION_KEYS \<inter> set SERVICE_SIGNING_INPUT_KEYS = {}" "set FILE_MUTATION_SUFFIXES \<inter> set ARCHIVE_EVIDENCE_SUFFIXES = {}"
    using key_lists_apart by (auto simp: list_all_iff)
  note apart = fields_of_apart [OF sub(2,1), OF disjI1, OF keys(1)] fields_of_apart [OF sub(2,3), OF disjI1, OF keys(2)]
    fields_of_apart [OF sub(2,4), OF disjI1, OF keys(3)] fields_of_apart [OF sub(1,4), OF disjI1, OF keys(4)]
    fields_of_apart [OF sub(3,4), OF disjI1, OF keys(5)] fields_of_apart [OF sub(1,3), OF disjI2, OF keys(6)]
  show ?thesis
    unfolding SERVICE_TRANSACTION_FIELDS_def distinct_append set_append
    using key_lists_distinct distinct_fields_of sub apart prefix by (simp add: Int_Un_distrib)
qed

lemma key_parts_ok:
  "list_all (\<lambda>k. k \<noteq> [] \<and> list_all is_key_char k) SERVICE_TRANSACTION_PREFIX_FIELDS"
  "list_all (list_all is_key_char) (DIRECTORY_MUTATION_KEYS @ FILE_MUTATION_KEYS @ ARCHIVE_MUTATION_KEYS @ SERVICE_SIGNING_INPUT_KEYS)"
  "list_all (list_all is_key_char) all_suffixes" "is_key_char (CHR ''_'')"
  by code_simp+

lemma service_field_keys: "list_all (\<lambda>k. k \<noteq> [] \<and> list_all is_key_char k) SERVICE_TRANSACTION_FIELDS"
proof -
  have part: "list_all (\<lambda>k. k \<noteq> [] \<and> list_all is_key_char k) (fields_of keys suffixes)"
    if "list_all (list_all is_key_char) keys" "set suffixes \<subseteq> set all_suffixes" for keys suffixes
  proof -
    have "is_key_char c" if "s \<in> set suffixes" "c \<in> set s" for s c
      using that \<open>set suffixes \<subseteq> set all_suffixes\<close> key_parts_ok(3) unfolding list_all_iff by blast
    then show ?thesis using that(1) key_parts_ok(4) by (auto simp: list_all_iff set_fields_of key_field_def)
  qed
  show ?thesis
    unfolding SERVICE_TRANSACTION_FIELDS_def list_all_append
    using key_parts_ok(1,2) unfolding list_all_append
    by (intro conjI part) (auto simp: set_all_suffixes)
qed

lemma wf_service_spec:
  assumes "distinct keys" and "list_all (\<lambda>k. k \<noteq> [] \<and> list_all is_key_char k) keys" and "''schema'' \<in> set keys"
  shows "wf_spec (service_spec keys)"
proof -
  have "fullmatch KEY_RX f" if "f \<in> set keys" for f using key_chars_ok [OF assms(2)] that by blast
  moreover have "valid_value False ''1''" by code_simp
  ultimately show ?thesis using assms(1,3) by (auto simp: wf_spec_def service_spec_def)
qed

lemma wf_service_transaction: "wf_spec SERVICE_TRANSACTION_SPEC"
  unfolding SERVICE_TRANSACTION_SPEC_def
  by (rule wf_service_spec [OF distinct_service_fields service_field_keys])
    (simp add: SERVICE_TRANSACTION_FIELDS_def SERVICE_TRANSACTION_PREFIX_FIELDS_def)

lemma wf_service_retained:
  "wf_spec SERVICE_RETAINED_TRANSACTION_SPEC" "wf_spec SERVICE_RETAINED_TERMINAL_SPEC"
  "wf_spec SERVICE_RETAINED_ROLLBACK_SPEC"
  unfolding SERVICE_RETAINED_TRANSACTION_SPEC_def SERVICE_RETAINED_TERMINAL_SPEC_def SERVICE_RETAINED_ROLLBACK_SPEC_def
  by (rule wf_service_spec; code_simp)+

section \<open>Results of the checks\<close>

lemma service_require_ok [ok_iff]: "service_require ok m = Inr u \<longleftrightarrow> ok"
  by (simp add: service_require_def requireE_ok)

lemma service_require_True [simp]: "service_require True m = Inr ()"
  by (simp add: service_require_def)

lemma service_fail_ok [simp]: "service_fail m \<noteq> Inr x"
  by (simp add: service_fail_def)

lemma assertE_ok [ok_iff]: "assertE ok = Inr u \<longleftrightarrow> ok"
  by (simp add: assertE_def requireE_ok)

lemma as_service_error_ok [ok_iff]: "as_service_error m = Inr x \<longleftrightarrow> m = Inr x"
  by (auto simp: as_service_error_def split: sum.splits exn.splits)

lemma exact_path_ok [ok_iff]: "exact_path v e f = Inr p \<longleftrightarrow> p = v \<and> v = e \<and> isabs v \<and> normpath v = v"
  by (auto simp: exact_path_def)

lemma canonical_root_ok [ok_iff]:
  "canonical_root v = Inr p \<longleftrightarrow> p = v \<and> v \<noteq> [] \<and> isabs v \<and> normpath v = v \<and> char_of (0 :: nat) \<notin> set v"
  by (auto simp: canonical_root_def)

lemma service_pattern_ok [ok_iff]: "service_pattern v rx f = Inr w \<longleftrightarrow> w = v \<and> fullmatch rx v"
  by (auto simp: service_pattern_def)

lemma service_serial_ok [ok_iff]:
  "service_serial v f = Inr w \<longleftrightarrow> w = v \<and> fullmatch SERIAL_RX v \<and> \<not> (length v > 2 \<and> starts_with ''00'' v)"
  by (auto simp: service_serial_def ok_iff)

lemma service_digest_ok [ok_iff]:
  "service_digest v f none = Inr w \<longleftrightarrow>
     (none \<and> v = ''none'' \<and> w = None) \<or> (\<not> (none \<and> v = ''none'') \<and> fullmatch HEX64_RX v \<and> w = Some v)"
  by (auto simp: service_digest_def)

lemma service_enum_ok:
  "inj_on value_of (set members) \<Longrightarrow> service_enum value_of members v f = Inr x \<longleftrightarrow> x \<in> set members \<and> value_of x = v"
  by (induction members) (auto simp: service_enum_def split: if_splits option.splits)

lemma service_flag_ok [ok_iff]: "service_flag v f = Inr b \<longleftrightarrow> v = (if b then ''true'' else ''false'')"
  by (auto simp: service_flag_def service_boolean_def ok_iff)

section \<open>What an accepted journal went through\<close>

definition journal_state_of ::
  "ordered_record \<Rightarrow> service_header \<Rightarrow> archive_root_state \<Rightarrow> service_counts \<Rightarrow> string list \<Rightarrow> completion \<Rightarrow> journal_state" where
  "journal_state_of r h ar c backups cp =
     \<lparr>js_header = h, js_counts = c, js_backups = backups, js_checkpoint = sv r ''checkpoint'',
      js_active = sv r ''mutation'', js_completion = cp,
      js_restore_needed = (ar_restore_required ar \<and>
        ''archive_dir'' \<in> set (take (nat (sc_published c)) (sc_publication c)) \<and> \<not> th_committed h),
      js_restored = ar_restored ar\<rparr>"

lemma parse_service_transaction_cases:
  assumes "parse_service_transaction data root = Inr t"
  obtains r h paths identities ar current c ms backups inputs cp where
    "parse_ordered_record data SERVICE_TRANSACTION_SPEC = Inr r" and "canonical_root root = Inr root"
    and "parse_service_header r = Inr h" and "check_service_paths root r = Inr paths"
    and "check_fixed_identities r h data = Inr identities" and "check_archive_root r h root = Inr ar"
    and "table_get identities ''current_key_identity'' = Inr current"
    and "parse_service_mutations r h root ar current = Inr (c, ms, backups, inputs)"
    and "check_progress r h c ms backups = Inr ()" and "check_completion r h root c = Inr cp"
    and "check_phase r (journal_state_of r h ar c backups cp) = Inr ()"
    and "t = service_transaction_of r root h c backups ms inputs
      (identities @ ar_identities ar @ [cp_identity cp]) (paths @ ar_paths ar @ cp_paths cp)"
proof -
  have root: "canonical_root root = Inr x \<Longrightarrow> x = root" for x by (simp add: canonical_root_ok)
  from assms show thesis
    unfolding parse_service_transaction_def bindE_ok as_service_error_ok journal_state_of_def [symmetric]
    using that root by (fastforce simp: bindE_ok split: prod.splits)
qed

section \<open>Serializers\<close>

text \<open>A parser of records of a valid specification, with the serializer that checks its output with it.\<close>

locale service_format = record_format spec for spec :: record_spec +
  fixes parser :: "string \<Rightarrow> 'q result"
    and typed :: "'q \<Rightarrow> ordered_record"
  assumes parser_record: "parser d = Inr q \<Longrightarrow> parse_ordered_record d spec = Inr (typed q)"

context service_format
begin

lemma parsed_record: "parser d = Inr q \<Longrightarrow> record_of spec (typed q) \<and> to_bytes (typed q) = Inr d"
  using parser_record [of d q] to_bytes_record_of [of spec "typed q"] by (simp add: parse_ordered_record_ok [OF wf] wf)

lemma serialize_parsed:
  assumes "parser d = Inr q"
  shows "serialize_retained (rec_pairs (typed q)) spec parser = Inr d"
proof -
  have "serialize_ordered_record (rec_pairs (typed q)) spec = Inr d"
    using parsed_record [OF assms] by (auto simp: to_bytes_def record_of_def)
  then show ?thesis using assms by (simp add: serialize_retained_def as_service_error_def)
qed

lemma serialized_iff: "(\<exists>vs. serialize_retained vs spec parser = Inr d) \<longleftrightarrow> (\<exists>q. parser d = Inr q)"
proof
  assume "\<exists>vs. serialize_retained vs spec parser = Inr d"
  then show "\<exists>q. parser d = Inr q" by (auto simp: serialize_retained_def ok_iff)
next
  assume "\<exists>q. parser d = Inr q"
  then show "\<exists>vs. serialize_retained vs spec parser = Inr d" using serialize_parsed by blast
qed

lemma parsed_value:
  assumes "parser d = Inr q" and "f \<in> set (spec_fields spec)"
  shows "map_of (rec_pairs (typed q)) f = Some (sv (typed q) f)" and "valid_value (spec_allow_empty spec) (sv (typed q) f)"
proof -
  obtain v where "record_get (typed q) f = Inr v" "valid_value (spec_allow_empty spec) v"
    using record_of_get [OF wf _ assms(2)] parsed_record [OF assms(1)] by blast
  then show "map_of (rec_pairs (typed q)) f = Some (sv (typed q) f)" "valid_value (spec_allow_empty spec) (sv (typed q) f)"
    by (auto simp: record_get_def dict_get_ok sv_def)
qed

end

lemma parse_retained_record: "parse_retained d spec terminal = Inr r \<Longrightarrow> parse_ordered_record d spec = Inr r"
  unfolding parse_retained_def bindE_ok as_service_error_ok by blast

interpretation retained_transaction: service_format SERVICE_RETAINED_TRANSACTION_SPEC
    parse_service_retained_transaction "\<lambda>r. r"
  by unfold_locales (auto simp: wf_service_retained parse_service_retained_transaction_def dest: parse_retained_record)

interpretation retained_terminal: service_format SERVICE_RETAINED_TERMINAL_SPEC
    parse_service_retained_terminal "\<lambda>r. r"
  by unfold_locales (auto simp: wf_service_retained parse_service_retained_terminal_def dest: parse_retained_record)

interpretation retained_rollback: service_format SERVICE_RETAINED_ROLLBACK_SPEC
    parse_service_retained_rollback "\<lambda>r. r"
  by unfold_locales (simp add: wf_service_retained,
    auto simp only: parse_service_retained_rollback_def bindE_ok as_service_error_ok sum.inject)

interpretation transaction: service_format SERVICE_TRANSACTION_SPEC
    "\<lambda>d. parse_service_transaction d root" st_record for root
  by unfold_locales (rule wf_service_transaction,
    auto simp: service_transaction_of_def elim!: parse_service_transaction_cases)

end
