(* ===== verification/ServiceOrders.thy ===== *)
theory ServiceOrders
  imports ServiceContracts "HOL-Library.Multiset"
begin

text \<open>
  The orders of a managed transaction against the directory tree that it writes to: which mutations lie
  inside a directory mutation, and that a publication creates a directory before anything in it while
  a rollback empties it before it removes it.
\<close>

section \<open>One element before another\<close>

definition precedes :: "'a \<Rightarrow> 'a \<Rightarrow> 'a list \<Rightarrow> bool" where
  "precedes x y xs \<longleftrightarrow> (\<exists>as bs. xs = as @ bs \<and> x \<in> set as \<and> y \<in> set bs)"

lemma precedes_append: "x \<in> set as \<Longrightarrow> y \<in> set bs \<Longrightarrow> precedes x y (as @ bs)"
  by (auto simp: precedes_def)

lemma precedes_left: "precedes x y as \<Longrightarrow> precedes x y (as @ bs)"
  unfolding precedes_def by fastforce

lemma precedes_right: "precedes x y bs \<Longrightarrow> precedes x y (as @ bs)"
  unfolding precedes_def by (metis append.assoc UnCI set_append)

lemma precedes_rev: "precedes x y xs \<Longrightarrow> precedes y x (rev xs)"
  unfolding precedes_def by (metis rev_append set_rev)

lemma precedes_filter: "precedes x y xs \<Longrightarrow> P x \<Longrightarrow> P y \<Longrightarrow> precedes x y (filter P xs)"
  unfolding precedes_def by fastforce

lemma precedes_Cons [simp]: "precedes x y (z # xs) \<longleftrightarrow> (x = z \<and> y \<in> set xs) \<or> precedes x y xs"
proof
  assume "precedes x y (z # xs)"
  then obtain as bs where e: "z # xs = as @ bs" "x \<in> set as" "y \<in> set bs" by (auto simp: precedes_def)
  then obtain as' where "as = z # as'" "xs = as' @ bs" by (cases as) auto
  with e show "(x = z \<and> y \<in> set xs) \<or> precedes x y xs" by (auto simp: precedes_def)
next
  assume "(x = z \<and> y \<in> set xs) \<or> precedes x y xs"
  then show "precedes x y (z # xs)"
    using precedes_append [of x "[z]" y xs] precedes_right [of x y xs "[z]"] by auto
qed

lemma precedes_Nil [simp]: "\<not> precedes x y []"
  by (simp add: precedes_def)

text \<open>In a list without repetition it is a strict order of positions.\<close>

lemma precedes_positions:
  assumes "distinct xs" and "precedes x y xs"
  shows "index_of x xs < index_of y xs"
proof -
  obtain as bs where e: "xs = as @ bs" "x \<in> set as" "y \<in> set bs" using assms(2) by (auto simp: precedes_def)
  then have "y \<notin> set as" using assms(1) by auto
  then have "length as \<le> index_of y xs"
    unfolding index_of_def e by (subst takeWhile_append2) auto
  moreover have "index_of x xs < length as"
    unfolding index_of_def e(1) using e(2)
    by (induction as) auto
  ultimately show ?thesis by simp
qed

section \<open>What lies in a directory\<close>

definition mutation_path :: "service_names \<Rightarrow> string \<Rightarrow> string" where
  "mutation_path n key = (case map_of (DIRECTORY_DESTINATIONS @ FILE_DESTINATIONS) key of
     Some template \<Rightarrow> template n | None \<Rightarrow> [])"

definition inside :: "service_names \<Rightarrow> string \<Rightarrow> string \<Rightarrow> bool" where
  "inside n key dir \<longleftrightarrow> dir \<in> set DIRECTORY_MUTATION_KEYS \<and> key \<in> set MUTATION_KEYS \<and>
     starts_with (mutation_path n dir @ ''/'') (mutation_path n key)"

text \<open>The paths of the service tree, with the directory of the service in front, and those of the CA tree.\<close>

definition service_base :: "service_names \<Rightarrow> string" where
  "service_base n = ''services/'' @ sn_service n"

definition archive_base :: "service_names \<Rightarrow> string" where
  "archive_base n = ''/archive/'' @ sn_archive n"

lemma directory_paths:
  "mutation_path n ''service_root'' = service_base n"
  "mutation_path n ''service_private_dir'' = service_base n @ ''/private''"
  "mutation_path n ''service_csr_dir'' = service_base n @ ''/csr''"
  "mutation_path n ''service_certs_dir'' = service_base n @ ''/certs''"
  "mutation_path n ''service_chain_dir'' = service_base n @ ''/chain''"
  "mutation_path n ''archive_root'' = service_base n @ ''/archive''"
  "mutation_path n ''archive_dir'' = service_base n @ archive_base n"
  by (simp_all add: mutation_path_def DIRECTORY_DESTINATIONS_def service_base_def archive_base_def)

lemma file_paths:
  "mutation_path n ''service_config'' = service_base n @ ''/openssl.cnf''"
  "mutation_path n ''service_csr'' = service_base n @ ''/csr/tls.csr''"
  "mutation_path n ''service_certificate'' = service_base n @ ''/certs/tls.crt''"
  "mutation_path n ''service_chain'' = service_base n @ ''/chain/ca-chain.crt''"
  "mutation_path n ''service_fullchain'' = service_base n @ ''/chain/fullchain.crt''"
  "mutation_path n ''service_issuer'' = service_base n @ ''/issuer''"
  "mutation_path n ''service_key'' = service_base n @ ''/private/tls.key''"
  by (simp_all add: mutation_path_def DIRECTORY_DESTINATIONS_def FILE_DESTINATIONS_def service_base_def)

lemma ca_paths: "list_all (\<lambda>k. starts_with ''authorities/'' (mutation_path n k)) (drop 6 SERVICE_CA_PUBLICATION_ORDER)"
  by (simp add: SERVICE_CA_PUBLICATION_ORDER_def mutation_path_def DIRECTORY_DESTINATIONS_def FILE_DESTINATIONS_def
      starts_with_def)

lemma archive_paths: "list_all (\<lambda>k. starts_with (service_base n @ ''/archive/'') (mutation_path n k)) ARCHIVE_MUTATION_KEYS"
  by (simp add: ARCHIVE_MUTATION_KEYS_def mutation_path_def DIRECTORY_DESTINATIONS_def FILE_DESTINATIONS_def
      service_base_def starts_with_iff)

lemma starts_with_same [simp]: "starts_with (a @ b) (a @ c) \<longleftrightarrow> starts_with b c"
  by (auto simp: starts_with_iff)

lemma file_keys: "FILE_MUTATION_KEYS = SERVICE_CA_PUBLICATION_ORDER @ [''service_key''] @ ARCHIVE_MUTATION_KEYS"
  by (simp add: FILE_MUTATION_KEYS_def ARCHIVE_MUTATION_KEYS_def)

lemma mutation_keys_cases:
  assumes "key \<in> set MUTATION_KEYS"
  obtains "key \<in> set DIRECTORY_MUTATION_KEYS" | "key \<in> set (take 6 SERVICE_CA_PUBLICATION_ORDER)" | "key = ''service_key''"
    | "key \<in> set (drop 6 SERVICE_CA_PUBLICATION_ORDER)" | "key \<in> set ARCHIVE_MUTATION_KEYS"
proof -
  have "set SERVICE_CA_PUBLICATION_ORDER = set (take 6 SERVICE_CA_PUBLICATION_ORDER) \<union> set (drop 6 SERVICE_CA_PUBLICATION_ORDER)"
    by (metis append_take_drop_id set_append)
  then show thesis using assms that unfolding MUTATION_KEYS_def file_keys set_append by auto
qed

lemma directory_keys: "DIRECTORY_MUTATION_KEYS = SERVICE_CONTAINER_ORDER @ [''archive_root'', ''archive_dir'']"
  by (rule DIRECTORY_MUTATION_KEYS_def)

lemma inside_container:
  "dir \<in> set SERVICE_CONTAINER_ORDER \<Longrightarrow> key \<in> set SERVICE_CONTAINER_ORDER \<Longrightarrow> inside n key dir \<Longrightarrow>
     dir = ''service_root'' \<and> key \<in> set (tl SERVICE_CONTAINER_ORDER)"
  unfolding inside_def SERVICE_CONTAINER_ORDER_def list.sel list.set
  by (elim insertE emptyE; hypsubst; simp add: directory_paths starts_with_iff)

lemma outside_archive:
  "list_all (\<lambda>k. \<not> starts_with (mutation_path n ''archive_root'' @ ''/'') (mutation_path n k))
     (''archive_root'' # ''service_key'' # SERVICE_CONTAINER_ORDER @ take 6 SERVICE_CA_PUBLICATION_ORDER)"
  "list_all (\<lambda>k. \<not> starts_with (mutation_path n ''archive_dir'' @ ''/'') (mutation_path n k))
     (''archive_root'' # ''archive_dir'' # ''service_key'' # SERVICE_CONTAINER_ORDER @ take 6 SERVICE_CA_PUBLICATION_ORDER)"
  by (simp_all add: SERVICE_CONTAINER_ORDER_def SERVICE_CA_PUBLICATION_ORDER_def directory_paths file_paths
      archive_base_def starts_with_iff)

lemma not_inside_archive:
  assumes "dir \<in> archive_containers" and "key \<in> set SERVICE_CONTAINER_ORDER \<union> set (take 6 SERVICE_CA_PUBLICATION_ORDER) \<union>
    {''service_key'', ''archive_root''} \<or> key = dir"
  shows "\<not> inside n key dir"
proof -
  from assms(1) consider "dir = ''archive_root''" | "dir = ''archive_dir''" by (auto simp: archive_containers_def)
  then show ?thesis
  proof cases
    case 1
    with assms(2) outside_archive(1) [of n] show ?thesis by (auto simp: inside_def list_all_iff)
  next
    case 2
    with assms(2) outside_archive(2) [of n] show ?thesis by (auto simp: inside_def list_all_iff)
  qed
qed

lemma not_inside_ca: "key \<in> set (drop 6 SERVICE_CA_PUBLICATION_ORDER) \<Longrightarrow> \<not> inside n key dir"
proof
  assume key: "key \<in> set (drop 6 SERVICE_CA_PUBLICATION_ORDER)" and i: "inside n key dir"
  from key ca_paths [of n] obtain rest where p: "mutation_path n key = ''authorities/'' @ rest"
    by (auto simp: list_all_iff starts_with_iff)
  have "\<exists>t. mutation_path n dir = ''services/'' @ t"
    using i unfolding inside_def directory_keys SERVICE_CONTAINER_ORDER_def set_append list.set
    by (auto simp: directory_paths service_base_def)
  with p i show False by (auto simp: inside_def starts_with_iff)
qed

text \<open>The four ways in which a mutation lies in a directory of the transaction.\<close>

lemma inside_cases:
  assumes "inside n key dir"
  obtains "dir \<in> set SERVICE_CONTAINER_ORDER" and "key \<notin> set SERVICE_CONTAINER_ORDER"
    | "dir = ''service_root''" and "key \<in> set (tl SERVICE_CONTAINER_ORDER)"
    | "dir \<in> archive_containers" and "key \<in> set ARCHIVE_MUTATION_KEYS"
    | "dir = ''archive_root''" and "key = ''archive_dir''"
proof -
  have dir: "dir \<in> set SERVICE_CONTAINER_ORDER \<or> dir \<in> archive_containers"
    and key: "key \<in> set MUTATION_KEYS"
    using assms by (auto simp: inside_def directory_keys archive_containers_def)
  show thesis
  proof (cases "dir \<in> set SERVICE_CONTAINER_ORDER")
    case True
    with inside_container assms that(1,2) show thesis by blast
  next
    case False
    with dir have d: "dir \<in> archive_containers" by simp
    note no = not_inside_archive [OF d, of key n] not_inside_ca [of key n dir] assms
    from key show thesis
    proof (cases rule: mutation_keys_cases)
      case 1
      then have "key \<in> set SERVICE_CONTAINER_ORDER \<or> key = ''archive_root'' \<or> key = ''archive_dir''"
        by (auto simp: directory_keys)
      with no d that(4) show thesis by (auto simp: archive_containers_def)
    qed (use no d that(3) in auto)
  qed
qed

section \<open>The two orders\<close>

lemma member_keys: "map_of ARCHIVE_MEMBER_KEYS m = Some k \<Longrightarrow> k \<in> set ARCHIVE_MUTATION_KEYS"
proof -
  have "map snd ARCHIVE_MEMBER_KEYS = ARCHIVE_MUTATION_KEYS"
    by (simp add: ARCHIVE_MEMBER_KEYS_def ARCHIVE_MUTATION_KEYS_def)
  then show "map_of ARCHIVE_MEMBER_KEYS m = Some k \<Longrightarrow> ?thesis" by (metis in_set_zip map_of_SomeD image_eqI list.set_map snd_conv)
qed

text \<open>The parts of a publication order.\<close>

definition archive_part :: "bool \<Rightarrow> string list \<Rightarrow> string list \<Rightarrow> bool" where
  "archive_part create keys archive \<longleftrightarrow> set keys \<subseteq> set ARCHIVE_MUTATION_KEYS \<and>
     (archive = [] \<or> archive = (if create then [''archive_root''] else []) @ [''archive_dir''] @ keys)"

lemma publication_parts:
  assumes "managed_publication_order oper action state members create created = Inr order"
  obtains key keys archive where "order = created @ SERVICE_CA_PUBLICATION_ORDER @ key @ archive"
    and "created = filter (\<lambda>k. k \<in> set created) SERVICE_CONTAINER_ORDER" and "key = [] \<or> key = [''service_key'']"
    and "archive_part create keys archive"
proof -
  from assms have created: "created = filter (\<lambda>k. k \<in> set created) SERVICE_CONTAINER_ORDER"
    by (auto simp: managed_publication_order_def split: if_splits)
  define archive where "archive = (if state = ARCHIVE_NONE then Inr []
      else bindE (mapE (table_get ARCHIVE_MEMBER_KEYS) members) (\<lambda>keys.
        Inr ((if create then [''archive_root''] else []) @ [''archive_dir''] @ keys)))"
  from assms obtain as where as: "archive = Inr as" and order: "order = created @ SERVICE_CA_PUBLICATION_ORDER @
      (if action \<in> {KEY_CREATE, ROTATE} then [''service_key''] else []) @ as"
    unfolding archive_def managed_publication_order_def MANAGED_ISSUE_PUBLICATION_ORDER_def MANAGED_RENEW_PUBLICATION_ORDER_def
    by (auto simp: bindE_ok split: if_splits)
  have "\<exists>keys. archive_part create keys as"
  proof (cases "state = ARCHIVE_NONE")
    case True
    with as show ?thesis by (auto simp: archive_def archive_part_def intro: exI [of _ "[]"])
  next
    case False
    with as obtain keys where keys: "mapE (table_get ARCHIVE_MEMBER_KEYS) members = Inr keys"
      and "as = (if create then [''archive_root''] else []) @ [''archive_dir''] @ keys"
      by (auto simp: archive_def bindE_ok)
    moreover have "set keys \<subseteq> set ARCHIVE_MUTATION_KEYS"
      using mapE_from [OF keys] member_keys by (auto simp: table_get_ok)
    ultimately show ?thesis by (auto simp: archive_part_def)
  qed
  then show thesis using that [OF order created] by auto
qed

lemma keys_apart:
  "set SERVICE_CONTAINER_ORDER \<inter> set (SERVICE_CA_PUBLICATION_ORDER @ [''service_key''] @ ARCHIVE_MUTATION_KEYS) = {}"
  "archive_containers \<inter> (set SERVICE_CONTAINER_ORDER \<union> set (SERVICE_CA_PUBLICATION_ORDER @ [''service_key''] @ ARCHIVE_MUTATION_KEYS)) = {}"
  "set ARCHIVE_MUTATION_KEYS \<inter> set (SERVICE_CA_PUBLICATION_ORDER @ [''service_key'']) = {}"
  unfolding archive_containers_def by code_simp+

lemma mset_rollback: "mset (managed_rollback_order order) = mset order"
proof -
  have "set SERVICE_CONTAINER_ORDER \<inter> archive_containers = {}" using keys_apart(2) by auto
  then have "filter_mset (\<lambda>k. k \<notin> set SERVICE_CONTAINER_ORDER \<and> k \<notin> archive_containers) m +
      (filter_mset (\<lambda>k. k \<in> archive_containers) m + filter_mset (\<lambda>k. k \<in> set SERVICE_CONTAINER_ORDER) m) = m" for m :: "string multiset"
    by (induction m) auto
  from this [of "mset order"] show ?thesis by (simp add: managed_rollback_order_def Let_def mset_filter)
qed

lemma publication_nested:
  assumes "managed_publication_order oper action state members create created = Inr order" and "inside n k d" and "d \<in> set order" and "k \<in> set order"
  shows "precedes d k order \<and> precedes k d (managed_rollback_order order)"
proof -
  from assms(1) obtain key keys archive where order: "order = created @ SERVICE_CA_PUBLICATION_ORDER @ key @ archive"
    and created: "created = filter (\<lambda>k. k \<in> set created) SERVICE_CONTAINER_ORDER" and key: "key = [] \<or> key = [''service_key'']"
    and archive: "archive_part create keys archive"
    by (rule publication_parts)
  note apart = keys_apart
  have sub: "set created \<subseteq> set SERVICE_CONTAINER_ORDER" using arg_cong [OF created, of set] by auto
  have ar: "set archive \<subseteq> archive_containers \<union> set ARCHIVE_MUTATION_KEYS"
    using archive by (auto simp: archive_part_def archive_containers_def)
  have rest: "x \<notin> set SERVICE_CONTAINER_ORDER" if "x \<in> set (SERVICE_CA_PUBLICATION_ORDER @ key @ archive)" for x
    using that ar key apart by auto
  let ?A = "filter (\<lambda>key. key \<notin> set SERVICE_CONTAINER_ORDER \<and> key \<notin> archive_containers) (rev order)"
  let ?B = "filter (\<lambda>key. key \<in> archive_containers) (rev order)"
  let ?C = "filter (\<lambda>key. key \<in> set SERVICE_CONTAINER_ORDER) (rev order)"
  have rollback: "managed_rollback_order order = ?A @ ?B @ ?C" by (simp add: managed_rollback_order_def Let_def)
  from assms(2) show ?thesis
  proof (cases rule: inside_cases)
    case 1
    then have d: "d \<in> set created" and k: "k \<in> set (SERVICE_CA_PUBLICATION_ORDER @ key @ archive)"
      using assms(3,4) rest sub unfolding order by auto
    have "precedes d k order" unfolding order by (rule precedes_append [OF d k])
    moreover have "precedes k d (?A @ ?B @ ?C)" using 1 assms(3,4) precedes_append [of k "?A @ ?B" d ?C] by auto
    ultimately show ?thesis by (simp add: rollback)
  next
    case 2
    have s: "precedes ''service_root'' k SERVICE_CONTAINER_ORDER" "k \<in> set SERVICE_CONTAINER_ORDER" "d \<in> set SERVICE_CONTAINER_ORDER"
      using 2 by (auto simp: SERVICE_CONTAINER_ORDER_def)
    have "d \<in> set created" "k \<in> set created"
      using assms(3,4) rest s 2 unfolding order by auto
    then have "precedes d k created" using precedes_filter [OF s(1), of "\<lambda>k. k \<in> set created"] 2 created by simp
    then have o: "precedes d k order" unfolding order by (rule precedes_left)
    have "precedes k d ?C" using precedes_filter [OF precedes_rev [OF o], of "\<lambda>k. k \<in> set SERVICE_CONTAINER_ORDER"] s by simp
    with o show ?thesis unfolding rollback by (intro conjI precedes_right)
  next
    case 3
    then have k: "k \<notin> archive_containers" "k \<notin> set SERVICE_CONTAINER_ORDER" and d: "d \<notin> set SERVICE_CONTAINER_ORDER"
      using apart by auto
    have da: "d \<in> set archive" and ka: "k \<in> set archive"
      using assms(3,4) 3 apart sub key unfolding order by auto
    with archive have "archive = ((if create then [''archive_root''] else []) @ [''archive_dir'']) @ keys"
      and "d \<in> set ((if create then [''archive_root''] else []) @ [''archive_dir''])" and "k \<in> set keys"
      using 3 k apart by (auto simp: archive_part_def archive_containers_def split: if_splits)
    then have "precedes d k archive" using precedes_append by metis
    then have "precedes d k order" unfolding order by (intro precedes_right)
    moreover have "precedes k d (?A @ ?B @ ?C)"
      using 3 k assms(3,4) precedes_append [of k ?A d "?B @ ?C"] by auto
    ultimately show ?thesis by (simp add: rollback)
  next
    case 4
    have "d \<in> set archive" "k \<in> set archive" using assms(3,4) 4 apart sub key unfolding order by (auto simp: archive_containers_def)
    with archive have "archive = [''archive_root''] @ [''archive_dir''] @ keys"
      using 4 apart by (auto simp: archive_part_def archive_containers_def split: if_splits)
    with 4 have "precedes d k archive" by simp
    then have o: "precedes d k order" unfolding order by (intro precedes_right)
    have "precedes k d ?B"
      using precedes_filter [OF precedes_rev [OF o], of "\<lambda>k. k \<in> archive_containers"] 4 by (simp add: archive_containers_def)
    with o show ?thesis unfolding rollback by (intro conjI precedes_right precedes_left)
  qed
qed

text \<open>A publication order has no repetition when the archive members have none.\<close>

lemma mapE_table_distinct:
  assumes "mapE (table_get d) xs = Inr ys" and "distinct xs" and "distinct (map snd d)"
  shows "distinct ys"
  using assms(1,2)
proof (induction xs arbitrary: ys)
  case (Cons x xs)
  then obtain y zs where y: "map_of d x = Some y" and zs: "mapE (table_get d) xs = Inr zs" and ys: "ys = y # zs"
    by (auto simp: ok_iff)
  have "y \<notin> set zs"
  proof
    assume "y \<in> set zs"
    then obtain x' where x': "x' \<in> set xs" "map_of d x' = Some y" using mapE_from [OF zs] by (auto simp: table_get_ok)
    then have "(x, y) \<in> set d" "(x', y) \<in> set d" using y map_of_SomeD by metis+
    then have "x = x'" using assms(3) unfolding distinct_map inj_on_def by (metis fst_conv snd_conv)
    with x'(1) Cons.prems(2) show False by simp
  qed
  with Cons zs ys show ?case by simp
qed simp

lemma publication_distinct:
  assumes "managed_publication_order oper action state members create created = Inr order" and "distinct members"
  shows "distinct order"
proof -
  from assms(1) have created: "distinct created" "filter (\<lambda>k. k \<in> set created) SERVICE_CONTAINER_ORDER = created"
    by (auto simp: managed_publication_order_def split: if_splits)
  from created(2) have sub: "set created \<subseteq> set SERVICE_CONTAINER_ORDER" by (metis filter_is_subset)
  define head where "head = (if create then [''archive_root''] else []) @ [''archive_dir'']"
  define key where "key = (if action \<in> {KEY_CREATE, ROTATE} then [''service_key''] else [])"
  obtain as where order: "order = created @ SERVICE_CA_PUBLICATION_ORDER @ key @ as"
    and as: "as = [] \<or> (\<exists>keys. mapE (table_get ARCHIVE_MEMBER_KEYS) members = Inr keys \<and> as = head @ keys)"
    using assms(1) unfolding managed_publication_order_def MANAGED_ISSUE_PUBLICATION_ORDER_def MANAGED_RENEW_PUBLICATION_ORDER_def
      key_def head_def by (auto simp: bindE_ok split: if_splits)
  have h: "set head \<subseteq> archive_containers" "distinct head" by (auto simp: head_def archive_containers_def)
  have k: "distinct (SERVICE_CA_PUBLICATION_ORDER @ [''service_key''])" "distinct (map snd ARCHIVE_MEMBER_KEYS)"
    by code_simp+
  have "distinct as \<and> set as \<subseteq> archive_containers \<union> set ARCHIVE_MUTATION_KEYS"
    using as
  proof (elim disjE exE conjE)
    fix keys assume m: "mapE (table_get ARCHIVE_MEMBER_KEYS) members = Inr keys" and e: "as = head @ keys"
    have "set keys \<subseteq> set ARCHIVE_MUTATION_KEYS" using mapE_from [OF m] member_keys by (auto simp: table_get_ok)
    moreover have "distinct keys" by (rule mapE_table_distinct [OF m assms(2) k(2)])
    ultimately show ?thesis using h keys_apart(2) by (auto simp: e)
  qed simp
  then show ?thesis using created(1) sub k(1) keys_apart unfolding order key_def by (auto split: if_splits)
qed

end
