(* ===== verification/ServiceInvariants.thy ===== *)
theory ServiceInvariants
  imports ServiceOrders
begin

text \<open>
  What the loops of \<open>parse_service_transaction\<close> leave behind: the keys of the mutations, the evidence of
  each file mutation, and how the counts and the phase determine which evidence is there.
\<close>

section \<open>The mutations of an accepted journal\<close>

lemma parse_service_mutations_cases:
  assumes "parse_service_mutations r h root ar current = Inr (c, ms, backups, inputs)"
  obtains dirs publication sha where
    "parse_directory_mutations r h root (ar_snapshot ar) = Inr dirs"
    and "managed_publication_order (th_operation h) (th_key_action h) (th_archive_state h) (th_members h)
      (ar_create ar) (created_directories dirs) = Inr publication"
    and "parse_counts r h publication = Inr c"
    and "parse_file_mutations \<lparr>fc_record = r, fc_header = h, fc_root = root, fc_counts = c\<rparr> dirs [] FILE_MUTATION_KEYS =
      Inr (ms, backups)"
    and "check_mutations h c current sha ms backups = Inr ()"
    and "parse_signing_inputs \<lparr>fc_record = r, fc_header = h, fc_root = root, fc_counts = c\<rparr> current sha = Inr inputs"
  using assms unfolding parse_service_mutations_def Let_def bindE_ok
  by (fastforce simp: bindE_ok split: prod.splits)

text \<open>Directories first: one mutation for every enabled key.\<close>

lemma parse_directory_mutation_key:
  "parse_directory_mutation r h root snapshot key = Inr m \<Longrightarrow>
     (m \<noteq> None) = directory_enabled h key \<and> (\<forall>d. m = Some d \<longrightarrow> sm_key d = key \<and> sm_stage d = None)"
  by (auto simp: parse_directory_mutation_def directory_mutation_def ok_iff split: if_splits)

lemma directory_mutation_keys:
  assumes "parse_directory_mutations r h root snapshot = Inr dirs"
  shows "map sm_key dirs = filter (directory_enabled h) DIRECTORY_MUTATION_KEYS" and "\<forall>d \<in> set dirs. sm_stage d = None"
proof -
  have parsed: "map sm_key (map the (filter (\<lambda>m. m \<noteq> None) ms)) = filter (directory_enabled h) keys \<and>
      (\<forall>d \<in> set (map the (filter (\<lambda>m. m \<noteq> None) ms)). sm_stage d = None)"
    if "mapE (parse_directory_mutation r h root snapshot) keys = Inr ms" for keys ms
    using that
  proof (induction keys arbitrary: ms)
    case (Cons key keys)
    then obtain m ms' where m: "parse_directory_mutation r h root snapshot key = Inr m"
      and ms': "mapE (parse_directory_mutation r h root snapshot) keys = Inr ms'" and ms: "ms = m # ms'"
      by (auto simp: bindE_ok)
    from parse_directory_mutation_key [OF m] Cons.IH [OF ms'] show ?case by (cases m) (auto simp: ms)
  qed simp
  from assms obtain ms where ms: "mapE (parse_directory_mutation r h root snapshot) DIRECTORY_MUTATION_KEYS = Inr ms"
    and dirs: "dirs = map the (filter (\<lambda>m. m \<noteq> None) ms)"
    by (auto simp: parse_directory_mutations_def bindE_ok)
  show "map sm_key dirs = filter (directory_enabled h) DIRECTORY_MUTATION_KEYS" and "\<forall>d \<in> set dirs. sm_stage d = None"
    using parsed [OF ms] unfolding dirs by (rule conjunct1, rule conjunct2)
qed

text \<open>Each file mutation is parsed after the mutations before it, with the number of backups so far.\<close>

definition parsed_file :: "file_context \<Rightarrow> string list \<Rightarrow> service_mutation \<Rightarrow> bool" where
  "parsed_file x backups m \<longleftrightarrow> sm_key m \<in> set FILE_MUTATION_KEYS \<and> sm_key m \<in> set (sc_publication (fc_counts x)) \<and>
     (\<exists>ms earlier. parse_file_mutation x ms earlier (sm_key m) = Inr m \<and>
       (sm_pre_identity m \<noteq> PSentinel ABSENT \<longrightarrow> earlier < length backups))"

lemma parse_file_mutation_key: "parse_file_mutation x ms e key = Inr m \<Longrightarrow> sm_key m = key"
  by (auto simp: parse_file_mutation_def bindE_ok split: prod.splits)

lemma parsed_file_more: "parsed_file x backups m \<Longrightarrow> length backups \<le> length backups' \<Longrightarrow> parsed_file x backups' m"
  unfolding parsed_file_def by (meson order_less_le_trans)

lemma parse_file_mutations_ok:
  assumes "parse_file_mutations x ms backups keys = Inr (ms', backups')" and "set keys \<subseteq> set FILE_MUTATION_KEYS"
  shows "\<exists>new. ms' = ms @ new \<and> map sm_key new = filter (\<lambda>k. k \<in> set (sc_publication (fc_counts x))) keys \<and>
    length backups \<le> length backups' \<and> (\<forall>m \<in> set new. parsed_file x backups' m)"
  using assms
proof (induction keys arbitrary: ms backups)
  case (Cons key keys)
  show ?case
  proof (cases "key \<in> set (sc_publication (fc_counts x))")
    case False
    with Cons.prems have "parse_file_mutations x ms backups keys = Inr (ms', backups')" by (auto simp: bindE_ok)
    with Cons.IH Cons.prems(2) False show ?thesis by auto
  next
    case True
    with Cons.prems obtain m where m: "parse_file_mutation x ms (length backups) key = Inr m"
      and rest: "parse_file_mutations x (ms @ [m])
        (if sm_pre_identity m = PSentinel ABSENT then backups else backups @ [key]) keys = Inr (ms', backups')"
      by (auto simp: bindE_ok)
    from Cons.IH [OF rest] Cons.prems(2) obtain new where new: "ms' = (ms @ [m]) @ new"
      "map sm_key new = filter (\<lambda>k. k \<in> set (sc_publication (fc_counts x))) keys"
      "length (if sm_pre_identity m = PSentinel ABSENT then backups else backups @ [key]) \<le> length backups'"
      "\<forall>m \<in> set new. parsed_file x backups' m"
      by auto
    note k = parse_file_mutation_key [OF m]
    have "parsed_file x backups' m"
      unfolding parsed_file_def using k m True Cons.prems(2) new(3) by (auto intro!: exI split: if_splits)
    with new k True show ?thesis by (intro exI [of _ "m # new"]) (auto split: if_splits)
  qed
qed auto

section \<open>The evidence of a file mutation\<close>

text \<open>A copy that is complete: its identity, its object state and its digest agree.\<close>

definition bound_copy :: "parsed_identity \<Rightarrow> parsed_identity \<Rightarrow> string option \<Rightarrow> bool" where
  "bound_copy identity object sha \<longleftrightarrow>
     (\<exists>i. identity = PFile i \<and> object = PObject (fi_state i) \<and> sha \<noteq> None)"

text \<open>A backup is a private copy with the digest and the metadata of the file that is displaced.\<close>

definition bound_backup :: "service_mutation \<Rightarrow> bool" where
  "bound_backup m \<longleftrightarrow> bound_copy (sm_backup_identity m) (sm_backup_object m) (sm_backup_sha256 m) \<and>
     sm_backup_sha256 m = sm_pre_sha256 m \<and> sm_backup m \<noteq> None \<and>
     (\<exists>pre b. sm_pre_identity m = PFile pre \<and> sm_backup_identity m = PFile b \<and> \<not> same_inode b pre \<and>
        copied_metadata_matches pre b)"

text \<open>A published file is the file that was staged: the same object with the same digest.\<close>

definition published_stage :: "service_mutation \<Rightarrow> bool" where
  "published_stage m \<longleftrightarrow> (\<exists>i. sm_post_identity m = PFile i \<and> sm_stage_object m = PObject (fi_state i)) \<and>
     sm_post_sha256 m = sm_stage_sha256 m \<and> sm_stage_sha256 m \<noteq> None"

lemma sentinel_to_ok:
  "sentinel_to f x = i \<longleftrightarrow> (\<exists>s. x = Sentinel s \<and> i = PSentinel s) \<or> (\<exists>y. x = Identity y \<and> i = f y)"
  by (cases x) (auto simp: sentinel_to_def)

lemma service_identity_shape:
  assumes "service_identity v f kind owner S mode safe = Inr i"
  shows "(\<exists>s \<in> S. i = PSentinel s \<and> v = sentinel_text s) \<or>
    (case kind of SDirectory \<Rightarrow> is_directory i | SObject \<Rightarrow> (\<exists>x. i = PObject x) | _ \<Rightarrow> is_file i)"
proof -
  from assms have "read_identity v kind S = Inr i"
    by (auto simp: service_identity_def service_fail_def bindE_ok split: sum.splits exn.splits)
  then show ?thesis
    by (cases kind) (auto simp: read_identity_def bindE_ok sentinel_to_ok parse_file_identity_def
        parse_directory_identity_def parse_file_object_state_def with_sentinel_ok)
qed

lemma check_copy_complete: "check_copy label role binding True (i, ob, sha) = Inr () \<Longrightarrow> bound_copy i ob sha"
  by (auto simp: check_copy_def bound_copy_def ok_iff split: parsed_identity.splits option.splits)

lemma parse_file_mutation_cases:
  assumes "parse_file_mutation x ms e key = Inr m"
  obtains staged saved where
    "file_destination x key = Inr (sm_destination m)" and "sm_key m = key"
    and "staged = (sm_stage_identity m, sm_stage_object m, sm_stage_sha256 m)"
    and "saved = (sm_backup_identity m, sm_backup_object m, sm_backup_sha256 m)"
    and "\<exists>stage. sm_stage m = Some stage \<and> parse_stage x key = Inr (stage, staged)"
    and "parse_backup x e key (sm_pre_identity m) = Inr (sm_pre_sha256 m, sm_backup m, saved)"
    and "parse_results x key staged =
      Inr (sm_post_identity m, sm_post_sha256 m, sm_rollback_identity m, sm_rollback_sha256 m)"
  using assms by (auto simp: parse_file_mutation_def bindE_ok split: prod.splits)

lemma staged_file:
  assumes "parse_file_mutation x ms e key = Inr m" and "stage_done (fc_counts x) key"
  shows "bound_copy (sm_stage_identity m) (sm_stage_object m) (sm_stage_sha256 m)"
  using assms check_copy_complete
  by (elim parse_file_mutation_cases) (fastforce simp: parse_stage_def Let_def bindE_ok)

lemma backed_up_file:
  assumes "parse_file_mutation x ms e key = Inr m" and "int (e + 1) \<le> sc_backed_up (fc_counts x)"
    and "sm_pre_identity m \<noteq> PSentinel ABSENT"
  shows "bound_backup m"
proof -
  from assms(1) obtain saved where saved: "saved = (sm_backup_identity m, sm_backup_object m, sm_backup_sha256 m)"
    and b: "parse_backup x e key (sm_pre_identity m) = Inr (sm_pre_sha256 m, sm_backup m, saved)"
    by (elim parse_file_mutation_cases) simp
  from b assms(3) obtain pre where pre: "sm_pre_identity m = PFile pre"
    by (cases "sm_pre_identity m") (auto simp: parse_backup_def Let_def bindE_ok)
  with b have "\<exists>sha. sm_pre_sha256 m = Some sha \<and> sm_backup m \<noteq> None \<and> check_backup key pre sha True saved = Inr ()"
    using assms(2) by (cases "sm_pre_sha256 m"; cases "sm_backup m")
      (auto simp: parse_backup_def Let_def bindE_ok split: option.splits)
  then obtain sha where sha: "sm_pre_sha256 m = Some sha" and backup: "sm_backup m \<noteq> None"
    and check: "check_backup key pre sha True saved = Inr ()"
    by blast
  from check have c: "bound_copy (sm_backup_identity m) (sm_backup_object m) (sm_backup_sha256 m)"
    unfolding check_backup_def bindE_ok saved using check_copy_complete by auto
  then obtain i where i: "sm_backup_identity m = PFile i" by (auto simp: bound_copy_def)
  with check have "\<not> same_inode i pre" "sm_backup_sha256 m = Some sha" "copied_metadata_matches pre i"
    by (auto simp: check_backup_def saved ok_iff)
  with c i pre sha backup show ?thesis by (auto simp: bound_backup_def)
qed

lemma published_file:
  assumes "parse_file_mutation x ms e key = Inr m" and "sm_post_identity m \<noteq> PSentinel NONE"
  shows "published_stage m"
proof -
  from assms(1) have f: "field_identity (fc_record x) (th_owner (fc_header x)) key ''post_identity'' SFile {NONE} False = Inr (sm_post_identity m)"
    and c: "check_post key (sm_post_identity m) (sm_post_sha256 m) (sm_stage_identity m, sm_stage_object m, sm_stage_sha256 m) = Inr ()"
    by (auto simp: parse_results_def Let_def bindE_ok elim!: parse_file_mutation_cases)
  have "is_file (sm_post_identity m)"
    using service_identity_shape [OF f [unfolded field_identity_def]] assms(2) by auto
  with c show ?thesis
    by (cases "sm_post_identity m"; cases "sm_stage_object m"; cases "sm_stage_sha256 m")
      (auto simp: check_post_def published_stage_def ok_iff)
qed

section \<open>The mutations and the counts\<close>

definition journal_mutations :: "file_context \<Rightarrow> service_mutation list \<Rightarrow> string list \<Rightarrow> bool" where
  "journal_mutations x ms backups \<longleftrightarrow> distinct (map sm_key ms) \<and> distinct (sc_publication (fc_counts x)) \<and>
     (\<forall>m \<in> set ms. sm_key m \<in> set DIRECTORY_MUTATION_KEYS \<and> sm_stage m = None \<or> parsed_file x backups m)"

lemma keys_distinct: "distinct (DIRECTORY_MUTATION_KEYS @ FILE_MUTATION_KEYS)"
  using key_lists_distinct(1,2) key_lists_apart(1) by (auto simp: list_all_iff)

lemma archive_members_distinct: "archive_members oper state v = Inr members \<Longrightarrow> distinct members"
  by (auto simp: archive_members_def Let_def split: if_splits)

lemma archive_choice: "(if c then bindE m (\<lambda>_. Inr x) else p) = Inr a \<Longrightarrow> a = x \<or> p = Inr a"
  by (auto simp: bindE_ok split: if_splits)

lemma parse_service_header_cases:
  assumes "parse_service_header r = Inr h"
  obtains message message' u where "transaction_binding r message = Inr u"
    and "archive_members (th_operation h) (th_archive_state h) (sv r ''archive_members'') = Inr (th_members h)"
    and "service_pattern (sv r ''service'') SERVICE_RX ''service'' = Inr (sn_service (th_names h))"
    and "issuer_fields r message' = Inr (sn_root (th_names h), sn_intermediate (th_names h))"
    and "service_serial (sv r ''serial'') ''serial'' = Inr (sn_serial (th_names h))"
    and "sn_archive (th_names h) = ''none'' \<or>
      service_pattern (sv r ''archive_name'') ARCHIVE_NAME_RX ''archive_name'' = Inr (sn_archive (th_names h))"
  using assms unfolding parse_service_header_def bindE_ok split_paired_Ex prod.case sum.inject
  apply (elim exE conjE)
  apply hypsubst
  apply (rule that)
  apply (simp_all only: service_header.simps service_names.simps)
  apply (erule archive_choice)
  done

lemma header_members:
  assumes "parse_service_header r = Inr h"
  shows "distinct (th_members h)"
  using assms by (rule parse_service_header_cases) (rule archive_members_distinct)

lemma journal_mutations_ok:
  assumes "parse_service_mutations r h root ar current = Inr (c, ms, backups, inputs)" and "distinct (th_members h)"
  shows "journal_mutations \<lparr>fc_record = r, fc_header = h, fc_root = root, fc_counts = c\<rparr> ms backups"
proof -
  let ?x = "\<lparr>fc_record = r, fc_header = h, fc_root = root, fc_counts = c\<rparr>"
  from assms(1) obtain dirs publication where
      dirs: "parse_directory_mutations r h root (ar_snapshot ar) = Inr dirs"
    and order: "managed_publication_order (th_operation h) (th_key_action h) (th_archive_state h) (th_members h)
      (ar_create ar) (created_directories dirs) = Inr publication"
    and counts: "parse_counts r h publication = Inr c"
    and files: "parse_file_mutations ?x dirs [] FILE_MUTATION_KEYS = Inr (ms, backups)"
    by (rule parse_service_mutations_cases)
  from parse_file_mutations_ok [OF files] obtain new where ms: "ms = dirs @ new"
    and keys: "map sm_key new = filter (\<lambda>k. k \<in> set (sc_publication c)) FILE_MUTATION_KEYS"
    and new: "\<forall>m \<in> set new. parsed_file ?x backups m"
    by auto
  note d = directory_mutation_keys [OF dirs]
  have "distinct (map sm_key ms)" using keys_distinct by (auto simp: ms d(1) keys)
  moreover have "sc_publication c = publication" using counts by (auto simp: parse_counts_def Let_def bindE_ok)
  then have "distinct (sc_publication c)" using publication_distinct [OF order assms(2)] by simp
  moreover have "sm_key m \<in> set DIRECTORY_MUTATION_KEYS" if "m \<in> set dirs" for m
    using that d(1) by (metis filter_is_subset in_mono list.set_map image_eqI)
  ultimately show ?thesis using new d(2) by (auto simp: journal_mutations_def ms)
qed

lemma mutation_at_ok:
  "distinct (map sm_key ms) \<Longrightarrow> mutation_at ms k = Inr m \<longleftrightarrow> m \<in> set ms \<and> sm_key m = k"
  by (auto simp: mutation_at_def mutation_table_def table_get_ok comp_def dest: map_of_SomeD intro!: map_of_is_SomeI)

text \<open>Presence is compared position by position.\<close>

lemma presence_at:
  assumes "mapE (mutation_at ms) order = Inr ordered" and "map P ordered = map Q [0..<length order]"
    and "distinct (map sm_key ms)" and "m \<in> set ms" and "i < length order" and "order ! i = sm_key m"
  shows "P m \<longleftrightarrow> Q i"
proof -
  have "list_all2 (\<lambda>k m. mutation_at ms k = Inr m) order ordered" using assms(1) by (simp add: mapE_ok)
  then have len: "length ordered = length order" and "mutation_at ms (order ! i) = Inr (ordered ! i)"
    using assms(5) by (auto simp: list_all2_conv_all_nth)
  moreover have "mutation_at ms (order ! i) = Inr m" using mutation_at_ok [OF assms(3)] assms(4,6) by simp
  ultimately have "ordered ! i = m" by simp
  then show ?thesis using arg_cong [OF assms(2), of "\<lambda>bs. bs ! i"] assms(5) len by simp
qed

section \<open>Publication\<close>

lemma check_progress_cases:
  assumes "check_progress r h c ms backups = Inr ()"
  obtains pending where "pending_directory_stage r h c ms = Inr pending" and "sc_published c > 0 \<longrightarrow> prepared c backups"
    and "check_post_prefix c pending ms = Inr ()" and "check_rollback_prefix c ms = Inr ()"
    and "\<forall>k \<in> set (take (nat (sc_rolled_back c)) (published_rollback_order c)). check_restoration ms k = Inr ()"
  using assms unfolding check_progress_def ok_iff by (auto simp: ok_iff)

lemma pending_directory:
  assumes "pending_directory_stage r h c ms = Inr True"
  shows "\<exists>m. mutation_at ms (sc_publication c ! nat (sc_published c)) = Inr m \<and> sm_stage m = None \<and>
    th_phase h = PUBLISHING"
  using assms by (auto simp: pending_directory_stage_def bindE_ok split: if_splits)

text \<open>A file with a post identity belongs to the published prefix, which follows a complete preparation.\<close>

lemma published_position:
  assumes "check_progress r h c ms backups = Inr ()" and "distinct (map sm_key ms)" and "m \<in> set ms"
    and "sm_post_identity m \<noteq> PSentinel NONE" and "sm_key m \<in> set (sc_publication c)"
    and "sm_stage m \<noteq> None \<or> th_phase h \<noteq> PUBLISHING"
  shows "\<exists>i < length (sc_publication c). sc_publication c ! i = sm_key m \<and> int i < sc_published c" and "prepared c backups"
proof -
  from assms(1) obtain pending where pending: "pending_directory_stage r h c ms = Inr pending"
    and prep: "sc_published c > 0 \<longrightarrow> prepared c backups" and post: "check_post_prefix c pending ms = Inr ()"
    by (rule check_progress_cases)
  from post obtain ordered where ordered: "mapE (mutation_at ms) (sc_publication c) = Inr ordered"
    and pres: "map (\<lambda>m. sm_post_identity m \<noteq> PSentinel NONE) ordered =
        map (\<lambda>index. int index < sc_published c \<or> (pending \<and> int index = sc_published c)) [0..<length (sc_publication c)]"
    unfolding check_post_prefix_def bindE_ok service_require_ok by blast
  from assms(5) obtain i where i: "i < length (sc_publication c)" "sc_publication c ! i = sm_key m" by (auto simp: in_set_conv_nth)
  have at: "int i < sc_published c \<or> (pending \<and> int i = sc_published c)"
    using presence_at [OF ordered pres assms(2,3) i] assms(4) by simp
  have "\<not> (pending \<and> int i = sc_published c)"
  proof
    assume p: "pending \<and> int i = sc_published c"
    with pending have "pending_directory_stage r h c ms = Inr True" by simp
    from pending_directory [OF this] obtain m' where "mutation_at ms (sc_publication c ! nat (sc_published c)) = Inr m'"
      and "sm_stage m' = None" and "th_phase h = PUBLISHING" by blast
    moreover have "nat (sc_published c) = i" using p by linarith
    moreover have "mutation_at ms (sm_key m) = Inr m" using mutation_at_ok [OF assms(2)] assms(3) by simp
    ultimately show False using i(2) assms(6) by simp
  qed
  with at have p: "int i < sc_published c" by blast
  with i show "\<exists>i < length (sc_publication c). sc_publication c ! i = sm_key m \<and> int i < sc_published c" by blast
  from p show "prepared c backups" using prep by simp
qed

lemma counts_staging:
  assumes "parse_counts r h publication = Inr c"
  shows "sc_publication c = publication" and "k \<in> set publication \<Longrightarrow> k \<in> set FILE_MUTATION_KEYS \<Longrightarrow> k \<in> set (sc_staging c)"
    and "sc_published c \<le> int (length publication)"
proof -
  note d = assms [unfolded parse_counts_def Let_def bindE_ok service_count_def service_pattern_ok service_require_ok]
  show "sc_publication c = publication" using d by auto
  show "k \<in> set publication \<Longrightarrow> k \<in> set FILE_MUTATION_KEYS \<Longrightarrow> k \<in> set (sc_staging c)" using d by auto
  show "sc_published c \<le> int (length publication)" using d by auto
qed

lemma index_of_less: "x \<in> set xs \<Longrightarrow> index_of x xs < length xs"
  unfolding index_of_def by (induction xs) auto

text \<open>The evidence that each published file has.\<close>

lemma published_evidence:
  assumes "parsed_file \<lparr>fc_record = r, fc_header = h, fc_root = root, fc_counts = c\<rparr> backups m" and "prepared c backups"
    and "sm_post_identity m \<noteq> PSentinel NONE" and "sm_key m \<in> set (sc_staging c)"
  shows "published_stage m" and "bound_copy (sm_stage_identity m) (sm_stage_object m) (sm_stage_sha256 m)"
    and "sm_pre_identity m \<noteq> PSentinel ABSENT \<Longrightarrow> bound_backup m"
proof -
  let ?x = "\<lparr>fc_record = r, fc_header = h, fc_root = root, fc_counts = c\<rparr>"
  from assms(1) obtain ms e where m: "parse_file_mutation ?x ms e (sm_key m) = Inr m"
    and e: "sm_pre_identity m \<noteq> PSentinel ABSENT \<Longrightarrow> e < length backups"
    by (auto simp: parsed_file_def)
  show "published_stage m" by (rule published_file [OF m assms(3)])
  have "stage_done c (sm_key m)"
    using assms(2) index_of_less [OF assms(4)] by (auto simp: stage_done_def prepared_def)
  then show "bound_copy (sm_stage_identity m) (sm_stage_object m) (sm_stage_sha256 m)" using staged_file [OF m] by simp
  show "bound_backup m" if "sm_pre_identity m \<noteq> PSentinel ABSENT"
    using backed_up_file [OF m _ that] e [OF that] assms(2) by (auto simp: prepared_def)
qed

section \<open>Rollback\<close>

text \<open>
  A mutation is undone when its destination is absent again, or is its backup with the digest and the metadata
  of the file that was displaced.
\<close>

definition restored_state :: "service_mutation \<Rightarrow> bool" where
  "restored_state m \<longleftrightarrow>
     (if sm_pre_identity m = PSentinel ABSENT then sm_rollback_identity m = PSentinel ABSENT \<and> sm_rollback_sha256 m = None
      else \<exists>pre i. sm_pre_identity m = PFile pre \<and> sm_rollback_identity m = PFile i \<and>
        sm_backup_object m = PObject (fi_state i) \<and> sm_rollback_sha256 m = sm_pre_sha256 m \<and>
        sm_rollback_sha256 m = sm_backup_sha256 m \<and> copied_metadata_matches pre i)"

lemma check_restoration_ok:
  assumes "check_restoration ms k = Inr ()" and "mutation_at ms k = Inr m"
  shows "restored_state m"
proof (cases "sm_pre_identity m = PSentinel ABSENT")
  case True
  with assms show ?thesis by (simp add: check_restoration_def restored_state_def service_require_ok)
next
  case False
  with assms show ?thesis
    by (cases "sm_pre_identity m"; cases "sm_backup_object m"; cases "sm_rollback_identity m")
      (auto simp: check_restoration_def restored_state_def service_require_ok)
qed

lemma rolled_back_restored:
  assumes "check_progress r h c ms backups = Inr ()" and "distinct (map sm_key ms)" and "m \<in> set ms"
    and "distinct (sc_publication c)" and "i < length (sc_publication c)" and "sc_publication c ! i = sm_key m"
    and "int i < sc_published c" and "sm_rollback_identity m \<noteq> PSentinel NONE"
  shows "restored_state m"
proof -
  let ?order = "published_rollback_order c"
  from assms(1) have prefix: "check_rollback_prefix c ms = Inr ()"
    and restored: "\<forall>k \<in> set (take (nat (sc_rolled_back c)) ?order). check_restoration ms k = Inr ()"
    by (auto elim: check_progress_cases)
  from prefix obtain ordered where ordered: "mapE (mutation_at ms) ?order = Inr ordered"
    and pres: "map (\<lambda>m. sm_rollback_identity m \<noteq> PSentinel NONE) ordered =
      map (\<lambda>index. int index < sc_rolled_back c) [0..<length ?order]"
    unfolding check_rollback_prefix_def Let_def bindE_ok service_require_ok by blast
  have "set ?order = set (take (nat (sc_published c)) (sc_publication c))"
    unfolding published_rollback_order_def by (metis mset_rollback set_mset_mset)
  moreover have "sm_key m \<in> set (take (nat (sc_published c)) (sc_publication c))"
    using assms(5-7) by (auto simp: in_set_conv_nth intro!: exI [of _ i])
  ultimately obtain j where j: "j < length ?order" "?order ! j = sm_key m" by (metis in_set_conv_nth)
  have "int j < sc_rolled_back c" using presence_at [OF ordered pres assms(2,3) j] assms(8) by simp
  then have "sm_key m \<in> set (take (nat (sc_rolled_back c)) ?order)"
    using j by (auto simp: in_set_conv_nth intro!: exI [of _ j])
  with restored have "check_restoration ms (sm_key m) = Inr ()" by blast
  then show ?thesis using check_restoration_ok mutation_at_ok [OF assms(2)] assms(3) by blast
qed

section \<open>Phases\<close>

text \<open>A verified or committed transaction has all its prefixes.\<close>

lemma committed_prefixes_phase:
  assumes "check_phase r s = Inr ()" and "th_phase (js_header s) = VERIFYING \<or> th_outcome (js_header s) = SUCCEEDED"
  shows "committed_prefixes s"
proof -
  from assms(1) have complete: "\<not> (post_boundary (th_phase (js_header s)) \<and> th_committed (js_header s) \<and>
      th_outcome (js_header s) = SUCCEEDED \<and> \<not> committed_prefixes s)"
    and legal: "legal_phase r s = Inr True"
    by (auto simp: check_phase_def Let_def ok_iff)
  from legal assms(2) show ?thesis
    by (cases "th_phase (js_header s)")
      (use complete in \<open>auto simp: legal_phase_def Let_def ok_iff legal_staging_def legal_backing_up_def legal_planned_def
        legal_publishing_def legal_verifying_def legal_committed_def legal_rolling_back_def legal_restore_def
        legal_rollback_completion_def failed_rollback_def legal_cleaning_def terminal_outcome_valid_def forward_def
        post_boundary_def split: if_splits\<close>)
qed

end
