(* ===== verification/ServicePaths.thy ===== *)
theory ServicePaths
  imports ServiceInvariants
begin

text \<open>Every path of an accepted service journal is canonical and strictly below the PKI directory.\<close>

section \<open>Names\<close>

lemma canonical_no_sep: "canonical_digits 10 s \<Longrightarrow> SEP \<notin> set s"
  by (auto simp: canonical_digits_def is_digit_def code_def)

lemma plain_root_generation: "fullmatch ROOT_GENERATION_RX s \<Longrightarrow> plain_comp s"
  using canonical_no_sep by (auto simp: ROOT_GENERATION_iff plain_comp_def)

lemma plain_intermediate_generation: "fullmatch INTERMEDIATE_GENERATION_RX s \<Longrightarrow> plain_comp s"
  using canonical_no_sep by (auto simp: INTERMEDIATE_GENERATION_iff plain_comp_def)

lemma plain_archive_name:
  assumes "fullmatch ARCHIVE_NAME_RX s"
  shows "plain_comp s"
proof -
  from assms have "length s \<ge> 15" and "\<forall>c \<in> set s. is_digit c \<or> c = CHR ''-''"
    by (auto simp: fullmatch_lang ARCHIVE_NAME_RX_def ARCHIVE_STAMP_RX_def rx_lang)
  moreover from this(2) have "SEP \<notin> set s" by (auto simp: is_digit_def code_def)
  ultimately show ?thesis by (auto simp: plain_comp_def)
qed

definition plain_names :: "service_names \<Rightarrow> bool" where
  "plain_names n \<longleftrightarrow> plain_comp (sn_service n) \<and> plain_comp (sn_root n) \<and> plain_comp (sn_intermediate n) \<and>
     plain_comp (sn_serial n @ ''.pem'') \<and> plain_comp (sn_archive n)"

text \<open>A relative path: plain components with slashes between them.\<close>

definition relative_path :: "string \<Rightarrow> bool" where
  "relative_path p \<longleftrightarrow> (\<exists>cs. cs \<noteq> [] \<and> list_all plain_comp cs \<and> p = join_on [SEP] cs)"

lemma below_relative: "canonical_abs root \<Longrightarrow> relative_path p \<Longrightarrow> below root (path_join root [p])"
  using below_path_join by (auto simp: relative_path_def join2_comps)

lemma below_relative_more: "below root d \<Longrightarrow> relative_path p \<Longrightarrow> below root (path_join d [p])"
  using below_join by (auto simp: relative_path_def join2_comps)

lemma relative_split: "list_all plain_comp (split_on SEP p) \<Longrightarrow> relative_path p"
  unfolding relative_path_def using join_split [of SEP p] by (intro exI [of _ "split_on SEP p"]) simp

lemma plain_relative: "plain_comp a \<Longrightarrow> relative_path a"
  by (rule relative_split) (simp add: split_on_single plain_comp_def)

lemma table_paths_relative:
  assumes "plain_names n"
  shows "list_all (\<lambda>e. relative_path (snd e n)) FILE_DESTINATIONS"
    and "list_all (\<lambda>e. relative_path (snd e n)) DIRECTORY_DESTINATIONS"
    and "list_all (\<lambda>e. relative_path (snd e n)) SIGNING_INPUT_SOURCES"
proof -
  have no: "SEP \<notin> set (sn_service n)" "SEP \<notin> set (sn_root n)" "SEP \<notin> set (sn_intermediate n)" "SEP \<notin> set (sn_archive n)"
      "SEP \<notin> set (sn_serial n @ ''.pem'')"
    using assms by (auto simp: plain_names_def plain_comp_def)
  note split = no split_on_append [OF no(1)] split_on_append [OF no(2)] split_on_append [OF no(3)] split_on_append [OF no(4)]
    split_on_single [OF no(1)] split_on_single [OF no(4)] split_on_single [OF no(5)]
  note plain = assms [unfolded plain_names_def] plain_comp_def [of "x # s" for x s]
  show "list_all (\<lambda>e. relative_path (snd e n)) FILE_DESTINATIONS"
    unfolding FILE_DESTINATIONS_def list.pred_inject snd_conv
    by (intro conjI TrueI relative_split; simp add: split plain split_on_code(2) del: split_on.simps(2))
  show "list_all (\<lambda>e. relative_path (snd e n)) DIRECTORY_DESTINATIONS"
    unfolding DIRECTORY_DESTINATIONS_def list.pred_inject snd_conv
    by (intro conjI TrueI relative_split; simp add: split plain split_on_code(2) del: split_on.simps(2))
  show "list_all (\<lambda>e. relative_path (snd e n)) SIGNING_INPUT_SOURCES"
    unfolding SIGNING_INPUT_SOURCES_def list.pred_inject snd_conv
    by (intro conjI TrueI relative_split; simp add: split plain split_on_code(2) del: split_on.simps(2))
qed

lemma plain_transaction:
  assumes "transaction_binding r m = Inr u"
  shows "plain_comp (sv r ''transaction'')"
proof -
  from assms obtain id where "fullmatch HEX32_RX id" and t: "sv r ''transaction'' = ''service-'' @ id"
    by (auto simp: transaction_binding_def ok_iff)
  then have "plain_comp id" using plain_request_id by blast
  with t show ?thesis by (auto simp: plain_comp_def)
qed

lemma header_names:
  assumes "parse_service_header r = Inr h"
  shows "plain_names (th_names h)" and "plain_comp (sv r ''transaction'')"
proof -
  from assms show "plain_comp (sv r ''transaction'')" by (rule parse_service_header_cases) (rule plain_transaction)
  from assms show "plain_names (th_names h)"
  proof (rule parse_service_header_cases)
    fix m
    assume s: "service_pattern (sv r ''service'') SERVICE_RX ''service'' = Inr (sn_service (th_names h))"
      and i: "issuer_fields r m = Inr (sn_root (th_names h), sn_intermediate (th_names h))"
      and n: "service_serial (sv r ''serial'') ''serial'' = Inr (sn_serial (th_names h))"
      and a: "sn_archive (th_names h) = ''none'' \<or>
        service_pattern (sv r ''archive_name'') ARCHIVE_NAME_RX ''archive_name'' = Inr (sn_archive (th_names h))"
    from i have "fullmatch ROOT_GENERATION_RX (sn_root (th_names h))"
      "fullmatch INTERMEDIATE_GENERATION_RX (sn_intermediate (th_names h))"
      by (auto simp: issuer_fields_def ok_iff)
    moreover have "plain_comp ''none''" by (simp add: plain_literal)
    then have "plain_comp (sn_archive (th_names h))" using a plain_archive_name by (auto simp: service_pattern_ok)
    ultimately show "plain_names (th_names h)"
      using s n plain_service plain_root_generation plain_intermediate_generation plain_serial_pem
      by (simp add: plain_names_def service_pattern_ok service_serial_ok)
  qed
qed

section \<open>Directories of the transaction\<close>

lemma transaction_paths_below:
  assumes "canonical_abs root" and "plain_comp (sv r ''transaction'')"
  shows "below root (service_transaction_dir root r)" and "below root (service_stage_dir root r)"
    and "below root (service_inputs_dir root r)" and "below root (service_backup_dir root r)"
    and "list_all (\<lambda>e. below root (snd e)) (service_fixed_paths root r)"
proof -
  have lit: "relative_path SERVICE_TRANSACTION_TREE_RELATIVE_PATH" "relative_path SERVICE_TRANSACTION_JOURNAL_RELATIVE_PATH"
    "list_all plain_comp [''stage'']" "list_all plain_comp [''inputs'']" "list_all plain_comp [''backup'']"
    "list_all plain_comp [''transaction'']" "list_all plain_comp [''terminal'']"
    unfolding SERVICE_TRANSACTION_TREE_RELATIVE_PATH_def SERVICE_TRANSACTION_JOURNAL_RELATIVE_PATH_def
    by (intro relative_split, code_simp, intro relative_split, code_simp) (simp_all add: plain_literal)
  show t: "below root (service_transaction_dir root r)"
    using below_join [OF below_relative [OF assms(1) lit(1)], of "[sv r ''transaction'']"] assms(2)
    by (simp add: service_transaction_dir_def)
  show s: "below root (service_stage_dir root r)" unfolding service_stage_dir_def by (rule below_join [OF t lit(3)])
  show i: "below root (service_inputs_dir root r)" unfolding service_inputs_dir_def by (rule below_join [OF s lit(4)])
  show b: "below root (service_backup_dir root r)" unfolding service_backup_dir_def by (rule below_join [OF t lit(5)])
  show "list_all (\<lambda>e. below root (snd e)) (service_fixed_paths root r)"
    unfolding service_fixed_paths_def list.pred_inject snd_conv
    using below_relative [OF assms(1) lit(2)] t s i b below_join [OF t lit(6)] below_join [OF t lit(7)] by simp
qed

lemma table_path_below:
  assumes "canonical_abs root" and "list_all (\<lambda>e. relative_path (snd e n)) d" and "map_of d k = Some template"
  shows "below root (path_join root [template n])"
  using assms below_relative [OF assms(1)] by (auto simp: list_all_iff dest!: map_of_SomeD)

section \<open>Paths of mutations and inputs\<close>

text \<open>The paths that a mutation and a signing input name.\<close>

definition mutation_paths :: "service_mutation \<Rightarrow> string list" where
  "mutation_paths m = sm_destination m # List.map_filter (\<lambda>p. p) [sm_stage m, sm_backup m, sm_archive_source m]"

definition service_paths :: "service_transaction \<Rightarrow> string list" where
  "service_paths t = map snd (st_paths t) @ concat (map mutation_paths (st_mutations t)) @
     concat (map (\<lambda>i. [si_source i, si_stage i]) (st_signing_inputs t))"

lemma keys_plain: "list_all plain_comp (MUTATION_KEYS @ SERVICE_SIGNING_INPUT_KEYS)"
  by code_simp

definition paths_below :: "string \<Rightarrow> service_mutation \<Rightarrow> bool" where
  "paths_below root m \<longleftrightarrow> list_all (below root) (mutation_paths m)"

lemma paths_belowI:
  assumes "below root (sm_destination m)" and "\<And>p. sm_stage m = Some p \<Longrightarrow> below root p"
    and "\<And>p. sm_backup m = Some p \<Longrightarrow> below root p" and "\<And>p. sm_archive_source m = Some p \<Longrightarrow> below root p"
  shows "paths_below root m"
  using assms
  by (cases "sm_stage m"; cases "sm_backup m"; cases "sm_archive_source m")
    (simp_all add: paths_below_def mutation_paths_def List.map_filter_def)

lemma directory_below:
  assumes "parse_directory_mutation r h root snapshot key = Inr (Some m)" and "canonical_abs root" and "plain_names (th_names h)"
  shows "paths_below root m"
proof -
  from assms(1) obtain template where t: "map_of DIRECTORY_DESTINATIONS key = Some template"
    and m: "sm_destination m = path_join root [template (th_names h)]"
      "sm_stage m = None" "sm_backup m = None" "sm_archive_source m = None"
    by (auto simp: parse_directory_mutation_def directory_mutation_def ok_iff split: if_splits)
  from table_path_below [OF assms(2) table_paths_relative(2) [OF assms(3)] t] m show ?thesis by (auto intro!: paths_belowI)
qed

lemma directories_below:
  assumes "parse_directory_mutations r h root snapshot = Inr dirs" and "canonical_abs root" and "plain_names (th_names h)"
    and "m \<in> set dirs"
  shows "paths_below root m"
proof -
  from assms(1) obtain ms where ms: "mapE (parse_directory_mutation r h root snapshot) DIRECTORY_MUTATION_KEYS = Inr ms"
    and dirs: "dirs = map the (filter (\<lambda>m. m \<noteq> None) ms)"
    by (auto simp: parse_directory_mutations_def bindE_ok)
  from assms(4) have "Some m \<in> set ms" by (auto simp: dirs)
  then obtain key where "parse_directory_mutation r h root snapshot key = Inr (Some m)" using mapE_from [OF ms] by blast
  then show ?thesis using directory_below assms(2,3) by blast
qed

lemma archive_source_destination:
  assumes "parse_archive_evidence x ms key staged = Inr (Some p, i, sha)"
  shows "\<exists>source \<in> set ms. p = sm_destination source"
proof -
  from assms have "parse_archive_source x ms key staged = Inr (Some p, i, sha)"
    by (auto simp: parse_archive_evidence_def bindE_ok split: if_splits)
  then show ?thesis
    unfolding parse_archive_source_def Let_def bindE_ok exact_path_ok
    apply (elim exE conjE)
    subgoal for source_key source path identity
      by (cases identity)
        (auto simp: ok_iff mutation_at_def mutation_table_def dest!: map_of_SomeD intro!: bexI [of _ source])
    done
qed

lemma parse_file_mutation_source:
  assumes "parse_file_mutation x ms e key = Inr m" and "sm_archive_source m = Some p"
  shows "\<exists>staged i sha. parse_archive_evidence x ms key staged = Inr (Some p, i, sha)"
  using assms by (fastforce simp: parse_file_mutation_def bindE_ok split: prod.splits)

lemma file_below:
  assumes m: "parse_file_mutation x ms e key = Inr m" and x: "fc_root x = root" "plain_names (th_names (fc_header x))"
    "plain_comp (sv (fc_record x) ''transaction'')" and root: "canonical_abs root" and key: "key \<in> set FILE_MUTATION_KEYS"
    and ms: "\<forall>m \<in> set ms. paths_below root m"
  shows "paths_below root m"
proof (rule paths_belowI)
  have k: "list_all plain_comp [key]" using keys_plain key by (auto simp: MUTATION_KEYS_def list_all_iff)
  note dirs = transaction_paths_below [OF root x(3)]
  from m show "below root (sm_destination m)"
  proof (rule parse_file_mutation_cases)
    assume "file_destination x key = Inr (sm_destination m)"
    then obtain template where "map_of FILE_DESTINATIONS key = Some template"
      and "sm_destination m = path_join root [template (th_names (fc_header x))]"
      by (auto simp: file_destination_def ok_iff x)
    then show ?thesis using table_path_below [OF root table_paths_relative(1) [OF x(2)]] by simp
  qed
  show "below root p" if p: "sm_stage m = Some p" for p
  proof -
    have "p = path_join (service_stage_dir root (fc_record x)) [key]"
      using m p by (auto simp: parse_stage_def Let_def ok_iff x elim!: parse_file_mutation_cases)
    then show ?thesis using below_join [OF dirs(2) k] by simp
  qed
  show "below root p" if p: "sm_backup m = Some p" for p
  proof -
    have "p = path_join (service_backup_dir root (fc_record x)) [key]"
      using m p by (auto simp: parse_backup_def Let_def ok_iff x split: if_splits parsed_identity.splits option.splits
          elim!: parse_file_mutation_cases)
    then show ?thesis using below_join [OF dirs(4) k] by simp
  qed
  show "below root p" if p: "sm_archive_source m = Some p" for p
  proof -
    from parse_file_mutation_source [OF m p] archive_source_destination
    obtain source where "source \<in> set ms" and "p = sm_destination source" by blast
    then show ?thesis using ms by (auto simp: paths_below_def mutation_paths_def)
  qed
qed

lemma files_below:
  assumes "parse_file_mutations x ms backups keys = Inr (ms', backups')" and "set keys \<subseteq> set FILE_MUTATION_KEYS"
    and x: "fc_root x = root" "plain_names (th_names (fc_header x))" "plain_comp (sv (fc_record x) ''transaction'')"
      "canonical_abs root"
    and "\<forall>m \<in> set ms. paths_below root m"
  shows "\<forall>m \<in> set ms'. paths_below root m"
  using assms(1,2,7)
proof (induction keys arbitrary: ms backups)
  case (Cons key keys)
  show ?case
  proof (cases "key \<in> set (sc_publication (fc_counts x))")
    case False
    with Cons.prems have "parse_file_mutations x ms backups keys = Inr (ms', backups')" by (auto simp: bindE_ok)
    with Cons.IH Cons.prems(2,3) show ?thesis by simp
  next
    case True
    with Cons.prems obtain m where m: "parse_file_mutation x ms (length backups) key = Inr m"
      and rest: "parse_file_mutations x (ms @ [m])
        (if sm_pre_identity m = PSentinel ABSENT then backups else backups @ [key]) keys = Inr (ms', backups')"
      by (auto simp: bindE_ok)
    have "paths_below root m" using file_below [OF m x] Cons.prems(2,3) by simp
    with Cons.IH [OF rest] Cons.prems(2,3) show ?thesis by simp
  qed
qed simp

lemma signing_input_below:
  assumes "parse_signing_input x current sha key = Inr (Some i)" and x: "fc_root x = root" "plain_names (th_names (fc_header x))"
      "plain_comp (sv (fc_record x) ''transaction'')" and root: "canonical_abs root"
    and key: "key \<in> set SERVICE_SIGNING_INPUT_KEYS"
  shows "below root (si_source i)" and "below root (si_stage i)"
proof -
  have k: "list_all plain_comp [key]" using keys_plain key by (auto simp: list_all_iff)
  have "\<exists>template. map_of SIGNING_INPUT_SOURCES key = Some template \<and>
      si_source i = path_join root [template (th_names (fc_header x))] \<and>
      si_stage i = path_join (service_inputs_dir root (fc_record x)) [key]"
  proof (cases "input_enabled (fc_header x) key")
    case True
    from assms(1) show ?thesis
      unfolding parse_signing_input_def Let_def if_not_P [OF iffD2 [OF not_not True]] bindE_ok
      apply (elim exE conjE)
      subgoal for template source identity by (cases identity) (auto simp: ok_iff x)
      done
  next
    case False
    with assms(1) show ?thesis by (auto simp: parse_signing_input_def Let_def ok_iff)
  qed
  then show "below root (si_source i)" "below root (si_stage i)"
    using table_path_below [OF root table_paths_relative(3) [OF x(2)]] below_join [OF transaction_paths_below(3) [OF root x(3)] k]
    by auto
qed

lemma signing_inputs_below:
  assumes "parse_signing_inputs x current sha = Inr inputs" and "i \<in> set inputs" and "fc_root x = root"
    and "plain_names (th_names (fc_header x))" and "plain_comp (sv (fc_record x) ''transaction'')" and "canonical_abs root"
  shows "below root (si_source i) \<and> below root (si_stage i)"
proof -
  from assms(1) obtain xs where xs: "mapE (parse_signing_input x current sha) SERVICE_SIGNING_INPUT_KEYS = Inr xs"
    and inputs: "inputs = map the (filter (\<lambda>i. i \<noteq> None) xs)"
    by (auto simp: parse_signing_inputs_def bindE_ok)
  from assms(2) have "Some i \<in> set xs" by (auto simp: inputs)
  then obtain key where "key \<in> set SERVICE_SIGNING_INPUT_KEYS" and "parse_signing_input x current sha key = Inr (Some i)"
    using mapE_from [OF xs] by blast
  then show ?thesis using signing_input_below assms(3-6) by blast
qed

section \<open>The journal\<close>

lemma checked_paths_below:
  assumes "check_service_paths root r = Inr paths" and "canonical_abs root" and "plain_comp (sv r ''transaction'')"
    and "p \<in> set paths"
  shows "below root (snd p)"
proof -
  from mapE_from [OF assms(1) [unfolded check_service_paths_def] assms(4)] obtain f e where
    "(f, e) \<in> set (service_fixed_paths root r)" and "p = (f, e)"
    by (auto simp: ok_iff)
  then show ?thesis using transaction_paths_below(5) [OF assms(2,3)] by (auto simp: list_all_iff)
qed

lemma archive_root_below:
  assumes "check_archive_root r h root = Inr ar" and "canonical_abs root" and "plain_comp (sv r ''transaction'')"
    and "p \<in> set (ar_paths ar)"
  shows "below root (snd p)"
proof -
  have t: "below root (path_join (service_transaction_dir root r) [''archive-root-reference''])"
    by (rule below_join [OF transaction_paths_below(1) [OF assms(2,3)]]) (simp add: plain_literal)
  from assms(1,4) have "snd p = path_join (service_transaction_dir root r) [''archive-root-reference'']"
    by (auto simp: check_archive_root_def check_archive_reference_def Let_def ok_iff split: if_splits)
  with t show ?thesis by simp
qed

lemma completion_below:
  assumes "check_completion r h root c = Inr cp" and "canonical_abs root" and "plain_comp (sv r ''transaction'')"
    and "p \<in> set (cp_paths cp)"
  shows "below root (snd p)"
proof -
  have t: "below root (path_join (service_transaction_dir root r) [''rollback-complete''])"
    by (rule below_join [OF transaction_paths_below(1) [OF assms(2,3)]]) (simp add: plain_literal)
  from assms(1,4) have "snd p = path_join (service_transaction_dir root r) [''rollback-complete'']"
    by (auto simp: check_completion_def Let_def ok_iff split: if_splits)
  with t show ?thesis by simp
qed

lemma service_paths_below:
  assumes "parse_service_transaction data root = Inr t" and "p \<in> set (service_paths t)"
  shows "below root p"
proof -
  from assms(1) obtain r h paths identities ar current c ms backups inputs cp where
      root: "canonical_root root = Inr root" and h: "parse_service_header r = Inr h"
    and paths: "check_service_paths root r = Inr paths" and ar: "check_archive_root r h root = Inr ar"
    and ms: "parse_service_mutations r h root ar current = Inr (c, ms, backups, inputs)"
    and cp: "check_completion r h root c = Inr cp"
    and t: "t = service_transaction_of r root h c backups ms inputs
      (identities @ ar_identities ar @ [cp_identity cp]) (paths @ ar_paths ar @ cp_paths cp)"
    by (rule parse_service_transaction_cases)
  have c: "canonical_abs root" using root by (auto simp: canonical_root_ok canonical_abs_def)
  note n = header_names [OF h]
  from ms obtain dirs sha where
      dirs: "parse_directory_mutations r h root (ar_snapshot ar) = Inr dirs"
    and files: "parse_file_mutations \<lparr>fc_record = r, fc_header = h, fc_root = root, fc_counts = c\<rparr> dirs [] FILE_MUTATION_KEYS =
      Inr (ms, backups)"
    and inputs: "parse_signing_inputs \<lparr>fc_record = r, fc_header = h, fc_root = root, fc_counts = c\<rparr> current sha = Inr inputs"
    by (rule parse_service_mutations_cases)
  have m: "\<forall>m \<in> set ms. paths_below root m"
    using files_below [OF files] directories_below [OF dirs c] n c by simp
  have st: "set (st_paths t) \<subseteq> set paths \<union> set (ar_paths ar) \<union> set (cp_paths cp)"
    using set_dict_of [of "paths @ ar_paths ar @ cp_paths cp"] by (auto simp: t service_transaction_of_def)
  from assms(2) consider e where "e \<in> set (st_paths t)" "p = snd e" | m where "m \<in> set ms" "p \<in> set (mutation_paths m)"
    | i where "i \<in> set inputs" "p = si_source i \<or> p = si_stage i"
    by (auto simp: service_paths_def t service_transaction_of_def)
  then show ?thesis
  proof cases
    case 1
    with st checked_paths_below [OF paths c n(2)] archive_root_below [OF ar c n(2)] completion_below [OF cp c n(2)]
    show ?thesis by blast
  next
    case 2
    with m show ?thesis by (auto simp: paths_below_def list_all_iff)
  next
    case 3
    with signing_inputs_below [OF inputs] n c show ?thesis by auto
  qed
qed

end
