(* ===== verification/ServiceSamples.thy ===== *)
theory ServiceSamples
  imports ServicePaths SigningSamples
begin

text \<open>
  Three journals of one managed issue that reuses its key: prepared, committed, and in the middle of a
  rollback. The service exists already, the CA database is replaced, and every file has the same bytes.
\<close>

section \<open>Identities\<close>

definition displaced_file :: file_identity where
  "displaced_file = \<lparr>fi_dev = 2049, fi_ino = 201, fi_uid = 0, fi_permissions = 384, fi_links = 1, fi_size = 27,
     fi_mtime_ns = 86399123456789, fi_ctime_ns = 86399123456789, fi_kind = Regular\<rparr>"
definition copied_file :: file_identity where
  "copied_file = displaced_file\<lparr>fi_ino := 202\<rparr>"
definition public_file :: file_identity where
  "public_file = displaced_file\<lparr>fi_ino := 203, fi_permissions := 420\<rparr>"
definition retained_record_file :: file_identity where
  "retained_record_file = displaced_file\<lparr>fi_ino := 204, fi_size := 251\<rparr>"
definition sample_directory :: directory_identity where
  "sample_directory = \<lparr>di_dev = 2049, di_ino = 77, di_uid = 0, di_permissions = 448\<rparr>"

definition sample_time :: string where
  "sample_time = ''1970-01-01 22:29:59.123456789 -0130''"

definition displaced_text :: string where
  "displaced_text = ''2049:201:0:600:1:27:'' @ sample_time @ '':'' @ sample_time @ '':regular file''"
definition copied_text :: string where
  "copied_text = ''2049:202:0:600:1:27:'' @ sample_time @ '':'' @ sample_time @ '':regular file''"
definition public_text :: string where
  "public_text = ''2049:203:0:644:1:27:'' @ sample_time @ '':'' @ sample_time @ '':regular file''"
definition retained_text :: string where
  "retained_text = ''2049:204:0:600:1:251:'' @ sample_time @ '':'' @ sample_time @ '':regular file''"
definition copied_object_text :: string where
  "copied_object_text = ''2049:202:0:600:1:27:regular file''"
definition public_object_text :: string where
  "public_object_text = ''2049:203:0:644:1:27:regular file''"

lemmas file_defs = displaced_file_def copied_file_def public_file_def retained_record_file_def
lemmas file_text_defs = displaced_text_def copied_text_def public_text_def retained_text_def sample_time_def

lemma service_files_serialize:
  "serialize_file_identity lo displaced_file (Some (-90)) = Inr displaced_text"
  "serialize_file_identity lo copied_file (Some (-90)) = Inr copied_text"
  "serialize_file_identity lo public_file (Some (-90)) = Inr public_text"
  "serialize_file_identity lo retained_record_file (Some (-90)) = Inr retained_text"
proof -
  have t: "format_gnu_stat_timestamp lo 86399123456789 (Some (-90)) = Inr sample_time"
    by (simp add: format_gnu_stat_timestamp_def Let_def sample_time_def) code_simp
  show "serialize_file_identity lo displaced_file (Some (-90)) = Inr displaced_text"
    "serialize_file_identity lo copied_file (Some (-90)) = Inr copied_text"
    "serialize_file_identity lo public_file (Some (-90)) = Inr public_text"
    "serialize_file_identity lo retained_record_file (Some (-90)) = Inr retained_text"
    by (simp_all add: serialize_file_identity_def file_defs fi_state_def t, unfold file_text_defs) code_simp+
qed

lemma service_objects_serialize:
  "serialize_file_object_state (fi_state copied_file) = Inr copied_object_text"
  "serialize_file_object_state (fi_state public_file) = Inr public_object_text"
  by code_simp+

text \<open>How the journal parser reads a text of a file, of an object, of a directory, and a sentinel.\<close>

lemma service_file_identity:
  assumes "serialize_file_identity lo i off = Inr text" and "text \<noteq> ''none''" and "text \<noteq> ''absent''"
    and "fi_uid i = owner" and "fi_kind i = Regular" and "fi_links i = 1" and "mode = None \<or> mode = Some (fi_permissions i)"
  shows "service_identity text f SFile owner S mode safe = Inr (PFile i)"
proof -
  have "read_identity text SFile S = Inr (PFile i)"
    using file_identity_roundtrip [OF assms(1)] assms(2,3)
    by (simp add: read_identity_def parse_file_identity_def with_sentinel_def sentinel_def sentinel_to_def)
  then show ?thesis
    using assms(4-7) by (auto simp: service_identity_def check_identity_def SERVICE_TRANSACTION_LINKS_def)
qed

lemma service_object_identity:
  assumes "serialize_file_object_state i = Inr text" and "valid_object_state i" and "text \<noteq> ''none''" and "text \<noteq> ''absent''"
    and "os_uid i = owner" and "os_kind i = Regular" and "os_links i = 1" and "mode = None \<or> mode = Some (os_permissions i)"
  shows "service_identity text f SObject owner S mode safe = Inr (PObject i)"
proof -
  have "file_object_state_of_text text = Inr i"
    using object_codec.serialize_parse [OF assms(2)] assms(1) by blast
  then have "read_identity text SObject S = Inr (PObject i)"
    using assms(3,4)
    by (simp add: read_identity_def parse_file_object_state_def with_sentinel_def sentinel_def sentinel_to_def)
  then show ?thesis
    using assms(5-8) by (auto simp: service_identity_def check_identity_def SERVICE_TRANSACTION_LINKS_def)
qed

lemma service_sentinel [simp]:
  "NONE \<in> S \<Longrightarrow> service_identity ''none'' f k owner S mode safe = Inr (PSentinel NONE)"
  "ABSENT \<in> S \<Longrightarrow> service_identity ''absent'' f k owner S mode safe = Inr (PSentinel ABSENT)"
  by (cases k; simp add: service_identity_def read_identity_def parse_file_identity_def parse_directory_identity_def
      parse_file_object_state_def with_sentinel_def sentinel_def sentinel_to_def)+

lemma service_texts [simp]:
  "displaced_text \<noteq> ''none''" "copied_text \<noteq> ''none''" "public_text \<noteq> ''none''" "retained_text \<noteq> ''none''"
  "displaced_text \<noteq> ''absent''" "copied_text \<noteq> ''absent''" "public_text \<noteq> ''absent''" "retained_text \<noteq> ''absent''"
  "copied_object_text \<noteq> ''none''" "public_object_text \<noteq> ''none''"
  "copied_object_text \<noteq> ''absent''" "public_object_text \<noteq> ''absent''"
  by (simp_all add: file_text_defs copied_object_text_def public_object_text_def)

lemma service_files [simp]:
  "mode = None \<or> mode = Some 384 \<Longrightarrow> service_identity displaced_text f SFile 0 S mode safe = Inr (PFile displaced_file)"
  "mode = None \<or> mode = Some 384 \<Longrightarrow> service_identity copied_text f SFile 0 S mode safe = Inr (PFile copied_file)"
  "mode = None \<or> mode = Some 420 \<Longrightarrow> service_identity public_text f SFile 0 S mode safe = Inr (PFile public_file)"
  "mode = None \<or> mode = Some 384 \<Longrightarrow> service_identity retained_text f SFile 0 S mode safe = Inr (PFile retained_record_file)"
  by (rule service_file_identity [OF service_files_serialize(1)] service_file_identity [OF service_files_serialize(2)]
      service_file_identity [OF service_files_serialize(3)] service_file_identity [OF service_files_serialize(4)];
    simp add: file_defs)+

lemma service_objects [simp]:
  "service_identity copied_object_text f SObject 0 S None safe = Inr (PObject (fi_state copied_file))"
  "service_identity public_object_text f SObject 0 S None safe = Inr (PObject (fi_state public_file))"
  by (rule service_object_identity [OF service_objects_serialize(1)] service_object_identity [OF service_objects_serialize(2)];
    (code_simp | simp add: fi_state_def file_defs))+

lemma service_directory [simp]:
  "mode = None \<or> mode = Some 448 \<Longrightarrow> service_identity sample_directory_text f SDirectory 0 S mode safe = Inr (PDirectory sample_directory)"
proof -
  assume mode: "mode = None \<or> mode = Some 448"
  have "valid_directory_identity sample_directory" by code_simp
  then have "directory_identity_of_text sample_directory_text = Inr sample_directory"
    by (rule directory_codec.serialize_parse) (simp add: sample_directory_def sample_directory_serializes)
  then have "read_identity sample_directory_text SDirectory S = Inr (PDirectory sample_directory)"
    by (simp add: read_identity_def parse_directory_identity_def with_sentinel_def sentinel_def sentinel_to_def)
  moreover have "mode_is_safe 448 False" by code_simp
  ultimately show ?thesis
    using mode by (auto simp: service_identity_def check_identity_def sample_directory_def)
qed

section \<open>The records\<close>

datatype sample_stage = Sample_planned | Sample_rolling | Sample_committed

definition sample_service_names :: service_names where
  "sample_service_names = \<lparr>sn_service = ''web'', sn_root = ''g1'', sn_intermediate = ''g1-i1'', sn_serial = ''01'',
     sn_archive = ''none''\<rparr>"

definition service_digest_text :: string where
  "service_digest_text = sha256_hex (issuer_bytes sample_service_names)"

definition service_sample_name :: string where "service_sample_name = ''service-'' @ sample_id"
definition service_tdir :: string where
  "service_tdir = path_join ''/p'' [SERVICE_TRANSACTION_TREE_RELATIVE_PATH, service_sample_name]"
definition service_sdir :: string where "service_sdir = path_join service_tdir [''stage'']"
definition service_idir :: string where "service_idir = path_join service_sdir [''inputs'']"
definition service_bdir :: string where "service_bdir = path_join service_tdir [''backup'']"

definition sample_retained_values :: "(string \<times> string) list" where
  "sample_retained_values = [(''schema'', ''1''), (''transaction'', service_sample_name), (''operation'', ''service-issue''),
     (''service'', ''web''), (''issuer_root'', ''g1''), (''issuer_intermediate'', ''g1-i1''), (''serial'', ''01''),
     (''key_action'', ''reuse''), (''archive_state'', ''none''), (''archive_name'', ''none''), (''archive_members'', ''none''),
     (''owner'', ''0''), (''created_epoch'', ''1000'')]"

definition sample_retained :: string where
  "sample_retained = concat (map render_line sample_retained_values)"

definition journal_size :: "sample_stage \<Rightarrow> int" where
  "journal_size st = (case st of Sample_planned \<Rightarrow> 26673 | Sample_rolling \<Rightarrow> 28947 | Sample_committed \<Rightarrow> 28766)"

definition journal_state_text :: "sample_stage \<Rightarrow> string" where
  "journal_state_text st = ''2049:205:0:600:1:'' @ nat_text 10 (nat (journal_size st)) @ '':regular file''"

definition stage_fields :: "sample_stage \<Rightarrow> (string \<times> string) list" where
  "stage_fields st = (case st of
     Sample_planned \<Rightarrow> [(''phase'', ''planned''), (''checkpoint'', ''planned''), (''mutation'', ''none''),
       (''committed'', ''false''), (''recovery_mode'', ''rollback''), (''outcome'', ''none'')]
   | Sample_rolling \<Rightarrow> [(''phase'', ''rolling-back''), (''checkpoint'', ''rollback-done''), (''mutation'', ''ca_serial_old''),
       (''committed'', ''false''), (''recovery_mode'', ''rollback''), (''outcome'', ''failed-pre-commit'')]
   | Sample_committed \<Rightarrow> [(''phase'', ''committed''), (''checkpoint'', ''commit-done''), (''mutation'', ''none''),
       (''committed'', ''true''), (''recovery_mode'', ''cleanup-only''), (''outcome'', ''succeeded'')])"

definition published_text :: "sample_stage \<Rightarrow> string" where
  "published_text st = (if st = Sample_planned then ''0'' else ''13'')"
definition rolled_back_text :: "sample_stage \<Rightarrow> string" where
  "rolled_back_text st = (if st = Sample_rolling then ''2'' else ''0'')"

definition sample_prefix :: "sample_stage \<Rightarrow> (string \<times> string) list" where
  "sample_prefix st = [(''schema'', ''1''), (''operation'', ''service-issue''), (''transaction'', service_sample_name)] @
     stage_fields st @ [
     (''service'', ''web''), (''issuer_root'', ''g1''), (''issuer_intermediate'', ''g1-i1''), (''serial'', ''01''),
     (''key_action'', ''reuse''), (''current_key_identity'', displaced_text), (''current_key_sha256'', service_digest_text),
     (''archive_state'', ''none''), (''archive_name'', ''none''), (''archive_members'', ''none''), (''owner'', ''0''),
     (''created_epoch'', ''1000''), (''staged_count'', ''20''), (''backed_up_count'', ''6''),
     (''published_count'', published_text st), (''rollback_count'', rolled_back_text st),
     (''rollback_completion_count'', ''0''), (''rollback_completion_path'', ''none''),
     (''rollback_completion_identity'', ''none''), (''rollback_completion_sha256'', ''none''),
     (''journal_path'', path_join ''/p'' [SERVICE_TRANSACTION_JOURNAL_RELATIVE_PATH]),
     (''journal_identity'', journal_state_text st), (''transaction_dir'', service_tdir),
     (''transaction_identity'', sample_directory_text),
     (''transaction_record_path'', path_join service_tdir [''transaction'']),
     (''transaction_record_identity'', retained_text), (''transaction_record_sha256'', sha256_hex sample_retained),
     (''stage_dir'', service_sdir), (''stage_dir_identity'', sample_directory_text), (''inputs_dir'', service_idir),
     (''inputs_dir_identity'', sample_directory_text), (''backup_dir'', service_bdir),
     (''backup_dir_identity'', sample_directory_text), (''archive_root_snapshot_identity'', ''none''),
     (''archive_root_reference_path'', ''none''), (''archive_root_reference_identity'', ''none''),
     (''archive_root_reference_sha256'', ''none''), (''archive_root_restored'', ''none''),
     (''archive_root_restored_identity'', ''none''), (''archive_marker_removed'', ''none''),
     (''stage_removed'', ''false''), (''backup_removed'', ''false''),
     (''terminal_path'', path_join service_tdir [''terminal'']), (''terminal_identity'', ''none''),
     (''terminal_sha256'', ''none'')]"

definition displaced_keys :: "string list" where
  "displaced_keys = [''ca_index'', ''ca_index_attr'', ''ca_serial'', ''ca_index_old'', ''ca_index_attr_old'', ''ca_serial_old'']"
definition public_keys :: "string list" where
  "public_keys = [''service_certificate'', ''service_chain'', ''service_fullchain'']"

definition staged_text :: "string \<Rightarrow> string" where
  "staged_text k = (if k \<in> set public_keys then public_text else copied_text)"
definition staged_object_text :: "string \<Rightarrow> string" where
  "staged_object_text k = (if k \<in> set public_keys then public_object_text else copied_object_text)"

definition rollback_text :: "sample_stage \<Rightarrow> string \<Rightarrow> string" where
  "rollback_text st k = (if st = Sample_committed then ''none'' else if k = ''ca_newcert'' then ''absent''
     else if st = Sample_rolling \<and> k = ''ca_serial_old'' then copied_text else ''none'')"

text \<open>The values of a file mutation, of a directory mutation and of a signing input.\<close>

definition file_value :: "sample_stage \<Rightarrow> string \<Rightarrow> string \<Rightarrow> string" where
  "file_value st k s =
     (if k \<notin> set SERVICE_CA_PUBLICATION_ORDER then ''none''
      else if s = ''destination'' then path_join ''/p'' [the (map_of FILE_DESTINATIONS k) sample_service_names]
      else if s = ''pre_identity'' then (if k \<in> set displaced_keys then displaced_text else ''absent'')
      else if s = ''pre_sha256'' then (if k \<in> set displaced_keys then service_digest_text else ''none'')
      else if s = ''stage'' then path_join service_sdir [k]
      else if s = ''stage_identity'' then staged_text k
      else if s = ''stage_object'' then staged_object_text k
      else if s = ''stage_sha256'' then service_digest_text
      else if s = ''backup'' then (if k \<in> set displaced_keys then path_join service_bdir [k] else ''none'')
      else if s = ''backup_identity'' then (if k \<in> set displaced_keys then copied_text else ''none'')
      else if s = ''backup_object'' then (if k \<in> set displaced_keys then copied_object_text else ''none'')
      else if s = ''backup_sha256'' then (if k \<in> set displaced_keys then service_digest_text else ''none'')
      else if s = ''post_identity'' then (if st = Sample_planned then ''none'' else staged_text k)
      else if s = ''post_sha256'' then (if st = Sample_planned then ''none'' else service_digest_text)
      else if s = ''rollback_identity'' then rollback_text st k
      else (if st = Sample_rolling \<and> k = ''ca_serial_old'' then service_digest_text else ''none''))"

definition directory_value :: "string \<Rightarrow> string \<Rightarrow> string" where
  "directory_value k s =
     (if k \<notin> set SERVICE_CONTAINER_ORDER then ''none''
      else if s = ''destination'' then path_join ''/p'' [the (map_of DIRECTORY_DESTINATIONS k) sample_service_names]
      else if s = ''rollback_identity'' then ''none'' else sample_directory_text)"

definition input_value :: "string \<Rightarrow> string \<Rightarrow> string" where
  "input_value k s =
     (if s = ''source'' then path_join ''/p'' [the (map_of SIGNING_INPUT_SOURCES k) sample_service_names]
      else if s = ''source_identity'' then displaced_text
      else if s = ''stage'' then path_join service_idir [k]
      else if s = ''stage_identity'' then copied_text
      else if s = ''stage_object'' then copied_object_text
      else service_digest_text)"

definition field_rows :: "string list \<Rightarrow> string list \<Rightarrow> (string \<Rightarrow> string \<Rightarrow> string) \<Rightarrow> (string \<times> string) list" where
  "field_rows keys suffixes g = concat (map (\<lambda>k. map (\<lambda>s. (key_field k s, g k s)) suffixes) keys)"

definition sample_pairs :: "sample_stage \<Rightarrow> (string \<times> string) list" where
  "sample_pairs st = sample_prefix st @ field_rows DIRECTORY_MUTATION_KEYS DIRECTORY_MUTATION_SUFFIXES directory_value @
     field_rows FILE_MUTATION_KEYS FILE_MUTATION_SUFFIXES (file_value st) @
     field_rows ARCHIVE_MUTATION_KEYS ARCHIVE_EVIDENCE_SUFFIXES (\<lambda>k s. ''none'') @
     field_rows SERVICE_SIGNING_INPUT_KEYS SIGNING_INPUT_SUFFIXES input_value"

definition sample_journal :: "sample_stage \<Rightarrow> ordered_record" where
  "sample_journal st = \<lparr>rec_spec = SERVICE_TRANSACTION_SPEC, rec_pairs = sample_pairs st\<rparr>"

definition sample_data :: "sample_stage \<Rightarrow> string" where
  "sample_data st = concat (map render_line (sample_pairs st))"

section \<open>Fields\<close>

lemma fst_field_rows: "map fst (field_rows keys suffixes g) = fields_of keys suffixes"
  by (simp add: field_rows_def fields_of_def map_concat comp_def)

lemma sample_pair_fields: "map fst (sample_pairs st) = SERVICE_TRANSACTION_FIELDS"
proof -
  have "map fst (sample_prefix st) = SERVICE_TRANSACTION_PREFIX_FIELDS"
    by (cases st) (simp_all add: sample_prefix_def stage_fields_def SERVICE_TRANSACTION_PREFIX_FIELDS_def)
  then show ?thesis by (simp add: sample_pairs_def SERVICE_TRANSACTION_FIELDS_def fst_field_rows)
qed

lemma sample_sv: "(f, v) \<in> set (sample_pairs st) \<Longrightarrow> sv (sample_journal st) f = v"
proof -
  assume "(f, v) \<in> set (sample_pairs st)"
  then have "map_of (sample_pairs st) f = Some v"
    using distinct_service_fields by (intro map_of_is_SomeI) (simp add: sample_pair_fields)
  then show ?thesis by (simp add: sv_def sample_journal_def)
qed

lemma sample_rows:
  "k \<in> set DIRECTORY_MUTATION_KEYS \<Longrightarrow> s \<in> set DIRECTORY_MUTATION_SUFFIXES \<Longrightarrow>
     sv (sample_journal st) (key_field k s) = directory_value k s"
  "k \<in> set FILE_MUTATION_KEYS \<Longrightarrow> s \<in> set FILE_MUTATION_SUFFIXES \<Longrightarrow>
     sv (sample_journal st) (key_field k s) = file_value st k s"
  "k \<in> set ARCHIVE_MUTATION_KEYS \<Longrightarrow> s \<in> set ARCHIVE_EVIDENCE_SUFFIXES \<Longrightarrow>
     sv (sample_journal st) (key_field k s) = ''none''"
  "k \<in> set SERVICE_SIGNING_INPUT_KEYS \<Longrightarrow> s \<in> set SIGNING_INPUT_SUFFIXES \<Longrightarrow>
     sv (sample_journal st) (key_field k s) = input_value k s"
  by (rule sample_sv; force simp: sample_pairs_def field_rows_def)+

lemma sample_prefix_values: "list_all (\<lambda>e. sv (sample_journal st) (fst e) = snd e) (sample_prefix st)"
  by (auto simp: list_all_iff sample_pairs_def intro!: sample_sv)

lemmas sample_values = sample_prefix_values [unfolded sample_prefix_def list_all_append list.pred_inject fst_conv snd_conv]

end
