(* ===== verification/ServiceBytes.thy ===== *)
theory ServiceBytes
  imports ServiceSamples SigningWitness
begin

text \<open>The sample journals of a managed issue: their header, their fixed paths, and their bytes, which are a canonical record of the recorded size.\<close>

section \<open>The header\<close>

definition sample_header :: "sample_stage \<Rightarrow> service_header" where
  "sample_header st = \<lparr>th_operation = SERVICE_ISSUE,
     th_phase = (case st of Sample_planned \<Rightarrow> SERVICE_PLANNED | Sample_rolling \<Rightarrow> ROLLING_BACK | Sample_committed \<Rightarrow> COMMITTED),
     th_recovery_mode = (if st = Sample_committed then CLEANUP_ONLY else ROLLBACK),
     th_outcome = (case st of Sample_planned \<Rightarrow> OUTCOME_NONE | Sample_rolling \<Rightarrow> SERVICE_FAILED | Sample_committed \<Rightarrow> SUCCEEDED),
     th_key_action = REUSE, th_archive_state = ARCHIVE_NONE, th_committed = (st = Sample_committed),
     th_names = sample_service_names, th_owner = 0, th_members = []\<rparr>"

lemma stage_values:
  "sv (sample_journal Sample_planned) ''phase'' = ''planned''"
  "sv (sample_journal Sample_planned) ''checkpoint'' = ''planned''"
  "sv (sample_journal Sample_planned) ''mutation'' = ''none''"
  "sv (sample_journal Sample_planned) ''committed'' = ''false''"
  "sv (sample_journal Sample_planned) ''recovery_mode'' = ''rollback''"
  "sv (sample_journal Sample_planned) ''outcome'' = ''none''"
  "sv (sample_journal Sample_rolling) ''phase'' = ''rolling-back''"
  "sv (sample_journal Sample_rolling) ''checkpoint'' = ''rollback-done''"
  "sv (sample_journal Sample_rolling) ''mutation'' = ''ca_serial_old''"
  "sv (sample_journal Sample_rolling) ''committed'' = ''false''"
  "sv (sample_journal Sample_rolling) ''recovery_mode'' = ''rollback''"
  "sv (sample_journal Sample_rolling) ''outcome'' = ''failed-pre-commit''"
  "sv (sample_journal Sample_committed) ''phase'' = ''committed''"
  "sv (sample_journal Sample_committed) ''checkpoint'' = ''commit-done''"
  "sv (sample_journal Sample_committed) ''mutation'' = ''none''"
  "sv (sample_journal Sample_committed) ''committed'' = ''true''"
  "sv (sample_journal Sample_committed) ''recovery_mode'' = ''cleanup-only''"
  "sv (sample_journal Sample_committed) ''outcome'' = ''succeeded''"
  using sample_values [of Sample_planned] sample_values [of Sample_rolling] sample_values [of Sample_committed]
  by (simp_all add: stage_fields_def)

lemma sample_patterns_service [simp]:
  "fullmatch ROOT_GENERATION_RX ''g1''" "fullmatch INTERMEDIATE_GENERATION_RX ''g1-i1''" "fullmatch SERIAL_RX ''01''"
  "fullmatch DECIMAL_RX ''0''" "fullmatch DECIMAL_RX ''1000''"
  by code_simp+

lemma sample_transaction: "transaction_binding (sample_journal st) m = Inr ()"
  by (simp add: transaction_binding_def sample_values service_sample_name_def removeprefix_def starts_with_def
      service_pattern_def)

lemma sample_rollback_fields:
  "k \<in> set MUTATION_KEYS \<Longrightarrow> sv (sample_journal Sample_committed) (key_field k ''rollback_identity'') = ''none''"
  "k \<in> set FILE_MUTATION_KEYS \<Longrightarrow> sv (sample_journal Sample_committed) (key_field k ''rollback_sha256'') = ''none''"
  using sample_rows(1,2) [of k "''rollback_identity''" Sample_committed] sample_rows(2) [of k "''rollback_sha256''" Sample_committed]
  by (auto simp: MUTATION_KEYS_def DIRECTORY_MUTATION_SUFFIXES_def FILE_MUTATION_SUFFIXES_def directory_value_def
      file_value_def rollback_text_def)

lemma sample_not_retained: "\<not> (post_boundary (th_phase (sample_header st)) \<and> rollback_retained (sample_journal st))"
  by (cases st) (auto simp: sample_header_def post_boundary_def rollback_retained_def sample_values rolled_back_text_def
      list_ex_iff sample_rollback_fields)

lemma sample_header_parses: "parse_service_header (sample_journal st) = Inr (sample_header st)"
proof -
  have owner: "service_count (sample_journal st) ''owner'' = Inr 0"
    by (simp add: service_count_def sample_values service_pattern_def int_of_digits_def) code_simp
  have enums: "operation_of (sample_journal st) = Inr SERVICE_ISSUE"
    "service_enum service_phase_value [STAGING, BACKING_UP, SERVICE_PLANNED, PUBLISHING, VERIFYING,
       COMMITTED, ROLLING_BACK, CLEANING_UP, TERMINAL] (sv (sample_journal st) ''phase'') ''phase'' = Inr (th_phase (sample_header st))"
    "service_enum recovery_mode_value [ROLLBACK, CLEANUP_ONLY] (sv (sample_journal st) ''recovery_mode'') ''recovery_mode'' =
       Inr (th_recovery_mode (sample_header st))"
    "outcome_of (sample_journal st) = Inr (th_outcome (sample_header st))"
    "key_action_of (sample_journal st) = Inr REUSE" "archive_state_of (sample_journal st) = Inr ARCHIVE_NONE"
    "service_flag (sv (sample_journal st) ''committed'') ''committed'' = Inr (th_committed (sample_header st))"
    by (cases st; simp add: operation_of_def outcome_of_def key_action_of_def archive_state_of_def service_enum_def
        sample_values stage_values sample_header_def service_flag_ok)+
  have names: "service_pattern (sv (sample_journal st) ''service'') SERVICE_RX ''service'' = Inr ''web''"
    "issuer_fields (sample_journal st) m = Inr (''g1'', ''g1-i1'')"
    "service_serial (sv (sample_journal st) ''serial'') ''serial'' = Inr ''01''"
    "service_pattern (sv (sample_journal st) ''created_epoch'') DECIMAL_RX ''created_epoch'' = Inr ''1000''"
    "archive_members SERVICE_ISSUE ARCHIVE_NONE (sv (sample_journal st) ''archive_members'') = Inr []"
    "check_archive_state SERVICE_ISSUE REUSE ARCHIVE_NONE [] = Inr ()"
    "sv (sample_journal st) ''archive_name'' = ''none''" for m
    by (simp_all add: sample_values service_pattern_def issuer_fields_def service_serial_def starts_with_def
        archive_members_def check_archive_state_def issue_archive_def)
  show ?thesis
    unfolding parse_service_header_def enums bindE_Inr names prod.case owner sample_transaction
    using sample_not_retained [of st] by (simp add: sample_header_def sample_service_names_def)
qed

section \<open>Paths\<close>

lemma sample_plain: "plain_names sample_service_names" "plain_comp service_sample_name"
  "plain_comp (sv (sample_journal st) ''transaction'')"
proof -
  show "plain_names sample_service_names" by (simp add: plain_names_def sample_service_names_def plain_comp_def)
  show n: "plain_comp service_sample_name"
    using plain_request_id [of sample_id] by (auto simp: service_sample_name_def plain_comp_def)
  then show "plain_comp (sv (sample_journal st) ''transaction'')" by (simp add: sample_values)
qed

lemma sample_dirs:
  "service_transaction_dir ''/p'' (sample_journal st) = service_tdir" "service_stage_dir ''/p'' (sample_journal st) = service_sdir"
  "service_inputs_dir ''/p'' (sample_journal st) = service_idir" "service_backup_dir ''/p'' (sample_journal st) = service_bdir"
  unfolding service_inputs_dir_def service_stage_dir_def service_backup_dir_def service_transaction_dir_def
    service_tdir_def service_sdir_def service_idir_def service_bdir_def by (simp_all only: sample_values)

lemma exact_below: "below root v \<Longrightarrow> exact_path v v f = Inr v"
  by (simp add: exact_path_def below_def canonical_abs_def)

lemma sample_fixed_paths: "\<exists>ps. check_service_paths ''/p'' (sample_journal st) = Inr ps"
proof -
  note b = transaction_paths_below(5) [OF root_canonical sample_plain(3) [of st]]
  have v: "list_all (\<lambda>e. sv (sample_journal st) (fst e) = snd e) (service_fixed_paths ''/p'' (sample_journal st))"
    unfolding service_fixed_paths_def list.pred_inject fst_conv snd_conv sample_dirs by (simp only: sample_values simp_thms)
  show ?thesis
    unfolding check_service_paths_def
  proof (rule mapE_exists)
    fix e assume e: "e \<in> set (service_fixed_paths ''/p'' (sample_journal st))"
    obtain f p where fp: "e = (f, p)" by (cases e)
    from b v e have "below ''/p'' p" and "sv (sample_journal st) f = p" by (auto simp: list_all_iff fp)
    then show "\<exists>y. (case e of (field, expected) \<Rightarrow>
        bindE (exact_path (sv (sample_journal st) field) expected field) (\<lambda>p. Inr (field, p))) = Inr y"
      using exact_below by (simp add: fp)
  qed
qed

section \<open>The bytes of the journal\<close>

lemma print_hex_text: "list_all is_print (sha256_hex d)"
  using sha256_hex_shape(2) [of _ d] hex_print by (auto simp: list_all_iff)

lemma print_digits: "list_all is_print (nat_text 10 n)"
  using canonical_nat_text [of 10 n] by (auto simp: canonical_digits_def list_all_iff is_print_def is_digit_def code_def)

definition ok_text :: "string \<Rightarrow> bool" where
  "ok_text v \<longleftrightarrow> v \<noteq> [] \<and> list_all is_print v"

lemma ok_text_valid: "ok_text v \<Longrightarrow> valid_value False v"
  by (simp add: ok_text_def valid_value_def list_all_iff)

lemma below_nonempty: "below root p \<Longrightarrow> p \<noteq> []"
  by (auto simp: below_def canonical_abs_def isabs_def starts_with_def)

lemma sample_dirs_below: "below ''/p'' service_tdir" "below ''/p'' service_sdir" "below ''/p'' service_idir" "below ''/p'' service_bdir"
  using transaction_paths_below(1-4) [OF root_canonical sample_plain(3) [of Sample_planned]] by (simp_all only: sample_dirs)

lemma ok_paths: "ok_text service_tdir" "ok_text service_sdir" "ok_text service_idir" "ok_text service_bdir"
  "ok_text (path_join service_tdir [''transaction''])" "ok_text (path_join service_tdir [''terminal''])"
  "ok_text (path_join ''/p'' [SERVICE_TRANSACTION_JOURNAL_RELATIVE_PATH])"
proof -
  have p: "list_all is_print ''/p''" "list_all is_print SERVICE_TRANSACTION_TREE_RELATIVE_PATH"
    "list_all is_print SERVICE_TRANSACTION_JOURNAL_RELATIVE_PATH" "list_all is_print ''service-''" "list_all is_print ''stage''"
    "list_all is_print ''inputs''" "list_all is_print ''backup''" "list_all is_print ''transaction''" "list_all is_print ''terminal''"
    by code_simp+
  have n: "list_all is_print service_sample_name" using p(4) by (simp add: service_sample_name_def)
  have t: "list_all is_print service_tdir" unfolding service_tdir_def using p n by (intro print_path_join) simp_all
  have s: "list_all is_print service_sdir" unfolding service_sdir_def using p t by (intro print_path_join) simp_all
  have i: "list_all is_print service_idir" unfolding service_idir_def using p s by (intro print_path_join) simp_all
  have b: "list_all is_print service_bdir" unfolding service_bdir_def using p t by (intro print_path_join) simp_all
  show "ok_text service_tdir" "ok_text service_sdir" "ok_text service_idir" "ok_text service_bdir"
    using t s i b sample_dirs_below below_nonempty by (simp_all add: ok_text_def)
  have x: "list_all plain_comp [''transaction'']" "list_all plain_comp [''terminal'']" by (simp_all add: plain_comp_def)
  show "ok_text (path_join service_tdir [''transaction''])" "ok_text (path_join service_tdir [''terminal''])"
    using below_nonempty [OF below_join [OF sample_dirs_below(1) x(1)]] below_nonempty [OF below_join [OF sample_dirs_below(1) x(2)]]
      print_path_join [OF t, of "[''transaction'']"] print_path_join [OF t, of "[''terminal'']"] p
    by (simp_all add: ok_text_def)
  show "ok_text (path_join ''/p'' [SERVICE_TRANSACTION_JOURNAL_RELATIVE_PATH])" unfolding ok_text_def by code_simp
qed

lemma ok_sample_texts: "ok_text displaced_text" "ok_text copied_text" "ok_text public_text" "ok_text retained_text"
  "ok_text copied_object_text" "ok_text public_object_text" "ok_text sample_directory_text" "ok_text service_sample_name"
  "ok_text service_digest_text" "ok_text (sha256_hex sample_retained)" "ok_text (journal_state_text st)"
  "ok_text ''none''" "ok_text ''absent''"
proof -
  show "ok_text displaced_text" "ok_text copied_text" "ok_text public_text" "ok_text retained_text"
    "ok_text copied_object_text" "ok_text public_object_text" "ok_text sample_directory_text"
    "ok_text ''none''" "ok_text ''absent''"
    unfolding ok_text_def by code_simp+
  have d: "sha256_hex x \<noteq> []" for x using sha256_hex_shape(1) [of x] by auto
  have s: "list_all is_print ''service-''" by code_simp
  show "ok_text service_sample_name"
    using s by (simp add: ok_text_def service_sample_name_def)
  show "ok_text service_digest_text" "ok_text (sha256_hex sample_retained)"
    by (simp_all add: ok_text_def service_digest_text_def print_hex_text d)
  have p: "list_all is_print ''2049:205:0:600:1:''" "list_all is_print '':regular file''" by code_simp+
  show "ok_text (journal_state_text st)"
    unfolding ok_text_def journal_state_text_def list_all_append using p print_digits by simp
qed

lemma ok_table_paths:
  "list_all (\<lambda>k. ok_text (path_join ''/p'' [the (map_of FILE_DESTINATIONS k) sample_service_names])) SERVICE_CA_PUBLICATION_ORDER"
  "list_all (\<lambda>k. ok_text (path_join ''/p'' [the (map_of DIRECTORY_DESTINATIONS k) sample_service_names])) SERVICE_CONTAINER_ORDER"
  "list_all (\<lambda>k. ok_text (path_join ''/p'' [the (map_of SIGNING_INPUT_SOURCES k) sample_service_names])) SERVICE_SIGNING_INPUT_KEYS"
  "list_all (list_all is_print) (SERVICE_CA_PUBLICATION_ORDER @ SERVICE_SIGNING_INPUT_KEYS)"
  unfolding ok_text_def by code_simp+

lemma ok_key_path:
  assumes "below ''/p'' d" and "list_all is_print d" and "plain_comp k" and "list_all is_print k"
  shows "ok_text (path_join d [k])"
  using below_nonempty [OF below_join [OF assms(1), of "[k]"]] assms print_path_join [of d "[k]"] by (simp add: ok_text_def)

lemma sample_keys_plain: "k \<in> set FILE_MUTATION_KEYS \<or> k \<in> set SERVICE_SIGNING_INPUT_KEYS \<Longrightarrow> plain_comp k"
  using keys_plain by (auto simp: MUTATION_KEYS_def list_all_iff)

lemma ok_file_value: "ok_text (file_value st k s)"
proof (cases "k \<in> set SERVICE_CA_PUBLICATION_ORDER")
  case True
  then have d: "ok_text (path_join ''/p'' [the (map_of FILE_DESTINATIONS k) sample_service_names])" "list_all is_print k" "plain_comp k"
    using ok_table_paths sample_keys_plain [of k] by (auto simp: list_all_iff file_keys)
  have "ok_text (path_join service_sdir [k])" "ok_text (path_join service_bdir [k])"
    by (rule ok_key_path [OF sample_dirs_below(2) _ d(3,2)] ok_key_path [OF sample_dirs_below(4) _ d(3,2)];
      use ok_paths in \<open>simp add: ok_text_def\<close>)+
  with d(1) ok_sample_texts show ?thesis
    unfolding file_value_def staged_text_def staged_object_text_def rollback_text_def by (simp del: path_join_Cons)
qed (simp add: file_value_def ok_sample_texts)

lemma ok_directory_value: "ok_text (directory_value k s)"
proof (cases "k \<in> set SERVICE_CONTAINER_ORDER")
  case True
  then have "ok_text (path_join ''/p'' [the (map_of DIRECTORY_DESTINATIONS k) sample_service_names])"
    using ok_table_paths(2) by (simp add: list_all_iff)
  with ok_sample_texts show ?thesis unfolding directory_value_def by (simp del: path_join_Cons)
qed (simp add: directory_value_def ok_sample_texts)

lemma ok_input_value:
  assumes "k \<in> set SERVICE_SIGNING_INPUT_KEYS"
  shows "ok_text (input_value k s)"
proof -
  have d: "ok_text (path_join ''/p'' [the (map_of SIGNING_INPUT_SOURCES k) sample_service_names])" "list_all is_print k" "plain_comp k"
    using assms ok_table_paths sample_keys_plain [of k] by (auto simp: list_all_iff)
  have "ok_text (path_join service_idir [k])"
    by (rule ok_key_path [OF sample_dirs_below(3) _ d(3,2)]) (use ok_paths in \<open>simp add: ok_text_def\<close>)
  with d(1) ok_sample_texts show ?thesis unfolding input_value_def by (simp del: path_join_Cons)
qed

lemma ok_prefix: "list_all (\<lambda>e. ok_text (snd e)) (sample_prefix st)"
proof -
  have lit: "list_all ok_text [''1'', ''service-issue'', ''web'', ''g1'', ''g1-i1'', ''01'', ''reuse'', ''0'', ''1000'', ''20'',
      ''6'', ''13'', ''2'', ''false'', ''true'', ''planned'', ''rolling-back'', ''rollback-done'', ''ca_serial_old'',
      ''rollback'', ''failed-pre-commit'', ''committed'', ''commit-done'', ''cleanup-only'', ''succeeded'']"
    unfolding ok_text_def by code_simp
  show ?thesis
    using lit ok_sample_texts ok_paths
    by (cases st) (simp_all add: sample_prefix_def stage_fields_def published_text_def rolled_back_text_def del: path_join_Cons)
qed

lemma sample_record: "record_of SERVICE_TRANSACTION_SPEC (sample_journal st)"
proof -
  have "ok_text (snd e)" if e: "e \<in> set (sample_pairs st)" for e
  proof -
    have "e \<in> set (sample_prefix st) \<or> (\<exists>k s. snd e = directory_value k s) \<or> (\<exists>k s. snd e = file_value st k s) \<or> snd e = ''none'' \<or>
        (\<exists>k s. k \<in> set SERVICE_SIGNING_INPUT_KEYS \<and> snd e = input_value k s)"
      using e unfolding sample_pairs_def field_rows_def by fastforce
    then show ?thesis
      using ok_prefix [of st] ok_directory_value ok_file_value ok_input_value ok_sample_texts
      by (auto simp: list_all_iff)
  qed
  moreover have "map_of (sample_pairs st) ''schema'' = Some ''1''"
    using distinct_service_fields by (intro map_of_is_SomeI) (simp_all add: sample_pair_fields, simp add: sample_pairs_def sample_prefix_def)
  ultimately show ?thesis
    by (auto simp: record_of_def canonical_pairs_def sample_journal_def SERVICE_TRANSACTION_SPEC_def service_spec_def
        sample_pair_fields ok_text_valid)
qed

lemma sample_parses_record: "parse_ordered_record (sample_data st) SERVICE_TRANSACTION_SPEC = Inr (sample_journal st)"
  using sample_record [of st]
  by (simp add: parse_ordered_record_ok [OF wf_service_transaction] sample_data_def sample_journal_def)

section \<open>Its size\<close>

definition line_length :: "string \<times> string \<Rightarrow> nat" where
  "line_length e = length (fst e) + length (snd e) + 2"

lemma length_lines: "length (concat (map render_line ps)) = sum_list (map line_length ps)"
  by (induction ps) (auto simp: render_line_eq line_of_def line_length_def)

lemma length_rows:
  assumes "\<And>k s. k \<in> set keys \<Longrightarrow> s \<in> set suffixes \<Longrightarrow> length (g k s) = l k s"
  shows "sum_list (map line_length (field_rows keys suffixes g)) =
    (\<Sum>k \<leftarrow> keys. \<Sum>s \<leftarrow> suffixes. length k + length s + 3 + l k s)"
proof -
  have row: "sum_list (map line_length (map (\<lambda>s. (key_field k s, g k s)) ss)) = (\<Sum>s \<leftarrow> ss. length k + length s + 3 + l k s)"
    if "k \<in> set keys" "set ss \<subseteq> set suffixes" for k ss
    using that(2) assms [OF that(1)] by (induction ss) (auto simp: line_length_def key_field_def)
  have "sum_list (map line_length (field_rows ks suffixes g)) = (\<Sum>k \<leftarrow> ks. \<Sum>s \<leftarrow> suffixes. length k + length s + 3 + l k s)"
    if "set ks \<subseteq> set keys" for ks
    using that
  proof (induction ks)
    case (Cons k ks)
    then show ?case using row [of k suffixes] by (simp add: field_rows_def)
  qed (simp add: field_rows_def)
  then show ?thesis by simp
qed

lemma length_join_plain: "plain_comp k \<Longrightarrow> d \<noteq> [] \<Longrightarrow> \<not> ends_with [SEP] d \<Longrightarrow> length (path_join d [k]) = length d + 1 + length k"
  by (auto simp: join2_def plain_comp_def starts_with_iff)

lemma service_dir_lengths: "length service_tdir = 70" "length service_sdir = 76" "length service_idir = 83" "length service_bdir = 77"
  "\<not> ends_with [SEP] service_sdir" "\<not> ends_with [SEP] service_idir" "\<not> ends_with [SEP] service_bdir"
  by code_simp+

lemma fixed_path_lengths:
  "length (path_join ''/p'' [SERVICE_TRANSACTION_JOURNAL_RELATIVE_PATH]) = 33"
  "length (path_join service_tdir [''transaction'']) = 82" "length (path_join service_tdir [''terminal'']) = 79"
  by code_simp+

lemma text_lengths: "length displaced_text = 104" "length copied_text = 104" "length public_text = 104" "length retained_text = 105"
  "length copied_object_text = 32" "length public_object_text = 32" "length sample_directory_text = 23"
  "length service_sample_name = 40"
  by code_simp+

lemma digest_lengths: "length service_digest_text = 64" "length (sha256_hex sample_retained) = 64"
  by (simp_all add: service_digest_text_def sha256_hex_shape)

lemma state_text_length: "length (journal_state_text st) = 35"
  by (cases st) (simp_all add: journal_state_text_def journal_size_def, code_simp+)

definition file_length :: "sample_stage \<Rightarrow> string \<Rightarrow> string \<Rightarrow> nat" where
  "file_length st k s =
     (let d = (k \<in> set displaced_keys) in
      if k \<notin> set SERVICE_CA_PUBLICATION_ORDER then 4
      else if s = ''destination'' then length (path_join ''/p'' [the (map_of FILE_DESTINATIONS k) sample_service_names])
      else if s = ''pre_identity'' then (if d then 104 else 6)
      else if s = ''pre_sha256'' then (if d then 64 else 4)
      else if s = ''stage'' then 77 + length k
      else if s = ''stage_identity'' then 104
      else if s = ''stage_object'' then 32
      else if s = ''stage_sha256'' then 64
      else if s = ''backup'' then (if d then 78 + length k else 4)
      else if s = ''backup_identity'' then (if d then 104 else 4)
      else if s = ''backup_object'' then (if d then 32 else 4)
      else if s = ''backup_sha256'' then (if d then 64 else 4)
      else if s = ''post_identity'' then (if st = Sample_planned then 4 else 104)
      else if s = ''post_sha256'' then (if st = Sample_planned then 4 else 64)
      else if s = ''rollback_identity'' then (if st = Sample_committed then 4 else if k = ''ca_newcert'' then 6
        else if st = Sample_rolling \<and> k = ''ca_serial_old'' then 104 else 4)
      else (if st = Sample_rolling \<and> k = ''ca_serial_old'' then 64 else 4))"

definition directory_length :: "string \<Rightarrow> string \<Rightarrow> nat" where
  "directory_length k s =
     (if k \<notin> set SERVICE_CONTAINER_ORDER then 4
      else if s = ''destination'' then length (path_join ''/p'' [the (map_of DIRECTORY_DESTINATIONS k) sample_service_names])
      else if s = ''rollback_identity'' then 4 else 23)"

definition input_length :: "string \<Rightarrow> string \<Rightarrow> nat" where
  "input_length k s =
     (if s = ''source'' then length (path_join ''/p'' [the (map_of SIGNING_INPUT_SOURCES k) sample_service_names])
      else if s = ''source_identity'' then 104
      else if s = ''stage'' then 84 + length k
      else if s = ''stage_identity'' then 104
      else if s = ''stage_object'' then 32
      else 64)"

lemma key_path_lengths:
  assumes "plain_comp k"
  shows "length (path_join service_sdir [k]) = 77 + length k" "length (path_join service_bdir [k]) = 78 + length k"
    "length (path_join service_idir [k]) = 84 + length k"
  using length_join_plain [OF assms] service_dir_lengths sample_dirs_below below_nonempty by simp_all

lemma value_lengths:
  "k \<in> set FILE_MUTATION_KEYS \<Longrightarrow> length (file_value st k s) = file_length st k s"
  "length (directory_value k s) = directory_length k s"
  "k \<in> set SERVICE_SIGNING_INPUT_KEYS \<Longrightarrow> length (input_value k s) = input_length k s"
  using key_path_lengths [of k] sample_keys_plain [of k]
  unfolding file_value_def file_length_def directory_value_def directory_length_def input_value_def input_length_def
    staged_text_def staged_object_text_def rollback_text_def Let_def
  by (simp_all add: text_lengths digest_lengths del: path_join_Cons)

lemma file_row_length:
  "(\<Sum>s \<leftarrow> FILE_MUTATION_SUFFIXES. length k + length s + 3 + file_length st k s) =
     15 * length k + 224 + (if k \<notin> set SERVICE_CA_PUBLICATION_ORDER then 60
       else length (path_join ''/p'' [the (map_of FILE_DESTINATIONS k) sample_service_names]) + length k + 277 +
         (if k \<in> set displaced_keys then 446 + length k else 26) + (if st = Sample_planned then 8 else 168) +
         file_length st k ''rollback_identity'' + file_length st k ''rollback_sha256'')"
  by (simp add: FILE_MUTATION_SUFFIXES_def file_length_def Let_def)

lemma file_rows_length:
  "(\<Sum>k \<leftarrow> FILE_MUTATION_KEYS. \<Sum>s \<leftarrow> FILE_MUTATION_SUFFIXES. length k + length s + 3 + file_length st k s) =
     (case st of Sample_planned \<Rightarrow> 17293 | Sample_rolling \<Rightarrow> 19533 | Sample_committed \<Rightarrow> 19371)"
  unfolding file_row_length by (cases st) (simp_all only: sample_stage.case, code_simp+)

lemma directory_rows_length:
  "(\<Sum>k \<leftarrow> DIRECTORY_MUTATION_KEYS. \<Sum>s \<leftarrow> DIRECTORY_MUTATION_SUFFIXES. length k + length s + 3 + directory_length k s) = 1248"
  by code_simp

lemma archive_rows_length:
  "(\<Sum>k \<leftarrow> ARCHIVE_MUTATION_KEYS. \<Sum>s \<leftarrow> ARCHIVE_EVIDENCE_SUFFIXES. length k + length s + 3 + 4) = 779"
  by code_simp

lemma input_rows_length:
  "(\<Sum>k \<leftarrow> SERVICE_SIGNING_INPUT_KEYS. \<Sum>s \<leftarrow> SIGNING_INPUT_SUFFIXES. length k + length s + 3 + input_length k s) = 5223"
  by code_simp

lemma sample_size: "int (length (sample_data st)) = journal_size st"
proof -
  have "sum_list (map line_length (sample_prefix st)) =
      (case st of Sample_planned \<Rightarrow> 2130 | Sample_rolling \<Rightarrow> 2164 | Sample_committed \<Rightarrow> 2145)"
    by (cases st) (simp_all add: sample_prefix_def stage_fields_def published_text_def rolled_back_text_def line_length_def
        text_lengths digest_lengths state_text_length service_dir_lengths fixed_path_lengths [unfolded path_join_Cons path_join_Nil])
  moreover have "sum_list (map line_length (field_rows ARCHIVE_MUTATION_KEYS ARCHIVE_EVIDENCE_SUFFIXES (\<lambda>k s. ''none''))) = 779"
    using archive_rows_length by (subst length_rows [where l = "\<lambda>k s. 4"]) simp_all
  moreover have "sum_list (map line_length (field_rows FILE_MUTATION_KEYS FILE_MUTATION_SUFFIXES (file_value st))) =
      (case st of Sample_planned \<Rightarrow> 17293 | Sample_rolling \<Rightarrow> 19533 | Sample_committed \<Rightarrow> 19371)"
    unfolding file_rows_length [symmetric] by (rule length_rows) (rule value_lengths)
  moreover have "sum_list (map line_length (field_rows DIRECTORY_MUTATION_KEYS DIRECTORY_MUTATION_SUFFIXES directory_value)) = 1248"
    unfolding directory_rows_length [symmetric] by (rule length_rows) (rule value_lengths)
  moreover have "sum_list (map line_length (field_rows SERVICE_SIGNING_INPUT_KEYS SIGNING_INPUT_SUFFIXES input_value)) = 5223"
    unfolding input_rows_length [symmetric] by (rule length_rows) (rule value_lengths)
  ultimately show ?thesis
    unfolding sample_data_def length_lines
    by (cases st) (simp_all add: sample_pairs_def journal_size_def)
qed

section \<open>Fixed identities\<close>

lemma sample_journal_object:
  "service_identity (journal_state_text st) f SObject 0 S (Some 384) safe =
     Inr (PObject \<lparr>os_dev = 2049, os_ino = 205, os_uid = 0, os_permissions = 384, os_links = 1, os_size = journal_size st, os_kind = Regular\<rparr>)"
  by (rule service_object_identity; cases st;
    (simp add: journal_size_def journal_state_text_def, code_simp?)?)

end
