(* ===== verification/ServiceWitness.thy ===== *)
theory ServiceWitness
  imports ServiceBytes
begin

text \<open>The sample journals of a managed issue are accepted: each step of the parser on each of them.\<close>

section \<open>The retained transaction\<close>

definition sample_retained_record :: ordered_record where
  "sample_retained_record = \<lparr>rec_spec = SERVICE_RETAINED_TRANSACTION_SPEC, rec_pairs = sample_retained_values\<rparr>"

lemma retained_values_fields: "map fst sample_retained_values = SERVICE_RETAINED_TRANSACTION_FIELDS"
  by (simp add: sample_retained_values_def SERVICE_RETAINED_TRANSACTION_FIELDS_def)

lemma sample_retained_sv: "list_all (\<lambda>e. sv sample_retained_record (fst e) = snd e) sample_retained_values"
proof -
  have "distinct (map fst sample_retained_values)" unfolding retained_values_fields by code_simp
  then show ?thesis by (auto simp: list_all_iff sv_def sample_retained_record_def map_of_is_SomeI)
qed

lemmas retained_sv = sample_retained_sv [unfolded sample_retained_values_def list.pred_inject fst_conv snd_conv]

lemma sample_retained_of: "record_of SERVICE_RETAINED_TRANSACTION_SPEC sample_retained_record"
proof -
  have "list_all (\<lambda>e. ok_text (snd e)) sample_retained_values"
    using ok_sample_texts(8) unfolding sample_retained_values_def list.pred_inject snd_conv
    by (intro conjI TrueI; assumption?; code_simp)
  moreover have "map_of sample_retained_values ''schema'' = Some ''1''" by (simp add: sample_retained_values_def)
  ultimately show ?thesis
    by (auto simp: record_of_def canonical_pairs_def sample_retained_record_def SERVICE_RETAINED_TRANSACTION_SPEC_def
        service_spec_def retained_values_fields list_all_iff ok_text_valid)
qed

lemma sample_retained_parses: "parse_service_retained_transaction sample_retained = Inr sample_retained_record"
proof -
  have "parse_ordered_record sample_retained SERVICE_RETAINED_TRANSACTION_SPEC = Inr sample_retained_record"
    using sample_retained_of
    by (simp add: parse_ordered_record_ok [OF wf_service_retained(1)] sample_retained_def sample_retained_record_def)
  then show ?thesis
    by (simp add: parse_service_retained_transaction_def parse_retained_def as_service_error_def transaction_binding_def retained_sv
        service_sample_name_def removeprefix_def starts_with_def service_pattern_def operation_of_def service_enum_def
        check_transaction_def issuer_fields_def service_serial_def key_action_of_def archive_state_of_def archive_members_def
        check_retained_archive_def issue_archive_def)
qed

lemma sample_retained_serializes:
  "serialize_service_retained_transaction (retained_transaction_values (sample_journal st)) = Inr sample_retained"
proof -
  have "retained_transaction_values (sample_journal st) = rec_pairs sample_retained_record"
    by (simp add: retained_transaction_values_def sample_values sample_retained_record_def sample_retained_values_def)
  then show ?thesis
    using retained_transaction.serialize_parsed [OF sample_retained_parses] by (simp add: serialize_service_retained_transaction_def)
qed

lemma sample_retained_length: "length sample_retained = 251"
  by code_simp

section \<open>Fixed identities\<close>

lemma digest_hex: "fullmatch HEX64_RX (sha256_hex d)"
  using sha256_hex_shape [where data = d] by (auto simp: HEX64_iff)

lemma digest_not_none [simp]: "sha256_hex d \<noteq> ''none''" "service_digest_text \<noteq> ''none''"
  using sha256_hex_shape(1) by (auto simp: service_digest_text_def dest: arg_cong [of _ _ length])

lemma read_digest [simp]: "service_digest service_digest_text f none = Inr (Some service_digest_text)"
  "service_digest ''none'' f True = Inr None"
  by (simp_all add: service_digest_def digest_hex service_digest_text_def)

lemma sample_modes [simp]: "mode_is_safe 384 p" "mode_is_safe 448 False"
proof -
  have "mode_is_safe 384 True" "mode_is_safe 384 False" by code_simp+
  then show "mode_is_safe 384 p" by (cases p) simp_all
  show "mode_is_safe 448 False" by code_simp
qed

lemma sample_identities:
  "\<exists>ids. check_fixed_identities (sample_journal st) (sample_header st) (sample_data st) = Inr ids \<and>
     table_get ids ''current_key_identity'' = Inr (PFile displaced_file)"
proof -
  have journal: "check_journal_identity (sample_journal st) 0 (sample_data st) = Inr (''journal_identity'',
      PObject \<lparr>os_dev = 2049, os_ino = 205, os_uid = 0, os_permissions = 384, os_links = 1, os_size = journal_size st, os_kind = Regular\<rparr>)"
    by (simp add: check_journal_identity_def identity_of_field_def sample_values SERVICE_TRANSACTION_FILE_MODE_def
        sample_journal_object sample_size)
  have retained: "identity_of_field (sample_journal st) 0 SFile {} (Some SERVICE_TRANSACTION_FILE_MODE) False ''transaction_record_identity'' =
      Inr (''transaction_record_identity'', PFile retained_record_file)"
    by (simp add: identity_of_field_def sample_values SERVICE_TRANSACTION_FILE_MODE_def)
  have current: "check_current_key (sample_journal st) (sample_header st) = Inr (''current_key_identity'', PFile displaced_file)"
    by (simp add: check_current_key_def identity_of_field_def sample_values sample_header_def, simp add: displaced_file_def)
  have bound: "check_transaction_record (sample_journal st) (PFile retained_record_file) = Inr (sha256_hex sample_retained)"
    by (simp add: check_transaction_record_def sample_retained_serializes sample_values binds_size_def sample_retained_length,
        simp add: file_defs)
  have terminal: "check_terminal_record (sample_journal st) 0 sha = Inr (''terminal_identity'', PSentinel NONE)" for sha
    by (simp add: check_terminal_record_def identity_of_field_def sample_values)
  have dirs: "mapE (identity_of_field (sample_journal st) 0 SDirectory {} (Some SERVICE_TRANSACTION_DIRECTORY_MODE) False)
      [''transaction_identity'', ''stage_dir_identity'', ''inputs_dir_identity'', ''backup_dir_identity''] =
      Inr (map (\<lambda>f. (f, PDirectory sample_directory)) [''transaction_identity'', ''stage_dir_identity'', ''inputs_dir_identity'', ''backup_dir_identity''])"
    by (simp add: identity_of_field_def sample_values SERVICE_TRANSACTION_DIRECTORY_MODE_def)
  have owner: "th_owner (sample_header st) = 0" by (simp add: sample_header_def)
  show ?thesis
    unfolding check_fixed_identities_def owner journal retained current bound terminal dirs bindE_Inr snd_conv
    by (simp add: table_get_def bound)
qed

section \<open>Directories\<close>

definition sample_archive_root :: archive_root_state where
  "sample_archive_root = \<lparr>ar_snapshot = PSentinel NONE, ar_create = False, ar_restore_required = False, ar_restored = None,
     ar_paths = [], ar_identities = [(''archive_root_snapshot_identity'', PSentinel NONE)]\<rparr>"

lemma sample_archive_root_checks:
  "check_archive_root (sample_journal st) (sample_header st) ''/p'' = Inr sample_archive_root"
  by (simp add: check_archive_root_def identity_of_field_def sample_values sample_header_def Let_def sample_archive_root_def)

definition sample_directories :: "service_mutation list" where
  "sample_directories = map (\<lambda>k. directory_mutation k (path_join ''/p'' [the (map_of DIRECTORY_DESTINATIONS k) sample_service_names])
     (PDirectory sample_directory) (PDirectory sample_directory) (PSentinel NONE)) SERVICE_CONTAINER_ORDER"

lemma table_keys:
  "list_all (\<lambda>k. k \<in> set (map fst DIRECTORY_DESTINATIONS)) SERVICE_CONTAINER_ORDER"
  "list_all (\<lambda>k. k \<in> set (map fst FILE_DESTINATIONS)) SERVICE_CA_PUBLICATION_ORDER"
  "list_all (\<lambda>k. k \<in> set (map fst SIGNING_INPUT_SOURCES)) SERVICE_SIGNING_INPUT_KEYS"
  by (simp_all add: SERVICE_CONTAINER_ORDER_def DIRECTORY_DESTINATIONS_def SERVICE_CA_PUBLICATION_ORDER_def FILE_DESTINATIONS_def
      SERVICE_SIGNING_INPUT_KEYS_def SIGNING_INPUT_SOURCES_def)

lemma table_the: "list_all (\<lambda>k. k \<in> set (map fst d)) ks \<Longrightarrow> k \<in> set ks \<Longrightarrow> map_of d k = Some (the (map_of d k))"
  by (auto simp: list_all_iff) (metis map_of_eq_None_iff option.collapse)

text \<open>A destination below the root is the expected one.\<close>

lemma sample_exact:
  assumes "list_all (\<lambda>e. relative_path (snd e sample_service_names)) d" and "map_of d k = Some template"
  shows "exact_path (path_join ''/p'' [template sample_service_names]) (path_join ''/p'' [template sample_service_names]) f =
    Inr (path_join ''/p'' [template sample_service_names])"
  by (rule exact_below [OF table_path_below [OF root_canonical assms]])

lemma sample_header_fields [simp]:
  "th_names (sample_header st) = sample_service_names" "th_owner (sample_header st) = 0" "th_operation (sample_header st) = SERVICE_ISSUE"
  "th_key_action (sample_header st) = REUSE" "th_archive_state (sample_header st) = ARCHIVE_NONE" "th_members (sample_header st) = []"
  by (simp_all add: sample_header_def)

lemma sample_directory_parses:
  assumes k: "k \<in> set SERVICE_CONTAINER_ORDER"
  shows "parse_directory_mutation (sample_journal st) (sample_header st) ''/p'' (PSentinel NONE) k =
    Inr (Some (directory_mutation k (path_join ''/p'' [the (map_of DIRECTORY_DESTINATIONS k) sample_service_names])
      (PDirectory sample_directory) (PDirectory sample_directory) (PSentinel NONE)))"
proof -
  note t = table_the [OF table_keys(1) k]
  have e: "directory_enabled (sample_header st) k" using k by (simp add: directory_enabled_def)
  have d: "k \<in> set DIRECTORY_MUTATION_KEYS" using k by (simp add: directory_keys)
  have a: "k \<noteq> ''archive_root''" "k \<noteq> ''archive_dir''" using k by (auto simp: SERVICE_CONTAINER_ORDER_def)
  have v: "sv (sample_journal st) (key_field k ''destination'') = path_join ''/p'' [the (map_of DIRECTORY_DESTINATIONS k) sample_service_names]"
    "sv (sample_journal st) (key_field k ''pre_identity'') = sample_directory_text"
    "sv (sample_journal st) (key_field k ''post_identity'') = sample_directory_text"
    "sv (sample_journal st) (key_field k ''rollback_identity'') = ''none''"
    using k by (simp_all add: sample_rows(1) [OF d] DIRECTORY_MUTATION_SUFFIXES_def directory_value_def)
  have g: "table_get DIRECTORY_DESTINATIONS k = Inr (the (map_of DIRECTORY_DESTINATIONS k))" using t by (auto simp: table_get_ok)
  show ?thesis
    unfolding parse_directory_mutation_def g bindE_Inr field_identity_def v sample_header_fields
      sample_exact [OF table_paths_relative(2) [OF sample_plain(1)] t]
    using e a by (simp add: check_directory_states_def assertE_def check_archive_directory_def sample_directory_def)
qed

lemma sample_directories_parse:
  "parse_directory_mutations (sample_journal st) (sample_header st) ''/p'' (PSentinel NONE) = Inr sample_directories"
proof -
  define g where "g k = (if k \<in> set SERVICE_CONTAINER_ORDER then
    Some (directory_mutation k (path_join ''/p'' [the (map_of DIRECTORY_DESTINATIONS k) sample_service_names])
      (PDirectory sample_directory) (PDirectory sample_directory) (PSentinel NONE)) else None)" for k
  have "parse_directory_mutation (sample_journal st) (sample_header st) ''/p'' (PSentinel NONE) k = Inr (g k)"
    if k: "k \<in> set DIRECTORY_MUTATION_KEYS" for k
  proof (cases "k \<in> set SERVICE_CONTAINER_ORDER")
    case True
    then show ?thesis by (simp add: g_def sample_directory_parses)
  next
    case False
    then have "\<not> directory_enabled (sample_header st) k" by (simp add: directory_enabled_def)
    moreover have "all_none (sample_journal st) k DIRECTORY_MUTATION_SUFFIXES"
      using False by (auto simp: all_none_def list_all_iff sample_rows(1) [OF k] directory_value_def)
    ultimately show ?thesis using False by (simp add: parse_directory_mutation_def g_def)
  qed
  then have m: "mapE (parse_directory_mutation (sample_journal st) (sample_header st) ''/p'' (PSentinel NONE)) DIRECTORY_MUTATION_KEYS =
      Inr (map g DIRECTORY_MUTATION_KEYS)"
    by (rule mapE_Inr_map)
  have "map the (filter (\<lambda>m. m \<noteq> None) (map g SERVICE_CONTAINER_ORDER)) = map (the \<circ> g) SERVICE_CONTAINER_ORDER"
    by (simp add: g_def SERVICE_CONTAINER_ORDER_def)
  moreover have "map (the \<circ> g) SERVICE_CONTAINER_ORDER = sample_directories"
    by (simp add: sample_directories_def g_def)
  moreover have "g ''archive_root'' = None" "g ''archive_dir'' = None" by (simp_all add: g_def SERVICE_CONTAINER_ORDER_def)
  ultimately show ?thesis unfolding parse_directory_mutations_def m bindE_Inr by (simp add: directory_keys)
qed

section \<open>Orders and counts\<close>

definition sample_counts :: "sample_stage \<Rightarrow> service_counts" where
  "sample_counts st = \<lparr>sc_publication = SERVICE_CA_PUBLICATION_ORDER, sc_inputs = SERVICE_SIGNING_INPUT_KEYS,
     sc_staging = SERVICE_SIGNING_INPUT_KEYS @ SERVICE_CA_PUBLICATION_ORDER, sc_staged = 20, sc_backed_up = 6,
     sc_published = (if st = Sample_planned then 0 else 13), sc_rolled_back = (if st = Sample_rolling then 2 else 0),
     sc_completed = 0\<rparr>"

lemma sample_created: "created_directories sample_directories = []"
  by (simp add: created_directories_def sample_directories_def directory_mutation_def)

lemma sample_parent: "check_parent_directory sample_directories = Inr ()"
proof -
  have "mutation_at sample_directories ''service_root'' = Inr (hd sample_directories)"
    by (simp add: mutation_at_def mutation_table_def sample_directories_def SERVICE_CONTAINER_ORDER_def directory_mutation_def
        table_get_def)
  moreover have "sm_pre_identity (hd sample_directories) = PDirectory sample_directory"
    by (simp add: sample_directories_def SERVICE_CONTAINER_ORDER_def directory_mutation_def)
  ultimately show ?thesis by (simp add: check_parent_directory_def)
qed

lemma sample_publication:
  "managed_publication_order SERVICE_ISSUE REUSE ARCHIVE_NONE [] False [] = Inr SERVICE_CA_PUBLICATION_ORDER"
  by (simp add: managed_publication_order_def MANAGED_ISSUE_PUBLICATION_ORDER_def)

lemma counts_read:
  "fullmatch DECIMAL_RX ''20''" "fullmatch DECIMAL_RX ''6''" "fullmatch DECIMAL_RX ''13''" "fullmatch DECIMAL_RX ''2''"
  "int_of_digits ''20'' = Inr 20" "int_of_digits ''6'' = Inr 6" "int_of_digits ''13'' = Inr 13" "int_of_digits ''2'' = Inr 2"
  "int_of_digits ''0'' = Inr 0"
  by code_simp+

lemma sample_counts_parse:
  "parse_counts (sample_journal st) (sample_header st) SERVICE_CA_PUBLICATION_ORDER = Inr (sample_counts st)"
proof -
  have i: "filter (input_enabled (sample_header st)) SERVICE_SIGNING_INPUT_KEYS = SERVICE_SIGNING_INPUT_KEYS"
    by (simp add: input_enabled_def)
  have f: "filter (\<lambda>key. key \<in> set FILE_MUTATION_KEYS) SERVICE_CA_PUBLICATION_ORDER = SERVICE_CA_PUBLICATION_ORDER"
    by (simp add: file_keys)
  have l: "length SERVICE_CA_PUBLICATION_ORDER = 13" "length SERVICE_SIGNING_INPUT_KEYS = 7"
    by (simp_all add: SERVICE_CA_PUBLICATION_ORDER_def SERVICE_SIGNING_INPUT_KEYS_def)
  show ?thesis
    unfolding parse_counts_def Let_def i f
    by (cases st) (simp_all add: service_count_def sample_values service_pattern_def counts_read published_text_def
        rolled_back_text_def l sample_counts_def)
qed

lemma sample_stage_done:
  "k \<in> set SERVICE_SIGNING_INPUT_KEYS \<or> k \<in> set SERVICE_CA_PUBLICATION_ORDER \<Longrightarrow> stage_done (sample_counts st) k"
proof -
  assume "k \<in> set SERVICE_SIGNING_INPUT_KEYS \<or> k \<in> set SERVICE_CA_PUBLICATION_ORDER"
  then have "k \<in> set (SERVICE_SIGNING_INPUT_KEYS @ SERVICE_CA_PUBLICATION_ORDER)" by auto
  from index_of_less [OF this] have "index_of k (SERVICE_SIGNING_INPUT_KEYS @ SERVICE_CA_PUBLICATION_ORDER) < 20"
    by (simp add: SERVICE_CA_PUBLICATION_ORDER_def SERVICE_SIGNING_INPUT_KEYS_def)
  then show ?thesis by (simp add: stage_done_def sample_counts_def)
qed

section \<open>Files\<close>

definition sample_context :: "sample_stage \<Rightarrow> file_context" where
  "sample_context st = \<lparr>fc_record = sample_journal st, fc_header = sample_header st, fc_root = ''/p'', fc_counts = sample_counts st\<rparr>"

lemma sample_context_fields [simp]:
  "fc_record (sample_context st) = sample_journal st" "fc_header (sample_context st) = sample_header st"
  "fc_root (sample_context st) = ''/p''" "fc_counts (sample_context st) = sample_counts st"
  by (simp_all add: sample_context_def)

definition staged_file_of :: "string \<Rightarrow> file_identity" where
  "staged_file_of k = (if k \<in> set public_keys then public_file else copied_file)"

definition sample_mutation :: "sample_stage \<Rightarrow> string \<Rightarrow> service_mutation" where
  "sample_mutation st k =
     (let d = (k \<in> set displaced_keys); f = staged_file_of k; posted = (st \<noteq> Sample_planned) in
      \<lparr>sm_key = k, sm_destination = path_join ''/p'' [the (map_of FILE_DESTINATIONS k) sample_service_names],
       sm_pre_identity = (if d then PFile displaced_file else PSentinel ABSENT),
       sm_pre_sha256 = (if d then Some service_digest_text else None),
       sm_stage = Some (path_join service_sdir [k]), sm_stage_identity = PFile f, sm_stage_object = PObject (fi_state f),
       sm_stage_sha256 = Some service_digest_text,
       sm_backup = (if d then Some (path_join service_bdir [k]) else None),
       sm_backup_identity = (if d then PFile copied_file else PSentinel NONE),
       sm_backup_object = (if d then PObject (fi_state copied_file) else PSentinel NONE),
       sm_backup_sha256 = (if d then Some service_digest_text else None),
       sm_post_identity = (if posted then PFile f else PSentinel NONE),
       sm_post_sha256 = (if posted then Some service_digest_text else None),
       sm_rollback_identity = (if st = Sample_committed then PSentinel NONE
         else if k = ''ca_newcert'' then PSentinel ABSENT
         else if st = Sample_rolling \<and> k = ''ca_serial_old'' then PFile copied_file else PSentinel NONE),
       sm_rollback_sha256 = (if st = Sample_rolling \<and> k = ''ca_serial_old'' then Some service_digest_text else None),
       sm_replace = file_replace (sample_context st) k, sm_archive_source = None,
       sm_archive_source_identity = PSentinel NONE, sm_archive_source_sha256 = None\<rparr>)"

text \<open>What a sample mutation needs from the mutations before it.\<close>

definition sources_ready :: "sample_stage \<Rightarrow> service_mutation list \<Rightarrow> string \<Rightarrow> bool" where
  "sources_ready st ms k \<longleftrightarrow>
     (\<forall>s. map_of CA_OLD_SOURCE_KEYS k = Some s \<longrightarrow> mutation_at ms s = Inr (sample_mutation st s)) \<and>
     (k = ''ca_newcert'' \<longrightarrow> mutation_at ms ''service_certificate'' = Inr (sample_mutation st ''service_certificate''))"

lemma sample_file_values:
  assumes k: "k \<in> set SERVICE_CA_PUBLICATION_ORDER" and s: "s \<in> set FILE_MUTATION_SUFFIXES"
  shows "sv (sample_journal st) (key_field k s) = file_value st k s"
  using k by (intro sample_rows(2) s) (simp add: file_keys)

lemma sample_stage_parses:
  assumes k: "k \<in> set SERVICE_CA_PUBLICATION_ORDER"
  shows "parse_stage (sample_context st) k = Inr (path_join service_sdir [k], PFile (staged_file_of k),
    PObject (fi_state (staged_file_of k)), Some service_digest_text)"
proof -
  have v: "sv (sample_journal st) (key_field k ''stage'') = path_join service_sdir [k]"
    "sv (sample_journal st) (key_field k ''stage_identity'') = staged_text k"
    "sv (sample_journal st) (key_field k ''stage_object'') = staged_object_text k"
    "sv (sample_journal st) (key_field k ''stage_sha256'') = service_digest_text"
    using k by (simp_all add: sample_file_values FILE_MUTATION_SUFFIXES_def file_value_def)
  have p: "exact_path (path_join service_sdir [k]) (path_join service_sdir [k]) f = Inr (path_join service_sdir [k])" for f
    using sample_keys_plain [of k] k by (intro exact_below [OF below_join [OF sample_dirs_below(2)]]) (simp add: file_keys)
  have c: "parse_copy (sample_journal st) 0 k ''stage'' = Inr (PFile (staged_file_of k), PObject (fi_state (staged_file_of k)), Some service_digest_text)"
    unfolding parse_copy_def field_identity_def append.simps v
    by (simp add: staged_text_def staged_object_text_def staged_file_of_def)
  have m: "list_all (\<lambda>k. \<forall>mode \<in> set_option (map_of FIXED_STAGE_MODES k). fi_permissions (staged_file_of k) = mode) SERVICE_CA_PUBLICATION_ORDER"
    by code_simp
  then have "\<forall>mode \<in> set_option (map_of FIXED_STAGE_MODES k). fi_permissions (staged_file_of k) = mode" using k by (auto simp: list_all_iff)
  with k show ?thesis
    unfolding parse_stage_def Let_def sample_context_fields sample_header_fields c bindE_Inr v sample_dirs p
    by (simp add: check_copy_def sample_stage_done del: path_join_Cons)
qed

lemma sample_backup_parses:
  assumes k: "k \<in> set SERVICE_CA_PUBLICATION_ORDER" and e: "k \<in> set displaced_keys \<longrightarrow> e < 6"
  shows "parse_backup (sample_context st) e k (sm_pre_identity (sample_mutation st k)) =
    Inr (sm_pre_sha256 (sample_mutation st k), sm_backup (sample_mutation st k), sm_backup_identity (sample_mutation st k),
      sm_backup_object (sample_mutation st k), sm_backup_sha256 (sample_mutation st k))"
proof (cases "k \<in> set displaced_keys")
  case True
  have v: "sv (sample_journal st) (key_field k ''pre_sha256'') = service_digest_text"
    "sv (sample_journal st) (key_field k ''backup'') = path_join service_bdir [k]"
    "sv (sample_journal st) (key_field k ''backup_identity'') = copied_text"
    "sv (sample_journal st) (key_field k ''backup_object'') = copied_object_text"
    "sv (sample_journal st) (key_field k ''backup_sha256'') = service_digest_text"
    using k True by (simp_all add: sample_file_values FILE_MUTATION_SUFFIXES_def file_value_def)
  have p: "exact_path (path_join service_bdir [k]) (path_join service_bdir [k]) f = Inr (path_join service_bdir [k])" for f
    using sample_keys_plain [of k] k by (intro exact_below [OF below_join [OF sample_dirs_below(4)]]) (simp add: file_keys)
  have c: "parse_copy (sample_journal st) 0 k ''backup'' = Inr (PFile copied_file, PObject (fi_state copied_file), Some service_digest_text)"
    unfolding parse_copy_def field_identity_def append.simps v by simp
  have b: "check_backup k displaced_file service_digest_text True (PFile copied_file, PObject (fi_state copied_file), Some service_digest_text) = Inr ()"
    by (simp add: check_backup_def check_copy_def same_inode_def copied_metadata_matches_def, simp add: file_defs)
  have complete: "(int (e + 1) \<le> sc_backed_up (sample_counts st)) = True" using e True by (simp add: sample_counts_def)
  show ?thesis
    unfolding parse_backup_def Let_def sample_context_fields v sample_header_fields sample_dirs p c complete
    using True b by (simp add: sample_mutation_def Let_def del: path_join_Cons)
next
  case False
  have v: "sv (sample_journal st) (key_field k ''pre_sha256'') = ''none''"
    "all_none (sample_journal st) k [''backup'', ''backup_identity'', ''backup_object'', ''backup_sha256'']"
    using k False by (simp_all add: sample_file_values FILE_MUTATION_SUFFIXES_def file_value_def all_none_def)
  show ?thesis
    unfolding parse_backup_def Let_def sample_context_fields v(1)
    using False v(2) by (simp add: sample_mutation_def Let_def no_copy_def)
qed

lemma sample_results_parse:
  assumes k: "k \<in> set SERVICE_CA_PUBLICATION_ORDER"
  shows "parse_results (sample_context st) k (PFile (staged_file_of k), PObject (fi_state (staged_file_of k)), Some service_digest_text) =
    Inr (sm_post_identity (sample_mutation st k), sm_post_sha256 (sample_mutation st k),
      sm_rollback_identity (sample_mutation st k), sm_rollback_sha256 (sample_mutation st k))"
proof -
  have v: "sv (sample_journal st) (key_field k ''post_identity'') = (if st = Sample_planned then ''none'' else staged_text k)"
    "sv (sample_journal st) (key_field k ''post_sha256'') = (if st = Sample_planned then ''none'' else service_digest_text)"
    "sv (sample_journal st) (key_field k ''rollback_identity'') = rollback_text st k"
    "sv (sample_journal st) (key_field k ''rollback_sha256'') =
      (if st = Sample_rolling \<and> k = ''ca_serial_old'' then service_digest_text else ''none'')"
    using k by (simp_all add: sample_file_values FILE_MUTATION_SUFFIXES_def file_value_def)
  show ?thesis
    unfolding parse_results_def Let_def sample_context_fields field_identity_def v sample_header_fields
    by (cases st; cases "k = ''ca_newcert''"; cases "k = ''ca_serial_old''")
      (simp_all add: sample_mutation_def Let_def rollback_text_def staged_text_def staged_file_of_def check_post_def)
qed

lemma sample_content:
  assumes k: "k \<in> set SERVICE_CA_PUBLICATION_ORDER" and ready: "sources_ready st ms k"
  shows "check_staged_content (sample_context st) ms k
    (PFile (staged_file_of k), PObject (fi_state (staged_file_of k)), Some service_digest_text) = Inr ()"
proof -
  have sized: "fi_size (staged_file_of k') = 27" for k' by (simp add: staged_file_of_def file_defs)
  have old: "check_ca_old ms k (PFile (staged_file_of k), PObject (fi_state (staged_file_of k)), Some service_digest_text) = Inr ()"
    if o: "k \<in> fst ` set CA_OLD_SOURCE_KEYS"
  proof -
    from o obtain s where s: "map_of CA_OLD_SOURCE_KEYS k = Some s" and d: "s \<in> set displaced_keys" "k \<notin> set public_keys"
      by (auto simp: CA_OLD_SOURCE_KEYS_def displaced_keys_def public_keys_def)
    with ready have "mutation_at ms s = Inr (sample_mutation st s)" by (simp add: sources_ready_def)
    with s d show ?thesis
      by (simp add: check_ca_old_def table_get_def assertE_def sample_mutation_def Let_def private_copy_def staged_file_of_def
          same_inode_def copied_metadata_matches_def, simp add: file_defs)
  qed
  have new: "check_newcert ms (PFile (staged_file_of k), PObject (fi_state (staged_file_of k)), Some service_digest_text) = Inr ()"
    if "k = ''ca_newcert''"
    using ready that sized by (simp add: check_newcert_def sources_ready_def sample_mutation_def Let_def)
  have bytes: "length (issuer_bytes sample_service_names) = 27" by code_simp
  have issuer: "check_issuer sample_service_names (PFile (staged_file_of k), PObject (fi_state (staged_file_of k)), Some service_digest_text) = Inr ()"
    using sized bytes by (simp add: check_issuer_def service_digest_text_def)
  show ?thesis
    unfolding check_staged_content_def sample_context_fields sample_header_fields issuer using old new by auto
qed

lemma sample_mutation_parses:
  assumes k: "k \<in> set SERVICE_CA_PUBLICATION_ORDER" and e: "k \<in> set displaced_keys \<longrightarrow> e < 6" and ready: "sources_ready st ms k"
  shows "parse_file_mutation (sample_context st) ms e k = Inr (sample_mutation st k)"
proof -
  note t = table_the [OF table_keys(2) k]
  have g: "table_get FILE_DESTINATIONS k = Inr (the (map_of FILE_DESTINATIONS k))" using t by (auto simp: table_get_ok)
  have v: "sv (sample_journal st) (key_field k ''destination'') = path_join ''/p'' [the (map_of FILE_DESTINATIONS k) sample_service_names]"
    "sv (sample_journal st) (key_field k ''pre_identity'') = (if k \<in> set displaced_keys then displaced_text else ''absent'')"
    using k by (simp_all add: sample_file_values FILE_MUTATION_SUFFIXES_def file_value_def)
  have d: "file_destination (sample_context st) k = Inr (sm_destination (sample_mutation st k))"
    unfolding file_destination_def g bindE_Inr sample_context_fields v sample_header_fields
      sample_exact [OF table_paths_relative(1) [OF sample_plain(1)] t]
    by (simp add: sample_mutation_def Let_def)
  have pre: "field_identity (sample_journal st) 0 k ''pre_identity'' SFile {ABSENT} False = Inr (sm_pre_identity (sample_mutation st k))"
    unfolding field_identity_def v by (simp add: sample_mutation_def Let_def)
  have r: "replaces (replace_policy SERVICE_ISSUE REUSE) k" if "k \<in> set displaced_keys"
  proof -
    have "list_all (replaces (replace_policy SERVICE_ISSUE REUSE)) displaced_keys" by code_simp
    then show ?thesis using that by (simp add: list_all_iff)
  qed
  have c: "{''ca_index'', ''ca_index_attr'', ''ca_serial''} \<subseteq> set displaced_keys" by (auto simp: displaced_keys_def)
  have ok: "check_file_pre (sample_context st) k (sm_pre_identity (sample_mutation st k)) = Inr ()"
    using r subsetD [OF c, of k]
    by (auto simp: check_file_pre_def ok_iff sample_mutation_def Let_def file_replace_def displaced_file_def)
  have a: "k \<notin> set ARCHIVE_MUTATION_KEYS" using k keys_apart(3) by auto
  show ?thesis
    unfolding parse_file_mutation_def d bindE_Inr sample_context_fields sample_header_fields pre ok sample_stage_parses [OF k]
      prod.case sample_backup_parses [OF k e] sample_results_parse [OF k]
    using a sample_content [OF k ready] by (simp add: parse_archive_evidence_def sample_mutation_def Let_def)
qed

section \<open>The loop over the files\<close>

lemma precedes_in: "precedes x y xs \<Longrightarrow> x \<in> set xs \<and> y \<in> set xs"
  by (auto simp: precedes_def)

lemma precedes_prefix: "precedes s k (as @ k # bs) \<Longrightarrow> distinct (as @ k # bs) \<Longrightarrow> s \<in> set as"
  by (induction as) (auto dest: precedes_in)

definition sample_mutations :: "sample_stage \<Rightarrow> service_mutation list" where
  "sample_mutations st = sample_directories @ map (sample_mutation st) SERVICE_CA_PUBLICATION_ORDER"

lemma sample_mutation_key [simp]: "sm_key (sample_mutation st k) = k"
  by (simp add: sample_mutation_def Let_def)

lemma sample_directory_keys: "map sm_key sample_directories = SERVICE_CONTAINER_ORDER"
  by (simp add: sample_directories_def directory_mutation_def comp_def)

abbreviation sample_so_far :: "sample_stage \<Rightarrow> string list \<Rightarrow> service_mutation list" where
  "sample_so_far st ks \<equiv> sample_directories @ map (sample_mutation st) (filter (\<lambda>k. k \<in> set SERVICE_CA_PUBLICATION_ORDER) ks)"

lemma sample_lookup:
  assumes "s \<in> set ks" and "s \<in> set SERVICE_CA_PUBLICATION_ORDER" and "distinct ks"
  shows "mutation_at (sample_so_far st ks) s = Inr (sample_mutation st s)"
proof -
  have "distinct (map sm_key (sample_so_far st ks))"
    using assms(3) keys_apart(1) key_lists_distinct(1)
    by (auto simp: sample_directory_keys comp_def directory_keys)
  then show ?thesis using assms by (simp add: mutation_at_ok)
qed

lemma sample_sources_ready:
  assumes split: "FILE_MUTATION_KEYS = ks @ k # ks'"
  shows "sources_ready st (sample_so_far st ks) k"
proof -
  have d: "distinct (ks @ k # ks')" using key_lists_distinct(2) by (simp add: split)
  have src: "mutation_at (sample_so_far st ks) s = Inr (sample_mutation st s)"
    if "precedes s k FILE_MUTATION_KEYS" "s \<in> set SERVICE_CA_PUBLICATION_ORDER" for s
    using that precedes_prefix [OF _ d, of s] d by (intro sample_lookup) (simp_all add: split)
  have "list_all (\<lambda>(k, s). precedes s k FILE_MUTATION_KEYS \<and> s \<in> set SERVICE_CA_PUBLICATION_ORDER) CA_OLD_SOURCE_KEYS"
    by (simp add: CA_OLD_SOURCE_KEYS_def FILE_MUTATION_KEYS_def SERVICE_CA_PUBLICATION_ORDER_def)
  then have "precedes s k FILE_MUTATION_KEYS \<and> s \<in> set SERVICE_CA_PUBLICATION_ORDER" if "map_of CA_OLD_SOURCE_KEYS k = Some s" for s
    using map_of_SomeD [OF that] by (auto simp: list_all_iff)
  moreover have "precedes ''service_certificate'' ''ca_newcert'' FILE_MUTATION_KEYS" "''service_certificate'' \<in> set SERVICE_CA_PUBLICATION_ORDER"
    by (simp_all add: FILE_MUTATION_KEYS_def SERVICE_CA_PUBLICATION_ORDER_def)
  ultimately show ?thesis using src by (auto simp: sources_ready_def)
qed

lemma sample_disabled:
  assumes "k \<in> set FILE_MUTATION_KEYS" and "k \<notin> set SERVICE_CA_PUBLICATION_ORDER"
  shows "all_none (sample_journal st) k FILE_MUTATION_SUFFIXES \<and>
    (k \<in> set ARCHIVE_MUTATION_KEYS \<longrightarrow> all_none (sample_journal st) k ARCHIVE_EVIDENCE_SUFFIXES)"
  using assms(2) by (auto simp: all_none_def list_all_iff sample_rows(2) [OF assms(1)] sample_rows(3) file_value_def)

lemma displaced_filter: "filter (\<lambda>k. k \<in> set displaced_keys) FILE_MUTATION_KEYS = displaced_keys"
  "set displaced_keys \<subseteq> set SERVICE_CA_PUBLICATION_ORDER" "length displaced_keys = 6"
  by (code_simp, code_simp, simp add: displaced_keys_def)

lemma sample_files_loop:
  assumes "FILE_MUTATION_KEYS = ks @ rest"
  shows "parse_file_mutations (sample_context st) (sample_so_far st ks) (filter (\<lambda>k. k \<in> set displaced_keys) ks) rest =
    Inr (sample_so_far st FILE_MUTATION_KEYS, displaced_keys)"
  using assms
proof (induction rest arbitrary: ks)
  case Nil
  then show ?case by (simp add: displaced_filter)
next
  case (Cons k rest)
  have next_keys: "FILE_MUTATION_KEYS = (ks @ [k]) @ rest" using Cons.prems by simp
  note ih = Cons.IH [OF next_keys]
  show ?case
  proof (cases "k \<in> set SERVICE_CA_PUBLICATION_ORDER")
    case False
    have k: "k \<in> set FILE_MUTATION_KEYS" unfolding Cons.prems by simp
    have "k \<notin> set displaced_keys" using False displaced_filter(2) by auto
    with ih False sample_disabled [OF k False, of st] show ?thesis
      by (auto simp: sample_counts_def ok_iff)
  next
    case True
    have e: "k \<in> set displaced_keys \<longrightarrow> length (filter (\<lambda>k. k \<in> set displaced_keys) ks) < 6"
      using arg_cong [OF displaced_filter(1) [unfolded Cons.prems], of length] displaced_filter(3) by auto
    have p: "(sm_pre_identity (sample_mutation st k) = PSentinel ABSENT) = (k \<notin> set displaced_keys)"
      by (simp add: sample_mutation_def Let_def)
    have c: "k \<in> set (sc_publication (fc_counts (sample_context st)))" using True by (simp add: sample_counts_def)
    show ?thesis
      using ih True c by (cases "k \<in> set displaced_keys")
        (simp_all add: sample_mutation_parses [OF True e sample_sources_ready [OF Cons.prems]] p)
  qed
qed

lemma sample_files_parse:
  "parse_file_mutations (sample_context st) sample_directories [] FILE_MUTATION_KEYS = Inr (sample_mutations st, displaced_keys)"
proof -
  have "filter (\<lambda>k. k \<in> set SERVICE_CA_PUBLICATION_ORDER) FILE_MUTATION_KEYS = SERVICE_CA_PUBLICATION_ORDER"
  proof -
    have "''service_key'' \<notin> set SERVICE_CA_PUBLICATION_ORDER" by (simp add: SERVICE_CA_PUBLICATION_ORDER_def)
    then show ?thesis using keys_apart(3) by (auto simp: file_keys filter_empty_conv filter_id_conv)
  qed
  then show ?thesis using sample_files_loop [of "[]" FILE_MUTATION_KEYS st] by (simp add: sample_mutations_def)
qed

section \<open>Checks over all mutations\<close>

lemma sample_at:
  assumes "k \<in> set SERVICE_CA_PUBLICATION_ORDER"
  shows "mutation_at (sample_mutations st) k = Inr (sample_mutation st k)"
proof -
  have "filter (\<lambda>k. k \<in> set SERVICE_CA_PUBLICATION_ORDER) SERVICE_CA_PUBLICATION_ORDER = SERVICE_CA_PUBLICATION_ORDER" by simp
  moreover have "distinct SERVICE_CA_PUBLICATION_ORDER" by code_simp
  ultimately show ?thesis using sample_lookup [OF assms assms, of st] by (simp add: sample_mutations_def)
qed

lemma sample_ca_keys: "''ca_index'' \<in> set SERVICE_CA_PUBLICATION_ORDER" "''ca_index_attr'' \<in> set SERVICE_CA_PUBLICATION_ORDER"
  "''ca_serial'' \<in> set SERVICE_CA_PUBLICATION_ORDER" "''ca_newcert'' \<in> set SERVICE_CA_PUBLICATION_ORDER"
  "''ca_serial_old'' \<in> set SERVICE_CA_PUBLICATION_ORDER"
  by (simp_all add: SERVICE_CA_PUBLICATION_ORDER_def)

lemma sample_check_mutations:
  "check_mutations (sample_header st) (sample_counts st) (PFile displaced_file) (Some service_digest_text) (sample_mutations st)
     displaced_keys = Inr ()"
proof -
  have k: "map_of (mutation_table (sample_mutations st)) ''service_key'' = None"
    by (auto simp: map_of_eq_None_iff mutation_table_def sample_mutations_def sample_directories_def directory_mutation_def
        SERVICE_CONTAINER_ORDER_def SERVICE_CA_PUBLICATION_ORDER_def)
  have pre: "sm_pre_identity (sample_mutation st s) = PFile displaced_file" if "s \<in> set displaced_keys" for s
    using that by (simp add: sample_mutation_def Let_def)
  have new: "sm_pre_identity (sample_mutation st ''ca_newcert'') = PSentinel ABSENT"
    by (simp add: sample_mutation_def Let_def displaced_keys_def)
  have d: "''ca_index'' \<in> set displaced_keys" "''ca_index_attr'' \<in> set displaced_keys" "''ca_serial'' \<in> set displaced_keys"
    by (simp_all add: displaced_keys_def)
  show ?thesis
    by (simp add: check_mutations_def sample_counts_def displaced_filter(3) check_ca_pre_def sample_at [OF sample_ca_keys(1)]
        sample_at [OF sample_ca_keys(2)] sample_at [OF sample_ca_keys(3)] sample_at [OF sample_ca_keys(4)] pre d new
        check_service_key_def k check_renewed_members_def)
qed

section \<open>Signing inputs\<close>

lemma sample_input_parses:
  assumes k: "k \<in> set SERVICE_SIGNING_INPUT_KEYS"
  shows "\<exists>i. parse_signing_input (sample_context st) (PFile displaced_file) (Some service_digest_text) k = Inr i"
proof -
  note t = table_the [OF table_keys(3) k]
  have g: "table_get SIGNING_INPUT_SOURCES k = Inr (the (map_of SIGNING_INPUT_SOURCES k))" using t by (auto simp: table_get_ok)
  have v: "sv (sample_journal st) (key_field k ''source'') = path_join ''/p'' [the (map_of SIGNING_INPUT_SOURCES k) sample_service_names]"
    "sv (sample_journal st) (key_field k ''source_identity'') = displaced_text"
    "sv (sample_journal st) (key_field k ''source_sha256'') = service_digest_text"
    "sv (sample_journal st) (key_field k ''stage'') = path_join service_idir [k]"
    "sv (sample_journal st) (key_field k ''stage_identity'') = copied_text"
    "sv (sample_journal st) (key_field k ''stage_object'') = copied_object_text"
    "sv (sample_journal st) (key_field k ''stage_sha256'') = service_digest_text"
    by (simp_all add: sample_rows(4) [OF k] SIGNING_INPUT_SUFFIXES_def input_value_def)
  have p: "exact_path (path_join service_idir [k]) (path_join service_idir [k]) f = Inr (path_join service_idir [k])" for f
    using sample_keys_plain [of k] k by (intro exact_below [OF below_join [OF sample_dirs_below(3)]]) simp
  have c: "parse_copy (sample_journal st) 0 k ''stage'' = Inr (PFile copied_file, PObject (fi_state copied_file), Some service_digest_text)"
    unfolding parse_copy_def field_identity_def append.simps v by simp
  have i: "field_identity (sample_journal st) 0 k ''source_identity'' SFile {} False = Inr (PFile displaced_file)"
    unfolding field_identity_def v by simp
  have "k \<in> set EXACT_SIGNING_METADATA_COPIES \<or> k = ''signing_ca_config'' \<or> k \<in> set NORMALIZED_PRIVATE_COPIES"
  proof -
    have "list_all (\<lambda>k. k \<in> set EXACT_SIGNING_METADATA_COPIES \<or> k = ''signing_ca_config'' \<or> k \<in> set NORMALIZED_PRIVATE_COPIES)
      SERVICE_SIGNING_INPUT_KEYS" by code_simp
    then show ?thesis using k by (simp add: list_all_iff)
  qed
  then have content: "check_input_content k (PFile displaced_file) (Some service_digest_text) displaced_file (Some service_digest_text)
      copied_file (Some service_digest_text) = Inr ()"
    by (auto simp: check_input_content_def ok_iff copied_metadata_matches_def normalized_copy_matches_def
        SERVICE_TRANSACTION_FILE_MODE_def file_defs)
  have stage: "check_input_stage k True (PFile displaced_file) (Some service_digest_text) displaced_file (Some service_digest_text)
      (PFile copied_file, PObject (fi_state copied_file), Some service_digest_text) = Inr ()"
    using content by (simp add: check_input_stage_def check_copy_def same_inode_def) (simp add: file_defs)
  have complete: "stage_done (sample_counts st) k = True" using k by (simp add: sample_stage_done)
  have mode: "mode_is_safe (fi_permissions displaced_file) q" for q by (simp add: displaced_file_def)
  have enabled: "input_enabled (sample_header st) k" by (simp add: input_enabled_def)
  show ?thesis
    unfolding parse_signing_input_def Let_def sample_context_fields g bindE_Inr v sample_header_fields i sample_dirs p c complete
      sample_exact [OF table_paths_relative(3) [OF sample_plain(1)] t]
    using enabled mode stage by simp
qed

lemma sample_inputs_parse:
  "\<exists>inputs. parse_signing_inputs (sample_context st) (PFile displaced_file) (Some service_digest_text) = Inr inputs"
proof -
  have "\<exists>ys. mapE (parse_signing_input (sample_context st) (PFile displaced_file) (Some service_digest_text)) SERVICE_SIGNING_INPUT_KEYS = Inr ys"
    by (rule mapE_exists) (rule sample_input_parses)
  then show ?thesis by (auto simp: parse_signing_inputs_def)
qed

lemma sample_mutations_parse:
  "\<exists>inputs. parse_service_mutations (sample_journal st) (sample_header st) ''/p'' sample_archive_root (PFile displaced_file) =
     Inr (sample_counts st, sample_mutations st, displaced_keys, inputs)"
proof -
  have sha: "service_digest (sv (sample_journal st) ''current_key_sha256'') ''current_key_sha256'' True = Inr (Some service_digest_text)"
    by (simp add: sample_values)
  have root: "ar_snapshot sample_archive_root = PSentinel NONE" "ar_create sample_archive_root = False"
    by (simp_all add: sample_archive_root_def)
  obtain inputs where i: "parse_signing_inputs (sample_context st) (PFile displaced_file) (Some service_digest_text) = Inr inputs"
    using sample_inputs_parse by blast
  show ?thesis
    unfolding parse_service_mutations_def root sample_directories_parse bindE_Inr sample_parent sample_header_fields
      sample_created sample_publication sample_counts_parse Let_def sample_context_def [symmetric] sample_files_parse prod.case
      sha sample_check_mutations i by blast
qed

section \<open>Progress\<close>

lemma sample_order:
  "published_rollback_order (sample_counts st) = (if st = Sample_planned then [] else rev SERVICE_CA_PUBLICATION_ORDER)"
proof -
  have "managed_rollback_order [] = []" "managed_rollback_order SERVICE_CA_PUBLICATION_ORDER = rev SERVICE_CA_PUBLICATION_ORDER"
    unfolding managed_rollback_order_def archive_containers_def Let_def by code_simp+
  moreover have "length SERVICE_CA_PUBLICATION_ORDER = 13" by (simp add: SERVICE_CA_PUBLICATION_ORDER_def)
  ultimately show ?thesis by (simp add: published_rollback_order_def sample_counts_def)
qed

lemma sample_lookups: "set ks \<subseteq> set SERVICE_CA_PUBLICATION_ORDER \<Longrightarrow> mapE (mutation_at (sample_mutations st)) ks = Inr (map (sample_mutation st) ks)"
  by (rule mapE_Inr_map) (auto simp: sample_at)

lemma sample_progress:
  "check_progress (sample_journal st) (sample_header st) (sample_counts st) (sample_mutations st) displaced_keys = Inr ()"
proof -
  have len: "length SERVICE_CA_PUBLICATION_ORDER = 13" "length SERVICE_SIGNING_INPUT_KEYS = 7"
    by (simp_all add: SERVICE_CA_PUBLICATION_ORDER_def SERVICE_SIGNING_INPUT_KEYS_def)
  have prep: "prepared (sample_counts st) displaced_keys"
    by (simp add: prepared_def sample_counts_def len displaced_filter(3))
  have pending: "pending_directory_stage (sample_journal st) (sample_header st) (sample_counts st) (sample_mutations st) = Inr False"
    by (cases st) (simp_all add: pending_directory_stage_def sample_header_def)
  have post: "check_post_prefix (sample_counts st) False (sample_mutations st) = Inr ()"
  proof -
    have "map (\<lambda>m. sm_post_identity m \<noteq> PSentinel NONE) (map (sample_mutation st) SERVICE_CA_PUBLICATION_ORDER) =
        replicate 13 (st \<noteq> Sample_planned)"
      by (simp add: SERVICE_CA_PUBLICATION_ORDER_def sample_mutation_def Let_def numeral_eq_Suc)
    moreover have "map (\<lambda>index. int index < (if st = Sample_planned then 0 else 13)) [0..<13] = replicate 13 (st \<noteq> Sample_planned)"
      by (simp add: upt_rec numeral_eq_Suc)
    ultimately show ?thesis
      unfolding check_post_prefix_def
      by (simp add: sample_lookups sample_counts_def len cong: if_cong)
  qed
  have boundary: "\<not> (post_boundary (th_phase (sample_header st)) \<and> (sc_rolled_back (sample_counts st) \<noteq> 0 \<or>
      list_ex (\<lambda>m. sm_rollback_identity m \<noteq> PSentinel NONE \<or> sm_rollback_sha256 m \<noteq> None) (sample_mutations st)))"
  proof (cases "st = Sample_committed")
    case True
    then show ?thesis
      by (auto simp: list_ex_iff sample_mutations_def sample_directories_def directory_mutation_def sample_counts_def
          sample_mutation_def Let_def)
  next
    case False
    then show ?thesis by (cases st) (simp_all add: post_boundary_def sample_header_def)
  qed
  have prefix: "check_rollback_prefix (sample_counts st) (sample_mutations st) = Inr ()"
  proof (cases "st = Sample_planned")
    case False
    have present: "map (\<lambda>m. sm_rollback_identity m \<noteq> PSentinel NONE) (map (sample_mutation st) (rev SERVICE_CA_PUBLICATION_ORDER)) =
        (if st = Sample_rolling then [True, True] else [False, False]) @ replicate 11 False"
      using False by (cases st) (simp_all add: SERVICE_CA_PUBLICATION_ORDER_def sample_mutation_def Let_def numeral_eq_Suc)
    have counted: "map (\<lambda>index. int index < sc_rolled_back (sample_counts st)) [0..<13] =
        (if st = Sample_rolling then [True, True] else [False, False]) @ replicate 11 False"
      by (simp add: sample_counts_def upt_rec numeral_eq_Suc)
    have keys: "set (rev SERVICE_CA_PUBLICATION_ORDER) \<subseteq> set SERVICE_CA_PUBLICATION_ORDER" by simp
    show ?thesis
      unfolding check_rollback_prefix_def Let_def sample_order if_not_P [OF False] sample_lookups [OF keys] bindE_Inr
        length_rev len present counted by simp
  qed (simp add: check_rollback_prefix_def sample_order)
  have restored: "forE (check_restoration (sample_mutations st))
      (take (nat (sc_rolled_back (sample_counts st))) (published_rollback_order (sample_counts st))) = Inr ()"
  proof (cases "st = Sample_rolling")
    case True
    have t: "take 2 (rev SERVICE_CA_PUBLICATION_ORDER) = [''ca_newcert'', ''ca_serial_old'']"
      by (simp add: SERVICE_CA_PUBLICATION_ORDER_def)
    have "check_restoration (sample_mutations st) ''ca_newcert'' = Inr ()"
      using True by (simp add: check_restoration_def sample_at [OF sample_ca_keys(4)] sample_mutation_def Let_def displaced_keys_def)
    moreover have "check_restoration (sample_mutations st) ''ca_serial_old'' = Inr ()"
      using True by (simp add: check_restoration_def sample_at [OF sample_ca_keys(5)] sample_mutation_def Let_def displaced_keys_def
          copied_metadata_matches_def) (simp add: file_defs)
    moreover have "sc_rolled_back (sample_counts st) = 2" using True by (simp add: sample_counts_def)
    ultimately show ?thesis using True by (simp add: sample_order t)
  qed (simp add: sample_counts_def)
  show ?thesis
    unfolding check_progress_def pending bindE_Inr post prefix restored
    using prep boundary by (simp add: sample_counts_def len)
qed

section \<open>Completion and phase\<close>

definition sample_completion :: completion where
  "sample_completion = \<lparr>cp_started = False, cp_present = False, cp_paths = [],
     cp_identity = (''rollback_completion_identity'', PSentinel NONE)\<rparr>"

lemma sample_completion_checks:
  "check_completion (sample_journal st) (sample_header st) ''/p'' (sample_counts st) = Inr sample_completion"
  by (simp add: check_completion_def Let_def sample_values identity_of_field_def sample_counts_def sample_completion_def)

lemma sample_phase:
  "check_phase (sample_journal st) (journal_state_of (sample_journal st) (sample_header st) sample_archive_root (sample_counts st)
     displaced_keys sample_completion) = Inr ()"
proof -
  define s where "s = journal_state_of (sample_journal st) (sample_header st) sample_archive_root (sample_counts st)
    displaced_keys sample_completion"
  have len: "length SERVICE_CA_PUBLICATION_ORDER = 13" "length SERVICE_SIGNING_INPUT_KEYS = 7"
    by (simp_all add: SERVICE_CA_PUBLICATION_ORDER_def SERVICE_SIGNING_INPUT_KEYS_def)
  have prep: "prepared (sample_counts st) displaced_keys"
    by (simp add: prepared_def sample_counts_def len displaced_filter(3))
  have state: "js_header s = sample_header st" "js_counts s = sample_counts st" "js_backups s = displaced_keys"
    "js_completion s = sample_completion" "js_restored s = None" "js_restore_needed s = False"
    "js_checkpoint s = sv (sample_journal st) ''checkpoint''" "js_active s = sv (sample_journal st) ''mutation''"
    by (simp_all add: s_def journal_state_of_def sample_archive_root_def)
  have complete: "st \<noteq> Sample_planned \<Longrightarrow> committed_prefixes s"
    using prep by (simp add: committed_prefixes_def state sample_counts_def len)
  have rolling: "active_at ''rollback-pending'' ''rollback-done'' 2 (rev SERVICE_CA_PUBLICATION_ORDER) s" if "st = Sample_rolling"
    using that by (simp add: active_at_def state stage_values SERVICE_CA_PUBLICATION_ORDER_def)
  have none: "no_completion s" by (simp add: no_completion_def state sample_completion_def sample_counts_def)
  have legal: "legal_phase (sample_journal st) s = Inr True"
  proof (cases st)
    case Sample_planned
    have "legal_planned s"
      using prep none Sample_planned
      by (simp add: legal_planned_def state stage_values forward_def uncommitted_def sample_header_def sample_counts_def)
    then show ?thesis using Sample_planned by (simp add: legal_phase_def state Let_def sample_header_def)
  next
    case Sample_rolling
    have "sc_rolled_back (sample_counts st) = 2" using Sample_rolling by (simp add: sample_counts_def)
    then have "legal_rolling_back s"
      using rolling [OF Sample_rolling] none Sample_rolling
      by (simp add: legal_rolling_back_def state stage_values sample_order failed_rollback_def uncommitted_def sample_header_def)
    moreover have "restoration_ordered s" by (simp add: restoration_ordered_def restore_boundary_def state)
    ultimately show ?thesis using Sample_rolling by (simp add: legal_phase_def state Let_def sample_header_def)
  next
    case Sample_committed
    have "legal_committed s"
      using complete none Sample_committed
      by (simp add: legal_committed_def state stage_values sample_header_def sample_counts_def)
    then show ?thesis using Sample_committed by (simp add: legal_phase_def state Let_def sample_header_def)
  qed
  show ?thesis
    unfolding s_def [symmetric] check_phase_def Let_def legal bindE_Inr
    using complete by (cases st) (simp_all add: state sample_header_def sample_values)
qed

section \<open>The journals\<close>

definition sample_transaction_of :: "sample_stage \<Rightarrow> service_signing_input list \<Rightarrow> (string \<times> parsed_identity) list \<Rightarrow>
    (string \<times> string) list \<Rightarrow> service_transaction" where
  "sample_transaction_of st inputs identities paths =
     service_transaction_of (sample_journal st) ''/p'' (sample_header st) (sample_counts st) displaced_keys (sample_mutations st)
       inputs identities paths"

theorem service_sample_parses:
  "\<exists>inputs identities paths. parse_service_transaction (sample_data st) ''/p'' =
     Inr (sample_transaction_of st inputs identities paths)"
proof -
  have root: "canonical_root ''/p'' = Inr ''/p''" by code_simp
  obtain paths where paths: "check_service_paths ''/p'' (sample_journal st) = Inr paths" using sample_fixed_paths by blast
  obtain ids where ids: "check_fixed_identities (sample_journal st) (sample_header st) (sample_data st) = Inr ids"
      "table_get ids ''current_key_identity'' = Inr (PFile displaced_file)"
    using sample_identities by blast
  obtain inputs where ms: "parse_service_mutations (sample_journal st) (sample_header st) ''/p'' sample_archive_root (PFile displaced_file) =
      Inr (sample_counts st, sample_mutations st, displaced_keys, inputs)"
    using sample_mutations_parse by blast
  have r: "as_service_error (parse_ordered_record (sample_data st) SERVICE_TRANSACTION_SPEC) = Inr (sample_journal st)"
    by (simp add: sample_parses_record as_service_error_def)
  show ?thesis
    unfolding parse_service_transaction_def r bindE_Inr root sample_header_parses paths ids sample_archive_root_checks ms prod.case
      sample_progress sample_completion_checks journal_state_of_def [symmetric] sample_phase sample_transaction_of_def by blast
qed

end
