(* ===== verification/ServiceProperties.thy ===== *)
theory ServiceProperties
  imports ServiceWitness "HOL-Library.AList"
begin

text \<open>
  Properties of \<^verbatim>\<open>src/platform_pki/service_transaction.py\<close>: the publication order and its reverse, what an accepted
  journal guarantees of its mutations, their restoration and their paths, and the round trip of the
  four formats. The witnesses are the three journals of \<open>ServiceSamples\<close>.
\<close>

section \<open>An accepted journal\<close>

text \<open>What the parser established when it returned, as the facts that the properties share.\<close>

lemma accepted_journal:
  assumes "parse_service_transaction data root = Inr t"
  obtains r h ar c backups cp where "st_record t = r" and "st_phase t = th_phase h" and "st_outcome t = th_outcome h"
    and "st_publication_order t = sc_publication c"
    and "journal_mutations \<lparr>fc_record = r, fc_header = h, fc_root = root, fc_counts = c\<rparr> (st_mutations t) backups"
    and "set (sc_publication c) \<inter> set FILE_MUTATION_KEYS \<subseteq> set (sc_staging c)"
    and "sc_published c \<le> int (length (sc_publication c))"
    and "check_progress r h c (st_mutations t) backups = Inr ()"
    and "check_phase r (journal_state_of r h ar c backups cp) = Inr ()"
proof -
  from assms obtain r h paths identities ar current c ms backups inputs cp where
      h: "parse_service_header r = Inr h"
    and ms: "parse_service_mutations r h root ar current = Inr (c, ms, backups, inputs)"
    and progress: "check_progress r h c ms backups = Inr ()"
    and phase: "check_phase r (journal_state_of r h ar c backups cp) = Inr ()"
    and t: "t = service_transaction_of r root h c backups ms inputs
      (identities @ ar_identities ar @ [cp_identity cp]) (paths @ ar_paths ar @ cp_paths cp)"
    by (rule parse_service_transaction_cases)
  from ms obtain publication where counts: "parse_counts r h publication = Inr c" by (rule parse_service_mutations_cases)
  show thesis
    using that [of r h c backups ar cp] counts_staging [OF counts] journal_mutations_ok [OF ms header_members [OF h]]
      progress phase by (auto simp: t service_transaction_of_def)
qed

lemma journal_mutations_distinct:
  "journal_mutations x ms backups \<Longrightarrow> distinct (map sm_key ms) \<and> distinct (sc_publication (fc_counts x))"
  by (simp add: journal_mutations_def)

lemma journal_file:
  "journal_mutations x ms backups \<Longrightarrow> m \<in> set ms \<Longrightarrow> sm_stage m \<noteq> None \<Longrightarrow> parsed_file x backups m"
  by (auto simp: journal_mutations_def)

text \<open>With complete prefixes every key of the publication order has a published mutation.\<close>

lemma published_when_committed:
  assumes "parse_service_transaction data root = Inr t" and "st_phase t = VERIFYING \<or> st_outcome t = SUCCEEDED"
    and "k \<in> set (st_publication_order t)"
  obtains m where "m \<in> set (st_mutations t)" and "sm_key m = k" and "sm_post_identity m \<noteq> PSentinel NONE"
proof -
  from assms(1) obtain r h ar c backups cp where t: "st_phase t = th_phase h" "st_outcome t = th_outcome h"
      "st_publication_order t = sc_publication c"
    and j: "journal_mutations \<lparr>fc_record = r, fc_header = h, fc_root = root, fc_counts = c\<rparr> (st_mutations t) backups"
    and progress: "check_progress r h c (st_mutations t) backups = Inr ()"
    and phase: "check_phase r (journal_state_of r h ar c backups cp) = Inr ()"
    by (rule accepted_journal)
  have d: "distinct (map sm_key (st_mutations t))" using journal_mutations_distinct [OF j] by simp
  have "committed_prefixes (journal_state_of r h ar c backups cp)"
    using committed_prefixes_phase [OF phase] assms(2) t by (simp add: journal_state_of_def)
  then have full: "sc_published c = int (length (sc_publication c))" by (simp add: committed_prefixes_def journal_state_of_def)
  from progress obtain pending where "check_post_prefix c pending (st_mutations t) = Inr ()" by (rule check_progress_cases)
  then obtain ordered where ordered: "mapE (mutation_at (st_mutations t)) (sc_publication c) = Inr ordered"
    and pres: "map (\<lambda>m. sm_post_identity m \<noteq> PSentinel NONE) ordered =
        map (\<lambda>index. int index < sc_published c \<or> (pending \<and> int index = sc_published c)) [0..<length (sc_publication c)]"
    unfolding check_post_prefix_def bindE_ok service_require_ok by blast
  from assms(3) t(3) obtain i where i: "i < length (sc_publication c)" "sc_publication c ! i = k" by (auto simp: in_set_conv_nth)
  have "list_all2 (\<lambda>k m. mutation_at (st_mutations t) k = Inr m) (sc_publication c) ordered" using ordered by (simp add: mapE_ok)
  then have "mutation_at (st_mutations t) k = Inr (ordered ! i)" using i by (auto simp: list_all2_conv_all_nth)
  then have m: "ordered ! i \<in> set (st_mutations t)" "sm_key (ordered ! i) = k" using mutation_at_ok [OF d] by auto
  show thesis
    using that [OF m] presence_at [OF ordered pres d m(1) i(1)] i m(2) full by simp
qed

text \<open>A file that is published has the evidence of its copy and of the file it displaced.\<close>

definition publication_evidence :: "service_mutation \<Rightarrow> bool" where
  "publication_evidence m \<longleftrightarrow> published_stage m \<and>
     bound_copy (sm_stage_identity m) (sm_stage_object m) (sm_stage_sha256 m) \<and>
     (sm_pre_identity m = PSentinel ABSENT \<or> bound_backup m)"

lemma evidence_of_published:
  assumes "parse_service_transaction data root = Inr t" and "m \<in> set (st_mutations t)"
    and "sm_stage m \<noteq> None" and "sm_post_identity m \<noteq> PSentinel NONE"
  shows "publication_evidence m"
proof -
  from assms(1) obtain r h c backups where
      j: "journal_mutations \<lparr>fc_record = r, fc_header = h, fc_root = root, fc_counts = c\<rparr> (st_mutations t) backups"
    and staging: "set (sc_publication c) \<inter> set FILE_MUTATION_KEYS \<subseteq> set (sc_staging c)"
    and progress: "check_progress r h c (st_mutations t) backups = Inr ()"
    by (rule accepted_journal)
  note parsed = journal_file [OF j assms(2,3)]
  then have k: "sm_key m \<in> set FILE_MUTATION_KEYS" "sm_key m \<in> set (sc_publication c)" by (auto simp: parsed_file_def)
  have "prepared c backups"
    using published_position(2) [OF progress _ assms(2,4) k(2)] journal_mutations_distinct [OF j] assms(3) by blast
  moreover have "sm_key m \<in> set (sc_staging c)" using k staging by blast
  ultimately show ?thesis using published_evidence [OF parsed] assms(4) unfolding publication_evidence_def by blast
qed

section \<open>Restoration\<close>

text \<open>A rollback that is being completed has undone every published mutation.\<close>

definition completion_checkpoints :: "string set" where
  "completion_checkpoints = {''rollback-completion-pending'', ''rollback-completion-done'', ''rollback-evidence-clear-pending''}"

lemma completed_rollback:
  assumes "check_phase r (journal_state_of r h ar c backups cp) = Inr ()" and "th_phase h = ROLLING_BACK"
    and "sv r ''checkpoint'' \<in> completion_checkpoints"
  shows "sc_rolled_back c = sc_published c"
  using assms by (auto simp: check_phase_def Let_def ok_iff legal_phase_def journal_state_of_def legal_rolling_back_def
      legal_rollback_completion_def completion_checkpoints_def)

lemma rolled_back_evidence:
  assumes "check_progress r h c ms backups = Inr ()" and "distinct (map sm_key ms)" and "m \<in> set ms"
    and "sm_key m \<in> set (take (nat (sc_published c)) (sc_publication c))" and "sc_rolled_back c = sc_published c"
    and "sc_published c \<le> int (length (sc_publication c))"
  shows "sm_rollback_identity m \<noteq> PSentinel NONE"
proof -
  let ?order = "published_rollback_order c"
  from assms(1) have "check_rollback_prefix c ms = Inr ()" by (auto elim: check_progress_cases)
  then obtain ordered where ordered: "mapE (mutation_at ms) ?order = Inr ordered"
    and pres: "map (\<lambda>m. sm_rollback_identity m \<noteq> PSentinel NONE) ordered =
      map (\<lambda>index. int index < sc_rolled_back c) [0..<length ?order]"
    unfolding check_rollback_prefix_def Let_def bindE_ok service_require_ok by blast
  have mset: "mset ?order = mset (take (nat (sc_published c)) (sc_publication c))"
    unfolding published_rollback_order_def by (rule mset_rollback)
  from mset_eq_setD [OF mset] assms(4) obtain j where j: "j < length ?order" "?order ! j = sm_key m" by (metis in_set_conv_nth)
  moreover have "length ?order = nat (sc_published c)" using mset_eq_length [OF mset] assms(6) by simp
  ultimately have "int j < sc_rolled_back c" using assms(5) by simp
  with presence_at [OF ordered pres assms(2,3) j] show ?thesis by simp
qed

lemma restored_mutation:
  assumes "parse_service_transaction data root = Inr t" and "m \<in> set (st_mutations t)"
    and "sm_key m \<in> set (st_publication_order t)" and "sm_post_identity m \<noteq> PSentinel NONE" and "st_phase t = ROLLING_BACK"
    and "sm_rollback_identity m \<noteq> PSentinel NONE \<or> sv (st_record t) ''checkpoint'' \<in> completion_checkpoints"
  shows "restored_state m"
proof -
  from assms(1) obtain r h ar c backups cp where t: "st_record t = r" "st_phase t = th_phase h"
      "st_publication_order t = sc_publication c"
    and j: "journal_mutations \<lparr>fc_record = r, fc_header = h, fc_root = root, fc_counts = c\<rparr> (st_mutations t) backups"
    and bound: "sc_published c \<le> int (length (sc_publication c))"
    and progress: "check_progress r h c (st_mutations t) backups = Inr ()"
    and phase: "check_phase r (journal_state_of r h ar c backups cp) = Inr ()"
    by (rule accepted_journal)
  have d: "distinct (map sm_key (st_mutations t))" "distinct (sc_publication c)" using journal_mutations_distinct [OF j] by auto
  have "th_phase h \<noteq> PUBLISHING" using assms(5) t(2) by simp
  then obtain i where i: "i < length (sc_publication c)" "sc_publication c ! i = sm_key m" "int i < sc_published c"
    using published_position(1) [OF progress d(1) assms(2,4)] assms(3) t(3) by metis
  have "sm_rollback_identity m \<noteq> PSentinel NONE"
  proof (cases "sv r ''checkpoint'' \<in> completion_checkpoints")
    case True
    then have "sc_rolled_back c = sc_published c" using completed_rollback [OF phase] assms(5) t(2) by simp
    moreover have "sm_key m \<in> set (take (nat (sc_published c)) (sc_publication c))"
      using i by (auto simp: in_set_conv_nth intro!: exI [of _ i])
    ultimately show ?thesis using rolled_back_evidence [OF progress d(1) assms(2) _ _ bound] by simp
  next
    case False
    with assms(6) t(1) show ?thesis by simp
  qed
  then show ?thesis using rolled_back_restored [OF progress d(1) assms(2) d(2) i] by simp
qed

section \<open>A record with one value replaced\<close>





section \<open>Facts of the samples\<close>

lemma sample_transaction_facts:
  "st_mutations (sample_transaction_of st inputs identities paths) = sample_mutations st"
  "st_publication_order (sample_transaction_of st inputs identities paths) = SERVICE_CA_PUBLICATION_ORDER"
  "st_phase (sample_transaction_of st inputs identities paths) = th_phase (sample_header st)"
  "st_outcome (sample_transaction_of st inputs identities paths) = th_outcome (sample_header st)"
  "th_phase (sample_header Sample_rolling) = ROLLING_BACK" "th_outcome (sample_header Sample_committed) = SUCCEEDED"
  "th_phase (sample_header Sample_planned) = SERVICE_PLANNED"
  by (simp_all add: sample_transaction_of_def service_transaction_of_def sample_counts_def sample_header_def)

lemma sample_in_transaction:
  "k \<in> set SERVICE_CA_PUBLICATION_ORDER \<Longrightarrow>
     sample_mutation st k \<in> set (st_mutations (sample_transaction_of st inputs identities paths))"
  by (simp add: sample_transaction_facts sample_mutations_def)

lemma sample_mutation_facts:
  "sm_stage (sample_mutation st k) = Some (path_join service_sdir [k])"
  "sm_post_identity (sample_mutation st k) = (if st = Sample_planned then PSentinel NONE else PFile (staged_file_of k))"
  "sm_rollback_identity (sample_mutation Sample_rolling ''ca_serial_old'') = PFile copied_file"
  "sm_rollback_identity (sample_mutation Sample_planned ''ca_newcert'') = PSentinel ABSENT"
  by (simp_all add: sample_mutation_def Let_def del: path_join_Cons)

section \<open>Properties\<close>

text \<open>
  C6: A published file is the file that was staged. In an accepted journal every file with a post identity is the
  staged object with its digest, its stage is complete, and the file that it displaced has a private
  backup with its digest, owner, mode and times. When the transaction is verifying or has succeeded, every
  key of the publication order is published.
\<close>
theorem service_publication_complete:
  assumes "parse_service_transaction data root = Inr t"
  shows "(\<forall>m \<in> set (st_mutations t). sm_stage m \<noteq> None \<longrightarrow> sm_post_identity m \<noteq> PSentinel NONE \<longrightarrow>
      publication_evidence m) \<and>
    (st_phase t = VERIFYING \<or> st_outcome t = SUCCEEDED \<longrightarrow>
      (\<forall>k \<in> set (st_publication_order t). \<exists>m \<in> set (st_mutations t). sm_key m = k \<and>
        sm_post_identity m \<noteq> PSentinel NONE \<and> (sm_stage m \<noteq> None \<longrightarrow> publication_evidence m)))"
proof (intro conjI impI ballI)
  show "publication_evidence m" if "m \<in> set (st_mutations t)" "sm_stage m \<noteq> None" "sm_post_identity m \<noteq> PSentinel NONE" for m
    by (rule evidence_of_published [OF assms that])
  fix k
  assume "st_phase t = VERIFYING \<or> st_outcome t = SUCCEEDED" and "k \<in> set (st_publication_order t)"
  then obtain m where "m \<in> set (st_mutations t)" "sm_key m = k" "sm_post_identity m \<noteq> PSentinel NONE"
    by (rule published_when_committed [OF assms])
  with evidence_of_published [OF assms] show "\<exists>m \<in> set (st_mutations t). sm_key m = k \<and>
      sm_post_identity m \<noteq> PSentinel NONE \<and> (sm_stage m \<noteq> None \<longrightarrow> publication_evidence m)"
    by blast
qed

text \<open>Witness: the committed sample journal, whose mutation of the CA index displaced a file.\<close>
theorem service_publication_complete_witness:
  "\<exists>t. parse_service_transaction (sample_data Sample_committed) ''/p'' = Inr t \<and> st_outcome t = SUCCEEDED \<and>
     publication_evidence (sample_mutation Sample_committed ''ca_index'') \<and>
     (\<exists>m \<in> set (st_mutations t). sm_key m = ''ca_newcert'' \<and> sm_post_identity m \<noteq> PSentinel NONE)"
proof -
  obtain inputs identities paths where
    t: "parse_service_transaction (sample_data Sample_committed) ''/p'' = Inr (sample_transaction_of Sample_committed inputs identities paths)"
    using service_sample_parses by blast
  let ?t = "sample_transaction_of Sample_committed inputs identities paths"
  note complete = service_publication_complete [OF t]
  have "publication_evidence (sample_mutation Sample_committed ''ca_index'')"
    using complete [THEN conjunct1, rule_format, OF sample_in_transaction [OF sample_ca_keys(1)]] by (simp add: sample_mutation_facts)
  moreover have "\<exists>m \<in> set (st_mutations ?t). sm_key m = ''ca_newcert'' \<and> sm_post_identity m \<noteq> PSentinel NONE"
    using complete [THEN conjunct2] sample_ca_keys(4) unfolding sample_transaction_facts by blast
  ultimately show ?thesis using t by (intro exI [of _ ?t]) (simp add: sample_transaction_facts)
qed

text \<open>
  C7: Rollback restores what was there. While a transaction rolls back, a published mutation that has rollback evidence is
  absent again when its destination was absent, and otherwise is its backup, with the digest and the
  metadata of the displaced file; once the completion of the rollback is recorded, this is every
  published mutation.
\<close>
theorem service_rollback_restores:
  assumes "parse_service_transaction data root = Inr t" and "st_phase t = ROLLING_BACK" and "m \<in> set (st_mutations t)"
    and "sm_key m \<in> set (st_publication_order t)" and "sm_post_identity m \<noteq> PSentinel NONE"
    and "sm_rollback_identity m \<noteq> PSentinel NONE \<or> sv (st_record t) ''checkpoint'' \<in> completion_checkpoints"
  shows "restored_state m"
  by (rule restored_mutation [OF assms(1,3,4,5,2,6)])

text \<open>Witness: the sample journal that has rolled back two files, the second of which had displaced one.\<close>
theorem service_rollback_restores_witness:
  "restored_state (sample_mutation Sample_rolling ''ca_serial_old'') \<and>
   sm_rollback_identity (sample_mutation Sample_rolling ''ca_serial_old'') = PFile copied_file"
proof -
  obtain inputs identities paths where
    t: "parse_service_transaction (sample_data Sample_rolling) ''/p'' = Inr (sample_transaction_of Sample_rolling inputs identities paths)"
    using service_sample_parses by blast
  have "restored_state (sample_mutation Sample_rolling ''ca_serial_old'')"
    by (rule service_rollback_restores [OF t _ sample_in_transaction [OF sample_ca_keys(5)]])
      (simp_all add: sample_transaction_facts sample_ca_keys sample_mutation_facts)
  then show ?thesis by (simp add: sample_mutation_facts)
qed

text \<open>
  C8: Publication creates a directory before anything in it and rollback removes it after everything in it. For
  every operation, the two orders have the same keys, each once, and whenever the path of one key lies
  in the directory of another, the directory comes first in publication and last in rollback.
\<close>
theorem service_orders_nested:
  assumes "managed_publication_order oper action state members create created = Inr order" and "distinct members"
  shows "distinct order \<and> mset (managed_rollback_order order) = mset order \<and>
    (\<forall>k \<in> set order. \<forall>d \<in> set order. inside n k d \<longrightarrow>
      precedes d k order \<and> precedes k d (managed_rollback_order order))"
  using publication_distinct [OF assms] mset_rollback publication_nested [OF assms(1)] by blast

text \<open>Witness: a renewal that creates the service directory, a new archive and a copy of the certificate in it.\<close>
theorem service_orders_nested_witness:
  "\<exists>order. managed_publication_order SERVICE_RENEW REUSE ARCHIVE_RENEW [''tls.crt''] True [''service_root''] = Inr order \<and>
     inside sample_service_names ''archive_certificate'' ''archive_dir'' \<and> precedes ''archive_dir'' ''archive_certificate'' order"
proof -
  define order where "order = [''service_root''] @ SERVICE_CA_PUBLICATION_ORDER @ [''archive_root'', ''archive_dir'', ''archive_certificate'']"
  have o: "managed_publication_order SERVICE_RENEW REUSE ARCHIVE_RENEW [''tls.crt''] True [''service_root''] = Inr order"
    by (simp add: managed_publication_order_def SERVICE_CONTAINER_ORDER_def MANAGED_RENEW_PUBLICATION_ORDER_def
        ARCHIVE_MEMBER_KEYS_def table_get_def order_def)
  have i: "inside sample_service_names ''archive_certificate'' ''archive_dir''" unfolding inside_def by code_simp
  from service_orders_nested [OF o, of sample_service_names] i
  have "precedes ''archive_dir'' ''archive_certificate'' order" by (simp add: order_def)
  with o i show ?thesis by blast
qed

text \<open>
  C9: Every path of an accepted journal lies strictly below the PKI directory: the paths of the journal itself, the
  destination, stage, backup and archive source of every mutation, and the source and stage of every
  signing input.
\<close>
theorem service_paths_confined:
  assumes "parse_service_transaction data root = Inr t" and "p \<in> set (service_paths t)"
  shows "below root p"
  by (rule service_paths_below [OF assms])

text \<open>Witness: the destination of the CA index in the planned sample journal.\<close>
theorem service_paths_confined_witness:
  "below ''/p'' (sm_destination (sample_mutation Sample_planned ''ca_index''))"
proof -
  obtain inputs identities paths where
    t: "parse_service_transaction (sample_data Sample_planned) ''/p'' = Inr (sample_transaction_of Sample_planned inputs identities paths)"
    using service_sample_parses by blast
  show ?thesis
    by (rule service_paths_confined [OF t])
      (use sample_in_transaction [of "''ca_index''" Sample_planned] sample_ca_keys in
        \<open>auto simp: service_paths_def mutation_paths_def\<close>)
qed

text \<open>
  C10: The formats are exact. Serializing the fields of a parsed journal gives back its bytes, and for a journal and for
  each of the three retained records the serializer produces exactly the texts that the parser accepts.
\<close>
theorem service_serializers_exact:
  "(parse_service_transaction d root = Inr t \<longrightarrow> serialize_service_transaction (rec_pairs (st_record t)) root = Inr d) \<and>
   ((\<exists>vs. serialize_service_transaction vs root = Inr d) \<longleftrightarrow> (\<exists>t. parse_service_transaction d root = Inr t)) \<and>
   ((\<exists>vs. serialize_service_retained_transaction vs = Inr d) \<longleftrightarrow> (\<exists>r. parse_service_retained_transaction d = Inr r)) \<and>
   ((\<exists>vs. serialize_service_retained_terminal vs = Inr d) \<longleftrightarrow> (\<exists>r. parse_service_retained_terminal d = Inr r)) \<and>
   ((\<exists>vs. serialize_service_retained_rollback vs = Inr d) \<longleftrightarrow> (\<exists>r. parse_service_retained_rollback d = Inr r))"
proof -
  have s: "serialize_service_transaction vs root =
      serialize_retained vs SERVICE_TRANSACTION_SPEC (\<lambda>d. parse_service_transaction d root)" for vs
    by (simp add: serialize_service_transaction_def serialize_retained_def)
  show ?thesis
    unfolding s serialize_service_retained_transaction_def serialize_service_retained_terminal_def
      serialize_service_retained_rollback_def
    by (intro conjI impI transaction.serialize_parsed transaction.serialized_iff retained_transaction.serialized_iff
        retained_terminal.serialized_iff retained_rollback.serialized_iff)
qed

text \<open>Witness: the planned sample journal is the output of the serializer on its fields.\<close>
theorem service_serializers_exact_witness:
  "serialize_service_transaction (rec_pairs (sample_journal Sample_planned)) ''/p'' = Inr (sample_data Sample_planned)"
proof -
  obtain inputs identities paths where
    t: "parse_service_transaction (sample_data Sample_planned) ''/p'' = Inr (sample_transaction_of Sample_planned inputs identities paths)"
    using service_sample_parses by blast
  have "st_record (sample_transaction_of Sample_planned inputs identities paths) = sample_journal Sample_planned"
    by (simp add: sample_transaction_of_def service_transaction_of_def)
  with service_serializers_exact [of _ _ "sample_transaction_of Sample_planned inputs identities paths"] t show ?thesis by metis
qed

text \<open>
  C39: Rollback evidence is compared with the reverse prefix only for published keys. The planned sample journal, in which
  nothing is published, is accepted although its mutation of the CA certificate copy has rollback evidence.
\<close>
theorem service_unpublished_rollback:
  "\<exists>t m. parse_service_transaction (sample_data Sample_planned) ''/p'' = Inr t \<and> st_phase t = SERVICE_PLANNED \<and>
     m \<in> set (st_mutations t) \<and> sm_post_identity m = PSentinel NONE \<and> sm_rollback_identity m = PSentinel ABSENT"
proof -
  obtain inputs identities paths where
    t: "parse_service_transaction (sample_data Sample_planned) ''/p'' = Inr (sample_transaction_of Sample_planned inputs identities paths)"
    using service_sample_parses by blast
  show ?thesis
    by (rule exI [of _ "sample_transaction_of Sample_planned inputs identities paths"],
        rule exI [of _ "sample_mutation Sample_planned ''ca_newcert''"])
      (use t sample_in_transaction [OF sample_ca_keys(4)] in \<open>simp add: sample_transaction_facts sample_mutation_facts\<close>)
qed



end
