(* ===== verification/Spec2Isabelle.thy ===== *)
theory Spec2Isabelle
  imports CodecProperties CsrProperties SigningProperties FinalizationJournal JournalPaths
    ParserProperties CliProperties InventoryProperties TreeProperties PathProperties
    LockRefinement LockRelease ServiceProperties
begin

text \<open>
  Verification of \<open>platform-pki\<close>, the command that issues and manages the certificates of a platform.

  \<^bold>\<open>The program.\<close> A command line is parsed by a table-driven parser and dispatched to one of about forty
  handler modules. The handlers read an inventory of services and a tree of canonical text records,
  drive \<open>openssl\<close> and \<open>ssh-keygen\<close>, and publish their results through journals of identities and
  digests, so that an interrupted transaction can be recovered exactly. Every change of a PKI
  directory runs under ordered advisory locks. The development models the
  parts that decide: which texts are accepted, what they mean, what an accepted record, journal,
  inventory, manifest or command line guarantees, and who may be inside a locked section.

  \<^bold>\<open>Theories.\<close> Paths are below \<open>src/platform_pki\<close>.
  \<^item> \<open>Prelude\<close>, \<open>Text\<close>, \<open>Regex\<close>, \<open>Patterns\<close>, \<open>Calendar\<close>, \<open>PosixPath\<close>, \<open>Sha256\<close>: exceptions and
    results, Python's byte-string operations, the \<open>re\<close> patterns with groups, the proleptic calendar,
    \<open>os.path\<close>, and SHA-256 on 32-bit words.
  \<^item> \<open>Codec\<close>, \<open>Records\<close>: the locale of a canonical codec and \<open>records.py\<close>, with its parser and serializer.
  \<^item> \<open>PersistedIdentity\<close>, \<open>IdentityCodecs\<close>: \<open>persisted_identity.py\<close> and the identity classes of
    \<open>filesystem.py\<close>. \<open>CodecProperties\<close> holds the properties of both components.
  \<^item> \<open>CsrProtocol\<close>, \<open>CsrContracts\<close>, \<open>CsrProperties\<close>: \<open>csr_protocol.py\<close>, the seven signed records of the
    exchange between a host and the signer and the two binding checks.
  \<^item> \<open>CsrJournal\<close>, \<open>SigningJournal\<close>, \<open>FinalizationJournal\<close>, with \<open>JournalContracts\<close>, \<open>JournalPaths\<close>,
    \<open>SigningContracts\<close>, \<open>SigningSamples\<close>, \<open>SigningWitness\<close> and \<open>SigningProperties\<close>: \<open>csr_recovery.py\<close>, the
    journals that recovery acts on.
  \<^item> \<open>CliText\<close>, \<open>ParserTypes\<close>, \<open>Routes\<close>, \<open>ParseRoute\<close>, with \<open>RouteFacts\<close>, \<open>ParserContracts\<close> and
    \<open>ParserProperties\<close>: \<open>parser.py\<close>, its table of routes and its token loop.
  \<^item> \<open>Cli\<close>, \<open>CliProperties\<close>: \<open>routes.py\<close>, \<open>errors.py\<close> and \<open>cli.py\<close>, from the argument vector to the exit
    status. What a handler module does is a parameter.
  \<^item> \<open>Inventory\<close>, \<open>InventoryContracts\<close>, \<open>InventoryProperties\<close>: \<open>inventory.py\<close>.
  \<^item> \<open>TreeManifest\<close>, \<open>TreeProperties\<close>: \<open>tree_manifests.py\<close>. What the file system returns is a record
    of results.
  \<^item> \<open>Paths\<close>, \<open>PathProperties\<close>: \<open>paths.py\<close>, canonical paths, their resolution and their trees.
  \<^item> \<open>Locks\<close>: \<open>locks.py\<close> as programs, trees of atomic calls with a continuation for every reply.
    \<open>LockSystem\<close>: what the calls do to the registry of a process and to the kernel (descriptors,
    \<open>flock\<close>, \<open>link\<close>, \<open>fork\<close>), and the interleaved executions of threads and processes.
    \<open>LockLogic\<close>, \<open>LockBounds\<close>: a weakest precondition of the programs over ghost states and a bound
    on their calls. \<open>Transitions\<close>, \<open>LockInvariant\<close>, \<open>LockSteps\<close>: the invariant of all executions.
    \<open>LockProperties\<close>, \<open>LockRefinement\<close>, \<open>LockRelease\<close>: what follows from it.

  \<^item> \<open>Dictionary\<close>: Python dictionaries as association lists. \<open>ServiceFields\<close>, \<open>ServiceRetained\<close>,
    \<open>ServiceChecks\<close>, \<open>ServiceMutations\<close>, \<open>ServiceFiles\<close>, \<open>ServiceJournal\<close>: \<open>service_transaction.py\<close> in the
    order of the source, its tables and orders, the retained records, the field checks, the header and
    the directory mutations, the file mutations and signing inputs, and the progress, rollback,
    completion and phase of a journal. A local variable that several steps read is a field of a record.
    \<open>ServiceContracts\<close>: the locale of a format whose serializer checks its output with its parser, interpreted
    for the journal and the three retained records. \<open>ServiceOrders\<close>, \<open>ServiceInvariants\<close>,
    \<open>ServicePaths\<close>: the orders and the nesting of paths, what the loops leave behind, and the
    confinement of paths. \<open>ServiceSamples\<close>, \<open>ServiceBytes\<close>, \<open>ServiceWitness\<close>: three complete journals of a
    certificate issue (planned, rolling back, committed) and the proof that the parser accepts
    their bytes. \<open>ServiceProperties\<close>: what follows.

  \<^bold>\<open>Lemma groups.\<close> For every parser: what it accepts (an equivalence with the canonical texts where the
  format has one), what an accepted value guarantees, which exceptions it raises, and the round trip
  with its serializer. For the journals: the agreement of phase and step, the evidence each step
  requires and how it grows, what a rollback restores, the order of publication and rollback, and the
  confinement of every path to the PKI directory. For the command
  line: the soundness of accepted commands, the agreement of the three route tables, and that
  every command ends with a status. For the locks: mutual exclusion over all interleavings, as the
  refinement of a lock manager; the kernel locks behind a locked section; the bound of an
  acquisition; and the complete release.

  \<^bold>\<open>Modelling choices and bounds.\<close> Every exception is a value of \<open>exn\<close>, a raising function returns a sum.
  Texts are lists of characters with code points below 256; the categories of \<open>unicodedata\<close> are
  written out on that range. Python integers are \<^typ>\<open>int\<close>, without wrap-around; where \<open>int()\<close> refuses
  more than 4300 digits the definitions do too. All loops are structural recursions, so every function is total
  and no fuel is used; a lock acquisition makes at most 146 calls. In the lock system a call is one system
  call or one section under the registry guard, and the environment decides its outcome; a directory
  and the names in it are not replaced while the program runs, and a process forks in the body of
  the \<open>with\<close> statement of the forking thread. SHA-256 is executable; the properties use only that its digests are 64
  hexadecimal digits.

  \<^bold>\<open>Not modelled.\<close> System calls on descriptors (\<open>filesystem.py\<close>, \<open>publication.py\<close> and the modules that
  compose them), subprocesses and cryptography (\<open>openssl\<close>, \<open>ssh-keygen\<close>, \<open>gpg\<close>), HTTP
  (\<open>gitlab_package.py\<close>), and the dynamic checks of argument types, which typed definitions cannot
  violate. The handler modules are listed one by one in the manifest.
\<close>

end
